(* ===== verification/Prelude.thy ===== *)
theory Prelude
  imports Complex_Main "HOL-Library.List_Lexorder" "HOL-Library.Char_ord"
    "HOL-Library.Product_Lexorder" "HOL-Library.Multiset"
begin

text \<open>
  What every component shares: exceptions and results, the control structures of the source
  as total functions on results (a sequence of checks, a loop that may raise), and generic
  lemmas on association lists and stable sorting.  A Python function that may raise is a
  function into \<open>'a res\<close>.
\<close>

section \<open>Exceptions and results\<close>

text \<open>
  The exceptions the modelled code raises.  The text of a \<open>ValueError\<close> is the message of the
  source up to the first interpolated \<open>repr\<close> or list; the interpreter's own texts
  (\<open>TypeError\<close>, \<open>AttributeError\<close>, \<open>OverflowError\<close>) are not kept.  The last three are the
  program's own subclasses of \<open>ValueError\<close>.
\<close>

datatype exn =
    ValueError string
  | KeyError string
  | TypeError
  | AttributeError
  | IndexError
  | OverflowError
  | AssertionError string
  | ApprovalGateError string
  | ArtifactGateError string
  | RevisionArtifactError string

type_synonym 'a res = "exn + 'a"

named_theorems res_simps \<open>equations of the result combinators\<close>
named_theorems ok_intros \<open>rules that show that a computation does not raise\<close>

definition rbind :: "'a res \<Rightarrow> ('a \<Rightarrow> 'b res) \<Rightarrow> 'b res" where
  "rbind r f = (case r of Inl e \<Rightarrow> Inl e | Inr x \<Rightarrow> f x)"

definition require :: "bool \<Rightarrow> exn \<Rightarrow> unit res" where
  "require b e = (if b then Inr () else Inl e)"

text \<open>Consecutive checks of the source: the first one that raises decides.\<close>

fun seq_checks :: "unit res list \<Rightarrow> unit res" where
  "seq_checks [] = Inr ()"
| "seq_checks (c # cs) = (case c of Inl e \<Rightarrow> Inl e | Inr _ \<Rightarrow> seq_checks cs)"

text \<open>\<open>if b: check\<close>.\<close>

definition when_check :: "bool \<Rightarrow> unit res \<Rightarrow> unit res" where
  "when_check b r = (if b then r else Inr ())"

text \<open>\<open>for x in xs: s = f(s, x)\<close>, where the body may raise.\<close>

fun rfold :: "('s \<Rightarrow> 'a \<Rightarrow> 's res) \<Rightarrow> 's \<Rightarrow> 'a list \<Rightarrow> 's res" where
  "rfold f s [] = Inr s"
| "rfold f s (x # xs) = (case f s x of Inl e \<Rightarrow> Inl e | Inr s' \<Rightarrow> rfold f s' xs)"

text \<open>\<open>[f(x) for x in xs]\<close>, where \<open>f\<close> may raise.\<close>

fun rmap :: "('a \<Rightarrow> 'b res) \<Rightarrow> 'a list \<Rightarrow> 'b list res" where
  "rmap f [] = Inr []"
| "rmap f (x # xs) =
     (case f x of Inl e \<Rightarrow> Inl e
      | Inr y \<Rightarrow> (case rmap f xs of Inl e \<Rightarrow> Inl e | Inr ys \<Rightarrow> Inr (y # ys)))"

text \<open>\<open>[x for x in xs if p(x)]\<close>, where \<open>p\<close> may raise.\<close>

fun rfilter :: "('a \<Rightarrow> bool res) \<Rightarrow> 'a list \<Rightarrow> 'a list res" where
  "rfilter p [] = Inr []"
| "rfilter p (x # xs) =
     (case p x of Inl e \<Rightarrow> Inl e
      | Inr b \<Rightarrow> (case rfilter p xs of Inl e \<Rightarrow> Inl e
                 | Inr ys \<Rightarrow> Inr (if b then x # ys else ys)))"

text \<open>\<open>any(p(x) for x in xs)\<close>: stops at the first element that satisfies \<open>p\<close>.\<close>

fun rany :: "('a \<Rightarrow> bool res) \<Rightarrow> 'a list \<Rightarrow> bool res" where
  "rany p [] = Inr False"
| "rany p (x # xs) =
     (case p x of Inl e \<Rightarrow> Inl e | Inr True \<Rightarrow> Inr True | Inr False \<Rightarrow> rany p xs)"

text \<open>
  \<open>xs.sort(key=f)\<close> and \<open>sorted(xs, key=f)\<close>: stable, the keys are computed first and may
  raise.
\<close>

definition rsort_by :: "('a \<Rightarrow> ('k :: linorder) res) \<Rightarrow> 'a list \<Rightarrow> 'a list res" where
  "rsort_by f xs =
     rbind (rmap (\<lambda>x. rbind (f x) (\<lambda>k. Inr (k, x))) xs) (\<lambda>kxs. Inr (map snd (sort_key fst kxs)))"

text \<open>Statements that update one value in turn.\<close>

definition rchain :: "('a \<Rightarrow> 'a res) list \<Rightarrow> 'a \<Rightarrow> 'a res" where
  "rchain fs x = rfold (\<lambda>y f. f y) x fs"

text \<open>A check of every element of a list, with its index (\<open>enumerate\<close>).\<close>

fun check_all_from :: "nat \<Rightarrow> (nat \<Rightarrow> 'a \<Rightarrow> unit res) \<Rightarrow> 'a list \<Rightarrow> unit res" where
  "check_all_from i f [] = Inr ()"
| "check_all_from i f (x # xs) =
     (case f i x of Inl e \<Rightarrow> Inl e | Inr _ \<Rightarrow> check_all_from (Suc i) f xs)"

definition check_all :: "(nat \<Rightarrow> 'a \<Rightarrow> unit res) \<Rightarrow> 'a list \<Rightarrow> unit res" where
  "check_all f xs = check_all_from 0 f xs"

definition ok :: "'a res \<Rightarrow> bool" where
  "ok r = (case r of Inl _ \<Rightarrow> False | Inr _ \<Rightarrow> True)"

subsection \<open>Equations and elimination\<close>

lemma rbind_simps [simp, res_simps]:
  "rbind (Inl e) f = Inl e" "rbind (Inr x) f = f x"
  by (simp_all add: rbind_def)

lemma rbind_Inr_iff [res_simps]: "rbind r f = Inr y \<longleftrightarrow> (\<exists>x. r = Inr x \<and> f x = Inr y)"
  by (cases r) auto

lemma rbind_InrE:
  assumes "rbind r f = Inr y"
  obtains x where "r = Inr x" and "f x = Inr y"
  using assms by (auto simp: rbind_Inr_iff)

lemma require_Inr [simp, res_simps]: "require b e = Inr u \<longleftrightarrow> b"
  by (simp add: require_def)

lemma require_Inl [res_simps]: "require b e = Inl e' \<longleftrightarrow> \<not> b \<and> e' = e"
  by (auto simp: require_def)

lemma require_cases [simp]: "require True e = Inr ()" "require False e = Inl e"
  by (simp_all add: require_def)

lemma when_check_Inr [simp, res_simps]: "when_check b r = Inr u \<longleftrightarrow> (b \<longrightarrow> r = Inr ())"
  by (simp add: when_check_def)

lemma unit_res_cases: "(r :: unit res) = Inr () \<or> (\<exists>e. r = Inl e)"
  by (cases r) auto

lemma seq_checks_Cons [simp]:
  "seq_checks (Inl e # cs) = Inl e" "seq_checks (Inr u # cs) = seq_checks cs"
  by simp_all

lemma seq_checks_Cons_Inr [simp, res_simps]:
  "seq_checks (c # cs) = Inr u \<longleftrightarrow> c = Inr () \<and> seq_checks cs = Inr ()"
  by (cases c) auto

declare seq_checks.simps(2) [simp del]

lemma seq_checks_Inr: "seq_checks cs = Inr u \<longleftrightarrow> (\<forall>c \<in> set cs. c = Inr ())"
  by (induction cs) simp_all

lemma seq_checks_append:
  "seq_checks (cs @ ds) = (case seq_checks cs of Inl e \<Rightarrow> Inl e | Inr _ \<Rightarrow> seq_checks ds)"
  by (induction cs) (auto simp: seq_checks.simps(2) split: sum.splits)

lemma all_less_Suc_split: "(\<forall>i < Suc n. P i) \<longleftrightarrow> P 0 \<and> (\<forall>i < n. P (Suc i))"
  by (auto simp: less_Suc_eq_0_disj)

lemma check_all_from_Inr:
  "check_all_from n f xs = Inr () \<longleftrightarrow> (\<forall>i < length xs. f (n + i) (xs ! i) = Inr ())"
proof (induction xs arbitrary: n)
  case Nil
  then show ?case by simp
next
  case (Cons x xs)
  show ?case
    by (cases "f n x") (simp_all add: Cons.IH all_less_Suc_split)
qed

lemma check_all_Inr [res_simps]:
  "check_all f xs = Inr u \<longleftrightarrow> (\<forall>i < length xs. f i (xs ! i) = Inr ())"
  by (simp add: check_all_def check_all_from_Inr)

lemma check_all_InrD:
  assumes "check_all f xs = Inr u" and "x \<in> set xs"
  obtains i where "f i x = Inr ()"
  using assms by (auto simp: check_all_Inr in_set_conv_nth)

lemma rmap_Inr: "rmap f xs = Inr ys \<longleftrightarrow> list_all2 (\<lambda>x y. f x = Inr y) xs ys"
proof (induction xs arbitrary: ys)
  case Nil
  then show ?case by auto
next
  case (Cons x xs)
  show ?case
    by (cases "f x"; cases "rmap f xs"; cases ys) (auto simp: Cons.IH[symmetric])
qed

lemma rmap_pure [simp]: "rmap (\<lambda>x. Inr (f x)) xs = Inr (map f xs)"
  by (induction xs) auto

lemma rmap_cong_pure: "(\<And>x. x \<in> set xs \<Longrightarrow> f x = Inr (g x)) \<Longrightarrow> rmap f xs = Inr (map g xs)"
  by (induction xs) auto

lemma rfilter_pure [simp]: "rfilter (\<lambda>x. Inr (p x)) xs = Inr (filter p xs)"
  by (induction xs) auto

lemma rfilter_cong_pure:
  "(\<And>x. x \<in> set xs \<Longrightarrow> p x = Inr (q x)) \<Longrightarrow> rfilter p xs = Inr (filter q xs)"
  by (induction xs) auto

lemma rfilter_set: "rfilter p xs = Inr ys \<Longrightarrow> set ys = {x \<in> set xs. p x = Inr True}"
proof (induction xs arbitrary: ys)
  case Nil
  then show ?case by simp
next
  case (Cons x xs)
  from Cons.prems obtain b where b: "p x = Inr b" by (cases "p x") auto
  with Cons.prems obtain zs where zs: "rfilter p xs = Inr zs" by (cases "rfilter p xs") auto
  have "ys = (if b then x # zs else zs)" using Cons.prems b zs by simp
  moreover have "set zs = {y \<in> set xs. p y = Inr True}" by (rule Cons.IH[OF zs])
  moreover have "{y \<in> set (x # xs). p y = Inr True} =
      (if b then {x} else {}) \<union> {y \<in> set xs. p y = Inr True}"
    by (simp add: set_eq_iff b) (metis b Inr_inject)
  ultimately show ?case by (simp split: if_splits)
qed

lemma rany_cong_pure:
  "(\<And>x. x \<in> set xs \<Longrightarrow> p x = Inr (q x)) \<Longrightarrow> rany p xs = Inr (\<exists>x \<in> set xs. q x)"
proof (induction xs)
  case Nil
  then show ?case by simp
next
  case (Cons x xs)
  have "p x = Inr (q x)" by (rule Cons.prems) simp
  moreover have "rany p xs = Inr (\<exists>x \<in> set xs. q x)" by (rule Cons.IH) (simp add: Cons.prems)
  ultimately show ?case by (cases "q x") simp_all
qed

lemma rfold_invariant:
  assumes "rfold f s xs = Inr t" and "I s"
    and "\<And>s x s'. I s \<Longrightarrow> x \<in> set xs \<Longrightarrow> f s x = Inr s' \<Longrightarrow> I s'"
  shows "I t"
  using assms
proof (induction xs arbitrary: s)
  case Nil
  then show ?case by simp
next
  case (Cons x xs)
  from Cons.prems(1) obtain s' where s': "f s x = Inr s'" "rfold f s' xs = Inr t"
    by (cases "f s x") simp_all
  have "I s'" by (rule Cons.prems(3)[OF Cons.prems(2) _ s'(1)]) simp
  then show ?case by (rule Cons.IH[OF s'(2)]) (rule Cons.prems(3); simp)
qed

subsection \<open>Computations that do not raise\<close>

lemma ok_iff: "ok r \<longleftrightarrow> (\<exists>x. r = Inr x)"
  by (cases r) (auto simp: ok_def)

lemma ok_simps [simp]: "ok (Inr x)" "\<not> ok (Inl e)"
  by (simp_all add: ok_def)

lemma okE:
  assumes "ok r"
  obtains x where "r = Inr x"
  using assms by (auto simp: ok_iff)

lemma ok_rbind [ok_intros]: "ok r \<Longrightarrow> (\<And>x. r = Inr x \<Longrightarrow> ok (f x)) \<Longrightarrow> ok (rbind r f)"
  by (auto simp: ok_iff)

lemma ok_if [ok_intros]: "(b \<Longrightarrow> ok r) \<Longrightarrow> (\<not> b \<Longrightarrow> ok s) \<Longrightarrow> ok (if b then r else s)"
  by simp

lemma ok_rmap [ok_intros]: "(\<And>x. x \<in> set xs \<Longrightarrow> ok (f x)) \<Longrightarrow> ok (rmap f xs)"
proof (induction xs)
  case Nil
  then show ?case by simp
next
  case (Cons x xs)
  have "ok (f x)" "ok (rmap f xs)" using Cons by simp_all
  then show ?case by (auto elim!: okE)
qed

lemma ok_rfilter [ok_intros]: "(\<And>x. x \<in> set xs \<Longrightarrow> ok (p x)) \<Longrightarrow> ok (rfilter p xs)"
proof (induction xs)
  case Nil
  then show ?case by simp
next
  case (Cons x xs)
  have "ok (p x)" "ok (rfilter p xs)" using Cons by simp_all
  then show ?case by (auto elim!: okE)
qed

lemma ok_rany [ok_intros]: "(\<And>x. x \<in> set xs \<Longrightarrow> ok (p x)) \<Longrightarrow> ok (rany p xs)"
proof (induction xs)
  case Nil
  then show ?case by simp
next
  case (Cons x xs)
  have "ok (p x)" "ok (rany p xs)" using Cons by simp_all
  then show ?case by (auto elim!: okE split: bool.splits)
qed

lemma ok_rfold [ok_intros]: "(\<And>s x. x \<in> set xs \<Longrightarrow> ok (f s x)) \<Longrightarrow> ok (rfold f s xs)"
proof (induction xs arbitrary: s)
  case Nil
  then show ?case by simp
next
  case (Cons x xs)
  have "ok (f s x)" by (rule Cons.prems) simp
  then obtain s' where "f s x = Inr s'" by (rule okE)
  moreover have "ok (rfold f s' xs)" by (rule Cons.IH) (simp add: Cons.prems)
  ultimately show ?case by simp
qed

subsection \<open>What every result satisfies\<close>

text \<open>Whatever the computation returns satisfies \<open>P\<close>; raising is allowed.\<close>

definition yields :: "('a \<Rightarrow> bool) \<Rightarrow> 'a res \<Rightarrow> bool" where
  "yields P r \<longleftrightarrow> (case r of Inl _ \<Rightarrow> True | Inr x \<Rightarrow> P x)"

named_theorems yields_intros \<open>rules for what a computation returns\<close>

lemma yieldsD: "yields P r \<Longrightarrow> r = Inr x \<Longrightarrow> P x"
  by (simp add: yields_def)

lemma yields_Inl [simp, yields_intros]: "yields P (Inl e)"
  by (simp add: yields_def)

lemma yields_Inr [simp]: "yields P (Inr x) \<longleftrightarrow> P x"
  by (simp add: yields_def)

lemma yields_rbind [yields_intros]:
  "(\<And>x. r = Inr x \<Longrightarrow> yields P (f x)) \<Longrightarrow> yields P (rbind r f)"
  by (cases r) simp_all

lemma yields_if [yields_intros]:
  "(b \<Longrightarrow> yields P r) \<Longrightarrow> (\<not> b \<Longrightarrow> yields P s) \<Longrightarrow> yields P (if b then r else s)"
  by simp

section \<open>Association lists and sorting\<close>

lemma map_of_sort_key_fst:
  assumes "distinct (map fst d)"
  shows "map_of (sort_key fst d) = map_of d"
proof (rule map_of_inject_set[THEN iffD2])
  show "distinct (map fst (sort_key fst d))"
    using assms by (metis distinct_map distinct_sort set_sort)
  show "distinct (map fst d)" by (rule assms)
  show "set (sort_key fst d) = set d" by simp
qed

lemma insort_key_fst_map:
  "insort_key fst (k x, x) (map (\<lambda>y. (k y, y)) xs) = map (\<lambda>y. (k y, y)) (insort_key k x xs)"
  by (induction xs) auto

lemma sort_key_decorated:
  "map snd (sort_key fst (map (\<lambda>x. (k x, x)) xs)) = sort_key k xs"
proof -
  have "sort_key fst (map (\<lambda>x. (k x, x)) xs) = map (\<lambda>x. (k x, x)) (sort_key k xs)"
    by (induction xs) (simp_all add: insort_key_fst_map)
  then show ?thesis by (simp add: comp_def)
qed

lemma rsort_by_pure:
  assumes "\<And>x. x \<in> set xs \<Longrightarrow> f x = Inr (k x)"
  shows "rsort_by f xs = Inr (sort_key k xs)"
proof -
  have "rmap (\<lambda>x. rbind (f x) (\<lambda>k. Inr (k, x))) xs = Inr (map (\<lambda>x. (k x, x)) xs)"
    by (rule rmap_cong_pure) (simp add: assms)
  then show ?thesis by (simp add: rsort_by_def sort_key_decorated)
qed

lemma ok_rsort_by [ok_intros]: "(\<And>x. x \<in> set xs \<Longrightarrow> ok (f x)) \<Longrightarrow> ok (rsort_by f xs)"
  by (auto simp: rsort_by_def intro!: ok_intros)

text \<open>A key that raises on no member is a total key.\<close>

lemma rsort_by_Inr:
  assumes "rsort_by f xs = Inr ys"
  shows "\<exists>k. (\<forall>x \<in> set xs. f x = Inr (k x)) \<and> ys = sort_key k xs"
proof -
  let ?k = "\<lambda>x. projr (f x)"
  from assms obtain kxs where kxs: "rmap (\<lambda>x. rbind (f x) (\<lambda>k. Inr (k, x))) xs = Inr kxs"
    by (auto simp: rsort_by_def rbind_Inr_iff)
  have f: "f x = Inr (?k x)" if "x \<in> set xs" for x
  proof -
    from that obtain i where i: "i < length xs" "x = xs ! i" by (auto simp: in_set_conv_nth)
    from kxs have "list_all2 (\<lambda>x y. rbind (f x) (\<lambda>k. Inr (k, x)) = Inr y) xs kxs"
      by (simp add: rmap_Inr)
    then have "rbind (f x) (\<lambda>k. Inr (k, x)) = Inr (kxs ! i)"
      using i by (simp add: list_all2_conv_all_nth)
    then show ?thesis by (auto simp: rbind_Inr_iff)
  qed
  then have "rsort_by f xs = Inr (sort_key ?k xs)" by (rule rsort_by_pure)
  with assms f show ?thesis by (intro exI[of _ ?k]) simp
qed

lemma rchain_simps [simp]:
  "rchain [] x = Inr x" "rchain (f # fs) x = rbind (f x) (rchain fs)"
  by (auto simp: rchain_def rbind_def split: sum.splits)

text \<open>
  Sorting by a key that separates the members forgets the order of the input: the reason why
  the canonical projections of the source are canonical.
\<close>

lemma sort_key_perm_eq:
  assumes "mset xs = mset ys" and "inj_on k (set xs)"
  shows "sort_key k xs = sort_key k ys"
proof -
  have inj: "inj_on k (set (sort_key k ys))"
    using assms by (metis set_mset_mset set_sort)
  show ?thesis
  proof (rule properties_for_sort_key)
    show "mset (sort_key k ys) = mset xs" using assms(1) by simp
    show "sorted (map k (sort_key k ys))" by simp
    fix x
    assume "x \<in> set (sort_key k ys)"
    have *: "filter (\<lambda>y. k y = k x) zs = filter (\<lambda>y. y = x) zs"
      if "set zs = set xs" "x \<in> set xs" for zs
      using that assms(2) by (intro filter_cong) (auto dest: inj_onD)
    have sets: "set (sort_key k ys) = set xs" using assms(1) by (metis set_mset_mset set_sort)
    have "x \<in> set xs" using \<open>x \<in> set (sort_key k ys)\<close> sets by simp
    moreover have "filter (\<lambda>y. y = x) zs = replicate (count (mset zs) x) x" for zs
      by (induction zs) auto
    ultimately show "filter (\<lambda>y. k x = k y) (sort_key k ys) = filter (\<lambda>y. k x = k y) xs"
      using * [of xs] * [OF sets] assms(1) by (simp add: eq_commute[of "k x"])
  qed
qed

lemma rsort_by_perm:
  assumes "rsort_by f xs = Inr zs" and "mset xs = mset ys"
    and "\<And>x y. x \<in> set xs \<Longrightarrow> y \<in> set xs \<Longrightarrow> f x = f y \<Longrightarrow> x = y"
  shows "rsort_by f ys = Inr zs"
proof -
  obtain k where k: "\<forall>x \<in> set xs. f x = Inr (k x)" and zs: "zs = sort_key k xs"
    using rsort_by_Inr[OF assms(1)] by blast
  have sets: "set ys = set xs" using assms(2) by (metis set_mset_mset)
  have "inj_on k (set xs)" using assms(3) k by (auto simp: inj_on_def)
  with assms(2) zs have "zs = sort_key k ys" using sort_key_perm_eq by blast
  moreover have "rsort_by f ys = Inr (sort_key k ys)" by (rule rsort_by_pure) (simp add: k sets)
  ultimately show ?thesis by simp
qed

end
