(* ===== verification/Py_Text.thy ===== *)
theory Py_Text
  imports Prelude
begin

text \<open>
  Python text.  A \<open>str\<close> is the list of the bytes of its UTF-8 encoding: concatenation and
  equality are those of the source, and since UTF-8 keeps the order of code points, so are
  comparisons and \<open>sorted\<close>.  White space is the white space of \<open>str.isspace\<close>, also
  where a character has several bytes.
\<close>

section \<open>Binary floats\<close>

text \<open>
  \<open>FFin q\<close> is the finite float whose value is \<open>q\<close>; the negative zero, equal to zero and
  printed otherwise, has a constructor of its own.
\<close>

datatype pyfloat = FFin rat | FNegZero | FInf | FNegInf | FNaN

section \<open>White space, strip, split and join\<close>

definition ws1 :: "char \<Rightarrow> bool" where
  "ws1 a \<longleftrightarrow> a \<in> set [CHR 0x20, CHR 0x09, CHR 0x0A, CHR 0x0B, CHR 0x0C, CHR 0x0D,
                      CHR 0x1C, CHR 0x1D, CHR 0x1E, CHR 0x1F]"

definition ws2 :: "char \<Rightarrow> char \<Rightarrow> bool" where
  "ws2 a b \<longleftrightarrow> a = CHR 0xC2 \<and> b \<in> set [CHR 0x85, CHR 0xA0]"

definition ws3 :: "char \<Rightarrow> char \<Rightarrow> char \<Rightarrow> bool" where
  "ws3 a b c \<longleftrightarrow>
     a = CHR 0xE1 \<and> b = CHR 0x9A \<and> c = CHR 0x80
   \<or> a = CHR 0xE2 \<and> b = CHR 0x80 \<and>
       c \<in> set [CHR 0x80, CHR 0x81, CHR 0x82, CHR 0x83, CHR 0x84, CHR 0x85, CHR 0x86,
                CHR 0x87, CHR 0x88, CHR 0x89, CHR 0x8A, CHR 0xA8, CHR 0xA9, CHR 0xAF]
   \<or> a = CHR 0xE2 \<and> b = CHR 0x81 \<and> c = CHR 0x9F
   \<or> a = CHR 0xE3 \<and> b = CHR 0x80 \<and> c = CHR 0x80"

text \<open>The number of bytes of the white-space character a text starts with, or 0.\<close>

fun ws_len :: "string \<Rightarrow> nat" where
  "ws_len [] = 0"
| "ws_len [a] = (if ws1 a then 1 else 0)"
| "ws_len [a, b] = (if ws1 a then 1 else if ws2 a b then 2 else 0)"
| "ws_len (a # b # c # s) =
     (if ws1 a then 1 else if ws2 a b then 2 else if ws3 a b c then 3 else 0)"

fun lstrip :: "string \<Rightarrow> string" where
  "lstrip [] = []"
| "lstrip (a # s) =
     (case ws_len (a # s) of 0 \<Rightarrow> a # s | Suc n \<Rightarrow> lstrip (drop n s))"

text \<open>\<open>not value.strip()\<close>: nothing is left, so nothing but white space was there.\<close>

definition is_blank :: "string \<Rightarrow> bool" where
  "is_blank s \<longleftrightarrow> lstrip s = []"

text \<open>\<open>value.split()\<close>: the maximal runs without white space; \<open>w\<close> is the run read so far.\<close>

fun split_ws :: "string \<Rightarrow> string \<Rightarrow> string list" where
  "split_ws w [] = (if w = [] then [] else [rev w])"
| "split_ws w (a # s) =
     (case ws_len (a # s) of
        0 \<Rightarrow> split_ws (a # w) s
      | Suc n \<Rightarrow> (if w = [] then split_ws [] (drop n s)
                  else rev w # split_ws [] (drop n s)))"

definition py_split :: "string \<Rightarrow> string list" where
  "py_split s = split_ws [] s"

fun join_with :: "string \<Rightarrow> string list \<Rightarrow> string" where
  "join_with sep [] = []"
| "join_with sep [x] = x"
| "join_with sep (x # y # ys) = x @ sep @ join_with sep (y # ys)"

text \<open>\<open>path.split(sep)\<close> for a one-byte separator.\<close>

fun split_char :: "char \<Rightarrow> string \<Rightarrow> string list" where
  "split_char d [] = [[]]"
| "split_char d (a # s) =
     (if a = d then [] # split_char d s
      else (case split_char d s of [] \<Rightarrow> [[a]] | p # ps \<Rightarrow> (a # p) # ps))"

text \<open>\<open>len(s)\<close> counts code points: every byte but the continuation bytes.\<close>

definition utf8_continuation :: "char \<Rightarrow> bool" where
  "utf8_continuation a \<longleftrightarrow> CHR 0x80 \<le> a \<and> a \<le> CHR 0xBF"

definition py_len :: "string \<Rightarrow> nat" where
  "py_len s = length (filter (\<lambda>a. \<not> utf8_continuation a) s)"

section \<open>Digits\<close>

definition is_digit :: "char \<Rightarrow> bool" where
  "is_digit a \<longleftrightarrow> CHR ''0'' \<le> a \<and> a \<le> CHR ''9''"

definition is_lower_hex_char :: "char \<Rightarrow> bool" where
  "is_lower_hex_char a \<longleftrightarrow> a \<in> set ''0123456789abcdef''"

definition digit_val :: "char \<Rightarrow> nat" where
  "digit_val a = of_char a - 48"

definition digits_val :: "string \<Rightarrow> nat" where
  "digits_val s = foldl (\<lambda>n a. 10 * n + digit_val a) 0 s"

definition digit_char :: "nat \<Rightarrow> char" where
  "digit_char n = char_of (48 + n)"

fun show_nat :: "nat \<Rightarrow> string" where
  "show_nat n = (if n < 10 then [digit_char n] else show_nat (n div 10) @ [digit_char (n mod 10)])"

declare show_nat.simps [simp del]

definition show_int :: "int \<Rightarrow> string" where
  "show_int i = (if i < 0 then ''-'' @ show_nat (nat (- i)) else show_nat (nat i))"

section \<open>Lemmas\<close>

lemma ws_len_le: "ws_len s \<le> length s"
  by (induction s rule: ws_len.induct) auto

lemma is_blank_Nil [simp]: "is_blank []"
  by (simp add: is_blank_def)

lemma not_blank_nonempty: "\<not> is_blank s \<Longrightarrow> s \<noteq> []"
  by auto

lemma lstrip_idem [simp]: "lstrip (lstrip s) = lstrip s"
  by (induction s rule: lstrip.induct) (auto split: nat.splits)

text \<open>A text without white space is one word.\<close>

definition no_ws :: "string \<Rightarrow> bool" where
  "no_ws s \<longleftrightarrow> (\<forall>i < length s. ws_len (drop i s) = 0)"

lemma no_ws_Cons: "no_ws (a # s) \<longleftrightarrow> ws_len (a # s) = 0 \<and> no_ws s"
  by (auto simp: no_ws_def all_less_Suc_split)

lemma split_ws_no_ws: "no_ws s \<Longrightarrow> split_ws w s = (if w = [] \<and> s = [] then [] else [rev w @ s])"
  by (induction s arbitrary: w) (auto simp: no_ws_Cons)

lemma py_split_no_ws: "no_ws s \<Longrightarrow> s \<noteq> [] \<Longrightarrow> py_split s = [s]"
  by (simp add: py_split_def split_ws_no_ws)

lemma is_digit_iff: "is_digit a \<longleftrightarrow> 48 \<le> (of_char a :: nat) \<and> (of_char a :: nat) \<le> 57"
  by (simp add: is_digit_def less_eq_char_def)

lemma is_digit_digit_char [simp]: "n < 10 \<Longrightarrow> is_digit (digit_char n)"
  by (simp add: is_digit_iff digit_char_def)

lemma digit_val_digit_char [simp]: "n < 10 \<Longrightarrow> digit_val (digit_char n) = n"
  by (simp add: digit_val_def digit_char_def)

lemma digit_char_digit_val [simp]: "is_digit a \<Longrightarrow> digit_char (digit_val a) = a"
  by (simp add: is_digit_iff digit_char_def digit_val_def)

lemma digits_val_snoc [simp]: "digits_val (s @ [a]) = 10 * digits_val s + digit_val a"
  by (simp add: digits_val_def)

lemma digits_val_show_nat [simp]: "digits_val (show_nat n) = n"
proof (induction n rule: show_nat.induct)
  case (1 n)
  show ?case
  proof (cases "n < 10")
    case True
    then show ?thesis by (simp add: show_nat.simps[of n] digits_val_def)
  next
    case False
    with 1 show ?thesis by (simp add: show_nat.simps[of n])
  qed
qed

lemma show_nat_inject [simp]: "show_nat m = show_nat n \<longleftrightarrow> m = n"
  by (metis digits_val_show_nat)

lemma show_nat_digits: "a \<in> set (show_nat n) \<Longrightarrow> is_digit a"
proof (induction n rule: show_nat.induct)
  case (1 n)
  then show ?case by (subst (asm) show_nat.simps) (auto split: if_splits)
qed

lemma show_nat_nonempty [simp]: "show_nat n \<noteq> []"
  by (subst show_nat.simps) simp

lemma minus_not_digit [simp]: "\<not> is_digit CHR ''-''"
  by (simp add: is_digit_def less_eq_char_def)

lemma hd_show_nat: "hd (show_nat n) \<noteq> CHR ''-''"
  by (metis hd_in_set minus_not_digit show_nat_digits show_nat_nonempty)

lemma show_int_inject [simp]: "show_int i = show_int j \<longleftrightarrow> i = j"
proof
  have *: "CHR ''-'' # s \<noteq> show_nat n" for s n
    using hd_show_nat[of n] by (metis list.sel(1))
  assume "show_int i = show_int j"
  then show "i = j"
    using * *[symmetric] by (auto simp: show_int_def split: if_splits)
qed simp

lemma show_int_nonempty [simp]: "show_int i \<noteq> []"
  by (simp add: show_int_def)

lemma show_int_chars: "a \<in> set (show_int i) \<Longrightarrow> is_digit a \<or> a = CHR ''-''"
  by (auto simp: show_int_def dest: show_nat_digits split: if_splits)

lemma split_char_nonempty [simp]: "split_char d s \<noteq> []"
  by (cases s) (auto split: list.splits)

lemma join_split_char: "join_with [d] (split_char d s) = s"
proof (induction s)
  case Nil
  then show ?case by simp
next
  case (Cons a s)
  obtain p ps where ps: "split_char d s = p # ps" by (cases "split_char d s") auto
  with Cons show ?case by (cases ps) auto
qed

end
