(* ===== verification/Json_Value.thy ===== *)
theory Json_Value
  imports Py_Text
begin

text \<open>
  The values the program handles: JSON as \<open>json.loads\<close> builds it.  A \<open>dict\<close> is the list
  of its items in insertion order, with distinct keys (\<open>wf_json\<close>).  The accesses of the
  source are here once: \<open>d[k]\<close> (\<open>ditem\<close>, raises), \<open>d.get(k)\<close> (\<open>dget\<close>),
  \<open>k in d\<close> (\<open>dhas\<close>), \<open>d[k] = v\<close> (\<open>dset\<close>), \<open>d.pop(k, None)\<close> (\<open>dpop\<close>), the loop
  over any iterable (\<open>iter\<close>), \<open>==\<close> (\<open>py_eq\<close>) and truth (\<open>truthy\<close>).
\<close>

section \<open>Values\<close>

datatype json =
    JNull
  | JBool bool
  | JInt int
  | JFloat pyfloat
  | JStr string
  | JList "json list"
  | JDict "(string \<times> json) list"

type_synonym dict = "(string \<times> json) list"

text \<open>
  What depends on the Unicode character database (NFKC normalisation, case folding, lower case,
  the ASCII form \<open>int\<close> gives the decimal digits and the white space of a text), the shortest
  decimal representation of a binary float and the float nearest to a decimal text, and the
  \<open>repr\<close> of a container (or of a dictionary of tuples) are tables and algorithms of the
  interpreter: parameters of the model.
\<close>

record runtime =
  rt_nfkc :: "string \<Rightarrow> string"
  rt_casefold :: "string \<Rightarrow> string"
  rt_float_repr :: "pyfloat \<Rightarrow> string"
  rt_container_repr :: "json \<Rightarrow> string"
  rt_tuples_repr :: "(string \<times> json list) list \<Rightarrow> string"
  rt_float_of_text :: "string \<Rightarrow> pyfloat"
  rt_lower :: "string \<Rightarrow> string"
  rt_decimal_ascii :: "string \<Rightarrow> string"

text \<open>\<open>str(value)\<close>.\<close>

fun py_str :: "runtime \<Rightarrow> json \<Rightarrow> string" where
  "py_str R JNull = ''None''"
| "py_str R (JBool b) = (if b then ''True'' else ''False'')"
| "py_str R (JInt i) = show_int i"
| "py_str R (JFloat f) = rt_float_repr R f"
| "py_str R (JStr s) = s"
| "py_str R v = rt_container_repr R v"

fun is_str :: "json \<Rightarrow> bool" where
  "is_str (JStr _) = True"
| "is_str _ = False"

fun is_dict :: "json \<Rightarrow> bool" where
  "is_dict (JDict _) = True"
| "is_dict _ = False"

fun is_list :: "json \<Rightarrow> bool" where
  "is_list (JList _) = True"
| "is_list _ = False"

fun is_bool :: "json \<Rightarrow> bool" where
  "is_bool (JBool _) = True"
| "is_bool _ = False"

text \<open>The text, members and items of a value that has them.\<close>

fun str_of :: "json \<Rightarrow> string" where
  "str_of (JStr s) = s"
| "str_of _ = []"

fun list_of :: "json \<Rightarrow> json list" where
  "list_of (JList xs) = xs"
| "list_of _ = []"

fun dict_of :: "json \<Rightarrow> dict" where
  "dict_of (JDict d) = d"
| "dict_of _ = []"

text \<open>\<open>isinstance(value, str) and value.strip()\<close>.\<close>

fun nonblank_str :: "json \<Rightarrow> bool" where
  "nonblank_str (JStr s) = (\<not> is_blank s)"
| "nonblank_str _ = False"

text \<open>\<open>isinstance(value, str) and value in allowed\<close>.\<close>

fun str_in :: "json \<Rightarrow> string list \<Rightarrow> bool" where
  "str_in (JStr s) allowed = (s \<in> set allowed)"
| "str_in _ allowed = False"

text \<open>
  \<open>value in {...}\<close> for a set of texts: a list or a dict is unhashable and raises.
\<close>

fun hash_in :: "json \<Rightarrow> string list \<Rightarrow> bool res" where
  "hash_in (JList _) allowed = Inl TypeError"
| "hash_in (JDict _) allowed = Inl TypeError"
| "hash_in v allowed = Inr (str_in v allowed)"

fun truthy :: "json \<Rightarrow> bool" where
  "truthy JNull = False"
| "truthy (JBool b) = b"
| "truthy (JInt i) = (i \<noteq> 0)"
| "truthy (JFloat f) = (f \<noteq> FFin 0 \<and> f \<noteq> FNegZero)"
| "truthy (JStr s) = (s \<noteq> [])"
| "truthy (JList xs) = (xs \<noteq> [])"
| "truthy (JDict d) = (d \<noteq> [])"

section \<open>Dictionaries\<close>

definition dhas :: "string \<Rightarrow> dict \<Rightarrow> bool" where
  "dhas k d \<longleftrightarrow> k \<in> set (map fst d)"

definition dget_or :: "string \<Rightarrow> json \<Rightarrow> dict \<Rightarrow> json" where
  "dget_or k v d = (case map_of d k of None \<Rightarrow> v | Some w \<Rightarrow> w)"

definition dget :: "string \<Rightarrow> dict \<Rightarrow> json" where
  "dget k d = dget_or k JNull d"

definition ditem :: "string \<Rightarrow> dict \<Rightarrow> json res" where
  "ditem k d = (case map_of d k of None \<Rightarrow> Inl (KeyError k) | Some v \<Rightarrow> Inr v)"

fun dset :: "string \<Rightarrow> json \<Rightarrow> dict \<Rightarrow> dict" where
  "dset k v [] = [(k, v)]"
| "dset k v ((k', w) # d) = (if k' = k then (k', v) # d else (k', w) # dset k v d)"

definition dpop :: "string \<Rightarrow> dict \<Rightarrow> dict" where
  "dpop k d = filter (\<lambda>kv. fst kv \<noteq> k) d"

text \<open>\<open>set(d) == {...}\<close> and \<open>required - set(d)\<close>.\<close>

definition keys_exactly :: "string list \<Rightarrow> dict \<Rightarrow> bool" where
  "keys_exactly ks d \<longleftrightarrow> list_all (\<lambda>k. dhas k d) ks \<and> list_all (\<lambda>kv. fst kv \<in> set ks) d"

definition has_keys :: "string list \<Rightarrow> dict \<Rightarrow> bool" where
  "has_keys ks d \<longleftrightarrow> list_all (\<lambda>k. dhas k d) ks"

text \<open>Access to a value that should be a dictionary: \<open>v.get\<close> raises on anything else.\<close>

fun as_dict :: "json \<Rightarrow> dict res" where
  "as_dict (JDict d) = Inr d"
| "as_dict _ = Inl AttributeError"

text \<open>\<open>v[k]\<close> with a text \<open>k\<close>: only a dictionary can be subscripted with a text.\<close>

fun item :: "string \<Rightarrow> json \<Rightarrow> json res" where
  "item k (JDict d) = ditem k d"
| "item k _ = Inl TypeError"

text \<open>The characters of a text (the members of a loop over it).\<close>

fun utf8_chars :: "string \<Rightarrow> string list" where
  "utf8_chars [] = []"
| "utf8_chars (a # s) =
     (case utf8_chars s of
        [] \<Rightarrow> [[a]]
      | p # ps \<Rightarrow> (case p of
           b # _ \<Rightarrow> (if utf8_continuation b then (a # p) # ps else [a] # p # ps)
         | [] \<Rightarrow> [a] # ps))"

text \<open>\<open>for x in v\<close>: a list, the keys of a dictionary, the characters of a text; else raises.\<close>

fun iter :: "json \<Rightarrow> json list res" where
  "iter (JList xs) = Inr xs"
| "iter (JDict d) = Inr (map (\<lambda>kv. JStr (fst kv)) d)"
| "iter (JStr s) = Inr (map JStr (utf8_chars s))"
| "iter _ = Inl TypeError"

section \<open>Numbers and equality\<close>

text \<open>\<open>True == 1 == 1.0\<close>: equal values of the three number types.\<close>

datatype py_num = NFin rat | NPosInf | NNegInf

fun num_value :: "json \<Rightarrow> py_num option" where
  "num_value (JBool b) = Some (NFin (if b then 1 else 0))"
| "num_value (JInt i) = Some (NFin (of_int i))"
| "num_value (JFloat (FFin q)) = Some (NFin q)"
| "num_value (JFloat FNegZero) = Some (NFin 0)"
| "num_value (JFloat FInf) = Some NPosInf"
| "num_value (JFloat FNegInf) = Some NNegInf"
| "num_value _ = None"

fun py_eq :: "json \<Rightarrow> json \<Rightarrow> bool"
  and py_eq_list :: "json list \<Rightarrow> json list \<Rightarrow> bool"
  and py_eq_items :: "dict \<Rightarrow> dict \<Rightarrow> bool" where
  "py_eq JNull w = (w = JNull)"
| "py_eq (JStr s) w = (w = JStr s)"
| "py_eq (JList xs) w = (case w of JList ys \<Rightarrow> py_eq_list xs ys | _ \<Rightarrow> False)"
| "py_eq (JDict d) w =
     (case w of JDict e \<Rightarrow> length d = length e \<and> py_eq_items d e | _ \<Rightarrow> False)"
| "py_eq v w = (case num_value v of None \<Rightarrow> False | Some n \<Rightarrow> num_value w = Some n)"
| "py_eq_list [] ys = (ys = [])"
| "py_eq_list (x # xs) ys =
     (case ys of [] \<Rightarrow> False | y # ys' \<Rightarrow> py_eq x y \<and> py_eq_list xs ys')"
| "py_eq_items [] e = True"
| "py_eq_items ((k, v) # d) e =
     (case map_of e k of None \<Rightarrow> False | Some w \<Rightarrow> py_eq v w \<and> py_eq_items d e)"

text \<open>
  \<open>isinstance(value, (int, float)) and not isinstance(value, bool)\<close>, and
  \<open>math.isfinite\<close>, which raises when an integer is too large for a float.
\<close>

fun is_number :: "json \<Rightarrow> bool" where
  "is_number (JInt _) = True"
| "is_number (JFloat _) = True"
| "is_number _ = False"

definition float_overflow_bound :: int where
  "float_overflow_bound = 2 ^ 1024 - 2 ^ 970"

fun is_finite :: "json \<Rightarrow> bool res" where
  "is_finite (JInt i) = (if \<bar>i\<bar> < float_overflow_bound then Inr True else Inl OverflowError)"
| "is_finite (JFloat f) = Inr (case f of FFin _ \<Rightarrow> True | FNegZero \<Rightarrow> True | _ \<Rightarrow> False)"
| "is_finite _ = Inl TypeError"

text \<open>Evaluation need not compute the bound for a small integer.\<close>

lemma is_finite_small [code]:
  "is_finite (JInt i) =
     (if \<bar>i\<bar> < 1000000000000 then Inr True
      else if \<bar>i\<bar> < float_overflow_bound then Inr True else Inl OverflowError)"
proof -
  have "(1000000000000 :: int) < float_overflow_bound"
    by (simp add: float_overflow_bound_def)
  then show ?thesis by simp
qed

text \<open>\<open>isinstance(v, bool) or not isinstance(v, (int, float)) or not math.isfinite(v)\<close>.\<close>

definition finite_number :: "json \<Rightarrow> bool res" where
  "finite_number v = (if is_number v then is_finite v else Inr False)"

fun rat_of :: "json \<Rightarrow> rat" where
  "rat_of (JInt i) = of_int i"
| "rat_of (JFloat (FFin q)) = q"
| "rat_of _ = 0"

section \<open>Well-formed values\<close>

fun wf_json :: "json \<Rightarrow> bool"
  and wf_list :: "json list \<Rightarrow> bool"
  and wf_items :: "dict \<Rightarrow> bool" where
  "wf_json (JList xs) = wf_list xs"
| "wf_json (JDict d) = (distinct (map fst d) \<and> wf_items d)"
| "wf_json _ = True"
| "wf_list [] = True"
| "wf_list (x # xs) = (wf_json x \<and> wf_list xs)"
| "wf_items [] = True"
| "wf_items ((k, v) # d) = (wf_json v \<and> wf_items d)"

text \<open>No infinity and no NaN anywhere: what \<open>allow_nan=False\<close> asks of a value.\<close>

fun json_finite :: "json \<Rightarrow> bool"
  and finite_list :: "json list \<Rightarrow> bool"
  and finite_items :: "dict \<Rightarrow> bool" where
  "json_finite (JFloat f) = (case f of FFin _ \<Rightarrow> True | FNegZero \<Rightarrow> True | _ \<Rightarrow> False)"
| "json_finite (JList xs) = finite_list xs"
| "json_finite (JDict d) = finite_items d"
| "json_finite _ = True"
| "finite_list [] = True"
| "finite_list (x # xs) = (json_finite x \<and> finite_list xs)"
| "finite_items [] = True"
| "finite_items ((k, v) # d) = (json_finite v \<and> finite_items d)"

section \<open>Lemmas\<close>

named_theorems dict_simps \<open>equations of the dictionary operations\<close>

lemma dhas_iff [dict_simps]: "dhas k d \<longleftrightarrow> map_of d k \<noteq> None"
  by (force simp: dhas_def map_of_eq_None_iff)

lemma ditem_Inr [dict_simps]: "ditem k d = Inr v \<longleftrightarrow> map_of d k = Some v"
  by (auto simp: ditem_def split: option.splits)

lemma ok_ditem [ok_intros]: "dhas k d \<Longrightarrow> ok (ditem k d)"
  by (auto simp: dhas_iff ditem_def)

lemma ditem_dget: "ditem k d = Inr v \<Longrightarrow> dget k d = v"
  by (auto simp: ditem_def dget_def dget_or_def split: option.splits)

lemma dhas_ditem: "dhas k d \<Longrightarrow> ditem k d = Inr (dget k d)"
  by (auto simp: dhas_iff ditem_def dget_def dget_or_def)

lemma dget_nonnull_dhas: "dget k d \<noteq> JNull \<Longrightarrow> dhas k d"
  by (auto simp: dhas_iff dget_def dget_or_def split: option.splits)

lemma not_dhas_dget: "\<not> dhas k d \<Longrightarrow> dget k d = JNull"
  by (auto simp: dhas_iff dget_def dget_or_def split: option.splits)

lemma dget_or_dget: "dget_or k v d = (if dhas k d then dget k d else v)"
  by (auto simp: dhas_iff dget_def dget_or_def)

lemma map_of_dset [simp, dict_simps]: "map_of (dset k v d) = (map_of d)(k \<mapsto> v)"
  by (induction k v d rule: dset.induct) auto

lemma map_of_dpop [simp, dict_simps]: "map_of (dpop k d) = (map_of d)(k := None)"
  by (induction d) (auto simp: dpop_def fun_eq_iff)

lemma dget_dset [simp]: "dget k (dset k' v d) = (if k = k' then v else dget k d)"
  by (simp add: dget_def dget_or_def)

lemma dget_dpop [simp]: "dget k (dpop k' d) = (if k = k' then JNull else dget k d)"
  by (simp add: dget_def dget_or_def)

lemma dhas_dset [simp]: "dhas k (dset k' v d) \<longleftrightarrow> k = k' \<or> dhas k d"
  by (simp add: dhas_iff)

lemma dhas_dpop [simp]: "dhas k (dpop k' d) \<longleftrightarrow> k \<noteq> k' \<and> dhas k d"
  by (simp add: dhas_iff)

lemma ditem_dset [simp]: "ditem k (dset k' v d) = (if k = k' then Inr v else ditem k d)"
  by (simp add: ditem_def)

lemma set_keys_dset [simp]: "set (map fst (dset k v d)) = insert k (set (map fst d))"
  by (induction k v d rule: dset.induct) auto

lemma distinct_dset [simp]: "distinct (map fst (dset k v d)) \<longleftrightarrow> distinct (map fst d)"
proof (induction k v d rule: dset.induct)
  case (2 k v k' w d)
  have "fst ` set (dset k v d) = insert k (fst ` set d)"
    using set_keys_dset[of k v d] by simp
  with 2 show ?case by auto
qed simp

lemma distinct_dpop [simp]: "distinct (map fst d) \<Longrightarrow> distinct (map fst (dpop k d))"
  by (simp add: dpop_def distinct_map_filter)

lemma wf_list_iff: "wf_list xs \<longleftrightarrow> list_all wf_json xs"
  by (induction xs) auto

lemma wf_items_iff: "wf_items d \<longleftrightarrow> list_all (\<lambda>kv. wf_json (snd kv)) d"
  by (induction d) auto

lemma finite_list_iff: "finite_list xs \<longleftrightarrow> list_all json_finite xs"
  by (induction xs) auto

lemma finite_items_iff: "finite_items d \<longleftrightarrow> list_all (\<lambda>kv. json_finite (snd kv)) d"
  by (induction d) auto

lemma has_keys_iff: "has_keys ks d \<longleftrightarrow> (\<forall>k \<in> set ks. dhas k d)"
  by (simp add: has_keys_def list_all_iff)

lemma keys_exactly_iff: "keys_exactly ks d \<longleftrightarrow> set (map fst d) = set ks"
  by (force simp: keys_exactly_def list_all_iff dhas_def)

lemma keys_exactly_has_keys: "keys_exactly ks d \<Longrightarrow> has_keys ks d"
  by (simp add: keys_exactly_def has_keys_def)

lemma is_dictE:
  assumes "is_dict v"
  obtains d where "v = JDict d"
  using assms by (cases v) auto

lemma is_listE:
  assumes "is_list v"
  obtains xs where "v = JList xs"
  using assms by (cases v) auto

lemma is_strE:
  assumes "is_str v"
  obtains s where "v = JStr s"
  using assms by (cases v) auto

lemma nonblank_strE:
  assumes "nonblank_str v"
  obtains s where "v = JStr s" and "\<not> is_blank s"
  using assms by (cases v) auto

lemma str_inE:
  assumes "str_in v allowed"
  obtains s where "v = JStr s" and "s \<in> set allowed"
  using assms by (cases v) auto

lemma as_dict_Inr [simp]: "as_dict v = Inr d \<longleftrightarrow> v = JDict d"
  by (cases v) auto

lemma item_Inr: "item k v = Inr w \<longleftrightarrow> (\<exists>d. v = JDict d \<and> ditem k d = Inr w)"
  by (cases v) auto

lemma py_eq_str_left [simp]: "py_eq (JStr s) w \<longleftrightarrow> w = JStr s"
  by simp

lemma py_eq_str_right [simp]: "py_eq v (JStr s) \<longleftrightarrow> v = JStr s"
  by (cases v) (auto split: option.splits pyfloat.splits)

lemma py_eq_null_right [simp]: "py_eq v JNull \<longleftrightarrow> v = JNull"
  by (cases v) (auto split: option.splits)

lemma num_value_eq_bool [simp]: "num_value (JStr s) = None" "num_value JNull = None"
  by simp_all

lemma ok_finite_number:
  assumes "finite_number v = Inr b" and "b"
  shows "is_number v"
  using assms by (simp add: finite_number_def split: if_splits)

end
