(* ===== verification/Json_Text.thy ===== *)
theory Json_Text
  imports Json_Value Sha256
begin

text \<open>
  Canonical JSON: \<open>json.dumps(value, ensure_ascii=False, sort_keys=True,
  separators=(",", ":"), allow_nan=False)\<close>, the text every identity hash of the program is
  taken of.  The theory ends with the fact the identities rest on: two values with the same
  canonical text are the same value up to the order of dictionary keys.
\<close>

section \<open>Printing\<close>

definition escape_char :: "char \<Rightarrow> string" where
  "escape_char a =
     (if a = CHR 0x22 then [CHR 0x5C, CHR 0x22]
      else if a = CHR 0x5C then [CHR 0x5C, CHR 0x5C]
      else if a = CHR 0x0A then [CHR 0x5C, CHR ''n'']
      else if a = CHR 0x0D then [CHR 0x5C, CHR ''r'']
      else if a = CHR 0x09 then [CHR 0x5C, CHR ''t'']
      else if a = CHR 0x0C then [CHR 0x5C, CHR ''f'']
      else if a = CHR 0x08 then [CHR 0x5C, CHR ''b'']
      else if (of_char a :: nat) < 32
        then [CHR 0x5C, CHR ''u'', CHR ''0'', CHR ''0'',
              hex_digit (of_char a div 16), hex_digit (of_char a mod 16)]
      else [a])"

definition quote :: "string \<Rightarrow> string" where
  "quote s = CHR 0x22 # concat (map escape_char s) @ [CHR 0x22]"

definition scalar_text :: "runtime \<Rightarrow> json \<Rightarrow> string" where
  "scalar_text R v =
     (case v of JNull \<Rightarrow> ''null'' | JBool b \<Rightarrow> (if b then ''true'' else ''false'')
      | JInt i \<Rightarrow> show_int i | JFloat f \<Rightarrow> rt_float_repr R f | JStr s \<Rightarrow> quote s | _ \<Rightarrow> [])"

definition item_text :: "string \<times> string \<Rightarrow> string" where
  "item_text kt = quote (fst kt) @ CHR '':'' # snd kt"

fun jtext :: "runtime \<Rightarrow> json \<Rightarrow> string"
  and jtext_list :: "runtime \<Rightarrow> json list \<Rightarrow> string list"
  and jtext_items :: "runtime \<Rightarrow> dict \<Rightarrow> (string \<times> string) list" where
  "jtext R (JList xs) = CHR ''['' # join_with '','' (jtext_list R xs) @ '']''"
| "jtext R (JDict d) =
     CHR ''{'' # join_with '','' (map item_text (sort_key fst (jtext_items R d))) @ ''}''"
| "jtext R v = scalar_text R v"
| "jtext_list R [] = []"
| "jtext_list R (x # xs) = jtext R x # jtext_list R xs"
| "jtext_items R [] = []"
| "jtext_items R ((k, v) # d) = (k, jtext R v) # jtext_items R d"

text \<open>\<open>allow_nan=False\<close>: a float outside JSON is a \<open>ValueError\<close>.\<close>

definition json_dumps :: "runtime \<Rightarrow> json \<Rightarrow> string res" where
  "json_dumps R v =
     (if json_finite v then Inr (jtext R v)
      else Inl (ValueError ''Out of range float values are not JSON compliant''))"

section \<open>The canonical value\<close>

fun canon :: "json \<Rightarrow> json"
  and canon_list :: "json list \<Rightarrow> json list"
  and canon_items :: "dict \<Rightarrow> dict" where
  "canon (JList xs) = JList (canon_list xs)"
| "canon (JDict d) = JDict (sort_key fst (canon_items d))"
| "canon v = v"
| "canon_list [] = []"
| "canon_list (x # xs) = canon x # canon_list xs"
| "canon_items [] = []"
| "canon_items ((k, v) # d) = (k, canon v) # canon_items d"

text \<open>The text of a value in the order its items have.\<close>

fun ptext :: "runtime \<Rightarrow> json \<Rightarrow> string"
  and ptext_list :: "runtime \<Rightarrow> json list \<Rightarrow> string"
  and ptext_items :: "runtime \<Rightarrow> dict \<Rightarrow> string" where
  "ptext R (JList xs) = CHR ''['' # ptext_list R xs @ '']''"
| "ptext R (JDict d) = CHR ''{'' # ptext_items R d @ ''}''"
| "ptext R v = scalar_text R v"
| "ptext_list R [] = []"
| "ptext_list R (x # xs) = ptext R x @ (if xs = [] then [] else CHR '','' # ptext_list R xs)"
| "ptext_items R [] = []"
| "ptext_items R ((k, v) # d) =
     quote k @ CHR '':'' # ptext R v @ (if d = [] then [] else CHR '','' # ptext_items R d)"

lemma insort_key_map:
  assumes "\<And>x. f (g x) = f' x"
  shows "insort_key f (g x) (map g xs) = map g (insort_key f' x xs)"
  by (induction xs) (auto simp: assms)

lemma sort_key_map:
  assumes "\<And>x. f (g x) = f' x"
  shows "sort_key f (map g xs) = map g (sort_key f' xs)"
  by (induction xs) (simp_all add: insort_key_map[of f g f', OF assms])

lemma jtext_items_map: "jtext_items R d = map (\<lambda>kv. (fst kv, jtext R (snd kv))) d"
  by (induction d) auto

lemma canon_items_map: "canon_items d = map (\<lambda>kv. (fst kv, canon (snd kv))) d"
  by (induction d) auto

lemma canon_list_map: "canon_list xs = map canon xs"
  by (induction xs) auto

lemma jtext_list_map: "jtext_list R xs = map (jtext R) xs"
  by (induction xs) auto

lemma join_Cons: "join_with sep (x # xs) = x @ (if xs = [] then [] else sep @ join_with sep xs)"
  by (cases xs) auto

lemma ptext_list_join: "ptext_list R xs = join_with '','' (map (ptext R) xs)"
  by (induction xs) (auto simp: join_Cons)

lemma ptext_items_join:
  "ptext_items R d = join_with '','' (map (\<lambda>kv. item_text (fst kv, ptext R (snd kv))) d)"
  by (induction d) (auto simp: join_Cons item_text_def)

lemma jtext_ptext:
  "jtext R v = ptext R (canon v)"
  "map (jtext R) xs = map (ptext R) (canon_list xs)"
  "map (\<lambda>kv. (fst kv, jtext R (snd kv))) d = map (\<lambda>kv. (fst kv, ptext R (snd kv))) (canon_items d)"
proof (induction v and xs and d rule: canon_canon_list_canon_items.induct)
  case (1 xs)
  then show ?case by (simp add: jtext_list_map ptext_list_join)
next
  case (2 d)
  have "sort_key fst (jtext_items R d) =
      map (\<lambda>kv. (fst kv, ptext R (snd kv))) (sort_key fst (canon_items d))"
    unfolding jtext_items_map 2 by (rule sort_key_map) simp
  then show ?case by (simp add: ptext_items_join comp_def)
qed auto

lemma json_finite_canon:
  "json_finite (canon v) = json_finite v"
  "finite_list (canon_list xs) = finite_list xs"
  "finite_items (canon_items d) = finite_items d"
proof (induction v and xs and d rule: canon_canon_list_canon_items.induct)
  case (2 d)
  then show ?case by (simp add: finite_items_iff list_all_iff)
qed auto

section \<open>The canonical text determines the value\<close>

text \<open>Reading one escaped character back.\<close>

definition hex_val :: "char \<Rightarrow> nat" where
  "hex_val a = (if is_digit a then of_char a - 48 else of_char a - 87)"

definition unescape_char :: "string \<Rightarrow> char \<times> string" where
  "unescape_char s =
     (let d = s ! 1; r = drop 2 s in
      if hd s \<noteq> CHR 0x5C then (hd s, tl s)
      else if d = CHR ''n'' then (CHR 0x0A, r)
      else if d = CHR ''r'' then (CHR 0x0D, r)
      else if d = CHR ''t'' then (CHR 0x09, r)
      else if d = CHR ''f'' then (CHR 0x0C, r)
      else if d = CHR ''b'' then (CHR 0x08, r)
      else if d = CHR ''u'' then (char_of (16 * hex_val (s ! 4) + hex_val (s ! 5)), drop 6 s)
      else (d, r))"

lemma hex_val_hex_digit: "n < 16 \<Longrightarrow> hex_val (hex_digit n) = n"
proof -
  have "\<forall>n < 16. hex_val (''0123456789abcdef'' ! n) = n"
    by (simp add: all_less_Suc_split eval_nat_numeral hex_val_def is_digit_iff)
  then show "n < 16 \<Longrightarrow> hex_val (hex_digit n) = n" by (simp add: hex_digit_def)
qed

lemma escape_char_nonempty [simp]: "escape_char a \<noteq> []"
  by (simp add: escape_char_def)

lemma escape_char_hd [simp]: "hd (escape_char a) \<noteq> CHR 0x22"
  by (simp add: escape_char_def)

lemma unescape_control:
  assumes "(of_char a :: nat) < 32"
  shows "unescape_char ([CHR 0x5C, CHR ''u'', CHR ''0'', CHR ''0'',
           hex_digit (of_char a div 16), hex_digit (of_char a mod 16)] @ x) = (a, x)"
proof -
  have "hex_val (hex_digit (of_char a div 16)) = of_char a div 16"
    using assms by (intro hex_val_hex_digit) simp
  moreover have "hex_val (hex_digit (of_char a mod 16)) = of_char a mod 16"
    by (intro hex_val_hex_digit) simp
  ultimately have "char_of (16 * hex_val (hex_digit (of_char a div 16))
      + hex_val (hex_digit (of_char a mod 16))) = a"
    by (simp add: mult_div_mod_eq)
  then show ?thesis by (simp add: unescape_char_def Let_def)
qed

lemma unescape_escape: "unescape_char (escape_char a @ x) = (a, x)"
proof (cases "a \<in> set [CHR 0x22, CHR 0x5C, CHR 0x0A, CHR 0x0D, CHR 0x09, CHR 0x0C, CHR 0x08]")
  case True
  then show ?thesis by (auto simp: escape_char_def unescape_char_def Let_def)
next
  case False
  then have *: "escape_char a =
      (if (of_char a :: nat) < 32
        then [CHR 0x5C, CHR ''u'', CHR ''0'', CHR ''0'',
              hex_digit (of_char a div 16), hex_digit (of_char a mod 16)]
        else [a])"
    by (simp add: escape_char_def)
  from False have "a \<noteq> CHR 0x5C" by simp
  then have "unescape_char ([a] @ x) = (a, x)" by (simp add: unescape_char_def Let_def)
  then show ?thesis unfolding * by (simp add: unescape_control del: append.simps)
qed

lemma escape_char_prefix: "escape_char a @ x = escape_char b @ y \<Longrightarrow> a = b \<and> x = y"
  by (metis unescape_escape prod.inject)

lemma escape_char_not_quote [simp]:
  "escape_char b @ z \<noteq> CHR 0x22 # x" "CHR 0x22 # x \<noteq> escape_char b @ z"
  using escape_char_hd[of b] escape_char_nonempty[of b] by (metis hd_append2 list.sel(1))+

lemma escape_prefix:
  assumes "concat (map escape_char s) @ CHR 0x22 # x = concat (map escape_char t) @ CHR 0x22 # y"
  shows "s = t \<and> x = y"
  using assms
proof (induction s arbitrary: t)
  case Nil
  then show ?case by (cases t) simp_all
next
  case (Cons a s)
  show ?case
  proof (cases t)
    case Nil
    with Cons.prems show ?thesis by simp
  next
    case (Cons b t')
    with Cons.prems have "escape_char a @ (concat (map escape_char s) @ CHR 0x22 # x)
        = escape_char b @ (concat (map escape_char t') @ CHR 0x22 # y)"
      by simp
    from escape_char_prefix[OF this] Cons.IH[of t'] Cons show ?thesis by auto
  qed
qed

lemma quote_prefix: "quote s @ x = quote t @ y \<longleftrightarrow> s = t \<and> x = y"
  using escape_prefix[of s x t y] by (auto simp: quote_def)

definition number_char :: "char \<Rightarrow> bool" where
  "number_char a \<longleftrightarrow> is_digit a \<or> a \<in> set ''+-.e''"

definition number_text :: "string \<Rightarrow> bool" where
  "number_text s \<longleftrightarrow> s \<noteq> [] \<and> list_all number_char s"

definition finite_float :: "pyfloat \<Rightarrow> bool" where
  "finite_float f \<longleftrightarrow> (case f of FFin _ \<Rightarrow> True | FNegZero \<Rightarrow> True | _ \<Rightarrow> False)"

text \<open>
  What the canonical text relies on in \<open>float.__repr__\<close>: distinct finite floats have
  distinct representations, made of digits, signs, \<open>.\<close> and \<open>e\<close>, and a float is never
  printed as an integer is (it has a \<open>.\<close> or an \<open>e\<close>).
\<close>

locale float_printer =
  fixes repr :: "pyfloat \<Rightarrow> string"
  assumes repr_inject: "finite_float f \<Longrightarrow> finite_float g \<Longrightarrow> repr f = repr g \<Longrightarrow> f = g"
    and repr_chars: "finite_float f \<Longrightarrow> list_all number_char (repr f)"
    and repr_marked: "finite_float f \<Longrightarrow> CHR ''.'' \<in> set (repr f) \<or> CHR ''e'' \<in> set (repr f)"
begin

lemma number_text_repr: "finite_float f \<Longrightarrow> number_text (repr f)"
  using repr_chars[of f] repr_marked[of f] by (auto simp: number_text_def)

lemma repr_not_int: "finite_float f \<Longrightarrow> repr f \<noteq> show_int i"
  using repr_marked[of f] show_int_chars[of "CHR ''.''" i] show_int_chars[of "CHR ''e''" i]
  by (auto simp: is_digit_iff)

end

definition stops :: "string \<Rightarrow> bool" where
  "stops x \<longleftrightarrow> x = [] \<or> \<not> number_char (hd x)"

lemma stops_Cons [simp]: "stops (a # x) \<longleftrightarrow> \<not> number_char a"
  by (simp add: stops_def)

lemma number_char_simps [simp]:
  "\<not> number_char CHR '',''" "\<not> number_char CHR '']''" "\<not> number_char CHR ''}''"
  "\<not> number_char CHR ''[''" "\<not> number_char CHR ''{''" "\<not> number_char CHR 0x22"
  "\<not> number_char CHR ''n''" "\<not> number_char CHR ''t''" "\<not> number_char CHR ''f''"
  by (simp_all add: number_char_def is_digit_iff)

lemma number_prefix:
  assumes "number_text s" and "number_text t" and "stops x" and "stops y" and "s @ x = t @ y"
  shows "s = t \<and> x = y"
proof -
  have tw: "takeWhile number_char (u @ z) = u" if "number_text u" "stops z" for u z
    using that by (cases z) (auto simp: number_text_def list_all_iff takeWhile_append)
  have "s = t" using tw[of s x] tw[of t y] assms by simp
  with assms show ?thesis by simp
qed

lemma number_text_not [simp]:
  "number_text s \<Longrightarrow> \<not> number_char c \<Longrightarrow> s @ x \<noteq> c # y"
  "number_text s \<Longrightarrow> \<not> number_char c \<Longrightarrow> c # y \<noteq> s @ x"
  by (cases s; auto simp: number_text_def)+

lemma number_text_int [simp]: "number_text (show_int i)"
  by (auto simp: number_text_def list_all_iff number_char_def dest: show_int_chars)

lemma quote_not [simp]:
  "c \<noteq> CHR 0x22 \<Longrightarrow> quote s @ x \<noteq> c # y" "c \<noteq> CHR 0x22 \<Longrightarrow> c # y \<noteq> quote s @ x"
  by (simp_all add: quote_def)

lemma number_not_quote [simp]:
  "number_text s \<Longrightarrow> s @ x \<noteq> quote t @ y" "number_text s \<Longrightarrow> quote t @ y \<noteq> s @ x"
  by (simp_all add: quote_def)

lemma take_prefix_simps [simp]:
  "''null'' @ x = CHR ''n'' # ''ull'' @ x"
  "''true'' @ x = CHR ''t'' # ''rue'' @ x"
  "''false'' @ x = CHR ''f'' # ''alse'' @ x"
  by simp_all

context float_printer
begin

text \<open>The text of a number, in the interpreter this printer belongs to.\<close>

lemma number_scalar:
  assumes "rt_float_repr R = repr" and "is_number v" and "json_finite v"
  shows "number_text (scalar_text R v)"
  using assms(2,3) number_text_repr
  by (cases v) (simp_all add: scalar_text_def finite_float_def assms(1))

lemma number_scalar_inject:
  assumes "rt_float_repr R = repr" and "is_number v" "json_finite v" "is_number w" "json_finite w"
    and "scalar_text R v = scalar_text R w"
  shows "v = w"
proof -
  have ff: "finite_float f" if "json_finite (JFloat f)" for f
    using that by (simp add: finite_float_def)
  show ?thesis
    using assms ff repr_not_int repr_inject
    by (cases v; cases w) (simp_all add: scalar_text_def, metis+)
qed

lemma scalar_prefix:
  assumes R: "rt_float_repr R = repr"
    and "\<not> is_list v" "\<not> is_dict v" "\<not> is_list w" "\<not> is_dict w"
    and fin: "json_finite v" "json_finite w" and stops: "stops x" "stops y"
    and eq: "scalar_text R v @ x = scalar_text R w @ y"
  shows "v = w \<and> x = y"
proof (cases "is_number v \<and> is_number w")
  case True
  then have "scalar_text R v = scalar_text R w \<and> x = y"
    using number_prefix[OF number_scalar number_scalar stops eq] R fin by blast
  with True number_scalar_inject R fin show ?thesis by blast
next
  case False
  have nv: "is_number v \<Longrightarrow> number_text (scalar_text R v)"
    and nw: "is_number w \<Longrightarrow> number_text (scalar_text R w)"
    using number_scalar R fin by blast+
  show ?thesis
  proof (cases "is_number v \<or> is_number w")
    case True
    with False nv nw eq assms(2-5) show ?thesis
      by (cases v; cases w)
        (auto simp del: append.simps simp: scalar_text_def split: if_splits)
  next
    case False
    with eq assms(2-5) show ?thesis
      by (cases v; cases w) (auto simp: scalar_text_def quote_prefix split: if_splits)
  qed
qed

lemma ptext_scalar: "\<not> is_list v \<Longrightarrow> \<not> is_dict v \<Longrightarrow> ptext R v = scalar_text R v"
  by (cases v) auto

lemma scalar_text_open:
  assumes "rt_float_repr R = repr" and "\<not> is_list v" "\<not> is_dict v" "json_finite v"
    and "c \<in> {CHR ''['', CHR ''{'', CHR '']'', CHR ''}''}"
  shows "scalar_text R v @ x \<noteq> c # y"
proof (cases "is_number v")
  case True
  then show ?thesis using number_scalar[OF assms(1)] assms(4,5) by (auto simp del: append.simps)
next
  case False
  then show ?thesis using assms(2,3,5)
    by (cases v) (auto simp: scalar_text_def quote_def split: if_splits)
qed

lemma scalar_prefix_any:
  assumes R: "rt_float_repr R = repr" and v: "\<not> is_list v" "\<not> is_dict v"
    and "json_finite v" "json_finite w" "stops x" "stops y"
    and eq: "ptext R v @ x = ptext R w @ y"
  shows "v = w \<and> x = y"
proof -
  have no: "scalar_text R v @ x \<noteq> c # z" if "c \<in> {CHR ''['', CHR ''{''}" for c z
    using that by (intro scalar_text_open[OF R v assms(4)]) auto
  show ?thesis
  proof (cases "is_list w \<or> is_dict w")
    case True
    with eq v no[of "CHR ''[''"] no[of "CHR ''{''"] show ?thesis
      by (cases w) (simp_all add: ptext_scalar)
  next
    case False
    then have "ptext R w = scalar_text R w" by (intro ptext_scalar) auto
    with eq v have "scalar_text R v @ x = scalar_text R w @ y" by (simp add: ptext_scalar)
    then show ?thesis using scalar_prefix[OF R v _ _ assms(4-7)] False by blast
  qed
qed

lemma ptext_not_close:
  assumes "rt_float_repr R = repr" and "json_finite v"
  shows "ptext R v @ x \<noteq> CHR '']'' # y"
proof (cases "is_list v \<or> is_dict v")
  case True
  then show ?thesis by (cases v) simp_all
next
  case False
  then show ?thesis using scalar_text_open[OF assms(1) _ _ assms(2)] by (simp add: ptext_scalar)
qed

lemma ptext_prefix:
  assumes R: "rt_float_repr R = repr"
  shows
    "json_finite v \<Longrightarrow> json_finite w \<Longrightarrow> stops x \<Longrightarrow> stops y
      \<Longrightarrow> ptext R v @ x = ptext R w @ y \<Longrightarrow> v = w \<and> x = y"
    "finite_list vs \<Longrightarrow> finite_list ws
      \<Longrightarrow> ptext_list R vs @ CHR '']'' # x = ptext_list R ws @ CHR '']'' # y \<Longrightarrow> vs = ws \<and> x = y"
    "finite_items d \<Longrightarrow> finite_items e
      \<Longrightarrow> ptext_items R d @ CHR ''}'' # x = ptext_items R e @ CHR ''}'' # y \<Longrightarrow> d = e \<and> x = y"
proof (induction v and vs and d arbitrary: w x y and ws x y and e x y
    rule: canon_canon_list_canon_items.induct)
  case (1 vs)
  show ?case
  proof (cases w)
    case (JList ws)
    with "1.prems" "1.IH"[of ws x y] show ?thesis by simp
  qed (use "1.prems" scalar_prefix_any[OF R _ _ _ _ _ _ "1.prems"(5)[symmetric]] in auto)
next
  case (2 d)
  show ?case
  proof (cases w)
    case (JDict e)
    with "2.prems" "2.IH"[of e x y] show ?thesis by simp
  qed (use "2.prems" scalar_prefix_any[OF R _ _ _ _ _ _ "2.prems"(5)[symmetric]] in auto)
next
  case 4
  then show ?case
    by (cases ws) (simp_all add: ptext_not_close[OF R] ptext_not_close[OF R, THEN not_sym])
next
  case (5 v vs)
  show ?case
  proof (cases ws)
    case Nil
    with "5.prems" show ?thesis by (simp add: ptext_not_close[OF R])
  next
    case (Cons w ws')
    let ?r = "\<lambda>us z. (if us = [] then [] else CHR '','' # ptext_list R us) @ CHR '']'' # z"
    have st: "stops (?r us z)" for us z by simp
    have "ptext R v @ ?r vs x = ptext R w @ ?r ws' y"
      using "5.prems"(3) Cons by simp
    then have vw: "v = w" and r: "?r vs x = ?r ws' y"
      using "5.IH"(1)[OF _ _ st st, of w vs x ws' y] "5.prems"(1,2) Cons by simp_all
    from r have "vs = ws' \<and> x = y"
      using "5.IH"(2)[of ws' x y] "5.prems"(1,2) Cons by (auto split: if_splits)
    with vw Cons show ?thesis by simp
  qed
next
  case 6
  then show ?case by (cases e) (auto simp: quote_def)
next
  case (7 k v d)
  show ?case
  proof (cases e)
    case Nil
    with "7.prems" show ?thesis by (simp add: quote_def)
  next
    case (Cons lw e')
    obtain l w where lw: "lw = (l, w)" by (cases lw)
    let ?r = "\<lambda>us z. (if us = [] then [] else CHR '','' # ptext_items R us) @ CHR ''}'' # z"
    have st: "stops (?r us z)" for us z by simp
    have "quote k @ CHR '':'' # ptext R v @ ?r d x = quote l @ CHR '':'' # ptext R w @ ?r e' y"
      using "7.prems"(3) Cons lw by simp
    then have kl: "k = l" and "ptext R v @ ?r d x = ptext R w @ ?r e' y"
      by (simp_all add: quote_prefix)
    then have vw: "v = w" and r: "?r d x = ?r e' y"
      using "7.IH"(1)[OF _ _ st st, of w d x e' y] "7.prems"(1,2) Cons lw by simp_all
    from r have "d = e' \<and> x = y"
      using "7.IH"(2)[of e' x y] "7.prems"(1,2) Cons lw by (auto split: if_splits)
    with kl vw Cons lw show ?thesis by simp
  qed
qed (rule scalar_prefix_any[OF R]; simp)+

text \<open>Equal canonical texts are texts of equal canonical values.\<close>

lemma jtext_inject:
  assumes "rt_float_repr R = repr" and "json_finite v" and "json_finite w"
    and "jtext R v = jtext R w"
  shows "canon v = canon w"
proof -
  have "ptext R (canon v) @ [] = ptext R (canon w) @ []"
    using assms(4) by (simp add: jtext_ptext)
  moreover have "json_finite (canon v)" "json_finite (canon w)"
    using assms(2,3) by (simp_all add: json_finite_canon)
  moreover have "stops []" by (simp add: stops_def)
  ultimately show ?thesis using ptext_prefix(1)[OF assms(1)] by blast
qed

end

lemma canon_jtext: "canon v = canon w \<Longrightarrow> jtext R v = jtext R w"
  by (simp add: jtext_ptext)

text \<open>Reordering the items of a dictionary does not change the canonical value.\<close>

lemma canon_dict_perm:
  assumes "mset d = mset e" and "distinct (map fst d)"
  shows "canon (JDict d) = canon (JDict e)"
proof -
  have "mset (canon_items d) = mset (canon_items e)"
    using assms(1) by (simp add: canon_items_map)
  moreover have "inj_on fst (set (canon_items d))"
    using assms(2) by (auto simp: canon_items_map inj_on_def distinct_map)
  ultimately show ?thesis by (simp add: sort_key_perm_eq)
qed

end
