(* ===== verification/Loader_Core.thy ===== *)
theory Loader_Core
  imports Json_Text
begin

text \<open>
  \<open>loader.py\<close>, first part: the contract constants, the normalised identity every
  comparison of entity names goes through, the calendar and timestamp syntax, and the small
  checks (\<open>_require_...\<close>) that \<open>validate_case\<close> is made of.
\<close>

section \<open>Contract constants\<close>

definition REQUIRED_DOCUMENT_TYPES :: "string list" where
  "REQUIRED_DOCUMENT_TYPES =
     [''PROCESS_FLOW'', ''PFMEA'', ''CONTROL_PLAN'', ''SOP'', ''INSPECTION_RECORD'']"

definition EVENT_TYPES :: "string list" where
  "EVENT_TYPES = [''ENGINEERING_CHANGE'', ''QUALITY_EVENT'']"

definition RISK_LEVELS :: "string list" where
  "RISK_LEVELS = [''LOW'', ''MEDIUM'', ''HIGH'']"

definition DOCUMENT_STATUSES :: "string list" where
  "DOCUMENT_STATUSES = [''DRAFT'', ''APPROVED'', ''SUPERSEDED'']"

definition APPROVAL_DECISIONS :: "string list" where
  "APPROVAL_DECISIONS = [''APPROVED'', ''REJECTED'', ''CHANGES_REQUESTED'']"

definition VALIDATION_RESULTS :: "string list" where
  "VALIDATION_RESULTS = [''PASS'', ''FAIL'', ''PENDING'']"

definition MAX_SOURCE_ANCHOR_CHARACTERS :: nat where "MAX_SOURCE_ANCHOR_CHARACTERS = 256"
definition MAX_DOCUMENTS :: nat where "MAX_DOCUMENTS = 1024"
definition MAX_EVENT_AFFECTED_ITEMS :: nat where "MAX_EVENT_AFFECTED_ITEMS = 10000"
definition MAX_VALIDATION_EVIDENCE_ITEMS :: nat where "MAX_VALIDATION_EVIDENCE_ITEMS = 10000"
definition MAX_APPROVAL_ITEMS :: nat where "MAX_APPROVAL_ITEMS = 10000"
definition MAX_PROCESS_STEPS_PER_DOCUMENT :: nat where "MAX_PROCESS_STEPS_PER_DOCUMENT = 10000"
definition MAX_CHARACTERISTICS_PER_DOCUMENT :: nat where "MAX_CHARACTERISTICS_PER_DOCUMENT = 10000"
definition MAX_RISKS_PER_DOCUMENT :: nat where "MAX_RISKS_PER_DOCUMENT = 20000"
definition MAX_MUTATION_OPERATIONS :: nat where "MAX_MUTATION_OPERATIONS = 10000"

definition CASE_SCHEMA_VERSION :: string where
  "CASE_SCHEMA_VERSION = ''qualityci-case-0.4''"

definition CONTROLLED_REFERENCE_CASE_SCHEMA_VERSION :: string where
  "CONTROLLED_REFERENCE_CASE_SCHEMA_VERSION = ''qualityci-case-0.3''"

definition RELATIONSHIP_CASE_SCHEMA_VERSION :: string where
  "RELATIONSHIP_CASE_SCHEMA_VERSION = ''qualityci-case-0.2''"

definition LEGACY_CASE_SCHEMA_VERSION :: string where
  "LEGACY_CASE_SCHEMA_VERSION = ''qualityci-case-0.1''"

definition CONTROLLED_REFERENCE_CONTRACT_VERSION :: string where
  "CONTROLLED_REFERENCE_CONTRACT_VERSION = ''qualityci-controlled-reference-0.1''"

definition RELATIONSHIP_MIGRATION_STATUSES :: "string list" where
  "RELATIONSHIP_MIGRATION_STATUSES = [''DETERMINISTIC_1X1'', ''AMBIGUOUS'']"

definition REFERENCE_MIGRATION_STATUSES :: "string list" where
  "REFERENCE_MIGRATION_STATUSES = [''LEGACY_UNATTESTED'']"

definition VALIDATION_MIGRATION_STATUSES :: "string list" where
  "VALIDATION_MIGRATION_STATUSES = [''LEGACY_UNATTESTED'']"

definition REFERENCE_IDENTITY_KEYS :: "string list" where
  "REFERENCE_IDENTITY_KEYS = [''document_type'', ''document_id'', ''revision'', ''source_hash'']"

text \<open>\<open>LOWERCASE_SHA256.fullmatch(value)\<close> is \<^const>\<open>is_lower_sha\<close>.\<close>

section \<open>Normalised identities\<close>

definition normalized_identity :: "runtime \<Rightarrow> string \<Rightarrow> string" where
  "normalized_identity R v = rt_casefold R (join_with '' '' (py_split (rt_nfkc R v)))"

definition relationship_key :: "runtime \<Rightarrow> string \<Rightarrow> string \<Rightarrow> string \<times> string" where
  "relationship_key R process_step_id characteristic_id =
     (normalized_identity R process_step_id, normalized_identity R characteristic_id)"

text \<open>The same on a value: \<open>unicodedata.normalize\<close> raises on anything but a text.\<close>

fun identity_of :: "runtime \<Rightarrow> json \<Rightarrow> string res" where
  "identity_of R (JStr s) = Inr (normalized_identity R s)"
| "identity_of R _ = Inl TypeError"

definition relationship_key_of :: "runtime \<Rightarrow> json \<Rightarrow> json \<Rightarrow> (string \<times> string) res" where
  "relationship_key_of R p c =
     rbind (identity_of R p) (\<lambda>k. rbind (identity_of R c) (\<lambda>l. Inr (k, l)))"

section \<open>Calendar dates and timestamps\<close>

definition is_leap :: "nat \<Rightarrow> bool" where
  "is_leap y \<longleftrightarrow> y mod 4 = 0 \<and> (y mod 100 \<noteq> 0 \<or> y mod 400 = 0)"

definition days_in_month :: "nat \<Rightarrow> nat \<Rightarrow> nat" where
  "days_in_month y m =
     (if m = 2 then (if is_leap y then 29 else 28)
      else if m \<in> {4, 6, 9, 11} then 30 else 31)"

definition valid_date :: "nat \<Rightarrow> nat \<Rightarrow> nat \<Rightarrow> bool" where
  "valid_date y m d \<longleftrightarrow> 1 \<le> y \<and> y \<le> 9999 \<and> 1 \<le> m \<and> m \<le> 12 \<and> 1 \<le> d \<and> d \<le> days_in_month y m"

type_synonym pydate = "nat \<times> nat \<times> nat"

text \<open>\<open>re.fullmatch("[0-9]{4}-[0-9]{2}-[0-9]{2}", value)\<close>.\<close>

definition date_shape :: "string \<Rightarrow> bool" where
  "date_shape s \<longleftrightarrow> length s = 10
     \<and> list_all is_digit (take 4 s) \<and> s ! 4 = CHR ''-''
     \<and> list_all is_digit (take 2 (drop 5 s)) \<and> s ! 7 = CHR ''-''
     \<and> list_all is_digit (drop 8 s)"

text \<open>
  \<open>date.fromisoformat\<close> on the extended calendar form, the only one the validators let
  through.
\<close>

definition date_fromisoformat :: "string \<Rightarrow> pydate option" where
  "date_fromisoformat s =
     (if date_shape s then
        (let y = digits_val (take 4 s); m = digits_val (take 2 (drop 5 s));
             d = digits_val (drop 8 s)
         in if valid_date y m d then Some (y, m, d) else None)
      else None)"

type_synonym pydatetime = "pydate \<times> (nat \<times> nat \<times> nat) \<times> nat"

text \<open>The fraction and the \<open>Z\<close> at the end of \<open>RFC3339_UTC\<close>.\<close>

definition fraction_shape :: "string \<Rightarrow> bool" where
  "fraction_shape r \<longleftrightarrow> r = ''Z'' \<or>
     (2 < length r \<and> hd r = CHR ''.'' \<and> last r = CHR ''Z'' \<and> list_all is_digit (butlast (tl r)))"

definition rfc3339_shape :: "string \<Rightarrow> bool" where
  "rfc3339_shape s \<longleftrightarrow> 20 \<le> length s \<and> date_shape (take 10 s) \<and> s ! 10 = CHR ''T''
     \<and> list_all is_digit (take 2 (drop 11 s)) \<and> digits_val (take 2 (drop 11 s)) \<le> 23
     \<and> s ! 13 = CHR '':''
     \<and> list_all is_digit (take 2 (drop 14 s)) \<and> digits_val (take 2 (drop 14 s)) \<le> 59
     \<and> s ! 16 = CHR '':''
     \<and> list_all is_digit (take 2 (drop 17 s)) \<and> digits_val (take 2 (drop 17 s)) \<le> 59
     \<and> fraction_shape (drop 19 s)"

text \<open>\<open>datetime.fromisoformat\<close> keeps six digits of the fraction.\<close>

definition microseconds :: "string \<Rightarrow> nat" where
  "microseconds r = (if r = ''Z'' then 0 else digits_val (take 6 (butlast (tl r) @ ''000000'')))"

definition datetime_fromisoformat :: "string \<Rightarrow> pydatetime option" where
  "datetime_fromisoformat s =
     (case date_fromisoformat (take 10 s) of None \<Rightarrow> None
      | Some d \<Rightarrow> Some (d, (digits_val (take 2 (drop 11 s)), digits_val (take 2 (drop 14 s)),
                          digits_val (take 2 (drop 17 s))), microseconds (drop 19 s)))"

definition parse_rfc3339_utc :: "json \<Rightarrow> string \<Rightarrow> pydatetime res" where
  "parse_rfc3339_utc v label =
     (let e = ValueError (label @ '' must be RFC3339 UTC with Z suffix'') in
      case v of JStr s \<Rightarrow>
        if \<not> rfc3339_shape s then Inl e
        else (case datetime_fromisoformat s of None \<Rightarrow> Inl e | Some t \<Rightarrow> Inr t)
      | _ \<Rightarrow> Inl e)"

section \<open>The small checks\<close>

definition require_nonempty_string :: "json \<Rightarrow> string \<Rightarrow> unit res" where
  "require_nonempty_string v label =
     require (nonblank_str v) (ValueError (label @ '' must be a non-empty string''))"

definition require_enum :: "json \<Rightarrow> string \<Rightarrow> string list \<Rightarrow> unit res" where
  "require_enum v label allowed = require (str_in v allowed) (ValueError (''unsupported '' @ label))"

definition require_iso_date :: "json \<Rightarrow> string \<Rightarrow> unit res" where
  "require_iso_date v label = seq_checks
     [require_nonempty_string v label,
      require (date_shape (str_of v)) (ValueError (label @ '' must use YYYY-MM-DD format'')),
      require (date_fromisoformat (str_of v) \<noteq> None)
        (ValueError (label @ '' must be an ISO calendar date''))]"

definition require_bounded_list :: "json \<Rightarrow> string \<Rightarrow> nat \<Rightarrow> unit res" where
  "require_bounded_list v label maximum = seq_checks
     [require (is_list v) (ValueError (label @ '' must be a list'')),
      require (length (list_of v) \<le> maximum)
        (ValueError (label @ '' exceeds maximum of '' @ show_nat maximum @ '' items''))]"

definition require_string_list :: "json \<Rightarrow> string \<Rightarrow> nat \<Rightarrow> unit res" where
  "require_string_list v label maximum = seq_checks
     [require (is_list v) (ValueError (label @ '' must be a list of non-empty strings'')),
      require (length (list_of v) \<le> maximum)
        (ValueError (label @ '' exceeds maximum of '' @ show_nat maximum @ '' items'')),
      require (list_all nonblank_str (list_of v))
        (ValueError (label @ '' must be a list of non-empty strings''))]"

definition reject_normalized_duplicates :: "runtime \<Rightarrow> string list \<Rightarrow> string \<Rightarrow> unit res" where
  "reject_normalized_duplicates R values label =
     require (distinct (map (normalized_identity R) values))
       (ValueError (label @ '' contains duplicate normalized identities''))"

section \<open>Lemmas\<close>

named_theorems check_simps \<open>when a check of the loader passes\<close>

lemma require_nonempty_string_Inr [check_simps]:
  "require_nonempty_string v label = Inr u \<longleftrightarrow> nonblank_str v"
  by (simp add: require_nonempty_string_def)

lemma require_enum_Inr [check_simps]: "require_enum v label allowed = Inr u \<longleftrightarrow> str_in v allowed"
  by (simp add: require_enum_def)

lemma require_iso_date_Inr [check_simps]:
  "require_iso_date v label = Inr u \<longleftrightarrow>
     nonblank_str v \<and> date_shape (str_of v) \<and> date_fromisoformat (str_of v) \<noteq> None"
  by (simp add: require_iso_date_def check_simps)

lemma require_bounded_list_Inr [check_simps]:
  "require_bounded_list v label n = Inr u \<longleftrightarrow> is_list v \<and> length (list_of v) \<le> n"
  by (simp add: require_bounded_list_def)

lemma require_string_list_Inr [check_simps]:
  "require_string_list v label n = Inr u \<longleftrightarrow>
     is_list v \<and> length (list_of v) \<le> n \<and> list_all nonblank_str (list_of v)"
  by (simp add: require_string_list_def)

lemma reject_normalized_duplicates_Inr [check_simps]:
  "reject_normalized_duplicates R vs label = Inr u \<longleftrightarrow> distinct (map (normalized_identity R) vs)"
  by (simp add: reject_normalized_duplicates_def)

lemma parse_rfc3339_utc_Inr:
  "parse_rfc3339_utc v label = Inr t \<longleftrightarrow>
     (\<exists>s. v = JStr s \<and> rfc3339_shape s \<and> datetime_fromisoformat s = Some t)"
  by (cases v) (auto simp: parse_rfc3339_utc_def Let_def split: option.splits)

lemma nonblank_str_list:
  assumes "list_all nonblank_str xs"
  obtains ss where "xs = map JStr ss" and "list_all (\<lambda>s. \<not> is_blank s) ss"
proof -
  have "xs = map JStr (map str_of xs)"
    using assms by (induction xs) (auto elim: nonblank_strE)
  moreover have "list_all (\<lambda>s. \<not> is_blank s) (map str_of xs)"
    using assms by (induction xs) (auto elim: nonblank_strE)
  ultimately show ?thesis using that by blast
qed

lemma identity_of_Inr: "identity_of R v = Inr k \<longleftrightarrow> (\<exists>s. v = JStr s \<and> k = normalized_identity R s)"
  by (cases v) auto

lemma relationship_key_of_str [simp]:
  "relationship_key_of R (JStr p) (JStr c) = Inr (relationship_key R p c)"
  by (simp add: relationship_key_of_def relationship_key_def)

end
