(* ===== verification/Loader_Validate.thy ===== *)
theory Loader_Validate
  imports Loader_Core
begin

text \<open>
  \<open>validate_case\<close> of \<open>loader.py\<close>: the structural contract of a v0.4 case, in the order in
  which the source checks it, one definition per part of the function.  A loop that
  remembers the keys it has seen is a recursion with the seen keys as an argument.
\<close>

section \<open>Migration markers\<close>

definition validate_relationship_migration :: "json \<Rightarrow> unit res" where
  "validate_relationship_migration migration = when_check (migration \<noteq> JNull) (seq_checks
     [require (is_dict migration) (ValueError ''relationship_migration must be an object''),
      require (has_keys [''source_schema_version'', ''target_schema_version'', ''status'']
          (dict_of migration))
        (ValueError ''relationship_migration missing required keys: ''),
      require (dget ''source_schema_version'' (dict_of migration) = JStr LEGACY_CASE_SCHEMA_VERSION)
        (ValueError ''relationship_migration has unsupported source_schema_version''),
      require (dget ''target_schema_version'' (dict_of migration)
          = JStr RELATIONSHIP_CASE_SCHEMA_VERSION)
        (ValueError ''relationship_migration target_schema_version is not v0.2''),
      require_enum (dget ''status'' (dict_of migration)) ''relationship_migration status''
        RELATIONSHIP_MIGRATION_STATUSES,
      when_check (dget ''status'' (dict_of migration) = JStr ''DETERMINISTIC_1X1'')
        (require (dget ''inference_scope'' (dict_of migration) = JStr ''EVENT_SCOPE_ONLY'')
          (ValueError ''deterministic legacy migration must be explicitly limited to EVENT_SCOPE_ONLY''))])"

definition validate_reference_migration :: "json \<Rightarrow> unit res" where
  "validate_reference_migration migration = when_check (migration \<noteq> JNull) (seq_checks
     [require (is_dict migration) (ValueError ''reference_migration must be an object''),
      require (has_keys [''source_schema_version'', ''target_schema_version'', ''status'',
          ''inference_scope'', ''document_ids''] (dict_of migration))
        (ValueError ''reference_migration missing required keys: ''),
      require (dget ''source_schema_version'' (dict_of migration)
          = JStr RELATIONSHIP_CASE_SCHEMA_VERSION)
        (ValueError ''reference_migration has unsupported source_schema_version''),
      require (dget ''target_schema_version'' (dict_of migration)
          = JStr CONTROLLED_REFERENCE_CASE_SCHEMA_VERSION)
        (ValueError ''reference_migration target_schema_version is not v0.3''),
      require_enum (dget ''status'' (dict_of migration)) ''reference_migration status''
        REFERENCE_MIGRATION_STATUSES,
      require (dget ''inference_scope'' (dict_of migration) = JStr ''NONE'')
        (ValueError ''legacy references must not infer identity''),
      require_string_list (dget ''document_ids'' (dict_of migration))
        ''reference_migration document_ids'' MAX_DOCUMENTS])"

definition validate_validation_migration :: "json \<Rightarrow> unit res" where
  "validate_validation_migration migration = when_check (migration \<noteq> JNull) (seq_checks
     [require (is_dict migration) (ValueError ''validation_migration must be an object''),
      require (has_keys [''source_schema_version'', ''target_schema_version'', ''status'',
          ''inference_scope'', ''evidence_ids''] (dict_of migration))
        (ValueError ''validation_migration missing required keys: ''),
      require (dget ''source_schema_version'' (dict_of migration)
            = JStr CONTROLLED_REFERENCE_CASE_SCHEMA_VERSION
          \<and> dget ''target_schema_version'' (dict_of migration) = JStr CASE_SCHEMA_VERSION)
        (ValueError ''validation_migration version chain must be v0.3 to v0.4''),
      require_enum (dget ''status'' (dict_of migration)) ''validation_migration status''
        VALIDATION_MIGRATION_STATUSES,
      require (dget ''inference_scope'' (dict_of migration) = JStr ''NONE'')
        (ValueError ''legacy validation evidence must not infer a subject''),
      require_string_list (dget ''evidence_ids'' (dict_of migration))
        ''validation_migration evidence_ids'' MAX_VALIDATION_EVIDENCE_ITEMS])"

section \<open>The event\<close>

definition indexed :: "string \<Rightarrow> nat \<Rightarrow> string \<Rightarrow> string" where
  "indexed base i suffix = base @ ''['' @ show_nat i @ '']'' @ suffix"

text \<open>The normalised pair of a link, of a characteristic row or of a risk row.\<close>

definition pair_key :: "runtime \<Rightarrow> dict \<Rightarrow> string \<times> string" where
  "pair_key R d = relationship_key R (str_of (dget ''process_step_id'' d))
                    (str_of (dget ''characteristic_id'' d))"

fun validate_links :: "runtime \<Rightarrow> string list \<Rightarrow> string list \<Rightarrow> nat \<Rightarrow> (string \<times> string) list
    \<Rightarrow> json list \<Rightarrow> unit res" where
  "validate_links R step_keys char_keys i seen [] = Inr ()"
| "validate_links R step_keys char_keys i seen (link # links) = seq_checks
     [require (is_dict link)
        (ValueError (indexed ''event affected_links'' i '' must be an object'')),
      require (has_keys [''process_step_id'', ''characteristic_id''] (dict_of link))
        (ValueError (indexed ''event affected_links'' i '' missing required keys: '')),
      require_nonempty_string (dget ''process_step_id'' (dict_of link))
        (indexed ''event affected_links'' i ''.process_step_id''),
      require_nonempty_string (dget ''characteristic_id'' (dict_of link))
        (indexed ''event affected_links'' i ''.characteristic_id''),
      require (pair_key R (dict_of link) \<notin> set seen)
        (ValueError ''event affected_links contains duplicate normalized pairs''),
      require (fst (pair_key R (dict_of link)) \<in> set step_keys
          \<and> snd (pair_key R (dict_of link)) \<in> set char_keys)
        (ValueError ''event affected_links must reference identities declared in affected_process_steps and affected_characteristics''),
      validate_links R step_keys char_keys (Suc i) (pair_key R (dict_of link) # seen) links]"

definition identities :: "runtime \<Rightarrow> json \<Rightarrow> string list" where
  "identities R v = map (normalized_identity R) (map str_of (list_of v))"

definition validate_affected_links :: "runtime \<Rightarrow> dict \<Rightarrow> unit res" where
  "validate_affected_links R event =
     when_check (dget ''affected_links'' event \<noteq> JNull) (seq_checks
       [require_bounded_list (dget ''affected_links'' event) ''event affected_links''
          MAX_EVENT_AFFECTED_ITEMS,
        validate_links R (identities R (dget ''affected_process_steps'' event))
          (identities R (dget ''affected_characteristics'' event)) 0 []
          (list_of (dget ''affected_links'' event))])"

definition REQUIREMENT_KEYS :: "string list" where
  "REQUIREMENT_KEYS = [''evidence_id'', ''evidence_type'', ''claim'', ''issuer_id'',
     ''issuer_role'', ''valid_from'', ''valid_until'']"

definition validate_requirement :: "nat \<Rightarrow> json \<Rightarrow> unit res" where
  "validate_requirement i requirement = seq_checks
     [require (is_dict requirement \<and> keys_exactly REQUIREMENT_KEYS (dict_of requirement))
        (ValueError (indexed ''validation_plan required_evidence'' i '' has unsupported shape'')),
      seq_checks (map (\<lambda>key. require_nonempty_string (dget key (dict_of requirement))
          (indexed ''validation_plan required_evidence'' i (''.'' @ key))) REQUIREMENT_KEYS),
      rbind (parse_rfc3339_utc (dget ''valid_from'' (dict_of requirement))
          (indexed ''validation_plan required_evidence'' i ''.valid_from'')) (\<lambda>valid_from.
      rbind (parse_rfc3339_utc (dget ''valid_until'' (dict_of requirement))
          (indexed ''validation_plan required_evidence'' i ''.valid_until'')) (\<lambda>valid_until.
      require (\<not> valid_until < valid_from)
        (ValueError ''validation_plan valid_until precedes valid_from'')))]"

definition requirement_ids :: "json \<Rightarrow> string list" where
  "requirement_ids v = map (\<lambda>r. str_of (dget ''evidence_id'' (dict_of r))) (list_of v)"

definition validate_validation_plan :: "runtime \<Rightarrow> json \<Rightarrow> json \<Rightarrow> unit res" where
  "validate_validation_plan R validation_migration plan =
     (if plan = JNull then
        require (validation_migration \<noteq> JNull)
          (ValueError ''native v0.4 event requires validation_plan'')
      else seq_checks
        [require (is_dict plan \<and> keys_exactly [''contract_version'', ''required_evidence'']
            (dict_of plan)) (ValueError ''event validation_plan has unsupported shape''),
         require (dget ''contract_version'' (dict_of plan) = JStr ''qualityci-validation-plan-0.1'')
           (ValueError ''event validation_plan contract version is unsupported''),
         require_bounded_list (dget ''required_evidence'' (dict_of plan))
           ''event validation_plan required_evidence'' MAX_VALIDATION_EVIDENCE_ITEMS,
         require (list_of (dget ''required_evidence'' (dict_of plan)) \<noteq> [])
           (ValueError ''event validation_plan required_evidence must not be empty''),
         check_all validate_requirement (list_of (dget ''required_evidence'' (dict_of plan))),
         reject_normalized_duplicates R (requirement_ids (dget ''required_evidence'' (dict_of plan)))
           ''validation_plan required evidence_id''])"

definition validate_evidence_item :: "nat \<Rightarrow> json \<Rightarrow> unit res" where
  "validate_evidence_item i ev = seq_checks
     [require (has_keys [''evidence_id'', ''result'', ''locator''] (dict_of ev))
        (ValueError (indexed ''validation_evidence'' i '' missing required keys: '')),
      require_nonempty_string (dget ''evidence_id'' (dict_of ev))
        (indexed ''validation_evidence'' i ''.evidence_id''),
      require_enum (dget ''result'' (dict_of ev)) (indexed ''validation_evidence'' i ''.result'')
        VALIDATION_RESULTS,
      require (is_str (dget ''locator'' (dict_of ev)))
        (ValueError (indexed ''validation_evidence'' i ''.locator must be a string'')),
      require (dhas ''summary'' (dict_of ev) \<longrightarrow> is_str (dget ''summary'' (dict_of ev)))
        (ValueError (indexed ''validation_evidence'' i ''.summary must be a string''))]"

definition validate_validation_evidence :: "runtime \<Rightarrow> json \<Rightarrow> unit res" where
  "validate_validation_evidence R evidence = when_check (evidence \<noteq> JNull) (seq_checks
     [require_bounded_list evidence ''event validation_evidence'' MAX_VALIDATION_EVIDENCE_ITEMS,
      require (list_all is_dict (list_of evidence))
        (ValueError ''event validation_evidence must be a list of objects''),
      check_all validate_evidence_item (list_of evidence),
      reject_normalized_duplicates R (requirement_ids evidence)
        ''duplicate validation evidence identity''])"

definition approval_subject_of :: "dict \<Rightarrow> string \<times> string" where
  "approval_subject_of d = (str_of (dget ''role'' d), str_of (dget ''event_revision'' d))"

fun validate_approval_items :: "nat \<Rightarrow> (string \<times> string) list \<Rightarrow> json list \<Rightarrow> unit res" where
  "validate_approval_items i seen [] = Inr ()"
| "validate_approval_items i seen (a # as) = seq_checks
     [require (has_keys [''role'', ''decision'', ''event_revision''] (dict_of a))
        (ValueError (indexed ''event approvals'' i '' missing required keys: '')),
      require_nonempty_string (dget ''role'' (dict_of a)) (indexed ''event approvals'' i ''.role''),
      require_enum (dget ''decision'' (dict_of a)) (indexed ''event approvals'' i ''.decision'')
        APPROVAL_DECISIONS,
      require_nonempty_string (dget ''event_revision'' (dict_of a))
        (indexed ''event approvals'' i ''.event_revision''),
      require (approval_subject_of (dict_of a) \<notin> set seen)
        (ValueError ''event approvals must have a unique role + event_revision subject: ''),
      when_check (dhas ''approved_at'' (dict_of a))
        (require_iso_date (dget ''approved_at'' (dict_of a))
          (indexed ''event approvals'' i ''.approved_at'')),
      require (dhas ''comment'' (dict_of a) \<longrightarrow> is_str (dget ''comment'' (dict_of a)))
        (ValueError (indexed ''event approvals'' i ''.comment must be a string'')),
      validate_approval_items (Suc i) (approval_subject_of (dict_of a) # seen) as]"

definition validate_approvals :: "json \<Rightarrow> unit res" where
  "validate_approvals approvals = when_check (approvals \<noteq> JNull) (seq_checks
     [require_bounded_list approvals ''event approvals'' MAX_APPROVAL_ITEMS,
      require (list_all is_dict (list_of approvals))
        (ValueError ''event approvals must be a list of objects''),
      validate_approval_items 0 [] (list_of approvals)])"

definition validate_event_header :: "runtime \<Rightarrow> json \<Rightarrow> unit res" where
  "validate_event_header R event = seq_checks
     [require (is_dict event) (ValueError ''event must be an object''),
      require (has_keys [''event_id'', ''event_type'', ''revision'', ''risk_level'',
          ''affected_process_steps'', ''affected_characteristics''] (dict_of event))
        (ValueError ''event missing required keys: ''),
      require_nonempty_string (dget ''event_id'' (dict_of event)) ''event_id'',
      require_nonempty_string (dget ''revision'' (dict_of event)) ''event revision'',
      require_enum (dget ''event_type'' (dict_of event)) ''event_type'' EVENT_TYPES,
      require_enum (dget ''risk_level'' (dict_of event)) ''risk_level'' RISK_LEVELS,
      require_string_list (dget ''affected_process_steps'' (dict_of event))
        ''event affected_process_steps'' MAX_EVENT_AFFECTED_ITEMS,
      reject_normalized_duplicates R
        (map str_of (list_of (dget ''affected_process_steps'' (dict_of event))))
        ''event affected_process_steps'',
      require_string_list (dget ''affected_characteristics'' (dict_of event))
        ''event affected_characteristics'' MAX_EVENT_AFFECTED_ITEMS,
      reject_normalized_duplicates R
        (map str_of (list_of (dget ''affected_characteristics'' (dict_of event))))
        ''event affected_characteristics'']"

definition validate_event :: "runtime \<Rightarrow> json \<Rightarrow> json \<Rightarrow> unit res" where
  "validate_event R validation_migration event = seq_checks
     [validate_event_header R event,
      validate_affected_links R (dict_of event),
      when_check (dhas ''approved_at'' (dict_of event))
        (require_iso_date (dget ''approved_at'' (dict_of event)) ''event approved_at''),
      require (dhas ''change_summary'' (dict_of event)
          \<longrightarrow> is_str (dget ''change_summary'' (dict_of event)))
        (ValueError ''event change_summary must be a string''),
      validate_validation_plan R validation_migration (dget ''validation_plan'' (dict_of event)),
      validate_validation_evidence R (dget ''validation_evidence'' (dict_of event)),
      validate_approvals (dget ''approvals'' (dict_of event))]"

section \<open>The documents\<close>

definition doc_label :: "dict \<Rightarrow> string \<Rightarrow> string" where
  "doc_label doc suffix = str_of (dget ''document_id'' doc) @ suffix"

definition validate_waiver :: "dict \<Rightarrow> json \<Rightarrow> unit res" where
  "validate_waiver doc waiver = seq_checks
     [require (is_dict waiver) (ValueError (doc_label doc '' approved_waiver must be an object'')),
      seq_checks (map (\<lambda>key. require (dhas key (dict_of waiver) \<longrightarrow> is_str (dget key (dict_of waiver)))
          (ValueError (doc_label doc ('' waiver '' @ key @ '' must be a string''))))
        [''waiver_id'', ''document_id'', ''event_revision'', ''scope'', ''locator'']),
      require (dhas ''approved_roles'' (dict_of waiver) \<longrightarrow>
          is_list (dget ''approved_roles'' (dict_of waiver))
          \<and> list_all is_str (list_of (dget ''approved_roles'' (dict_of waiver))))
        (ValueError (doc_label doc '' waiver approved_roles must be a list of strings'')),
      when_check (dhas ''valid_from'' (dict_of waiver))
        (require_iso_date (dget ''valid_from'' (dict_of waiver)) (doc_label doc '' waiver valid_from'')),
      when_check (dhas ''valid_until'' (dict_of waiver))
        (require_iso_date (dget ''valid_until'' (dict_of waiver)) (doc_label doc '' waiver valid_until''))]"

definition validate_document_header :: "dict \<Rightarrow> unit res" where
  "validate_document_header doc = seq_checks
     [require (has_keys [''document_id'', ''document_type'', ''revision'', ''status'', ''owner'',
          ''revision_date'', ''source_hash'', ''fields''] doc)
        (ValueError (doc_label doc '' missing required keys: '')),
      require_nonempty_string (dget ''document_id'' doc) ''document document_id'',
      require_nonempty_string (dget ''revision'' doc) ''document revision'',
      require_nonempty_string (dget ''owner'' doc) ''document owner'',
      require_nonempty_string (dget ''source_hash'' doc) (doc_label doc '' source_hash''),
      require (py_len (str_of (dget ''source_hash'' doc)) \<le> MAX_SOURCE_ANCHOR_CHARACTERS)
        (ValueError (doc_label doc '' source_hash exceeds maximum of 256 characters'')),
      require_iso_date (dget ''revision_date'' doc) (doc_label doc '' revision_date''),
      require_enum (dget ''document_type'' doc) ''document_type'' REQUIRED_DOCUMENT_TYPES,
      require_enum (dget ''status'' doc) ''document status'' DOCUMENT_STATUSES,
      require (is_dict (dget ''fields'' doc)) (ValueError (doc_label doc '' fields must be an object'')),
      when_check (dhas ''approved_waiver'' doc) (validate_waiver doc (dget ''approved_waiver'' doc))]"

definition doc_fields :: "dict \<Rightarrow> dict" where
  "doc_fields doc = dict_of (dget ''fields'' doc)"

definition validate_process_steps :: "runtime \<Rightarrow> dict \<Rightarrow> unit res" where
  "validate_process_steps R doc =
     when_check (dget ''process_steps'' (doc_fields doc) \<noteq> JNull) (seq_checks
       [require_string_list (dget ''process_steps'' (doc_fields doc)) (doc_label doc '' process_steps'')
          MAX_PROCESS_STEPS_PER_DOCUMENT,
        reject_normalized_duplicates R (map str_of (list_of (dget ''process_steps'' (doc_fields doc))))
          (doc_label doc '' process_steps'')])"

text \<open>
  The first loop over the characteristics: identities, relationship pairs and control
  identifiers.  \<open>legacy\<close> is the source's \<open>allow_legacy_missing\<close>.
\<close>

fun validate_characteristic_keys :: "runtime \<Rightarrow> dict \<Rightarrow> bool \<Rightarrow> string list \<Rightarrow> nat
    \<Rightarrow> (string \<times> string) list \<Rightarrow> string list \<Rightarrow> json list \<Rightarrow> unit res" where
  "validate_characteristic_keys R doc legacy step_keys i seen controls [] = Inr ()"
| "validate_characteristic_keys R doc legacy step_keys i seen controls (c # cs) = seq_checks
     [require_nonempty_string (dget ''characteristic_id'' (dict_of c))
        (doc_label doc (indexed '' characteristics'' i ''.characteristic_id'')),
      (if dget ''process_step_id'' (dict_of c) = JNull \<and> legacy
       then validate_characteristic_keys R doc legacy step_keys (Suc i) seen controls cs
       else seq_checks
        [require_nonempty_string (dget ''process_step_id'' (dict_of c))
           (doc_label doc (indexed '' characteristics'' i ''.process_step_id'')),
         require (pair_key R (dict_of c) \<notin> set seen)
           (ValueError (doc_label doc '' contains duplicate characteristic_id relationship pairs after normalized process_step_id + characteristic_id'')),
         require (fst (pair_key R (dict_of c)) \<in> set step_keys)
           (ValueError (doc_label doc '' characteristic relationship references a process_step_id absent from that document's process_steps'')),
         (if dget ''document_type'' doc = JStr ''CONTROL_PLAN'' then seq_checks
            [require_nonempty_string (dget ''control_id'' (dict_of c))
               (doc_label doc (indexed '' characteristics'' i ''.control_id'')),
             require (normalized_identity R (str_of (dget ''control_id'' (dict_of c))) \<notin> set controls)
               (ValueError (doc_label doc '' contains duplicate normalized control_id values'')),
             validate_characteristic_keys R doc legacy step_keys (Suc i)
               (pair_key R (dict_of c) # seen)
               (normalized_identity R (str_of (dget ''control_id'' (dict_of c))) # controls) cs]
          else validate_characteristic_keys R doc legacy step_keys (Suc i)
               (pair_key R (dict_of c) # seen) controls cs)])]"

definition validate_spec_number :: "dict \<Rightarrow> dict \<Rightarrow> string \<Rightarrow> unit res" where
  "validate_spec_number doc spec key = when_check (dhas key spec)
     (rbind (finite_number (dget key spec)) (\<lambda>b. require b
        (ValueError (doc_label doc ('' specification '' @ key @ '' must be a finite number'')))))"

definition validate_specification :: "dict \<Rightarrow> json \<Rightarrow> unit res" where
  "validate_specification doc spec = when_check (spec \<noteq> JNull) (seq_checks
     [require (is_dict spec) (ValueError (doc_label doc '' specification must be an object'')),
      validate_spec_number doc (dict_of spec) ''target'',
      validate_spec_number doc (dict_of spec) ''minimum'',
      validate_spec_number doc (dict_of spec) ''maximum'',
      require (dhas ''unit'' (dict_of spec) \<longrightarrow> is_str (dget ''unit'' (dict_of spec)))
        (ValueError (doc_label doc '' specification unit must be a string''))])"

text \<open>The second loop: locators, specifications and control texts.\<close>

definition validate_characteristic_values :: "dict \<Rightarrow> nat \<Rightarrow> json \<Rightarrow> unit res" where
  "validate_characteristic_values doc i c = seq_checks
     [require_nonempty_string (dget ''locator'' (dict_of c))
        (doc_label doc ('' characteristic '' @ str_of (dget ''characteristic_id'' (dict_of c)) @ '' locator'')),
      validate_specification doc (dget ''specification'' (dict_of c)),
      seq_checks (map (\<lambda>key. require (dhas key (dict_of c) \<longrightarrow> is_str (dget key (dict_of c)))
          (ValueError (doc_label doc ('' characteristic '' @ key @ '' must be a string''))))
        [''control_method'', ''frequency'', ''reaction_plan''])]"

definition step_identities :: "runtime \<Rightarrow> dict \<Rightarrow> string list" where
  "step_identities R doc = identities R (dget ''process_steps'' (doc_fields doc))"

definition validate_characteristics :: "runtime \<Rightarrow> bool \<Rightarrow> dict \<Rightarrow> unit res" where
  "validate_characteristics R legacy doc =
     (let cs = dget_or ''characteristics'' (JList []) (doc_fields doc) in seq_checks
       [require_bounded_list cs (doc_label doc '' characteristics'') MAX_CHARACTERISTICS_PER_DOCUMENT,
        require (list_all is_dict (list_of cs))
          (ValueError (doc_label doc '' characteristics must be a list of objects'')),
        validate_characteristic_keys R doc legacy (step_identities R doc) 0 [] [] (list_of cs),
        check_all (validate_characteristic_values doc) (list_of cs)])"

fun validate_risk_items :: "runtime \<Rightarrow> dict \<Rightarrow> bool \<Rightarrow> string list \<Rightarrow> nat \<Rightarrow> string list
    \<Rightarrow> json list \<Rightarrow> unit res" where
  "validate_risk_items R doc legacy step_keys i seen [] = Inr ()"
| "validate_risk_items R doc legacy step_keys i seen (r # rs) = seq_checks
     [require (has_keys [''failure_mode_id'', ''characteristic_id'', ''special_characteristic'',
          ''locator''] (dict_of r))
        (ValueError (doc_label doc (indexed '' risks'' i '' missing required keys: ''))),
      require_nonempty_string (dget ''failure_mode_id'' (dict_of r))
        (doc_label doc (indexed '' risks'' i ''.failure_mode_id'')),
      require_nonempty_string (dget ''characteristic_id'' (dict_of r))
        (doc_label doc (indexed '' risks'' i ''.characteristic_id'')),
      require_nonempty_string (dget ''locator'' (dict_of r))
        (doc_label doc (indexed '' risks'' i ''.locator'')),
      require (normalized_identity R (str_of (dget ''failure_mode_id'' (dict_of r))) \<notin> set seen)
        (ValueError (doc_label doc '' contains duplicate normalized failure_mode_id values'')),
      when_check (dget ''process_step_id'' (dict_of r) \<noteq> JNull \<or> \<not> legacy) (seq_checks
        [require_nonempty_string (dget ''process_step_id'' (dict_of r))
           (doc_label doc (indexed '' risks'' i ''.process_step_id'')),
         require (normalized_identity R (str_of (dget ''process_step_id'' (dict_of r))) \<in> set step_keys)
           (ValueError (doc_label doc '' risk relationship references a process_step_id absent from that document's process_steps''))]),
      require (is_bool (dget ''special_characteristic'' (dict_of r)))
        (ValueError (doc_label doc (indexed '' risks'' i ''.special_characteristic must be boolean''))),
      require (dhas ''effect'' (dict_of r) \<longrightarrow> is_str (dget ''effect'' (dict_of r)))
        (ValueError (doc_label doc (indexed '' risks'' i ''.effect must be a string''))),
      validate_risk_items R doc legacy step_keys (Suc i)
        (normalized_identity R (str_of (dget ''failure_mode_id'' (dict_of r))) # seen) rs]"

definition validate_risks :: "runtime \<Rightarrow> bool \<Rightarrow> dict \<Rightarrow> unit res" where
  "validate_risks R legacy doc =
     (let rs = dget_or ''risks'' (JList []) (doc_fields doc) in seq_checks
       [require_bounded_list rs (doc_label doc '' risks'') MAX_RISKS_PER_DOCUMENT,
        require (list_all is_dict (list_of rs))
          (ValueError (doc_label doc '' risks must be a list of objects'')),
        validate_risk_items R doc legacy (step_identities R doc) 0 [] (list_of rs)])"

definition validate_reference_version :: "dict \<Rightarrow> unit res" where
  "validate_reference_version doc =
     (if dget ''document_type'' doc = JStr ''INSPECTION_RECORD'' then
        require (dget ''reference_contract_version'' doc = JStr CONTROLLED_REFERENCE_CONTRACT_VERSION)
          (ValueError (doc_label doc '' reference_contract_version must be ''))
      else require (dget ''reference_contract_version'' doc = JNull)
          (ValueError (doc_label doc '' reference_contract_version is only valid for INSPECTION_RECORD'')))"

definition validate_legacy_references :: "runtime \<Rightarrow> json \<Rightarrow> dict \<Rightarrow> json \<Rightarrow> unit res" where
  "validate_legacy_references R reference_migration doc revision_only = seq_checks
     [require (reference_migration \<noteq> JNull)
        (ValueError (doc_label doc '' LEGACY_UNATTESTED references require an explicit reference_migration marker'')),
      require (is_dict revision_only
          \<and> list_all (\<lambda>kv. \<not> is_blank (fst kv) \<and> nonblank_str (snd kv)) (dict_of revision_only))
        (ValueError (doc_label doc '' LEGACY_UNATTESTED references must map roles to non-empty revision strings'')),
      reject_normalized_duplicates R (map fst (dict_of revision_only))
        (doc_label doc '' legacy reference roles'')]"

definition validate_reference_identity :: "dict \<Rightarrow> string \<times> json \<Rightarrow> unit res" where
  "validate_reference_identity doc ri = seq_checks
     [require (is_dict (snd ri))
        (ValueError (doc_label doc ('' native reference '' @ fst ri @ '' must be an identity object''))),
      require (keys_exactly REFERENCE_IDENTITY_KEYS (dict_of (snd ri)))
        (ValueError (doc_label doc ('' native reference '' @ fst ri @ '' must contain exactly ''))),
      seq_checks (map (\<lambda>key. require_nonempty_string (dget key (dict_of (snd ri)))
          (doc_label doc ('' reference '' @ fst ri @ ''.'' @ key))) REFERENCE_IDENTITY_KEYS),
      require (is_lower_sha (str_of (dget ''source_hash'' (dict_of (snd ri)))))
        (ValueError (doc_label doc ('' reference '' @ fst ri @ ''.source_hash must be a lowercase SHA-256'')))]"

definition validate_references :: "runtime \<Rightarrow> json \<Rightarrow> dict \<Rightarrow> unit res" where
  "validate_references R reference_migration doc =
     (let refs = dget ''references'' (doc_fields doc) in
      when_check (refs \<noteq> JNull) (seq_checks
       [require (is_dict refs) (ValueError (doc_label doc '' references must be an object'')),
        require (list_all (\<lambda>kv. \<not> is_blank (fst kv)) (dict_of refs))
          (ValueError (doc_label doc '' reference roles must be non-empty strings'')),
        reject_normalized_duplicates R (map fst (dict_of refs)) (doc_label doc '' reference roles''),
        (if keys_exactly [''LEGACY_UNATTESTED''] (dict_of refs)
         then validate_legacy_references R reference_migration doc
                (dget ''LEGACY_UNATTESTED'' (dict_of refs))
         else seq_checks
          [require (\<not> dhas ''LEGACY_UNATTESTED'' (dict_of refs))
             (ValueError (doc_label doc '' references cannot mix legacy and native identities'')),
           seq_checks (map (validate_reference_identity doc) (dict_of refs))])]))"

text \<open>One turn of \<open>for doc in documents\<close>.\<close>

definition validate_document :: "runtime \<Rightarrow> json \<Rightarrow> json \<Rightarrow> dict \<Rightarrow> unit res" where
  "validate_document R migration reference_migration doc = seq_checks
     [validate_document_header doc,
      validate_process_steps R doc,
      validate_characteristics R (migration \<noteq> JNull) doc,
      validate_risks R (migration \<noteq> JNull) doc,
      validate_reference_version doc,
      validate_references R reference_migration doc]"

definition validate_document_ids :: "runtime \<Rightarrow> json list \<Rightarrow> unit res" where
  "validate_document_ids R docs = seq_checks
     [check_all (\<lambda>i d. require_nonempty_string (dget ''document_id'' (dict_of d))
        (indexed ''documents'' i ''.document_id'')) docs,
      reject_normalized_duplicates R (map (\<lambda>d. str_of (dget ''document_id'' (dict_of d))) docs)
        ''documents document_id'']"

definition is_approved_type :: "string \<Rightarrow> dict \<Rightarrow> bool" where
  "is_approved_type t doc \<longleftrightarrow>
     dget ''document_type'' doc = JStr t \<and> dget ''status'' doc = JStr ''APPROVED''"

definition validate_approved_counts :: "dict list \<Rightarrow> unit res" where
  "validate_approved_counts docs =
     require (list_all (\<lambda>t. length (filter (is_approved_type t) docs) = 1) REQUIRED_DOCUMENT_TYPES)
       (ValueError ''every required document_type must have exactly one APPROVED document: '')"

definition validate_documents :: "runtime \<Rightarrow> json \<Rightarrow> json \<Rightarrow> json \<Rightarrow> unit res" where
  "validate_documents R migration reference_migration docs = seq_checks
     [require_bounded_list docs ''documents'' MAX_DOCUMENTS,
      require (list_all is_dict (list_of docs)) (ValueError ''every document must be an object''),
      validate_document_ids R (list_of docs),
      check_all (\<lambda>_ d. validate_document R migration reference_migration (dict_of d)) (list_of docs),
      validate_approved_counts (map dict_of (list_of docs))]"

section \<open>The whole case\<close>

definition validate_case_header :: "json \<Rightarrow> unit res" where
  "validate_case_header c = seq_checks
     [require (is_dict c) (ValueError ''case must be an object''),
      require (has_keys [''schema_version'', ''case_id'', ''synthetic_for_competition'', ''event'',
          ''documents''] (dict_of c))
        (ValueError ''case missing required keys: ''),
      require (dget ''schema_version'' (dict_of c) = JStr CASE_SCHEMA_VERSION)
        (ValueError ''case schema_version must be ''),
      require (dget ''synthetic_for_competition'' (dict_of c) = JBool True)
        (ValueError ''v0.2 only accepts cases explicitly marked synthetic_for_competition=true''),
      require_nonempty_string (dget ''case_id'' (dict_of c)) ''case_id'']"

definition validate_case :: "runtime \<Rightarrow> json \<Rightarrow> unit res" where
  "validate_case R c = seq_checks
     [validate_case_header c,
      validate_relationship_migration (dget ''relationship_migration'' (dict_of c)),
      validate_reference_migration (dget ''reference_migration'' (dict_of c)),
      validate_validation_migration (dget ''validation_migration'' (dict_of c)),
      validate_event R (dget ''validation_migration'' (dict_of c)) (dget ''event'' (dict_of c)),
      validate_documents R (dget ''relationship_migration'' (dict_of c))
        (dget ''reference_migration'' (dict_of c)) (dget ''documents'' (dict_of c))]"

end
