(* ===== verification/Loader_Canonical.thy ===== *)
theory Loader_Canonical
  imports Loader_Validate
begin

text \<open>
  The canonical form of a case (\<open>canonical_case_projection\<close>, \<open>canonical_hash\<close> in
  \<open>loader.py\<close>): arrays whose order has no business meaning are sorted by normalised identity,
  and the SHA-256 of the canonical JSON text is the identity of the case.
\<close>

section \<open>Sorting the members of one array\<close>

text \<open>
  \<open>values = d.get(key)\<close>; when it is a list of the expected members it is replaced by a
  sorted copy, and left alone otherwise.
\<close>

definition sort_member :: "string \<Rightarrow> (json \<Rightarrow> bool) \<Rightarrow> (json \<Rightarrow> ('k :: linorder) res) \<Rightarrow> dict \<Rightarrow> dict res" where
  "sort_member key expected k d =
     (case dget key d of
        JList xs \<Rightarrow> (if list_all expected xs
                    then rbind (rsort_by k xs) (\<lambda>ys. Inr (dset key (JList ys) d))
                    else Inr d)
      | _ \<Rightarrow> Inr d)"

text \<open>\<open>item.get(key, "")\<close> under \<open>normalized_identity\<close>.\<close>

definition item_identity :: "runtime \<Rightarrow> string \<Rightarrow> json \<Rightarrow> string res" where
  "item_identity R key v = identity_of R (dget_or key (JStr []) (dict_of v))"

definition item_pair :: "runtime \<Rightarrow> json \<Rightarrow> (string \<times> string) res" where
  "item_pair R v = rbind (item_identity R ''process_step_id'' v) (\<lambda>p.
     rbind (item_identity R ''characteristic_id'' v) (\<lambda>c. Inr (p, c)))"

definition row_key :: "runtime \<Rightarrow> string \<Rightarrow> json \<Rightarrow> (string \<times> string \<times> string) res" where
  "row_key R last_key v = rbind (item_pair R v) (\<lambda>pc.
     rbind (item_identity R last_key v) (\<lambda>k. Inr (fst pc, snd pc, k)))"

definition approval_key :: "runtime \<Rightarrow> json \<Rightarrow> (string \<times> string) res" where
  "approval_key R v = rbind (item_identity R ''role'' v) (\<lambda>r.
     rbind (item_identity R ''event_revision'' v) (\<lambda>e. Inr (r, e)))"

text \<open>
  \<open>(normalized_identity(id), id)\<close>: the text itself breaks ties; the first component has
  already raised when the identifier is not a text.
\<close>

definition requirement_key :: "runtime \<Rightarrow> json \<Rightarrow> (string \<times> string) res" where
  "requirement_key R v = rbind (item_identity R ''evidence_id'' v)
     (\<lambda>n. Inr (n, str_of (dget_or ''evidence_id'' (JStr []) (dict_of v))))"

section \<open>The projection\<close>

definition project_plan :: "runtime \<Rightarrow> dict \<Rightarrow> dict res" where
  "project_plan R event =
     (case dget ''validation_plan'' event of
        JDict plan \<Rightarrow>
          rbind (sort_member ''required_evidence'' is_dict (requirement_key R) plan)
            (\<lambda>plan'. Inr (dset ''validation_plan'' (JDict plan') event))
      | _ \<Rightarrow> Inr event)"

definition project_event :: "runtime \<Rightarrow> dict \<Rightarrow> dict res" where
  "project_event R = rchain
     [sort_member ''affected_process_steps'' is_str (identity_of R),
      sort_member ''affected_characteristics'' is_str (identity_of R),
      sort_member ''affected_links'' is_dict (item_pair R),
      sort_member ''approvals'' is_dict (approval_key R),
      sort_member ''validation_evidence'' is_dict (item_identity R ''evidence_id''),
      project_plan R]"

definition project_fields :: "runtime \<Rightarrow> dict \<Rightarrow> dict res" where
  "project_fields R = rchain
     [sort_member ''process_steps'' is_str (identity_of R),
      sort_member ''characteristics'' is_dict (row_key R ''control_id''),
      sort_member ''risks'' is_dict (row_key R ''failure_mode_id'')]"

definition project_document :: "runtime \<Rightarrow> json \<Rightarrow> json res" where
  "project_document R v =
     (case dget ''fields'' (dict_of v) of
        JDict fs \<Rightarrow> rbind (project_fields R fs)
          (\<lambda>fs'. Inr (JDict (dset ''fields'' (JDict fs') (dict_of v))))
      | _ \<Rightarrow> Inr v)"

definition project_documents :: "runtime \<Rightarrow> dict \<Rightarrow> dict res" where
  "project_documents R c =
     (case dget ''documents'' c of
        JList docs \<Rightarrow> (if list_all is_dict docs
          then rbind (rsort_by (item_identity R ''document_id'') docs) (\<lambda>sorted_docs.
               rbind (rmap (project_document R) sorted_docs) (\<lambda>docs'.
               Inr (dset ''documents'' (JList docs') c)))
          else Inr c)
      | _ \<Rightarrow> Inr c)"

definition project_case_event :: "runtime \<Rightarrow> dict \<Rightarrow> dict res" where
  "project_case_event R c =
     (case dget ''event'' c of
        JDict event \<Rightarrow> rbind (project_event R event)
          (\<lambda>event'. Inr (dset ''event'' (JDict event') c))
      | _ \<Rightarrow> Inr c)"

definition canonical_case_projection :: "runtime \<Rightarrow> dict \<Rightarrow> dict res" where
  "canonical_case_projection R c = rbind (project_case_event R c) (project_documents R)"

section \<open>The hash\<close>

definition is_case_value :: "json \<Rightarrow> bool" where
  "is_case_value v \<longleftrightarrow> is_dict v \<and> dget ''schema_version'' (dict_of v) = JStr CASE_SCHEMA_VERSION
     \<and> is_dict (dget ''event'' (dict_of v)) \<and> is_list (dget ''documents'' (dict_of v))"

text \<open>The text whose digest is the hash: a case is validated and projected first.\<close>

definition canonical_payload :: "runtime \<Rightarrow> json \<Rightarrow> string res" where
  "canonical_payload R v =
     (if is_case_value v
      then rbind (validate_case R v) (\<lambda>_.
           rbind (canonical_case_projection R (dict_of v)) (\<lambda>c. json_dumps R (JDict c)))
      else json_dumps R v)"

definition canonical_hash :: "runtime \<Rightarrow> json \<Rightarrow> string res" where
  "canonical_hash R v = rbind (canonical_payload R v) (\<lambda>t. Inr (sha256_hex t))"

section \<open>Lemmas\<close>

lemma canonical_hash_lower:
  assumes "canonical_hash R v = Inr h"
  shows "is_lower_sha h"
  using assms by (auto simp: canonical_hash_def rbind_Inr_iff intro: sha.digest_lower_sha)

end
