(* ===== verification/Loader_Migration.thy ===== *)
theory Loader_Migration
  imports Loader_Canonical
begin

text \<open>
  Migration of legacy cases and the entry \<open>prepare_case\<close> of \<open>loader.py\<close>.  The migrations
  rewrite a deep copy; the model returns the rewritten value.
\<close>

section \<open>v0.2 to v0.3: references\<close>

definition missing_id :: "runtime \<Rightarrow> string \<Rightarrow> dict \<Rightarrow> string" where
  "missing_id R key d = py_str R (dget_or key (JStr ''<missing>'') d)"

text \<open>
  One turn of the loop over the documents: the rewritten document, and the identifier that is
  appended to \<open>legacy_documents\<close>.
\<close>

definition migrate_document_references :: "runtime \<Rightarrow> json \<Rightarrow> (json \<times> string list) res" where
  "migrate_document_references R v =
     (case v of JDict d0 \<Rightarrow>
        if dget ''document_type'' d0 \<noteq> JStr ''INSPECTION_RECORD'' then Inr (v, [])
        else
          (let d = dset ''reference_contract_version''
                 (JStr CONTROLLED_REFERENCE_CONTRACT_VERSION) d0 in
           (case dget ''fields'' d of JDict flds \<Rightarrow>
              (let refs = dget ''references'' flds in
               if refs = JNull then Inr (JDict d, [missing_id R ''document_id'' d])
               else if \<not> (is_dict refs
                   \<and> list_all (\<lambda>kv. \<not> is_blank (fst kv) \<and> is_str (snd kv)) (dict_of refs))
               then Inl (ValueError ''v0.2 controlled references must be revision-only strings; declare schema_version='qualityci-case-0.3' for native identities'')
               else Inr (JDict (dset ''fields''
                     (JDict (dset ''references'' (JDict [(''LEGACY_UNATTESTED'', refs)]) flds)) d),
                   [missing_id R ''document_id'' d]))
            | _ \<Rightarrow> Inr (JDict d, [])))
      | _ \<Rightarrow> Inr (v, []))"

definition str_list :: "string list \<Rightarrow> json" where
  "str_list ss = JList (map JStr ss)"

definition reference_migration_marker :: "string list \<Rightarrow> json" where
  "reference_migration_marker legacy_documents = JDict
     [(''source_schema_version'', JStr RELATIONSHIP_CASE_SCHEMA_VERSION),
      (''target_schema_version'', JStr CONTROLLED_REFERENCE_CASE_SCHEMA_VERSION),
      (''status'', JStr ''LEGACY_UNATTESTED''),
      (''inference_scope'', JStr ''NONE''),
      (''document_ids'', str_list legacy_documents),
      (''reason'', JStr ''revision-only references do not prove exact controlled-document or source-byte identity'')]"

definition migrate_v02_references :: "runtime \<Rightarrow> dict \<Rightarrow> dict res" where
  "migrate_v02_references R c =
     (if dget ''schema_version'' c \<noteq> JStr RELATIONSHIP_CASE_SCHEMA_VERSION
      then Inl (ValueError ''controlled-reference migration requires a v0.2 case'')
      else rbind (iter (dget_or ''documents'' (JList []) c)) (\<lambda>docs.
           rbind (rmap (migrate_document_references R) docs) (\<lambda>rs.
           let c1 = (if is_list (dget ''documents'' c)
                     then dset ''documents'' (JList (map fst rs)) c else c);
               c2 = dset ''schema_version'' (JStr CONTROLLED_REFERENCE_CASE_SCHEMA_VERSION) c1
           in Inr (dset ''reference_migration''
                (reference_migration_marker (concat (map snd rs))) c2))))"

section \<open>v0.3 to v0.4: validation evidence\<close>

definition legacy_evidence_ids :: "runtime \<Rightarrow> json \<Rightarrow> string list" where
  "legacy_evidence_ids R event =
     (case event of JDict ev \<Rightarrow>
        (case dget ''validation_evidence'' ev of
           JList items \<Rightarrow> map (\<lambda>i. missing_id R ''evidence_id'' (dict_of i)) (filter is_dict items)
         | _ \<Rightarrow> [])
      | _ \<Rightarrow> [])"

definition validation_migration_marker :: "string list \<Rightarrow> json" where
  "validation_migration_marker evidence_ids = JDict
     [(''source_schema_version'', JStr CONTROLLED_REFERENCE_CASE_SCHEMA_VERSION),
      (''target_schema_version'', JStr CASE_SCHEMA_VERSION),
      (''status'', JStr ''LEGACY_UNATTESTED''),
      (''inference_scope'', JStr ''NONE''),
      (''evidence_ids'', str_list evidence_ids),
      (''reason'', JStr ''v0.3 validation records do not bind event, scope, case subject, raw report bytes, issuer claim or time claim'')]"

definition migrate_v03_validation :: "runtime \<Rightarrow> dict \<Rightarrow> dict res" where
  "migrate_v03_validation R c =
     (if dget ''schema_version'' c \<noteq> JStr CONTROLLED_REFERENCE_CASE_SCHEMA_VERSION
      then Inl (ValueError ''validation migration requires a v0.3 case'')
      else Inr (dset ''validation_migration''
             (validation_migration_marker (legacy_evidence_ids R (dget ''event'' c)))
             (dset ''schema_version'' (JStr CASE_SCHEMA_VERSION) c)))"

section \<open>v0.1: relationships\<close>

definition row_has_v02_field :: "json \<Rightarrow> bool" where
  "row_has_v02_field v \<longleftrightarrow> is_dict v \<and>
     (dhas ''process_step_id'' (dict_of v) \<or> dhas ''control_id'' (dict_of v))"

text \<open>\<open>any(... for item in document["fields"].get(collection, []))\<close>.\<close>

definition collection_has_v02_rows :: "dict \<Rightarrow> string \<Rightarrow> bool res" where
  "collection_has_v02_rows flds collection =
     rbind (iter (dget_or collection (JList []) flds)) (\<lambda>rows.
       Inr (list_ex row_has_v02_field rows))"

definition document_has_v02_rows :: "json \<Rightarrow> bool res" where
  "document_has_v02_rows v =
     (if is_dict v \<and> is_dict (dget ''fields'' (dict_of v))
      then rany (collection_has_v02_rows (doc_fields (dict_of v))) [''risks'', ''characteristics'']
      else Inr False)"

definition single_text :: "json \<Rightarrow> bool" where
  "single_text v \<longleftrightarrow> is_list v \<and> length (list_of v) = 1 \<and> nonblank_str (hd (list_of v))"

definition relationship_marker :: "dict \<Rightarrow> json" where
  "relationship_marker extra = JDict
     ([(''source_schema_version'', JStr LEGACY_CASE_SCHEMA_VERSION),
       (''target_schema_version'', JStr RELATIONSHIP_CASE_SCHEMA_VERSION)] @ extra)"

text \<open>The event and the marker after the inference of the only possible pair, if there is one.\<close>

definition infer_single_link :: "dict \<Rightarrow> dict \<times> json" where
  "infer_single_link event =
     (let steps = dget ''affected_process_steps'' event;
          chars = dget ''affected_characteristics'' event in
      if single_text steps \<and> single_text chars then
        (let links = JList [JDict [(''process_step_id'', hd (list_of steps)),
                                   (''characteristic_id'', hd (list_of chars))]] in
         (dset ''affected_links'' links event,
          relationship_marker
            [(''status'', JStr ''DETERMINISTIC_1X1''),
             (''inference_scope'', JStr ''EVENT_SCOPE_ONLY''),
             (''inferred_affected_links'', links),
             (''reason'', JStr ''event scope has one possible pair; legacy document rows remain unbound and cannot support relationship PASS'')]))
      else (event, relationship_marker
            [(''status'', JStr ''AMBIGUOUS''),
             (''reason'', JStr ''legacy relationship scope is not uniquely inferable'')]))"

definition migrate_v01_relationships :: "runtime \<Rightarrow> dict \<Rightarrow> dict \<Rightarrow> dict res" where
  "migrate_v01_relationships R c event =
     rbind (iter (dget_or ''documents'' (JList []) c)) (\<lambda>docs.
     rbind (rany document_has_v02_rows docs) (\<lambda>has_v02_row_fields.
     if dhas ''affected_links'' event \<or> has_v02_row_fields
     then Inl (ValueError ''legacy case contains v0.2 relationship fields; declare schema_version='')
     else
       (let (event', marker) = infer_single_link event;
            c1 = dset ''event'' (JDict event') c;
            c2 = dset ''schema_version'' (JStr RELATIONSHIP_CASE_SCHEMA_VERSION) c1;
            c3 = dset ''relationship_migration'' marker c2
        in rbind (migrate_v02_references R c3) (migrate_v03_validation R))))"

definition migrate_legacy_relationships :: "runtime \<Rightarrow> json \<Rightarrow> json res" where
  "migrate_legacy_relationships R v =
     rbind (as_dict v) (\<lambda>c.
     let source_version = dget_or ''schema_version'' (JStr LEGACY_CASE_SCHEMA_VERSION) c in
     if source_version = JStr CASE_SCHEMA_VERSION then Inr v
     else if source_version = JStr CONTROLLED_REFERENCE_CASE_SCHEMA_VERSION
     then rbind (migrate_v03_validation R c) (\<lambda>c'. Inr (JDict c'))
     else if source_version = JStr RELATIONSHIP_CASE_SCHEMA_VERSION
     then rbind (migrate_v02_references R c) (\<lambda>c'.
          rbind (migrate_v03_validation R c') (\<lambda>c''. Inr (JDict c'')))
     else if source_version \<noteq> JStr LEGACY_CASE_SCHEMA_VERSION
     then Inl (ValueError ''unsupported case schema_version: '')
     else (case dget ''event'' c of
             JDict event \<Rightarrow> rbind (migrate_v01_relationships R c event) (\<lambda>c'. Inr (JDict c'))
           | _ \<Rightarrow> Inr v))"

section \<open>Preparation and lookup\<close>

definition prepare_case :: "runtime \<Rightarrow> json \<Rightarrow> json res" where
  "prepare_case R v =
     rbind (migrate_legacy_relationships R v) (\<lambda>prepared.
     rbind (validate_case R prepared) (\<lambda>_. Inr prepared))"

definition document_by_type :: "dict \<Rightarrow> string \<Rightarrow> dict option res" where
  "document_by_type c document_type =
     rbind (ditem ''documents'' c) (\<lambda>v.
     rbind (iter v) (\<lambda>docs.
     rbind (rfilter (\<lambda>d. rbind (item ''document_type'' d)
               (\<lambda>t. Inr (t = JStr document_type))) docs) (\<lambda>matches.
     rbind (rfilter (\<lambda>d. rbind (as_dict d)
               (\<lambda>e. Inr (dget ''status'' e = JStr ''APPROVED''))) matches) (\<lambda>approved.
     Inr (case approved of [d] \<Rightarrow> Some (dict_of d) | _ \<Rightarrow> None)))))"

end
