(* ===== verification/Loader_Mutation.thy ===== *)
theory Loader_Mutation
  imports Loader_Migration
begin

text \<open>
  \<open>apply_mutation\<close> and \<open>load_case\<close> of \<open>loader.py\<close>.  The source works on one deep copy of the
  case and on a table of its documents, captured before the first operation, whose entries
  are the very objects of the copy: the state of the model is the copy without its documents,
  the documents, and whether they still hang in the copy (an operation on the case can replace
  or remove the list, and later document operations then edit objects nobody returns).
\<close>

section \<open>Nested paths\<close>

text \<open>\<open>cursor[key] = value\<close> and \<open>cursor.pop(key, None)\<close> with a text \<open>key\<close>.\<close>

fun set_item :: "string \<Rightarrow> json \<Rightarrow> json \<Rightarrow> json res" where
  "set_item k v (JDict d) = Inr (JDict (dset k v d))"
| "set_item k v _ = Inl TypeError"

fun pop_item :: "string \<Rightarrow> json \<Rightarrow> json res" where
  "pop_item k (JDict d) = Inr (JDict (dpop k d))"
| "pop_item k (JList xs) = Inl TypeError"
| "pop_item k _ = Inl AttributeError"

text \<open>
  The walk \<open>for part in parts[:-1]: cursor = cursor[part]\<close> and the edit at its end; the
  containers on the way are rebuilt.
\<close>

fun edit_nested :: "(string \<Rightarrow> json \<Rightarrow> json res) \<Rightarrow> string list \<Rightarrow> json \<Rightarrow> json res" where
  "edit_nested f [] target = Inl IndexError"
| "edit_nested f [k] target = f k target"
| "edit_nested f (p # q # ps) target =
     rbind (item p target) (\<lambda>child.
     rbind (edit_nested f (q # ps) child) (\<lambda>child'. set_item p child' target))"

definition path_parts :: "string \<Rightarrow> string list" where
  "path_parts path = (if path = [] then [] else split_char CHR ''.'' path)"

definition set_nested :: "json \<Rightarrow> string \<Rightarrow> json \<Rightarrow> json res" where
  "set_nested target path v = edit_nested (\<lambda>k. set_item k v) (path_parts path) target"

definition delete_nested :: "json \<Rightarrow> string \<Rightarrow> json res" where
  "delete_nested target path = edit_nested pop_item (path_parts path) target"

text \<open>The value at a path.\<close>

fun get_nested :: "string list \<Rightarrow> json \<Rightarrow> json res" where
  "get_nested [] target = Inr target"
| "get_nested (p # ps) target = rbind (item p target) (get_nested ps)"

section \<open>The state of a mutation\<close>

record mutation_state =
  ms_case :: dict
  ms_ids :: "json list"
  ms_documents :: "json list"
  ms_attached :: bool

text \<open>
  \<open>documents = {doc["document_id"]: doc for doc in mutated["documents"]}\<close>: an identifier must
  be hashable, and the last document of an identifier wins.
\<close>

fun hashable :: "json \<Rightarrow> bool" where
  "hashable (JList _) = False"
| "hashable (JDict _) = False"
| "hashable _ = True"

definition document_key :: "json \<Rightarrow> json res" where
  "document_key doc = rbind (item ''document_id'' doc) (\<lambda>k.
     if hashable k then Inr k else Inl TypeError)"

fun last_index :: "json \<Rightarrow> json list \<Rightarrow> nat option" where
  "last_index k [] = None"
| "last_index k (x # xs) =
     (case last_index k xs of Some i \<Rightarrow> Some (Suc i)
      | None \<Rightarrow> (if py_eq k x then Some 0 else None))"

definition start_mutation :: "dict \<Rightarrow> mutation_state res" where
  "start_mutation c =
     rbind (ditem ''documents'' c) (\<lambda>v.
     rbind (iter v) (\<lambda>docs.
     rbind (rmap document_key docs) (\<lambda>ids.
     Inr \<lparr>ms_case = c, ms_ids = ids, ms_documents = docs, ms_attached = is_list v\<rparr>)))"

text \<open>The copy as the source holds it.\<close>

definition current_case :: "mutation_state \<Rightarrow> dict" where
  "current_case s =
     (if ms_attached s then dset ''documents'' (JList (ms_documents s)) (ms_case s)
      else ms_case s)"

section \<open>Operations\<close>

datatype edit = SetValue json | Delete

definition run_edit :: "edit \<Rightarrow> string \<Rightarrow> json \<Rightarrow> json res" where
  "run_edit e path target =
     (case e of SetValue v \<Rightarrow> set_nested target path v | Delete \<Rightarrow> delete_nested target path)"

datatype mutation_target = TEvent | TCase | TDocument nat

definition operation_target :: "mutation_state \<Rightarrow> dict \<Rightarrow> mutation_target res" where
  "operation_target s operation =
     (let target_name = dget_or ''target'' (JStr ''document'') operation in
      if \<not> str_in target_name [''document'', ''event'', ''case'']
      then Inl (ValueError ''unsupported mutation target: '')
      else if \<not> is_str (dget ''path'' operation) \<or> dget ''path'' operation = JStr []
      then Inl (ValueError ''mutation operation path must be a non-empty string'')
      else if target_name = JStr ''event''
      then rbind (ditem ''event'' (ms_case s)) (\<lambda>_. Inr TEvent)
      else if target_name = JStr ''case'' then Inr TCase
      else rbind (ditem ''document_id'' operation) (\<lambda>k.
           if \<not> hashable k then Inl TypeError
           else case last_index k (ms_ids s) of
                  None \<Rightarrow> Inl (ValueError ''unknown document_id in mutation: '')
                | Some i \<Rightarrow> Inr (TDocument i)))"

definition operation_edit :: "dict \<Rightarrow> edit res" where
  "operation_edit operation =
     (if dget ''op'' operation = JStr ''set'' then
        (if dhas ''value'' operation then Inr (SetValue (dget ''value'' operation))
         else Inl (ValueError ''set mutation operation requires value''))
      else if dget ''op'' operation = JStr ''delete'' then Inr Delete
      else Inl (ValueError ''unsupported mutation operation: ''))"

text \<open>
  An operation on the case whose path is exactly \<open>documents\<close> puts another value in the place
  of the list of documents, or removes it.
\<close>

definition edit_target :: "mutation_state \<Rightarrow> mutation_target \<Rightarrow> edit \<Rightarrow> string \<Rightarrow> mutation_state res" where
  "edit_target s t e path =
     (case t of
        TEvent \<Rightarrow> rbind (ditem ''event'' (ms_case s)) (\<lambda>event.
           rbind (run_edit e path event) (\<lambda>event'.
           Inr (s\<lparr>ms_case := dset ''event'' event' (ms_case s)\<rparr>)))
      | TCase \<Rightarrow> rbind (run_edit e path (JDict (current_case s))) (\<lambda>c'.
           Inr (s\<lparr>ms_case := dict_of c', ms_attached := ms_attached s \<and> path \<noteq> ''documents''\<rparr>))
      | TDocument i \<Rightarrow> rbind (run_edit e path (ms_documents s ! i)) (\<lambda>doc'.
           Inr (s\<lparr>ms_documents := (ms_documents s)[i := doc']\<rparr>)))"

definition mutation_step :: "mutation_state \<Rightarrow> json \<Rightarrow> mutation_state res" where
  "mutation_step s v =
     (case v of
        JDict operation \<Rightarrow>
          rbind (operation_target s operation) (\<lambda>t.
          rbind (operation_edit operation) (\<lambda>e.
          edit_target s t e (str_of (dget ''path'' operation))))
      | _ \<Rightarrow> Inl (ValueError ''mutation operation must be an object''))"

definition mutation_header :: "dict \<Rightarrow> unit res" where
  "mutation_header mutation = seq_checks
     [require (is_str (dget ''mutation_id'' mutation) \<and> dget ''mutation_id'' mutation \<noteq> JStr [])
        (ValueError ''mutation_id must be a non-empty string''),
      require_bounded_list (dget ''operations'' mutation) ''mutation operations''
        MAX_MUTATION_OPERATIONS]"

definition apply_mutation :: "dict \<Rightarrow> json \<Rightarrow> dict res" where
  "apply_mutation c mutation =
     rbind (as_dict mutation) (\<lambda>m.
     rbind (mutation_header m) (\<lambda>_.
     rbind (start_mutation c) (\<lambda>s.
     rbind (rfold mutation_step s (list_of (dget ''operations'' m))) (\<lambda>s'.
     Inr (dset ''active_mutation'' (dget ''mutation_id'' m) (current_case s'))))))"

text \<open>
  \<open>load_case\<close> on the two decoded files; \<open>None\<close> when there is no mutation file.
\<close>

definition load_case :: "runtime \<Rightarrow> json \<Rightarrow> json option \<Rightarrow> json res" where
  "load_case R v mutation =
     rbind (prepare_case R v) (\<lambda>prepared.
     case mutation of
       None \<Rightarrow> prepare_case R prepared
     | Some m \<Rightarrow> rbind (apply_mutation (dict_of prepared) m) (\<lambda>c. prepare_case R (JDict c)))"

section \<open>Lemmas\<close>

lemma set_item_Inr: "set_item k v t = Inr t' \<longleftrightarrow> (\<exists>d. t = JDict d \<and> t' = JDict (dset k v d))"
  by (cases t) auto

lemma path_parts_nonempty: "path \<noteq> [] \<Longrightarrow> path_parts path \<noteq> []"
  by (simp add: path_parts_def)

text \<open>A value set at a path is found there.\<close>

lemma get_edit_nested_set:
  assumes "edit_nested (\<lambda>k. set_item k v) ps t = Inr t'"
  shows "get_nested ps t' = Inr v"
  using assms
proof (induction "\<lambda>k. set_item k v" ps t arbitrary: t' rule: edit_nested.induct)
  case (1 target)
  then show ?case by simp
next
  case (2 k target)
  then show ?case by (auto simp: set_item_Inr)
next
  case (3 p q ps target)
  from "3.prems" obtain child child' where c: "item p target = Inr child"
    "edit_nested (\<lambda>k. set_item k v) (q # ps) child = Inr child'"
    "set_item p child' target = Inr t'"
    by (auto simp: rbind_Inr_iff)
  have "get_nested (q # ps) child' = Inr v" by (rule "3.hyps"[OF c(2)])
  moreover have "item p t' = Inr child'" using c(3) by (auto simp: set_item_Inr)
  ultimately show ?case by simp
qed

text \<open>The top-level members other than the first of the path are left alone.\<close>

lemma edit_nested_frame:
  assumes "edit_nested f (p # ps) (JDict d) = Inr t'"
    and "\<And>k e v. f k (JDict e) = Inr v \<Longrightarrow> \<exists>e'. v = JDict e' \<and> (\<forall>k'. k' \<noteq> k \<longrightarrow> map_of e' k' = map_of e k')"
  shows "\<exists>d'. t' = JDict d' \<and> (\<forall>k. k \<noteq> p \<longrightarrow> map_of d' k = map_of d k)"
proof (cases ps)
  case Nil
  with assms show ?thesis by simp
next
  case (Cons q qs)
  with assms(1) obtain child' where "set_item p child' (JDict d) = Inr t'"
    by (auto simp: rbind_Inr_iff)
  then show ?thesis by auto
qed

lemma run_edit_frame:
  assumes "run_edit e path (JDict d) = Inr t'" and "path \<noteq> []"
  shows "\<exists>d'. t' = JDict d' \<and> (\<forall>k. k \<noteq> hd (path_parts path) \<longrightarrow> map_of d' k = map_of d k)"
proof -
  from assms(2) obtain p ps where p: "path_parts path = p # ps"
    using path_parts_nonempty by (cases "path_parts path") auto
  show ?thesis
  proof (cases e)
    case (SetValue v)
    with assms(1) p have "edit_nested (\<lambda>k. set_item k v) (p # ps) (JDict d) = Inr t'"
      by (simp add: run_edit_def set_nested_def)
    then show ?thesis unfolding p list.sel
      by (rule edit_nested_frame) (auto simp: set_item_Inr)
  next
    case Delete
    with assms(1) p have "edit_nested pop_item (p # ps) (JDict d) = Inr t'"
      by (simp add: run_edit_def delete_nested_def)
    then show ?thesis unfolding p list.sel
      by (rule edit_nested_frame) auto
  qed
qed

text \<open>The document an operation is applied to is one whose identifier it names.\<close>

lemma last_index_Some: "last_index k xs = Some i \<Longrightarrow> i < length xs \<and> py_eq k (xs ! i)"
  by (induction xs arbitrary: i) (auto split: option.splits if_splits)

lemma operation_target_document:
  assumes "operation_target s operation = Inr t"
    and "dget_or ''target'' (JStr ''document'') operation = JStr ''document''"
  shows "\<exists>i. t = TDocument i \<and> i < length (ms_ids s)
    \<and> py_eq (dget ''document_id'' operation) (ms_ids s ! i)"
proof -
  from assms obtain k where k: "ditem ''document_id'' operation = Inr k"
    "(if \<not> hashable k then Inl TypeError
      else case last_index k (ms_ids s) of
             None \<Rightarrow> Inl (ValueError ''unknown document_id in mutation: '')
           | Some i \<Rightarrow> Inr (TDocument i)) = Inr t"
    by (auto simp: operation_target_def Let_def rbind_Inr_iff split: if_splits)
  then obtain i where "last_index k (ms_ids s) = Some i" "t = TDocument i"
    by (auto split: if_splits option.splits)
  with k(1) show ?thesis by (auto dest: last_index_Some ditem_dget)
qed

definition names_document :: "json \<Rightarrow> json \<Rightarrow> bool" where
  "names_document k operation \<longleftrightarrow> py_eq (dget ''document_id'' (dict_of operation)) k"

definition targets_document :: "json \<Rightarrow> bool" where
  "targets_document operation \<longleftrightarrow>
     dget_or ''target'' (JStr ''document'') (dict_of operation) = JStr ''document''"

text \<open>
  The states reached by operations on documents: only documents that an operation names have
  changed.
\<close>

definition documents_frame :: "mutation_state \<Rightarrow> json list \<Rightarrow> mutation_state \<Rightarrow> bool" where
  "documents_frame s0 operations s \<longleftrightarrow>
     ms_case s = ms_case s0 \<and> ms_attached s = ms_attached s0 \<and> ms_ids s = ms_ids s0
     \<and> length (ms_documents s) = length (ms_documents s0)
     \<and> (\<forall>i < length (ms_documents s0). list_ex (names_document (ms_ids s0 ! i)) operations
           \<or> ms_documents s ! i = ms_documents s0 ! i)"

lemma mutation_step_frame:
  assumes "documents_frame s0 operations s" and "operation \<in> set operations"
    and "targets_document operation" and "mutation_step s operation = Inr s'"
  shows "documents_frame s0 operations s'"
proof -
  from assms(4) obtain d t e where d: "operation = JDict d"
    and t: "operation_target s d = Inr t"
    and s': "edit_target s t e (str_of (dget ''path'' d)) = Inr s'"
    by (auto simp: mutation_step_def rbind_Inr_iff split: json.splits)
  from operation_target_document[OF t] assms(3) d obtain i where
    i: "t = TDocument i" "names_document (ms_ids s ! i) operation"
    by (auto simp: targets_document_def names_document_def)
  from s' i(1) obtain doc' where
    "s' = s\<lparr>ms_documents := (ms_documents s)[i := doc']\<rparr>"
    by (auto simp: edit_target_def rbind_Inr_iff)
  moreover have "list_ex (names_document (ms_ids s0 ! j)) operations
      \<or> (ms_documents s)[i := doc'] ! j = ms_documents s0 ! j" if "j < length (ms_documents s0)" for j
    using that assms(1,2) i(2) by (cases "j = i") (auto simp: documents_frame_def list_ex_iff)
  ultimately show ?thesis
    using assms(1) by (simp add: documents_frame_def)
qed

lemma apply_mutation_documents:
  assumes "apply_mutation c (JDict m) = Inr c'" and "dget ''documents'' c = JList docs"
    and "list_all targets_document (list_of (dget ''operations'' m))"
  shows "\<exists>ids docs'. rmap document_key docs = Inr ids
    \<and> c' = dset ''active_mutation'' (dget ''mutation_id'' m) (dset ''documents'' (JList docs') c)
    \<and> length docs' = length docs
    \<and> (\<forall>i < length docs. list_ex (names_document (ids ! i)) (list_of (dget ''operations'' m))
          \<or> docs' ! i = docs ! i)"
proof -
  let ?ops = "list_of (dget ''operations'' m)"
  from assms(1) obtain s s' where s: "start_mutation c = Inr s"
    and s': "rfold mutation_step s ?ops = Inr s'"
    and c': "c' = dset ''active_mutation'' (dget ''mutation_id'' m) (current_case s')"
    unfolding apply_mutation_def as_dict.simps rbind_simps by (elim rbind_InrE) simp
  have "ditem ''documents'' c = Inr (JList docs)"
    using assms(2) dhas_ditem[of "''documents''" c] dget_nonnull_dhas[of "''documents''" c] by simp
  with s obtain ids where ids: "rmap document_key docs = Inr ids"
    and s_def: "s = \<lparr>ms_case = c, ms_ids = ids, ms_documents = docs, ms_attached = True\<rparr>"
    unfolding start_mutation_def by (elim rbind_InrE) simp
  have "documents_frame s ?ops s'"
    using s'
  proof (rule rfold_invariant)
    show "documents_frame s ?ops s" by (simp add: documents_frame_def)
    show "documents_frame s ?ops t'"
      if "documents_frame s ?ops t" "operation \<in> set ?ops" "mutation_step t operation = Inr t'"
      for t operation t'
      using that assms(3) by (intro mutation_step_frame[OF that(1,2)]) (auto simp: list_all_iff)
  qed
  with ids s_def c' show ?thesis
    by (auto simp: documents_frame_def current_case_def)
qed

end
