(* ===== verification/Case_Facts.thy ===== *)
theory Case_Facts
  imports Loader_Mutation
begin

text \<open>
  What a validated case gives to the rest of the program: its event and documents have the
  shapes the rules rely on, every required type has exactly one approved document, and
  \<open>document_by_type\<close> finds it.
\<close>

section \<open>The case and its documents\<close>

text \<open>The event and the documents of a case.\<close>

definition event_of :: "json \<Rightarrow> dict" where
  "event_of v = dict_of (dget ''event'' (dict_of v))"

definition documents_of :: "json \<Rightarrow> dict list" where
  "documents_of v = map dict_of (list_of (dget ''documents'' (dict_of v)))"

lemma validate_case_header_facts:
  assumes "validate_case R v = Inr u"
  shows "is_dict v" "dhas ''event'' (dict_of v)" "dhas ''documents'' (dict_of v)"
    "dhas ''case_id'' (dict_of v)" "nonblank_str (dget ''case_id'' (dict_of v))"
    "dget ''schema_version'' (dict_of v) = JStr CASE_SCHEMA_VERSION"
    "dhas ''schema_version'' (dict_of v)"
  using assms
  by (simp_all add: validate_case_def validate_case_header_def has_keys_iff check_simps)

lemma validate_case_parts:
  assumes "validate_case R v = Inr u"
  shows "validate_event R (dget ''validation_migration'' (dict_of v)) (dget ''event'' (dict_of v)) = Inr ()"
    and "validate_documents R (dget ''relationship_migration'' (dict_of v))
           (dget ''reference_migration'' (dict_of v)) (dget ''documents'' (dict_of v)) = Inr ()"
  using assms by (simp_all add: validate_case_def)

lemma validate_case_event:
  assumes "validate_case R v = Inr u"
  shows "dget ''event'' (dict_of v) = JDict (event_of v)"
    and "ditem ''event'' (dict_of v) = Inr (JDict (event_of v))"
proof -
  have "is_dict (dget ''event'' (dict_of v))"
    using validate_case_parts(1)[OF assms] by (simp add: validate_event_def validate_event_header_def)
  then show 1: "dget ''event'' (dict_of v) = JDict (event_of v)"
    by (auto simp: event_of_def elim: is_dictE)
  show "ditem ''event'' (dict_of v) = Inr (JDict (event_of v))"
    using dhas_ditem[OF validate_case_header_facts(2)[OF assms]] 1 by simp
qed

lemma list_all_is_dict: "list_all is_dict xs \<Longrightarrow> xs = map JDict (map dict_of xs)"
  by (induction xs) (auto elim: is_dictE)

lemma validate_case_documents:
  assumes "validate_case R v = Inr u"
  shows "dget ''documents'' (dict_of v) = JList (map JDict (documents_of v))"
    and "ditem ''documents'' (dict_of v) = Inr (JList (map JDict (documents_of v)))"
proof -
  let ?docs = "dget ''documents'' (dict_of v)"
  have l: "is_list ?docs" and d: "list_all is_dict (list_of ?docs)"
    using validate_case_parts(2)[OF assms] by (simp_all add: validate_documents_def check_simps)
  have "list_of ?docs = map JDict (documents_of v)"
    using list_all_is_dict[OF d] by (simp add: documents_of_def)
  with l show 1: "?docs = JList (map JDict (documents_of v))" by (auto elim: is_listE)
  show "ditem ''documents'' (dict_of v) = Inr (JList (map JDict (documents_of v)))"
    using dhas_ditem[OF validate_case_header_facts(3)[OF assms]] 1 by simp
qed

lemma validate_case_document:
  assumes "validate_case R v = Inr u" and "doc \<in> set (documents_of v)"
  shows "validate_document R (dget ''relationship_migration'' (dict_of v))
           (dget ''reference_migration'' (dict_of v)) doc = Inr ()"
proof -
  from assms(2) obtain i where "i < length (documents_of v)" "doc = documents_of v ! i"
    by (auto simp: in_set_conv_nth)
  then show ?thesis
    using validate_case_parts(2)[OF assms(1)]
    by (simp add: validate_documents_def check_all_Inr documents_of_def)
qed

lemma validate_document_facts:
  assumes "validate_document R m rm doc = Inr u"
  shows "dhas ''document_id'' doc" "dhas ''document_type'' doc" "dhas ''fields'' doc"
    "dhas ''revision_date'' doc" "dhas ''source_hash'' doc" "dhas ''revision'' doc"
    "nonblank_str (dget ''document_id'' doc)" "nonblank_str (dget ''revision'' doc)"
    "nonblank_str (dget ''source_hash'' doc)"
    "dget ''fields'' doc = JDict (doc_fields doc)"
    "is_str (dget ''revision_date'' doc)"
    "date_fromisoformat (str_of (dget ''revision_date'' doc)) \<noteq> None"
    "str_in (dget ''document_type'' doc) REQUIRED_DOCUMENT_TYPES"
    "str_in (dget ''status'' doc) DOCUMENT_STATUSES"
  using assms
  by (auto simp: validate_document_def validate_document_header_def has_keys_iff check_simps
      doc_fields_def elim: is_dictE nonblank_strE)

lemma validate_case_document_ids:
  assumes "validate_case R v = Inr u"
  shows "distinct (map (\<lambda>d. normalized_identity R (str_of (dget ''document_id'' d))) (documents_of v))"
  using validate_case_parts(2)[OF assms]
  by (simp add: validate_documents_def validate_document_ids_def check_simps documents_of_def
      comp_def)

lemma validate_case_approved_counts:
  assumes "validate_case R v = Inr u" and "t \<in> set REQUIRED_DOCUMENT_TYPES"
  shows "length (filter (is_approved_type t) (documents_of v)) = 1"
  using validate_case_parts(2)[OF assms(1)] assms(2)
  by (simp add: validate_documents_def validate_approved_counts_def documents_of_def list_all_iff)

section \<open>The approved document of a type\<close>

definition approved_document :: "json \<Rightarrow> string \<Rightarrow> dict" where
  "approved_document v t = hd (filter (is_approved_type t) (documents_of v))"

lemma document_by_type_pure:
  assumes "ditem ''documents'' c = Inr (JList (map JDict docs))"
    and "\<forall>d \<in> set docs. dhas ''document_type'' d"
  shows "document_by_type c t = Inr (case filter (is_approved_type t) docs of [d] \<Rightarrow> Some d | _ \<Rightarrow> None)"
proof -
  let ?is_type = "\<lambda>v. dget ''document_type'' (dict_of v) = JStr t"
  let ?approved = "\<lambda>v. dget ''status'' (dict_of v) = JStr ''APPROVED''"
  have 1: "rfilter (\<lambda>d. rbind (item ''document_type'' d) (\<lambda>k. Inr (k = JStr t))) (map JDict docs)
      = Inr (filter ?is_type (map JDict docs))"
    using assms(2) by (intro rfilter_cong_pure) (auto simp: dhas_ditem)
  have 2: "rfilter (\<lambda>d. rbind (as_dict d) (\<lambda>e. Inr (dget ''status'' e = JStr ''APPROVED'')))
        (filter ?is_type (map JDict docs))
      = Inr (filter ?approved (filter ?is_type (map JDict docs)))"
    by (intro rfilter_cong_pure) auto
  have 3: "filter ?approved (filter ?is_type (map JDict docs)) = map JDict (filter (is_approved_type t) docs)"
    by (induction docs) (auto simp: is_approved_type_def)
  show ?thesis
    unfolding document_by_type_def
    by (simp only: assms(1) iter.simps rbind_simps 1 2 3) (auto split: list.splits)
qed

lemma approved_document_found:
  assumes "validate_case R v = Inr u" and "t \<in> set REQUIRED_DOCUMENT_TYPES"
  shows "document_by_type (dict_of v) t = Inr (Some (approved_document v t))"
    and "approved_document v t \<in> set (documents_of v)"
    and "is_approved_type t (approved_document v t)"
proof -
  from validate_case_approved_counts[OF assms] obtain d where
    d: "filter (is_approved_type t) (documents_of v) = [d]"
    by (auto simp: length_Suc_conv)
  then have a: "approved_document v t = d" by (simp add: approved_document_def)
  have "d \<in> set (filter (is_approved_type t) (documents_of v))" using d by simp
  then show "approved_document v t \<in> set (documents_of v)"
    and "is_approved_type t (approved_document v t)" by (simp_all add: a)
  have "\<forall>d \<in> set (documents_of v). dhas ''document_type'' d"
    using validate_case_document[OF assms(1)] validate_document_facts(2) by blast
  then show "document_by_type (dict_of v) t = Inr (Some (approved_document v t))"
    using document_by_type_pure[OF validate_case_documents(2)[OF assms(1)]] by (simp add: d a)
qed

lemma approved_document_valid:
  assumes "validate_case R v = Inr u" and "t \<in> set REQUIRED_DOCUMENT_TYPES"
  shows "validate_document R (dget ''relationship_migration'' (dict_of v))
           (dget ''reference_migration'' (dict_of v)) (approved_document v t) = Inr ()"
  using validate_case_document[OF assms(1) approved_document_found(2)[OF assms]] .

lemma approved_document_unique:
  assumes "validate_case R v = Inr u" and "t \<in> set REQUIRED_DOCUMENT_TYPES"
    and "d \<in> set (documents_of v)" and "is_approved_type t d"
  shows "d = approved_document v t"
proof -
  from validate_case_approved_counts[OF assms(1,2)] obtain e where
    e: "filter (is_approved_type t) (documents_of v) = [e]"
    by (auto simp: length_Suc_conv)
  have "d \<in> set (filter (is_approved_type t) (documents_of v))" using assms(3,4) by simp
  then have "d \<in> set [e]" by (simp only: e)
  with e show ?thesis by (simp add: approved_document_def)
qed

section \<open>Preparation\<close>

lemma prepare_case_valid: "prepare_case R v = Inr w \<Longrightarrow> validate_case R w = Inr ()"
  by (auto simp: prepare_case_def rbind_Inr_iff)

lemma migrate_current:
  "is_dict v \<Longrightarrow> dget ''schema_version'' (dict_of v) = JStr CASE_SCHEMA_VERSION
    \<Longrightarrow> migrate_legacy_relationships R v = Inr v"
  by (auto simp: migrate_legacy_relationships_def dget_def dget_or_def Let_def elim!: is_dictE
      split: option.splits)

lemma prepare_case_idem: "prepare_case R v = Inr w \<Longrightarrow> prepare_case R w = Inr w"
  using prepare_case_valid[of R v w] validate_case_header_facts[of R w "()"]
  by (simp add: prepare_case_def migrate_current)

end
