(* ===== verification/Canonical_Facts.thy ===== *)
theory Canonical_Facts
  imports Case_Facts
begin

text \<open>
  The canonical form of a case: it forgets the order of the documents, and two cases with
  the same hash have the same canonical form or exhibit a collision of SHA-256.
\<close>

section \<open>The order of the documents\<close>

lemma dset_commute:
  assumes "k \<noteq> l" and "dhas k d" and "dhas l d"
  shows "dset k v (dset l w d) = dset l w (dset k v d)"
  using assms
proof (induction d)
  case (Cons a d)
  then show ?case by (cases "fst a = k"; cases "fst a = l"; cases a) (simp_all add: dhas_def)
qed (simp add: dhas_def)

lemma dset_dset [simp]: "dset k v (dset k w d) = dset k v d"
  by (induction k w d rule: dset.induct) auto

lemma check_all_mset:
  assumes "check_all f xs = Inr ()" and "mset xs = mset ys"
    and "\<And>i j x. f i x = Inr () \<Longrightarrow> f j x = Inr ()"
  shows "check_all f ys = Inr ()"
proof -
  have "f i (ys ! i) = Inr ()" if "i < length ys" for i
  proof -
    have "ys ! i \<in> set xs" using that assms(2) by (metis nth_mem set_mset_mset)
    with assms(1) obtain j where "f j (ys ! i) = Inr ()" by (rule check_all_InrD)
    then show ?thesis by (rule assms(3))
  qed
  then show ?thesis by (simp add: check_all_Inr)
qed

lemma validate_documents_mset:
  assumes "validate_documents R m rm (JList docs) = Inr ()" and "mset docs = mset docs'"
  shows "validate_documents R m rm (JList docs') = Inr ()"
proof -
  have s: "set docs' = set docs" and l: "length docs' = length docs"
    using assms(2) by (metis set_mset_mset, metis size_mset)
  have ids: "validate_document_ids R docs' = Inr ()"
  proof -
    let ?id = "\<lambda>d. normalized_identity R (str_of (dget ''document_id'' (dict_of d)))"
    have "distinct (map ?id docs)" and c: "check_all (\<lambda>i d. require_nonempty_string
        (dget ''document_id'' (dict_of d)) (indexed ''documents'' i ''.document_id'')) docs = Inr ()"
      using assms(1) by (simp_all add: validate_documents_def validate_document_ids_def check_simps comp_def)
    moreover have "mset (map ?id docs') = mset (map ?id docs)" using assms(2) by simp
    ultimately have "distinct (map ?id docs')" by (metis mset_eq_imp_distinct_iff)
    moreover have "check_all (\<lambda>i d. require_nonempty_string
        (dget ''document_id'' (dict_of d)) (indexed ''documents'' i ''.document_id'')) docs' = Inr ()"
      by (rule check_all_mset[OF c assms(2)]) (simp add: check_simps)
    ultimately show ?thesis by (simp add: validate_document_ids_def check_simps comp_def)
  qed
  have counts: "length (filter p docs') = length (filter p docs)" for p
    using assms(2) by (metis mset_filter size_mset)
  have "check_all (\<lambda>_ d. validate_document R m rm (dict_of d)) docs' = Inr ()"
    using assms(1) by (intro check_all_mset[OF _ assms(2)]) (simp_all add: validate_documents_def)
  with assms(1) ids show ?thesis
    by (simp add: validate_documents_def check_simps s l list_all_iff
        validate_approved_counts_def filter_map counts)
qed

lemma validate_case_reorder:
  assumes "validate_case R (JDict c) = Inr ()"
    and "dget ''documents'' c = JList docs" and "mset docs = mset docs'"
  shows "validate_case R (JDict (dset ''documents'' (JList docs') c)) = Inr ()"
proof -
  have h: "has_keys ks c \<Longrightarrow> has_keys ks (dset ''documents'' v c)" for ks v
    by (simp add: has_keys_iff)
  show ?thesis
    using assms(1) validate_documents_mset[OF _ assms(3)]
    by (simp add: validate_case_def validate_case_header_def check_simps assms(2) h)
qed

lemma item_identity_dict:
  assumes "dhas ''document_id'' d" and "is_str (dget ''document_id'' d)"
  shows "item_identity R ''document_id'' (JDict d)
    = Inr (normalized_identity R (str_of (dget ''document_id'' d)))"
  using assms by (auto simp: item_identity_def dget_or_dget elim: is_strE)

lemma projection_reorder:
  assumes v: "validate_case R (JDict c) = Inr ()"
    and d: "dget ''documents'' c = JList docs" and m: "mset docs = mset docs'"
  shows "canonical_case_projection R (dset ''documents'' (JList docs') c)
    = canonical_case_projection R c"
proof -
  let ?key = "\<lambda>v. normalized_identity R (str_of (dget ''document_id'' (dict_of v)))"
  have docs: "docs = map JDict (documents_of (JDict c))"
    using validate_case_documents(1)[OF v] d by simp
  have dict: "list_all is_dict docs" "list_all is_dict docs'"
  proof -
    show "list_all is_dict docs" by (simp add: docs list_all_iff)
    then show "list_all is_dict docs'" using m by (metis list_all_iff set_mset_mset)
  qed
  have key: "item_identity R ''document_id'' x = Inr (?key x)" if "x \<in> set docs" for x
  proof -
    from that obtain e where e: "x = JDict e" "e \<in> set (documents_of (JDict c))"
      by (auto simp: docs)
    from validate_document_facts(1,7)[OF validate_case_document[OF v e(2)]]
    show ?thesis by (auto simp: e(1) item_identity_dict elim: nonblank_strE)
  qed
  have inj: "inj_on ?key (set docs)"
    using validate_case_document_ids[OF v]
    by (auto simp: docs inj_on_def distinct_map comp_def)
  have sorted: "rsort_by (item_identity R ''document_id'') docs'
      = rsort_by (item_identity R ''document_id'') docs"
  proof -
    have "set docs' = set docs" using m by (metis set_mset_mset)
    then have "rsort_by (item_identity R ''document_id'') docs' = Inr (sort_key ?key docs')"
      using key by (intro rsort_by_pure) simp
    also have "sort_key ?key docs' = sort_key ?key docs"
      using m inj by (intro sort_key_perm_eq[symmetric]) auto
    also have "Inr \<dots> = rsort_by (item_identity R ''document_id'') docs"
      using key by (intro rsort_by_pure[symmetric]) simp
    finally show ?thesis .
  qed
  have ev: "dhas ''event'' c" "dhas ''documents'' c"
    using validate_case_header_facts(2,3)[OF v] by simp_all
  show ?thesis
    using dict ev
    by (auto simp: canonical_case_projection_def project_case_event_def project_documents_def
        d sorted rbind_def dset_commute split: json.splits sum.splits)
qed

lemma canonical_payload_valid:
  assumes "validate_case R v = Inr u"
  shows "canonical_payload R v
    = rbind (canonical_case_projection R (dict_of v)) (\<lambda>c. json_dumps R (JDict c))"
  using assms validate_case_header_facts(1,6)[OF assms] validate_case_event(1)[OF assms]
    validate_case_documents(1)[OF assms]
  by (simp add: canonical_payload_def is_case_value_def)

lemma canonical_hash_reorder:
  assumes "validate_case R (JDict c) = Inr ()"
    and "dget ''documents'' c = JList docs" and "mset docs = mset docs'"
  shows "canonical_hash R (JDict (dset ''documents'' (JList docs') c)) = canonical_hash R (JDict c)"
  using canonical_payload_valid[OF assms(1)] canonical_payload_valid[OF validate_case_reorder[OF assms]]
  by (simp add: canonical_hash_def projection_reorder[OF assms])

section \<open>Equal hashes\<close>

context float_printer begin

lemma json_dumps_inject:
  assumes "rt_float_repr R = repr" and "json_dumps R v = Inr t" and "json_dumps R w = Inr t"
  shows "canon v = canon w"
  using assms by (auto simp: json_dumps_def split: if_splits intro: jtext_inject)

lemma canonical_hash_binds:
  assumes R: "rt_float_repr R = repr"
    and v: "validate_case R v = Inr ()" "canonical_case_projection R (dict_of v) = Inr c"
    and w: "validate_case R w = Inr ()" "canonical_case_projection R (dict_of w) = Inr d"
    and h: "canonical_hash R v = Inr h" "canonical_hash R w = Inr h"
  shows "canon (JDict c) = canon (JDict d) \<or>
    (\<exists>s t. canonical_payload R v = Inr s \<and> canonical_payload R w = Inr t \<and> sha_collision s t)"
proof -
  from h(1) obtain s where s: "json_dumps R (JDict c) = Inr s" "h = sha256_hex s"
    by (auto simp: canonical_hash_def canonical_payload_valid[OF v(1)] v(2) rbind_Inr_iff)
  from h(2) obtain t where t: "json_dumps R (JDict d) = Inr t" "h = sha256_hex t"
    by (auto simp: canonical_hash_def canonical_payload_valid[OF w(1)] w(2) rbind_Inr_iff)
  show ?thesis
  proof (cases "s = t")
    case True
    then show ?thesis using json_dumps_inject[OF R s(1)] t(1) by simp
  next
    case False
    then have "sha_collision s t" using s(2) t(2) by (simp add: sha_collision_def)
    moreover have "canonical_payload R v = Inr s" "canonical_payload R w = Inr t"
      using s(1) t(1) v w by (simp_all add: canonical_payload_valid)
    ultimately show ?thesis by blast
  qed
qed

end

end
