(* ===== verification/Migration_Facts.thy ===== *)
theory Migration_Facts
  imports Case_Facts
begin

text \<open>
  What the migrations keep.  A legacy case never gains a relationship in one of its documents:
  their rows are the rows of the input, and the event gains a link only when the declared
  scope leaves a single pair.
\<close>

lemma dpop_dset_same [simp]: "dpop k (dset k v d) = dpop k d"
  by (induction k v d rule: dset.induct) (auto simp: dpop_def)

lemma dpop_dset_other: "k \<noteq> l \<Longrightarrow> dpop k (dset l v d) = dset l v (dpop k d)"
  by (induction l v d rule: dset.induct) (auto simp: dpop_def)

lemma dpop_commute: "dpop k (dpop l d) = dpop l (dpop k d)"
  by (simp add: dpop_def conj_commute)

text \<open>
  Two documents that differ at most in the references of their fields and in the version of
  the reference contract.
\<close>

definition same_fields :: "dict \<Rightarrow> dict \<Rightarrow> bool" where
  "same_fields d e \<longleftrightarrow>
     (case dget ''fields'' d of
        JDict fs \<Rightarrow> is_dict (dget ''fields'' e)
          \<and> dpop ''references'' (dict_of (dget ''fields'' e)) = dpop ''references'' fs
      | f \<Rightarrow> dget ''fields'' e = f)"

definition same_rows :: "json \<Rightarrow> json \<Rightarrow> bool" where
  "same_rows v w \<longleftrightarrow>
     (if is_dict v then is_dict w
        \<and> dpop ''reference_contract_version'' (dpop ''fields'' (dict_of w))
            = dpop ''reference_contract_version'' (dpop ''fields'' (dict_of v))
        \<and> same_fields (dict_of v) (dict_of w)
      else w = v)"

lemma same_fields_refl [simp]: "same_fields d d"
  by (auto simp: same_fields_def split: json.splits)

lemma same_rows_refl [simp]: "same_rows v v"
  by (simp add: same_rows_def)

lemma migrate_document_same_rows:
  assumes "migrate_document_references R v = Inr r"
  shows "same_rows v (fst r)"
proof (cases v)
  case (JDict d)
  with assms show ?thesis
    by (auto simp: migrate_document_references_def same_rows_def same_fields_def Let_def
        dpop_commute dpop_dset_other split: if_splits json.splits)
qed (use assms in \<open>auto simp: migrate_document_references_def same_rows_def\<close>)

lemma migrate_v02_references_facts:
  assumes "migrate_v02_references R c = Inr c'"
  shows "dget ''schema_version'' c' = JStr CONTROLLED_REFERENCE_CASE_SCHEMA_VERSION"
    and "\<And>k. k \<notin> {''schema_version'', ''documents'', ''reference_migration''} \<Longrightarrow> dget k c' = dget k c"
    and "\<And>docs. dget ''documents'' c = JList docs \<Longrightarrow>
           \<exists>docs'. dget ''documents'' c' = JList docs' \<and> list_all2 same_rows docs docs'"
proof -
  from assms obtain docs rs where
    docs: "iter (dget_or ''documents'' (JList []) c) = Inr docs"
      "rmap (migrate_document_references R) docs = Inr rs" and
    c': "c' = dset ''reference_migration'' (reference_migration_marker (concat (map snd rs)))
       (dset ''schema_version'' (JStr CONTROLLED_REFERENCE_CASE_SCHEMA_VERSION)
         (if is_list (dget ''documents'' c) then dset ''documents'' (JList (map fst rs)) c else c))"
    by (auto simp: migrate_v02_references_def rbind_Inr_iff Let_def split: if_splits)
  show "dget ''schema_version'' c' = JStr CONTROLLED_REFERENCE_CASE_SCHEMA_VERSION"
    by (simp add: c')
  show "dget k c' = dget k c"
    if "k \<notin> {''schema_version'', ''documents'', ''reference_migration''}" for k
    using that by (auto simp: c')
  fix docs0 assume d: "dget ''documents'' c = JList docs0"
  then have "docs = docs0" using docs(1) dget_nonnull_dhas[of "''documents''" c]
    by (simp add: dget_or_dget)
  moreover have "list_all2 (\<lambda>v r. migrate_document_references R v = Inr r) docs rs"
    using docs(2) by (simp add: rmap_Inr)
  then have "list_all2 same_rows docs (map fst rs)"
    by (simp add: list.rel_map) (erule list_all2_mono, erule migrate_document_same_rows)
  ultimately show "\<exists>docs'. dget ''documents'' c' = JList docs' \<and> list_all2 same_rows docs0 docs'"
    using d by (simp add: c')
qed

lemma migrate_v03_validation_facts:
  assumes "migrate_v03_validation R c = Inr c'"
  shows "dget ''schema_version'' c' = JStr CASE_SCHEMA_VERSION"
    and "\<And>k. k \<notin> {''schema_version'', ''validation_migration''} \<Longrightarrow> dget k c' = dget k c"
  using assms by (auto simp: migrate_v03_validation_def split: if_splits)

lemma migrate_v01_facts:
  assumes "migrate_v01_relationships R c event = Inr c'"
  shows "dget ''schema_version'' c' = JStr CASE_SCHEMA_VERSION"
    and "dget ''event'' c' = JDict (fst (infer_single_link event))"
    and "dget ''relationship_migration'' c' = snd (infer_single_link event)"
    and "\<And>docs. dget ''documents'' c = JList docs \<Longrightarrow>
           \<exists>docs'. dget ''documents'' c' = JList docs' \<and> list_all2 same_rows docs docs'"
    and "\<not> dhas ''affected_links'' event"
proof -
  let ?c3 = "dset ''relationship_migration'' (snd (infer_single_link event))
    (dset ''schema_version'' (JStr RELATIONSHIP_CASE_SCHEMA_VERSION)
      (dset ''event'' (JDict (fst (infer_single_link event))) c))"
  from assms obtain c4 where c4: "migrate_v02_references R ?c3 = Inr c4"
    "migrate_v03_validation R c4 = Inr c'" and links: "\<not> dhas ''affected_links'' event"
    by (auto simp: migrate_v01_relationships_def rbind_Inr_iff Let_def case_prod_beta
        split: if_splits)
  note f = migrate_v02_references_facts[OF c4(1)] migrate_v03_validation_facts[OF c4(2)]
  show "dget ''schema_version'' c' = JStr CASE_SCHEMA_VERSION" by (rule f(4))
  show "dget ''event'' c' = JDict (fst (infer_single_link event))" by (simp add: f(2,5))
  show "dget ''relationship_migration'' c' = snd (infer_single_link event)" by (simp add: f(2,5))
  show "\<not> dhas ''affected_links'' event" by (rule links)
  fix docs assume "dget ''documents'' c = JList docs"
  then have "dget ''documents'' ?c3 = JList docs" by simp
  from f(3)[OF this] show "\<exists>docs'. dget ''documents'' c' = JList docs' \<and> list_all2 same_rows docs docs'"
    by (simp add: f(5))
qed

lemma migrate_legacy_v01:
  assumes "migrate_legacy_relationships R (JDict c) = Inr w"
    and "dget_or ''schema_version'' (JStr LEGACY_CASE_SCHEMA_VERSION) c = JStr LEGACY_CASE_SCHEMA_VERSION"
    and "dget ''event'' c = JDict event"
  shows "\<exists>c'. w = JDict c' \<and> migrate_v01_relationships R c event = Inr c'"
  using assms
  by (auto simp: migrate_legacy_relationships_def Let_def rbind_Inr_iff CASE_SCHEMA_VERSION_def
      CONTROLLED_REFERENCE_CASE_SCHEMA_VERSION_def RELATIONSHIP_CASE_SCHEMA_VERSION_def
      LEGACY_CASE_SCHEMA_VERSION_def)

text \<open>Native cases and every output of the migration have the current version.\<close>

lemma prepare_case_version:
  assumes "prepare_case R v = Inr w"
  shows "is_dict w \<and> dget ''schema_version'' (dict_of w) = JStr CASE_SCHEMA_VERSION"
  using validate_case_header_facts(1,6)[OF prepare_case_valid[OF assms]] by simp

end
