(* ===== verification/Demo_Runtime.thy ===== *)
theory Demo_Runtime
  imports Json_Text
begin

text \<open>
  A concrete runtime for texts in ASCII, on which properties are exercised: NFKC is the
  identity, case folding lowers the letters and a finite float is printed as a numerator and
  a denominator.  The printer satisfies the contract \<open>float_printer\<close>.
\<close>

definition ascii_lower :: "char \<Rightarrow> char" where
  "ascii_lower a = (if CHR ''A'' \<le> a \<and> a \<le> CHR ''Z'' then char_of (of_char a + 32 :: nat) else a)"

fun demo_float_repr :: "pyfloat \<Rightarrow> string" where
  "demo_float_repr FNegZero = ''-0.0''"
| "demo_float_repr FInf = ''inf''"
| "demo_float_repr FNegInf = ''-inf''"
| "demo_float_repr FNaN = ''nan''"
| "demo_float_repr (FFin q) =
     show_int (fst (quotient_of q)) @ CHR ''.'' # show_int (snd (quotient_of q))"

text \<open>The texts \<open>-0.0\<close> and \<open>n.d\<close> are read back.\<close>

definition demo_float_of_text :: "string \<Rightarrow> pyfloat" where
  "demo_float_of_text t =
     (if t = ''-0.0'' then FNegZero
      else (let n = takeWhile (\<lambda>a. a \<noteq> CHR ''.'') t; d = tl (dropWhile (\<lambda>a. a \<noteq> CHR ''.'') t);
                i = (if take 1 n = ''-'' then - int (digits_val (tl n)) else int (digits_val n))
            in FFin (of_int i / of_nat (digits_val d))))"

definition demo_runtime :: runtime where
  "demo_runtime = \<lparr>rt_nfkc = (\<lambda>s. s), rt_casefold = map ascii_lower,
     rt_float_repr = demo_float_repr, rt_container_repr = (\<lambda>v. ''{...}''),
     rt_tuples_repr = (\<lambda>d. ''{...}''), rt_float_of_text = demo_float_of_text,
     rt_lower = map ascii_lower, rt_decimal_ascii = (\<lambda>s. s)\<rparr>"

lemma show_int_no_dot: "CHR ''.'' \<notin> set (show_int i)"
  by (auto dest: show_int_chars simp: is_digit_iff)

lemma dotted_inject:
  assumes "show_int i @ CHR ''.'' # show_int j = show_int k @ CHR ''.'' # show_int l"
  shows "i = k \<and> j = l"
proof -
  have "takeWhile (\<lambda>a. a \<noteq> CHR ''.'') (show_int m @ CHR ''.'' # s) = show_int m" for m s
    using show_int_no_dot[of m] by (subst takeWhile_append2) auto
  then have "show_int i = show_int k" using arg_cong[OF assms] by metis
  with assms show ?thesis by simp
qed

lemma show_int_zero: "show_int 0 = ''0''"
  by code_simp

lemma demo_neg_zero: "''-0.0'' \<noteq> demo_float_repr (FFin q)"
proof
  assume a: "''-0.0'' = demo_float_repr (FFin q)"
  then have "takeWhile (\<lambda>a. a \<noteq> CHR ''.'') ''-0.0'' = show_int (fst (quotient_of q))"
    using show_int_no_dot by (simp only: demo_float_repr.simps) (subst takeWhile_append2; force)
  moreover have "takeWhile (\<lambda>a. a \<noteq> CHR ''.'') ''-0.0'' = ''-0''" by simp
  ultimately have "''-'' @ ''0'' = show_int (fst (quotient_of q))" by simp
  then show False
  proof (cases "fst (quotient_of q) < 0")
    case True
    then have "show_nat 0 = show_nat (nat (- fst (quotient_of q)))"
      using \<open>''-'' @ ''0'' = show_int (fst (quotient_of q))\<close> show_int_zero
      by (simp add: show_int_def)
    with True show False by simp
  next
    case False
    then show False
      using \<open>''-'' @ ''0'' = show_int (fst (quotient_of q))\<close> hd_show_nat
      by (metis append_Cons list.sel(1) show_int_def)
  qed
qed

lemma demo_fin_inject: "demo_float_repr (FFin p) = demo_float_repr (FFin q) \<Longrightarrow> p = q"
  by (auto dest!: dotted_inject intro: quotient_of_inject prod_eqI)

interpretation demo_printer: float_printer demo_float_repr
proof
  fix f g :: pyfloat
  assume "finite_float f" "finite_float g" "demo_float_repr f = demo_float_repr g"
  then show "f = g"
    using demo_neg_zero demo_neg_zero[symmetric]
    by (cases f; cases g)
      (auto simp: finite_float_def simp del: demo_float_repr.simps(5) dest!: demo_fin_inject)
next
  fix f :: pyfloat
  assume "finite_float f"
  then show "list_all number_char (demo_float_repr f)"
    by (cases f) (auto simp: finite_float_def list_all_iff number_char_def is_digit_iff
        dest!: show_int_chars)
next
  fix f :: pyfloat
  assume "finite_float f"
  then show "CHR ''.'' \<in> set (demo_float_repr f) \<or> CHR ''e'' \<in> set (demo_float_repr f)"
    by (cases f) (auto simp: finite_float_def)
qed

end
