(* ===== verification/Demo_Case.thy ===== *)
theory Demo_Case
  imports Case_Facts Demo_Runtime "HOL-Library.Code_Target_Nat"
begin

text \<open>
  A concrete case on which the properties are exercised: one high-risk engineering change of
  one process step and one characteristic, with the five approved documents.
\<close>

definition demo_sha :: "char \<Rightarrow> string" where
  "demo_sha a = replicate 64 a"

definition demo_document :: "string \<Rightarrow> string \<Rightarrow> char \<Rightarrow> dict \<Rightarrow> dict \<Rightarrow> json" where
  "demo_document document_type document_id h flds extra = JDict
     ([(''document_id'', JStr document_id), (''document_type'', JStr document_type),
       (''revision'', JStr ''B''), (''status'', JStr ''APPROVED''), (''owner'', JStr ''quality''),
       (''revision_date'', JStr ''2026-02-01''), (''source_hash'', JStr (demo_sha h)),
       (''fields'', JDict flds)] @ extra)"

definition demo_pair :: dict where
  "demo_pair = [(''process_step_id'', JStr ''OP10''), (''characteristic_id'', JStr ''DIA'')]"

definition demo_specification :: json where
  "demo_specification = JDict [(''target'', JInt 10), (''minimum'', JInt 9), (''maximum'', JInt 11),
     (''unit'', JStr ''mm'')]"

definition demo_characteristic :: "dict \<Rightarrow> json" where
  "demo_characteristic extra =
     JDict (demo_pair @ [(''locator'', JStr ''row 1''), (''specification'', demo_specification)] @ extra)"

definition demo_steps :: "string \<times> json" where
  "demo_steps = (''process_steps'', JList [JStr ''OP10''])"

definition demo_reference :: "string \<Rightarrow> string \<Rightarrow> char \<Rightarrow> json" where
  "demo_reference document_type document_id h = JDict
     [(''document_type'', JStr document_type), (''document_id'', JStr document_id),
      (''revision'', JStr ''B''), (''source_hash'', JStr (demo_sha h))]"

definition demo_documents :: "json list" where
  "demo_documents =
     [demo_document ''PROCESS_FLOW'' ''PF-1'' CHR ''1'' [demo_steps] [],
      demo_document ''PFMEA'' ''FMEA-1'' CHR ''2'' [demo_steps,
        (''risks'', JList [JDict (demo_pair @ [(''failure_mode_id'', JStr ''FM-1''),
          (''special_characteristic'', JBool True), (''locator'', JStr ''row 1'')])])] [],
      demo_document ''CONTROL_PLAN'' ''CP-1'' CHR ''3'' [demo_steps,
        (''characteristics'', JList [demo_characteristic [(''control_id'', JStr ''C-1''),
          (''special_characteristic'', JBool True), (''control_method'', JStr ''SPC''),
          (''frequency'', JStr ''5/h''), (''reaction_plan'', JStr ''hold'')]])] [],
      demo_document ''SOP'' ''SOP-1'' CHR ''4'' [demo_steps,
        (''characteristics'', JList [demo_characteristic []])] [],
      demo_document ''INSPECTION_RECORD'' ''IR-1'' CHR ''5'' [demo_steps,
        (''characteristics'', JList [demo_characteristic []]),
        (''references'', JDict [(''SOP'', demo_reference ''SOP'' ''SOP-1'' CHR ''4''),
          (''CONTROL_PLAN'', demo_reference ''CONTROL_PLAN'' ''CP-1'' CHR ''3'')])]
        [(''reference_contract_version'', JStr CONTROLLED_REFERENCE_CONTRACT_VERSION)]]"

definition demo_plan :: json where
  "demo_plan = JDict
     [(''contract_version'', JStr ''qualityci-validation-plan-0.1''),
      (''required_evidence'', JList [JDict
         [(''evidence_id'', JStr ''E-1''), (''evidence_type'', JStr ''MSA''),
          (''claim'', JStr ''gauge capable''), (''issuer_id'', JStr ''lab''),
          (''issuer_role'', JStr ''LAB''), (''valid_from'', JStr ''2026-01-01T00:00:00Z''),
          (''valid_until'', JStr ''2026-12-31T00:00:00Z'')]])]"

definition demo_approval :: "string \<Rightarrow> json" where
  "demo_approval role = JDict [(''role'', JStr role), (''decision'', JStr ''APPROVED''),
     (''event_revision'', JStr ''2'')]"

definition demo_event :: dict where
  "demo_event =
     [(''event_id'', JStr ''EV-1''), (''event_type'', JStr ''ENGINEERING_CHANGE''),
      (''revision'', JStr ''2''), (''risk_level'', JStr ''HIGH''),
      (''affected_process_steps'', JList [JStr ''OP10'']),
      (''affected_characteristics'', JList [JStr ''DIA'']),
      (''affected_links'', JList [JDict demo_pair]),
      (''approved_at'', JStr ''2026-01-15''),
      (''validation_plan'', demo_plan),
      (''approvals'', JList [demo_approval ''QUALITY_MANAGER'', demo_approval ''PROCESS_OWNER''])]"

definition demo_case :: dict where
  "demo_case =
     [(''schema_version'', JStr CASE_SCHEMA_VERSION), (''case_id'', JStr ''CASE-1''),
      (''synthetic_for_competition'', JBool True), (''event'', JDict demo_event),
      (''documents'', JList demo_documents)]"

lemma demo_case_valid: "validate_case demo_runtime (JDict demo_case) = Inr ()"
  by code_simp

end
