(* ===== verification/Loader_Properties.thy ===== *)
theory Loader_Properties
  imports Canonical_Facts Migration_Facts Demo_Case
begin

text \<open>
  The properties of \<open>loader.py\<close>: what a validated case guarantees, what preparation and
  migration promise, what a mutation leaves alone, and what the canonical hash identifies.
\<close>

section \<open>Validation\<close>

text \<open>
  C1. In a validated case every required document type has exactly one approved document, and
  \<open>document_by_type\<close> returns it: it neither raises nor answers \<open>None\<close>.
\<close>

theorem approved_document_exists:
  assumes "validate_case R v = Inr ()" and "t \<in> set REQUIRED_DOCUMENT_TYPES"
  shows "\<exists>d. document_by_type (dict_of v) t = Inr (Some d) \<and> is_approved_type t d
    \<and> d \<in> set (documents_of v)
    \<and> (\<forall>e \<in> set (documents_of v). is_approved_type t e \<longrightarrow> e = d)"
proof -
  note found = approved_document_found[OF assms]
  have "\<forall>e \<in> set (documents_of v). is_approved_type t e \<longrightarrow> e = approved_document v t"
    using approved_document_unique[OF assms] by blast
  with found show ?thesis by blast
qed

theorem approved_document_exists_witness:
  "\<exists>d. document_by_type (dict_of (JDict demo_case)) ''SOP'' = Inr (Some d) \<and> is_approved_type ''SOP'' d
    \<and> d \<in> set (documents_of (JDict demo_case))
    \<and> (\<forall>e \<in> set (documents_of (JDict demo_case)). is_approved_type ''SOP'' e \<longrightarrow> e = d)"
  using approved_document_exists[OF demo_case_valid, of "''SOP''"]
  by (simp add: REQUIRED_DOCUMENT_TYPES_def)

section \<open>Preparation and migration\<close>

text \<open>
  C2. What \<open>prepare_case\<close> returns is a validated case of the current version, and preparing
  it again changes nothing.
\<close>

theorem prepare_case_contract:
  assumes "prepare_case R v = Inr w"
  shows "validate_case R w = Inr ()
    \<and> dget ''schema_version'' (dict_of w) = JStr CASE_SCHEMA_VERSION
    \<and> prepare_case R w = Inr w"
  using prepare_case_valid[OF assms] prepare_case_version[OF assms] prepare_case_idem[OF assms]
  by simp

lemma demo_case_prepared: "prepare_case demo_runtime (JDict demo_case) = Inr (JDict demo_case)"
  using demo_case_valid validate_case_header_facts(6)[OF demo_case_valid]
  by (simp add: prepare_case_def migrate_current)

theorem prepare_case_contract_witness:
  "validate_case demo_runtime (JDict demo_case) = Inr ()
    \<and> dget ''schema_version'' (dict_of (JDict demo_case)) = JStr CASE_SCHEMA_VERSION
    \<and> prepare_case demo_runtime (JDict demo_case) = Inr (JDict demo_case)"
  by (rule prepare_case_contract[OF demo_case_prepared])

text \<open>
  C3. The migration of a v0.1 case invents no relationship.  The event gains the link of its
  single step and single characteristic when its scope leaves one pair, and is otherwise
  returned as it is, marked ambiguous; the rows of the documents are the rows of the input
  (only the references of inspection records are wrapped as unattested).
\<close>

theorem legacy_migration_infers_one_pair_only:
  assumes "migrate_legacy_relationships R (JDict c) = Inr w"
    and "dget_or ''schema_version'' (JStr LEGACY_CASE_SCHEMA_VERSION) c = JStr LEGACY_CASE_SCHEMA_VERSION"
    and "dget ''event'' c = JDict event"
    and "dget ''documents'' c = JList docs"
  shows "\<exists>c' docs'. w = JDict c' \<and> dget ''schema_version'' c' = JStr CASE_SCHEMA_VERSION
    \<and> dget ''documents'' c' = JList docs' \<and> list_all2 same_rows docs docs'
    \<and> (if single_text (dget ''affected_process_steps'' event)
          \<and> single_text (dget ''affected_characteristics'' event)
       then dget ''event'' c' = JDict (dset ''affected_links'' (JList [JDict
              [(''process_step_id'', hd (list_of (dget ''affected_process_steps'' event))),
               (''characteristic_id'', hd (list_of (dget ''affected_characteristics'' event)))]]) event)
       else dget ''event'' c' = JDict event
         \<and> dget ''status'' (dict_of (dget ''relationship_migration'' c')) = JStr ''AMBIGUOUS'')"
proof -
  from migrate_legacy_v01[OF assms(1-3)] obtain c' where
    w: "w = JDict c'" and c': "migrate_v01_relationships R c event = Inr c'" by blast
  note f = migrate_v01_facts[OF c']
  from f(4)[OF assms(4)] obtain docs' where
    "dget ''documents'' c' = JList docs'" "list_all2 same_rows docs docs'" by blast
  with w f(1-3) show ?thesis
    by (auto simp: infer_single_link_def relationship_marker_def Let_def dget_def dget_or_def)
qed

definition demo_legacy_case :: dict where
  "demo_legacy_case =
     [(''case_id'', JStr ''CASE-1''),
      (''event'', JDict [(''affected_process_steps'', JList [JStr ''OP10'', JStr ''OP20'']),
         (''affected_characteristics'', JList [JStr ''DIA''])]),
      (''documents'', JList [demo_document ''INSPECTION_RECORD'' ''IR-1'' CHR ''5''
         [(''references'', JDict [(''SOP'', JStr ''B'')])] []])]"

lemma demo_legacy_migrates: "ok (migrate_legacy_relationships demo_runtime (JDict demo_legacy_case))"
  by code_simp

theorem legacy_migration_infers_one_pair_only_witness:
  "\<exists>c' docs'. migrate_legacy_relationships demo_runtime (JDict demo_legacy_case) = Inr (JDict c')
    \<and> dget ''event'' c' = dget ''event'' demo_legacy_case
    \<and> dget ''status'' (dict_of (dget ''relationship_migration'' c')) = JStr ''AMBIGUOUS''
    \<and> dget ''documents'' c' = JList docs'"
proof -
  from demo_legacy_migrates obtain w where
    w: "migrate_legacy_relationships demo_runtime (JDict demo_legacy_case) = Inr w" by (rule okE)
  have s: "dget_or ''schema_version'' (JStr LEGACY_CASE_SCHEMA_VERSION) demo_legacy_case
      = JStr LEGACY_CASE_SCHEMA_VERSION"
    by (simp add: dget_or_def demo_legacy_case_def)
  have e: "dget ''event'' demo_legacy_case = JDict (dict_of (dget ''event'' demo_legacy_case))"
    and d: "dget ''documents'' demo_legacy_case = JList (list_of (dget ''documents'' demo_legacy_case))"
    by (simp_all add: demo_legacy_case_def dget_def dget_or_def)
  have "\<not> single_text (dget ''affected_process_steps'' (dict_of (dget ''event'' demo_legacy_case)))"
    by (simp add: demo_legacy_case_def dget_def dget_or_def single_text_def)
  with legacy_migration_infers_one_pair_only[OF w s e d] obtain c' docs' where
    "w = JDict c'" "dget ''documents'' c' = JList docs'"
    "dget ''event'' c' = JDict (dict_of (dget ''event'' demo_legacy_case))"
    "dget ''status'' (dict_of (dget ''relationship_migration'' c')) = JStr ''AMBIGUOUS''"
    by auto
  with w e show ?thesis by metis
qed

section \<open>Mutation\<close>

text \<open>
  C4. A mutation whose operations all name documents changes nothing of the case but its list of
  documents and the mark \<open>active_mutation\<close>, and in that list only documents named by an
  operation.
\<close>

theorem document_mutation_frame:
  assumes "apply_mutation c (JDict m) = Inr c'" and "dget ''documents'' c = JList docs"
    and "list_all targets_document (list_of (dget ''operations'' m))"
  shows "\<exists>ids docs'. rmap document_key docs = Inr ids
    \<and> c' = dset ''active_mutation'' (dget ''mutation_id'' m) (dset ''documents'' (JList docs') c)
    \<and> length docs' = length docs
    \<and> (\<forall>i < length docs. list_ex (names_document (ids ! i)) (list_of (dget ''operations'' m))
          \<or> docs' ! i = docs ! i)"
  by (rule apply_mutation_documents[OF assms])

definition demo_mutation :: dict where
  "demo_mutation = [(''mutation_id'', JStr ''M-1''), (''operations'', JList [JDict
     [(''op'', JStr ''set''), (''document_id'', JStr ''CP-1''), (''path'', JStr ''fields.process_steps''),
      (''value'', JList [])]])]"

lemma demo_mutation_applies: "ok (apply_mutation demo_case (JDict demo_mutation))"
  by code_simp

theorem document_mutation_frame_witness:
  "\<exists>c' ids docs'. apply_mutation demo_case (JDict demo_mutation) = Inr c'
    \<and> rmap document_key demo_documents = Inr ids
    \<and> c' = dset ''active_mutation'' (JStr ''M-1'') (dset ''documents'' (JList docs') demo_case)
    \<and> length docs' = length demo_documents
    \<and> (\<forall>i < length demo_documents.
        list_ex (names_document (ids ! i)) (list_of (dget ''operations'' demo_mutation))
          \<or> docs' ! i = demo_documents ! i)"
proof -
  from demo_mutation_applies obtain c' where c': "apply_mutation demo_case (JDict demo_mutation) = Inr c'"
    by (rule okE)
  have "dget ''documents'' demo_case = JList demo_documents"
    by (simp add: demo_case_def dget_def dget_or_def)
  moreover have "list_all targets_document (list_of (dget ''operations'' demo_mutation))"
    by code_simp
  moreover have "dget ''mutation_id'' demo_mutation = JStr ''M-1''" by code_simp
  ultimately show ?thesis using document_mutation_frame[OF c'] c' by simp
qed

section \<open>The canonical hash\<close>

text \<open>
  C5. The hash of a validated case does not depend on the order of its documents, and the
  reordered case is validated as well.
\<close>

theorem document_order_irrelevant:
  assumes "validate_case R (JDict c) = Inr ()"
    and "dget ''documents'' c = JList docs" and "mset docs = mset docs'"
  shows "validate_case R (JDict (dset ''documents'' (JList docs') c)) = Inr ()
    \<and> canonical_hash R (JDict (dset ''documents'' (JList docs') c)) = canonical_hash R (JDict c)"
  using validate_case_reorder[OF assms] canonical_hash_reorder[OF assms] by simp

definition demo_reversed :: dict where
  "demo_reversed = dset ''documents'' (JList (rev demo_documents)) demo_case"

theorem document_order_irrelevant_witness:
  "validate_case demo_runtime (JDict demo_reversed) = Inr ()
    \<and> canonical_hash demo_runtime (JDict demo_reversed) = canonical_hash demo_runtime (JDict demo_case)"
  using document_order_irrelevant[OF demo_case_valid, of demo_documents "rev demo_documents"]
  by (simp add: demo_reversed_def demo_case_def dget_def dget_or_def)

text \<open>
  C6. The hash identifies the canonical form: two validated cases with the same hash have the
  same canonical projection, up to the order of dictionary keys, or their two payloads are a
  collision of SHA-256.  The hypothesis on the runtime is the documented behaviour of
  \<open>float.__repr__\<close>.
\<close>

theorem canonical_hash_identifies:
  assumes "float_printer (rt_float_repr R)"
    and v: "validate_case R v = Inr ()" and w: "validate_case R w = Inr ()"
    and h: "canonical_hash R v = Inr h" "canonical_hash R w = Inr h"
  shows "\<exists>c d s t. canonical_case_projection R (dict_of v) = Inr c
    \<and> canonical_case_projection R (dict_of w) = Inr d
    \<and> canonical_payload R v = Inr s \<and> canonical_payload R w = Inr t
    \<and> (canon (JDict c) = canon (JDict d) \<or> sha_collision s t)"
proof -
  from h obtain c d s t where
    "canonical_case_projection R (dict_of v) = Inr c" "canonical_payload R v = Inr s"
    "canonical_case_projection R (dict_of w) = Inr d" "canonical_payload R w = Inr t"
    by (auto simp: canonical_hash_def canonical_payload_valid[OF v] canonical_payload_valid[OF w]
        rbind_Inr_iff)
  with float_printer.canonical_hash_binds[OF assms(1) refl v _ w _ h] show ?thesis by auto
qed

lemma demo_payload: "ok (canonical_payload demo_runtime (JDict demo_case))"
proof -
  have "case canonical_case_projection demo_runtime demo_case of
      Inl e \<Rightarrow> False | Inr c \<Rightarrow> json_finite (JDict c)"
    by code_simp
  then show ?thesis
    by (auto simp: canonical_payload_valid[OF demo_case_valid] json_dumps_def split: sum.splits)
qed

theorem canonical_hash_identifies_witness:
  "\<exists>c d s t. canonical_case_projection demo_runtime demo_case = Inr c
    \<and> canonical_case_projection demo_runtime demo_reversed = Inr d
    \<and> canonical_payload demo_runtime (JDict demo_case) = Inr s
    \<and> canonical_payload demo_runtime (JDict demo_reversed) = Inr t
    \<and> (canon (JDict c) = canon (JDict d) \<or> sha_collision s t)"
proof -
  have p: "float_printer (rt_float_repr demo_runtime)"
    using demo_printer.float_printer_axioms by (simp add: demo_runtime_def)
  have m: "mset demo_documents = mset (rev demo_documents)" by simp
  have d: "dget ''documents'' demo_case = JList demo_documents"
    by (simp add: demo_case_def dget_def dget_or_def)
  from demo_payload obtain h where h: "canonical_hash demo_runtime (JDict demo_case) = Inr h"
    by (auto simp: canonical_hash_def elim: okE)
  have h': "canonical_hash demo_runtime (JDict demo_reversed) = Inr h"
    unfolding demo_reversed_def using canonical_hash_reorder[OF demo_case_valid d m] h by simp
  have v: "validate_case demo_runtime (JDict demo_reversed) = Inr ()"
    unfolding demo_reversed_def by (rule validate_case_reorder[OF demo_case_valid d m])
  show ?thesis using canonical_hash_identifies[OF p demo_case_valid v h h'] by simp
qed

end
