(* ===== verification/Rule_Results.thy ===== *)
theory Rule_Results
  imports Loader_Migration
begin

text \<open>
  The result types of \<open>models.py\<close> that the rules build: the status of a check, evidence,
  findings and the impact plan.  The severity order of the statuses is an instance of
  \<open>linorder\<close>.
\<close>

section \<open>Status\<close>

datatype check_status = PASS | UNVERIFIABLE | CONTRADICTED

fun status_rank :: "check_status \<Rightarrow> nat" where
  "status_rank PASS = 0"
| "status_rank UNVERIFIABLE = 1"
| "status_rank CONTRADICTED = 2"

lemma status_rank_inject [simp]: "status_rank s = status_rank t \<longleftrightarrow> s = t"
  by (cases s; cases t) auto

instantiation check_status :: linorder
begin

definition less_eq_check_status :: "check_status \<Rightarrow> check_status \<Rightarrow> bool" where
  "s \<le> t \<longleftrightarrow> status_rank s \<le> status_rank t"

definition less_check_status :: "check_status \<Rightarrow> check_status \<Rightarrow> bool" where
  "s < t \<longleftrightarrow> status_rank s < status_rank t"

instance
  by standard (auto simp: less_eq_check_status_def less_check_status_def)

end

text \<open>The text of the enumeration value.\<close>

fun status_text :: "check_status \<Rightarrow> string" where
  "status_text PASS = ''PASS''"
| "status_text CONTRADICTED = ''CONTRADICTED''"
| "status_text UNVERIFIABLE = ''UNVERIFIABLE''"

section \<open>Evidence, findings and the plan\<close>

text \<open>
  The fields of an \<open>EvidenceRef\<close> are declared \<open>str\<close>, but the rules fill them with members of
  the case: they are values here.
\<close>

record evidence_ref =
  ev_document_id :: json
  ev_revision :: json
  ev_locator :: json
  ev_excerpt :: string
  ev_source_hash :: json

record finding =
  f_rule_id :: string
  f_title :: string
  f_status :: check_status
  f_severity :: string
  f_summary :: string
  f_evidence :: "evidence_ref list"
  f_remediation :: string
  f_acceptance :: "string list"

record impact_plan =
  ip_event_id :: json
  ip_process_steps :: "string list"
  ip_characteristics :: "string list"
  ip_links :: "(string \<times> string) list"
  ip_document_types :: "string list"
  ip_rule_ids :: "string list"
  ip_reasoning :: "string list"

section \<open>Building evidence and findings\<close>

definition stable_excerpt :: "runtime \<Rightarrow> json \<Rightarrow> string res" where
  "stable_excerpt R v = (if is_dict v \<or> is_list v then json_dumps R v else Inr (py_str R v))"

definition evidence :: "runtime \<Rightarrow> dict \<Rightarrow> json \<Rightarrow> json \<Rightarrow> evidence_ref res" where
  "evidence R doc locator excerpt =
     rbind (ditem ''document_id'' doc) (\<lambda>i.
     rbind (stable_excerpt R excerpt) (\<lambda>t.
     Inr \<lparr>ev_document_id = i, ev_revision = dget_or ''revision'' (JStr ''UNKNOWN'') doc,
          ev_locator = locator, ev_excerpt = t,
          ev_source_hash = dget_or ''source_hash'' (JStr []) doc\<rparr>))"

definition event_evidence :: "runtime \<Rightarrow> dict \<Rightarrow> string \<Rightarrow> json \<Rightarrow> evidence_ref res" where
  "event_evidence R event locator excerpt =
     rbind (stable_excerpt R excerpt) (\<lambda>t.
     Inr \<lparr>ev_document_id = JStr ''CHANGE_EVENT'',
          ev_revision = dget_or ''revision'' (JStr ''UNKNOWN'') event,
          ev_locator = JStr locator, ev_excerpt = t, ev_source_hash = JStr []\<rparr>)"

definition case_evidence :: "runtime \<Rightarrow> string \<Rightarrow> json \<Rightarrow> evidence_ref res" where
  "case_evidence R locator excerpt =
     rbind (stable_excerpt R excerpt) (\<lambda>t.
     Inr \<lparr>ev_document_id = JStr ''CASE_INPUT'', ev_revision = JStr ''1'',
          ev_locator = JStr locator, ev_excerpt = t, ev_source_hash = JStr []\<rparr>)"

definition finding_of :: "string \<Rightarrow> string \<Rightarrow> check_status \<Rightarrow> string \<Rightarrow> evidence_ref list \<Rightarrow> string
    \<Rightarrow> string \<Rightarrow> string list \<Rightarrow> finding" where
  "finding_of rule_id title status summary evs severity remediation acceptance =
     \<lparr>f_rule_id = rule_id, f_title = title, f_status = status, f_severity = severity,
      f_summary = summary, f_evidence = evs, f_remediation = remediation,
      f_acceptance = acceptance\<rparr>"

text \<open>Evidence lists that are built one reference at a time.\<close>

definition collect :: "evidence_ref res list \<Rightarrow> evidence_ref list res" where
  "collect rs = rmap (\<lambda>r. r) rs"

section \<open>Lemmas\<close>

lemma status_le_simps [simp]:
  "PASS \<le> s" "s \<le> CONTRADICTED" "UNVERIFIABLE \<le> PASS \<longleftrightarrow> False"
  "CONTRADICTED \<le> s \<longleftrightarrow> s = CONTRADICTED"
  by (cases s; simp add: less_eq_check_status_def)+

lemma status_text_inject [simp]: "status_text s = status_text t \<longleftrightarrow> s = t"
  by (cases s; cases t) auto

lemma finding_of_simps [simp]:
  "f_rule_id (finding_of r t s m e v d a) = r" "f_title (finding_of r t s m e v d a) = t"
  "f_status (finding_of r t s m e v d a) = s" "f_evidence (finding_of r t s m e v d a) = e"
  "f_severity (finding_of r t s m e v d a) = v" "f_summary (finding_of r t s m e v d a) = m"
  by (simp_all add: finding_of_def)

lemma finding_of_inject [simp]:
  "finding_of r t s m e v d a = finding_of r' t' s' m' e' v' d' a' \<longleftrightarrow>
     r = r' \<and> t = t' \<and> s = s' \<and> m = m' \<and> e = e' \<and> v = v' \<and> d = d' \<and> a = a'"
  by (auto simp: finding_of_def)

lemma ok_stable_excerpt [ok_intros]: "json_finite v \<Longrightarrow> ok (stable_excerpt R v)"
  by (simp add: stable_excerpt_def json_dumps_def)

lemma ok_evidence [ok_intros]: "dhas ''document_id'' d \<Longrightarrow> json_finite v \<Longrightarrow> ok (evidence R d l v)"
  by (auto simp: evidence_def intro!: ok_intros)

lemma ok_event_evidence [ok_intros]: "json_finite v \<Longrightarrow> ok (event_evidence R d l v)"
  by (auto simp: event_evidence_def intro!: ok_intros)

lemma ok_case_evidence [ok_intros]: "json_finite v \<Longrightarrow> ok (case_evidence R l v)"
  by (auto simp: case_evidence_def intro!: ok_intros)

lemma ok_collect [ok_intros]: "(\<And>r. r \<in> set rs \<Longrightarrow> ok r) \<Longrightarrow> ok (collect rs)"
  by (auto simp: collect_def intro!: ok_intros)

end
