(* ===== verification/Messages.thy ===== *)
theory Messages
  imports Py_Text
begin

text \<open>
  The Chinese texts of \<open>impact.py\<close> and \<open>rules.py\<close>, byte for byte: the UTF-8 encoding of each
  literal, in hexadecimal.  \<open>r3_text5\<close> is the fifth literal of the third rule, in the order of the
  source; a literal that occurs again has the name of its first occurrence.
\<close>

definition hex_digit_val :: "char \<Rightarrow> nat" where
  "hex_digit_val a = (if is_digit a then digit_val a else of_char a - 87)"

fun utf8_hex :: "string \<Rightarrow> string" where
  "utf8_hex (a # b # s) = char_of (16 * hex_digit_val a + hex_digit_val b) # utf8_hex s"
| "utf8_hex _ = []"

section \<open>The impact plan\<close>

definition plan_text1 :: string where
  "plan_text1 = utf8_hex ''e4ba8be4bbb620''"

definition plan_text2 :: string where
  "plan_text2 = utf8_hex ''20e7b1bbe59e8be4b8ba20''"

definition plan_text3 :: string where
  "plan_text3 = utf8_hex ''e58f97e5bdb1e5938de5b7a5e5ba8fefbc9a''"

definition plan_text4 :: string where
  "plan_text4 = utf8_hex ''e69caae68f90e4be9b''"

definition plan_text5 :: string where
  "plan_text5 = utf8_hex ''e58f97e5bdb1e5938de789b9e680a7efbc9a''"

definition plan_text6 :: string where
  "plan_text6 = utf8_hex ''e58f97e5bdb1e5938de585b3e7b3bbefbc9a''"

definition plan_text7 :: string where
  "plan_text7 = utf8_hex (''e5b7a5e7a88be58f98e69bb4e8a7a6e58f91e6b581e7a88be38081e9a38ee999a9e38081e68ea7e5'' @
     ''88b6e38081e4bd9ce4b89ae4b88ee6a380e9aa8ce4ba94e7b1bbe69687e6a1a3e59b9ee5bd92'')"

section \<open>Rule QCI-R001\<close>

definition r1_text1 :: string where
  "r1_text1 = utf8_hex ''e58f97e5bdb1e5938de5b7a5e5ba8fe8a686e79b96''"

definition r1_text2 :: string where
  "r1_text2 = utf8_hex (''e7bcbae5b091e8bf87e7a88be6b581e7a88be59bbee3808150464d4541e38081e68ea7e588b6e8ae'' @
     ''a1e58892e68896e58f97e5bdb1e5938de5b7a5e5ba8fe6b885e58d95e38082'')"

definition r1_text3 :: string where
  "r1_text3 = utf8_hex (''e5b7a5e5ba8fe69caae5908ce697b6e8bf9be585a5e8bf87e7a88be6b581e7a88be59bbee3808150'' @
     ''464d4541e4b88ee68ea7e588b6e8aea1e58892efbc9a'')"

definition r1_text4 :: string where
  "r1_text4 = utf8_hex ''e38082''"

definition r1_text5 :: string where
  "r1_text5 = utf8_hex (''e8a1a5e58585e7bcbae5a4b1e5b7a5e5ba8fe58f8ae585b6e6b581e7a88be38081e9a38ee999a9e4'' @
     ''b88ee68ea7e588b6e698a0e5b084e38082'')"

definition r1_text6 :: string where
  "r1_text6 = utf8_hex (''e8bf87e7a88be6b581e7a88be59bbee3808150464d4541e4b88ee68ea7e588b6e8aea1e58892e59d'' @
     ''87e58c85e590abe585a8e983a8e58f97e5bdb1e5938de5b7a5e5ba8f'')"

definition r1_text7 :: string where
  "r1_text7 = utf8_hex (''e58f97e5bdb1e5938de789b9e680a7e7bcbae5b091e7a1aee5ae9ae79a84e5b7a5e5ba8fe28094e7'' @
     ''89b9e680a7e585b3e7b3bbefbc8ce4b88de883bde4bb8ee78bace7ab8be99b86e59088e68ea8e696'' @
     ''ade38082'')"

definition r1_text8 :: string where
  "r1_text8 = utf8_hex (''e4b8bae6af8fe4b8aae58f97e5bdb1e5938de789b9e680a7e5a3b0e6988ee698bee5bc8f61666665'' @
     ''637465645f6c696e6b73e585b3e7b3bbe38082'')"

definition r1_text9 :: string where
  "r1_text9 = utf8_hex (''e6af8fe4b8aae58f97e5bdb1e5938de789b9e680a7e887b3e5b091e7bb91e5ae9ae4b880e4b8aae6'' @
     ''988ee7a1aee5b7a5e5ba8f'')"

definition r1_text10 :: string where
  "r1_text10 = utf8_hex (''e697a7e78988e69687e6a1a3e8a18ce6b2a1e69c89e58fafe5ae9ae4bd8de79a84e5b7a5e5ba8fe5'' @
     ''85b3e7b3bbefbc9be4ba8be4bbb673636f7065e4b88de883bde69bbfe4bba3e69687e6a1a3e8af81'' @
     ''e68daee38082'')"

definition r1_text11 :: string where
  "r1_text11 = utf8_hex (''e7bcbae5b091e698bee5bc8fe5b7a5e5ba8fe28094e789b9e680a7e689bfe68ea5e585b3e7b3bbef'' @
     ''bc9a'')"

definition r1_text12 :: string where
  "r1_text12 = utf8_hex (''e59ca850464d4541e4b88ee68ea7e588b6e8aea1e58892e4b8ade8a1a5e9bd90e4b88ee4ba8be4bb'' @
     ''b661666665637465645f6c696e6b73e5ae8ce585a8e4b880e887b4e79a84e585b3e7b3bbe8beb9e3'' @
     ''8082'')"

definition r1_text13 :: string where
  "r1_text13 = utf8_hex (''e6af8fe4b8aa61666665637465645f6c696e6b732070616972e59d87e69c8950464d4541e9a38ee9'' @
     ''99a9e4b88ee68ea7e588b6e8aea1e58892e68ea7e588b6e9a1b9'')"

definition r1_text14 :: string where
  "r1_text14 = utf8_hex (''e58f97e5bdb1e5938de5b7a5e5ba8fe58f8ae698bee5bc8fe5b7a5e5ba8fe28094e789b9e680a7e5'' @
     ''85b3e7b3bbe5b7b2e794b1e6b581e7a88be38081e9a38ee999a9e4b88ee68ea7e588b6e8a18ce689'' @
     ''bfe68ea5e38082'')"

section \<open>Rule QCI-R002\<close>

definition r2_text1 :: string where
  "r2_text1 = utf8_hex ''e8b7a8e69687e6a1a3e8a784e6a0bce4b880e887b4e680a7''"

definition r2_text2 :: string where
  "r2_text2 = utf8_hex (''e7bcbae5b091e68ea7e588b6e8aea1e58892e38081534f50e38081e6a380e9aa8ce8aeb0e5bd95e6'' @
     ''8896e58f97e5bdb1e5938de789b9e680a7e38082'')"

definition r2_text3 :: string where
  "r2_text3 = utf8_hex (''e7bcbae5b091e698bee5bc8f61666665637465645f6c696e6b73efbc8ce4b88de883bde7a1aee5ae'' @
     ''9ae5ba94e6af94e8be83e593aae4b880e98193e5b7a5e5ba8fe79a84e5908ce5908de789b9e680a7'' @
     ''e38082'')"

definition r2_text4 :: string where
  "r2_text4 = utf8_hex (''e697a7e78988e8a784e6a0bce8a18ce6b2a1e69c89e698bee5bc8fe5b7a5e5ba8fe585b3e7b3bbef'' @
     ''bc8ce4b88de883bde68c8970616972e6af94e8be83e38082'')"

definition r2_text5 :: string where
  "r2_text5 = utf8_hex ''e58f91e78eb0e8a784e6a0bce68896e58d95e4bd8de586b2e7aa81efbc9a''"

definition r2_text6 :: string where
  "r2_text6 = utf8_hex (''e794b1e5b7a5e889ba2fe8b4a8e9878fe8b49fe8b4a3e4babae7a1aee8aea4e69d83e5a881e8a784'' @
     ''e6a0bce5908eefbc8ce5908ce6ada5e68ea7e588b6e8aea1e58892e38081534f50e4b88ee6a380e9'' @
     ''aa8ce58786e58899e38082'')"

definition r2_text7 :: string where
  "r2_text7 = utf8_hex ''e4b889e7b1bbe69687e4bbb6e8a784e6a0bce5928ce58d95e4bd8de5ae8ce585a8e4b880e887b4''"

definition r2_text8 :: string where
  "r2_text8 = utf8_hex ''e4bfaee8aea2e8aeb0e5bd95e58c85e590ab4f776e6572e4b88ee689b9e58786e4bfa1e681af''"

definition r2_text9 :: string where
  "r2_text9 = utf8_hex ''e5908ce5908de789b9e680a7e7bb91e5ae9ae588b0e99499e8afafe5b7a5e5ba8fefbc9a''"

definition r2_text10 :: string where
  "r2_text10 = utf8_hex (''e68c8961666665637465645f6c696e6b73e4bfaee6ada3e69687e6a1a3e79a84e5b7a5e5ba8fe280'' @
     ''94e789b9e680a7e585b3e7b3bbe38082'')"

definition r2_text11 :: string where
  "r2_text11 = utf8_hex (''e68ea7e588b6e8aea1e58892e38081534f50e4b88ee6a380e9aa8ce8aeb0e5bd95e59d87e68c89e5'' @
     ''908ce4b88070616972e68f90e4be9be8a784e6a0bc'')"

definition r2_text12 :: string where
  "r2_text12 = utf8_hex ''e7bcbae5b091e58fafe6af94e8be83e8a784e6a0bcefbc9a''"

definition r2_text13 :: string where
  "r2_text13 = utf8_hex ''e8a1a5e9bd90e7bcbae5a4b1e789b9e680a7e58f8ae585b6e8a784e6a0bce8af81e68daee38082''"

definition r2_text14 :: string where
  "r2_text14 = utf8_hex (''e68980e69c89e58f97e5bdb1e5938de789b9e680a7e59ca8e4b889e7b1bbe69687e4bbb6e4b8ade5'' @
     ''9d87e69c89e58fafe5ae9ae4bd8de8a784e6a0bc'')"

definition r2_text15 :: string where
  "r2_text15 = utf8_hex (''e68ea7e588b6e8aea1e58892e38081534f50e4b88ee6a380e9aa8ce8aeb0e5bd95e4b8ade5908ce4'' @
     ''b880e5b7a5e5ba8fe28094e789b9e680a770616972e79a84e8a784e6a0bce4b880e887b4e38082'')"

section \<open>Rule QCI-R003\<close>

definition r3_text1 :: string where
  "r3_text1 = utf8_hex ''e789b9e6ae8ae789b9e680a7e68ea7e588b6e8a686e79b96''"

definition r3_text2 :: string where
  "r3_text2 = utf8_hex ''e7bcbae5b09150464d4541e68896e68ea7e588b6e8aea1e58892e38082''"

definition r3_text3 :: string where
  "r3_text3 = utf8_hex (''e7bcbae5b091e698bee5bc8f61666665637465645f6c696e6b73efbc8ce697a0e6b395e7a1aee5ae'' @
     ''9ae9a38ee999a9e4b88ee68ea7e588b6e79a84e585b3e7b3bbe4b8bbe4bd93e38082'')"

definition r3_text4 :: string where
  "r3_text4 = utf8_hex (''e697a7e78988e9a38ee999a92fe68ea7e588b6e8a18ce6b2a1e69c89e698bee5bc8fe585b3e7b3bb'' @
     ''efbc8ce4b88de883bde4bb8ee4ba8be4bbb673636f7065e58f8de68ea8e38082'')"

definition r3_text5 :: string where
  "r3_text5 = utf8_hex (''e58f97e5bdb1e5938d70616972e8a2abe7bb91e5ae9ae588b0e99499e8afafe5b7a5e5ba8fe68896'' @
     ''e789b9e680a7efbc9a'')"

definition r3_text6 :: string where
  "r3_text6 = utf8_hex (''e58f97e5bdb1e5938d70616972e7bcbae5b091e58fafe5ae9ae4bd8d50464d4541e9a38ee999a9e6'' @
     ''9da1e79baeefbc9a'')"

definition r3_text7 :: string where
  "r3_text7 = utf8_hex (''e59ca850464d4541e4b8ade8a1a5e58585e58f97e5bdb1e5938de5b7a5e5ba8fe28094e789b9e680'' @
     ''a770616972e79a84e58fafe5ae9ae4bd8de9a38ee999a9e58886e69e90e38082'')"

definition r3_text8 :: string where
  "r3_text8 = utf8_hex (''e6af8fe4b8aa61666665637465645f6c696e6b732070616972e887b3e5b091e5afb9e5ba94e4b880'' @
     ''e69da1e58fafe5ae9ae4bd8d50464d4541e9a38ee999a9'')"

definition r3_text9 :: string where
  "r3_text9 = utf8_hex (''e789b9e6ae8ae789b9e680a7e7bcbae5b091e5ae8ce695b4e68ea7e588b6e696b9e6b395e38081e9'' @
     ''a291e6aca1e68896e58f8de5ba94e8aea1e58892efbc9a'')"

definition r3_text10 :: string where
  "r3_text10 = utf8_hex (''e59ca8e68ea7e588b6e8aea1e58892e4b8ade8a1a5e9bd90e68ea7e588b6e696b9e6b395e38081e9'' @
     ''a291e6aca1e5928ce58f8de5ba94e8aea1e58892e38082'')"

definition r3_text11 :: string where
  "r3_text11 = utf8_hex (''e6af8fe4b8aa50464d4541e789b9e6ae8ae789b9e680a7e59d87e69c89e5ae8ce695b4e68ea7e588'' @
     ''b6e69da1e79bae'')"

definition r3_text12 :: string where
  "r3_text12 = utf8_hex (''50464d4541e789b9e6ae8ae789b9e680a7e59d87e794b1e5908ce4b880e5b7a5e5ba8fe28094e789'' @
     ''b9e680a770616972e79a84e5ae8ce695b4e68ea7e588b6e689bfe68ea5e38082'')"

section \<open>Rule QCI-R004\<close>

definition r4_text1 :: string where
  "r4_text1 = utf8_hex ''e69687e4bbb6e4bfaee8aea2e697a5e69c9fe997a8''"

definition r4_text2 :: string where
  "r4_text2 = utf8_hex (''e5b7a5e7a88be58f98e69bb4e68896e8b4a8e9878fe4ba8be4bbb6e7bcbae5b091e689b9e58786e6'' @
     ''97a5e69c9fe38082'')"

definition r4_text3 :: string where
  "r4_text3 = utf8_hex ''e7bcbae5b091e4bfaee8aea2e697a5e69c9fe38082''"

definition r4_text4 :: string where
  "r4_text4 = utf8_hex (''e69687e4bbb6e4bfaee8aea2e697a5e69c9fe697a9e4ba8ee4ba8be4bbb6e689b9e58786e4b894e6'' @
     ''97a0e69c89e69588e7bb93e69e84e58c96e8b181e5858defbc9a'')"

definition r4_text5 :: string where
  "r4_text5 = utf8_hex (''e69bb4e696b0e69687e4bbb6e4bfaee8aea2e697a5e69c9fefbc8ce68896e8a1a5e58585e7bb91e5'' @
     ''ae9ae69687e4bbb6e38081e4ba8be4bbb6e78988e69cace38081e8a792e889b2e38081e69c89e695'' @
     ''88e69c9fe5928ce4bd8de7bdaee79a84e7bb93e69e84e58c96e8b181e5858de38082'')"

definition r4_text6 :: string where
  "r4_text6 = utf8_hex (''e68980e69c89e58f97e68ea7e69687e4bbb6e4bfaee8aea2e697a5e69c9fe4b88de697a9e4ba8ee6'' @
     ''89b9e58786e697a5e69c9fefbc8ce68896e5ad98e59ca8e69c89e69588e7bb93e69e84e58c96e8b1'' @
     ''81e5858d'')"

definition r4_text7 :: string where
  "r4_text7 = utf8_hex (''e68980e69c89e58f97e68ea7e69687e4bbb6e4bfaee8aea2e697a5e69c9fe59d87e4b88de697a9e4'' @
     ''ba8ee4ba8be4bbb6e689b9e58786e697a5e69c9fefbc8ce68896e585b7e69c89e69c89e69588e7bb'' @
     ''93e69e84e58c96e8b181e5858de38082'')"

section \<open>Rule QCI-R005\<close>

definition r5_text1 :: string where
  "r5_text1 = utf8_hex ''e6a380e9aa8ce8aeb0e5bd95e5bc95e794a8e5bd93e5898de78988e69cac''"

definition r5_text2 :: string where
  "r5_text2 = utf8_hex (''e7bcbae5b091e6a380e9aa8ce8aeb0e5bd95e38081534f50e68896e68ea7e588b6e8aea1e58892e3'' @
     ''8082'')"

definition r5_text3 :: string where
  "r5_text3 = utf8_hex ''e6a380e9aa8ce8aeb0e5bd95e7bcbae5b091e78988e69cace5bc95e794a8e38082''"

definition r5_text4 :: string where
  "r5_text4 = utf8_hex (''4c45474143595f554e4154544553544544efbc9ae697a7e5bc95e794a8e4bb85e5a3b0e6988e7265'' @
     ''766973696f6eefbc8ce4b88de883bde8af81e6988e646f63756d656e742f736f7572636520696465'' @
     ''6e74697479e38082'')"

definition r5_text5 :: string where
  "r5_text5 = utf8_hex (''e4bb8ee5908ce4b880e58f97e68ea7e58e9fe5a78be5b7a5e4bbb6e58c85e9878de5bbba496e7370'' @
     ''656374696f6ee38081534f50e5928c436f6e74726f6c20506c616ee5bc95e794a8e8baabe4bbbde3'' @
     ''8082'')"

definition r5_text6 :: string where
  "r5_text6 = utf8_hex (''e5bc95e794a8e794b17365616c6564207261772d62797465205265666572656e6365436f6e746578'' @
     ''74e8af81e6988e'')"

definition r5_text7 :: string where
  "r5_text7 = utf8_hex ''e6a380e9aa8ce8aeb0e5bd95e7bcbae5b091e5bf85e8a681e58f97e68ea7e5bc95e794a8efbc9a''"

definition r5_text8 :: string where
  "r5_text8 = utf8_hex (''5345414c45445f5245464552454e43455f434f4e544558545f4d495353494e47efbc9a4a534f4ee5'' @
     ''ad97e6aeb5e688966d61726b6572e4b88de883bde8af81e6988ee5bc95e794a8e69da5e887aae590'' @
     ''8ce6aca1e58e9fe5a78be5ad97e88a82e38082'')"

definition r5_text9 :: string where
  "r5_text9 = utf8_hex (''e9809ae8bf87e58f97e999907261772062756e646c65e585a5e58fa3e9878de5bbbae5bc95e794a8'' @
     ''e4b88ae4b88be69687e38082'')"

definition r5_text10 :: string where
  "r5_text10 = utf8_hex (''5265666572656e6365436f6e74657874e794b1e5908ce4b880e4b88de58fafe58f986279746573e5'' @
     ''bfabe785a7e58685e983a8e69e84e980a0'')"

definition r5_text11 :: string where
  "r5_text11 = utf8_hex (''e6a380e9aa8ce8aeb0e5bd95e58f97e68ea7e5bc95e794a8e8baabe4bbbde4b88de4b880e887b4ef'' @
     ''bc9a'')"

definition r5_text12 :: string where
  "r5_text12 = utf8_hex (''e69bb4e696b0e6a380e9aa8ce8aeb0e5bd95e79a84e58f97e68ea7e69687e4bbb6e5bc95e794a8ef'' @
     ''bc8ce5b9b6e9878de696b0e7a1aee8aea4e58f97e5bdb1e5938de6a380e9aa8ce7bb93e69e9ce380'' @
     ''82'')"

definition r5_text13 :: string where
  "r5_text13 = utf8_hex ''e6a380e9aa8ce8aeb0e5bd95e4bb85e5bc95e794a8e5bd93e5898de689b9e58786e78988e69cac''"

definition r5_text14 :: string where
  "r5_text14 = utf8_hex (''e6a380e9aa8ce8aeb0e5bd95e5bc95e794a8e5b7b2e794b1e5908ce6aca1e58e9fe5a78be5ad97e8'' @
     ''8a82e8af81e6988ee79a84e5bd93e5898d534f50e4b88ee68ea7e588b6e8aea1e58892e8baabe4bb'' @
     ''bde38082'')"

section \<open>Rule QCI-R006\<close>

definition r6_text1 :: string where
  "r6_text1 = utf8_hex ''e4ba8be4bbb6e69c89e69588e680a7e8af81e68dae''"

definition r6_text2 :: string where
  "r6_text2 = utf8_hex (''3a20e69caae68f90e4be9be794b1e58e9fe5a78be9aa8ce8af81e68aa5e5918ae5ad97e88a82e69e'' @
     ''84e980a0e79a84e5b081e997ade8af81e68daee4b88ae4b88be69687e38082'')"

definition r6_text3 :: string where
  "r6_text3 = utf8_hex (''e68f90e4be9b534f555243452f5245534f4c564544e998b6e6aeb5e79a84e58e9fe5a78be9aa8ce8'' @
     ''af81e68aa5e5918ae58c85e5b9b6e9878de696b0e7bb91e5ae9ae4ba8be4bbb6e4b8bbe4bd93e380'' @
     ''82'')"

definition r6_text4 :: string where
  "r6_text4 = utf8_hex (''e585a8e983a8e8aea1e58892e8af81e68daee794b1e58e9fe5a78be5ad97e88a82e9878de5bbbae5'' @
     ''b9b6e4b88ee5bd93e5898de4b8bbe4bd93e4b880e887b4'')"

definition r6_text5 :: string where
  "r6_text5 = utf8_hex (''56414c49444154494f4e5f504c414e5f52455155495245443a20e5bd93e5898de4ba8be4bbb6e6b2'' @
     ''a1e69c89e58e9fe7949f76302e34e9aa8ce8af81e8aea1e58892e38082'')"

definition r6_text6 :: string where
  "r6_text6 = utf8_hex (''e9878de696b0e689a7e8a18ce9aa8ce8af81e5b9b6e4bb8ee5bd93e5898de4ba8be4bbb6e38081e8'' @
     ''8c83e59bb4e4b88e63617365e4b8bbe4bd93e7949fe68890e58e9fe5a78be68aa5e5918ae38082'')"

definition r6_text7 :: string where
  "r6_text7 = utf8_hex (''72657175697265642065766964656e636520657861637420736574e4b88ee5bd93e5898d7375626a'' @
     ''656374e98090e5ad97e6aeb5e4b880e887b4'')"

definition r6_text8 :: string where
  "r6_text8 = utf8_hex (''e58e9fe5a78be9aa8ce8af81e68aa5e5918a636c61696de4b88ee5bd93e5898d6576656e742f7363'' @
     ''6f70652f636173652f6973737565722f74696d65e8aea1e58892e98090e9a1b9e4b880e887b4e380'' @
     ''82'')"

section \<open>Rule QCI-R007\<close>

definition r7_text1 :: string where
  "r7_text1 = utf8_hex ''e9ab98e9a38ee999a9e4ba8be4bbb6e5aea1e689b9e8aeb0e5bd95e5ae8ce695b4e680a7''"

definition r7_text2 :: string where
  "r7_text2 = utf8_hex (''e4ba8be4bbb6e7bcbae5b091e58fafe9aa8ce8af81e79a84e9a38ee999a9e7ad89e7baa7efbc8ce4'' @
     ''b88de5be97e68c89e99d9ee9ab98e9a38ee999a9e694bee8a18ce38082'')"

definition r7_text3 :: string where
  "r7_text3 = utf8_hex (''e8a1a5e58585e7bb8fe8b4a3e4bbbbe4babae7a1aee8aea4e79a844c4f572f4d454449554d2f4849'' @
     ''4748e9a38ee999a9e7ad89e7baa7e38082'')"

definition r7_text4 :: string where
  "r7_text4 = utf8_hex ''e9a38ee999a9e7ad89e7baa7e5ad98e59ca8e4b894e5b19ee4ba8ee58581e8aeb8e69e9ae4b8be''"

definition r7_text5 :: string where
  "r7_text5 = utf8_hex (''e4ba8be4bbb6e4b88de698afe9ab98e9a38ee999a9efbc8ce697a0e99c80e6a380e69fa5e9ab98e9'' @
     ''a38ee999a9e4ba8be4bbb6e79a84e59088e68890e8a792e889b2e4b88ee78988e69cace8aeb0e5bd'' @
     ''95e38082'')"

definition r7_text6 :: string where
  "r7_text6 = utf8_hex (''e9ab98e9a38ee999a9e4ba8be4bbb6e6b2a1e69c89e59088e68890e5aea1e689b9e8a792e889b2e4'' @
     ''b88ee4ba8be4bbb6e78988e69cace8aeb0e5bd95e38082'')"

definition r7_text7 :: string where
  "r7_text7 = utf8_hex (''e794b1e8b4a8e9878fe8b49fe8b4a3e4babae5928ce5b7a5e889bae8b49fe8b4a3e4babae5ae8ce6'' @
     ''8890e689b9e58786e68896e9a9b3e59b9ee38082'')"

definition r7_text8 :: string where
  "r7_text8 = utf8_hex (''e8b4a8e9878fe8b49fe8b4a3e4babae5928ce5b7a5e889bae8b49fe8b4a3e4babae59d87e689b9e5'' @
     ''8786e5bd93e5898de4ba8be4bbb6e78988e69cac'')"

definition r7_text9 :: string where
  "r7_text9 = utf8_hex (''e9ab98e9a38ee999a9e4ba8be4bbb6e5bd93e5898de78988e69cace5ad98e59ca8e9a9b3e59b9ee6'' @
     ''8896e8a681e6b182e4bfaee694b9e79a84e5aea1e689b9e8aeb0e5bd95e38082'')"

definition r7_text10 :: string where
  "r7_text10 = utf8_hex (''e8a7a3e586b3e9a9b3e59b9e2fe4bfaee694b9e6848fe8a781e5908eefbc8ce794b1e5bf85e8a681'' @
     ''e8a792e889b2e9878de696b0e5aea1e689b9e5bd93e5898de4ba8be4bbb6e78988e69cace38082'')"

definition r7_text11 :: string where
  "r7_text11 = utf8_hex (''e5bd93e5898de4ba8be4bbb6e78988e69cace4b88de5ad98e59ca852454a4543544544e688964348'' @
     ''414e4745535f524551554553544544e8aeb0e5bd95'')"

definition r7_text12 :: string where
  "r7_text12 = utf8_hex (''e9ab98e9a38ee999a9e4ba8be4bbb6e7bcbae5b091e5bd93e5898de78988e69cace79a84e5bf85e8'' @
     ''a681e59088e68890e8a792e889b2e8aeb0e5bd95efbc9a'')"

definition r7_text13 :: string where
  "r7_text13 = utf8_hex (''e8a1a5e9bd90e5bd93e5898de4ba8be4bbb6e78988e69cace79a84e8a792e889b2e8aeb0e5bd95ef'' @
     ''bc9be79c9fe5ae9ee694bee8a18ce8bf98e99c80e8baabe4bbbde38081e7adbee5908de5928ce586'' @
     ''85e5aeb9e7bb91e5ae9ae7b3bbe7bb9fe38082'')"

definition r7_text14 :: string where
  "r7_text14 = utf8_hex (''e8b4a8e9878fe8b49fe8b4a3e4babae5928ce5b7a5e889bae8b49fe8b4a3e4babae8a792e889b2e8'' @
     ''aeb0e5bd95e59d87e68c87e59091e5bd93e5898de4ba8be4bbb6e78988e69cac'')"

definition r7_text15 :: string where
  "r7_text15 = utf8_hex (''e5bd93e5898de59088e68890e695b0e68daee4b8ade5bf85e8a681e8a792e889b2e4b88ee4ba8be4'' @
     ''bbb6e78988e69cace8aeb0e5bd95e9bd90e585a8efbc9be69cace8a784e58899e4b88de9aa8ce8af'' @
     ''81e79c9fe5ae9ee8baabe4bbbde38081e7adbee5908de68896e69687e6a1a3e5bfabe785a7e38082'')"

end
