(* ===== verification/Impact.thy ===== *)
theory Impact
  imports Rule_Results Messages Case_Facts
begin

text \<open>
  \<open>build_impact_plan\<close> of \<open>impact.py\<close>: the scope of the event, sorted and without duplicates,
  that every rule receives.
\<close>

definition RULE_IDS :: "string list" where
  "RULE_IDS = [''QCI-R001'', ''QCI-R002'', ''QCI-R003'', ''QCI-R004'', ''QCI-R005'', ''QCI-R006'',
     ''QCI-R007'']"

definition REQUIRED_TYPES :: "string list" where
  "REQUIRED_TYPES = [''PROCESS_FLOW'', ''PFMEA'', ''CONTROL_PLAN'', ''SOP'', ''INSPECTION_RECORD'']"

text \<open>
  \<open>sorted(set(values))\<close> of texts that are joined into one text afterwards: a member that is
  not a text makes the set, the order or the join raise a \<open>TypeError\<close>.
\<close>

definition sorted_texts :: "json \<Rightarrow> string list res" where
  "sorted_texts v = rbind (iter v) (\<lambda>xs.
     if list_all is_str xs then Inr (sort (remdups (map str_of xs))) else Inl TypeError)"

definition is_link :: "json \<Rightarrow> bool" where
  "is_link v \<longleftrightarrow> is_dict v \<and> is_str (dget ''process_step_id'' (dict_of v))
     \<and> is_str (dget ''characteristic_id'' (dict_of v))"

definition link_pair :: "json \<Rightarrow> string \<times> string" where
  "link_pair v = (str_of (dget ''process_step_id'' (dict_of v)),
                  str_of (dget ''characteristic_id'' (dict_of v)))"

definition sorted_links :: "runtime \<Rightarrow> json \<Rightarrow> (string \<times> string) list res" where
  "sorted_links R v = rbind (iter v) (\<lambda>xs.
     Inr (sort_key (\<lambda>p. relationship_key R (fst p) (snd p)) (map link_pair (filter is_link xs))))"

definition pair_label :: "string \<times> string \<Rightarrow> string" where
  "pair_label p = ''('' @ fst p @ '', '' @ snd p @ '')''"

definition joined_or_missing :: "string list \<Rightarrow> string" where
  "joined_or_missing xs = (if xs = [] then plan_text4 else join_with '', '' xs)"

definition reasoning_path :: "runtime \<Rightarrow> json \<Rightarrow> dict \<Rightarrow> string list \<Rightarrow> string list
    \<Rightarrow> (string \<times> string) list \<Rightarrow> string list" where
  "reasoning_path R event_id event steps chars links =
     [plan_text1 @ py_str R event_id @ plan_text2
        @ py_str R (dget_or ''event_type'' (JStr ''UNKNOWN'') event),
      plan_text3 @ joined_or_missing steps,
      plan_text5 @ joined_or_missing chars,
      plan_text6 @ joined_or_missing (map pair_label links),
      plan_text7]"

definition build_impact_plan :: "runtime \<Rightarrow> dict \<Rightarrow> impact_plan res" where
  "build_impact_plan R c =
     rbind (ditem ''event'' c) (\<lambda>ev.
     rbind (as_dict ev) (\<lambda>event.
     rbind (sorted_texts (dget_or ''affected_process_steps'' (JList []) event)) (\<lambda>steps.
     rbind (sorted_texts (dget_or ''affected_characteristics'' (JList []) event)) (\<lambda>chars.
     rbind (sorted_links R (dget_or ''affected_links'' (JList []) event)) (\<lambda>links.
     rbind (ditem ''event_id'' event) (\<lambda>event_id.
     Inr \<lparr>ip_event_id = event_id, ip_process_steps = steps, ip_characteristics = chars,
          ip_links = links, ip_document_types = REQUIRED_TYPES, ip_rule_ids = RULE_IDS,
          ip_reasoning = reasoning_path R event_id event steps chars links\<rparr>))))))"

section \<open>The plan of a validated case\<close>

lemma sorted_texts_list:
  "list_all is_str xs \<Longrightarrow> sorted_texts (JList xs) = Inr (sort (remdups (map str_of xs)))"
  by (simp add: sorted_texts_def)

lemma list_all_nonblank_str: "list_all nonblank_str xs \<Longrightarrow> list_all is_str xs"
  by (auto simp: list_all_iff elim!: nonblank_strE)

lemma validate_event_facts:
  assumes "validate_event R vm (JDict event) = Inr u"
  shows "dhas ''event_id'' event" "dhas ''revision'' event" "dhas ''risk_level'' event"
    "dhas ''event_type'' event"
    "nonblank_str (dget ''event_id'' event)" "nonblank_str (dget ''revision'' event)"
    "str_in (dget ''risk_level'' event) RISK_LEVELS"
    "\<exists>xs. dget ''affected_process_steps'' event = JList xs \<and> list_all nonblank_str xs"
    "\<exists>xs. dget ''affected_characteristics'' event = JList xs \<and> list_all nonblank_str xs"
    "dhas ''affected_process_steps'' event" "dhas ''affected_characteristics'' event"
  using assms
  by (auto simp: validate_event_def validate_event_header_def check_simps has_keys_iff
      elim!: is_listE)

lemma validated_event:
  assumes "validate_case R v = Inr u"
  shows "validate_event R (dget ''validation_migration'' (dict_of v)) (JDict (event_of v)) = Inr ()"
  using validate_case_parts(1)[OF assms] validate_case_event(1)[OF assms] by simp

text \<open>
  A present but null \<open>affected_links\<close> is the one input the validator lets through on which
  the plan raises.
\<close>

definition null_links :: "dict \<Rightarrow> bool" where
  "null_links event \<longleftrightarrow> dhas ''affected_links'' event \<and> dget ''affected_links'' event = JNull"

definition plan_steps :: "dict \<Rightarrow> string list" where
  "plan_steps event = sort (remdups (map str_of (list_of (dget ''affected_process_steps'' event))))"

definition plan_characteristics :: "dict \<Rightarrow> string list" where
  "plan_characteristics event =
     sort (remdups (map str_of (list_of (dget ''affected_characteristics'' event))))"

definition plan_links :: "runtime \<Rightarrow> dict \<Rightarrow> (string \<times> string) list" where
  "plan_links R event = sort_key (\<lambda>p. relationship_key R (fst p) (snd p))
     (map link_pair (filter is_link (list_of (dget ''affected_links'' event))))"

definition plan_of :: "runtime \<Rightarrow> dict \<Rightarrow> impact_plan" where
  "plan_of R event =
     \<lparr>ip_event_id = dget ''event_id'' event, ip_process_steps = plan_steps event,
      ip_characteristics = plan_characteristics event, ip_links = plan_links R event,
      ip_document_types = REQUIRED_TYPES, ip_rule_ids = RULE_IDS,
      ip_reasoning = reasoning_path R (dget ''event_id'' event) event (plan_steps event)
        (plan_characteristics event) (plan_links R event)\<rparr>"

lemma validated_links:
  assumes "validate_case R v = Inr u" and "\<not> null_links (event_of v)"
  shows "sorted_links R (dget_or ''affected_links'' (JList []) (event_of v)) = Inr (plan_links R (event_of v))"
proof (cases "dhas ''affected_links'' (event_of v)")
  case True
  with assms(2) have "dget ''affected_links'' (event_of v) \<noteq> JNull" by (simp add: null_links_def)
  then have "is_list (dget ''affected_links'' (event_of v))"
    using validated_event[OF assms(1)]
    by (simp add: validate_event_def validate_affected_links_def check_simps)
  with True show ?thesis by (auto simp: dget_or_dget sorted_links_def plan_links_def elim: is_listE)
next
  case False
  then show ?thesis by (simp add: dget_or_dget sorted_links_def plan_links_def not_dhas_dget)
qed

lemma plan_of_validated:
  assumes "validate_case R v = Inr u" and "\<not> null_links (event_of v)"
  shows "build_impact_plan R (dict_of v) = Inr (plan_of R (event_of v))"
proof -
  note ev = validate_event_facts[OF validated_event[OF assms(1)]]
  from ev(8,9) have
    "sorted_texts (dget_or ''affected_process_steps'' (JList []) (event_of v)) = Inr (plan_steps (event_of v))"
    "sorted_texts (dget_or ''affected_characteristics'' (JList []) (event_of v))
      = Inr (plan_characteristics (event_of v))"
    using ev(10,11) list_all_nonblank_str
    by (auto simp: dget_or_dget sorted_texts_list plan_steps_def plan_characteristics_def)
  with validated_links[OF assms] dhas_ditem[OF ev(1)] validate_case_event(2)[OF assms(1)]
  show ?thesis by (simp add: build_impact_plan_def plan_of_def)
qed

lemma plan_null_links:
  assumes "validate_case R v = Inr u" and "null_links (event_of v)"
  shows "build_impact_plan R (dict_of v) = Inl TypeError"
proof -
  note ev = validate_event_facts[OF validated_event[OF assms(1)]]
  from ev(8,9) obtain xs ys where
    "dget ''affected_process_steps'' (event_of v) = JList xs" "list_all nonblank_str xs"
    "dget ''affected_characteristics'' (event_of v) = JList ys" "list_all nonblank_str ys"
    by blast
  then show ?thesis
    using ev(10,11) assms(2) validate_case_event(2)[OF assms(1)] list_all_nonblank_str
    by (simp add: build_impact_plan_def dget_or_dget sorted_texts_list null_links_def sorted_links_def)
qed

end
