(* ===== verification/Rules_Common.thy ===== *)
theory Rules_Common
  imports Impact
begin

text \<open>
  The helpers the relationship rules of \<open>rules.py\<close> share: the indexes of rows by their
  normalised pair, the candidates shown for a missing pair, the evidence of unbound legacy
  rows, and the specification of a characteristic.
\<close>

definition RULESET_VERSION :: string where
  "RULESET_VERSION = ''qci-rules-0.6.0''"

type_synonym pair = "string \<times> string"

definition field_absent :: json where
  "field_absent = JStr ''FIELD_ABSENT''"

section \<open>Evidence about relationships\<close>

definition pair_json :: "pair \<Rightarrow> json" where
  "pair_json p = JDict [(''process_step_id'', JStr (fst p)), (''characteristic_id'', JStr (snd p))]"

definition relationship_excerpt :: "dict \<Rightarrow> json" where
  "relationship_excerpt d = JDict (map (\<lambda>k. (k, dget k d)) (filter (\<lambda>k. dhas k d)
     [''process_step_id'', ''characteristic_id'', ''failure_mode_id'', ''control_id'']))"

definition relationship_evidence :: "runtime \<Rightarrow> dict \<Rightarrow> dict \<Rightarrow> evidence_ref res" where
  "relationship_evidence R doc d =
     evidence R doc (dget_or ''locator'' (JStr ''RELATION_LOCATOR_MISSING'') d) (relationship_excerpt d)"

definition pair_locator :: "string \<Rightarrow> pair \<Rightarrow> string" where
  "pair_locator base p = base @ ''[process_step_id='' @ fst p @ ''][characteristic_id='' @ snd p @ '']''"

definition missing_relationship_evidence :: "runtime \<Rightarrow> dict \<Rightarrow> string \<Rightarrow> pair \<Rightarrow> evidence_ref res" where
  "missing_relationship_evidence R doc collection p =
     evidence R doc (JStr (pair_locator (''fields.'' @ collection) p))
       (JDict [(''expected_pair'', pair_json p),
               (''status'', JStr ''MISSING_EXPECTED_RELATIONSHIP'')])"

definition event_relationship_evidence :: "runtime \<Rightarrow> dict \<Rightarrow> pair \<Rightarrow> evidence_ref res" where
  "event_relationship_evidence R event p =
     event_evidence R event (pair_locator ''affected_links'' p) (pair_json p)"

section \<open>The scope\<close>

definition scope_relationships_complete :: "runtime \<Rightarrow> impact_plan \<Rightarrow> bool" where
  "scope_relationships_complete R plan \<longleftrightarrow>
     ip_links plan \<noteq> [] \<and>
     list_all (\<lambda>c. normalized_identity R c
         \<in> set (map (\<lambda>p. normalized_identity R (snd p)) (ip_links plan)))
       (ip_characteristics plan)"

section \<open>Indexes of rows\<close>

text \<open>\<open>doc.get("fields", {}).get(collection, [])\<close>, iterated.\<close>

definition field_rows :: "dict \<Rightarrow> string \<Rightarrow> json list res" where
  "field_rows doc collection =
     rbind (as_dict (dget_or ''fields'' (JDict []) doc)) (\<lambda>flds.
     iter (dget_or collection (JList []) flds))"

definition has_step :: "json \<Rightarrow> bool res" where
  "has_step v = rbind (as_dict v) (\<lambda>d. Inr (is_str (dget ''process_step_id'' d)))"

text \<open>\<open>relationship_key(item["process_step_id"], item["characteristic_id"])\<close>.\<close>

definition row_pair :: "runtime \<Rightarrow> json \<Rightarrow> pair res" where
  "row_pair R v =
     rbind (item ''process_step_id'' v) (\<lambda>p.
     rbind (item ''characteristic_id'' v) (\<lambda>c. relationship_key_of R p c))"

text \<open>The rows that name a process step, with their pair, in the order of the document.\<close>

definition keyed_rows :: "runtime \<Rightarrow> json list \<Rightarrow> (pair \<times> dict) list res" where
  "keyed_rows R rows =
     rbind (rfilter has_step rows) (\<lambda>named.
     rmap (\<lambda>v. rbind (row_pair R v) (\<lambda>k. Inr (k, dict_of v))) named)"

text \<open>
  \<open>_characteristics(doc)\<close>: a dictionary by pair, in which the last row of a pair stays.
\<close>

definition characteristics :: "runtime \<Rightarrow> dict \<Rightarrow> (pair \<times> dict) list res" where
  "characteristics R doc =
     (if doc = [] then Inr []
      else rbind (field_rows doc ''characteristics'') (keyed_rows R))"

definition lookup_row :: "(pair \<times> dict) list \<Rightarrow> pair \<Rightarrow> dict option" where
  "lookup_row idx k = map_of (rev idx) k"

text \<open>\<open>_risks(doc)\<close>: all the rows of a pair.\<close>

definition risks :: "runtime \<Rightarrow> dict \<Rightarrow> (pair \<times> dict) list res" where
  "risks R doc =
     (if doc = [] then Inr [] else rbind (field_rows doc ''risks'') (keyed_rows R))"

definition lookup_rows :: "(pair \<times> dict) list \<Rightarrow> pair \<Rightarrow> dict list" where
  "lookup_rows idx k = map snd (filter (\<lambda>kr. fst kr = k) idx)"

text \<open>
  \<open>_relationship_candidates\<close>: the first three rows with the step of the pair, then with its
  characteristic; a row is its position, as \<open>id(item)\<close> is in the source.
\<close>

fun pick_rows :: "nat \<Rightarrow> nat list \<Rightarrow> (nat \<times> dict) list \<Rightarrow> dict list" where
  "pick_rows n seen [] = []"
| "pick_rows n seen ((i, r) # rows) =
     (if n = 0 then []
      else if i \<in> set seen then pick_rows n seen rows
      else r # pick_rows (n - 1) (i # seen) rows)"

definition relationship_candidates :: "runtime \<Rightarrow> (pair \<times> dict) list \<Rightarrow> pair \<Rightarrow> dict list" where
  "relationship_candidates R idx p =
     (let (step, characteristic) = relationship_key R (fst p) (snd p);
          numbered = zip [0..<length idx] idx;
          by_step = filter (\<lambda>r. fst (fst (snd r)) = step) numbered;
          by_characteristic = filter (\<lambda>r. snd (fst (snd r)) = characteristic) numbered
      in pick_rows 3 [] (map (\<lambda>r. (fst r, snd (snd r))) (by_step @ by_characteristic)))"

section \<open>Unbound rows of legacy documents\<close>

definition missing_bindings :: "dict \<Rightarrow> string \<Rightarrow> dict \<Rightarrow> string list" where
  "missing_bindings doc collection d =
     (if truthy (dget ''process_step_id'' d) then [] else [''process_step_id''])
     @ (if dget ''document_type'' doc = JStr ''CONTROL_PLAN'' \<and> collection = ''characteristics''
           \<and> \<not> truthy (dget ''control_id'' d) then [''control_id''] else [])"

definition unbound_row :: "runtime \<Rightarrow> dict \<Rightarrow> string \<Rightarrow> json \<Rightarrow> evidence_ref list res" where
  "unbound_row R doc collection v =
     rbind (as_dict v) (\<lambda>d.
     if missing_bindings doc collection d = [] then Inr []
     else rbind (evidence R doc (dget_or ''locator'' (JStr (''fields.'' @ collection)) d)
            (JDict [(''status'', JStr ''LEGACY_RELATIONSHIP_UNPROVEN''),
                    (''missing'', str_list (missing_bindings doc collection d)),
                    (''characteristic_id'', dget ''characteristic_id'' d),
                    (''failure_mode_id'', dget ''failure_mode_id'' d)])) (\<lambda>e. Inr [e]))"

definition unbound_collection :: "runtime \<Rightarrow> dict \<times> string \<Rightarrow> evidence_ref list res" where
  "unbound_collection R dc =
     rbind (field_rows (fst dc) (snd dc)) (\<lambda>rows.
     rbind (rmap (unbound_row R (fst dc) (snd dc)) rows) (\<lambda>es. Inr (concat es)))"

definition legacy_unbound_evidence :: "runtime \<Rightarrow> dict \<Rightarrow> (dict \<times> string) list \<Rightarrow> evidence_ref list res" where
  "legacy_unbound_evidence R c docs =
     (if \<not> dhas ''relationship_migration'' c then Inr []
      else rbind (rmap (unbound_collection R) docs) (\<lambda>es. Inr (concat es)))"

section \<open>Specifications\<close>

text \<open>\<open>minimum <= target <= maximum\<close> on finite numbers.\<close>

definition ordered_limits :: "json \<Rightarrow> json \<Rightarrow> json \<Rightarrow> bool" where
  "ordered_limits target minimum maximum \<longleftrightarrow>
     rat_of minimum \<le> rat_of target \<and> rat_of target \<le> rat_of maximum"

definition spec_tuple :: "dict \<Rightarrow> json list option res" where
  "spec_tuple d =
     (case dget ''specification'' d of
        JDict spec \<Rightarrow>
          if \<not> has_keys [''target'', ''minimum'', ''maximum'', ''unit''] spec then Inr None
          else
            (let target = dget ''target'' spec; minimum = dget ''minimum'' spec;
                 maximum = dget ''maximum'' spec; unit = dget ''unit'' spec in
             rbind (rany (\<lambda>v. rbind (finite_number v) (\<lambda>b. Inr (\<not> b))) [target, minimum, maximum])
               (\<lambda>bad. Inr
                 (if bad \<or> \<not> nonblank_str unit \<or> \<not> ordered_limits target minimum maximum
                  then None else Some [target, minimum, maximum, unit])))
      | _ \<Rightarrow> Inr None)"

text \<open>\<open>len(set(values)) > 1\<close>: two of the tuples differ as Python compares them.\<close>

fun specs_differ :: "json list list \<Rightarrow> bool" where
  "specs_differ [] = False"
| "specs_differ (v # vs) = list_ex (\<lambda>w. \<not> py_eq_list v w) vs"

section \<open>Findings the rules share\<close>

text \<open>\<open>[doc.get("document_type") for doc in case["documents"]]\<close>.\<close>

definition all_document_types :: "dict \<Rightarrow> json res" where
  "all_document_types c =
     rbind (ditem ''documents'' c) (\<lambda>v. rbind (iter v) (\<lambda>docs.
     rbind (rmap (\<lambda>d. rbind (as_dict d) (\<lambda>e. Inr (dget ''document_type'' e))) docs)
       (\<lambda>ts. Inr (JList ts))))"

definition event_dict :: "dict \<Rightarrow> dict res" where
  "event_dict c = rbind (ditem ''event'' c) as_dict"

text \<open>A document that \<open>document_by_type\<close> found is true when it has a member.\<close>

definition present :: "dict option \<Rightarrow> bool" where
  "present d \<longleftrightarrow> (case d of None \<Rightarrow> False | Some e \<Rightarrow> e \<noteq> [])"

text \<open>The evidence of an incomplete scope: \<open>event.get("affected_links", "FIELD_ABSENT")\<close>.\<close>

definition links_evidence :: "runtime \<Rightarrow> dict \<Rightarrow> evidence_ref list res" where
  "links_evidence R c =
     rbind (event_dict c) (\<lambda>event.
     rbind (event_evidence R event ''affected_links''
        (dget_or ''affected_links'' field_absent event)) (\<lambda>e. Inr [e]))"

end
