(* ===== verification/Rules_Facts.thy ===== *)
theory Rules_Facts
  imports Rules_Common
begin

text \<open>
  What the shared helpers compute on the documents of a validated case: the indexes are total
  and contain exactly the rows that name a process step.
\<close>

section \<open>Rows of a validated document\<close>

definition rows_of :: "string \<Rightarrow> dict \<Rightarrow> json list" where
  "rows_of collection doc = list_of (dget collection (doc_fields doc))"

definition bound_row :: "json \<Rightarrow> bool" where
  "bound_row v \<longleftrightarrow> is_str (dget ''process_step_id'' (dict_of v))"

definition bound_rows :: "runtime \<Rightarrow> string \<Rightarrow> dict \<Rightarrow> (pair \<times> dict) list" where
  "bound_rows R collection doc =
     map (\<lambda>v. (pair_key R (dict_of v), dict_of v)) (filter bound_row (rows_of collection doc))"

definition good_row :: "json \<Rightarrow> bool" where
  "good_row v \<longleftrightarrow> is_dict v \<and> is_str (dget ''characteristic_id'' (dict_of v))"

lemma validate_characteristic_keys_row:
  assumes "validate_characteristic_keys R doc legacy step_keys i seen controls cs = Inr ()"
    and "c \<in> set cs"
  shows "nonblank_str (dget ''characteristic_id'' (dict_of c))
    \<and> (nonblank_str (dget ''process_step_id'' (dict_of c))
       \<or> legacy \<and> dget ''process_step_id'' (dict_of c) = JNull)"
  using assms
proof (induction cs arbitrary: i seen controls)
  case Nil
  then show ?case by simp
next
  case (Cons d cs)
  then show ?case by (auto simp: check_simps split: if_splits)
qed

lemma validate_risk_items_row:
  assumes "validate_risk_items R doc legacy step_keys i seen rs = Inr ()" and "r \<in> set rs"
  shows "nonblank_str (dget ''characteristic_id'' (dict_of r))
    \<and> (nonblank_str (dget ''process_step_id'' (dict_of r))
       \<or> legacy \<and> dget ''process_step_id'' (dict_of r) = JNull)"
  using assms by (induction rs arbitrary: i seen) (auto simp: check_simps)

lemma validated_rows:
  assumes "validate_document R m rm doc = Inr u"
    and "collection \<in> {''characteristics'', ''risks''}"
  shows "field_rows doc collection = Inr (rows_of collection doc)"
    and "list_all good_row (rows_of collection doc)"
    and "dget_or collection (JList []) (doc_fields doc) = JList (rows_of collection doc)"
proof -
  note f = validate_document_facts[OF assms(1)]
  have l: "is_list (dget_or collection (JList []) (doc_fields doc))"
    using assms by (auto simp: validate_document_def validate_characteristics_def
        validate_risks_def Let_def check_simps)
  then have r: "dget_or collection (JList []) (doc_fields doc) = JList (rows_of collection doc)"
    by (auto simp: rows_of_def dget_or_dget not_dhas_dget elim: is_listE split: if_splits)
  then show "dget_or collection (JList []) (doc_fields doc) = JList (rows_of collection doc)" .
  show "field_rows doc collection = Inr (rows_of collection doc)"
    using r f(3,10) by (simp add: field_rows_def dget_or_dget)
  show "list_all good_row (rows_of collection doc)"
    using assms r
    by (auto simp: validate_document_def validate_characteristics_def validate_risks_def Let_def
        list_all_iff good_row_def dest!: validate_characteristic_keys_row validate_risk_items_row
        elim: nonblank_strE)
qed

lemma row_pair_good:
  assumes "good_row v" and "bound_row v"
  shows "row_pair R v = Inr (pair_key R (dict_of v))"
proof -
  from assms obtain d where d: "v = JDict d" by (auto simp: good_row_def elim: is_dictE)
  with assms obtain p c where "dget ''process_step_id'' d = JStr p" "dget ''characteristic_id'' d = JStr c"
    by (auto simp: good_row_def bound_row_def elim!: is_strE)
  moreover from this have "dhas ''process_step_id'' d" "dhas ''characteristic_id'' d"
    by (auto intro: dget_nonnull_dhas)
  ultimately show ?thesis by (simp add: d row_pair_def dhas_ditem pair_key_def)
qed

lemma keyed_rows_good:
  assumes "list_all good_row rows"
  shows "keyed_rows R rows
    = Inr (map (\<lambda>v. (pair_key R (dict_of v), dict_of v)) (filter bound_row rows))"
proof -
  have "rfilter has_step rows = Inr (filter bound_row rows)"
    using assms by (intro rfilter_cong_pure)
      (auto simp: list_all_iff good_row_def has_step_def bound_row_def elim!: is_dictE)
  moreover have "rmap (\<lambda>v. rbind (row_pair R v) (\<lambda>k. Inr (k, dict_of v))) (filter bound_row rows)
      = Inr (map (\<lambda>v. (pair_key R (dict_of v), dict_of v)) (filter bound_row rows))"
    using assms by (intro rmap_cong_pure) (simp add: list_all_iff row_pair_good)
  ultimately show ?thesis by (simp add: keyed_rows_def)
qed

lemma validated_nonempty: "validate_document R m rm doc = Inr u \<Longrightarrow> doc \<noteq> []"
  using validate_document_facts(1)[of R m rm doc u] by (auto simp: dhas_def)

lemma characteristics_validated:
  "validate_document R m rm doc = Inr u
    \<Longrightarrow> characteristics R doc = Inr (bound_rows R ''characteristics'' doc)"
  using validated_rows[of R m rm doc u "''characteristics''"] validated_nonempty[of R m rm doc u]
  by (simp add: characteristics_def keyed_rows_good bound_rows_def)

lemma risks_validated:
  "validate_document R m rm doc = Inr u \<Longrightarrow> risks R doc = Inr (bound_rows R ''risks'' doc)"
  using validated_rows[of R m rm doc u "''risks''"] validated_nonempty[of R m rm doc u]
  by (simp add: risks_def keyed_rows_good bound_rows_def)

section \<open>Lookups in the indexes\<close>

text \<open>A row of the document with the pair.\<close>

definition has_row :: "runtime \<Rightarrow> string \<Rightarrow> dict \<Rightarrow> pair \<Rightarrow> bool" where
  "has_row R collection doc p \<longleftrightarrow>
     (\<exists>v \<in> set (rows_of collection doc). bound_row v
        \<and> pair_key R (dict_of v) = relationship_key R (fst p) (snd p))"

lemma lookup_row_member: "lookup_row idx k = Some d \<Longrightarrow> (k, d) \<in> set idx"
  by (auto simp: lookup_row_def dest: map_of_SomeD)

lemma lookup_row_None: "lookup_row idx k = None \<longleftrightarrow> k \<notin> fst ` set idx"
  by (simp add: lookup_row_def map_of_eq_None_iff)

lemma lookup_rows_Nil: "lookup_rows idx k = [] \<longleftrightarrow> k \<notin> fst ` set idx"
  by (auto simp: lookup_rows_def filter_empty_conv)

lemma bound_rows_keys:
  "relationship_key R (fst p) (snd p) \<in> fst ` set (bound_rows R collection doc)
    \<longleftrightarrow> has_row R collection doc p"
  by (auto simp: bound_rows_def has_row_def image_iff)

lemma bound_row_nonempty: "(k, d) \<in> set (bound_rows R collection doc) \<Longrightarrow> d \<noteq> []"
  by (auto simp: bound_rows_def bound_row_def dget_def dget_or_def)

lemma present_lookup:
  "present (lookup_row (bound_rows R collection doc) (relationship_key R (fst p) (snd p)))
    \<longleftrightarrow> has_row R collection doc p"
proof (cases "lookup_row (bound_rows R collection doc) (relationship_key R (fst p) (snd p))")
  case None
  then have "\<not> has_row R collection doc p" by (simp add: lookup_row_None bound_rows_keys)
  with None show ?thesis by (simp add: present_def)
next
  case (Some d)
  then have "(relationship_key R (fst p) (snd p), d) \<in> set (bound_rows R collection doc)"
    by (rule lookup_row_member)
  then have "has_row R collection doc p" "d \<noteq> []"
    using bound_rows_keys[of R p collection doc] bound_row_nonempty by force+
  with Some show ?thesis by (simp add: present_def)
qed

lemma lookup_rows_bound:
  "lookup_rows (bound_rows R collection doc) (relationship_key R (fst p) (snd p)) = []
    \<longleftrightarrow> \<not> has_row R collection doc p"
  by (simp add: lookup_rows_Nil bound_rows_keys)

lemma pick_rows_subset: "set (pick_rows n seen rows) \<subseteq> snd ` set rows"
  by (induction n seen rows rule: pick_rows.induct) auto

lemma pick_rows_length: "length (pick_rows n seen rows) \<le> n"
  by (induction n seen rows rule: pick_rows.induct) (auto simp: not_less_eq_eq le_diff_conv2 Suc_le_eq)

lemma candidates_subset: "set (relationship_candidates R idx p) \<subseteq> snd ` set idx"
proof -
  have "set (pick_rows 3 [] (map (\<lambda>r. (fst r, snd (snd r))) (filter P (zip [0..<length idx] idx)
      @ filter Q (zip [0..<length idx] idx)))) \<subseteq> snd ` set idx" for P Q
  proof (rule order.trans[OF pick_rows_subset], rule subsetI)
    fix d
    assume "d \<in> snd ` set (map (\<lambda>r. (fst r, snd (snd r))) (filter P (zip [0..<length idx] idx)
      @ filter Q (zip [0..<length idx] idx)))"
    then obtain i k where "(i, k, d) \<in> set (zip [0..<length idx] idx)" by auto
    then show "d \<in> snd ` set idx" by (force dest: set_zip_rightD)
  qed
  then show ?thesis by (simp add: relationship_candidates_def Let_def case_prod_beta)
qed

section \<open>Finite values\<close>

lemma json_finite_member: "json_finite (JDict d) \<Longrightarrow> map_of d k = Some v \<Longrightarrow> json_finite v"
  by (auto simp: finite_items_iff list_all_iff dest!: map_of_SomeD)

lemma json_finite_dget: "json_finite (JDict d) \<Longrightarrow> json_finite (dget k d)"
  by (cases "map_of d k") (auto simp: dget_def dget_or_def intro: json_finite_member)

lemma json_finite_dget_or: "json_finite (JDict d) \<Longrightarrow> json_finite v \<Longrightarrow> json_finite (dget_or k v d)"
  by (cases "map_of d k") (auto simp: dget_or_def intro: json_finite_member)

lemma json_finite_list: "json_finite (JList xs) \<longleftrightarrow> list_all json_finite xs"
  by (simp add: finite_list_iff)

lemma json_finite_dict: "json_finite (JDict d) \<longleftrightarrow> list_all (\<lambda>kv. json_finite (snd kv)) d"
  by (simp add: finite_items_iff)

lemma json_finite_str_list [simp]: "finite_list (map JStr ss)" "json_finite (str_list ss)"
  by (simp_all add: finite_list_iff list_all_iff str_list_def)

lemma relationship_excerpt_finite: "json_finite (JDict d) \<Longrightarrow> json_finite (relationship_excerpt d)"
  by (auto simp: relationship_excerpt_def json_finite_dget)

lemma pair_json_finite [simp]: "json_finite (pair_json p)"
  by (simp add: pair_json_def)

lemma ok_relationship_evidence [ok_intros]:
  "dhas ''document_id'' doc \<Longrightarrow> json_finite (JDict d) \<Longrightarrow> ok (relationship_evidence R doc d)"
  by (auto simp: relationship_evidence_def relationship_excerpt_finite simp del: json_finite.simps
      intro!: ok_intros)

lemma ok_missing_relationship_evidence [ok_intros]:
  "dhas ''document_id'' doc \<Longrightarrow> ok (missing_relationship_evidence R doc collection p)"
  by (auto simp: missing_relationship_evidence_def intro!: ok_intros)

lemma ok_event_relationship_evidence [ok_intros]: "ok (event_relationship_evidence R event p)"
  by (auto simp: event_relationship_evidence_def simp del: json_finite.simps intro!: ok_intros)

end
