(* ===== verification/Rules_Relations.thy ===== *)
theory Rules_Relations
  imports Rules_Common
begin

text \<open>
  The three relationship rules of \<open>rules.py\<close>: coverage of the affected steps and pairs
  (QCI-R001), agreement of the specifications (QCI-R002) and control of the special
  characteristics (QCI-R003).
\<close>

section \<open>QCI-R001: coverage\<close>

definition r1_finding :: "check_status \<Rightarrow> string \<Rightarrow> evidence_ref list \<Rightarrow> string \<Rightarrow> string \<Rightarrow> string list \<Rightarrow> finding" where
  "r1_finding = finding_of ''QCI-R001'' r1_text1"

definition r1_missing_inputs :: "runtime \<Rightarrow> dict \<Rightarrow> impact_plan \<Rightarrow> finding res" where
  "r1_missing_inputs R c plan =
     rbind (event_dict c) (\<lambda>event.
     rbind (event_evidence R event ''affected_process_steps'' (str_list (ip_process_steps plan))) (\<lambda>e1.
     rbind (all_document_types c) (\<lambda>ts.
     rbind (case_evidence R ''documents[*].document_type'' ts) (\<lambda>e2.
     Inr (r1_finding UNVERIFIABLE r1_text2 [e1, e2] ''MEDIUM'' [] [])))))"

definition document_steps :: "dict \<Rightarrow> string list res" where
  "document_steps doc =
     rbind (as_dict (dget_or ''fields'' (JDict []) doc)) (\<lambda>flds.
     sorted_texts (dget_or ''process_steps'' (JList []) flds))"

definition steps_evidence :: "runtime \<Rightarrow> dict \<Rightarrow> string list \<Rightarrow> evidence_ref res" where
  "steps_evidence R doc steps = evidence R doc (JStr ''fields.process_steps'') (str_list steps)"

definition uncovered_steps :: "runtime \<Rightarrow> string list list \<Rightarrow> string list \<Rightarrow> string list" where
  "uncovered_steps R covered steps =
     filter (\<lambda>s. list_ex (\<lambda>ss. normalized_identity R s \<notin> set (map (normalized_identity R) ss)) covered)
       steps"

text \<open>
  One turn of the loop over the affected links: the evidence and the gaps it adds.
\<close>

definition r1_risk_evidence :: "runtime \<Rightarrow> dict \<Rightarrow> (pair \<times> dict) list \<Rightarrow> pair
    \<Rightarrow> (evidence_ref list \<times> string list) res" where
  "r1_risk_evidence R pfmea risk_index p =
     (let matching = lookup_rows risk_index (relationship_key R (fst p) (snd p)) in
      if matching \<noteq> [] then
        rbind (rmap (relationship_evidence R pfmea) matching) (\<lambda>es. Inr (es, []))
      else
        rbind (missing_relationship_evidence R pfmea ''risks'' p) (\<lambda>e.
        rbind (rmap (relationship_evidence R pfmea) (relationship_candidates R risk_index p)) (\<lambda>es.
        Inr (e # es, [''PFMEA:'' @ pair_label p]))))"

definition r1_control_evidence :: "runtime \<Rightarrow> dict \<Rightarrow> (pair \<times> dict) list \<Rightarrow> pair
    \<Rightarrow> (evidence_ref list \<times> string list) res" where
  "r1_control_evidence R control control_index p =
     (let control_item = lookup_row control_index (relationship_key R (fst p) (snd p)) in
      if present control_item then
        rbind (relationship_evidence R control (the control_item)) (\<lambda>e. Inr ([e], []))
      else
        rbind (missing_relationship_evidence R control ''characteristics'' p) (\<lambda>e.
        rbind (rmap (relationship_evidence R control) (relationship_candidates R control_index p)) (\<lambda>es.
        Inr (e # es, [''CONTROL_PLAN:'' @ pair_label p]))))"

definition r1_link :: "runtime \<Rightarrow> dict \<Rightarrow> dict \<Rightarrow> dict \<Rightarrow> (pair \<times> dict) list \<Rightarrow> (pair \<times> dict) list \<Rightarrow> pair
    \<Rightarrow> (evidence_ref list \<times> string list) res" where
  "r1_link R event pfmea control risk_index control_index p =
     rbind (event_relationship_evidence R event p) (\<lambda>e.
     rbind (r1_risk_evidence R pfmea risk_index p) (\<lambda>(es1, gaps1).
     rbind (r1_control_evidence R control control_index p) (\<lambda>(es2, gaps2).
     Inr (e # es1 @ es2, gaps1 @ gaps2))))"

definition r1_relations :: "runtime \<Rightarrow> dict \<Rightarrow> impact_plan \<Rightarrow> dict \<Rightarrow> dict \<Rightarrow> evidence_ref list \<Rightarrow> finding res" where
  "r1_relations R c plan pfmea control evs =
     rbind (risks R pfmea) (\<lambda>risk_index.
     rbind (characteristics R control) (\<lambda>control_index.
     rbind (rmap (\<lambda>p. rbind (event_dict c) (\<lambda>event.
         r1_link R event pfmea control risk_index control_index p)) (ip_links plan)) (\<lambda>rs.
     (let relation_evidence = concat (map fst rs); relation_gaps = concat (map snd rs) in
      Inr (if relation_gaps \<noteq> []
        then r1_finding CONTRADICTED (r1_text11 @ join_with '', '' relation_gaps)
               (evs @ relation_evidence) ''HIGH'' r1_text12 [r1_text13]
        else r1_finding PASS r1_text14 (evs @ relation_evidence) ''LOW'' [] [])))))"

definition r1_documents :: "runtime \<Rightarrow> dict \<Rightarrow> impact_plan \<Rightarrow> dict \<Rightarrow> dict \<Rightarrow> dict \<Rightarrow> finding res" where
  "r1_documents R c plan flow pfmea control =
     rbind (document_steps flow) (\<lambda>flow_steps.
     rbind (document_steps pfmea) (\<lambda>pfmea_steps.
     rbind (document_steps control) (\<lambda>control_steps.
     rbind (collect [steps_evidence R flow flow_steps, steps_evidence R pfmea pfmea_steps,
        steps_evidence R control control_steps]) (\<lambda>evs.
     (let missing = uncovered_steps R [flow_steps, pfmea_steps, control_steps] (ip_process_steps plan) in
      if missing \<noteq> [] then
        Inr (r1_finding CONTRADICTED (r1_text3 @ join_with '', '' missing @ r1_text4) evs ''HIGH''
          r1_text5 [r1_text6])
      else if \<not> scope_relationships_complete R plan then
        rbind (links_evidence R c) (\<lambda>es.
        Inr (r1_finding UNVERIFIABLE r1_text7 es ''HIGH'' r1_text8 [r1_text9]))
      else
        rbind (legacy_unbound_evidence R c [(pfmea, ''risks''), (control, ''characteristics'')])
          (\<lambda>legacy_unbound.
        if legacy_unbound \<noteq> [] then
          Inr (r1_finding UNVERIFIABLE r1_text10 legacy_unbound ''HIGH'' [] [])
        else r1_relations R c plan pfmea control evs))))))"

definition rule_process_coverage :: "runtime \<Rightarrow> dict \<Rightarrow> impact_plan \<Rightarrow> finding res" where
  "rule_process_coverage R c plan =
     rbind (document_by_type c ''PROCESS_FLOW'') (\<lambda>flow.
     rbind (document_by_type c ''PFMEA'') (\<lambda>pfmea.
     rbind (document_by_type c ''CONTROL_PLAN'') (\<lambda>control.
     if \<not> present flow \<or> \<not> present pfmea \<or> \<not> present control \<or> ip_process_steps plan = []
     then r1_missing_inputs R c plan
     else r1_documents R c plan (the flow) (the pfmea) (the control))))"

section \<open>QCI-R002: specifications\<close>

definition r2_finding :: "check_status \<Rightarrow> string \<Rightarrow> evidence_ref list \<Rightarrow> string \<Rightarrow> string \<Rightarrow> string list \<Rightarrow> finding" where
  "r2_finding = finding_of ''QCI-R002'' r2_text1"

definition r2_missing_inputs :: "runtime \<Rightarrow> dict \<Rightarrow> impact_plan \<Rightarrow> finding res" where
  "r2_missing_inputs R c plan =
     rbind (event_dict c) (\<lambda>event.
     rbind (event_evidence R event ''affected_characteristics'' (str_list (ip_characteristics plan))) (\<lambda>e1.
     rbind (all_document_types c) (\<lambda>ts.
     rbind (case_evidence R ''documents[*].document_type'' ts) (\<lambda>e2.
     Inr (r2_finding UNVERIFIABLE r2_text2 [e1, e2] ''MEDIUM'' [] [])))))"

text \<open>What the loop over the documents gathers for one pair, and over all pairs.\<close>

record spec_scan =
  sc_values :: "(string \<times> json list) list"
  sc_evidence :: "evidence_ref list"
  sc_missing :: "string list"
  sc_misbound :: "string list"

definition empty_scan :: spec_scan where
  "empty_scan = \<lparr>sc_values = [], sc_evidence = [], sc_missing = [], sc_misbound = []\<rparr>"

definition doc_pair_label :: "runtime \<Rightarrow> dict \<Rightarrow> pair \<Rightarrow> string res" where
  "doc_pair_label R doc p =
     rbind (ditem ''document_type'' doc) (\<lambda>t. Inr (py_str R t @ '':'' @ pair_label p))"

definition scan_absent_row :: "runtime \<Rightarrow> dict \<Rightarrow> (pair \<times> dict) list \<Rightarrow> pair \<Rightarrow> string \<Rightarrow> spec_scan
    \<Rightarrow> spec_scan res" where
  "scan_absent_row R doc idx p label s =
     rbind (missing_relationship_evidence R doc ''characteristics'' p) (\<lambda>e.
     rbind (rmap (relationship_evidence R doc) (relationship_candidates R idx p)) (\<lambda>es.
     Inr (s\<lparr>sc_evidence := sc_evidence s @ e # es,
            sc_misbound := sc_misbound s @ (if es \<noteq> [] then [label] else [])\<rparr>)))"

definition scan_invalid_row :: "runtime \<Rightarrow> dict \<Rightarrow> dict \<Rightarrow> spec_scan \<Rightarrow> spec_scan res" where
  "scan_invalid_row R doc row s =
     rbind (evidence R doc (dget_or ''locator'' (JStr ''fields.characteristics'') row)
        (JDict [(''pair'', relationship_excerpt row),
                (''specification'', dget_or ''specification'' field_absent row),
                (''status'', JStr ''SPECIFICATION_INCOMPLETE_OR_INVALID'')])) (\<lambda>e.
     Inr (s\<lparr>sc_evidence := sc_evidence s @ [e]\<rparr>))"

text \<open>One document for one pair; \<open>values[doc["document_type"]] = spec\<close>.\<close>

definition set_value :: "string \<Rightarrow> json list \<Rightarrow> (string \<times> json list) list \<Rightarrow> (string \<times> json list) list" where
  "set_value k v vs =
     (if k \<in> set (map fst vs) then map (\<lambda>kv. if fst kv = k then (k, v) else kv) vs else vs @ [(k, v)])"

definition row_spec :: "dict option \<Rightarrow> json list option res" where
  "row_spec row = (if present row then spec_tuple (the row) else Inr None)"

definition scan_document :: "runtime \<Rightarrow> pair \<Rightarrow> spec_scan \<Rightarrow> dict \<times> (pair \<times> dict) list \<Rightarrow> spec_scan res" where
  "scan_document R p s di =
     (let doc = fst di; idx = snd di;
          row = lookup_row idx (relationship_key R (fst p) (snd p)) in
      rbind (row_spec row) (\<lambda>spec.
      rbind (doc_pair_label R doc p) (\<lambda>label.
      case spec of
        None \<Rightarrow>
          (let s' = s\<lparr>sc_missing := sc_missing s @ [label]\<rparr> in
           case row of None \<Rightarrow> scan_absent_row R doc idx p label s'
                     | Some r \<Rightarrow> scan_invalid_row R doc r s')
      | Some tuple \<Rightarrow>
          rbind (evidence R doc (dget_or ''locator'' (JStr ''fields.characteristics'') (the row))
             (JDict [(''pair'', relationship_excerpt (the row)), (''specification'', JList tuple)])) (\<lambda>e.
          Inr (s\<lparr>sc_values := set_value (str_of (dget ''document_type'' doc)) tuple (sc_values s),
                 sc_evidence := sc_evidence s @ [e]\<rparr>)))))"

text \<open>One pair: the scan goes on, the conflict texts are collected.\<close>

definition scan_pair :: "runtime \<Rightarrow> (dict \<times> (pair \<times> dict) list) list \<Rightarrow> spec_scan \<times> string list \<Rightarrow> pair
    \<Rightarrow> (spec_scan \<times> string list) res" where
  "scan_pair R indexed_docs st p =
     rbind (rfold (scan_document R p) ((fst st)\<lparr>sc_values := []\<rparr>) indexed_docs) (\<lambda>s.
     Inr (s, snd st @ (if specs_differ (map snd (sc_values s))
                       then [pair_label p @ ''='' @ rt_tuples_repr R (sc_values s)] else [])))"

definition r2_verdict :: "spec_scan \<Rightarrow> string list \<Rightarrow> finding" where
  "r2_verdict s conflicts =
     (if conflicts \<noteq> [] then r2_finding CONTRADICTED (r2_text5 @ join_with ''; '' conflicts)
          (sc_evidence s) ''HIGH'' r2_text6 [r2_text7, r2_text8]
      else if sc_misbound s \<noteq> [] then r2_finding CONTRADICTED (r2_text9 @ join_with '', '' (sc_misbound s))
          (sc_evidence s) ''HIGH'' r2_text10 [r2_text11]
      else if sc_missing s \<noteq> [] then r2_finding UNVERIFIABLE (r2_text12 @ join_with '', '' (sc_missing s))
          (sc_evidence s) ''HIGH'' r2_text13 [r2_text14]
      else r2_finding PASS r2_text15 (sc_evidence s) ''LOW'' [] [])"

definition r2_documents :: "runtime \<Rightarrow> dict \<Rightarrow> impact_plan \<Rightarrow> dict list \<Rightarrow> finding res" where
  "r2_documents R c plan docs =
     (if \<not> scope_relationships_complete R plan then
        rbind (links_evidence R c) (\<lambda>es. Inr (r2_finding UNVERIFIABLE r2_text3 es ''HIGH'' [] []))
      else
        rbind (legacy_unbound_evidence R c (map (\<lambda>d. (d, ''characteristics'')) docs)) (\<lambda>legacy_unbound.
        if legacy_unbound \<noteq> [] then
          Inr (r2_finding UNVERIFIABLE r2_text4 legacy_unbound ''HIGH'' [] [])
        else
          rbind (rmap (\<lambda>d. rbind (characteristics R d) (\<lambda>idx. Inr (d, idx))) docs) (\<lambda>indexed_docs.
          rbind (rfold (scan_pair R indexed_docs) (empty_scan, []) (ip_links plan)) (\<lambda>st.
          Inr (r2_verdict (fst st) (snd st))))))"

definition rule_spec_consistency :: "runtime \<Rightarrow> dict \<Rightarrow> impact_plan \<Rightarrow> finding res" where
  "rule_spec_consistency R c plan =
     rbind (rmap (document_by_type c) [''CONTROL_PLAN'', ''SOP'', ''INSPECTION_RECORD'']) (\<lambda>docs.
     if list_ex (\<lambda>d. d = None) docs \<or> ip_characteristics plan = []
     then r2_missing_inputs R c plan
     else r2_documents R c plan (map the docs))"

end
