(* ===== verification/Rules_Control.thy ===== *)
theory Rules_Control
  imports Rules_Common
begin

text \<open>
  The control of special characteristics (QCI-R003), the revision dates of the approved
  documents (QCI-R004) and the approvals of a high-risk event (QCI-R007) of \<open>rules.py\<close>.
\<close>

section \<open>QCI-R003: special characteristics\<close>

definition r3_finding :: "check_status \<Rightarrow> string \<Rightarrow> evidence_ref list \<Rightarrow> string \<Rightarrow> string \<Rightarrow> string list \<Rightarrow> finding" where
  "r3_finding = finding_of ''QCI-R003'' r3_text1"

definition r3_missing_inputs :: "runtime \<Rightarrow> dict \<Rightarrow> finding res" where
  "r3_missing_inputs R c =
     rbind (all_document_types c) (\<lambda>ts.
     rbind (case_evidence R ''documents[*].document_type'' ts) (\<lambda>e.
     Inr (r3_finding UNVERIFIABLE r3_text2 [e] ''MEDIUM'' [] [])))"

definition r3_missing_pair :: "runtime \<Rightarrow> dict \<Rightarrow> dict \<Rightarrow> (pair \<times> dict) list \<Rightarrow> pair \<Rightarrow> evidence_ref list res" where
  "r3_missing_pair R event pfmea risk_index p =
     rbind (event_relationship_evidence R event p) (\<lambda>e1.
     rbind (missing_relationship_evidence R pfmea ''risks'' p) (\<lambda>e2.
     rbind (rmap (relationship_evidence R pfmea) (relationship_candidates R risk_index p)) (\<lambda>es.
     Inr (e1 # e2 # es))))"

definition r3_missing_risks :: "runtime \<Rightarrow> dict \<Rightarrow> dict \<Rightarrow> (pair \<times> dict) list \<Rightarrow> pair list \<Rightarrow> finding res" where
  "r3_missing_risks R c pfmea risk_index missing_risk =
     rbind (rmap (\<lambda>p. rbind (event_dict c) (\<lambda>event. r3_missing_pair R event pfmea risk_index p))
       missing_risk) (\<lambda>es.
     (let misbound = list_ex (\<lambda>p. relationship_candidates R risk_index p \<noteq> []) missing_risk in
      Inr (r3_finding (if misbound then CONTRADICTED else UNVERIFIABLE)
        ((if misbound then r3_text5 else r3_text6) @ join_with '', '' (map pair_label missing_risk))
        (concat es) ''HIGH'' r3_text7 [r3_text8])))"

definition CONTROL_FIELDS :: "string list" where
  "CONTROL_FIELDS = [''control_method'', ''frequency'', ''reaction_plan'']"

definition complete_control :: "dict option \<Rightarrow> bool" where
  "complete_control row \<longleftrightarrow>
     present row \<and> list_all (\<lambda>k. nonblank_str (dget k (the row))) CONTROL_FIELDS"

definition control_excerpt :: "dict \<Rightarrow> json" where
  "control_excerpt row = JDict
     [(''pair'', relationship_excerpt row),
      (''control'', JDict (map (\<lambda>k. (k, dget k row)) CONTROL_FIELDS))]"

text \<open>The control of one special pair: its evidence, and the gap it leaves.\<close>

definition r3_control :: "runtime \<Rightarrow> dict \<Rightarrow> (pair \<times> dict) list \<Rightarrow> pair \<Rightarrow> (evidence_ref list \<times> string list) res" where
  "r3_control R control control_index p =
     (let row = lookup_row control_index (relationship_key R (fst p) (snd p)) in
      if complete_control row then
        rbind (evidence R control (dget_or ''locator'' (JStr ''fields.characteristics'') (the row))
          (control_excerpt (the row))) (\<lambda>e. Inr ([e], []))
      else if present row then
        rbind (relationship_evidence R control (the row)) (\<lambda>e. Inr ([e], [pair_label p]))
      else
        rbind (missing_relationship_evidence R control ''characteristics'' p) (\<lambda>e.
        rbind (rmap (relationship_evidence R control) (relationship_candidates R control_index p)) (\<lambda>es.
        Inr (e # es, [pair_label p]))))"

definition is_special :: "dict list \<Rightarrow> bool" where
  "is_special rows \<longleftrightarrow> list_ex (\<lambda>r. truthy (dget ''special_characteristic'' r)) rows"

definition r3_pair :: "runtime \<Rightarrow> dict \<Rightarrow> dict \<Rightarrow> (pair \<times> dict) list \<Rightarrow> (pair \<times> dict) list \<Rightarrow> pair
    \<Rightarrow> (evidence_ref list \<times> string list) res" where
  "r3_pair R pfmea control risk_index control_index p =
     (let pair_risks = lookup_rows risk_index (relationship_key R (fst p) (snd p)) in
      rbind (rmap (relationship_evidence R pfmea) pair_risks) (\<lambda>es.
      if \<not> is_special pair_risks then Inr (es, [])
      else rbind (r3_control R control control_index p) (\<lambda>(es', gaps). Inr (es @ es', gaps))))"

definition r3_pairs :: "runtime \<Rightarrow> impact_plan \<Rightarrow> dict \<Rightarrow> dict \<Rightarrow> (pair \<times> dict) list \<Rightarrow> (pair \<times> dict) list
    \<Rightarrow> finding res" where
  "r3_pairs R plan pfmea control risk_index control_index =
     rbind (rmap (r3_pair R pfmea control risk_index control_index) (ip_links plan)) (\<lambda>rs.
     (let evs = concat (map fst rs); gaps = concat (map snd rs) in
      Inr (if gaps \<noteq> [] then r3_finding CONTRADICTED (r3_text9 @ join_with '', '' gaps) evs ''HIGH''
             r3_text10 [r3_text11]
           else r3_finding PASS r3_text12 evs ''LOW'' [] [])))"

definition r3_documents :: "runtime \<Rightarrow> dict \<Rightarrow> impact_plan \<Rightarrow> dict \<Rightarrow> dict \<Rightarrow> finding res" where
  "r3_documents R c plan pfmea control =
     (if \<not> scope_relationships_complete R plan then
        rbind (links_evidence R c) (\<lambda>es. Inr (r3_finding UNVERIFIABLE r3_text3 es ''HIGH'' [] []))
      else
        rbind (legacy_unbound_evidence R c [(pfmea, ''risks''), (control, ''characteristics'')])
          (\<lambda>legacy_unbound.
        if legacy_unbound \<noteq> [] then
          Inr (r3_finding UNVERIFIABLE r3_text4 legacy_unbound ''HIGH'' [] [])
        else
          rbind (characteristics R control) (\<lambda>control_index.
          rbind (risks R pfmea) (\<lambda>risk_index.
          (let missing_risk = filter (\<lambda>p.
                 lookup_rows risk_index (relationship_key R (fst p) (snd p)) = []) (ip_links plan) in
           if missing_risk \<noteq> [] then r3_missing_risks R c pfmea risk_index missing_risk
           else r3_pairs R plan pfmea control risk_index control_index)))))"

definition rule_special_characteristic_control :: "runtime \<Rightarrow> dict \<Rightarrow> impact_plan \<Rightarrow> finding res" where
  "rule_special_characteristic_control R c plan =
     rbind (document_by_type c ''PFMEA'') (\<lambda>pfmea.
     rbind (document_by_type c ''CONTROL_PLAN'') (\<lambda>control.
     if \<not> present pfmea \<or> \<not> present control then r3_missing_inputs R c
     else r3_documents R c plan (the pfmea) (the control)))"

section \<open>QCI-R004: revision dates\<close>

definition r4_finding :: "check_status \<Rightarrow> string \<Rightarrow> evidence_ref list \<Rightarrow> string \<Rightarrow> string \<Rightarrow> string list \<Rightarrow> finding" where
  "r4_finding = finding_of ''QCI-R004'' r4_text1"

text \<open>\<open>date.fromisoformat(value)\<close> on a value.\<close>

definition parse_date :: "json \<Rightarrow> pydate res" where
  "parse_date v =
     (case v of
        JStr s \<Rightarrow> (case date_fromisoformat s of
            None \<Rightarrow> Inl (ValueError ''Invalid isoformat string: '') | Some d \<Rightarrow> Inr d)
      | _ \<Rightarrow> Inl TypeError)"

definition waiver_dates :: "dict \<Rightarrow> (pydate \<times> pydate) option" where
  "waiver_dates waiver =
     (case rbind (ditem ''valid_from'' waiver) parse_date of
        Inl _ \<Rightarrow> None
      | Inr valid_from \<Rightarrow>
          (case rbind (ditem ''valid_until'' waiver) parse_date of
             Inl _ \<Rightarrow> None | Inr valid_until \<Rightarrow> Some (valid_from, valid_until)))"

text \<open>\<open>{"QUALITY_MANAGER", "PROCESS_OWNER"}.issubset(set(roles))\<close>.\<close>

definition required_roles_in :: "json \<Rightarrow> bool res" where
  "required_roles_in v =
     rbind (iter v) (\<lambda>roles.
     if list_ex (\<lambda>r. is_dict r \<or> is_list r) roles then Inl TypeError
     else Inr (JStr ''QUALITY_MANAGER'' \<in> set roles \<and> JStr ''PROCESS_OWNER'' \<in> set roles))"

definition valid_revision_date_waiver :: "dict \<Rightarrow> dict \<Rightarrow> pydate \<Rightarrow> bool res" where
  "valid_revision_date_waiver doc event approval_date =
     (case dget ''approved_waiver'' doc of
        JDict waiver \<Rightarrow>
          (case waiver_dates waiver of
             None \<Rightarrow> Inr False
           | Some (valid_from, valid_until) \<Rightarrow>
               if \<not> py_eq (dget ''document_id'' waiver) (dget ''document_id'' doc)
                 \<or> \<not> py_eq (dget ''event_revision'' waiver) (dget ''revision'' event)
                 \<or> dget ''scope'' waiver \<noteq> JStr ''REVISION_DATE_EXCEPTION''
               then Inr False
               else rbind (required_roles_in (dget_or ''approved_roles'' (JList []) waiver)) (\<lambda>b.
                 Inr (b \<and> nonblank_str (dget ''waiver_id'' waiver)
                   \<and> nonblank_str (dget ''locator'' waiver)
                   \<and> valid_from \<le> approval_date \<and> approval_date \<le> valid_until)))
      | _ \<Rightarrow> Inr False)"

definition WAIVER_EXCERPT :: "string list" where
  "WAIVER_EXCERPT = [''waiver_id'', ''scope'', ''event_revision'', ''approved_roles'', ''valid_from'',
     ''valid_until'']"

definition waiver_evidence :: "runtime \<Rightarrow> dict \<Rightarrow> evidence_ref res" where
  "waiver_evidence R doc =
     rbind (ditem ''approved_waiver'' doc) (\<lambda>w.
     rbind (item ''locator'' w) (\<lambda>locator.
     rbind (rmap (\<lambda>k. rbind (item k w) (\<lambda>v. Inr (k, v))) WAIVER_EXCERPT) (\<lambda>items.
     evidence R doc locator (JDict items))))"

text \<open>
  The loop over the approved documents: a document without a revision date returns from the
  rule (\<open>Inl\<close> of the inner sum), otherwise the evidence and the stale documents go on.
\<close>

type_synonym stale_scan = "evidence_ref list \<times> json list"

definition r4_stale :: "runtime \<Rightarrow> dict \<Rightarrow> pydate \<Rightarrow> dict \<Rightarrow> stale_scan \<Rightarrow> stale_scan res" where
  "r4_stale R event approval_date doc st =
     rbind (valid_revision_date_waiver doc event approval_date) (\<lambda>waived.
     if waived then rbind (waiver_evidence R doc) (\<lambda>e. Inr (fst st @ [e], snd st))
     else rbind (ditem ''document_id'' doc) (\<lambda>i. Inr (fst st, snd st @ [i])))"

definition r4_document :: "runtime \<Rightarrow> dict \<Rightarrow> pydate \<Rightarrow> dict \<Rightarrow> stale_scan \<Rightarrow> (finding + stale_scan) res" where
  "r4_document R event approval_date doc st =
     (let revision_date = dget ''revision_date'' doc in
      if \<not> truthy revision_date then
        rbind (ditem ''document_id'' doc) (\<lambda>i.
        rbind (evidence R doc (JStr ''revision_date'') field_absent) (\<lambda>e.
        Inr (Inl (r4_finding UNVERIFIABLE (py_str R i @ r4_text3) [e] ''HIGH'' [] []))))
      else
        rbind (evidence R doc (JStr ''revision_date'') revision_date) (\<lambda>e.
        rbind (parse_date revision_date) (\<lambda>d.
        if d < approval_date
        then rbind (r4_stale R event approval_date doc (fst st @ [e], snd st)) (\<lambda>st'. Inr (Inr st'))
        else Inr (Inr (fst st @ [e], snd st)))))"

fun r4_loop :: "runtime \<Rightarrow> dict \<Rightarrow> pydate \<Rightarrow> json list \<Rightarrow> stale_scan \<Rightarrow> (finding + stale_scan) res" where
  "r4_loop R event approval_date [] st = Inr (Inr st)"
| "r4_loop R event approval_date (v # vs) st =
     rbind (as_dict v) (\<lambda>doc.
     if dget ''status'' doc \<noteq> JStr ''APPROVED'' then r4_loop R event approval_date vs st
     else rbind (r4_document R event approval_date doc st) (\<lambda>r.
       case r of Inl f \<Rightarrow> Inr (Inl f) | Inr st' \<Rightarrow> r4_loop R event approval_date vs st'))"

text \<open>\<open>", ".join(stale)\<close> raises when an identifier is not a text.\<close>

definition r4_verdict :: "finding + stale_scan \<Rightarrow> finding res" where
  "r4_verdict r =
     (case r of
        Inl f \<Rightarrow> Inr f
      | Inr (evs, stale) \<Rightarrow>
          if stale = [] then Inr (r4_finding PASS r4_text7 evs ''LOW'' [] [])
          else if \<not> list_all is_str stale then Inl TypeError
          else Inr (r4_finding CONTRADICTED (r4_text4 @ join_with '', '' (map str_of stale)) evs ''HIGH''
            r4_text5 [r4_text6]))"

definition rule_revision_after_approval :: "runtime \<Rightarrow> dict \<Rightarrow> impact_plan \<Rightarrow> finding res" where
  "rule_revision_after_approval R c plan =
     rbind (event_dict c) (\<lambda>event.
     let approved_at = dget ''approved_at'' event in
     if \<not> truthy approved_at then
       rbind (event_evidence R event ''approved_at'' field_absent) (\<lambda>e.
       Inr (r4_finding UNVERIFIABLE r4_text2 [e] ''HIGH'' [] []))
     else
       rbind (parse_date approved_at) (\<lambda>approval_date.
       rbind (ditem ''documents'' c) (\<lambda>v. rbind (iter v) (\<lambda>docs.
       rbind (r4_loop R event approval_date docs ([], [])) r4_verdict))))"

section \<open>QCI-R007: approvals of a high-risk event\<close>

definition r7_finding :: "check_status \<Rightarrow> string \<Rightarrow> evidence_ref list \<Rightarrow> string \<Rightarrow> string \<Rightarrow> string list \<Rightarrow> finding" where
  "r7_finding = finding_of ''QCI-R007'' r7_text1"

definition approval_excerpt :: "dict \<Rightarrow> json" where
  "approval_excerpt a = JDict (map (\<lambda>k. (k, dget k a)) [''role'', ''decision'', ''event_revision''])"

definition r7_single :: "runtime \<Rightarrow> dict \<Rightarrow> check_status \<Rightarrow> string \<Rightarrow> string \<Rightarrow> json \<Rightarrow> string \<Rightarrow> string
    \<Rightarrow> string list \<Rightarrow> finding res" where
  "r7_single R event status summary locator excerpt severity remediation acceptance =
     rbind (event_evidence R event locator excerpt) (\<lambda>e.
     Inr (r7_finding status summary [e] severity remediation acceptance))"

definition required_approval_roles :: "string list" where
  "required_approval_roles = [''PROCESS_OWNER'', ''QUALITY_MANAGER'']"

text \<open>\<open>{item.get("role") for item in current if item.get("decision") == "APPROVED"}\<close>.\<close>

definition approved_roles :: "dict list \<Rightarrow> json list res" where
  "approved_roles current =
     (let roles = map (dget ''role'') (filter (\<lambda>a. dget ''decision'' a = JStr ''APPROVED'') current) in
      if list_ex (\<lambda>r. is_dict r \<or> is_list r) roles then Inl TypeError else Inr roles)"

definition r7_approvals :: "runtime \<Rightarrow> dict \<Rightarrow> dict list \<Rightarrow> finding res" where
  "r7_approvals R event current =
     rbind (rfilter (\<lambda>a. hash_in (dget ''decision'' a) [''REJECTED'', ''CHANGES_REQUESTED'']) current)
       (\<lambda>non_approved.
     rbind (event_evidence R event ''approvals'' (JList (map approval_excerpt current))) (\<lambda>e.
     if non_approved \<noteq> [] then
       Inr (r7_finding CONTRADICTED r7_text9 [e] ''CRITICAL'' r7_text10 [r7_text11])
     else
       rbind (approved_roles current) (\<lambda>roles.
       let absent = filter (\<lambda>r. JStr r \<notin> set roles) required_approval_roles in
       if absent \<noteq> [] then
         Inr (r7_finding CONTRADICTED (r7_text12 @ join_with '', '' absent) [e] ''CRITICAL''
           r7_text13 [r7_text14])
       else Inr (r7_finding PASS r7_text15 [e] ''LOW'' [] []))))"

definition current_approvals :: "dict \<Rightarrow> json list \<Rightarrow> dict list res" where
  "current_approvals event approvals =
     rbind (rmap as_dict approvals) (\<lambda>as.
     Inr (filter (\<lambda>a. py_eq (dget ''event_revision'' a) (dget ''revision'' event)) as))"

definition rule_high_risk_approval :: "runtime \<Rightarrow> dict \<Rightarrow> impact_plan \<Rightarrow> finding res" where
  "rule_high_risk_approval R c plan =
     rbind (event_dict c) (\<lambda>event.
     let risk_level = dget ''risk_level'' event; approvals = dget ''approvals'' event in
     rbind (hash_in risk_level [''LOW'', ''MEDIUM'', ''HIGH'']) (\<lambda>known.
     if \<not> known then
       r7_single R event UNVERIFIABLE r7_text2 ''risk_level'' risk_level ''CRITICAL'' r7_text3 [r7_text4]
     else if risk_level \<noteq> JStr ''HIGH'' then
       r7_single R event PASS r7_text5 ''risk_level'' risk_level ''LOW'' [] []
     else if \<not> truthy approvals then
       r7_single R event CONTRADICTED r7_text6 ''approvals'' (JStr ''EMPTY_OR_ABSENT'') ''CRITICAL''
         r7_text7 [r7_text8]
     else rbind (iter approvals) (\<lambda>as. rbind (current_approvals event as) (r7_approvals R event))))"

end
