(* ===== verification/Relations_Sound.thy ===== *)
theory Relations_Sound
  imports Rules_Facts Rules_Relations Rules_Control
begin

text \<open>
  When the relationship rules answer PASS on a validated case: a characterisation of each in
  terms of the rows of the approved documents.
\<close>

section \<open>Loops that collect gaps\<close>

lemma rmap_gaps:
  assumes "rmap f xs = Inr rs"
    and "\<And>x r. x \<in> set xs \<Longrightarrow> f x = Inr r \<Longrightarrow> g r = [] \<longleftrightarrow> P x"
  shows "concat (map g rs) = [] \<longleftrightarrow> (\<forall>x \<in> set xs. P x)"
proof -
  have "list_all2 (\<lambda>x r. f x = Inr r) xs rs" using assms(1) by (simp add: rmap_Inr)
  then show ?thesis using assms(2)
  proof (induction rule: list_all2_induct)
    case Nil
    then show ?case by simp
  next
    case (Cons x xs r rs)
    have "concat (map g rs) = [] \<longleftrightarrow> (\<forall>x \<in> set xs. P x)" by (rule Cons.IH) (simp add: Cons.prems)
    moreover have "g r = [] \<longleftrightarrow> P x" by (rule Cons.prems) (simp_all add: Cons.hyps)
    ultimately show ?case by simp
  qed
qed

section \<open>Legacy rows\<close>

definition rows_bound :: "string \<Rightarrow> dict \<Rightarrow> bool" where
  "rows_bound collection doc \<longleftrightarrow>
     list_all (\<lambda>v. missing_bindings doc collection (dict_of v) = []) (rows_of collection doc)"

text \<open>No row of the documents is left unbound by a migration.\<close>

definition legacy_rows_bound :: "dict \<Rightarrow> (dict \<times> string) list \<Rightarrow> bool" where
  "legacy_rows_bound c docs \<longleftrightarrow>
     (dhas ''relationship_migration'' c \<longrightarrow> list_all (\<lambda>dc. rows_bound (snd dc) (fst dc)) docs)"

lemma unbound_row_Nil:
  assumes "unbound_row R doc collection v = Inr es"
  shows "es = [] \<longleftrightarrow> missing_bindings doc collection (dict_of v) = []"
  using assms by (auto simp: unbound_row_def rbind_Inr_iff split: if_splits)

lemma legacy_unbound_Nil:
  assumes "legacy_unbound_evidence R c docs = Inr es"
    and "\<And>d k. (d, k) \<in> set docs \<Longrightarrow> \<exists>m rm. validate_document R m rm d = Inr ()
           \<and> k \<in> {''characteristics'', ''risks''}"
  shows "es = [] \<longleftrightarrow> legacy_rows_bound c docs"
proof (cases "dhas ''relationship_migration'' c")
  case False
  with assms(1) show ?thesis by (simp add: legacy_unbound_evidence_def legacy_rows_bound_def)
next
  case True
  with assms(1) obtain ess where ess: "rmap (unbound_collection R) docs = Inr ess" "es = concat ess"
    by (auto simp: legacy_unbound_evidence_def rbind_Inr_iff)
  have "r = [] \<longleftrightarrow> rows_bound (snd dk) (fst dk)"
    if dk: "dk \<in> set docs" "unbound_collection R dk = Inr r" for dk r
  proof -
    obtain m rm where "validate_document R m rm (fst dk) = Inr ()"
      "snd dk \<in> {''characteristics'', ''risks''}"
      using assms(2)[of "fst dk" "snd dk"] dk(1) by auto
    then have "field_rows (fst dk) (snd dk) = Inr (rows_of (snd dk) (fst dk))"
      by (rule validated_rows(1))
    with dk(2) obtain rs where rs: "rmap (unbound_row R (fst dk) (snd dk)) (rows_of (snd dk) (fst dk)) = Inr rs"
      "r = concat rs"
      by (auto simp: unbound_collection_def rbind_Inr_iff)
    have "concat (map (\<lambda>x. x) rs) = [] \<longleftrightarrow>
        (\<forall>v \<in> set (rows_of (snd dk) (fst dk)). missing_bindings (fst dk) (snd dk) (dict_of v) = [])"
      by (rule rmap_gaps[OF rs(1)]) (rule unbound_row_Nil)
    with rs(2) show ?thesis by (simp add: rows_bound_def list_all_iff)
  qed
  then have "concat (map (\<lambda>x. x) ess) = [] \<longleftrightarrow> (\<forall>dk \<in> set docs. rows_bound (snd dk) (fst dk))"
    by (rule rmap_gaps[OF ess(1)])
  with ess(2) True show ?thesis by (simp add: legacy_rows_bound_def list_all_iff)
qed

section \<open>QCI-R001\<close>

definition step_names :: "dict \<Rightarrow> string list" where
  "step_names doc = map str_of (list_of (dget ''process_steps'' (doc_fields doc)))"

definition covered_step :: "runtime \<Rightarrow> dict \<Rightarrow> string \<Rightarrow> bool" where
  "covered_step R doc s \<longleftrightarrow>
     normalized_identity R s \<in> set (map (normalized_identity R) (step_names doc))"

lemma document_steps_set:
  assumes "document_steps doc = Inr steps" and "validate_document R m rm doc = Inr u"
  shows "set steps = set (step_names doc)"
proof -
  note f = validate_document_facts[OF assms(2)]
  have s: "sorted_texts (dget_or ''process_steps'' (JList []) (doc_fields doc)) = Inr steps"
    using assms(1) f(3,10) by (simp add: document_steps_def dget_or_dget)
  show ?thesis
  proof (cases "dhas ''process_steps'' (doc_fields doc)")
    case False
    with s show ?thesis by (auto simp: dget_or_dget sorted_texts_def step_names_def not_dhas_dget)
  next
    case True
    with s have "dget ''process_steps'' (doc_fields doc) \<noteq> JNull"
      by (auto simp: dget_or_dget sorted_texts_def)
    then have "is_list (dget ''process_steps'' (doc_fields doc))"
      using assms(2) by (simp add: validate_document_def validate_process_steps_def check_simps)
    with s True show ?thesis
      by (auto simp: dget_or_dget sorted_texts_def step_names_def rbind_Inr_iff elim!: is_listE
          split: if_splits)
  qed
qed

lemma r1_risk_gaps:
  assumes "r1_risk_evidence R doc (bound_rows R ''risks'' doc) p = Inr r"
  shows "snd r = [] \<longleftrightarrow> has_row R ''risks'' doc p"
  using assms lookup_rows_bound[of R "''risks''" doc p]
  by (auto simp: r1_risk_evidence_def Let_def rbind_Inr_iff split: if_splits)

lemma r1_control_gaps:
  assumes "r1_control_evidence R doc (bound_rows R ''characteristics'' doc) p = Inr r"
  shows "snd r = [] \<longleftrightarrow> has_row R ''characteristics'' doc p"
  using assms present_lookup[of R "''characteristics''" doc p]
  by (auto simp: r1_control_evidence_def Let_def rbind_Inr_iff split: if_splits)

lemma r1_link_gaps:
  assumes "r1_link R event pfmea control (bound_rows R ''risks'' pfmea)
    (bound_rows R ''characteristics'' control) p = Inr r"
  shows "snd r = [] \<longleftrightarrow> has_row R ''risks'' pfmea p \<and> has_row R ''characteristics'' control p"
proof -
  from assms obtain r1 r2 where
    "r1_risk_evidence R pfmea (bound_rows R ''risks'' pfmea) p = Inr r1"
    "r1_control_evidence R control (bound_rows R ''characteristics'' control) p = Inr r2"
    "snd r = snd r1 @ snd r2"
    by (auto simp: r1_link_def rbind_Inr_iff split: prod.splits)
  with r1_risk_gaps r1_control_gaps show ?thesis by (metis append_is_Nil_conv)
qed

lemma r1_relations_pass:
  assumes "r1_relations R c plan pfmea control evs = Inr f"
    and "validate_document R m rm pfmea = Inr ()" and "validate_document R m rm control = Inr ()"
  shows "f_status f = PASS \<longleftrightarrow> (\<forall>p \<in> set (ip_links plan).
    has_row R ''risks'' pfmea p \<and> has_row R ''characteristics'' control p)"
proof -
  from assms(1) obtain rs where rs: "rmap (\<lambda>p. rbind (event_dict c) (\<lambda>event. r1_link R event pfmea control
        (bound_rows R ''risks'' pfmea) (bound_rows R ''characteristics'' control) p)) (ip_links plan) = Inr rs"
    and f: "f_status f = PASS \<longleftrightarrow> concat (map snd rs) = []"
    by (auto simp: r1_relations_def risks_validated[OF assms(2)] characteristics_validated[OF assms(3)]
        rbind_Inr_iff Let_def r1_finding_def simp del: concat_eq_Nil_conv split: if_splits)
  have "concat (map snd rs) = [] \<longleftrightarrow> (\<forall>p \<in> set (ip_links plan).
      has_row R ''risks'' pfmea p \<and> has_row R ''characteristics'' control p)"
    by (rule rmap_gaps[OF rs]) (auto simp: rbind_Inr_iff dest: r1_link_gaps)
  with f show ?thesis by simp
qed

lemma uncovered_Nil:
  "uncovered_steps R covered steps = [] \<longleftrightarrow>
     (\<forall>s \<in> set steps. \<forall>ss \<in> set covered. normalized_identity R s \<in> normalized_identity R ` set ss)"
  by (auto simp: uncovered_steps_def filter_empty_conv list_ex_iff)

lemma r1_documents_pass:
  assumes "r1_documents R c plan flow pfmea control = Inr f"
    and docs: "validate_document R m rm flow = Inr ()" "validate_document R m rm pfmea = Inr ()"
      "validate_document R m rm control = Inr ()"
  shows "f_status f = PASS \<longleftrightarrow>
    (\<forall>s \<in> set (ip_process_steps plan). covered_step R flow s \<and> covered_step R pfmea s \<and> covered_step R control s)
    \<and> scope_relationships_complete R plan
    \<and> legacy_rows_bound c [(pfmea, ''risks''), (control, ''characteristics'')]
    \<and> (\<forall>p \<in> set (ip_links plan). has_row R ''risks'' pfmea p \<and> has_row R ''characteristics'' control p)"
proof -
  from assms(1) obtain s1 s2 s3 evs where
    s: "document_steps flow = Inr s1" "document_steps pfmea = Inr s2" "document_steps control = Inr s3"
    and r: "(let missing = uncovered_steps R [s1, s2, s3] (ip_process_steps plan) in
      if missing \<noteq> [] then
        Inr (r1_finding CONTRADICTED (r1_text3 @ join_with '', '' missing @ r1_text4) evs ''HIGH''
          r1_text5 [r1_text6])
      else if \<not> scope_relationships_complete R plan then
        rbind (links_evidence R c) (\<lambda>es.
        Inr (r1_finding UNVERIFIABLE r1_text7 es ''HIGH'' r1_text8 [r1_text9]))
      else
        rbind (legacy_unbound_evidence R c [(pfmea, ''risks''), (control, ''characteristics'')])
          (\<lambda>legacy_unbound.
        if legacy_unbound \<noteq> [] then
          Inr (r1_finding UNVERIFIABLE r1_text10 legacy_unbound ''HIGH'' [] [])
        else r1_relations R c plan pfmea control evs)) = Inr f"
    unfolding r1_documents_def by (elim rbind_InrE)
  note sets = document_steps_set[OF s(1) docs(1)] document_steps_set[OF s(2) docs(2)]
    document_steps_set[OF s(3) docs(3)]
  have covered: "uncovered_steps R [s1, s2, s3] (ip_process_steps plan) = [] \<longleftrightarrow>
      (\<forall>s \<in> set (ip_process_steps plan). covered_step R flow s \<and> covered_step R pfmea s \<and> covered_step R control s)"
    by (auto simp: uncovered_Nil covered_step_def sets)
  have legacy: "es = [] \<longleftrightarrow> legacy_rows_bound c [(pfmea, ''risks''), (control, ''characteristics'')]"
    if "legacy_unbound_evidence R c [(pfmea, ''risks''), (control, ''characteristics'')] = Inr es" for es
    using that docs by (intro legacy_unbound_Nil) auto
  show ?thesis
    using r covered r1_relations_pass[OF _ docs(2,3)] legacy
    by (auto simp: Let_def rbind_Inr_iff r1_finding_def split: if_splits)
qed

lemma rule_process_coverage_pass:
  assumes v: "validate_case R v = Inr ()" and "rule_process_coverage R (dict_of v) plan = Inr f"
  shows "f_status f = PASS \<longleftrightarrow> ip_process_steps plan \<noteq> []
    \<and> (\<forall>s \<in> set (ip_process_steps plan). covered_step R (approved_document v ''PROCESS_FLOW'') s
         \<and> covered_step R (approved_document v ''PFMEA'') s
         \<and> covered_step R (approved_document v ''CONTROL_PLAN'') s)
    \<and> scope_relationships_complete R plan
    \<and> legacy_rows_bound (dict_of v) [(approved_document v ''PFMEA'', ''risks''),
         (approved_document v ''CONTROL_PLAN'', ''characteristics'')]
    \<and> (\<forall>p \<in> set (ip_links plan). has_row R ''risks'' (approved_document v ''PFMEA'') p
         \<and> has_row R ''characteristics'' (approved_document v ''CONTROL_PLAN'') p)"
proof -
  have t: "''PROCESS_FLOW'' \<in> set REQUIRED_DOCUMENT_TYPES" "''PFMEA'' \<in> set REQUIRED_DOCUMENT_TYPES"
    "''CONTROL_PLAN'' \<in> set REQUIRED_DOCUMENT_TYPES" by (simp_all add: REQUIRED_DOCUMENT_TYPES_def)
  note found = approved_document_found(1)[OF v t(1)] approved_document_found(1)[OF v t(2)]
    approved_document_found(1)[OF v t(3)]
  note valid = approved_document_valid[OF v t(1)] approved_document_valid[OF v t(2)]
    approved_document_valid[OF v t(3)]
  have present: "present (Some (approved_document v t))" if "t \<in> set REQUIRED_DOCUMENT_TYPES" for t
    using validated_nonempty[OF approved_document_valid[OF v that]] by (simp add: present_def)
  show ?thesis
  proof (cases "ip_process_steps plan = []")
    case True
    with assms(2) show ?thesis
      by (auto simp: rule_process_coverage_def found r1_missing_inputs_def rbind_Inr_iff r1_finding_def)
  next
    case False
    with assms(2) have "r1_documents R (dict_of v) plan (approved_document v ''PROCESS_FLOW'')
        (approved_document v ''PFMEA'') (approved_document v ''CONTROL_PLAN'') = Inr f"
      using present t by (simp add: rule_process_coverage_def found)
    from r1_documents_pass[OF this valid] False show ?thesis by simp
  qed
qed

section \<open>One row for each pair\<close>

lemma validate_characteristic_keys_distinct:
  assumes "validate_characteristic_keys R doc legacy step_keys i seen controls cs = Inr ()"
  shows "distinct (map (\<lambda>v. pair_key R (dict_of v)) (filter bound_row cs))
    \<and> (\<forall>v \<in> set cs. bound_row v \<longrightarrow> pair_key R (dict_of v) \<notin> set seen)"
  using assms
proof (induction cs arbitrary: i seen controls)
  case Nil
  then show ?case by simp
next
  case (Cons c cs)
  show ?case
  proof (cases "dget ''process_step_id'' (dict_of c) = JNull \<and> legacy")
    case True
    with Cons.prems have "validate_characteristic_keys R doc legacy step_keys (Suc i) seen controls cs = Inr ()"
      by (simp add: check_simps)
    from Cons.IH[OF this] True show ?thesis by (simp add: bound_row_def)
  next
    case False
    with Cons.prems obtain j controls' where
      "validate_characteristic_keys R doc legacy step_keys j (pair_key R (dict_of c) # seen) controls' cs = Inr ()"
      and "pair_key R (dict_of c) \<notin> set seen"
      by (auto simp: check_simps split: if_splits)
    with Cons.IH show ?thesis by fastforce
  qed
qed

lemma bound_rows_distinct:
  assumes "validate_document R m rm doc = Inr u"
  shows "distinct (map fst (bound_rows R ''characteristics'' doc))"
proof -
  have "validate_characteristic_keys R doc (m \<noteq> JNull) (step_identities R doc) 0 [] []
      (rows_of ''characteristics'' doc) = Inr ()"
    using assms validated_rows(3)[OF assms, of "''characteristics''"]
    by (simp add: validate_document_def validate_characteristics_def Let_def)
  from validate_characteristic_keys_distinct[OF this] show ?thesis
    by (simp add: bound_rows_def comp_def)
qed

text \<open>The row of a pair, when the document has one.\<close>

definition pair_row :: "runtime \<Rightarrow> dict \<Rightarrow> pair \<Rightarrow> dict \<Rightarrow> bool" where
  "pair_row R doc p d \<longleftrightarrow>
     (\<exists>v \<in> set (rows_of ''characteristics'' doc). bound_row v \<and> dict_of v = d
        \<and> pair_key R d = relationship_key R (fst p) (snd p))"

lemma lookup_row_bound:
  assumes "validate_document R m rm doc = Inr u"
  shows "lookup_row (bound_rows R ''characteristics'' doc) (relationship_key R (fst p) (snd p)) = Some d
    \<longleftrightarrow> pair_row R doc p d"
proof -
  have "lookup_row (bound_rows R ''characteristics'' doc) (relationship_key R (fst p) (snd p)) = Some d
      \<longleftrightarrow> (relationship_key R (fst p) (snd p), d) \<in> set (bound_rows R ''characteristics'' doc)"
    using bound_rows_distinct[OF assms] by (simp add: lookup_row_def rev_map[symmetric])
  also have "\<dots> \<longleftrightarrow> pair_row R doc p d" by (force simp: bound_rows_def pair_row_def)
  finally show ?thesis .
qed

section \<open>QCI-R003\<close>

definition special_pair :: "runtime \<Rightarrow> dict \<Rightarrow> pair \<Rightarrow> bool" where
  "special_pair R doc p \<longleftrightarrow>
     (\<exists>v \<in> set (rows_of ''risks'' doc). bound_row v
        \<and> pair_key R (dict_of v) = relationship_key R (fst p) (snd p)
        \<and> truthy (dget ''special_characteristic'' (dict_of v)))"

definition controlled_pair :: "runtime \<Rightarrow> dict \<Rightarrow> pair \<Rightarrow> bool" where
  "controlled_pair R doc p \<longleftrightarrow>
     (\<exists>d. pair_row R doc p d \<and> (\<forall>k \<in> set CONTROL_FIELDS. nonblank_str (dget k d)))"

lemma is_special_rows:
  "is_special (lookup_rows (bound_rows R ''risks'' doc) (relationship_key R (fst p) (snd p)))
    \<longleftrightarrow> special_pair R doc p"
  by (auto simp: is_special_def special_pair_def lookup_rows_def bound_rows_def list_ex_iff)

lemma complete_control_row:
  assumes "validate_document R m rm doc = Inr u"
  shows "complete_control (lookup_row (bound_rows R ''characteristics'' doc)
      (relationship_key R (fst p) (snd p))) \<longleftrightarrow> controlled_pair R doc p"
proof (cases "lookup_row (bound_rows R ''characteristics'' doc) (relationship_key R (fst p) (snd p))")
  case None
  then have "\<not> pair_row R doc p d" for d using lookup_row_bound[OF assms, of p d] by simp
  with None show ?thesis by (simp add: complete_control_def controlled_pair_def present_def)
next
  case (Some d)
  have row: "pair_row R doc p e \<longleftrightarrow> e = d" for e
    using lookup_row_bound[OF assms, of p e] Some by auto
  have "d \<noteq> []" using bound_row_nonempty[OF lookup_row_member[OF Some]] .
  with Some row show ?thesis
    by (simp add: complete_control_def controlled_pair_def present_def list_all_iff)
qed

lemma r3_pair_gaps:
  assumes "r3_pair R pfmea control (bound_rows R ''risks'' pfmea)
      (bound_rows R ''characteristics'' control) p = Inr r"
    and "validate_document R m rm control = Inr u"
  shows "snd r = [] \<longleftrightarrow> (special_pair R pfmea p \<longrightarrow> controlled_pair R control p)"
proof (cases "special_pair R pfmea p")
  case False
  with assms(1) show ?thesis by (auto simp: r3_pair_def Let_def rbind_Inr_iff is_special_rows)
next
  case True
  with assms(1) obtain r' where
    r': "r3_control R control (bound_rows R ''characteristics'' control) p = Inr r'" "snd r = snd r'"
    by (auto simp: r3_pair_def Let_def rbind_Inr_iff is_special_rows split: prod.splits)
  have "snd r' = [] \<longleftrightarrow> controlled_pair R control p"
    using r'(1) complete_control_row[OF assms(2), of p]
    by (auto simp: r3_control_def Let_def rbind_Inr_iff split: if_splits)
  with r'(2) True show ?thesis by simp
qed

lemma r3_pairs_pass:
  assumes "r3_pairs R plan pfmea control (bound_rows R ''risks'' pfmea)
      (bound_rows R ''characteristics'' control) = Inr f"
    and "validate_document R m rm control = Inr u"
  shows "f_status f = PASS \<longleftrightarrow>
    (\<forall>p \<in> set (ip_links plan). special_pair R pfmea p \<longrightarrow> controlled_pair R control p)"
proof -
  from assms(1) obtain rs where rs: "rmap (r3_pair R pfmea control (bound_rows R ''risks'' pfmea)
        (bound_rows R ''characteristics'' control)) (ip_links plan) = Inr rs"
    and f: "f_status f = PASS \<longleftrightarrow> concat (map snd rs) = []"
    by (auto simp: r3_pairs_def rbind_Inr_iff Let_def r3_finding_def simp del: concat_eq_Nil_conv
        split: if_splits)
  have "concat (map snd rs) = [] \<longleftrightarrow>
      (\<forall>p \<in> set (ip_links plan). special_pair R pfmea p \<longrightarrow> controlled_pair R control p)"
    by (rule rmap_gaps[OF rs]) (rule r3_pair_gaps[OF _ assms(2)])
  with f show ?thesis by simp
qed

lemma r3_documents_pass:
  assumes "r3_documents R c plan pfmea control = Inr f"
    and docs: "validate_document R m rm pfmea = Inr ()" "validate_document R m rm control = Inr ()"
  shows "f_status f = PASS \<longleftrightarrow> scope_relationships_complete R plan
    \<and> legacy_rows_bound c [(pfmea, ''risks''), (control, ''characteristics'')]
    \<and> (\<forall>p \<in> set (ip_links plan). has_row R ''risks'' pfmea p
         \<and> (special_pair R pfmea p \<longrightarrow> controlled_pair R control p))"
proof -
  have legacy: "es = [] \<longleftrightarrow> legacy_rows_bound c [(pfmea, ''risks''), (control, ''characteristics'')]"
    if "legacy_unbound_evidence R c [(pfmea, ''risks''), (control, ''characteristics'')] = Inr es" for es
    using that docs by (intro legacy_unbound_Nil) auto
  have miss: "filter (\<lambda>p. lookup_rows (bound_rows R ''risks'' pfmea) (relationship_key R (fst p) (snd p)) = [])
        (ip_links plan) = [] \<longleftrightarrow> (\<forall>p \<in> set (ip_links plan). has_row R ''risks'' pfmea p)"
    by (simp add: filter_empty_conv lookup_rows_bound)
  have missing: "f_status g \<noteq> PASS"
    if "r3_missing_risks R c pfmea idx ps = Inr g" for g idx ps
    using that by (auto simp: r3_missing_risks_def rbind_Inr_iff Let_def r3_finding_def split: if_splits)
  show ?thesis
  proof (cases "scope_relationships_complete R plan")
    case False
    with assms(1) show ?thesis by (auto simp: r3_documents_def rbind_Inr_iff r3_finding_def)
  next
    case True
    with assms(1) obtain es where es:
      "legacy_unbound_evidence R c [(pfmea, ''risks''), (control, ''characteristics'')] = Inr es"
      and f: "(if es \<noteq> [] then Inr (r3_finding UNVERIFIABLE r3_text4 es ''HIGH'' [] [])
        else if \<not> (\<forall>p \<in> set (ip_links plan). has_row R ''risks'' pfmea p)
        then r3_missing_risks R c pfmea (bound_rows R ''risks'' pfmea) (filter (\<lambda>p. lookup_rows
            (bound_rows R ''risks'' pfmea) (relationship_key R (fst p) (snd p)) = []) (ip_links plan))
        else r3_pairs R plan pfmea control (bound_rows R ''risks'' pfmea)
            (bound_rows R ''characteristics'' control)) = Inr f"
      unfolding r3_documents_def characteristics_validated[OF docs(2)] risks_validated[OF docs(1)]
        Let_def rbind_simps miss by (auto simp: rbind_Inr_iff)
    show ?thesis
      using f legacy[OF es] missing r3_pairs_pass[OF _ docs(2)] True
      by (auto simp: r3_finding_def split: if_splits)
  qed
qed

lemma approved_present:
  assumes "validate_case R v = Inr ()" and "t \<in> set REQUIRED_DOCUMENT_TYPES"
  shows "present (Some (approved_document v t))"
  using validated_nonempty[OF approved_document_valid[OF assms]] by (simp add: present_def)

lemma rule_special_characteristic_control_pass:
  assumes v: "validate_case R v = Inr ()"
    and "rule_special_characteristic_control R (dict_of v) plan = Inr f"
  shows "f_status f = PASS \<longleftrightarrow> scope_relationships_complete R plan
    \<and> legacy_rows_bound (dict_of v) [(approved_document v ''PFMEA'', ''risks''),
         (approved_document v ''CONTROL_PLAN'', ''characteristics'')]
    \<and> (\<forall>p \<in> set (ip_links plan). has_row R ''risks'' (approved_document v ''PFMEA'') p
         \<and> (special_pair R (approved_document v ''PFMEA'') p
              \<longrightarrow> controlled_pair R (approved_document v ''CONTROL_PLAN'') p))"
proof -
  have t: "''PFMEA'' \<in> set REQUIRED_DOCUMENT_TYPES" "''CONTROL_PLAN'' \<in> set REQUIRED_DOCUMENT_TYPES"
    by (simp_all add: REQUIRED_DOCUMENT_TYPES_def)
  have "r3_documents R (dict_of v) plan (approved_document v ''PFMEA'')
      (approved_document v ''CONTROL_PLAN'') = Inr f"
    using assms(2) approved_present[OF v t(1)] approved_present[OF v t(2)]
    by (simp add: rule_special_characteristic_control_def approved_document_found(1)[OF v t(1)]
        approved_document_found(1)[OF v t(2)])
  from r3_documents_pass[OF this approved_document_valid[OF v t(1)] approved_document_valid[OF v t(2)]]
  show ?thesis .
qed

end
