(* ===== verification/Specs_Sound.thy ===== *)
theory Specs_Sound
  imports Relations_Sound
begin

text \<open>
  When QCI-R002 answers PASS on a validated case: the three documents specify every affected
  pair completely, and the specifications are equal.
\<close>

section \<open>The scan of one pair\<close>

type_synonym indexed_doc = "dict \<times> (pair \<times> dict) list"

definition doc_spec :: "runtime \<Rightarrow> pair \<Rightarrow> indexed_doc \<Rightarrow> json list option res" where
  "doc_spec R p di = row_spec (lookup_row (snd di) (relationship_key R (fst p) (snd p)))"

definition doc_type :: "indexed_doc \<Rightarrow> string" where
  "doc_type di = str_of (dget ''document_type'' (fst di))"

lemma set_value_fresh: "k \<notin> set (map fst vs) \<Longrightarrow> set_value k v vs = vs @ [(k, v)]"
  by (simp add: set_value_def)

lemma scan_document_step:
  assumes "scan_document R p s di = Inr s'"
  shows "(doc_spec R p di = Inr None \<and> sc_missing s' \<noteq> [])
    \<or> (\<exists>t. doc_spec R p di = Inr (Some t) \<and> sc_missing s' = sc_missing s
         \<and> sc_misbound s' = sc_misbound s \<and> sc_values s' = set_value (doc_type di) t (sc_values s))"
proof -
  from assms obtain spec where spec: "doc_spec R p di = Inr spec"
    by (auto simp: scan_document_def doc_spec_def Let_def rbind_Inr_iff)
  show ?thesis
  proof (cases spec)
    case None
    then have "sc_missing s' \<noteq> []"
      using assms spec
      by (auto simp: scan_document_def doc_spec_def Let_def rbind_Inr_iff scan_absent_row_def
          scan_invalid_row_def split: option.splits)
    with None spec show ?thesis by simp
  next
    case (Some t)
    with assms spec show ?thesis
      by (auto simp: scan_document_def doc_spec_def doc_type_def Let_def rbind_Inr_iff)
  qed
qed

lemma scan_missing_grows:
  assumes "scan_document R p s di = Inr s'" and "sc_missing s \<noteq> []"
  shows "sc_missing s' \<noteq> []"
  using scan_document_step[OF assms(1)] assms(2) by auto

lemma scan_documents_missing:
  assumes "rfold (scan_document R p) s dis = Inr s'" and "sc_missing s \<noteq> []"
  shows "sc_missing s' \<noteq> []"
  using rfold_invariant[where I = "\<lambda>s. sc_missing s \<noteq> []", OF assms] scan_missing_grows by blast

definition specs_of :: "runtime \<Rightarrow> pair \<Rightarrow> indexed_doc list \<Rightarrow> json list list \<Rightarrow> bool" where
  "specs_of R p dis ts \<longleftrightarrow> list_all2 (\<lambda>di t. doc_spec R p di = Inr (Some t)) dis ts"

lemma scan_documents:
  assumes "rfold (scan_document R p) s dis = Inr s'"
    and "distinct (map fst (sc_values s) @ map doc_type dis)"
  shows "if sc_missing s' = []
    then \<exists>ts. specs_of R p dis ts \<and> sc_missing s = [] \<and> sc_misbound s' = sc_misbound s
      \<and> sc_values s' = sc_values s @ zip (map doc_type dis) ts
    else sc_missing s \<noteq> [] \<or> (\<exists>di \<in> set dis. doc_spec R p di = Inr None)"
  using assms
proof (induction dis arbitrary: s)
  case Nil
  then show ?case by (simp add: specs_of_def)
next
  case (Cons di dis)
  from Cons.prems(1) obtain s1 where s1: "scan_document R p s di = Inr s1"
    "rfold (scan_document R p) s1 dis = Inr s'"
    by (cases "scan_document R p s di") simp_all
  from scan_document_step[OF s1(1)] show ?case
  proof (elim disjE exE conjE)
    assume "doc_spec R p di = Inr None" "sc_missing s1 \<noteq> []"
    with scan_documents_missing[OF s1(2)] show ?thesis by simp
  next
    fix t
    assume t: "doc_spec R p di = Inr (Some t)" "sc_missing s1 = sc_missing s"
      "sc_misbound s1 = sc_misbound s" "sc_values s1 = set_value (doc_type di) t (sc_values s)"
    have v: "sc_values s1 = sc_values s @ [(doc_type di, t)]"
      using t(4) Cons.prems(2) by (simp add: set_value_fresh)
    then have "distinct (map fst (sc_values s1) @ map doc_type dis)"
      using Cons.prems(2) by auto
    note IH = Cons.IH[OF s1(2) this]
    show ?thesis
    proof (cases "sc_missing s' = []")
      case True
      with IH obtain ts where "specs_of R p dis ts" "sc_missing s1 = []"
        "sc_misbound s' = sc_misbound s1" "sc_values s' = sc_values s1 @ zip (map doc_type dis) ts"
        by auto
      with t v True show ?thesis
        by (simp add: specs_of_def) (intro exI[of _ "t # ts"], simp)
    next
      case False
      with IH t show ?thesis by auto
    qed
  qed
qed

section \<open>The scan of all pairs\<close>

text \<open>The documents specify the pair, and their specifications are equal.\<close>

definition agreed :: "runtime \<Rightarrow> indexed_doc list \<Rightarrow> pair \<Rightarrow> bool" where
  "agreed R dis p \<longleftrightarrow> (\<exists>ts. specs_of R p dis ts \<and> \<not> specs_differ ts)"

definition clean :: "spec_scan \<times> string list \<Rightarrow> bool" where
  "clean st \<longleftrightarrow> sc_missing (fst st) = [] \<and> sc_misbound (fst st) = [] \<and> snd st = []"

lemma specs_of_unique: "specs_of R p dis ts \<Longrightarrow> specs_of R p dis us \<Longrightarrow> ts = us"
proof (induction dis arbitrary: ts us)
  case Nil
  then show ?case by (simp add: specs_of_def)
next
  case (Cons di dis)
  then show ?case by (auto simp: specs_of_def list_all2_Cons1)
qed

lemma specs_of_None: "specs_of R p dis ts \<Longrightarrow> di \<in> set dis \<Longrightarrow> doc_spec R p di \<noteq> Inr None"
  by (auto simp: specs_of_def list_all2_conv_all_nth in_set_conv_nth)

lemma scan_pair_clean:
  assumes "scan_pair R dis st p = Inr st'" and "distinct (map doc_type dis)"
    and "sc_misbound (fst st) \<noteq> [] \<longrightarrow> sc_missing (fst st) \<noteq> []"
  shows "(clean st' \<longleftrightarrow> clean st \<and> agreed R dis p)
    \<and> (sc_misbound (fst st') \<noteq> [] \<longrightarrow> sc_missing (fst st') \<noteq> [])"
proof -
  let ?s0 = "(fst st)\<lparr>sc_values := []\<rparr>"
  from assms(1) obtain s where s: "rfold (scan_document R p) ?s0 dis = Inr s"
    and st': "st' = (s, snd st @ (if specs_differ (map snd (sc_values s))
                       then [pair_label p @ ''='' @ rt_tuples_repr R (sc_values s)] else []))"
    by (auto simp: scan_pair_def rbind_Inr_iff)
  have d: "distinct (map fst (sc_values ?s0) @ map doc_type dis)" using assms(2) by simp
  note sc = scan_documents[OF s d]
  show ?thesis
  proof (cases "sc_missing s = []")
    case True
    with sc obtain ts where ts: "specs_of R p dis ts" "sc_missing (fst st) = []"
      "sc_misbound s = sc_misbound (fst st)" "sc_values s = zip (map doc_type dis) ts"
      by auto
    have "length dis = length ts" using ts(1) by (simp add: specs_of_def list_all2_lengthD)
    then have "map snd (sc_values s) = ts" using ts(4) by simp
    moreover have "agreed R dis p \<longleftrightarrow> \<not> specs_differ ts"
      using ts(1) specs_of_unique[OF ts(1)] by (metis agreed_def)
    ultimately show ?thesis using st' True ts assms(3) by (auto simp: clean_def)
  next
    case False
    from sc False have "sc_missing (fst st) \<noteq> [] \<or> (\<exists>di \<in> set dis. doc_spec R p di = Inr None)"
      by simp
    then have "\<not> (sc_missing (fst st) = [] \<and> agreed R dis p)"
      unfolding agreed_def by (meson specs_of_None)
    with False st' show ?thesis by (auto simp: clean_def)
  qed
qed

lemma scan_pairs_clean:
  assumes "rfold (scan_pair R dis) st ps = Inr st'" and "distinct (map doc_type dis)"
    and "sc_misbound (fst st) \<noteq> [] \<longrightarrow> sc_missing (fst st) \<noteq> []"
  shows "clean st' \<longleftrightarrow> clean st \<and> (\<forall>p \<in> set ps. agreed R dis p)"
  using assms(1,3)
proof (induction ps arbitrary: st)
  case Nil
  then show ?case by simp
next
  case (Cons p ps)
  from Cons.prems(1) obtain st1 where "scan_pair R dis st p = Inr st1"
    "rfold (scan_pair R dis) st1 ps = Inr st'"
    by (cases "scan_pair R dis st p") simp_all
  with scan_pair_clean[OF _ assms(2) Cons.prems(2)] Cons.IH show ?case by auto
qed

section \<open>QCI-R002\<close>

lemma r2_verdict_pass: "f_status (r2_verdict (fst st) (snd st)) = PASS \<longleftrightarrow> clean st"
  by (simp add: r2_verdict_def r2_finding_def clean_def)

lemma r2_documents_pass:
  assumes "r2_documents R c plan docs = Inr f"
    and docs: "\<forall>d \<in> set docs. validate_document R m rm d = Inr ()"
    and types: "distinct (map (\<lambda>d. str_of (dget ''document_type'' d)) docs)"
  shows "f_status f = PASS \<longleftrightarrow> scope_relationships_complete R plan
    \<and> legacy_rows_bound c (map (\<lambda>d. (d, ''characteristics'')) docs)
    \<and> (\<forall>p \<in> set (ip_links plan). agreed R
         (map (\<lambda>d. (d, bound_rows R ''characteristics'' d)) docs) p)"
proof (cases "scope_relationships_complete R plan")
  case False
  with assms(1) show ?thesis by (auto simp: r2_documents_def rbind_Inr_iff r2_finding_def)
next
  case True
  let ?dis = "map (\<lambda>d. (d, bound_rows R ''characteristics'' d)) docs"
  have idx: "rmap (\<lambda>d. rbind (characteristics R d) (\<lambda>idx. Inr (d, idx))) docs = Inr ?dis"
  proof (rule rmap_cong_pure)
    fix d
    assume "d \<in> set docs"
    then have "validate_document R m rm d = Inr ()" using docs by blast
    then show "rbind (characteristics R d) (\<lambda>idx. Inr (d, idx)) = Inr (d, bound_rows R ''characteristics'' d)"
      by (simp add: characteristics_validated)
  qed
  from True assms(1) obtain es where
    es: "legacy_unbound_evidence R c (map (\<lambda>d. (d, ''characteristics'')) docs) = Inr es"
    and f: "(if es \<noteq> [] then Inr (r2_finding UNVERIFIABLE r2_text4 es ''HIGH'' [] [])
      else rbind (rfold (scan_pair R ?dis) (empty_scan, []) (ip_links plan)) (\<lambda>st.
          Inr (r2_verdict (fst st) (snd st)))) = Inr f"
    unfolding r2_documents_def idx rbind_simps by (auto simp: rbind_Inr_iff)
  have legacy: "es = [] \<longleftrightarrow> legacy_rows_bound c (map (\<lambda>d. (d, ''characteristics'')) docs)"
    using docs by (intro legacy_unbound_Nil[OF es]) auto
  have "distinct (map doc_type ?dis)" using types by (simp add: doc_type_def comp_def)
  moreover have "clean (empty_scan, [])" "sc_misbound empty_scan = []"
    by (simp_all add: clean_def empty_scan_def)
  ultimately have scan: "clean st \<longleftrightarrow> (\<forall>p \<in> set (ip_links plan). agreed R ?dis p)"
    if "rfold (scan_pair R ?dis) (empty_scan, []) (ip_links plan) = Inr st" for st
    using scan_pairs_clean[OF that] by simp
  show ?thesis
  proof (cases "es = []")
    case True
    with f obtain st where "rfold (scan_pair R ?dis) (empty_scan, []) (ip_links plan) = Inr st"
      "f = r2_verdict (fst st) (snd st)"
      by (auto simp: rbind_Inr_iff)
    with scan r2_verdict_pass True legacy \<open>scope_relationships_complete R plan\<close> show ?thesis by simp
  next
    case False
    with f legacy show ?thesis by (auto simp: r2_finding_def)
  qed
qed

text \<open>A document specifies a pair with a tuple.\<close>

definition has_spec :: "runtime \<Rightarrow> dict \<Rightarrow> pair \<Rightarrow> json list \<Rightarrow> bool" where
  "has_spec R doc p t \<longleftrightarrow> (\<exists>d. pair_row R doc p d \<and> spec_tuple d = Inr (Some t))"

lemma doc_spec_bound:
  assumes "validate_document R m rm doc = Inr u"
  shows "doc_spec R p (doc, bound_rows R ''characteristics'' doc) = Inr (Some t) \<longleftrightarrow> has_spec R doc p t"
proof (cases "lookup_row (bound_rows R ''characteristics'' doc) (relationship_key R (fst p) (snd p))")
  case None
  then have "\<not> pair_row R doc p d" for d using lookup_row_bound[OF assms, of p d] by simp
  with None show ?thesis by (simp add: doc_spec_def row_spec_def has_spec_def present_def)
next
  case (Some d)
  have "d \<noteq> []" using bound_row_nonempty[OF lookup_row_member[OF Some]] .
  moreover have "pair_row R doc p e \<longleftrightarrow> e = d" for e
    using lookup_row_bound[OF assms, of p e] Some by auto
  ultimately show ?thesis
    using Some by (simp add: doc_spec_def row_spec_def has_spec_def present_def)
qed

definition SPEC_TYPES :: "string list" where
  "SPEC_TYPES = [''CONTROL_PLAN'', ''SOP'', ''INSPECTION_RECORD'']"

lemma rule_spec_consistency_pass:
  assumes v: "validate_case R v = Inr ()"
    and "rule_spec_consistency R (dict_of v) plan = Inr f"
  shows "f_status f = PASS \<longleftrightarrow> ip_characteristics plan \<noteq> []
    \<and> scope_relationships_complete R plan
    \<and> legacy_rows_bound (dict_of v) (map (\<lambda>t. (approved_document v t, ''characteristics'')) SPEC_TYPES)
    \<and> (\<forall>p \<in> set (ip_links plan). \<exists>s1 s2 s3.
         has_spec R (approved_document v ''CONTROL_PLAN'') p s1
         \<and> has_spec R (approved_document v ''SOP'') p s2
         \<and> has_spec R (approved_document v ''INSPECTION_RECORD'') p s3
         \<and> py_eq_list s1 s2 \<and> py_eq_list s1 s3)"
proof -
  let ?docs = "map (approved_document v) SPEC_TYPES"
  have t: "set SPEC_TYPES \<subseteq> set REQUIRED_DOCUMENT_TYPES"
    by (simp add: SPEC_TYPES_def REQUIRED_DOCUMENT_TYPES_def)
  have found: "rmap (document_by_type (dict_of v)) [''CONTROL_PLAN'', ''SOP'', ''INSPECTION_RECORD'']
      = Inr (map (\<lambda>t. Some (approved_document v t)) SPEC_TYPES)"
    using approved_document_found(1)[OF v] t by (simp add: SPEC_TYPES_def)
  have valid: "\<forall>d \<in> set ?docs. validate_document R (dget ''relationship_migration'' (dict_of v))
      (dget ''reference_migration'' (dict_of v)) d = Inr ()"
    using approved_document_valid[OF v] t by auto
  have "str_of (dget ''document_type'' (approved_document v t)) = t"
    if "t \<in> set SPEC_TYPES" for t
    using approved_document_found(3)[OF v] that t by (auto simp: is_approved_type_def)
  then have types: "map (\<lambda>d. str_of (dget ''document_type'' d)) ?docs = SPEC_TYPES"
    by (simp add: SPEC_TYPES_def)
  have agreed: "agreed R (map (\<lambda>d. (d, bound_rows R ''characteristics'' d)) ?docs) p \<longleftrightarrow>
      (\<exists>s1 s2 s3. has_spec R (approved_document v ''CONTROL_PLAN'') p s1
         \<and> has_spec R (approved_document v ''SOP'') p s2
         \<and> has_spec R (approved_document v ''INSPECTION_RECORD'') p s3
         \<and> py_eq_list s1 s2 \<and> py_eq_list s1 s3)" for p
  proof -
    have spec: "doc_spec R p (approved_document v t, bound_rows R ''characteristics'' (approved_document v t))
        = Inr (Some s) \<longleftrightarrow> has_spec R (approved_document v t) p s" if "t \<in> set SPEC_TYPES" for t s
    proof -
      have "validate_document R (dget ''relationship_migration'' (dict_of v))
          (dget ''reference_migration'' (dict_of v)) (approved_document v t) = Inr ()"
        using valid that by simp
      then show ?thesis by (rule doc_spec_bound)
    qed
    have "agreed R (map (\<lambda>d. (d, bound_rows R ''characteristics'' d)) ?docs) p \<longleftrightarrow>
        (\<exists>s1 s2 s3. has_spec R (approved_document v ''CONTROL_PLAN'') p s1
           \<and> has_spec R (approved_document v ''SOP'') p s2
           \<and> has_spec R (approved_document v ''INSPECTION_RECORD'') p s3
           \<and> \<not> specs_differ [s1, s2, s3])"
      using spec[of "''CONTROL_PLAN''"] spec[of "''SOP''"] spec[of "''INSPECTION_RECORD''"]
      by (auto simp: agreed_def specs_of_def SPEC_TYPES_def list_all2_Cons1 simp del: specs_differ.simps)
        (blast intro: list_all2_Nil)+
    then show ?thesis by simp
  qed
  show ?thesis
  proof (cases "ip_characteristics plan = []")
    case True
    with assms(2) show ?thesis
      by (auto simp: rule_spec_consistency_def r2_missing_inputs_def rbind_Inr_iff r2_finding_def)
  next
    case False
    have some: "\<not> list_ex (\<lambda>d. d = None) (map (\<lambda>t. Some (approved_document v t)) SPEC_TYPES)"
      "map the (map (\<lambda>t. Some (approved_document v t)) SPEC_TYPES) = ?docs"
      by (simp_all add: SPEC_TYPES_def)
    from assms(2) have "r2_documents R (dict_of v) plan ?docs = Inr f"
      unfolding rule_spec_consistency_def found rbind_simps some(2) using some(1) False by simp
    moreover have "distinct (map (\<lambda>d. str_of (dget ''document_type'' d)) ?docs)"
      unfolding types by (simp add: SPEC_TYPES_def)
    moreover have "map (\<lambda>d. (d, ''characteristics'')) ?docs
        = map (\<lambda>t. (approved_document v t, ''characteristics'')) SPEC_TYPES"
      by (simp add: comp_def)
    ultimately show ?thesis using r2_documents_pass[OF _ valid] False by (simp only: agreed simp_thms)
  qed
qed

end
