(* ===== verification/Rules_Evidence.thy ===== *)
theory Rules_Evidence
  imports Rules_Common
begin

text \<open>
  The two rules of \<open>rules.py\<close> that need raw evidence: the references of the inspection record
  (QCI-R005) and the validation evidence of the event (QCI-R006).  Both receive a context that
  only the raw-byte constructors of \<open>controlled_references.py\<close> and
  \<open>validation_evidence.py\<close> can seal; the JSON bytes of a context are kept decoded.
\<close>

section \<open>Contexts\<close>

record reference_context =
  rc_contract_version :: string
  rc_reference_set_hash :: string
  rc_inspection_document_id :: string
  rc_references :: json
  rc_evidence :: json
  rc_sealed :: bool

record validation_witness =
  vw_source_id :: string
  vw_evidence_id :: string
  vw_filename :: string
  vw_source_hash :: string
  vw_raw_bytes :: string

record validation_context =
  vc_phase :: string
  vc_contract_version :: string
  vc_evidence_set_hash :: string
  vc_case_subject_hash :: string
  vc_scope_digest :: string
  vc_reports :: json
  vc_witnesses :: "validation_witness list"
  vc_sealed :: bool

definition is_sealed_reference_context :: "reference_context option \<Rightarrow> bool" where
  "is_sealed_reference_context ctx \<longleftrightarrow> (case ctx of None \<Rightarrow> False | Some x \<Rightarrow> rc_sealed x)"

definition is_sealed_validation_context :: "validation_context option \<Rightarrow> bool" where
  "is_sealed_validation_context ctx \<longleftrightarrow> (case ctx of None \<Rightarrow> False | Some x \<Rightarrow> vc_sealed x)"

text \<open>\<open>references()\<close>, \<open>evidence()\<close> and \<open>reports()\<close> of the contexts.\<close>

definition context_references :: "reference_context \<Rightarrow> dict res" where
  "context_references x = (case rc_references x of JDict d \<Rightarrow> Inr d
     | _ \<Rightarrow> Inl (ValueError ''internal controlled references are invalid''))"

definition context_evidence :: "reference_context \<Rightarrow> dict res" where
  "context_evidence x = (case rc_evidence x of JDict d \<Rightarrow> Inr d
     | _ \<Rightarrow> Inl (ValueError ''internal controlled reference evidence is invalid''))"

definition context_reports :: "validation_context \<Rightarrow> dict list res" where
  "context_reports x =
     (case vc_reports x of
        JList vs \<Rightarrow> (if list_all is_dict vs then Inr (map dict_of vs)
                    else Inl (ValueError ''internal validation reports are invalid''))
      | _ \<Rightarrow> Inl (ValueError ''internal validation reports are invalid''))"

section \<open>QCI-R005: references of the inspection record\<close>

definition r5_finding :: "check_status \<Rightarrow> string \<Rightarrow> evidence_ref list \<Rightarrow> string \<Rightarrow> string \<Rightarrow> string list \<Rightarrow> finding" where
  "r5_finding = finding_of ''QCI-R005'' r5_text1"

definition r5_single :: "runtime \<Rightarrow> dict \<Rightarrow> string \<Rightarrow> string \<Rightarrow> json \<Rightarrow> string \<Rightarrow> string list \<Rightarrow> finding res" where
  "r5_single R inspection summary locator excerpt remediation acceptance =
     rbind (evidence R inspection (JStr locator) excerpt) (\<lambda>e.
     Inr (r5_finding UNVERIFIABLE summary [e] ''HIGH'' remediation acceptance))"

definition sorted_keys :: "dict \<Rightarrow> string list" where
  "sorted_keys d = sort (remdups (map fst d))"

definition inspection_differs :: "reference_context \<Rightarrow> dict \<Rightarrow> dict \<Rightarrow> bool res" where
  "inspection_differs x sealed_evidence inspection =
     (let first_sealed = (case sealed_evidence of [] \<Rightarrow> JDict [] | kv # _ \<Rightarrow> snd kv) in
      rbind (as_dict first_sealed) (\<lambda>f.
      if dget ''document_id'' inspection \<noteq> JStr (rc_inspection_document_id x) then Inr True
      else rbind (as_dict (dget_or ''inspection'' (JDict []) f)) (\<lambda>s.
        Inr (\<not> py_eq (dget ''revision'' s) (dget ''revision'' inspection)
             \<or> \<not> py_eq (dget ''source_hash'' s) (dget ''source_hash'' inspection)))))"

definition target_identity :: "dict \<Rightarrow> json" where
  "target_identity target = JDict (map (\<lambda>k. (k, dget k target))
     [''document_type'', ''document_id'', ''revision'', ''source_hash''])"

definition artifact_consistent :: "runtime \<Rightarrow> dict \<Rightarrow> bool" where
  "artifact_consistent R target \<longleftrightarrow>
     (case dget ''revision_artifact'' target of
        JNull \<Rightarrow> True
      | JDict a \<Rightarrow> dget ''artifact_id'' a = JStr (''sha256:'' @ py_str R (dget ''source_hash'' target))
      | _ \<Rightarrow> False)"

definition reference_locator :: "string \<Rightarrow> string \<Rightarrow> json" where
  "reference_locator role key = JStr (''fields.references.'' @ role @ ''.'' @ key)"

text \<open>One of the two roles: the six references of its evidence, and whether it disagrees.\<close>

definition r5_role :: "runtime \<Rightarrow> dict \<Rightarrow> dict \<Rightarrow> dict \<Rightarrow> dict \<Rightarrow> string \<times> dict
    \<Rightarrow> (evidence_ref list \<times> string list) res" where
  "r5_role R inspection refs sealed_references sealed_evidence rt =
     (let role = fst rt; target = snd rt in
      rbind (ditem role refs) (\<lambda>identity.
      rbind (as_dict (dget_or role (JDict []) sealed_evidence)) (\<lambda>role_evidence.
      rbind (as_dict (dget_or ''inspection'' (JDict []) role_evidence)) (\<lambda>ie.
      rbind (as_dict identity) (\<lambda>i.
      rbind (collect
        [evidence R inspection (dget_or ''document_id_locator'' (reference_locator role ''document_id'') ie)
           (dget ''document_id'' i),
         evidence R inspection (dget_or ''revision_locator'' (reference_locator role ''revision'') ie)
           (dget ''revision'' i),
         evidence R inspection (reference_locator role ''source_hash'') (dget ''source_hash'' i),
         evidence R target (JStr ''document_id'') (dget ''document_id'' target),
         evidence R target (JStr ''revision'') (dget ''revision'' target),
         evidence R target (JStr ''source_hash'') (dget ''source_hash'' target)]) (\<lambda>es.
      Inr (es, if \<not> py_eq identity (dget role sealed_references)
                 \<or> \<not> py_eq identity (target_identity target) \<or> \<not> artifact_consistent R target
               then [role] else [])))))))"

definition r5_sealed :: "runtime \<Rightarrow> reference_context \<Rightarrow> dict \<Rightarrow> dict \<Rightarrow> dict \<Rightarrow> dict \<Rightarrow> finding res" where
  "r5_sealed R x inspection sop control refs =
     rbind (context_references x) (\<lambda>sealed_references.
     rbind (context_evidence x) (\<lambda>sealed_evidence.
     rbind (inspection_differs x sealed_evidence inspection) (\<lambda>differs.
     let extra_roles = filter (\<lambda>k. k \<notin> {''SOP'', ''CONTROL_PLAN''}) (sorted_keys refs) in
     rbind (rmap (r5_role R inspection refs sealed_references sealed_evidence)
       [(''SOP'', sop), (''CONTROL_PLAN'', control)]) (\<lambda>rs.
     let evs = concat (map fst rs);
         mismatches = (if differs then [''INSPECTION_RECORD''] else [])
           @ (if extra_roles \<noteq> [] then [''extra roles='' @ join_with '','' extra_roles] else [])
           @ concat (map snd rs) in
     Inr (if mismatches \<noteq> []
       then r5_finding CONTRADICTED (r5_text11 @ join_with '', '' mismatches @ r1_text4) evs ''HIGH''
              r5_text12 [r5_text13]
       else r5_finding PASS r5_text14 evs ''LOW'' [] [])))))"

definition r5_references :: "runtime \<Rightarrow> reference_context option \<Rightarrow> dict \<Rightarrow> dict \<Rightarrow> dict \<Rightarrow> finding res" where
  "r5_references R ctx inspection sop control =
     rbind (as_dict (dget_or ''fields'' (JDict []) inspection)) (\<lambda>flds.
     case dget ''references'' flds of
       JDict refs \<Rightarrow>
         if keys_exactly [''LEGACY_UNATTESTED''] refs then
           r5_single R inspection r5_text4 ''fields.references.LEGACY_UNATTESTED''
             (dget ''LEGACY_UNATTESTED'' refs) r5_text5 [r5_text6]
         else
           (let missing_roles = filter (\<lambda>k. \<not> dhas k refs) [''CONTROL_PLAN'', ''SOP''] in
            if missing_roles \<noteq> [] then
              r5_single R inspection (r5_text7 @ join_with '', '' missing_roles)
                ''fields.references'' (JDict refs) [] []
            else if \<not> is_sealed_reference_context ctx then
              r5_single R inspection r5_text8 ''fields.references'' (JDict refs) r5_text9 [r5_text10]
            else r5_sealed R (the ctx) inspection sop control refs)
     | _ \<Rightarrow> r5_single R inspection r5_text3 ''fields.references'' field_absent [] [])"

definition rule_inspection_current_references ::
    "runtime \<Rightarrow> dict \<Rightarrow> impact_plan \<Rightarrow> reference_context option \<Rightarrow> finding res" where
  "rule_inspection_current_references R c plan ctx =
     rbind (document_by_type c ''INSPECTION_RECORD'') (\<lambda>inspection.
     rbind (document_by_type c ''SOP'') (\<lambda>sop.
     rbind (document_by_type c ''CONTROL_PLAN'') (\<lambda>control.
     if \<not> present inspection \<or> \<not> present sop \<or> \<not> present control then
       rbind (all_document_types c) (\<lambda>ts.
       rbind (case_evidence R ''documents[*].document_type'' ts) (\<lambda>e.
       Inr (r5_finding UNVERIFIABLE r5_text2 [e] ''MEDIUM'' [] [])))
     else r5_references R ctx (the inspection) (the sop) (the control))))"

section \<open>QCI-R006: validation evidence\<close>

definition r6_finding :: "check_status \<Rightarrow> string \<Rightarrow> evidence_ref list \<Rightarrow> string \<Rightarrow> string \<Rightarrow> string list \<Rightarrow> finding" where
  "r6_finding = finding_of ''QCI-R006'' r6_text1"

definition r6_no_context :: "runtime \<Rightarrow> dict \<Rightarrow> dict \<Rightarrow> finding res" where
  "r6_no_context R c event =
     (let migration = dget ''validation_migration'' c;
          code = (if is_dict migration \<and> dget ''status'' (dict_of migration) = JStr ''LEGACY_UNATTESTED''
                  then ''LEGACY_UNATTESTED/VALIDATION_CONTEXT_REQUIRED''
                  else ''VALIDATION_CONTEXT_REQUIRED'') in
      rbind (event_evidence R event ''validation_evidence'' (JStr code)) (\<lambda>e.
      Inr (r6_finding UNVERIFIABLE (code @ r6_text2) [e] ''HIGH'' r6_text3 [r6_text4])))"

text \<open>
  Items by their \<open>evidence_id\<close>: the last item of an identifier stays.  A context holds only
  reports whose identifier is a text.
\<close>

definition requirement_items :: "json list \<Rightarrow> (string \<times> dict) list" where
  "requirement_items vs =
     map (\<lambda>v. (str_of (dget ''evidence_id'' (dict_of v)), dict_of v))
       (filter (\<lambda>v. is_dict v \<and> is_str (dget ''evidence_id'' (dict_of v))) vs)"

definition report_item :: "dict \<Rightarrow> (string \<times> dict) res" where
  "report_item d = rbind (ditem ''evidence_id'' d) (\<lambda>i.
     if is_str i then Inr (str_of i, d) else Inl TypeError)"

definition last_of :: "(string \<times> dict) list \<Rightarrow> string \<Rightarrow> dict" where
  "last_of ps k = the (map_of (rev ps) k)"

definition names_minus :: "(string \<times> dict) list \<Rightarrow> (string \<times> dict) list \<Rightarrow> string list" where
  "names_minus ps qs = sort (remdups (filter (\<lambda>k. k \<notin> set (map fst qs)) (map fst ps)))"

definition names_both :: "(string \<times> dict) list \<Rightarrow> (string \<times> dict) list \<Rightarrow> string list" where
  "names_both ps qs = sort (remdups (filter (\<lambda>k. k \<in> set (map fst qs)) (map fst ps)))"

text \<open>\<open>datetime.fromisoformat(text[:-1] + "+00:00")\<close> of a timestamp a validator accepted.\<close>

definition parse_utc :: "json \<Rightarrow> pydatetime res" where
  "parse_utc v =
     (case v of
        JStr s \<Rightarrow> (case (if rfc3339_shape s then datetime_fromisoformat s else None) of
            None \<Rightarrow> Inl (ValueError ''Invalid isoformat string: '') | Some t \<Rightarrow> Inr t)
      | _ \<Rightarrow> Inl TypeError)"

definition report_excerpt :: "string \<Rightarrow> dict \<Rightarrow> json res" where
  "report_excerpt evidence_id report =
     rbind (rmap (\<lambda>k. rbind (ditem k report) (\<lambda>v. Inr (k, v)))
       [''result'', ''event_id'', ''event_revision'', ''scope_digest'', ''case_subject_hash'',
        ''issuer_id'', ''issued_at'']) (\<lambda>items.
     Inr (JDict ((''evidence_id'', JStr evidence_id) # items)))"

definition report_evidence :: "runtime \<Rightarrow> dict \<Rightarrow> string \<Rightarrow> dict \<Rightarrow> evidence_ref res" where
  "report_evidence R event evidence_id report =
     rbind (ditem ''source_id'' report) (\<lambda>source_id.
     rbind (ditem ''locator'' report) (\<lambda>locator.
     rbind (report_excerpt evidence_id report) (\<lambda>excerpt.
     rbind (stable_excerpt R excerpt) (\<lambda>t.
     rbind (ditem ''source_hash'' report) (\<lambda>source_hash.
     Inr \<lparr>ev_document_id = source_id,
          ev_revision = JStr (py_str R (dget_or ''revision'' (JStr ''UNKNOWN'') event)),
          ev_locator = locator, ev_excerpt = t, ev_source_hash = source_hash\<rparr>)))))"

text \<open>The table \<open>comparisons\<close>: the code, and the comparison it stands for.\<close>

definition compare_items :: "string \<Rightarrow> json res \<Rightarrow> json res \<Rightarrow> (string \<times> bool) res" where
  "compare_items code l r = rbind l (\<lambda>v. rbind r (\<lambda>w. Inr (code, py_eq v w)))"

definition comparisons :: "dict \<Rightarrow> dict \<Rightarrow> validation_context \<Rightarrow> dict \<Rightarrow> dict \<Rightarrow> (string \<times> bool) list res" where
  "comparisons c event x requirement report = rmap (\<lambda>r. r)
     [compare_items ''RESULT_NOT_PASS'' (ditem ''result'' report) (Inr (JStr ''PASS'')),
      compare_items ''EVENT_ID_MISMATCH'' (ditem ''event_id'' report) (ditem ''event_id'' event),
      compare_items ''EVENT_REVISION_MISMATCH'' (ditem ''event_revision'' report) (ditem ''revision'' event),
      compare_items ''SCOPE_DIGEST_MISMATCH'' (ditem ''scope_digest'' report) (Inr (JStr (vc_scope_digest x))),
      compare_items ''CASE_SUBJECT_MISMATCH'' (ditem ''case_subject_hash'' report)
        (Inr (JStr (vc_case_subject_hash x))),
      compare_items ''EVIDENCE_TYPE_MISMATCH'' (ditem ''evidence_type'' report) (ditem ''evidence_type'' requirement),
      compare_items ''CLAIM_MISMATCH'' (ditem ''claim'' report) (ditem ''claim'' requirement),
      compare_items ''ISSUER_ID_MISMATCH'' (ditem ''issuer_id'' report) (ditem ''issuer_id'' requirement),
      compare_items ''ISSUER_ROLE_MISMATCH'' (ditem ''issuer_role'' report) (ditem ''issuer_role'' requirement),
      compare_items ''RULESET_VERSION_MISMATCH'' (ditem ''ruleset_version'' report) (Inr (JStr RULESET_VERSION)),
      compare_items ''CASE_SCHEMA_VERSION_MISMATCH'' (ditem ''case_schema_version'' report)
        (ditem ''schema_version'' c)]"

definition in_time_window :: "dict \<Rightarrow> dict \<Rightarrow> bool res" where
  "in_time_window requirement report =
     rbind (rbind (ditem ''performed_at'' report) parse_utc) (\<lambda>performed.
     rbind (rbind (ditem ''issued_at'' report) parse_utc) (\<lambda>issued.
     rbind (rbind (ditem ''valid_from'' requirement) parse_utc) (\<lambda>valid_from.
     rbind (rbind (ditem ''valid_until'' requirement) parse_utc) (\<lambda>valid_until.
     Inr (valid_from \<le> performed \<and> performed \<le> issued \<and> issued \<le> valid_until)))))"

definition r6_report :: "runtime \<Rightarrow> dict \<Rightarrow> dict \<Rightarrow> validation_context \<Rightarrow> (string \<times> dict) list
    \<Rightarrow> (string \<times> dict) list \<Rightarrow> string \<Rightarrow> (evidence_ref \<times> string list) res" where
  "r6_report R c event x requirements reports evidence_id =
     (let requirement = last_of requirements evidence_id; report = last_of reports evidence_id in
      rbind (report_evidence R event evidence_id report) (\<lambda>e.
      rbind (comparisons c event x requirement report) (\<lambda>cs.
      rbind (in_time_window requirement report) (\<lambda>in_window.
      Inr (e, map fst (filter (\<lambda>cb. \<not> snd cb) cs)
              @ (if in_window then [] else [''VALIDATION_TIME_WINDOW_MISMATCH'']))))))"

definition r6_compare :: "runtime \<Rightarrow> dict \<Rightarrow> dict \<Rightarrow> validation_context \<Rightarrow> (string \<times> dict) list
    \<Rightarrow> (string \<times> dict) list \<Rightarrow> finding res" where
  "r6_compare R c event x requirements reports =
     (let extra = names_minus reports requirements in
      rbind (rmap (r6_report R c event x requirements reports) (names_both requirements reports)) (\<lambda>rs.
      let evs = map fst rs;
          mismatches = (if extra \<noteq> [] then [''EXTRA_VALIDATION_EVIDENCE:'' @ join_with '','' extra] else [])
            @ concat (map snd rs) in
      Inr (if mismatches \<noteq> []
        then r6_finding CONTRADICTED
               (''VALIDATION_CLAIM_MISMATCH: '' @ join_with '', '' (sort (remdups mismatches)))
               evs ''HIGH'' r6_text6 [r6_text7]
        else r6_finding PASS r6_text8 evs ''LOW'' [] [])))"

definition rule_validation_evidence ::
    "runtime \<Rightarrow> dict \<Rightarrow> impact_plan \<Rightarrow> validation_context option \<Rightarrow> finding res" where
  "rule_validation_evidence R c plan ctx =
     rbind (event_dict c) (\<lambda>event.
     if \<not> is_sealed_validation_context ctx then r6_no_context R c event
     else
       (case dget ''validation_plan'' event of
          JDict validation_plan \<Rightarrow>
            rbind (iter (dget_or ''required_evidence'' (JList []) validation_plan)) (\<lambda>required.
            rbind (context_reports (the ctx)) (\<lambda>ds.
            rbind (rmap report_item ds) (\<lambda>reports.
            let requirements = requirement_items required;
                missing = names_minus requirements reports in
            if missing \<noteq> [] then
              rbind (event_evidence R event ''validation_plan.required_evidence'' (str_list missing)) (\<lambda>e.
              Inr (r6_finding UNVERIFIABLE
                (''REQUIRED_VALIDATION_EVIDENCE_MISSING: '' @ join_with '', '' missing) [e] ''HIGH'' [] []))
            else r6_compare R c event (the ctx) requirements reports)))
        | _ \<Rightarrow>
            rbind (event_evidence R event ''validation_plan'' field_absent) (\<lambda>e.
            Inr (r6_finding UNVERIFIABLE r6_text5 [e] ''HIGH'' [] []))))"

end
