(* ===== verification/Gates_Sound.thy ===== *)
theory Gates_Sound
  imports Relations_Sound Rules_Evidence
begin

text \<open>
  When the gates answer PASS: the revision dates (QCI-R004), the references of the inspection
  record (QCI-R005), the validation evidence (QCI-R006) and the approvals (QCI-R007).
\<close>

section \<open>QCI-R004\<close>

text \<open>A document is not older than the approval, or is excused by a valid waiver.\<close>

definition date_ok :: "dict \<Rightarrow> pydate \<Rightarrow> dict \<Rightarrow> bool" where
  "date_ok event a doc \<longleftrightarrow>
     (\<exists>d. parse_date (dget ''revision_date'' doc) = Inr d
        \<and> (a \<le> d \<or> valid_revision_date_waiver doc event a = Inr True))"

definition is_approved :: "dict \<Rightarrow> bool" where
  "is_approved doc \<longleftrightarrow> dget ''status'' doc = JStr ''APPROVED''"

definition no_stale :: "finding + stale_scan \<Rightarrow> bool" where
  "no_stale r \<longleftrightarrow> (case r of Inl _ \<Rightarrow> False | Inr st \<Rightarrow> snd st = [])"

lemma r4_stale_Nil:
  assumes "r4_stale R event a doc st = Inr st'"
  shows "snd st' = [] \<longleftrightarrow> snd st = [] \<and> valid_revision_date_waiver doc event a = Inr True"
  using assms by (auto simp: r4_stale_def rbind_Inr_iff split: if_splits)

lemma r4_document_stale:
  assumes "r4_document R event a doc st = Inr r"
  shows "no_stale r \<longleftrightarrow> snd st = [] \<and> truthy (dget ''revision_date'' doc) \<and> date_ok event a doc"
proof (cases "truthy (dget ''revision_date'' doc)")
  case False
  with assms show ?thesis by (auto simp: r4_document_def Let_def rbind_Inr_iff no_stale_def)
next
  case True
  with assms obtain e d where d: "parse_date (dget ''revision_date'' doc) = Inr d"
    and r: "(if d < a then rbind (r4_stale R event a doc (fst st @ [e], snd st)) (\<lambda>st'. Inr (Inr st'))
      else Inr (Inr (fst st @ [e], snd st))) = Inr r"
    by (auto simp: r4_document_def Let_def rbind_Inr_iff)
  show ?thesis
  proof (cases "d < a")
    case True
    with r obtain st' where "r4_stale R event a doc (fst st @ [e], snd st) = Inr st'" "r = Inr st'"
      by (auto simp: rbind_Inr_iff)
    with r4_stale_Nil[OF this(1)] d True \<open>truthy _\<close> show ?thesis by (auto simp: no_stale_def date_ok_def)
  next
    case False
    with r d \<open>truthy _\<close> show ?thesis by (auto simp: no_stale_def date_ok_def not_less)
  qed
qed

lemma r4_loop_stale:
  assumes "r4_loop R event a (map JDict docs) st = Inr r"
    and "\<forall>d \<in> set docs. truthy (dget ''revision_date'' d)"
  shows "no_stale r \<longleftrightarrow> snd st = [] \<and> (\<forall>d \<in> set docs. is_approved d \<longrightarrow> date_ok event a d)"
  using assms
proof (induction docs arbitrary: st)
  case Nil
  then show ?case by (auto simp: no_stale_def)
next
  case (Cons d docs)
  show ?case
  proof (cases "is_approved d")
    case False
    with Cons show ?thesis by (simp add: is_approved_def)
  next
    case True
    with Cons.prems(1) obtain q where q: "r4_document R event a d st = Inr q"
      "(case q of Inl f \<Rightarrow> Inr (Inl f) | Inr st' \<Rightarrow> r4_loop R event a (map JDict docs) st') = Inr r"
      by (auto simp: is_approved_def rbind_Inr_iff)
    note step = r4_document_stale[OF q(1)]
    show ?thesis
    proof (cases q)
      case (Inl f)
      with q(2) step True Cons.prems(2) show ?thesis by (auto simp: no_stale_def)
    next
      case (Inr st')
      with q(2) have "r4_loop R event a (map JDict docs) st' = Inr r" by simp
      from Cons.IH[OF this] Inr step True Cons.prems(2) show ?thesis by (auto simp: no_stale_def)
    qed
  qed
qed

lemma r4_document_early:
  assumes "r4_document R event a doc st = Inr (Inl g)"
  shows "f_status g = UNVERIFIABLE"
proof (cases "truthy (dget ''revision_date'' doc)")
  case False
  with assms show ?thesis by (auto simp: r4_document_def Let_def rbind_Inr_iff r4_finding_def)
next
  case True
  with assms show ?thesis
    by (auto simp: r4_document_def Let_def rbind_Inr_iff simp del: split_paired_Ex split: if_splits)
qed

lemma r4_loop_early:
  assumes "r4_loop R event a vs st = Inr (Inl g)"
  shows "f_status g = UNVERIFIABLE"
  using assms
proof (induction vs arbitrary: st)
  case Nil
  then show ?case by simp
next
  case (Cons v vs)
  from Cons.prems obtain d where d: "v = JDict d"
    and r: "(if dget ''status'' d \<noteq> JStr ''APPROVED'' then r4_loop R event a vs st
      else rbind (r4_document R event a d st) (\<lambda>r.
        case r of Inl f \<Rightarrow> Inr (Inl f) | Inr st' \<Rightarrow> r4_loop R event a vs st')) = Inr (Inl g)"
    by (auto simp: rbind_Inr_iff simp del: split_paired_Ex)
  show ?case
  proof (cases "dget ''status'' d = JStr ''APPROVED''")
    case False
    with r Cons.IH show ?thesis by simp
  next
    case True
    with r obtain q where q: "r4_document R event a d st = Inr q"
      "(case q of Inl f \<Rightarrow> Inr (Inl f) | Inr st' \<Rightarrow> r4_loop R event a vs st') = Inr (Inl g)"
      by (auto simp: rbind_Inr_iff)
    show ?thesis
    proof (cases q)
      case (Inl h)
      with q r4_document_early show ?thesis by simp
    next
      case (Inr st')
      with q(2) Cons.IH show ?thesis by simp
    qed
  qed
qed

lemma r4_verdict_pass:
  assumes "r4_verdict r = Inr f" and "r4_loop R event a vs st = Inr r"
  shows "f_status f = PASS \<longleftrightarrow> no_stale r"
proof (cases r)
  case (Inl g)
  with assms r4_loop_early[of R event a vs st g] show ?thesis
    by (auto simp: r4_verdict_def no_stale_def)
next
  case (Inr st)
  with assms(1) show ?thesis
    by (cases st) (auto simp: r4_verdict_def no_stale_def r4_finding_def split: if_splits)
qed

lemma validated_revision_date:
  assumes "validate_case R v = Inr u" and "d \<in> set (documents_of v)"
  shows "truthy (dget ''revision_date'' d)" "ok (parse_date (dget ''revision_date'' d))"
proof -
  note f = validate_document_facts(11,12)[OF validate_case_document[OF assms]]
  from f obtain s a where "dget ''revision_date'' d = JStr s" "date_fromisoformat s = Some a"
    by (auto elim: is_strE)
  then show "truthy (dget ''revision_date'' d)" "ok (parse_date (dget ''revision_date'' d))"
    by (auto simp: parse_date_def date_fromisoformat_def date_shape_def split: if_splits)
qed

lemma rule_revision_after_approval_pass:
  assumes v: "validate_case R v = Inr ()"
    and "rule_revision_after_approval R (dict_of v) plan = Inr f"
  shows "f_status f = PASS \<longleftrightarrow> truthy (dget ''approved_at'' (event_of v)) \<and>
    (\<exists>a. parse_date (dget ''approved_at'' (event_of v)) = Inr a
       \<and> (\<forall>d \<in> set (documents_of v). is_approved d \<longrightarrow> date_ok (event_of v) a d))"
proof -
  have event: "event_dict (dict_of v) = Inr (event_of v)"
    using validate_case_event(2)[OF v] by (simp add: event_dict_def)
  show ?thesis
  proof (cases "truthy (dget ''approved_at'' (event_of v))")
    case False
    with assms(2) show ?thesis
      by (auto simp: rule_revision_after_approval_def event Let_def rbind_Inr_iff r4_finding_def)
  next
    case True
    with assms(2) obtain a r where a: "parse_date (dget ''approved_at'' (event_of v)) = Inr a"
      and r: "r4_loop R (event_of v) a (map JDict (documents_of v)) ([], []) = Inr r"
      and f: "r4_verdict r = Inr f"
      by (auto simp: rule_revision_after_approval_def event Let_def rbind_Inr_iff
          validate_case_documents(2)[OF v])
    have dates: "\<forall>d \<in> set (documents_of v). truthy (dget ''revision_date'' d)"
      using validated_revision_date(1)[OF v] by blast
    show ?thesis
      using r4_verdict_pass[OF f r] r4_loop_stale[OF r dates] a True by simp
  qed
qed

section \<open>QCI-R005\<close>

lemma py_eq_texts:
  assumes "py_eq (JDict d) w" and "\<forall>kv \<in> set d. is_str (snd kv)"
  shows "\<exists>e. w = JDict e \<and> (\<forall>kv \<in> set d. map_of e (fst kv) = Some (snd kv))"
proof -
  from assms(1) obtain e where e: "w = JDict e" "py_eq_items d e" by (cases w) auto
  have "\<forall>kv \<in> set d. map_of e (fst kv) = Some (snd kv)"
    using e(2) assms(2)
  proof (induction d)
    case (Cons kv d)
    then show ?case by (cases kv) (auto elim!: is_strE split: option.splits)
  qed simp
  with e(1) show ?thesis by blast
qed

lemma r5_single_status: "r5_single R i s l x m a = Inr f \<Longrightarrow> f_status f = UNVERIFIABLE"
  by (auto simp: r5_single_def rbind_Inr_iff r5_finding_def)

text \<open>
  The references of an inspection record: exactly the two roles, and each identity is the one
  the sealed context recorded and the one of the current document.
\<close>

definition current_reference :: "runtime \<Rightarrow> reference_context \<Rightarrow> dict \<Rightarrow> string \<Rightarrow> dict \<Rightarrow> bool" where
  "current_reference R x refs role target \<longleftrightarrow>
     py_eq (dget role refs) (dget role (dict_of (rc_references x)))
     \<and> py_eq (dget role refs) (target_identity target)
     \<and> artifact_consistent R target"

lemma r5_role_Nil:
  assumes "r5_role R inspection refs (dict_of (rc_references x)) se (role, target) = Inr r"
  shows "snd r = [] \<longleftrightarrow> current_reference R x refs role target"
proof -
  from assms obtain identity where "ditem role refs = Inr identity"
    and r: "snd r = (if \<not> py_eq identity (dget role (dict_of (rc_references x)))
       \<or> \<not> py_eq identity (target_identity target) \<or> \<not> artifact_consistent R target then [role] else [])"
    unfolding r5_role_def Let_def fst_conv snd_conv
    by (elim rbind_InrE) (auto simp del: py_eq.simps)
  from ditem_dget[OF this(1)] r show ?thesis by (auto simp: current_reference_def simp del: py_eq.simps)
qed

lemma r5_sealed_pass:
  assumes "r5_sealed R x inspection sop control refs = Inr f"
  shows "f_status f = PASS \<longleftrightarrow>
    inspection_differs x (dict_of (rc_evidence x)) inspection = Inr False
    \<and> set (map fst refs) \<subseteq> {''SOP'', ''CONTROL_PLAN''}
    \<and> current_reference R x refs ''SOP'' sop
    \<and> current_reference R x refs ''CONTROL_PLAN'' control"
proof -
  from assms obtain sr se differs r1 r2 where
    c: "context_references x = Inr sr" "context_evidence x = Inr se"
      "inspection_differs x se inspection = Inr differs"
    and r1: "r5_role R inspection refs sr se (''SOP'', sop) = Inr r1"
    and r2: "r5_role R inspection refs sr se (''CONTROL_PLAN'', control) = Inr r2"
    and f: "f_status f = PASS \<longleftrightarrow> \<not> differs
      \<and> filter (\<lambda>k. k \<notin> {''SOP'', ''CONTROL_PLAN''}) (sorted_keys refs) = []
      \<and> snd r1 = [] \<and> snd r2 = []"
    unfolding r5_sealed_def Let_def
    by (elim rbind_InrE) (auto simp: r5_finding_def simp del: r5_role_def split: sum.splits if_splits)
  have "sr = dict_of (rc_references x)" "se = dict_of (rc_evidence x)"
    using c(1,2) by (auto simp: context_references_def context_evidence_def split: json.splits)
  moreover have "filter (\<lambda>k. k \<notin> {''SOP'', ''CONTROL_PLAN''}) (sorted_keys refs) = []
      \<longleftrightarrow> set (map fst refs) \<subseteq> {''SOP'', ''CONTROL_PLAN''}"
    by (auto simp: sorted_keys_def filter_empty_conv)
  ultimately show ?thesis
    using f c(3) r1 r2 r5_role_Nil by (auto simp del: current_reference_def)
qed

lemma rule_inspection_current_references_pass:
  assumes v: "validate_case R v = Inr ()"
    and "rule_inspection_current_references R (dict_of v) plan ctx = Inr f"
    and "f_status f = PASS"
  shows "\<exists>x refs. ctx = Some x \<and> rc_sealed x
    \<and> dget ''references'' (doc_fields (approved_document v ''INSPECTION_RECORD'')) = JDict refs
    \<and> set (map fst refs) = {''SOP'', ''CONTROL_PLAN''}
    \<and> dget ''document_id'' (approved_document v ''INSPECTION_RECORD'') = JStr (rc_inspection_document_id x)
    \<and> current_reference R x refs ''SOP'' (approved_document v ''SOP'')
    \<and> current_reference R x refs ''CONTROL_PLAN'' (approved_document v ''CONTROL_PLAN'')
    \<and> inspection_differs x (dict_of (rc_evidence x)) (approved_document v ''INSPECTION_RECORD'') = Inr False"
proof -
  let ?ir = "approved_document v ''INSPECTION_RECORD''"
  have t: "''INSPECTION_RECORD'' \<in> set REQUIRED_DOCUMENT_TYPES" "''SOP'' \<in> set REQUIRED_DOCUMENT_TYPES"
    "''CONTROL_PLAN'' \<in> set REQUIRED_DOCUMENT_TYPES" by (simp_all add: REQUIRED_DOCUMENT_TYPES_def)
  have present: "present (Some (approved_document v t))" if "t \<in> set REQUIRED_DOCUMENT_TYPES" for t
    using validated_nonempty[OF approved_document_valid[OF v that]] by (simp add: present_def)
  have r: "r5_references R ctx ?ir (approved_document v ''SOP'') (approved_document v ''CONTROL_PLAN'') = Inr f"
    using assms(2) present t
    by (simp add: rule_inspection_current_references_def approved_document_found(1)[OF v t(1)]
        approved_document_found(1)[OF v t(2)] approved_document_found(1)[OF v t(3)])
  have flds: "as_dict (dget_or ''fields'' (JDict []) ?ir) = Inr (doc_fields ?ir)"
    using validate_document_facts(3,10)[OF approved_document_valid[OF v t(1)]]
    by (simp add: dget_or_dget)
  note not_single = r5_single_status assms(3)
  obtain refs where refs: "dget ''references'' (doc_fields ?ir) = JDict refs"
    using r not_single by (fastforce simp: r5_references_def flds split: json.splits)
  have roles: "filter (\<lambda>k. \<not> dhas k refs) [''CONTROL_PLAN'', ''SOP''] = []"
    and sealed: "is_sealed_reference_context ctx"
    and final: "r5_sealed R (the ctx) ?ir (approved_document v ''SOP'')
      (approved_document v ''CONTROL_PLAN'') refs = Inr f"
    using r not_single by (auto simp: r5_references_def flds refs Let_def split: if_splits)
  from sealed obtain x where x: "ctx = Some x" "rc_sealed x"
    by (auto simp: is_sealed_reference_context_def split: option.splits)
  from r5_sealed_pass[OF final] assms(3) x(1) have
    p: "inspection_differs x (dict_of (rc_evidence x)) ?ir = Inr False"
      "set (map fst refs) \<subseteq> {''SOP'', ''CONTROL_PLAN''}"
      "current_reference R x refs ''SOP'' (approved_document v ''SOP'')"
      "current_reference R x refs ''CONTROL_PLAN'' (approved_document v ''CONTROL_PLAN'')"
    by simp_all
  have "{''SOP'', ''CONTROL_PLAN''} \<subseteq> set (map fst refs)"
    using roles by (auto simp: dhas_def filter_empty_conv split: if_splits)
  moreover have "dget ''document_id'' ?ir = JStr (rc_inspection_document_id x)"
    using p(1) by (auto simp: inspection_differs_def Let_def rbind_Inr_iff split: if_splits)
  ultimately show ?thesis using x refs p by blast
qed

section \<open>QCI-R006\<close>

text \<open>A report that supports a requirement of the plan in this context.\<close>

definition supports :: "dict \<Rightarrow> dict \<Rightarrow> validation_context \<Rightarrow> dict \<Rightarrow> dict \<Rightarrow> bool" where
  "supports c event x requirement report \<longleftrightarrow>
     dget ''result'' report = JStr ''PASS''
     \<and> py_eq (dget ''event_id'' report) (dget ''event_id'' event)
     \<and> py_eq (dget ''event_revision'' report) (dget ''revision'' event)
     \<and> dget ''scope_digest'' report = JStr (vc_scope_digest x)
     \<and> dget ''case_subject_hash'' report = JStr (vc_case_subject_hash x)
     \<and> py_eq (dget ''evidence_type'' report) (dget ''evidence_type'' requirement)
     \<and> py_eq (dget ''claim'' report) (dget ''claim'' requirement)
     \<and> py_eq (dget ''issuer_id'' report) (dget ''issuer_id'' requirement)
     \<and> py_eq (dget ''issuer_role'' report) (dget ''issuer_role'' requirement)
     \<and> dget ''ruleset_version'' report = JStr RULESET_VERSION
     \<and> py_eq (dget ''case_schema_version'' report) (dget ''schema_version'' c)
     \<and> in_time_window requirement report = Inr True"

lemma compare_items_Inr:
  "compare_items code l r = Inr cb \<longleftrightarrow> (\<exists>v w. l = Inr v \<and> r = Inr w \<and> cb = (code, py_eq v w))"
  by (auto simp: compare_items_def rbind_Inr_iff)

lemma comparisons_Nil:
  assumes "comparisons c event x requirement report = Inr cs"
    and "in_time_window requirement report = Inr b"
  shows "filter (\<lambda>cb. \<not> snd cb) cs = [] \<and> b \<longleftrightarrow> supports c event x requirement report"
proof -
  have "filter (\<lambda>cb. \<not> snd cb) cs = [] \<longleftrightarrow> list_all snd cs"
    by (simp add: filter_empty_conv list_all_iff)
  moreover from assms(1) have "list_all snd cs \<and> b \<longleftrightarrow> supports c event x requirement report"
    unfolding comparisons_def rmap_Inr supports_def assms(2)
    by (auto simp: list_all2_Cons1 compare_items_Inr simp del: py_eq.simps dest!: ditem_dget)
  ultimately show ?thesis by simp
qed

lemma supports_report:
  assumes "r6_report R c event x requirements reports evidence_id = Inr r"
  shows "snd r = [] \<longleftrightarrow>
    supports c event x (last_of requirements evidence_id) (last_of reports evidence_id)"
proof -
  from assms obtain cs b where
    cs: "comparisons c event x (last_of requirements evidence_id) (last_of reports evidence_id) = Inr cs"
    and b: "in_time_window (last_of requirements evidence_id) (last_of reports evidence_id) = Inr b"
    and r: "snd r = map fst (filter (\<lambda>cb. \<not> snd cb) cs)
              @ (if b then [] else [''VALIDATION_TIME_WINDOW_MISMATCH''])"
    by (auto simp: r6_report_def Let_def rbind_Inr_iff)
  from comparisons_Nil[OF cs b] r show ?thesis by auto
qed

lemma names_minus_Nil: "names_minus ps qs = [] \<longleftrightarrow> set (map fst ps) \<subseteq> set (map fst qs)"
proof -
  have "names_minus ps qs = [] \<longleftrightarrow> set (names_minus ps qs) = {}" by simp
  also have "set (names_minus ps qs) = {k \<in> set (map fst ps). k \<notin> set (map fst qs)}"
    by (simp add: names_minus_def)
  finally show ?thesis by auto
qed

lemma r6_compare_pass:
  assumes "r6_compare R c event x requirements reports = Inr f"
  shows "f_status f = PASS \<longleftrightarrow> set (map fst reports) \<subseteq> set (map fst requirements)
    \<and> (\<forall>k \<in> set (map fst requirements) \<inter> set (map fst reports).
         supports c event x (last_of requirements k) (last_of reports k))"
proof -
  from assms obtain rs where
    rs: "rmap (r6_report R c event x requirements reports) (names_both requirements reports) = Inr rs"
    and f: "f_status f = PASS \<longleftrightarrow> names_minus reports requirements = [] \<and> concat (map snd rs) = []"
    by (auto simp: r6_compare_def Let_def rbind_Inr_iff r6_finding_def simp del: concat_eq_Nil_conv
        split: if_splits)
  have "concat (map snd rs) = [] \<longleftrightarrow> (\<forall>k \<in> set (names_both requirements reports).
      supports c event x (last_of requirements k) (last_of reports k))"
    by (rule rmap_gaps[OF rs]) (rule supports_report)
  moreover have "set (names_both requirements reports)
      = set (map fst requirements) \<inter> set (map fst reports)"
    by (auto simp: names_both_def)
  ultimately show ?thesis using f names_minus_Nil by simp
qed

text \<open>The requirements of the plan and the reports of the context, by identifier.\<close>

definition plan_requirements :: "dict \<Rightarrow> (string \<times> dict) list" where
  "plan_requirements event =
     requirement_items (list_of (dget ''required_evidence'' (dict_of (dget ''validation_plan'' event))))"

definition context_report_items :: "validation_context \<Rightarrow> (string \<times> dict) list" where
  "context_report_items x =
     map (\<lambda>v. (str_of (dget ''evidence_id'' (dict_of v)), dict_of v)) (list_of (vc_reports x))"

lemma report_items:
  assumes "context_reports x = Inr ds" and "rmap report_item ds = Inr reports"
  shows "reports = context_report_items x"
proof -
  have "rmap report_item ds = Inr (map (\<lambda>d. (str_of (dget ''evidence_id'' d), d)) ds)"
    if "rmap report_item ds = Inr reports" for ds reports
    using that
  proof (induction ds arbitrary: reports)
    case (Cons d ds)
    then show ?case
      by (auto simp: report_item_def rbind_def dest: ditem_dget split: sum.splits if_splits)
  qed simp
  from this[OF assms(2)] assms show ?thesis
    by (auto simp: context_reports_def context_report_items_def comp_def split: json.splits if_splits)
qed

lemma rule_validation_evidence_pass:
  assumes v: "validate_case R v = Inr ()"
    and "rule_validation_evidence R (dict_of v) plan ctx = Inr f"
    and "f_status f = PASS"
  shows "\<exists>x. ctx = Some x \<and> vc_sealed x \<and> is_dict (dget ''validation_plan'' (event_of v))
    \<and> set (map fst (plan_requirements (event_of v))) = set (map fst (context_report_items x))
    \<and> (\<forall>k \<in> set (map fst (plan_requirements (event_of v))).
         supports (dict_of v) (event_of v) x (last_of (plan_requirements (event_of v)) k)
           (last_of (context_report_items x) k))"
proof -
  have event: "event_dict (dict_of v) = Inr (event_of v)"
    using validate_case_event(2)[OF v] by (simp add: event_dict_def)
  have sealed: "is_sealed_validation_context ctx"
    using assms(2,3)
    by (auto simp: rule_validation_evidence_def event r6_no_context_def Let_def rbind_Inr_iff
        r6_finding_def split: if_splits)
  then obtain x where x: "ctx = Some x" "vc_sealed x"
    by (auto simp: is_sealed_validation_context_def split: option.splits)
  obtain vp where vp: "dget ''validation_plan'' (event_of v) = JDict vp"
    using assms(2,3) sealed
    by (fastforce simp: rule_validation_evidence_def event rbind_Inr_iff r6_finding_def split: json.splits)
  from assms(2) sealed obtain required ds reports where
    req: "iter (dget_or ''required_evidence'' (JList []) vp) = Inr required"
    and ds: "context_reports x = Inr ds" and rep: "rmap report_item ds = Inr reports"
    and f: "(if names_minus (requirement_items required) reports \<noteq> [] then
        rbind (event_evidence R (event_of v) ''validation_plan.required_evidence''
            (str_list (names_minus (requirement_items required) reports))) (\<lambda>e.
        Inr (r6_finding UNVERIFIABLE (''REQUIRED_VALIDATION_EVIDENCE_MISSING: ''
          @ join_with '', '' (names_minus (requirement_items required) reports)) [e] ''HIGH'' [] []))
      else r6_compare R (dict_of v) (event_of v) x (requirement_items required) reports) = Inr f"
    unfolding rule_validation_evidence_def event rbind_simps x(1) vp Let_def option.sel
    by (auto simp: rbind_Inr_iff)
  have "validate_validation_plan R (dget ''validation_migration'' (dict_of v)) (JDict vp) = Inr ()"
    using validated_event[OF v] vp by (simp add: validate_event_def)
  then have "is_list (dget ''required_evidence'' vp)"
    by (simp add: validate_validation_plan_def check_simps)
  with req vp have reqs: "requirement_items required = plan_requirements (event_of v)"
    by (auto simp: plan_requirements_def dget_or_dget not_dhas_dget elim!: is_listE split: if_splits)
  have reports: "reports = context_report_items x" by (rule report_items[OF ds rep])
  from f assms(3) have n: "names_minus (requirement_items required) reports = []"
    and c: "r6_compare R (dict_of v) (event_of v) x (requirement_items required) reports = Inr f"
    by (auto simp: rbind_Inr_iff r6_finding_def split: if_splits)
  from r6_compare_pass[OF c] assms(3) n show ?thesis
    unfolding names_minus_Nil reqs reports using x vp by auto
qed

section \<open>QCI-R007\<close>

definition approval_list :: "dict \<Rightarrow> dict list" where
  "approval_list event = map dict_of (list_of (dget ''approvals'' event))"

text \<open>An approval of the current revision of the event.\<close>

definition is_current :: "dict \<Rightarrow> dict \<Rightarrow> bool" where
  "is_current event a \<longleftrightarrow> dget ''event_revision'' a = dget ''revision'' event"

definition approved_by :: "dict \<Rightarrow> string \<Rightarrow> bool" where
  "approved_by event role \<longleftrightarrow>
     (\<exists>a \<in> set (approval_list event). is_current event a
        \<and> dget ''decision'' a = JStr ''APPROVED'' \<and> dget ''role'' a = JStr role)"

definition rejected_now :: "dict \<Rightarrow> bool" where
  "rejected_now event \<longleftrightarrow>
     (\<exists>a \<in> set (approval_list event). is_current event a
        \<and> str_in (dget ''decision'' a) [''REJECTED'', ''CHANGES_REQUESTED''])"

lemma r7_approvals_pass:
  assumes "r7_approvals R event current = Inr f"
  shows "f_status f = PASS \<longleftrightarrow>
    (\<forall>a \<in> set current. \<not> str_in (dget ''decision'' a) [''REJECTED'', ''CHANGES_REQUESTED''])
    \<and> (\<forall>role \<in> set required_approval_roles. \<exists>a \<in> set current.
         dget ''decision'' a = JStr ''APPROVED'' \<and> dget ''role'' a = JStr role)"
proof -
  from assms obtain non_approved e where
    n: "rfilter (\<lambda>a. hash_in (dget ''decision'' a) [''REJECTED'', ''CHANGES_REQUESTED'']) current = Inr non_approved"
    and f: "(if non_approved \<noteq> [] then
       Inr (r7_finding CONTRADICTED r7_text9 [e] ''CRITICAL'' r7_text10 [r7_text11])
     else
       rbind (approved_roles current) (\<lambda>roles.
       let absent = filter (\<lambda>r. JStr r \<notin> set roles) required_approval_roles in
       if absent \<noteq> [] then
         Inr (r7_finding CONTRADICTED (r7_text12 @ join_with '', '' absent) [e] ''CRITICAL''
           r7_text13 [r7_text14])
       else Inr (r7_finding PASS r7_text15 [e] ''LOW'' [] []))) = Inr f"
    unfolding r7_approvals_def by (elim rbind_InrE)
  have h: "hash_in w ss = Inr True \<longleftrightarrow> str_in w ss" for w ss by (cases w) auto
  have "non_approved = [] \<longleftrightarrow>
      (\<forall>a \<in> set current. \<not> str_in (dget ''decision'' a) [''REJECTED'', ''CHANGES_REQUESTED''])"
    unfolding set_empty[symmetric] using rfilter_set[OF n] by (auto simp: h)
  moreover have "JStr r \<in> set roles \<longleftrightarrow> (\<exists>a \<in> set current.
      dget ''decision'' a = JStr ''APPROVED'' \<and> dget ''role'' a = JStr r)"
    if "approved_roles current = Inr roles" for roles r
    using that by (force simp: approved_roles_def Let_def image_iff split: if_splits)
  ultimately show ?thesis
    using f by (auto simp: r7_finding_def rbind_Inr_iff Let_def filter_empty_conv split: if_splits)
qed

lemma r7_single_status: "r7_single R e s m l x v r a = Inr f \<Longrightarrow> f_status f = s"
  by (auto simp: r7_single_def rbind_Inr_iff r7_finding_def)

lemma rule_high_risk_approval_pass:
  assumes v: "validate_case R v = Inr ()"
    and r: "rule_high_risk_approval R (dict_of v) plan = Inr f"
  shows "f_status f = PASS \<longleftrightarrow>
    (dget ''risk_level'' (event_of v) = JStr ''HIGH'' \<longrightarrow>
       \<not> rejected_now (event_of v) \<and> approved_by (event_of v) ''QUALITY_MANAGER''
       \<and> approved_by (event_of v) ''PROCESS_OWNER'')"
proof -
  let ?ev = "event_of v"
  have event: "event_dict (dict_of v) = Inr ?ev"
    using validate_case_event(2)[OF v] by (simp add: event_dict_def)
  from validate_event_facts(6,7)[OF validated_event[OF v]] obtain s l where
    s: "dget ''revision'' ?ev = JStr s" and l: "dget ''risk_level'' ?ev = JStr l" "l \<in> set RISK_LEVELS"
    by (auto elim!: nonblank_strE str_inE)
  have known: "hash_in (dget ''risk_level'' ?ev) [''LOW'', ''MEDIUM'', ''HIGH''] = Inr True"
    using l by (simp add: RISK_LEVELS_def)
  show ?thesis
  proof (cases "l = ''HIGH''")
    case False
    with r known l(1) show ?thesis
      by (auto simp: rule_high_risk_approval_def event dest: r7_single_status)
  next
    case True
    have ap: "validate_approvals (dget ''approvals'' ?ev) = Inr ()"
      using validated_event[OF v] by (simp add: validate_event_def)
    show ?thesis
    proof (cases "truthy (dget ''approvals'' ?ev)")
      case False
      then have "approval_list ?ev = []"
        using ap by (auto simp: approval_list_def validate_approvals_def check_simps elim!: is_listE)
      with False r known l(1) True show ?thesis
        by (auto simp: rule_high_risk_approval_def event approved_by_def dest: r7_single_status)
    next
      case truthy: True
      then have "is_list (dget ''approvals'' ?ev)" "list_all is_dict (list_of (dget ''approvals'' ?ev))"
        using ap by (auto simp: validate_approvals_def check_simps)
      then have as: "dget ''approvals'' ?ev = JList (map JDict (approval_list ?ev))"
        using list_all_is_dict by (auto simp: approval_list_def elim!: is_listE)
      have current: "is_current ?ev = (\<lambda>a. py_eq (dget ''event_revision'' a) (dget ''revision'' ?ev))"
        by (simp add: is_current_def fun_eq_iff s)
      have "rmap as_dict (map JDict (approval_list ?ev)) = Inr (approval_list ?ev)"
        by (simp add: rmap_Inr list.rel_map list.rel_refl)
      then have "current_approvals ?ev (map JDict (approval_list ?ev))
          = Inr (filter (is_current ?ev) (approval_list ?ev))"
        by (simp add: current_approvals_def current)
      then have "r7_approvals R ?ev (filter (is_current ?ev) (approval_list ?ev)) = Inr f"
        using r known l(1) True truthy as
        by (simp add: rule_high_risk_approval_def event Let_def)
      from r7_approvals_pass[OF this] l(1) True show ?thesis
        by (auto simp: rejected_now_def approved_by_def required_approval_roles_def)
    qed
  qed
qed

end
