(* ===== verification/Run_Result.thy ===== *)
theory Run_Result
  imports Rule_Results Sha256
begin

text \<open>
  \<open>RunResult\<close> of \<open>models.py\<close>, the checks of its \<open>__post_init__\<close>, and the assurance tuple of
  \<open>case_source_assurance.py\<close>.  A field that is a text or \<open>None\<close> is a value here, because the
  constructor checks its type.
\<close>

section \<open>Constants\<close>

definition RUN_RESULT_CONTRACT_VERSION :: string where
  "RUN_RESULT_CONTRACT_VERSION = ''qualityci-run-result-0.2''"

definition RUN_IDENTITY_VERSION :: string where
  "RUN_IDENTITY_VERSION = ''qualityci-run-identity-v4''"

definition SOURCE_UNBOUND :: string where "SOURCE_UNBOUND = ''UNBOUND_SERIALIZED_CASE''"
definition SOURCE_BOUND :: string where "SOURCE_BOUND = ''BOUND_RAW_SOURCE_CASE''"
definition SOURCE_DERIVED :: string where "SOURCE_DERIVED = ''SOURCE_ROOTED_DERIVATION''"
definition SOURCE_PACK_VERSION :: string where "SOURCE_PACK_VERSION = ''qualityci-case-source-pack-0.1''"
definition SOURCE_SET_VERSION :: string where "SOURCE_SET_VERSION = ''qualityci-case-source-set-0.1''"

definition SOURCE_LINEAGE_VERSION :: string where
  "SOURCE_LINEAGE_VERSION = ''qualityci-case-source-lineage-0.1''"

definition REFERENCE_UNATTESTED :: string where "REFERENCE_UNATTESTED = ''UNATTESTED_JSON''"
definition REFERENCE_ATTESTED :: string where "REFERENCE_ATTESTED = ''ATTESTED_REFERENCE_SET''"
definition VALIDATION_UNATTESTED :: string where "VALIDATION_UNATTESTED = ''UNATTESTED_VALIDATION_JSON''"
definition VALIDATION_ATTESTED :: string where "VALIDATION_ATTESTED = ''ATTESTED_VALIDATION_SET''"

definition REFERENCE_CONTRACT_VERSION :: string where
  "REFERENCE_CONTRACT_VERSION = ''qualityci-controlled-reference-0.1''"

definition VALIDATION_CONTRACT_VERSION :: string where
  "VALIDATION_CONTRACT_VERSION = ''qualityci-validation-evidence-0.1''"

section \<open>The source assurance tuple\<close>

record source_assurance =
  sa_state :: json
  sa_pack_version :: json
  sa_set_version :: json
  sa_set_hash :: json
  sa_binding_hash :: json
  sa_lineage_version :: json
  sa_lineage_hash :: json

definition assurance_items :: "source_assurance \<Rightarrow> dict" where
  "assurance_items a =
     [(''case_source_assurance_state'', sa_state a),
      (''case_source_pack_contract_version'', sa_pack_version a),
      (''case_source_set_contract_version'', sa_set_version a),
      (''case_source_set_hash'', sa_set_hash a),
      (''case_source_binding_hash'', sa_binding_hash a),
      (''case_source_lineage_contract_version'', sa_lineage_version a),
      (''case_source_lineage_hash'', sa_lineage_hash a)]"

definition lower_sha_json :: "json \<Rightarrow> bool" where
  "lower_sha_json v \<longleftrightarrow> is_str v \<and> is_lower_sha (str_of v)"

definition require_sha :: "json \<Rightarrow> string \<Rightarrow> unit res" where
  "require_sha v label =
     require (lower_sha_json v) (ValueError (label @ '' must be one lowercase SHA-256 value''))"

text \<open>\<open>validate_case_source_assurance_payload\<close>.\<close>

definition ASSURANCE_KEYS :: "string list" where
  "ASSURANCE_KEYS =
     [''case_source_assurance_state'', ''case_source_pack_contract_version'',
      ''case_source_set_contract_version'', ''case_source_set_hash'', ''case_source_binding_hash'',
      ''case_source_lineage_contract_version'', ''case_source_lineage_hash'']"

definition validate_assurance_lineage :: "dict \<Rightarrow> unit res" where
  "validate_assurance_lineage d =
     (if dget ''case_source_assurance_state'' d = JStr SOURCE_BOUND then
        require (dget ''case_source_lineage_contract_version'' d = JNull
            \<and> dget ''case_source_lineage_hash'' d = JNull)
          (ValueError ''bound root Case cannot claim a lineage'')
      else seq_checks
        [require (dget ''case_source_lineage_contract_version'' d = JStr SOURCE_LINEAGE_VERSION)
           (ValueError ''derived Case requires the lineage contract''),
         require_sha (dget ''case_source_lineage_hash'' d) ''case source lineage hash''])"

definition validate_assurance_payload :: "json \<Rightarrow> unit res" where
  "validate_assurance_payload v = seq_checks
     [require (is_dict v \<and> keys_exactly ASSURANCE_KEYS (dict_of v))
        (ValueError ''case source assurance must contain the exact field set''),
      require (str_in (dget ''case_source_assurance_state'' (dict_of v))
          [SOURCE_UNBOUND, SOURCE_BOUND, SOURCE_DERIVED])
        (ValueError ''case source assurance state is unsupported''),
      (if dget ''case_source_assurance_state'' (dict_of v) = JStr SOURCE_UNBOUND then
         require (list_all (\<lambda>k. dget k (dict_of v) = JNull) (tl ASSURANCE_KEYS))
           (ValueError ''unbound Case source assurance requires null identities'')
       else seq_checks
         [require (dget ''case_source_pack_contract_version'' (dict_of v) = JStr SOURCE_PACK_VERSION)
            (ValueError ''case source pack version is inconsistent''),
          require (dget ''case_source_set_contract_version'' (dict_of v) = JStr SOURCE_SET_VERSION)
            (ValueError ''case source set version is inconsistent''),
          require_sha (dget ''case_source_set_hash'' (dict_of v)) ''case source set hash'',
          require_sha (dget ''case_source_binding_hash'' (dict_of v)) ''case source binding hash'',
          validate_assurance_lineage (dict_of v)])]"

text \<open>The constructor \<open>CaseSourceAssurance(...)\<close> validates its own payload.\<close>

definition make_assurance :: "source_assurance \<Rightarrow> source_assurance res" where
  "make_assurance a = rbind (validate_assurance_payload (JDict (assurance_items a))) (\<lambda>_. Inr a)"

definition unbound_assurance :: source_assurance where
  "unbound_assurance =
     \<lparr>sa_state = JStr SOURCE_UNBOUND, sa_pack_version = JNull, sa_set_version = JNull,
      sa_set_hash = JNull, sa_binding_hash = JNull, sa_lineage_version = JNull,
      sa_lineage_hash = JNull\<rparr>"

section \<open>Run results\<close>

record run_result =
  rr_run_id :: json
  rr_case_id :: json
  rr_case_hash :: json
  rr_ruleset_version :: json
  rr_contract_version :: json
  rr_identity_version :: json
  rr_source :: source_assurance
  rr_reference_state :: json
  rr_reference_set_hash :: json
  rr_reference_version :: json
  rr_validation_state :: json
  rr_validation_set_hash :: json
  rr_validation_version :: json
  rr_overall_status :: check_status
  rr_impact_plan :: impact_plan
  rr_findings :: "finding list"

text \<open>The identity of a run: what \<open>run_id\<close> is a digest of.\<close>

definition run_identity :: "json \<Rightarrow> json \<Rightarrow> json \<Rightarrow> json \<Rightarrow> source_assurance
    \<Rightarrow> json \<Rightarrow> json \<Rightarrow> json \<Rightarrow> json \<Rightarrow> json \<Rightarrow> json \<Rightarrow> json" where
  "run_identity contract_version identity_version case_hash ruleset_version a ref_state ref_hash ref_version
     val_state val_hash val_version = JDict
     ([(''run_result_contract_version'', contract_version),
       (''run_identity_version'', identity_version),
       (''case_hash'', case_hash),
       (''ruleset_version'', ruleset_version)]
      @ assurance_items a @
      [(''reference_assurance_state'', ref_state),
       (''reference_set_hash'', ref_hash),
       (''reference_contract_version'', ref_version),
       (''validation_assurance_state'', val_state),
       (''validation_evidence_set_hash'', val_hash),
       (''validation_evidence_contract_version'', val_version)])"

definition IDENTITY_DOMAIN :: string where
  "IDENTITY_DOMAIN = ''QualityCI/run-identity/v4'' @ [CHR 0x00]"

definition identity_digest :: "runtime \<Rightarrow> string \<Rightarrow> json \<Rightarrow> string res" where
  "identity_digest R message identity = (if json_finite identity
     then Inr (take 16 (sha256_hex (IDENTITY_DOMAIN @ jtext R identity)))
     else Inl (ValueError message))"

definition result_identity :: "run_result \<Rightarrow> json" where
  "result_identity r =
     run_identity (rr_contract_version r) (rr_identity_version r) (rr_case_hash r)
       (rr_ruleset_version r) (rr_source r) (rr_reference_state r) (rr_reference_set_hash r)
       (rr_reference_version r) (rr_validation_state r) (rr_validation_set_hash r)
       (rr_validation_version r)"

text \<open>\<open>_lower_hash\<close> of \<open>models.py\<close>, which has a message of its own for a malformed text.\<close>

definition require_result_sha :: "json \<Rightarrow> string \<Rightarrow> unit res" where
  "require_result_sha v label =
     (if v = JNull then Inl (ValueError (label @ '' must be one lowercase SHA-256 value''))
      else require (lower_sha_json v)
        (ValueError (label @ '' must be one lowercase SHA-256 value or null'')))"

text \<open>\<open>__post_init__\<close>, in the order of the source.\<close>

definition check_result_header :: "run_result \<Rightarrow> unit res" where
  "check_result_header r = seq_checks
     [require (rr_contract_version r = JStr RUN_RESULT_CONTRACT_VERSION)
        (ValueError ''RunResult contract version is unsupported''),
      require (rr_identity_version r = JStr RUN_IDENTITY_VERSION)
        (ValueError ''RunResult identity version is unsupported''),
      require (is_str (rr_run_id r) \<and> length (str_of (rr_run_id r)) = 16
          \<and> list_all is_lower_hex_char (str_of (rr_run_id r)))
        (ValueError ''RunResult run_id must be one lowercase v4 identity''),
      require (nonblank_str (rr_case_id r))
        (ValueError ''RunResult case_id must be a non-empty string''),
      require_result_sha (rr_case_hash r) ''RunResult case_hash'']"

definition check_result_lineage :: "source_assurance \<Rightarrow> unit res" where
  "check_result_lineage a =
     (if sa_state a = JStr SOURCE_BOUND then
        require (sa_lineage_version a = JNull \<and> sa_lineage_hash a = JNull)
          (ValueError ''bound RunResult cannot claim source lineage'')
      else seq_checks
        [require (sa_lineage_version a = JStr SOURCE_LINEAGE_VERSION \<and> sa_lineage_hash a \<noteq> JNull)
           (ValueError ''derived RunResult requires exact source lineage''),
         require_result_sha (sa_lineage_hash a) ''case source lineage hash''])"

definition check_result_source :: "source_assurance \<Rightarrow> unit res" where
  "check_result_source a =
     (if sa_state a = JStr SOURCE_UNBOUND then
        require (sa_pack_version a = JNull \<and> sa_set_version a = JNull \<and> sa_set_hash a = JNull
            \<and> sa_binding_hash a = JNull \<and> sa_lineage_version a = JNull \<and> sa_lineage_hash a = JNull)
          (ValueError ''unbound RunResult requires null source identities'')
      else rbind (hash_in (sa_state a) [SOURCE_BOUND, SOURCE_DERIVED]) (\<lambda>known.
        if \<not> known then Inl (ValueError ''RunResult source assurance state is unsupported'')
        else seq_checks
          [require (sa_pack_version a = JStr SOURCE_PACK_VERSION \<and> sa_set_version a = JStr SOURCE_SET_VERSION)
             (ValueError ''source-rooted RunResult has inconsistent versions''),
           require_result_sha (sa_set_hash a) ''case source set hash'',
           require_result_sha (sa_binding_hash a) ''case source binding hash'',
           check_result_lineage a]))"

definition check_result_reference :: "run_result \<Rightarrow> unit res" where
  "check_result_reference r =
     (if rr_reference_state r = JStr REFERENCE_UNATTESTED then
        require (rr_reference_set_hash r = JNull \<and> rr_reference_version r = JNull)
          (ValueError ''unattested reference assurance requires null identities'')
      else if rr_reference_state r = JStr REFERENCE_ATTESTED then seq_checks
        [require_result_sha (rr_reference_set_hash r) ''reference set hash'',
         require (rr_reference_version r = JStr REFERENCE_CONTRACT_VERSION)
           (ValueError ''attested reference assurance has an invalid version'')]
      else Inl (ValueError ''RunResult reference assurance state is unsupported''))"

definition check_result_validation :: "run_result \<Rightarrow> unit res" where
  "check_result_validation r =
     (if rr_validation_state r = JStr VALIDATION_UNATTESTED then
        require (rr_validation_set_hash r = JNull \<and> rr_validation_version r = JNull)
          (ValueError ''unattested validation assurance requires null identities'')
      else if rr_validation_state r = JStr VALIDATION_ATTESTED then seq_checks
        [require_result_sha (rr_validation_set_hash r) ''validation evidence set hash'',
         require (rr_validation_version r = JStr VALIDATION_CONTRACT_VERSION)
           (ValueError ''attested validation assurance has an invalid version'')]
      else Inl (ValueError ''RunResult validation assurance state is unsupported''))"

definition check_result_identity :: "runtime \<Rightarrow> run_result \<Rightarrow> unit res" where
  "check_result_identity R r =
     rbind (identity_digest R ''RunResult identity is not canonical JSON'' (result_identity r)) (\<lambda>expected.
     require (rr_run_id r = JStr expected) (ValueError ''RunResult run_id differs from its v4 identity''))"

definition check_run_result :: "runtime \<Rightarrow> run_result \<Rightarrow> unit res" where
  "check_run_result R r = seq_checks
     [check_result_header r, check_result_source (rr_source r), check_result_reference r,
      check_result_validation r, check_result_identity R r]"

text \<open>The constructor.\<close>

definition make_run_result :: "runtime \<Rightarrow> run_result \<Rightarrow> run_result res" where
  "make_run_result R r = rbind (check_run_result R r) (\<lambda>_. Inr r)"

section \<open>The dictionary of a result\<close>

definition evidence_json :: "evidence_ref \<Rightarrow> json" where
  "evidence_json e = JDict
     [(''document_id'', ev_document_id e), (''revision'', ev_revision e), (''locator'', ev_locator e),
      (''excerpt'', JStr (ev_excerpt e)), (''source_hash'', ev_source_hash e)]"

definition finding_json :: "finding \<Rightarrow> json" where
  "finding_json f = JDict
     [(''rule_id'', JStr (f_rule_id f)), (''title'', JStr (f_title f)),
      (''status'', JStr (status_text (f_status f))), (''severity'', JStr (f_severity f)),
      (''summary'', JStr (f_summary f)), (''evidence'', JList (map evidence_json (f_evidence f))),
      (''remediation'', JStr (f_remediation f)),
      (''acceptance_conditions'', str_list (f_acceptance f))]"

definition plan_json :: "impact_plan \<Rightarrow> json" where
  "plan_json p = JDict
     [(''event_id'', ip_event_id p),
      (''affected_process_steps'', str_list (ip_process_steps p)),
      (''affected_characteristics'', str_list (ip_characteristics p)),
      (''affected_links'', JList (map (\<lambda>l. str_list [fst l, snd l]) (ip_links p))),
      (''required_document_types'', str_list (ip_document_types p)),
      (''selected_rule_ids'', str_list (ip_rule_ids p)),
      (''reasoning_path'', str_list (ip_reasoning p))]"

definition run_result_items :: "run_result \<Rightarrow> dict" where
  "run_result_items r =
     [(''run_id'', rr_run_id r), (''case_id'', rr_case_id r), (''case_hash'', rr_case_hash r),
      (''ruleset_version'', rr_ruleset_version r),
      (''run_result_contract_version'', rr_contract_version r),
      (''run_identity_version'', rr_identity_version r)]
     @ assurance_items (rr_source r) @
     [(''reference_assurance_state'', rr_reference_state r),
      (''reference_set_hash'', rr_reference_set_hash r),
      (''reference_contract_version'', rr_reference_version r),
      (''validation_assurance_state'', rr_validation_state r),
      (''validation_evidence_set_hash'', rr_validation_set_hash r),
      (''validation_evidence_contract_version'', rr_validation_version r),
      (''overall_status'', JStr (status_text (rr_overall_status r))),
      (''impact_plan'', plan_json (rr_impact_plan r)),
      (''findings'', JList (map finding_json (rr_findings r)))]"

section \<open>Lemmas\<close>

lemma dget_Cons: "dget k ((k', v) # d) = (if k' = k then v else dget k d)"
  by (simp add: dget_def dget_or_def)

lemma require_sha_Inr [check_simps]: "require_sha v label = Inr u \<longleftrightarrow> lower_sha_json v"
  by (simp add: require_sha_def)

lemma require_result_sha_Inr [check_simps]: "require_result_sha v label = Inr u \<longleftrightarrow> lower_sha_json v"
  by (auto simp: require_result_sha_def lower_sha_json_def)

lemma lower_sha_json_simps [simp]:
  "lower_sha_json (JStr s) \<longleftrightarrow> is_lower_sha s" "\<not> lower_sha_json JNull"
  by (simp_all add: lower_sha_json_def)

lemma make_assurance_Inr:
  "make_assurance a = Inr b \<longleftrightarrow> b = a \<and> validate_assurance_payload (JDict (assurance_items a)) = Inr ()"
  by (auto simp: make_assurance_def rbind_Inr_iff)

lemma unbound_assurance_valid: "validate_assurance_payload (JDict (assurance_items unbound_assurance)) = Inr ()"
  by code_simp

lemma make_run_result_Inr: "make_run_result R r = Inr s \<longleftrightarrow> s = r \<and> check_run_result R r = Inr ()"
  by (auto simp: make_run_result_def rbind_Inr_iff)

text \<open>An accepted assurance passes the checks a result makes of its source.\<close>

lemma assurance_accepted:
  assumes "validate_assurance_payload (JDict (assurance_items a)) = Inr ()"
  shows "check_result_source a = Inr ()"
proof -
  have g: "dget ''case_source_assurance_state'' (assurance_items a) = sa_state a"
    "dget ''case_source_pack_contract_version'' (assurance_items a) = sa_pack_version a"
    "dget ''case_source_set_contract_version'' (assurance_items a) = sa_set_version a"
    "dget ''case_source_set_hash'' (assurance_items a) = sa_set_hash a"
    "dget ''case_source_binding_hash'' (assurance_items a) = sa_binding_hash a"
    "dget ''case_source_lineage_contract_version'' (assurance_items a) = sa_lineage_version a"
    "dget ''case_source_lineage_hash'' (assurance_items a) = sa_lineage_hash a"
    by (simp_all add: assurance_items_def dget_Cons)
  from assms have s: "str_in (sa_state a) [SOURCE_UNBOUND, SOURCE_BOUND, SOURCE_DERIVED]"
    by (simp add: validate_assurance_payload_def g)
  then obtain st where st: "sa_state a = JStr st" "st \<in> {SOURCE_UNBOUND, SOURCE_BOUND, SOURCE_DERIVED}"
    by (auto elim!: str_inE)
  have facts: "if sa_state a = JStr SOURCE_UNBOUND
    then sa_pack_version a = JNull \<and> sa_set_version a = JNull \<and> sa_set_hash a = JNull
      \<and> sa_binding_hash a = JNull \<and> sa_lineage_version a = JNull \<and> sa_lineage_hash a = JNull
    else sa_pack_version a = JStr SOURCE_PACK_VERSION \<and> sa_set_version a = JStr SOURCE_SET_VERSION
      \<and> lower_sha_json (sa_set_hash a) \<and> lower_sha_json (sa_binding_hash a)
      \<and> validate_assurance_lineage (assurance_items a) = Inr ()"
    using assms
    by (cases "sa_state a = JStr SOURCE_UNBOUND")
      (simp_all add: validate_assurance_payload_def g ASSURANCE_KEYS_def check_simps)
  show ?thesis
  proof (cases "sa_state a = JStr SOURCE_UNBOUND")
    case True
    with facts show ?thesis by (simp add: check_result_source_def)
  next
    case False
    with st have "hash_in (sa_state a) [SOURCE_BOUND, SOURCE_DERIVED] = Inr True" by auto
    moreover have "check_result_lineage a = Inr ()"
      using facts False
      by (auto simp: check_result_lineage_def validate_assurance_lineage_def g check_simps)
    ultimately show ?thesis using facts False by (simp add: check_result_source_def check_simps)
  qed
qed

lemma run_id_shape: "length (take 16 (sha256_hex s)) = 16 \<and> list_all is_lower_hex_char (take 16 (sha256_hex s))"
  using sha.digest_lower_sha[of s]
  by (auto simp: is_lower_sha_def list_all_iff sha.digest_prefix_length dest: in_set_takeD)

end
