(* ===== verification/Engine.thy ===== *)
theory Engine
  imports Run_Result Rules_Relations Rules_Control Rules_Evidence
begin

text \<open>
  \<open>engine.py\<close>: the evaluation of a case with all the rules, the identity of the run and the
  public entries.
\<close>

section \<open>Run identities\<close>

text \<open>The frozen version 3 identity, which hashes the hash of the identity.\<close>

definition LEGACY_IDENTITY_DOMAIN :: string where
  "LEGACY_IDENTITY_DOMAIN = ''QualityCI/run-identity/v3'' @ [CHR 0x00]"

definition legacy_identity :: "json \<Rightarrow> json \<Rightarrow> json \<Rightarrow> json \<Rightarrow> json \<Rightarrow> json \<Rightarrow> json \<Rightarrow> json" where
  "legacy_identity case_hash ref_state ref_hash ref_version val_state val_hash val_version = JDict
     [(''case_hash'', case_hash), (''ruleset_version'', JStr RULESET_VERSION),
      (''reference_assurance_state'', ref_state), (''reference_set_hash'', ref_hash),
      (''reference_contract_version'', ref_version), (''validation_assurance_state'', val_state),
      (''validation_evidence_set_hash'', val_hash),
      (''validation_evidence_contract_version'', val_version)]"

definition run_id_for_identity :: "runtime \<Rightarrow> json \<Rightarrow> string res" where
  "run_id_for_identity R identity =
     rbind (canonical_hash R identity) (\<lambda>h.
     Inr (take 16 (sha256_hex (LEGACY_IDENTITY_DOMAIN @ h))))"

definition run_id_for_current_identity :: "runtime \<Rightarrow> source_assurance \<Rightarrow> json \<Rightarrow> json \<Rightarrow> json \<Rightarrow> json
    \<Rightarrow> json \<Rightarrow> json \<Rightarrow> json \<Rightarrow> string res" where
  "run_id_for_current_identity R a case_hash ref_state ref_hash ref_version val_state val_hash val_version =
     rbind (validate_assurance_payload (JDict (assurance_items a))) (\<lambda>_.
     identity_digest R ''case source value is not canonical JSON''
       (run_identity (JStr RUN_RESULT_CONTRACT_VERSION) (JStr RUN_IDENTITY_VERSION) case_hash
         (JStr RULESET_VERSION) a ref_state ref_hash ref_version val_state val_hash val_version))"

section \<open>Evaluation\<close>

definition overall_status :: "check_status list \<Rightarrow> check_status" where
  "overall_status statuses =
     (if CONTRADICTED \<in> set statuses then CONTRADICTED
      else if UNVERIFIABLE \<in> set statuses then UNVERIFIABLE else PASS)"

type_synonym rule = "dict \<Rightarrow> impact_plan \<Rightarrow> finding res"

text \<open>\<open>RULES\<close>, with the contexts passed to the two rules that take one.\<close>

definition rules :: "runtime \<Rightarrow> reference_context option \<Rightarrow> validation_context option \<Rightarrow> rule list" where
  "rules R rc vc =
     [rule_process_coverage R,
      rule_spec_consistency R,
      rule_special_characteristic_control R,
      rule_revision_after_approval R,
      (\<lambda>c plan. rule_inspection_current_references R c plan rc),
      (\<lambda>c plan. rule_validation_evidence R c plan vc),
      rule_high_risk_approval R]"

text \<open>The assurance of the two contexts: state, hash and version.\<close>

definition reference_assurance :: "reference_context option \<Rightarrow> json \<times> json \<times> json" where
  "reference_assurance rc =
     (case rc of
        None \<Rightarrow> (JStr REFERENCE_UNATTESTED, JNull, JNull)
      | Some x \<Rightarrow> (JStr REFERENCE_ATTESTED, JStr (rc_reference_set_hash x), JStr (rc_contract_version x)))"

definition validation_assurance :: "validation_context option \<Rightarrow> json \<times> json \<times> json" where
  "validation_assurance vc =
     (if is_sealed_validation_context vc
      then (JStr VALIDATION_ATTESTED, JStr (vc_evidence_set_hash (the vc)), JStr (vc_contract_version (the vc)))
      else (JStr VALIDATION_UNATTESTED, JNull, JNull))"

text \<open>The run id and the result built from one assurance tuple.\<close>

definition assemble_result :: "runtime \<Rightarrow> source_assurance \<Rightarrow> json \<Rightarrow> string \<Rightarrow> json \<times> json \<times> json
    \<Rightarrow> json \<times> json \<times> json \<Rightarrow> check_status \<Rightarrow> impact_plan \<Rightarrow> finding list \<Rightarrow> run_result res" where
  "assemble_result R a case_id case_hash ref val overall plan findings =
     (let (ref_state, ref_hash, ref_version) = ref; (val_state, val_hash, val_version) = val in
      rbind (run_id_for_current_identity R a (JStr case_hash) ref_state ref_hash ref_version
          val_state val_hash val_version) (\<lambda>run_id.
      make_run_result R
        \<lparr>rr_run_id = JStr run_id, rr_case_id = case_id, rr_case_hash = JStr case_hash,
         rr_ruleset_version = JStr RULESET_VERSION,
         rr_contract_version = JStr RUN_RESULT_CONTRACT_VERSION,
         rr_identity_version = JStr RUN_IDENTITY_VERSION, rr_source = a,
         rr_reference_state = ref_state, rr_reference_set_hash = ref_hash,
         rr_reference_version = ref_version, rr_validation_state = val_state,
         rr_validation_set_hash = val_hash, rr_validation_version = val_version,
         rr_overall_status = overall, rr_impact_plan = plan, rr_findings = findings\<rparr>))"

definition evaluate_prepared :: "runtime \<Rightarrow> json \<Rightarrow> reference_context option \<Rightarrow> validation_context option
    \<Rightarrow> run_result res" where
  "evaluate_prepared R prepared rc vc =
     (let c = dict_of prepared in
      rbind (build_impact_plan R c) (\<lambda>plan.
      rbind (rmap (\<lambda>rule. rule c plan) (rules R rc vc)) (\<lambda>findings.
      rbind (canonical_hash R prepared) (\<lambda>case_hash.
      rbind (make_assurance unbound_assurance) (\<lambda>a.
      rbind (ditem ''case_id'' c) (\<lambda>case_id.
      assemble_result R a case_id case_hash (reference_assurance rc) (validation_assurance vc)
        (overall_status (map f_status findings)) plan findings))))))"

definition evaluate_case :: "runtime \<Rightarrow> json \<Rightarrow> reference_context option \<Rightarrow> validation_context option
    \<Rightarrow> run_result res" where
  "evaluate_case R v rc vc = rbind (prepare_case R v) (\<lambda>prepared. evaluate_prepared R prepared rc vc)"

section \<open>Entries\<close>

definition run_case :: "runtime \<Rightarrow> json \<Rightarrow> run_result res" where
  "run_case R v = evaluate_case R v None None"

definition run_case_with_reference_context :: "runtime \<Rightarrow> json \<Rightarrow> reference_context \<Rightarrow>
    validation_context option \<Rightarrow> run_result res" where
  "run_case_with_reference_context R v x vc =
     (if \<not> is_sealed_reference_context (Some x) then Inl TypeError
      else if vc \<noteq> None \<and> \<not> is_sealed_validation_context vc then Inl TypeError
      else evaluate_case R v (Some x) vc)"

text \<open>
  \<open>legacy_run_result_projection\<close>: the thirteen keys of version 3, with the run id of
  version 3, for a run that claims no source.
\<close>

definition LEGACY_RUN_RESULT_KEYS :: "string list" where
  "LEGACY_RUN_RESULT_KEYS =
     [''run_id'', ''case_id'', ''case_hash'', ''ruleset_version'', ''reference_assurance_state'',
      ''reference_set_hash'', ''reference_contract_version'', ''validation_assurance_state'',
      ''validation_evidence_set_hash'', ''validation_evidence_contract_version'', ''overall_status'',
      ''impact_plan'', ''findings'']"

definition legacy_run_result_projection :: "runtime \<Rightarrow> run_result \<Rightarrow> dict res" where
  "legacy_run_result_projection R r =
     (if rr_contract_version r \<noteq> JStr RUN_RESULT_CONTRACT_VERSION
        \<or> rr_identity_version r \<noteq> JStr RUN_IDENTITY_VERSION
      then Inl (ValueError ''legacy Run projection requires a current RunResult'')
      else rbind (validate_assurance_payload (JDict (assurance_items (rr_source r)))) (\<lambda>_.
      if rr_source r \<noteq> unbound_assurance
      then Inl (ValueError ''source-rooted RunResult cannot be projected as legacy'')
      else rbind (run_id_for_identity R (legacy_identity (rr_case_hash r) (rr_reference_state r)
             (rr_reference_set_hash r) (rr_reference_version r) (rr_validation_state r)
             (rr_validation_set_hash r) (rr_validation_version r))) (\<lambda>run_id.
           Inr (dset ''run_id'' (JStr run_id)
             (map (\<lambda>k. (k, dget k (run_result_items r))) LEGACY_RUN_RESULT_KEYS)))))"

end
