(* ===== verification/Rules_Total.thy ===== *)
theory Rules_Total
  imports Specs_Sound Gates_Sound Engine Canonical_Facts
begin

text \<open>
  No rule raises on a validated case, apart from four shapes that the validator lets through:
  a null \<open>affected_links\<close> in the event, a null \<open>process_steps\<close> in an approved document, a null or
  numeric identifier in a row that the canonical order sorts by, and a number that is not
  finite outside the fields it checks (which canonical JSON refuses).  A case without them is
  regular.
\<close>

section \<open>Regular cases\<close>

definition null_steps :: "dict \<Rightarrow> bool" where
  "null_steps doc \<longleftrightarrow> dhas ''process_steps'' (doc_fields doc)
     \<and> dget ''process_steps'' (doc_fields doc) = JNull"

definition text_if_present :: "string \<Rightarrow> json \<Rightarrow> bool" where
  "text_if_present k v \<longleftrightarrow> (dhas k (dict_of v) \<longrightarrow> is_str (dget k (dict_of v)))"

definition textual_rows :: "dict \<Rightarrow> bool" where
  "textual_rows doc \<longleftrightarrow>
     list_all (\<lambda>v. text_if_present ''process_step_id'' v \<and> text_if_present ''control_id'' v)
       (rows_of ''characteristics'' doc)
     \<and> list_all (text_if_present ''process_step_id'') (rows_of ''risks'' doc)"

definition regular_case :: "json \<Rightarrow> bool" where
  "regular_case v \<longleftrightarrow> json_finite v \<and> \<not> null_links (event_of v)
     \<and> list_all (\<lambda>doc. \<not> null_steps doc \<and> textual_rows doc) (documents_of v)"

lemma regular_finite_document:
  assumes "validate_case R v = Inr u" and "json_finite v" and "doc \<in> set (documents_of v)"
  shows "json_finite (JDict doc)"
proof -
  obtain c where v: "v = JDict c" using validate_case_header_facts(1)[OF assms(1)] by (rule is_dictE)
  have "json_finite (dget ''documents'' c)" using assms(2) v by (intro json_finite_dget) simp
  then have "list_all json_finite (map JDict (documents_of v))"
    using validate_case_documents(1)[OF assms(1)] by (simp add: v finite_list_iff)
  with assms(3) show ?thesis by (simp add: list_all_iff)
qed

lemma regular_finite_event:
  assumes "validate_case R v = Inr u" and "json_finite v"
  shows "json_finite (JDict (event_of v))"
proof -
  obtain c where v: "v = JDict c" using validate_case_header_facts(1)[OF assms(1)] by (rule is_dictE)
  have "json_finite (dget ''event'' c)" using assms(2) v by (intro json_finite_dget) simp
  then show ?thesis using validate_case_event(1)[OF assms(1)] by (simp add: v)
qed

text \<open>An approved document of a regular case: validated, finite, and its rows finite.\<close>

definition sound_document :: "runtime \<Rightarrow> dict \<Rightarrow> bool" where
  "sound_document R doc \<longleftrightarrow> (\<exists>m rm. validate_document R m rm doc = Inr ())
     \<and> json_finite (JDict doc) \<and> \<not> null_steps doc"

lemma approved_sound:
  assumes "validate_case R v = Inr ()" and "regular_case v" and "t \<in> set REQUIRED_DOCUMENT_TYPES"
  shows "sound_document R (approved_document v t)"
  using assms approved_document_valid[OF assms(1,3)] approved_document_found(2)[OF assms(1,3)]
    regular_finite_document[OF assms(1)]
  by (auto simp: sound_document_def regular_case_def list_all_iff)

lemma sound_documentE:
  assumes "sound_document R doc"
  obtains m rm where "validate_document R m rm doc = Inr ()" and "dhas ''document_id'' doc"
    and "json_finite (JDict doc)" and "json_finite (JDict (doc_fields doc))"
proof -
  from assms obtain m rm where d: "validate_document R m rm doc = Inr ()" and f: "json_finite (JDict doc)"
    by (auto simp: sound_document_def)
  from json_finite_dget[OF f, of "''fields''"] have "json_finite (JDict (doc_fields doc))"
    by (simp only: validate_document_facts(10)[OF d])
  with that d f validate_document_facts(1)[OF d] show thesis by blast
qed

lemma finite_rows:
  assumes "json_finite (JDict (doc_fields doc))" and "v \<in> set (rows_of collection doc)"
  shows "json_finite v"
proof -
  have "json_finite (dget collection (doc_fields doc))" by (rule json_finite_dget[OF assms(1)])
  with assms(2) show ?thesis
    by (cases "dget collection (doc_fields doc)") (auto simp: rows_of_def finite_list_iff list_all_iff)
qed

lemma finite_bound_rows:
  assumes "sound_document R doc" and "collection \<in> {''characteristics'', ''risks''}"
    and "(k, d) \<in> set (bound_rows R' collection doc)"
  shows "json_finite (JDict d)"
proof -
  from assms(1) obtain m rm where doc: "validate_document R m rm doc = Inr ()"
    "json_finite (JDict (doc_fields doc))" by (rule sound_documentE)
  from assms(3) obtain v where v: "v \<in> set (rows_of collection doc)" "d = dict_of v"
    by (auto simp: bound_rows_def)
  moreover have "is_dict v"
    using validated_rows(2)[OF doc(1) assms(2)] v(1) by (auto simp: list_all_iff good_row_def)
  ultimately show ?thesis using finite_rows[OF doc(2) v(1)] by (auto elim: is_dictE)
qed

lemma ok_row_evidence:
  assumes "sound_document R' doc" and "collection \<in> {''characteristics'', ''risks''}"
    and "(k, d) \<in> set (bound_rows R' collection doc)"
  shows "ok (relationship_evidence R doc d)"
  using assms(1) finite_bound_rows[OF assms]
  by (elim sound_documentE) (rule ok_relationship_evidence)

lemma ok_candidates:
  assumes "sound_document R' doc" and "collection \<in> {''characteristics'', ''risks''}"
  shows "ok (rmap (relationship_evidence R doc)
    (relationship_candidates R'' (bound_rows R' collection doc) p))"
proof (rule ok_rmap)
  fix d
  assume "d \<in> set (relationship_candidates R'' (bound_rows R' collection doc) p)"
  then obtain k where "(k, d) \<in> set (bound_rows R' collection doc)"
    using candidates_subset by fastforce
  then show "ok (relationship_evidence R doc d)" by (rule ok_row_evidence[OF assms])
qed

lemma ok_missing_evidence:
  assumes "sound_document R' doc"
  shows "ok (missing_relationship_evidence R doc collection p)"
  using assms by (elim sound_documentE) (rule ok_missing_relationship_evidence)

lemma ok_legacy_unbound:
  assumes "\<And>d k. (d, k) \<in> set docs \<Longrightarrow> sound_document R d \<and> k \<in> {''characteristics'', ''risks''}"
  shows "ok (legacy_unbound_evidence R c docs)"
proof -
  have "ok (unbound_collection R dk)" if "dk \<in> set docs" for dk
  proof -
    have s: "sound_document R (fst dk)" and k: "snd dk \<in> {''characteristics'', ''risks''}"
      using assms[of "fst dk" "snd dk"] that by simp_all
    from s obtain m rm where doc: "validate_document R m rm (fst dk) = Inr ()"
      "dhas ''document_id'' (fst dk)" "json_finite (JDict (doc_fields (fst dk)))"
      by (rule sound_documentE)
    have "ok (unbound_row R (fst dk) (snd dk) v)" if v: "v \<in> set (rows_of (snd dk) (fst dk))" for v
    proof -
      have "is_dict v" using validated_rows(2)[OF doc(1) k] v by (auto simp: list_all_iff good_row_def)
      then obtain d where d: "v = JDict d" by (rule is_dictE)
      have "json_finite (JDict d)" using finite_rows[OF doc(3) v] d by simp
      then have "json_finite (dget key d)" for key by (rule json_finite_dget)
      then show ?thesis
        using doc(2) by (auto simp: unbound_row_def d intro!: ok_intros)
    qed
    then show ?thesis
      by (auto simp: unbound_collection_def validated_rows(1)[OF doc(1) k] intro!: ok_intros)
  qed
  then show ?thesis by (auto simp: legacy_unbound_evidence_def intro!: ok_intros)
qed

lemma ok_links_evidence:
  assumes "validate_case R v = Inr ()" and "json_finite v"
  shows "ok (links_evidence R' (dict_of v))"
proof -
  have "event_dict (dict_of v) = Inr (event_of v)"
    using validate_case_event(2)[OF assms(1)] by (simp add: event_dict_def)
  moreover have "json_finite (dget_or ''affected_links'' field_absent (event_of v))"
    using regular_finite_event[OF assms] by (intro json_finite_dget_or) (simp_all add: field_absent_def)
  ultimately show ?thesis by (auto simp: links_evidence_def intro!: ok_intros)
qed

lemma all_document_types_total:
  assumes "validate_case R v = Inr ()" and "json_finite v"
  obtains ts where "all_document_types (dict_of v) = Inr ts" and "json_finite ts"
proof -
  have "rmap (\<lambda>d. rbind (as_dict d) (\<lambda>e. Inr (dget ''document_type'' e))) (map JDict (documents_of v))
      = Inr (map (\<lambda>d. dget ''document_type'' (dict_of d)) (map JDict (documents_of v)))"
    by (intro rmap_cong_pure) auto
  then have "all_document_types (dict_of v) = Inr (JList (map (dget ''document_type'') (documents_of v)))"
    by (simp add: all_document_types_def validate_case_documents(2)[OF assms(1)] comp_def)
  moreover have "json_finite (JList (map (dget ''document_type'') (documents_of v)))"
    using regular_finite_document[OF assms] json_finite_dget
    by (simp add: finite_list_iff list_all_iff)
  ultimately show thesis by (rule that)
qed

section \<open>The relationship rules\<close>

text \<open>
  From here on the evidence of a row is shown total for the rows of a sound document, not from
  its parts.
\<close>

declare ok_relationship_evidence [ok_intros del] ok_missing_relationship_evidence [ok_intros del]
  ok_evidence [ok_intros del]

lemma ok_document_steps:
  assumes "sound_document R doc"
  shows "ok (document_steps doc)"
proof -
  from assms obtain m rm where doc: "validate_document R m rm doc = Inr ()" by (rule sound_documentE)
  note f = validate_document_facts[OF doc]
  have "ok (sorted_texts (dget_or ''process_steps'' (JList []) (doc_fields doc)))"
  proof (cases "dhas ''process_steps'' (doc_fields doc)")
    case False
    then show ?thesis by (simp add: dget_or_dget sorted_texts_def)
  next
    case True
    with assms have "dget ''process_steps'' (doc_fields doc) \<noteq> JNull"
      by (simp add: sound_document_def null_steps_def)
    then obtain xs where "dget ''process_steps'' (doc_fields doc) = JList xs" "list_all nonblank_str xs"
      using doc by (auto simp: validate_document_def validate_process_steps_def check_simps elim: is_listE)
    with True show ?thesis by (simp add: dget_or_dget sorted_texts_list list_all_nonblank_str)
  qed
  with f(3,10) show ?thesis by (simp add: document_steps_def dget_or_dget)
qed

lemma ok_steps_evidence: "sound_document R doc \<Longrightarrow> ok (steps_evidence R' doc steps)"
  by (elim sound_documentE) (auto simp: steps_evidence_def intro!: ok_evidence)

lemma present_lookup_member:
  assumes "present (lookup_row idx k)"
  shows "(k, the (lookup_row idx k)) \<in> set idx"
  using assms by (auto simp: present_def intro: lookup_row_member split: option.splits)

lemma ok_candidate:
  assumes "sound_document R' doc"
    and "d \<in> set (relationship_candidates R'' (bound_rows R' collection doc) p)"
    and "collection \<in> {''characteristics'', ''risks''}"
  shows "ok (relationship_evidence R doc d)"
proof -
  from assms(2) obtain k where "(k, d) \<in> set (bound_rows R' collection doc)"
    using candidates_subset by fastforce
  then show ?thesis by (rule ok_row_evidence[OF assms(1,3)])
qed

lemma ok_looked_up:
  assumes "sound_document R' doc" and "d \<in> set (lookup_rows (bound_rows R' collection doc) k)"
    and "collection \<in> {''characteristics'', ''risks''}"
  shows "ok (relationship_evidence R doc d)"
proof -
  from assms(2) have "(k, d) \<in> set (bound_rows R' collection doc)" by (auto simp: lookup_rows_def)
  then show ?thesis by (rule ok_row_evidence[OF assms(1,3)])
qed

lemma ok_present:
  assumes "sound_document R' doc" and "present (lookup_row (bound_rows R' collection doc) k)"
    and "collection \<in> {''characteristics'', ''risks''}"
  shows "ok (relationship_evidence R doc (the (lookup_row (bound_rows R' collection doc) k)))"
  by (rule ok_row_evidence[OF assms(1,3) present_lookup_member[OF assms(2)]])

lemmas row_evidence_total = ok_missing_evidence ok_candidate ok_looked_up ok_present

lemma ok_r1_link:
  assumes p: "sound_document R pfmea" and c: "sound_document R control"
  shows "ok (r1_link R event pfmea control (bound_rows R ''risks'' pfmea)
    (bound_rows R ''characteristics'' control) l)"
proof -
  have "ok (r1_risk_evidence R pfmea (bound_rows R ''risks'' pfmea) l)"
    by (auto simp: r1_risk_evidence_def Let_def intro!: ok_intros intro: row_evidence_total[OF p])
  moreover have "ok (r1_control_evidence R control (bound_rows R ''characteristics'' control) l)"
    by (auto simp: r1_control_evidence_def Let_def intro!: ok_intros intro: row_evidence_total[OF c])
  ultimately show ?thesis by (auto simp: r1_link_def intro!: ok_intros)
qed

lemma ok_r1_documents:
  assumes v: "validate_case R v = Inr ()" "json_finite v"
    and f: "sound_document R flow" and p: "sound_document R pfmea" and c: "sound_document R control"
  shows "ok (r1_documents R (dict_of v) plan flow pfmea control)"
proof -
  from p c obtain m rm m' rm' where "validate_document R m rm pfmea = Inr ()"
    "validate_document R m' rm' control = Inr ()" by (meson sound_documentE)
  note idx = risks_validated[OF this(1)] characteristics_validated[OF this(2)]
  have event: "event_dict (dict_of v) = Inr (event_of v)"
    using validate_case_event(2)[OF v(1)] by (simp add: event_dict_def)
  have "ok (r1_relations R (dict_of v) plan pfmea control evs)" for evs
    unfolding r1_relations_def idx event
    by (auto simp: Let_def intro!: ok_intros ok_r1_link[OF p c])
  moreover have "ok (legacy_unbound_evidence R (dict_of v) [(pfmea, ''risks''), (control, ''characteristics'')])"
    using p c by (intro ok_legacy_unbound) auto
  ultimately show ?thesis
    unfolding r1_documents_def
    by (intro ok_rbind ok_if ok_document_steps f p c ok_collect ok_links_evidence[OF v])
      (auto simp: Let_def intro!: ok_intros ok_steps_evidence f p c ok_links_evidence[OF v])
qed

lemma rule_process_coverage_total:
  assumes v: "validate_case R v = Inr ()" and r: "regular_case v"
  shows "ok (rule_process_coverage R (dict_of v) plan)"
proof -
  have fin: "json_finite v" using r by (simp add: regular_case_def)
  have t: "''PROCESS_FLOW'' \<in> set REQUIRED_DOCUMENT_TYPES" "''PFMEA'' \<in> set REQUIRED_DOCUMENT_TYPES"
    "''CONTROL_PLAN'' \<in> set REQUIRED_DOCUMENT_TYPES" by (simp_all add: REQUIRED_DOCUMENT_TYPES_def)
  have event: "event_dict (dict_of v) = Inr (event_of v)"
    using validate_case_event(2)[OF v] by (simp add: event_dict_def)
  obtain ts where ts: "all_document_types (dict_of v) = Inr ts" "json_finite ts"
    by (rule all_document_types_total[OF v fin])
  have "ok (r1_missing_inputs R (dict_of v) plan)"
    using ts by (auto simp: r1_missing_inputs_def event intro!: ok_intros)
  moreover have "ok (r1_documents R (dict_of v) plan (approved_document v ''PROCESS_FLOW'')
      (approved_document v ''PFMEA'') (approved_document v ''CONTROL_PLAN''))"
    by (intro ok_r1_documents v fin approved_sound[OF v r] t)
  ultimately show ?thesis
    by (simp add: rule_process_coverage_def approved_document_found(1)[OF v t(1)]
        approved_document_found(1)[OF v t(2)] approved_document_found(1)[OF v t(3)])
qed

text \<open>The specification of a validated row never overflows a float.\<close>

lemma validated_specification:
  assumes "validate_document R m rm doc = Inr u" and "v \<in> set (rows_of ''characteristics'' doc)"
  shows "validate_specification doc (dget ''specification'' (dict_of v)) = Inr ()"
proof -
  have "check_all (validate_characteristic_values doc) (rows_of ''characteristics'' doc) = Inr ()"
    using assms(1) validated_rows(3)[OF assms(1), of "''characteristics''"]
    by (simp add: validate_document_def validate_characteristics_def Let_def)
  then obtain i where "validate_characteristic_values doc i v = Inr ()"
    using assms(2) by (rule check_all_InrD)
  then show ?thesis by (simp add: validate_characteristic_values_def)
qed

lemma ok_spec_tuple:
  assumes "validate_specification doc (dget ''specification'' d) = Inr ()"
  shows "ok (spec_tuple d)"
proof (cases "dget ''specification'' d")
  case (JDict spec)
  have n: "ok (rany (\<lambda>v. rbind (finite_number v) (\<lambda>b. Inr (\<not> b)))
      [dget ''target'' spec, dget ''minimum'' spec, dget ''maximum'' spec])"
    if "has_keys [''target'', ''minimum'', ''maximum'', ''unit''] spec"
  proof -
    have "finite_number (dget k spec) = Inr True" if "k \<in> {''target'', ''minimum'', ''maximum''}" for k
      using assms JDict that \<open>has_keys _ spec\<close>
      by (auto simp: validate_specification_def validate_spec_number_def has_keys_iff rbind_Inr_iff)
    then show ?thesis by simp
  qed
  show ?thesis
    unfolding spec_tuple_def JDict json.case Let_def
    by (intro ok_if ok_rbind n) (simp_all split: if_splits)
qed (simp_all add: spec_tuple_def)

lemma spec_tuple_finite:
  assumes "spec_tuple d = Inr (Some t)" and "json_finite (JDict d)"
  shows "json_finite (JList t)"
proof -
  from assms(1) obtain spec where spec: "dget ''specification'' d = JDict spec"
    by (auto simp: spec_tuple_def split: json.splits)
  have s: "json_finite (JDict spec)" using json_finite_dget[OF assms(2), of "''specification''"] spec by simp
  from assms(1) spec have "t = map (\<lambda>k. dget k spec) [''target'', ''minimum'', ''maximum'', ''unit'']"
    by (auto simp: spec_tuple_def Let_def rbind_Inr_iff split: if_splits)
  then show ?thesis using json_finite_dget[OF s] by simp
qed

lemma ok_scan_document:
  assumes doc: "sound_document R doc"
  shows "ok (scan_document R p s (doc, bound_rows R ''characteristics'' doc))"
proof -
  let ?row = "lookup_row (bound_rows R ''characteristics'' doc) (relationship_key R (fst p) (snd p))"
  from doc obtain m rm where d: "validate_document R m rm doc = Inr ()" "dhas ''document_id'' doc"
    by (rule sound_documentE)
  have row: "d \<noteq> [] \<and> ok (spec_tuple d) \<and> json_finite (JDict d)" if "?row = Some d" for d
  proof -
    have "(relationship_key R (fst p) (snd p), d) \<in> set (bound_rows R ''characteristics'' doc)"
      using that by (rule lookup_row_member)
    moreover from this obtain v where "v \<in> set (rows_of ''characteristics'' doc)" "d = dict_of v"
      by (auto simp: bound_rows_def)
    ultimately show ?thesis
      using bound_row_nonempty finite_bound_rows[OF doc] ok_spec_tuple validated_specification[OF d(1)]
      by blast
  qed
  have "ok (row_spec ?row)"
    using row by (cases ?row) (auto simp: row_spec_def present_def)
  moreover have "ok (doc_pair_label R doc p)"
    using validate_document_facts(2)[OF d(1)] by (auto simp: doc_pair_label_def intro!: ok_intros)
  moreover have "ok (scan_absent_row R doc (bound_rows R ''characteristics'' doc) p label s')" for label s'
    by (auto simp: scan_absent_row_def intro!: ok_intros intro: row_evidence_total[OF doc])
  moreover have "ok (scan_invalid_row R doc r s')" if "?row = Some r" for r s'
  proof -
    have "json_finite (JDict r)" using row[OF that] by simp
    then show ?thesis
      using d(2) relationship_excerpt_finite json_finite_dget_or[of r field_absent]
      by (auto simp: scan_invalid_row_def field_absent_def intro!: ok_rbind ok_evidence)
  qed
  moreover have "ok (evidence R doc l (JDict [(''pair'', relationship_excerpt (the ?row)), (''specification'', JList t)]))"
    if "row_spec ?row = Inr (Some t)" for t l
  proof -
    from that obtain r where r: "?row = Some r" "spec_tuple r = Inr (Some t)"
      by (auto simp: row_spec_def present_def split: option.splits if_splits)
    then show ?thesis
      using row[OF r(1)] spec_tuple_finite[OF r(2)] relationship_excerpt_finite[of r] d(2)
      by (auto intro!: ok_evidence)
  qed
  ultimately show ?thesis
    by (auto simp: scan_document_def Let_def intro!: ok_intros split: option.splits)
qed

lemma ok_r2_documents:
  assumes v: "validate_case R v = Inr ()" "json_finite v"
    and docs: "\<forall>d \<in> set docs. sound_document R d"
  shows "ok (r2_documents R (dict_of v) plan docs)"
proof -
  let ?dis = "map (\<lambda>d. (d, bound_rows R ''characteristics'' d)) docs"
  have idx: "rmap (\<lambda>d. rbind (characteristics R d) (\<lambda>idx. Inr (d, idx))) docs = Inr ?dis"
  proof (rule rmap_cong_pure)
    fix d
    assume "d \<in> set docs"
    then obtain m rm where "validate_document R m rm d = Inr ()" using docs by (meson sound_documentE)
    then show "rbind (characteristics R d) (\<lambda>idx. Inr (d, idx)) = Inr (d, bound_rows R ''characteristics'' d)"
      by (simp add: characteristics_validated)
  qed
  have "ok (scan_pair R ?dis st p)" for st p
    using docs by (auto simp: scan_pair_def intro!: ok_intros ok_scan_document)
  moreover have "ok (legacy_unbound_evidence R (dict_of v) (map (\<lambda>d. (d, ''characteristics'')) docs))"
    using docs by (intro ok_legacy_unbound) auto
  ultimately show ?thesis
    unfolding r2_documents_def idx by (auto intro!: ok_intros ok_links_evidence[OF v])
qed

lemma rule_spec_consistency_total:
  assumes v: "validate_case R v = Inr ()" and r: "regular_case v"
  shows "ok (rule_spec_consistency R (dict_of v) plan)"
proof -
  have fin: "json_finite v" using r by (simp add: regular_case_def)
  have t: "set SPEC_TYPES \<subseteq> set REQUIRED_DOCUMENT_TYPES"
    by (simp add: SPEC_TYPES_def REQUIRED_DOCUMENT_TYPES_def)
  have event: "event_dict (dict_of v) = Inr (event_of v)"
    using validate_case_event(2)[OF v] by (simp add: event_dict_def)
  obtain ts where ts: "all_document_types (dict_of v) = Inr ts" "json_finite ts"
    by (rule all_document_types_total[OF v fin])
  have found: "rmap (document_by_type (dict_of v)) [''CONTROL_PLAN'', ''SOP'', ''INSPECTION_RECORD'']
      = Inr (map (\<lambda>t. Some (approved_document v t)) SPEC_TYPES)"
    using approved_document_found(1)[OF v] t by (simp add: SPEC_TYPES_def)
  have "ok (r2_missing_inputs R (dict_of v) plan)"
    using ts by (auto simp: r2_missing_inputs_def event intro!: ok_intros)
  moreover have "ok (r2_documents R (dict_of v) plan (map the (map (\<lambda>t. Some (approved_document v t)) SPEC_TYPES)))"
    using t approved_sound[OF v r] by (intro ok_r2_documents[OF v fin]) auto
  ultimately show ?thesis
    unfolding rule_spec_consistency_def found rbind_simps by (rule ok_if)
qed

lemma ok_r3_control:
  assumes doc: "sound_document R doc"
  shows "ok (r3_control R doc (bound_rows R ''characteristics'' doc) p)"
proof -
  let ?row = "lookup_row (bound_rows R ''characteristics'' doc) (relationship_key R (fst p) (snd p))"
  from doc have d: "dhas ''document_id'' doc" by (rule sound_documentE)
  have row: "json_finite (JDict (the ?row)) \<and> ok (relationship_evidence R doc (the ?row))" if "present ?row"
    using present_lookup_member[OF that] finite_bound_rows[OF doc] ok_row_evidence[OF doc] by blast
  have "ok (evidence R doc l (control_excerpt (the ?row)))" if "complete_control ?row" for l
  proof -
    have f: "json_finite (JDict (the ?row))" using that row by (simp add: complete_control_def)
    have "json_finite (control_excerpt (the ?row))"
      using relationship_excerpt_finite[OF f] json_finite_dget[OF f]
      by (simp add: control_excerpt_def CONTROL_FIELDS_def)
    with d show ?thesis by (rule ok_evidence)
  qed
  with row show ?thesis
    by (auto simp: r3_control_def Let_def intro!: ok_intros intro: row_evidence_total[OF doc])
qed

lemma rule_special_characteristic_control_total:
  assumes v: "validate_case R v = Inr ()" and r: "regular_case v"
  shows "ok (rule_special_characteristic_control R (dict_of v) plan)"
proof -
  let ?p = "approved_document v ''PFMEA''" and ?c = "approved_document v ''CONTROL_PLAN''"
  have fin: "json_finite v" using r by (simp add: regular_case_def)
  have t: "''PFMEA'' \<in> set REQUIRED_DOCUMENT_TYPES" "''CONTROL_PLAN'' \<in> set REQUIRED_DOCUMENT_TYPES"
    by (simp_all add: REQUIRED_DOCUMENT_TYPES_def)
  have p: "sound_document R ?p" and c: "sound_document R ?c" using approved_sound[OF v r] t by auto
  have idx: "risks R ?p = Inr (bound_rows R ''risks'' ?p)"
    "characteristics R ?c = Inr (bound_rows R ''characteristics'' ?c)"
    using risks_validated[OF approved_document_valid[OF v t(1)]]
      characteristics_validated[OF approved_document_valid[OF v t(2)]] .
  have event: "event_dict (dict_of v) = Inr (event_of v)"
    using validate_case_event(2)[OF v] by (simp add: event_dict_def)
  obtain ts where ts: "all_document_types (dict_of v) = Inr ts" "json_finite ts"
    by (rule all_document_types_total[OF v fin])
  have "ok (r3_missing_inputs R (dict_of v))"
    using ts by (auto simp: r3_missing_inputs_def intro!: ok_intros)
  moreover have "ok (r3_missing_pair R (event_of v) ?p (bound_rows R ''risks'' ?p) l)" for l
    by (auto simp: r3_missing_pair_def intro!: ok_intros intro: row_evidence_total[OF p])
  then have "ok (r3_missing_risks R (dict_of v) ?p (bound_rows R ''risks'' ?p) ls)" for ls
    by (auto simp: r3_missing_risks_def event Let_def intro!: ok_intros)
  moreover have "ok (r3_pair R ?p ?c (bound_rows R ''risks'' ?p) (bound_rows R ''characteristics'' ?c) l)" for l
    by (auto simp: r3_pair_def Let_def intro!: ok_intros ok_r3_control[OF c] intro: row_evidence_total[OF p])
  then have "ok (r3_pairs R plan ?p ?c (bound_rows R ''risks'' ?p) (bound_rows R ''characteristics'' ?c))"
    by (auto simp: r3_pairs_def Let_def intro!: ok_intros)
  moreover have "ok (legacy_unbound_evidence R (dict_of v) [(?p, ''risks''), (?c, ''characteristics'')])"
    using p c by (intro ok_legacy_unbound) auto
  ultimately show ?thesis
    by (auto simp: rule_special_characteristic_control_def r3_documents_def idx Let_def
        approved_document_found(1)[OF v t(1)] approved_document_found(1)[OF v t(2)]
        intro!: ok_intros ok_links_evidence[OF v fin])
qed

section \<open>The revision dates\<close>

lemma is_str_atomic: "is_str v \<Longrightarrow> \<not> is_dict v \<and> \<not> is_list v"
  by (cases v) simp_all

lemma required_roles_ok: "list_all is_str xs \<Longrightarrow> ok (required_roles_in (JList xs))"
  by (auto simp: required_roles_in_def list_ex_iff list_all_iff dest: is_str_atomic)

lemma validated_waiver:
  assumes "validate_document R m rm doc = Inr u" and "dget ''approved_waiver'' doc = JDict w"
  shows "validate_waiver doc (JDict w) = Inr ()"
proof -
  have "dhas ''approved_waiver'' doc" using assms(2) by (intro dget_nonnull_dhas) simp
  with assms show ?thesis by (simp add: validate_document_def validate_document_header_def)
qed

lemma ok_waiver:
  assumes "validate_document R m rm doc = Inr u"
  shows "ok (valid_revision_date_waiver doc event a)"
proof (cases "dget ''approved_waiver'' doc")
  case (JDict w)
  have "dhas ''approved_roles'' w \<longrightarrow> is_list (dget ''approved_roles'' w)
      \<and> list_all is_str (list_of (dget ''approved_roles'' w))"
    using validated_waiver[OF assms JDict]
    unfolding validate_waiver_def seq_checks_Cons_Inr require_Inr dict_of.simps by blast
  then have "ok (required_roles_in (dget_or ''approved_roles'' (JList []) w))"
    by (auto simp: dget_or_dget elim!: is_listE intro!: required_roles_ok)
  then show ?thesis
    by (cases "waiver_dates w")
      (auto simp: valid_revision_date_waiver_def JDict intro!: ok_intros simp del: py_eq.simps)
qed (simp_all add: valid_revision_date_waiver_def)

text \<open>A waiver that excuses a document has every member its evidence shows.\<close>

lemma waived_members:
  assumes "valid_revision_date_waiver doc event a = Inr True" and "is_str (dget ''revision'' event)"
  obtains w where "dget ''approved_waiver'' doc = JDict w"
    and "\<forall>k \<in> set (''locator'' # WAIVER_EXCERPT). dhas k w"
proof -
  from assms(1) obtain w where w: "dget ''approved_waiver'' doc = JDict w"
    by (cases "dget ''approved_waiver'' doc") (simp_all add: valid_revision_date_waiver_def)
  with assms(1) obtain vf vu where d: "waiver_dates w = Some (vf, vu)"
    by (cases "waiver_dates w") (auto simp: valid_revision_date_waiver_def)
  have e: "py_eq (dget ''event_revision'' w) (dget ''revision'' event)"
      "dget ''scope'' w = JStr ''REVISION_DATE_EXCEPTION''"
      "required_roles_in (dget_or ''approved_roles'' (JList []) w) = Inr True"
      "nonblank_str (dget ''waiver_id'' w)" "nonblank_str (dget ''locator'' w)"
    using assms(1) unfolding valid_revision_date_waiver_def w d json.case option.case prod.case
    by (auto simp: rbind_Inr_iff simp del: py_eq.simps split: if_splits)
  from d have "dhas ''valid_from'' w" "dhas ''valid_until'' w"
    by (auto simp: waiver_dates_def ditem_def dhas_iff split: sum.splits option.splits if_splits)
  moreover have "dget ''event_revision'' w \<noteq> JNull"
    using e(1) assms(2) by (auto elim!: is_strE)
  then have "dhas ''event_revision'' w" by (rule dget_nonnull_dhas)
  moreover have "dhas ''scope'' w" "dhas ''waiver_id'' w" "dhas ''locator'' w"
    using e(2,4,5) by (auto intro: dget_nonnull_dhas elim!: nonblank_strE)
  moreover have "dhas ''approved_roles'' w"
    using e(3) by (cases "dhas ''approved_roles'' w") (auto simp: dget_or_dget required_roles_in_def)
  ultimately show thesis using w that by (auto simp: WAIVER_EXCERPT_def)
qed

lemma ok_waiver_evidence:
  assumes doc: "sound_document R doc" and "valid_revision_date_waiver doc event a = Inr True"
    and "is_str (dget ''revision'' event)"
  shows "ok (waiver_evidence R' doc)"
proof -
  from doc obtain m rm where d: "dhas ''document_id'' doc" "json_finite (JDict doc)"
    by (rule sound_documentE)
  from assms(2,3) obtain w where w: "dget ''approved_waiver'' doc = JDict w"
    "\<forall>k \<in> set (''locator'' # WAIVER_EXCERPT). dhas k w" by (rule waived_members)
  have fw: "json_finite (JDict w)" using json_finite_dget[OF d(2), of "''approved_waiver''"] w by simp
  have "dhas ''approved_waiver'' doc" using w(1) by (intro dget_nonnull_dhas) simp
  then have i: "ditem ''approved_waiver'' doc = Inr (JDict w)" using w(1) by (simp add: dhas_ditem)
  have "rmap (\<lambda>k. rbind (item k (JDict w)) (\<lambda>v. Inr (k, v))) WAIVER_EXCERPT
      = Inr (map (\<lambda>k. (k, dget k w)) WAIVER_EXCERPT)"
    using w(2) by (intro rmap_cong_pure) (simp add: dhas_ditem)
  moreover have "json_finite (JDict (map (\<lambda>k. (k, dget k w)) WAIVER_EXCERPT))"
    using json_finite_dget[OF fw] by (simp add: json_finite_dict list_all_iff del: json_finite.simps)
  ultimately show ?thesis
    using w(2) d(1) by (auto simp: waiver_evidence_def i dhas_ditem intro!: ok_evidence simp del: json_finite.simps)
qed

lemma ok_r4_loop:
  assumes "\<forall>d \<in> set docs. sound_document R d \<and> ok (parse_date (dget ''revision_date'' d))"
    and rev: "is_str (dget ''revision'' event)" and "list_all is_str (snd st)"
  shows "ok (r4_loop R' event a (map JDict docs) st)
    \<and> yields (\<lambda>r. ok (r4_verdict r)) (r4_loop R' event a (map JDict docs) st)"
  using assms(1,3)
proof (induction docs arbitrary: st)
  case Nil
  then show ?case by (cases st) (auto simp: r4_verdict_def)
next
  case (Cons d docs)
  from Cons.prems(1) obtain m rm where d: "sound_document R d" "validate_document R m rm d = Inr ()"
    "dhas ''document_id'' d" "json_finite (JDict d)" "ok (parse_date (dget ''revision_date'' d))"
    by (auto elim: sound_documentE)
  from validate_document_facts(7)[OF d(2)] obtain i where i: "ditem ''document_id'' d = Inr (JStr i)"
    using dhas_ditem[OF d(3)] by (auto elim: nonblank_strE)
  have "ok (evidence R' d l field_absent)" "ok (evidence R' d l (dget k d))" for l k
    using d(3) json_finite_dget[OF d(4)] by (auto simp: field_absent_def intro!: ok_evidence)
  moreover have stale: "ok (r4_stale R' event a d s)
      \<and> yields (\<lambda>t. list_all is_str (snd t)) (r4_stale R' event a d s)" if "list_all is_str (snd s)" for s
    using that ok_waiver[OF d(2), of event a] ok_waiver_evidence[OF d(1) _ rev, where a = a and R' = R']
    using d(3) by (auto simp: r4_stale_def i intro!: ok_intros yields_intros)
  moreover have "list_all is_str (snd t)"
    if "r4_stale R' event a d s = Inr t" "list_all is_str (snd s)" for s t
    using yieldsD[OF conjunct2[OF stale[OF that(2)]] that(1)] .
  ultimately have step: "ok (r4_document R' event a d st) \<and> yields (\<lambda>r. case r of Inl f \<Rightarrow> True
      | Inr t \<Rightarrow> list_all is_str (snd t)) (r4_document R' event a d st)"
    using d(5) Cons.prems(2) unfolding r4_document_def Let_def i
    by (auto intro!: ok_intros yields_intros)
  then obtain r where r: "r4_document R' event a d st = Inr r"
    "case r of Inl f \<Rightarrow> True | Inr t \<Rightarrow> list_all is_str (snd t)" by (auto elim!: okE)
  show ?case
    using Cons.IH[of st] Cons.IH[of "projr r"] Cons.prems r by (cases r) (auto simp: r4_verdict_def)
qed

lemma regular_documents_sound:
  assumes "validate_case R v = Inr ()" and "regular_case v" and "d \<in> set (documents_of v)"
  shows "sound_document R d"
  using validate_case_document[OF assms(1,3)] regular_finite_document[OF assms(1) _ assms(3)] assms(2,3)
  by (auto simp: sound_document_def regular_case_def list_all_iff)

lemma rule_revision_after_approval_total:
  assumes v: "validate_case R v = Inr ()" and r: "regular_case v"
  shows "ok (rule_revision_after_approval R (dict_of v) plan)"
proof -
  let ?ev = "event_of v"
  have event: "event_dict (dict_of v) = Inr ?ev"
    using validate_case_event(2)[OF v] by (simp add: event_dict_def)
  have date: "ok (parse_date (dget ''approved_at'' ?ev))" if "truthy (dget ''approved_at'' ?ev)"
  proof -
    have "dhas ''approved_at'' ?ev" using that by (intro dget_nonnull_dhas) auto
    then show ?thesis
      using validated_event[OF v] by (auto simp: validate_event_def check_simps parse_date_def elim!: nonblank_strE)
  qed
  have rev: "is_str (dget ''revision'' ?ev)"
    using validate_event_facts(6)[OF validated_event[OF v]] by (auto elim: nonblank_strE)
  have loop: "ok (r4_loop R ?ev a (map JDict (documents_of v)) ([], []))
    \<and> yields (\<lambda>r. ok (r4_verdict r)) (r4_loop R ?ev a (map JDict (documents_of v)) ([], []))" for a
    using regular_documents_sound[OF v r] validated_revision_date(2)[OF v]
    by (intro ok_r4_loop rev) auto
  show ?thesis
    unfolding rule_revision_after_approval_def event rbind_simps Let_def validate_case_documents(2)[OF v]
      iter.simps
    using date loop by (auto simp: field_absent_def intro!: ok_intros dest: yieldsD)
qed

section \<open>The approvals\<close>

lemma validate_approval_items_member:
  assumes "validate_approval_items i seen as = Inr ()" and "a \<in> set as"
  shows "is_str (dget ''role'' (dict_of a)) \<and> is_str (dget ''decision'' (dict_of a))"
  using assms by (induction as arbitrary: i seen) (auto simp: check_simps elim!: nonblank_strE str_inE)

lemma ok_r7_approvals:
  assumes "\<forall>a \<in> set current. is_str (dget ''role'' a) \<and> is_str (dget ''decision'' a) \<and> json_finite (JDict a)"
  shows "ok (r7_approvals R event current)"
proof -
  have "ok (hash_in (dget ''decision'' a) ss)" if "a \<in> set current" for a ss
    using assms that by (auto elim!: is_strE)
  moreover have "ok (approved_roles current)"
    using assms by (auto simp: approved_roles_def Let_def list_ex_iff dest: is_str_atomic)
  moreover have "json_finite (JList (map approval_excerpt current))"
    using assms json_finite_dget by (auto simp: approval_excerpt_def finite_list_iff list_all_iff)
  ultimately show ?thesis
    unfolding r7_approvals_def Let_def by (auto intro!: ok_intros simp del: json_finite.simps)
qed

lemma rule_high_risk_approval_total:
  assumes v: "validate_case R v = Inr ()" and r: "regular_case v"
  shows "ok (rule_high_risk_approval R (dict_of v) plan)"
proof -
  let ?ev = "event_of v" and ?as = "approval_list (event_of v)"
  have event: "event_dict (dict_of v) = Inr ?ev"
    using validate_case_event(2)[OF v] by (simp add: event_dict_def)
  have fin: "json_finite (JDict ?ev)" using r by (intro regular_finite_event[OF v]) (simp add: regular_case_def)
  obtain l where l: "dget ''risk_level'' ?ev = JStr l"
    using validate_event_facts(7)[OF validated_event[OF v]] by (auto elim!: str_inE)
  have ap: "validate_approvals (dget ''approvals'' ?ev) = Inr ()"
    using validated_event[OF v] by (simp add: validate_event_def)
  have current: "ok (rbind (iter (dget ''approvals'' ?ev)) (\<lambda>as.
      rbind (current_approvals ?ev as) (r7_approvals R ?ev)))" if t: "truthy (dget ''approvals'' ?ev)"
  proof -
    have "is_list (dget ''approvals'' ?ev)" "list_all is_dict (list_of (dget ''approvals'' ?ev))"
      and items: "validate_approval_items 0 [] (list_of (dget ''approvals'' ?ev)) = Inr ()"
      using ap t by (auto simp: validate_approvals_def check_simps)
    then have as: "dget ''approvals'' ?ev = JList (map JDict ?as)"
      using list_all_is_dict by (auto simp: approval_list_def elim!: is_listE)
    have "\<forall>a \<in> set ?as. is_str (dget ''role'' a) \<and> is_str (dget ''decision'' a)"
      using validate_approval_items_member[OF items] by (auto simp: approval_list_def)
    moreover have "\<forall>a \<in> set ?as. json_finite (JDict a)"
      using json_finite_dget[OF fin, of "''approvals''"] as by (auto simp: finite_list_iff list_all_iff)
    moreover have "rmap as_dict (map JDict ?as) = Inr ?as"
      by (simp add: rmap_Inr list.rel_map list.rel_refl)
    ultimately show ?thesis
      unfolding as by (auto simp: current_approvals_def intro!: ok_r7_approvals)
  qed
  show ?thesis
    using current by (auto simp: rule_high_risk_approval_def event Let_def l r7_single_def intro!: ok_intros)
qed

section \<open>The references of the inspection record\<close>

text \<open>
  The shape a sealed reference context has: both JSON texts are objects, and the evidence of a
  role is an object whose inspection part is one.
\<close>

definition good_reference_context :: "reference_context \<Rightarrow> bool" where
  "good_reference_context x \<longleftrightarrow> is_dict (rc_references x) \<and> is_dict (rc_evidence x)
     \<and> list_all (\<lambda>kv. is_dict (snd kv) \<and> is_dict (dget_or ''inspection'' (JDict []) (dict_of (snd kv))))
         (dict_of (rc_evidence x))"

lemma good_context_role:
  assumes "good_reference_context x" and "rc_evidence x = JDict se"
  obtains re ie where "as_dict (dget_or role (JDict []) se) = Inr re"
    and "as_dict (dget_or ''inspection'' (JDict []) re) = Inr ie"
proof (cases "map_of se role")
  case None
  then have "as_dict (dget_or role (JDict []) se) = Inr []" by (simp add: dget_or_def)
  then show thesis by (rule that) (simp add: dget_or_def)
next
  case (Some w)
  then have "(role, w) \<in> set se" by (rule map_of_SomeD)
  with assms obtain re ie where "w = JDict re" "dget_or ''inspection'' (JDict []) re = JDict ie"
    by (fastforce simp: good_reference_context_def list_all_iff elim!: is_dictE)
  with Some show thesis by (intro that[of re ie]) (simp_all add: dget_or_def)
qed

lemma ok_inspection_differs:
  assumes "good_reference_context x" and "rc_evidence x = JDict se"
  shows "ok (inspection_differs x se inspection)"
proof (cases se)
  case Nil
  then show ?thesis by (simp add: inspection_differs_def Let_def dget_or_def)
next
  case (Cons kv rest)
  with assms have "is_dict (snd kv)" "is_dict (dget_or ''inspection'' (JDict []) (dict_of (snd kv)))"
    by (simp_all add: good_reference_context_def)
  with Cons show ?thesis by (auto simp: inspection_differs_def Let_def elim!: is_dictE)
qed

lemma validated_reference:
  assumes "validate_document R m rm doc = Inr u" and "dget ''references'' (doc_fields doc) = JDict refs"
    and "\<not> keys_exactly [''LEGACY_UNATTESTED''] refs" and "dhas role refs"
  shows "is_dict (dget role refs)"
proof -
  from assms(4) obtain w where w: "map_of refs role = Some w" by (auto simp: dhas_iff)
  have "seq_checks (map (validate_reference_identity doc) refs) = Inr ()"
    using assms by (simp add: validate_document_def validate_references_def Let_def)
  moreover have "(role, w) \<in> set refs" using w by (rule map_of_SomeD)
  ultimately have "validate_reference_identity doc (role, w) = Inr ()" by (simp add: seq_checks_Inr)
  with w show ?thesis by (simp add: validate_reference_identity_def dget_def dget_or_def)
qed

lemma ok_r5_role:
  assumes "good_reference_context x" and "rc_evidence x = JDict se"
    and i: "sound_document R inspection" and t: "sound_document R target"
    and "dhas role refs" and "is_dict (dget role refs)" and "json_finite (JDict refs)"
  shows "ok (r5_role R' inspection refs sr se (role, target))"
proof -
  from assms(1,2) obtain re ie where e: "as_dict (dget_or role (JDict []) se) = Inr re"
    "as_dict (dget_or ''inspection'' (JDict []) re) = Inr ie" by (rule good_context_role)
  from assms(6) obtain w where w: "dget role refs = JDict w" by (rule is_dictE)
  have fw: "json_finite (dget k w)" for k
    using json_finite_dget[OF assms(7), of role] w by (intro json_finite_dget) simp
  from i t have d: "dhas ''document_id'' inspection" "dhas ''document_id'' target" "json_finite (JDict target)"
    by (auto elim: sound_documentE)
  show ?thesis
    using d(1,2) fw json_finite_dget[OF d(3)]
    by (auto simp: r5_role_def Let_def dhas_ditem[OF assms(5)] e w simp del: py_eq.simps
        intro!: ok_rbind ok_collect ok_evidence)
qed

lemma rule_inspection_current_references_total:
  assumes v: "validate_case R v = Inr ()" and r: "regular_case v"
    and ctx: "\<forall>x. ctx = Some x \<longrightarrow> rc_sealed x \<longrightarrow> good_reference_context x"
  shows "ok (rule_inspection_current_references R (dict_of v) plan ctx)"
proof -
  let ?i = "approved_document v ''INSPECTION_RECORD''"
  let ?s = "approved_document v ''SOP''" and ?c = "approved_document v ''CONTROL_PLAN''"
  have t: "''INSPECTION_RECORD'' \<in> set REQUIRED_DOCUMENT_TYPES" "''SOP'' \<in> set REQUIRED_DOCUMENT_TYPES"
    "''CONTROL_PLAN'' \<in> set REQUIRED_DOCUMENT_TYPES" by (simp_all add: REQUIRED_DOCUMENT_TYPES_def)
  note doc = approved_document_valid[OF v t(1)]
  note sound = approved_sound[OF v r t(1)] approved_sound[OF v r t(2)] approved_sound[OF v r t(3)]
  from sound(1) have i: "dhas ''document_id'' ?i" "json_finite (JDict (doc_fields ?i))"
    by (auto elim: sound_documentE)
  have flds: "as_dict (dget_or ''fields'' (JDict []) ?i) = Inr (doc_fields ?i)"
    using validate_document_facts(3,10)[OF doc] by (simp add: dget_or_dget)
  have single: "ok (r5_single R ?i s l w rem acc)" if "json_finite w" for s l w rem acc
    using i(1) that by (auto simp: r5_single_def intro!: ok_rbind ok_evidence)
  have sealed: "ok (r5_sealed R x ?i ?s ?c refs)"
    if x: "ctx = Some x" "rc_sealed x" and refs: "dget ''references'' (doc_fields ?i) = JDict refs"
      "\<not> keys_exactly [''LEGACY_UNATTESTED''] refs" "dhas ''SOP'' refs" "dhas ''CONTROL_PLAN'' refs"
    for x refs
  proof -
    from ctx x have good: "good_reference_context x" by simp
    then obtain sr se where c: "rc_references x = JDict sr" "rc_evidence x = JDict se"
      by (auto simp: good_reference_context_def elim!: is_dictE)
    have f: "json_finite (JDict refs)" using json_finite_dget[OF i(2), of "''references''"] refs(1) by simp
    have "ok (r5_role R ?i refs sr se rt)" if "rt \<in> set [(''SOP'', ?s), (''CONTROL_PLAN'', ?c)]" for rt
      using that validated_reference[OF doc refs(1,2)] refs(3,4) f
      by (auto intro!: ok_r5_role[OF good c(2) sound(1)] sound(2,3))
    then show ?thesis
      unfolding r5_sealed_def context_references_def context_evidence_def c Let_def json.case rbind_simps
      by (intro ok_rbind ok_inspection_differs[OF good c(2)] ok_rmap) simp_all
  qed
  have "ok (r5_references R ctx ?i ?s ?c)"
  proof (cases "dget ''references'' (doc_fields ?i)")
    case (JDict refs)
    have f: "json_finite (JDict refs)" using json_finite_dget[OF i(2), of "''references''"] JDict by simp
    have final: "ok (r5_sealed R (the ctx) ?i ?s ?c refs)"
      if l: "\<not> keys_exactly [''LEGACY_UNATTESTED''] refs"
        and "\<not> filter (\<lambda>k. \<not> dhas k refs) [''CONTROL_PLAN'', ''SOP''] \<noteq> []"
        and "\<not> \<not> is_sealed_reference_context ctx"
    proof -
      from that(3) obtain x where x: "ctx = Some x" "rc_sealed x"
        by (cases ctx) (simp_all add: is_sealed_reference_context_def)
      from that(2) have "dhas ''SOP'' refs" "dhas ''CONTROL_PLAN'' refs" by (simp_all split: if_splits)
      from sealed[OF x JDict l this] x(1) show ?thesis by simp
    qed
    have legacy: "json_finite (dget ''LEGACY_UNATTESTED'' refs)" by (rule json_finite_dget[OF f])
    show ?thesis
      by (simp only: r5_references_def flds rbind_simps JDict json.case Let_def)
        (rule ok_if, rule single[OF legacy], rule ok_if, rule single[OF f], rule ok_if,
          rule single[OF f], rule final; assumption)
  qed (simp_all add: r5_references_def flds single field_absent_def)
  moreover obtain ts where ts: "all_document_types (dict_of v) = Inr ts" "json_finite ts"
    by (rule all_document_types_total[OF v]) (use r in \<open>simp_all add: regular_case_def\<close>)
  then have "ok (rbind (all_document_types (dict_of v)) (\<lambda>ts.
       rbind (case_evidence R ''documents[*].document_type'' ts) (\<lambda>e.
       Inr (r5_finding UNVERIFIABLE r5_text2 [e] ''MEDIUM'' [] []))))"
    by (simp only: rbind_simps) (rule ok_rbind[OF ok_case_evidence], simp_all)
  ultimately show ?thesis
    unfolding rule_inspection_current_references_def approved_document_found(1)[OF v t(1)]
      approved_document_found(1)[OF v t(2)] approved_document_found(1)[OF v t(3)] rbind_simps option.sel
    by (intro ok_if)
qed

end
