(* ===== verification/Canonical_Total.thy ===== *)
theory Canonical_Total
  imports Rules_Total
begin

text \<open>
  The canonical hash of a regular case never raises: every array is sorted by a key that is a
  text, and the projection of a finite case is finite.
\<close>

section \<open>Finite values\<close>

lemma json_finite_dset:
  "json_finite (JDict d) \<Longrightarrow> json_finite v \<Longrightarrow> json_finite (JDict (dset k v d))"
  by (induction k v d rule: dset.induct) auto

definition sort_ok :: "string \<Rightarrow> (json \<Rightarrow> bool) \<Rightarrow> (json \<Rightarrow> 'k res) \<Rightarrow> dict \<Rightarrow> bool" where
  "sort_ok key expected k d \<longleftrightarrow>
     (list_all expected (list_of (dget key d)) \<longrightarrow> list_all (\<lambda>v. ok (k v)) (list_of (dget key d)))"

lemma ok_sort_member:
  assumes "sort_ok key expected k d"
  shows "ok (sort_member key expected k d)"
  using assms
  by (auto simp: sort_member_def sort_ok_def list_all_iff intro!: ok_intros split: json.split)

lemma sort_member_result:
  assumes "sort_member key expected k d = Inr d'"
  shows "json_finite (JDict d) \<Longrightarrow> json_finite (JDict d')"
    and "key' \<noteq> key \<Longrightarrow> dget key' d' = dget key' d"
proof -
  have "(json_finite (JDict d) \<longrightarrow> json_finite (JDict d')) \<and> (key' \<noteq> key \<longrightarrow> dget key' d' = dget key' d)"
  proof (cases "\<exists>xs. dget key d = JList xs \<and> list_all expected xs")
    case False
    with assms show ?thesis by (auto simp: sort_member_def split: json.splits if_splits)
  next
    case True
    then obtain xs where xs: "dget key d = JList xs" "list_all expected xs" by blast
    with assms obtain ys where ys: "rsort_by k xs = Inr ys" "d' = dset key (JList ys) d"
      by (auto simp: sort_member_def rbind_Inr_iff)
    from rsort_by_Inr[OF ys(1)] have "set ys = set xs" by auto
    then have "json_finite (JDict d) \<Longrightarrow> json_finite (JList ys)"
      using json_finite_dget[of d key] xs(1) by (auto simp: finite_list_iff list_all_iff)
    with ys(2) show ?thesis
      by (auto simp del: json_finite.simps intro: json_finite_dset)
  qed
  then show "json_finite (JDict d) \<Longrightarrow> json_finite (JDict d')"
    "key' \<noteq> key \<Longrightarrow> dget key' d' = dget key' d" by blast+
qed

text \<open>One sorted member of a finite dictionary, and what it leaves alone.\<close>

lemma sort_memberE:
  assumes "sort_ok key expected k d" and "json_finite (JDict d)"
  obtains d' where "sort_member key expected k d = Inr d'" and "json_finite (JDict d')"
    and "\<forall>key'. key' \<noteq> key \<longrightarrow> dget key' d' = dget key' d"
proof -
  from ok_sort_member[OF assms(1)] obtain d' where d': "sort_member key expected k d = Inr d'" by (rule okE)
  show thesis
    by (rule that[OF d' sort_member_result(1)[OF d' assms(2)]]) (simp add: sort_member_result(2)[OF d'])
qed

lemma sort_ok_cong: "dget key d' = dget key d \<Longrightarrow> sort_ok key e k d' = sort_ok key e k d"
  by (simp add: sort_ok_def)

lemma sort_ok_texts: "sort_ok key is_str (identity_of R) d"
  by (auto simp: sort_ok_def list_all_iff elim!: is_strE)

lemma ok_item_identity: "text_if_present key v \<Longrightarrow> ok (item_identity R key v)"
  by (auto simp: item_identity_def text_if_present_def dget_or_dget elim!: is_strE)

lemma nonblank_is_str: "nonblank_str v \<Longrightarrow> is_str v"
  by (auto elim: nonblank_strE)

lemma nonblank_text_if_present: "nonblank_str (dget key (dict_of v)) \<Longrightarrow> text_if_present key v"
  by (auto simp: text_if_present_def elim: nonblank_strE)

section \<open>The event\<close>

lemma validate_links_member:
  assumes "validate_links R sk ck i seen ls = Inr ()" and "l \<in> set ls"
  shows "nonblank_str (dget ''process_step_id'' (dict_of l))"
    and "nonblank_str (dget ''characteristic_id'' (dict_of l))"
  using assms by (induction ls arbitrary: i seen) (auto simp: check_simps)

lemma validate_approval_items_subject:
  assumes "validate_approval_items i seen as = Inr ()" and "a \<in> set as"
  shows "nonblank_str (dget ''role'' (dict_of a))" and "nonblank_str (dget ''event_revision'' (dict_of a))"
  using assms by (induction as arbitrary: i seen) (auto simp: check_simps)

lemma check_all_memberE:
  "check_all f xs = Inr () \<Longrightarrow> x \<in> set xs \<Longrightarrow> (\<And>i. f i x = Inr () \<Longrightarrow> P) \<Longrightarrow> P"
  by (erule check_all_InrD)

lemma event_sorts:
  assumes "validate_event R vm (JDict event) = Inr ()"
  shows "sort_ok ''affected_links'' is_dict (item_pair R) event"
    and "sort_ok ''approvals'' is_dict (approval_key R) event"
    and "sort_ok ''validation_evidence'' is_dict (item_identity R ''evidence_id'') event"
    and "sort_ok ''required_evidence'' is_dict (requirement_key R) (dict_of (dget ''validation_plan'' event))"
proof -
  note id = ok_item_identity[OF nonblank_text_if_present]
  have links: "validate_links R (identities R (dget ''affected_process_steps'' event))
      (identities R (dget ''affected_characteristics'' event)) 0 [] (list_of (dget ''affected_links'' event)) = Inr ()"
    if "dget ''affected_links'' event \<noteq> JNull"
    using assms that by (simp add: validate_event_def validate_affected_links_def)
  have "ok (item_pair R l)" if "l \<in> set (list_of (dget ''affected_links'' event))" for l
  proof -
    from that have "dget ''affected_links'' event \<noteq> JNull" by auto
    note m = validate_links_member[OF links[OF this] that]
    show ?thesis by (auto simp: item_pair_def intro!: ok_rbind id m)
  qed
  then show "sort_ok ''affected_links'' is_dict (item_pair R) event"
    by (simp add: sort_ok_def list_all_iff)
  have "ok (approval_key R a)" if "a \<in> set (list_of (dget ''approvals'' event))" for a
  proof -
    from that have "dget ''approvals'' event \<noteq> JNull" by auto
    then have "validate_approval_items 0 [] (list_of (dget ''approvals'' event)) = Inr ()"
      using assms by (simp add: validate_event_def validate_approvals_def)
    note m = validate_approval_items_subject[OF this that]
    show ?thesis by (auto simp: approval_key_def intro!: ok_rbind id m)
  qed
  then show "sort_ok ''approvals'' is_dict (approval_key R) event"
    by (simp add: sort_ok_def list_all_iff)
  have "ok (item_identity R ''evidence_id'' e)" if "e \<in> set (list_of (dget ''validation_evidence'' event))" for e
  proof -
    from that have "dget ''validation_evidence'' event \<noteq> JNull" by auto
    then have "check_all validate_evidence_item (list_of (dget ''validation_evidence'' event)) = Inr ()"
      using assms by (simp add: validate_event_def validate_validation_evidence_def)
    then show ?thesis using that
      by (rule check_all_memberE) (auto simp: validate_evidence_item_def check_simps intro: id)
  qed
  then show "sort_ok ''validation_evidence'' is_dict (item_identity R ''evidence_id'') event"
    by (simp add: sort_ok_def list_all_iff)
  let ?plan = "dget ''validation_plan'' event"
  have "ok (requirement_key R r)" if "r \<in> set (list_of (dget ''required_evidence'' (dict_of ?plan)))" for r
  proof -
    from that have "?plan \<noteq> JNull" by (auto simp: dget_def dget_or_def)
    then have "check_all validate_requirement (list_of (dget ''required_evidence'' (dict_of ?plan))) = Inr ()"
      using assms by (simp add: validate_event_def validate_validation_plan_def)
    then have "nonblank_str (dget ''evidence_id'' (dict_of r))" using that
      by (rule check_all_memberE) (simp add: validate_requirement_def check_simps REQUIREMENT_KEYS_def)
    then show ?thesis by (auto simp: requirement_key_def intro!: ok_rbind id)
  qed
  then show "sort_ok ''required_evidence'' is_dict (requirement_key R) (dict_of ?plan)"
    by (simp add: sort_ok_def list_all_iff)
qed

lemma project_plan_total:
  assumes "sort_ok ''required_evidence'' is_dict (requirement_key R) (dict_of (dget ''validation_plan'' e))"
    and "json_finite (JDict e)"
  obtains e' where "project_plan R e = Inr e'" and "json_finite (JDict e')"
proof (cases "dget ''validation_plan'' e")
  case (JDict plan)
  have "json_finite (JDict plan)" using json_finite_dget[OF assms(2), of "''validation_plan''"] JDict by simp
  moreover have "sort_ok ''required_evidence'' is_dict (requirement_key R) plan" using assms(1) JDict by simp
  ultimately obtain p where
    p: "sort_member ''required_evidence'' is_dict (requirement_key R) plan = Inr p" "json_finite (JDict p)"
    by (blast elim: sort_memberE)
  show thesis
    by (rule that[of "dset ''validation_plan'' (JDict p) e"])
      (use JDict p json_finite_dset[OF assms(2)] in \<open>simp_all add: project_plan_def\<close>)
qed (use that[of e] assms(2) in \<open>simp_all add: project_plan_def\<close>)

lemma project_event_total:
  assumes "validate_event R vm (JDict event) = Inr ()" and "json_finite (JDict event)"
  obtains e where "project_event R event = Inr e" and "json_finite (JDict e)"
proof -
  note s = event_sorts[OF assms(1)]
  obtain e1 where
    e1: "sort_member ''affected_process_steps'' is_str (identity_of R) event = Inr e1" "json_finite (JDict e1)"
      "\<forall>k. k \<noteq> ''affected_process_steps'' \<longrightarrow> dget k e1 = dget k event"
    by (rule sort_memberE[OF sort_ok_texts[of "''affected_process_steps''" R event] assms(2)])
  obtain e2 where
    e2: "sort_member ''affected_characteristics'' is_str (identity_of R) e1 = Inr e2" "json_finite (JDict e2)"
      "\<forall>k. k \<noteq> ''affected_characteristics'' \<longrightarrow> dget k e2 = dget k e1"
    by (rule sort_memberE[OF sort_ok_texts[of "''affected_characteristics''" R e1] e1(2)])
  have "sort_ok ''affected_links'' is_dict (item_pair R) e2"
    using s(1) by (simp add: sort_ok_def e1(3) e2(3))
  note this_sort = this
  obtain e3 where
    e3: "sort_member ''affected_links'' is_dict (item_pair R) e2 = Inr e3" "json_finite (JDict e3)"
      "\<forall>k. k \<noteq> ''affected_links'' \<longrightarrow> dget k e3 = dget k e2"
    by (rule sort_memberE[OF this_sort e2(2)])
  have "sort_ok ''approvals'' is_dict (approval_key R) e3"
    using s(2) by (simp add: sort_ok_def e1(3) e2(3) e3(3))
  note this_sort = this
  obtain e4 where
    e4: "sort_member ''approvals'' is_dict (approval_key R) e3 = Inr e4" "json_finite (JDict e4)"
      "\<forall>k. k \<noteq> ''approvals'' \<longrightarrow> dget k e4 = dget k e3"
    by (rule sort_memberE[OF this_sort e3(2)])
  have "sort_ok ''validation_evidence'' is_dict (item_identity R ''evidence_id'') e4"
    using s(3) by (simp add: sort_ok_def e1(3) e2(3) e3(3) e4(3))
  note this_sort = this
  obtain e5 where
    e5: "sort_member ''validation_evidence'' is_dict (item_identity R ''evidence_id'') e4 = Inr e5"
      "json_finite (JDict e5)"
      "\<forall>k. k \<noteq> ''validation_evidence'' \<longrightarrow> dget k e5 = dget k e4"
    by (rule sort_memberE[OF this_sort e4(2)])
  have "sort_ok ''required_evidence'' is_dict (requirement_key R) (dict_of (dget ''validation_plan'' e5))"
    using s(4) by (simp add: e1(3) e2(3) e3(3) e4(3) e5(3))
  from project_plan_total[OF this e5(2)] obtain e6 where "project_plan R e5 = Inr e6" "json_finite (JDict e6)" .
  with that[of e6] show thesis by (simp add: project_event_def e1(1) e2(1) e3(1) e4(1) e5(1))
qed

section \<open>The documents\<close>

lemma row_ids_text:
  assumes "validate_document R m rm doc = Inr ()" and "v \<in> set (rows_of collection doc)"
    and "collection \<in> {''characteristics'', ''risks''}"
  shows "is_str (dget ''characteristic_id'' (dict_of v))"
  using validated_rows(2)[OF assms(1,3)] assms(2) by (simp add: list_all_iff good_row_def)

lemma validate_risk_items_mode:
  assumes "validate_risk_items R doc legacy step_keys i seen rs = Inr ()" and "r \<in> set rs"
  shows "nonblank_str (dget ''failure_mode_id'' (dict_of r))"
  using assms by (induction rs arbitrary: i seen) (auto simp: check_simps)

lemma document_sorts:
  assumes d: "validate_document R m rm doc = Inr ()" and t: "textual_rows doc"
  shows "sort_ok ''characteristics'' is_dict (row_key R ''control_id'') (doc_fields doc)"
    and "sort_ok ''risks'' is_dict (row_key R ''failure_mode_id'') (doc_fields doc)"
proof -
  have "ok (row_key R ''control_id'' v)" if "v \<in> set (rows_of ''characteristics'' doc)" for v
  proof -
    have "text_if_present ''process_step_id'' v" "text_if_present ''control_id'' v"
      using t that by (simp_all add: textual_rows_def list_all_iff)
    moreover have "text_if_present ''characteristic_id'' v"
      using row_ids_text[OF d that] by (simp add: text_if_present_def)
    ultimately show ?thesis by (auto simp: row_key_def item_pair_def intro!: ok_rbind ok_item_identity)
  qed
  then show "sort_ok ''characteristics'' is_dict (row_key R ''control_id'') (doc_fields doc)"
    by (simp add: sort_ok_def list_all_iff rows_of_def)
  have items: "validate_risk_items R doc (m \<noteq> JNull) (step_identities R doc) 0 [] (rows_of ''risks'' doc) = Inr ()"
    using d validated_rows(3)[OF d, of "''risks''"]
    by (simp add: validate_document_def validate_risks_def Let_def)
  have "ok (row_key R ''failure_mode_id'' v)" if "v \<in> set (rows_of ''risks'' doc)" for v
  proof -
    have "text_if_present ''process_step_id'' v"
      using t that by (simp add: textual_rows_def list_all_iff)
    moreover have "text_if_present ''characteristic_id'' v"
      using row_ids_text[OF d that] by (simp add: text_if_present_def)
    moreover have "text_if_present ''failure_mode_id'' v"
      using validate_risk_items_mode[OF items that] by (rule nonblank_text_if_present)
    ultimately show ?thesis by (auto simp: row_key_def item_pair_def intro!: ok_rbind ok_item_identity)
  qed
  then show "sort_ok ''risks'' is_dict (row_key R ''failure_mode_id'') (doc_fields doc)"
    by (simp add: sort_ok_def list_all_iff rows_of_def)
qed

lemma project_document_total:
  assumes d: "validate_document R m rm doc = Inr ()" and t: "textual_rows doc" and f: "json_finite (JDict doc)"
  obtains w where "project_document R (JDict doc) = Inr w" and "json_finite w"
proof -
  note s = document_sorts[OF d t] and flds = validate_document_facts(10)[OF d]
  have fin: "json_finite (JDict (doc_fields doc))" using json_finite_dget[OF f, of "''fields''"] flds by simp
  obtain f1 where
    f1: "sort_member ''process_steps'' is_str (identity_of R) (doc_fields doc) = Inr f1" "json_finite (JDict f1)"
      "\<forall>k. k \<noteq> ''process_steps'' \<longrightarrow> dget k f1 = dget k (doc_fields doc)"
    by (rule sort_memberE[OF sort_ok_texts[of "''process_steps''" R "doc_fields doc"] fin])
  have "sort_ok ''characteristics'' is_dict (row_key R ''control_id'') f1"
    using s(1) by (simp add: sort_ok_def f1(3))
  note this_sort = this
  obtain f2 where
    f2: "sort_member ''characteristics'' is_dict (row_key R ''control_id'') f1 = Inr f2" "json_finite (JDict f2)"
      "\<forall>k. k \<noteq> ''characteristics'' \<longrightarrow> dget k f2 = dget k f1"
    by (rule sort_memberE[OF this_sort f1(2)])
  have "sort_ok ''risks'' is_dict (row_key R ''failure_mode_id'') f2"
    using s(2) by (simp add: sort_ok_def f1(3) f2(3))
  note this_sort = this
  obtain f3 where
    f3: "sort_member ''risks'' is_dict (row_key R ''failure_mode_id'') f2 = Inr f3" "json_finite (JDict f3)"
    by (rule sort_memberE[OF this_sort f2(2)])
  show thesis
    by (rule that[of "JDict (dset ''fields'' (JDict f3) doc)"])
      (use f3(2) json_finite_dset[OF f] in
        \<open>simp_all add: project_document_def flds project_fields_def f1(1) f2(1) f3(1)\<close>)
qed

section \<open>The case\<close>

lemma canonical_payload_total:
  assumes v: "validate_case R v = Inr ()" and r: "regular_case v"
  shows "ok (canonical_payload R v)"
proof -
  obtain c where c: "v = JDict c" using validate_case_header_facts(1)[OF v] by (rule is_dictE)
  have fin: "json_finite (JDict c)" using r c by (simp add: regular_case_def)
  obtain e where e: "project_event R (event_of v) = Inr e" "json_finite (JDict e)"
    using project_event_total[OF validated_event[OF v] regular_finite_event[OF v]] r
    by (auto simp: regular_case_def)
  let ?c1 = "dset ''event'' (JDict e) c"
  have c1: "project_case_event R c = Inr ?c1"
    using validate_case_event(1)[OF v] e(1) by (simp add: project_case_event_def c)
  have f1: "json_finite (JDict ?c1)" using fin e(2) by (rule json_finite_dset)
  have docs: "dget ''documents'' ?c1 = JList (map JDict (documents_of v))"
    using validate_case_documents(1)[OF v] by (simp add: c)
  have key: "item_identity R ''document_id'' d
      = Inr (normalized_identity R (str_of (dget ''document_id'' (dict_of d))))"
    if "d \<in> set (map JDict (documents_of v))" for d
  proof -
    from that obtain doc where doc: "d = JDict doc" "doc \<in> set (documents_of v)" by auto
    note f = validate_document_facts(1,7)[OF validate_case_document[OF v doc(2)]]
    show ?thesis using item_identity_dict[OF f(1) nonblank_is_str[OF f(2)]] doc(1) by simp
  qed
  obtain ds where ds: "rsort_by (item_identity R ''document_id'') (map JDict (documents_of v)) = Inr ds"
    "set ds = set (map JDict (documents_of v))"
    by (rule that[OF rsort_by_pure]) (use key in \<open>blast, simp\<close>)
  have "\<exists>w. project_document R d = Inr w \<and> json_finite w" if "d \<in> set ds" for d
  proof -
    from that ds(2) obtain doc where doc: "d = JDict doc" "doc \<in> set (documents_of v)" by auto
    have "textual_rows doc" "json_finite (JDict doc)"
      using r doc(2) regular_finite_document[OF v _ doc(2)] by (auto simp: regular_case_def list_all_iff)
    from project_document_total[OF validate_case_document[OF v doc(2)] this] doc(1) show ?thesis by metis
  qed
  then obtain g where "\<And>d. d \<in> set ds \<Longrightarrow> project_document R d = Inr (g d) \<and> json_finite (g d)" by metis
  then have "rmap (project_document R) ds = Inr (map g ds)" "json_finite (JList (map g ds))"
    by (auto intro: rmap_cong_pure simp: finite_list_iff list_all_iff)
  moreover have "list_all is_dict (map JDict (documents_of v))" by (simp add: list_all_iff)
  ultimately have "canonical_case_projection R c = Inr (dset ''documents'' (JList (map g ds)) ?c1)"
    "json_finite (JDict (dset ''documents'' (JList (map g ds)) ?c1))"
    using c1 docs ds(1) json_finite_dset[OF f1]
    by (simp_all add: canonical_case_projection_def project_documents_def del: json_finite.simps)
  then show ?thesis using canonical_payload_valid[OF v] by (simp add: c json_dumps_def)
qed

lemma canonical_hash_total:
  assumes "validate_case R v = Inr ()" and "regular_case v"
  obtains h where "canonical_hash R v = Inr h" and "is_lower_sha h"
proof -
  from canonical_payload_total[OF assms] obtain t where "canonical_payload R v = Inr t" by (rule okE)
  then have h: "canonical_hash R v = Inr (sha256_hex t)" by (simp add: canonical_hash_def)
  show thesis by (rule that[OF h canonical_hash_lower[OF h]])
qed

end
