(* ===== verification/Gates_Total.thy ===== *)
theory Gates_Total
  imports Canonical_Total
begin

text \<open>
  The rule on validation evidence (QCI-R006) never raises either, given a context of the shape
  the sealing constructor produces.
\<close>

definition REPORT_ITEMS :: "string list" where
  "REPORT_ITEMS =
     [''result'', ''event_id'', ''event_revision'', ''scope_digest'', ''case_subject_hash'',
      ''issuer_id'', ''issued_at'', ''performed_at'', ''evidence_type'', ''claim'', ''issuer_role'',
      ''ruleset_version'', ''case_schema_version'', ''source_id'', ''locator'', ''source_hash'',
      ''evidence_id'']"

definition good_report :: "json \<Rightarrow> bool" where
  "good_report v \<longleftrightarrow> is_dict v \<and> json_finite v \<and> has_keys REPORT_ITEMS (dict_of v)
     \<and> is_str (dget ''evidence_id'' (dict_of v))
     \<and> ok (parse_utc (dget ''performed_at'' (dict_of v)))
     \<and> ok (parse_utc (dget ''issued_at'' (dict_of v)))"

definition good_validation_context :: "validation_context \<Rightarrow> bool" where
  "good_validation_context x \<longleftrightarrow> is_list (vc_reports x) \<and> list_all good_report (list_of (vc_reports x))"

lemma good_context_reports:
  assumes "good_validation_context x"
  obtains ds where "context_reports x = Inr ds" and "rmap report_item ds = Inr (context_report_items x)"
    and "\<forall>kd \<in> set (context_report_items x). good_report (JDict (snd kd))"
proof -
  from assms obtain vs where vs: "vc_reports x = JList vs" "list_all good_report vs"
    by (auto simp: good_validation_context_def elim!: is_listE)
  then have "list_all is_dict vs" by (auto simp: list_all_iff good_report_def)
  with vs(1) have ds: "context_reports x = Inr (map dict_of vs)" by (simp add: context_reports_def)
  have "report_item d = Inr (str_of (dget ''evidence_id'' d), d)" if "d \<in> set (map dict_of vs)" for d
  proof -
    from that vs(2) have "has_keys REPORT_ITEMS d" "is_str (dget ''evidence_id'' d)"
      by (auto simp: good_report_def list_all_iff)
    then show ?thesis by (auto simp: report_item_def REPORT_ITEMS_def has_keys_iff dhas_ditem elim!: is_strE)
  qed
  then have "rmap report_item (map dict_of vs)
      = Inr (map (\<lambda>d. (str_of (dget ''evidence_id'' d), d)) (map dict_of vs))"
    by (rule rmap_cong_pure)
  then have "rmap report_item (map dict_of vs) = Inr (context_report_items x)"
    using vs(1) by (simp add: context_report_items_def comp_def)
  moreover have "\<forall>kd \<in> set (context_report_items x). good_report (JDict (snd kd))"
    using vs by (auto simp: context_report_items_def list_all_iff good_report_def elim!: is_dictE)
  ultimately show thesis by (rule that[OF ds])
qed

lemma last_of_member: "k \<in> set (map fst ps) \<Longrightarrow> last_of ps k \<in> snd ` set ps"
proof -
  assume "k \<in> set (map fst ps)"
  then have "map_of (rev ps) k \<noteq> None" by (simp add: map_of_eq_None_iff)
  then obtain d where d: "map_of (rev ps) k = Some d" by blast
  then have "(k, d) \<in> set ps" by (auto dest: map_of_SomeD)
  with d show ?thesis by (force simp: last_of_def)
qed

text \<open>A requirement of a validated plan.\<close>

definition good_requirement :: "dict \<Rightarrow> bool" where
  "good_requirement d \<longleftrightarrow> has_keys REQUIREMENT_KEYS d
     \<and> ok (parse_utc (dget ''valid_from'' d)) \<and> ok (parse_utc (dget ''valid_until'' d))"

lemma parse_utc_rfc3339: "parse_rfc3339_utc v label = Inr t \<Longrightarrow> parse_utc v = Inr t"
  by (auto simp: parse_rfc3339_utc_Inr parse_utc_def)

lemma validate_requirement_good:
  assumes "validate_requirement i v = Inr ()"
  shows "good_requirement (dict_of v)"
proof -
  have "keys_exactly REQUIREMENT_KEYS (dict_of v)"
    using assms unfolding validate_requirement_def seq_checks_Cons_Inr require_Inr by blast
  moreover have "ok (parse_utc (dget ''valid_from'' (dict_of v)))" "ok (parse_utc (dget ''valid_until'' (dict_of v)))"
    using assms unfolding validate_requirement_def seq_checks_Cons_Inr rbind_Inr_iff ok_iff
    by (blast dest: parse_utc_rfc3339)+
  ultimately show ?thesis by (simp add: good_requirement_def keys_exactly_has_keys)
qed

lemma plan_requirements_good:
  assumes "validate_case R v = Inr ()" and "dget ''validation_plan'' (event_of v) = JDict vp"
  shows "\<forall>kd \<in> set (plan_requirements (event_of v)). good_requirement (snd kd)"
proof -
  have "check_all validate_requirement (list_of (dget ''required_evidence'' vp)) = Inr ()"
    using validated_event[OF assms(1)] assms(2)
    by (simp add: validate_event_def validate_validation_plan_def)
  then have "\<forall>r \<in> set (list_of (dget ''required_evidence'' vp)). good_requirement (dict_of r)"
    using validate_requirement_good by (blast elim: check_all_memberE)
  then show ?thesis by (auto simp: plan_requirements_def requirement_items_def assms(2))
qed

lemma report_has: "good_report (JDict d) \<Longrightarrow> k \<in> set REPORT_ITEMS \<Longrightarrow> ditem k d = Inr (dget k d)"
  by (auto simp: good_report_def has_keys_iff intro: dhas_ditem)

lemma requirement_has: "good_requirement d \<Longrightarrow> k \<in> set REQUIREMENT_KEYS \<Longrightarrow> ditem k d = Inr (dget k d)"
  by (auto simp: good_requirement_def has_keys_iff intro: dhas_ditem)

lemma ok_report_evidence:
  assumes "good_report (JDict d)"
  shows "ok (report_evidence R event k d)"
proof -
  have f: "json_finite (JDict d)" using assms by (simp add: good_report_def)
  have "rmap (\<lambda>k. rbind (ditem k d) (\<lambda>v. Inr (k, v)))
      [''result'', ''event_id'', ''event_revision'', ''scope_digest'', ''case_subject_hash'',
        ''issuer_id'', ''issued_at'']
    = Inr (map (\<lambda>k. (k, dget k d)) [''result'', ''event_id'', ''event_revision'', ''scope_digest'',
        ''case_subject_hash'', ''issuer_id'', ''issued_at''])"
    by (rule rmap_cong_pure) (auto simp: report_has[OF assms] REPORT_ITEMS_def)
  then have x: "report_excerpt k d = Inr (JDict ((''evidence_id'', JStr k) # map (\<lambda>k. (k, dget k d))
      [''result'', ''event_id'', ''event_revision'', ''scope_digest'', ''case_subject_hash'',
        ''issuer_id'', ''issued_at'']))"
    by (simp only: report_excerpt_def rbind_simps)
  have i: "ditem ''source_id'' d = Inr (dget ''source_id'' d)" "ditem ''locator'' d = Inr (dget ''locator'' d)"
    "ditem ''source_hash'' d = Inr (dget ''source_hash'' d)"
    by (simp_all add: report_has[OF assms] REPORT_ITEMS_def)
  show ?thesis
    unfolding report_evidence_def x i rbind_simps
    by (intro ok_rbind ok_stable_excerpt) (simp_all add: json_finite_dget[OF f])
qed

lemma ok_r6_report:
  assumes v: "validate_case R v = Inr ()" and q: "good_requirement (last_of qs k)"
    and p: "good_report (JDict (last_of ps k))"
  shows "ok (r6_report R' (dict_of v) (event_of v) x qs ps k)"
proof -
  note ev = validate_event_facts(1,2)[OF validated_event[OF v]]
  have "comparisons (dict_of v) (event_of v) x (last_of qs k) (last_of ps k) =
      rmap (\<lambda>r. r) (map Inr (map (\<lambda>cvw. (fst cvw, py_eq (fst (snd cvw)) (snd (snd cvw)))) (
     [(''RESULT_NOT_PASS'', dget ''result'' (last_of ps k), JStr ''PASS''),
      (''EVENT_ID_MISMATCH'', dget ''event_id'' (last_of ps k), dget ''event_id'' (event_of v)),
      (''EVENT_REVISION_MISMATCH'', dget ''event_revision'' (last_of ps k), dget ''revision'' (event_of v)),
      (''SCOPE_DIGEST_MISMATCH'', dget ''scope_digest'' (last_of ps k), JStr (vc_scope_digest x)),
      (''CASE_SUBJECT_MISMATCH'', dget ''case_subject_hash'' (last_of ps k), JStr (vc_case_subject_hash x)),
      (''EVIDENCE_TYPE_MISMATCH'', dget ''evidence_type'' (last_of ps k), dget ''evidence_type'' (last_of qs k)),
      (''CLAIM_MISMATCH'', dget ''claim'' (last_of ps k), dget ''claim'' (last_of qs k)),
      (''ISSUER_ID_MISMATCH'', dget ''issuer_id'' (last_of ps k), dget ''issuer_id'' (last_of qs k)),
      (''ISSUER_ROLE_MISMATCH'', dget ''issuer_role'' (last_of ps k), dget ''issuer_role'' (last_of qs k)),
      (''RULESET_VERSION_MISMATCH'', dget ''ruleset_version'' (last_of ps k), JStr RULESET_VERSION),
      (''CASE_SCHEMA_VERSION_MISMATCH'', dget ''case_schema_version'' (last_of ps k),
        dget ''schema_version'' (dict_of v))])))"
    using validate_case_header_facts(7)[OF v] ev
    by (simp add: comparisons_def compare_items_def report_has[OF p] requirement_has[OF q] REPORT_ITEMS_def
        REQUIREMENT_KEYS_def dhas_ditem del: py_eq.simps)
  then have "ok (comparisons (dict_of v) (event_of v) x (last_of qs k) (last_of ps k))"
    by (simp only: rmap_pure ok_rmap[of "map Inr xs" for xs] ok_simps) (rule ok_rmap, auto)
  moreover have "ok (in_time_window (last_of qs k) (last_of ps k))"
    using p q by (simp add: in_time_window_def report_has[OF p] requirement_has[OF q] REPORT_ITEMS_def
        REQUIREMENT_KEYS_def) (auto simp: good_report_def good_requirement_def intro!: ok_rbind)
  ultimately show ?thesis
    unfolding r6_report_def Let_def by (intro ok_rbind ok_report_evidence p) simp_all
qed

lemma ok_r6_compare:
  assumes v: "validate_case R v = Inr ()" and q: "\<forall>kd \<in> set qs. good_requirement (snd kd)"
    and p: "\<forall>kd \<in> set ps. good_report (JDict (snd kd))"
  shows "ok (r6_compare R' (dict_of v) (event_of v) x qs ps)"
proof -
  have "ok (r6_report R' (dict_of v) (event_of v) x qs ps k)" if "k \<in> set (names_both qs ps)" for k
  proof -
    from that have "k \<in> set (map fst qs)" "k \<in> set (map fst ps)" by (auto simp: names_both_def)
    with q p show ?thesis by (intro ok_r6_report[OF v]) (fastforce dest!: last_of_member)+
  qed
  then show ?thesis unfolding r6_compare_def Let_def by (intro ok_rbind ok_rmap) simp_all
qed

lemma rule_validation_evidence_total:
  assumes v: "validate_case R v = Inr ()"
    and ctx: "\<forall>x. ctx = Some x \<longrightarrow> vc_sealed x \<longrightarrow> good_validation_context x"
  shows "ok (rule_validation_evidence R (dict_of v) plan ctx)"
proof -
  have event: "event_dict (dict_of v) = Inr (event_of v)"
    using validate_case_event(2)[OF v] by (simp add: event_dict_def)
  show ?thesis
  proof (cases "is_sealed_validation_context ctx")
    case False
    then show ?thesis
      by (auto simp: rule_validation_evidence_def event r6_no_context_def Let_def intro!: ok_intros)
  next
    case sealed: True
    then obtain x where x: "ctx = Some x" "vc_sealed x"
      by (cases ctx) (simp_all add: is_sealed_validation_context_def)
    show ?thesis
    proof (cases "dget ''validation_plan'' (event_of v)")
      case (JDict vp)
      have "is_list (dget ''required_evidence'' vp)"
        using validated_event[OF v] JDict
        by (simp add: validate_event_def validate_validation_plan_def check_simps)
      then have req: "iter (dget_or ''required_evidence'' (JList []) vp)
          = Inr (list_of (dget ''required_evidence'' vp))"
        by (auto simp: dget_or_dget not_dhas_dget elim!: is_listE)
      have pr: "requirement_items (list_of (dget ''required_evidence'' vp)) = plan_requirements (event_of v)"
        by (simp add: plan_requirements_def JDict)
      from ctx x have "good_validation_context x" by simp
      then obtain ds where ds: "context_reports x = Inr ds"
        "rmap report_item ds = Inr (context_report_items x)"
        and p: "\<forall>kd \<in> set (context_report_items x). good_report (JDict (snd kd))"
        by (rule good_context_reports)
      have "ok (r6_compare R (dict_of v) (event_of v) x (plan_requirements (event_of v)) (context_report_items x))"
        by (rule ok_r6_compare[OF v plan_requirements_good[OF v JDict] p])
      with x(1) sealed ds show ?thesis
        by (auto simp: rule_validation_evidence_def event JDict req pr Let_def intro!: ok_intros)
    qed (use sealed in \<open>auto simp: rule_validation_evidence_def event field_absent_def intro!: ok_intros\<close>)
  qed
qed

end
