(* ===== verification/Rule_Contract.thy ===== *)
theory Rule_Contract
  imports Gates_Total
begin

text \<open>
  The contract every rule of \<open>RULES\<close> keeps with the engine, as a locale: a rule answers under
  its own identifier, with the severity LOW exactly when it answers PASS, cites
  evidence in every answer about a validated case, and on a regular one it does answer.  The seven rules are interpretations.
\<close>

section \<open>The contract\<close>

type_synonym checked_rule = "runtime \<Rightarrow> dict \<Rightarrow> impact_plan \<Rightarrow> finding res"

locale rule_label =
  fixes rule :: checked_rule and label :: string
  assumes labelled: "rule R c plan = Inr f \<Longrightarrow> f_rule_id f = label"
    and graded: "rule R c plan = Inr f \<Longrightarrow> f_status f = PASS \<longleftrightarrow> f_severity f = ''LOW''"
begin

lemma blocking_severity: "rule R c plan = Inr f \<Longrightarrow> f_severity f \<noteq> ''LOW'' \<Longrightarrow> f_status f \<noteq> PASS"
  using graded by blast

end

locale rule_contract = rule_label +
  fixes ready :: bool
  assumes grounded: "validate_case R v = Inr () \<Longrightarrow> rule R (dict_of v) plan = Inr f \<Longrightarrow> f_evidence f \<noteq> []"
    and total: "ready \<Longrightarrow> validate_case R v = Inr () \<Longrightarrow> regular_case v \<Longrightarrow> ok (rule R (dict_of v) plan)"
begin

lemma answers:
  assumes "ready" and "validate_case R v = Inr ()" and "regular_case v"
  obtains f where "rule R (dict_of v) plan = Inr f" and "f_rule_id f = label"
    and "f_status f = PASS \<longleftrightarrow> f_severity f = ''LOW''" and "f_evidence f \<noteq> []"
proof -
  from total[OF assms] obtain f where f: "rule R (dict_of v) plan = Inr f" by (rule okE)
  show thesis by (rule that[OF f labelled[OF f] graded[OF f] grounded[OF assms(2) f]])
qed

end

section \<open>The seven rules\<close>

definition follows :: "string \<Rightarrow> finding \<Rightarrow> bool" where
  "follows label f \<longleftrightarrow> f_rule_id f = label \<and> (f_status f = PASS \<longleftrightarrow> f_severity f = ''LOW'')"

lemma follows_finding_of [simp]:
  "follows label (finding_of i t s m e v d a) \<longleftrightarrow> i = label \<and> (s = PASS \<longleftrightarrow> v = ''LOW'')"
  by (simp add: follows_def)

lemma rule_contractI:
  assumes follow: "\<And>R c plan. yields (follows label) (rule R c plan)"
    and evidence: "\<And>R v plan f. validate_case R v = Inr () \<Longrightarrow> rule R (dict_of v) plan = Inr f \<Longrightarrow> f_evidence f \<noteq> []"
    and total: "\<And>R v plan. ready \<Longrightarrow> validate_case R v = Inr () \<Longrightarrow> regular_case v \<Longrightarrow> ok (rule R (dict_of v) plan)"
  shows "rule_contract rule label ready"
proof
  fix R :: runtime and c :: dict and plan :: impact_plan and f :: finding
  assume f: "rule R c plan = Inr f"
  from yieldsD[OF follow f] show "f_rule_id f = label" "f_status f = PASS \<longleftrightarrow> f_severity f = ''LOW''"
    by (simp_all add: follows_def)
qed (rule evidence total; assumption)+

lemma yields_option_case [yields_intros]:
  "(x = None \<Longrightarrow> yields P r) \<Longrightarrow> (\<And>y. x = Some y \<Longrightarrow> yields P (g y)) \<Longrightarrow>
    yields P (case x of None \<Rightarrow> r | Some y \<Rightarrow> g y)"
  by (cases x) simp_all

lemma process_coverage_follows: "yields (follows ''QCI-R001'') (rule_process_coverage R c plan)"
  unfolding rule_process_coverage_def r1_missing_inputs_def r1_documents_def r1_relations_def Let_def
  by (intro yields_intros) (simp_all add: r1_finding_def)

lemma spec_consistency_follows: "yields (follows ''QCI-R002'') (rule_spec_consistency R c plan)"
  unfolding rule_spec_consistency_def r2_missing_inputs_def r2_documents_def Let_def
  by (intro yields_intros) (simp_all add: r2_finding_def r2_verdict_def)

lemma special_control_follows: "yields (follows ''QCI-R003'') (rule_special_characteristic_control R c plan)"
  unfolding rule_special_characteristic_control_def r3_missing_inputs_def r3_documents_def
    r3_missing_risks_def r3_pairs_def Let_def
  by (intro yields_intros) (simp_all add: r3_finding_def)

definition early_follows :: "finding + stale_scan \<Rightarrow> bool" where
  "early_follows r \<longleftrightarrow> (case r of Inl f \<Rightarrow> follows ''QCI-R004'' f | Inr _ \<Rightarrow> True)"

lemma early_follows_simps [simp]: "early_follows (Inl f) = follows ''QCI-R004'' f" "early_follows (Inr st)"
  by (simp_all add: early_follows_def)

lemma r4_document_follows: "yields early_follows (r4_document R event a doc st)"
  unfolding r4_document_def Let_def by (intro yields_intros) (simp_all add: r4_finding_def)

lemma r4_loop_follows: "yields early_follows (r4_loop R event a vs st)"
proof (induction vs arbitrary: st)
  case (Cons v vs)
  have "yields early_follows (case q of Inl f \<Rightarrow> Inr (Inl f) | Inr st' \<Rightarrow> r4_loop R event a vs st')"
    if "r4_document R event a d st = Inr q" for q d
    using yieldsD[OF r4_document_follows that] Cons.IH by (cases q) simp_all
  with Cons.IH show ?case
    unfolding r4_loop.simps by (intro yields_rbind yields_if) assumption+
qed simp

lemma revision_follows: "yields (follows ''QCI-R004'') (rule_revision_after_approval R c plan)"
proof -
  have "yields (follows ''QCI-R004'') (r4_verdict r)" if "r4_loop R event a vs st = Inr r" for r event a vs st
    using yieldsD[OF r4_loop_follows that]
    by (cases r) (auto simp: r4_verdict_def r4_finding_def)
  then show ?thesis
    unfolding rule_revision_after_approval_def Let_def
    by (auto intro!: yields_intros simp: r4_finding_def)
qed

lemma references_follows: "yields (follows ''QCI-R005'') (rule_inspection_current_references R c plan ctx)"
proof -
  have s: "yields (follows ''QCI-R005'') (r5_single R i t l x m a)" for i t l x m a
    unfolding r5_single_def by (intro yields_intros) (simp add: r5_finding_def)
  have "yields (follows ''QCI-R005'') (r5_sealed R x i sop control refs)" for x i sop control refs
    unfolding r5_sealed_def Let_def by (intro yields_intros) (simp add: r5_finding_def)
  with s have "yields (follows ''QCI-R005'') (r5_references R ctx i sop control)" for i sop control
    unfolding r5_references_def Let_def
    by (intro yields_rbind) (auto intro!: yields_intros split: json.split)
  then show ?thesis
    unfolding rule_inspection_current_references_def
    by (intro yields_intros) (simp_all add: r5_finding_def)
qed

lemma validation_follows: "yields (follows ''QCI-R006'') (rule_validation_evidence R c plan ctx)"
proof -
  have n: "yields (follows ''QCI-R006'') (r6_no_context R c event)" for event
    unfolding r6_no_context_def Let_def by (intro yields_intros) (simp add: r6_finding_def)
  have m: "yields (follows ''QCI-R006'') (r6_compare R c event x qs ps)" for event x qs ps
    unfolding r6_compare_def Let_def by (intro yields_intros) (simp add: r6_finding_def)
  from n m show ?thesis
    unfolding rule_validation_evidence_def Let_def
    by (intro yields_rbind yields_if)
      (auto intro!: yields_intros simp: r6_finding_def split: json.split)
qed

lemma approval_follows: "yields (follows ''QCI-R007'') (rule_high_risk_approval R c plan)"
proof -
  have "yields (follows ''QCI-R007'') (r7_single R e s m l x v d a)" if "s = PASS \<longleftrightarrow> v = ''LOW''"
    for e s m l x v d a
    unfolding r7_single_def by (intro yields_intros) (simp add: r7_finding_def that)
  moreover have "yields (follows ''QCI-R007'') (r7_approvals R e as)" for e as
    unfolding r7_approvals_def Let_def by (intro yields_intros) (simp_all add: r7_finding_def)
  ultimately show ?thesis
    unfolding rule_high_risk_approval_def Let_def
    by (auto intro!: yields_intros)
qed

lemmas rule_follows = process_coverage_follows spec_consistency_follows special_control_follows
  revision_follows references_follows validation_follows approval_follows

section \<open>Every answer cites evidence\<close>

definition cites :: "finding \<Rightarrow> bool" where
  "cites f \<longleftrightarrow> f_evidence f \<noteq> []"

lemma cites_finding_of [simp]: "cites (finding_of i t s m e v d a) \<longleftrightarrow> e \<noteq> []"
  by (simp add: cites_def)

lemma rmap_length: "rmap f xs = Inr ys \<Longrightarrow> length ys = length xs"
  by (auto simp: rmap_Inr dest: list_all2_lengthD)

lemma rmap_Nil_iff: "rmap f xs = Inr ys \<Longrightarrow> ys = [] \<longleftrightarrow> xs = []"
  using rmap_length by fastforce

lemma links_evidence_cites: "links_evidence R c = Inr es \<Longrightarrow> es \<noteq> []"
  by (auto simp: links_evidence_def rbind_Inr_iff)

lemma collect_Nil_iff: "collect rs = Inr es \<Longrightarrow> es = [] \<longleftrightarrow> rs = []"
  unfolding collect_def by (rule rmap_Nil_iff)

lemma rfold_reaches:
  assumes "\<And>s x. yields P (f s x)" and "xs \<noteq> []"
  shows "yields P (rfold f s xs)"
  using assms(2)
proof (induction xs arbitrary: s)
  case (Cons x xs)
  show ?case
  proof (cases "f s x")
    case (Inr t)
    then have "P t" using yieldsD[OF assms(1)] by blast
    with Cons.IH[of t] Inr show ?thesis by (cases "xs = []") simp_all
  qed simp
qed simp

lemma scope_complete_links: "scope_relationships_complete R plan \<Longrightarrow> ip_links plan \<noteq> []"
  by (simp add: scope_relationships_complete_def)

lemma process_coverage_cites: "yields cites (rule_process_coverage R c plan)"
  unfolding rule_process_coverage_def r1_missing_inputs_def r1_documents_def r1_relations_def Let_def
  by (intro yields_intros) (auto simp: r1_finding_def dest!: collect_Nil_iff links_evidence_cites)

lemma scan_document_cites: "yields (\<lambda>t. sc_evidence t \<noteq> []) (scan_document R p s di)"
  unfolding scan_document_def Let_def scan_absent_row_def scan_invalid_row_def
  by (intro yields_intros) (simp_all add: yields_intros)

lemma r2_documents_cites:
  assumes "docs \<noteq> []"
  shows "yields cites (r2_documents R c plan docs)"
proof -
  have pair: "yields (\<lambda>t. sc_evidence (fst t) \<noteq> []) (scan_pair R dis st p)" if "dis \<noteq> []" for dis st p
    unfolding scan_pair_def
    by (intro yields_intros) (simp add: yieldsD[OF rfold_reaches[OF scan_document_cites that]])
  have "cites (r2_verdict (fst st) (snd st))"
    if "rfold (scan_pair R dis) s0 (ip_links plan) = Inr st" and "dis \<noteq> []"
      and "scope_relationships_complete R plan" for dis s0 st
    using yieldsD[OF rfold_reaches[OF pair[OF that(2)] scope_complete_links[OF that(3)]] that(1)]
    by (simp add: r2_verdict_def r2_finding_def)
  then show ?thesis
    using assms unfolding r2_documents_def
    by (intro yields_intros) (auto simp: r2_finding_def dest!: links_evidence_cites rmap_Nil_iff)
qed

lemma spec_consistency_cites: "yields cites (rule_spec_consistency R c plan)"
proof -
  have "yields cites (r2_documents R c plan (map the docs))"
    if "rmap (document_by_type c) [''CONTROL_PLAN'', ''SOP'', ''INSPECTION_RECORD''] = Inr docs" for docs
    using rmap_Nil_iff[OF that] by (intro r2_documents_cites) simp
  then show ?thesis
    unfolding rule_spec_consistency_def r2_missing_inputs_def
    by (intro yields_intros) (simp_all add: r2_finding_def)
qed

lemma r3_pair_cites:
  assumes "lookup_rows idx (relationship_key R (fst p) (snd p)) \<noteq> []"
  shows "yields (\<lambda>r. fst r \<noteq> []) (r3_pair R pfmea control idx cidx p)"
  unfolding r3_pair_def Let_def
  by (intro yields_intros) (auto dest!: rmap_Nil_iff simp: assms split: prod.splits)

lemma r3_pairs_cites:
  assumes "scope_relationships_complete R plan"
    and "filter (\<lambda>p. lookup_rows idx (relationship_key R (fst p) (snd p)) = []) (ip_links plan) = []"
  shows "yields cites (r3_pairs R plan pfmea control idx cidx)"
proof -
  have "concat (map fst rs) \<noteq> []"
    if rs: "rmap (r3_pair R pfmea control idx cidx) (ip_links plan) = Inr rs" for rs
  proof -
    obtain p ps where p: "ip_links plan = p # ps" using scope_complete_links[OF assms(1)] by (cases "ip_links plan") auto
    with rs obtain r rs' where r: "r3_pair R pfmea control idx cidx p = Inr r" "rs = r # rs'"
      by (auto split: sum.splits)
    have "lookup_rows idx (relationship_key R (fst p) (snd p)) \<noteq> []" using assms(2) p by (auto split: if_splits)
    from yieldsD[OF r3_pair_cites[OF this] r(1)] r(2) show ?thesis by simp
  qed
  then show ?thesis
    unfolding r3_pairs_def Let_def by (intro yields_intros) (simp add: r3_finding_def)
qed

lemma special_control_cites: "yields cites (rule_special_characteristic_control R c plan)"
proof -
  have "yields cites (r3_missing_risks R c pfmea idx ps)" if "ps \<noteq> []" for pfmea idx ps
  proof -
    have "concat ess \<noteq> []" if "rmap (\<lambda>p. rbind (event_dict c) (\<lambda>event. r3_missing_pair R event pfmea idx p)) ps = Inr ess"
      for ess
    proof -
      obtain p qs where p: "ps = p # qs" using \<open>ps \<noteq> []\<close> by (cases ps) auto
      with that obtain es ess' where "rbind (event_dict c) (\<lambda>event. r3_missing_pair R event pfmea idx p) = Inr es"
        "ess = es # ess'" by (auto split: sum.splits)
      then show ?thesis by (auto simp: r3_missing_pair_def rbind_Inr_iff)
    qed
    then show ?thesis
      unfolding r3_missing_risks_def Let_def by (intro yields_intros) (simp add: r3_finding_def)
  qed
  with r3_pairs_cites show ?thesis
    unfolding rule_special_characteristic_control_def r3_missing_inputs_def r3_documents_def Let_def
    by (intro yields_intros) (auto simp: r3_finding_def dest!: links_evidence_cites)
qed

lemma references_cites: "yields cites (rule_inspection_current_references R c plan ctx)"
proof -
  have s: "yields cites (r5_single R i t l x m a)" for i t l x m a
    unfolding r5_single_def by (intro yields_intros) (simp add: r5_finding_def)
  have role: "yields (\<lambda>r. fst r \<noteq> []) (r5_role R i refs sr se rt)" for i refs sr se rt
    unfolding r5_role_def Let_def by (intro yields_intros) (auto dest!: collect_Nil_iff)
  have "yields cites (r5_sealed R x i sop control refs)" for x i sop control refs
  proof -
    have "concat (map fst rs) \<noteq> []" if "rmap (r5_role R i refs sr se) [(''SOP'', sop), (''CONTROL_PLAN'', control)] = Inr rs"
      for rs sr se
      using that yieldsD[OF role] by (auto split: sum.splits)
    then show ?thesis unfolding r5_sealed_def Let_def by (intro yields_intros) (simp add: r5_finding_def)
  qed
  with s have "yields cites (r5_references R ctx i sop control)" for i sop control
    unfolding r5_references_def Let_def
    by (intro yields_rbind) (auto intro!: yields_intros split: json.split)
  then show ?thesis
    unfolding rule_inspection_current_references_def
    by (intro yields_intros) (simp_all add: r5_finding_def)
qed

lemma approval_cites: "yields cites (rule_high_risk_approval R c plan)"
  unfolding rule_high_risk_approval_def Let_def r7_single_def r7_approvals_def
  by (auto intro!: yields_intros simp: r7_finding_def)

text \<open>The revision dates cite every approved document, of which a validated case has some.\<close>

lemma r4_stale_cites: "fst st \<noteq> [] \<Longrightarrow> yields (\<lambda>st'. fst st' \<noteq> []) (r4_stale R event a doc st)"
  unfolding r4_stale_def by (intro yields_intros) simp_all

definition scan_cites :: "finding + stale_scan \<Rightarrow> bool" where
  "scan_cites r \<longleftrightarrow> (case r of Inl f \<Rightarrow> cites f | Inr st \<Rightarrow> fst st \<noteq> [])"

lemma scan_cites_simps [simp]: "scan_cites (Inl f) = cites f" "scan_cites (Inr st) \<longleftrightarrow> fst st \<noteq> []"
  by (simp_all add: scan_cites_def)

lemma r4_document_cites:
  "yields scan_cites (r4_document R event a doc st)"
  unfolding r4_document_def Let_def
  by (intro yields_intros) (simp_all add: r4_finding_def yieldsD[OF r4_stale_cites, rotated])

lemma r4_loop_cites:
  assumes "fst st \<noteq> [] \<or> (\<exists>d \<in> set docs. is_approved d)"
  shows "yields scan_cites (r4_loop R event a (map JDict docs) st)"
  using assms
proof (induction docs arbitrary: st)
  case (Cons d docs)
  show ?case
  proof (cases "is_approved d")
    case False
    with Cons show ?thesis by (auto simp: is_approved_def)
  next
    case True
    have "yields scan_cites
        (case q of Inl f \<Rightarrow> Inr (Inl f) | Inr st' \<Rightarrow> r4_loop R event a (map JDict docs) st')"
      if "r4_document R event a d st = Inr q" for q
      using yieldsD[OF r4_document_cites that] Cons.IH by (cases q) simp_all
    with True show ?thesis by (auto simp: is_approved_def intro!: yields_rbind)
  qed
qed simp

lemma revision_cites:
  assumes "validate_case R v = Inr ()"
  shows "yields cites (rule_revision_after_approval R' (dict_of v) plan)"
proof -
  have "approved_document v ''SOP'' \<in> set (documents_of v)" "is_approved (approved_document v ''SOP'')"
    using approved_document_found[OF assms, of "''SOP''"]
    by (simp_all add: REQUIRED_DOCUMENT_TYPES_def is_approved_type_def is_approved_def)
  then have "\<exists>d \<in> set (documents_of v). is_approved d" by blast
  then have loop: "yields scan_cites (r4_loop R' event a (map JDict (documents_of v)) ([], []))" for event a
    by (intro r4_loop_cites) simp
  have "yields cites (r4_verdict r)"
    if "r4_loop R' event a (map JDict (documents_of v)) ([], []) = Inr r" for r event a
    using yieldsD[OF loop that] by (cases r) (auto simp: r4_verdict_def r4_finding_def)
  then show ?thesis
    unfolding rule_revision_after_approval_def Let_def validate_case_documents(2)[OF assms] rbind_simps iter.simps
    by (intro yields_intros) (simp_all add: r4_finding_def)
qed

lemma plan_requirements_nonempty:
  assumes "validate_case R v = Inr ()" and "dget ''validation_plan'' (event_of v) = JDict vp"
  shows "plan_requirements (event_of v) \<noteq> []"
proof -
  have "list_of (dget ''required_evidence'' vp) \<noteq> []"
    and c: "check_all validate_requirement (list_of (dget ''required_evidence'' vp)) = Inr ()"
    using validated_event[OF assms(1)] assms(2)
    by (simp_all add: validate_event_def validate_validation_plan_def)
  then obtain r where r: "r \<in> set (list_of (dget ''required_evidence'' vp))"
    by (cases "list_of (dget ''required_evidence'' vp)") auto
  from c r obtain i where i: "validate_requirement i r = Inr ()" by (rule check_all_InrD)
  have "is_dict r" using i unfolding validate_requirement_def seq_checks_Cons_Inr require_Inr by blast
  moreover have "nonblank_str (dget ''evidence_id'' (dict_of r))"
    using i by (simp add: validate_requirement_def check_simps REQUIREMENT_KEYS_def)
  ultimately show ?thesis
    using r by (auto simp: plan_requirements_def requirement_items_def assms(2) filter_empty_conv
        dest: nonblank_is_str)
qed

lemma r6_compare_cites:
  assumes "names_minus qs ps = []" and "qs \<noteq> []"
  shows "yields cites (r6_compare R c event x qs ps)"
proof -
  have "set (names_both qs ps) = set (map fst qs)"
    using assms(1) by (auto simp: names_both_def names_minus_Nil)
  then have "names_both qs ps \<noteq> []" using assms(2) by (cases qs) (auto simp: set_empty[symmetric] simp del: set_empty)
  then show ?thesis
    unfolding r6_compare_def Let_def
    by (intro yields_intros) (auto simp: r6_finding_def dest!: rmap_Nil_iff)
qed

lemma validation_cites:
  assumes v: "validate_case R v = Inr ()"
  shows "yields cites (rule_validation_evidence R' (dict_of v) plan ctx)"
proof -
  have event: "event_dict (dict_of v) = Inr (event_of v)"
    using validate_case_event(2)[OF v] by (simp add: event_dict_def)
  show ?thesis
  proof (cases "dget ''validation_plan'' (event_of v)")
    case (JDict vp)
    have "is_list (dget ''required_evidence'' vp)"
      using validated_event[OF v] JDict
      by (simp add: validate_event_def validate_validation_plan_def check_simps)
    then have req: "iter (dget_or ''required_evidence'' (JList []) vp)
        = Inr (list_of (dget ''required_evidence'' vp))"
      by (auto simp: dget_or_dget not_dhas_dget elim!: is_listE)
    have pr: "requirement_items (list_of (dget ''required_evidence'' vp)) = plan_requirements (event_of v)"
      by (simp add: plan_requirements_def JDict)
    show ?thesis
      unfolding rule_validation_evidence_def event rbind_simps JDict json.case req Let_def pr r6_no_context_def
      by (intro yields_intros) (auto simp: r6_finding_def plan_requirements_nonempty[OF v JDict]
          intro!: r6_compare_cites)
  qed (auto simp: rule_validation_evidence_def event r6_no_context_def Let_def r6_finding_def
      intro!: yields_intros)
qed

section \<open>The interpretations\<close>

definition ready_references :: "reference_context option \<Rightarrow> bool" where
  "ready_references rc \<longleftrightarrow> (\<forall>x. rc = Some x \<longrightarrow> rc_sealed x \<longrightarrow> good_reference_context x)"

definition ready_validation :: "validation_context option \<Rightarrow> bool" where
  "ready_validation vc \<longleftrightarrow> (\<forall>x. vc = Some x \<longrightarrow> vc_sealed x \<longrightarrow> good_validation_context x)"

lemma cited: "yields cites r \<Longrightarrow> r = Inr f \<Longrightarrow> f_evidence f \<noteq> []"
  by (auto simp: cites_def dest: yieldsD)

interpretation r1: rule_contract rule_process_coverage "''QCI-R001''" True
  by (rule rule_contractI;
      (rule process_coverage_follows cited[OF process_coverage_cites]
        rule_process_coverage_total; assumption?))

interpretation r2: rule_contract rule_spec_consistency "''QCI-R002''" True
  by (rule rule_contractI;
      (rule spec_consistency_follows cited[OF spec_consistency_cites]
        rule_spec_consistency_total; assumption?))

interpretation r3: rule_contract rule_special_characteristic_control "''QCI-R003''" True
  by (rule rule_contractI;
      (rule special_control_follows cited[OF special_control_cites]
        rule_special_characteristic_control_total; assumption?))

interpretation r4: rule_contract rule_revision_after_approval "''QCI-R004''" True
  by (rule rule_contractI;
      (rule revision_follows cited[OF revision_cites]
        rule_revision_after_approval_total; assumption?))

interpretation r5: rule_contract "\<lambda>R c plan. rule_inspection_current_references R c plan rc"
    "''QCI-R005''" "ready_references rc" for rc
  by (rule rule_contractI;
      (rule references_follows cited[OF references_cites]
        rule_inspection_current_references_total; (simp add: ready_references_def)?))

interpretation r6: rule_contract "\<lambda>R c plan. rule_validation_evidence R c plan vc"
    "''QCI-R006''" "ready_validation vc" for vc
  by (rule rule_contractI;
      (rule validation_follows cited[OF validation_cites]
        rule_validation_evidence_total; assumption?))
    (simp add: ready_validation_def)

interpretation r7: rule_contract rule_high_risk_approval "''QCI-R007''" True
  by (rule rule_contractI;
      (rule approval_follows cited[OF approval_cites]
        rule_high_risk_approval_total; assumption?))

end
