(* ===== verification/Engine_Facts.thy ===== *)
theory Engine_Facts
  imports Rule_Contract
begin

text \<open>
  What the engine adds to the rules: the findings of a run are the answers of the seven rules in
  their order, the overall status is the worst of them, a regular case always yields a result
  that its own constructor accepts, and the identity of a run forgets the order of documents.
\<close>

section \<open>The findings of a run\<close>

definition rule_answers :: "runtime \<Rightarrow> dict \<Rightarrow> impact_plan \<Rightarrow> reference_context option
    \<Rightarrow> validation_context option \<Rightarrow> finding list res" where
  "rule_answers R c plan rc vc = rmap (\<lambda>rule. rule c plan) (rules R rc vc)"

lemma rule_answers_list:
  assumes "rule_answers R c plan rc vc = Inr fs"
  obtains f1 f2 f3 f4 f5 f6 f7 where "fs = [f1, f2, f3, f4, f5, f6, f7]"
    and "rule_process_coverage R c plan = Inr f1"
    and "rule_spec_consistency R c plan = Inr f2"
    and "rule_special_characteristic_control R c plan = Inr f3"
    and "rule_revision_after_approval R c plan = Inr f4"
    and "rule_inspection_current_references R c plan rc = Inr f5"
    and "rule_validation_evidence R c plan vc = Inr f6"
    and "rule_high_risk_approval R c plan = Inr f7"
proof -
  from assms have "list_all2 (\<lambda>rule f. rule c plan = Inr f) (rules R rc vc) fs"
    by (simp add: rule_answers_def rmap_Inr)
  then show thesis unfolding rules_def list_all2_Cons1 by (auto intro: that)
qed

lemma rule_answers_contract:
  assumes "validate_case R v = Inr ()" and "rule_answers R (dict_of v) plan rc vc = Inr fs"
  shows "map f_rule_id fs = RULE_IDS"
    and "\<forall>f \<in> set fs. f_evidence f \<noteq> [] \<and> (f_status f = PASS \<longleftrightarrow> f_severity f = ''LOW'')"
proof -
  from assms(2) obtain f1 f2 f3 f4 f5 f6 f7 where fs: "fs = [f1, f2, f3, f4, f5, f6, f7]"
    and f: "rule_process_coverage R (dict_of v) plan = Inr f1"
      "rule_spec_consistency R (dict_of v) plan = Inr f2"
      "rule_special_characteristic_control R (dict_of v) plan = Inr f3"
      "rule_revision_after_approval R (dict_of v) plan = Inr f4"
      "rule_inspection_current_references R (dict_of v) plan rc = Inr f5"
      "rule_validation_evidence R (dict_of v) plan vc = Inr f6"
      "rule_high_risk_approval R (dict_of v) plan = Inr f7"
    by (rule rule_answers_list)
  from r1.labelled[OF f(1)] r2.labelled[OF f(2)] r3.labelled[OF f(3)] r4.labelled[OF f(4)]
    r5.labelled[OF f(5)] r6.labelled[OF f(6)] r7.labelled[OF f(7)] fs
  show "map f_rule_id fs = RULE_IDS" by (simp add: RULE_IDS_def)
  from r1.grounded[OF assms(1) f(1)] r2.grounded[OF assms(1) f(2)] r3.grounded[OF assms(1) f(3)]
    r4.grounded[OF assms(1) f(4)] r5.grounded[OF assms(1) f(5)] r6.grounded[OF assms(1) f(6)]
    r7.grounded[OF assms(1) f(7)] r1.graded[OF f(1)] r2.graded[OF f(2)] r3.graded[OF f(3)]
    r4.graded[OF f(4)] r5.graded[OF f(5)] r6.graded[OF f(6)] r7.graded[OF f(7)] fs
  show "\<forall>f \<in> set fs. f_evidence f \<noteq> [] \<and> (f_status f = PASS \<longleftrightarrow> f_severity f = ''LOW'')"
    by simp
qed

lemma rule_answers_total:
  assumes v: "validate_case R v = Inr ()" and r: "regular_case v"
    and "ready_references rc" and "ready_validation vc"
  shows "ok (rule_answers R (dict_of v) plan rc vc)"
proof -
  have "ok (rule (dict_of v) plan)" if "rule \<in> set (rules R rc vc)" for rule
    using that r1.total[OF TrueI v r] r2.total[OF TrueI v r] r3.total[OF TrueI v r] r4.total[OF TrueI v r]
      r5.total[OF assms(3) v r] r6.total[OF assms(4) v r] r7.total[OF TrueI v r]
    by (auto simp: rules_def)
  then show ?thesis unfolding rule_answers_def by (rule ok_rmap)
qed

lemma overall_status_Max:
  assumes "fs \<noteq> []"
  shows "overall_status fs = Max (set fs)"
proof -
  have m: "s \<in> set fs \<Longrightarrow> \<forall>t \<in> set fs. t \<le> s \<Longrightarrow> Max (set fs) = s" for s
    by (intro Max_eqI) auto
  consider "CONTRADICTED \<in> set fs" | "CONTRADICTED \<notin> set fs" "UNVERIFIABLE \<in> set fs"
    | "CONTRADICTED \<notin> set fs" "UNVERIFIABLE \<notin> set fs" by blast
  then show ?thesis
  proof cases
    case 1
    then show ?thesis using m[of CONTRADICTED] by (simp add: overall_status_def)
  next
    case 2
    then have "t \<le> UNVERIFIABLE" if "t \<in> set fs" for t
      using that by (cases t) (auto simp: less_eq_check_status_def)
    with 2 show ?thesis using m[of UNVERIFIABLE] by (simp add: overall_status_def)
  next
    case 3
    have all: "t = PASS" if "t \<in> set fs" for t using that 3 check_status.exhaust[of t] by metis
    then have "PASS \<in> set fs" using assms by (cases fs) auto
    then have "Max (set fs) = PASS" by (rule m) (use all in auto)
    with 3 show ?thesis by (simp add: overall_status_def)
  qed
qed

section \<open>The result of a run\<close>

definition run_id_of :: "runtime \<Rightarrow> string \<Rightarrow> reference_context option \<Rightarrow> validation_context option \<Rightarrow> string res" where
  "run_id_of R h rc vc =
     (let (rs, rh, rv) = reference_assurance rc; (vs, vh, vv) = validation_assurance vc in
      run_id_for_current_identity R unbound_assurance (JStr h) rs rh rv vs vh vv)"

lemma make_unbound: "make_assurance unbound_assurance = Inr unbound_assurance"
  by (simp add: make_assurance_Inr unbound_assurance_valid)

lemma evaluate_preparedE:
  assumes "evaluate_prepared R p rc vc = Inr r"
  obtains plan fs h i where "build_impact_plan R (dict_of p) = Inr plan"
    and "rule_answers R (dict_of p) plan rc vc = Inr fs" and "canonical_hash R p = Inr h"
    and "run_id_of R h rc vc = Inr i" and "check_run_result R r = Inr ()"
    and "rr_run_id r = JStr i" and "rr_case_hash r = JStr h" and "rr_findings r = fs"
    and "rr_impact_plan r = plan" and "rr_overall_status r = overall_status (map f_status fs)"
    and "rr_source r = unbound_assurance"
    and "rr_contract_version r = JStr RUN_RESULT_CONTRACT_VERSION"
    and "rr_identity_version r = JStr RUN_IDENTITY_VERSION"
    and "(rr_reference_state r, rr_reference_set_hash r, rr_reference_version r) = reference_assurance rc"
    and "(rr_validation_state r, rr_validation_set_hash r, rr_validation_version r) = validation_assurance vc"
proof -
  obtain rs rh rv where rc: "reference_assurance rc = (rs, rh, rv)" by (cases "reference_assurance rc") auto
  obtain vs vh vv where vc: "validation_assurance vc = (vs, vh, vv)" by (cases "validation_assurance vc") auto
  from assms obtain plan fs h ci where e: "build_impact_plan R (dict_of p) = Inr plan"
    "rule_answers R (dict_of p) plan rc vc = Inr fs" "canonical_hash R p = Inr h"
    and a: "assemble_result R unbound_assurance ci h (rs, rh, rv) (vs, vh, vv)
        (overall_status (map f_status fs)) plan fs = Inr r"
    unfolding evaluate_prepared_def Let_def make_unbound rbind_simps rule_answers_def[symmetric] rc vc
    by (elim rbind_InrE)
  from a obtain i where i: "run_id_of R h rc vc = Inr i"
    and m: "make_run_result R
        \<lparr>rr_run_id = JStr i, rr_case_id = ci, rr_case_hash = JStr h,
         rr_ruleset_version = JStr RULESET_VERSION,
         rr_contract_version = JStr RUN_RESULT_CONTRACT_VERSION,
         rr_identity_version = JStr RUN_IDENTITY_VERSION, rr_source = unbound_assurance,
         rr_reference_state = rs, rr_reference_set_hash = rh,
         rr_reference_version = rv, rr_validation_state = vs,
         rr_validation_set_hash = vh, rr_validation_version = vv,
         rr_overall_status = overall_status (map f_status fs), rr_impact_plan = plan,
         rr_findings = fs\<rparr> = Inr r"
    unfolding assemble_result_def Let_def prod.case run_id_of_def rc vc by (elim rbind_InrE)
  from m[unfolded make_run_result_Inr] that[OF e i] rc vc show thesis by simp
qed

lemma evaluate_caseE:
  assumes "evaluate_case R v rc vc = Inr r"
  obtains p where "prepare_case R v = Inr p" and "validate_case R p = Inr ()"
    and "evaluate_prepared R p rc vc = Inr r"
  using assms prepare_case_valid by (auto simp: evaluate_case_def rbind_Inr_iff)

section \<open>Every regular case has a result\<close>

text \<open>
  What a run relies on from a sealed context: the shape of its texts and the hash and version
  the sealing constructor computed.
\<close>

definition sealed_reference :: "reference_context option \<Rightarrow> bool" where
  "sealed_reference rc \<longleftrightarrow> (\<forall>x. rc = Some x \<longrightarrow> rc_sealed x \<and> good_reference_context x
     \<and> is_lower_sha (rc_reference_set_hash x) \<and> rc_contract_version x = REFERENCE_CONTRACT_VERSION)"

definition sealed_validation :: "validation_context option \<Rightarrow> bool" where
  "sealed_validation vc \<longleftrightarrow> (\<forall>x. vc = Some x \<longrightarrow> vc_sealed x \<and> good_validation_context x
     \<and> is_lower_sha (vc_evidence_set_hash x) \<and> vc_contract_version x = VALIDATION_CONTRACT_VERSION)"

lemma reference_assurance_cases:
  assumes "sealed_reference rc" and "reference_assurance rc = (s, h, w)"
  shows "s = JStr REFERENCE_UNATTESTED \<and> h = JNull \<and> w = JNull \<or>
    s = JStr REFERENCE_ATTESTED \<and> lower_sha_json h \<and> w = JStr REFERENCE_CONTRACT_VERSION"
  using assms by (auto simp: reference_assurance_def sealed_reference_def split: option.splits)

lemma validation_assurance_cases:
  assumes "sealed_validation vc" and "validation_assurance vc = (s, h, w)"
  shows "s = JStr VALIDATION_UNATTESTED \<and> h = JNull \<and> w = JNull \<or>
    s = JStr VALIDATION_ATTESTED \<and> lower_sha_json h \<and> w = JStr VALIDATION_CONTRACT_VERSION"
  using assms
  by (cases vc) (auto simp: validation_assurance_def sealed_validation_def is_sealed_validation_context_def)

lemma lower_sha_json_finite: "lower_sha_json h \<Longrightarrow> json_finite h"
  by (auto simp: lower_sha_json_def elim: is_strE)

lemma reference_checks:
  assumes "sealed_reference rc" and "reference_assurance rc = (s, h, w)"
  shows "rr_reference_state r = s \<Longrightarrow> rr_reference_set_hash r = h \<Longrightarrow> rr_reference_version r = w
      \<Longrightarrow> check_result_reference r = Inr ()"
    and "json_finite s" and "json_finite h" and "json_finite w"
  using reference_assurance_cases[OF assms]
  by (auto simp: check_result_reference_def check_simps REFERENCE_UNATTESTED_def REFERENCE_ATTESTED_def
      lower_sha_json_finite)

lemma validation_checks:
  assumes "sealed_validation vc" and "validation_assurance vc = (s, h, w)"
  shows "rr_validation_state r = s \<Longrightarrow> rr_validation_set_hash r = h \<Longrightarrow> rr_validation_version r = w
      \<Longrightarrow> check_result_validation r = Inr ()"
    and "json_finite s" and "json_finite h" and "json_finite w"
  using validation_assurance_cases[OF assms]
  by (auto simp: check_result_validation_def check_simps VALIDATION_UNATTESTED_def VALIDATION_ATTESTED_def
      lower_sha_json_finite)

lemma unbound_check: "check_result_source unbound_assurance = Inr ()"
  by (rule assurance_accepted[OF unbound_assurance_valid])

lemma assemble_total:
  assumes rc: "sealed_reference rc" and vc: "sealed_validation vc"
    and h: "is_lower_sha h" and ci: "nonblank_str ci"
  shows "ok (assemble_result R unbound_assurance ci h (reference_assurance rc) (validation_assurance vc) overall plan fs)"
proof -
  obtain rs rh rv where r: "reference_assurance rc = (rs, rh, rv)" by (cases "reference_assurance rc") auto
  obtain vs vh vv where v: "validation_assurance vc = (vs, vh, vv)" by (cases "validation_assurance vc") auto
  let ?identity = "run_identity (JStr RUN_RESULT_CONTRACT_VERSION) (JStr RUN_IDENTITY_VERSION) (JStr h)
    (JStr RULESET_VERSION) unbound_assurance rs rh rv vs vh vv"
  let ?i = "take 16 (sha256_hex (IDENTITY_DOMAIN @ jtext R ?identity))"
  let ?r = "\<lparr>rr_run_id = JStr ?i, rr_case_id = ci, rr_case_hash = JStr h,
         rr_ruleset_version = JStr RULESET_VERSION,
         rr_contract_version = JStr RUN_RESULT_CONTRACT_VERSION,
         rr_identity_version = JStr RUN_IDENTITY_VERSION, rr_source = unbound_assurance,
         rr_reference_state = rs, rr_reference_set_hash = rh,
         rr_reference_version = rv, rr_validation_state = vs,
         rr_validation_set_hash = vh, rr_validation_version = vv,
         rr_overall_status = overall, rr_impact_plan = plan, rr_findings = fs\<rparr>"
  have "json_finite ?identity"
    using reference_checks(2-4)[OF rc r] validation_checks(2-4)[OF vc v]
    by (simp add: run_identity_def assurance_items_def unbound_assurance_def)
  then have d: "identity_digest R m ?identity = Inr ?i" for m by (simp add: identity_digest_def)
  have "check_result_header ?r = Inr ()"
    using run_id_shape ci h by (simp add: check_result_header_def check_simps)
  moreover have "check_result_identity R ?r = Inr ()"
    by (simp add: check_result_identity_def result_identity_def d)
  ultimately have "check_run_result R ?r = Inr ()"
    using reference_checks(1)[OF rc r] validation_checks(1)[OF vc v] unbound_check
    by (simp add: check_run_result_def)
  then show ?thesis
    by (simp add: assemble_result_def r v run_id_for_current_identity_def unbound_assurance_valid d
        make_run_result_def)
qed

lemma evaluate_prepared_total:
  assumes v: "validate_case R w = Inr ()" and r: "regular_case w"
    and rc: "sealed_reference rc" and vc: "sealed_validation vc"
  shows "ok (evaluate_prepared R w rc vc)"
proof -
  have "ready_references rc" "ready_validation vc"
    using rc vc by (auto simp: ready_references_def ready_validation_def sealed_reference_def sealed_validation_def)
  note rules = rule_answers_total[OF v r this]
  have plan: "build_impact_plan R (dict_of w) = Inr (plan_of R (event_of w))"
    using r by (intro plan_of_validated[OF v]) (simp add: regular_case_def)
  obtain h where h: "canonical_hash R w = Inr h" "is_lower_sha h" by (rule canonical_hash_total[OF v r])
  note ci = validate_case_header_facts(4,5)[OF v]
  show ?thesis
    unfolding evaluate_prepared_def Let_def plan h(1) make_unbound dhas_ditem[OF ci(1)] rbind_simps
    using rules by (auto simp: rule_answers_def intro!: ok_rbind assemble_total[OF rc vc h(2) ci(2)])
qed

lemma evaluate_case_total:
  assumes "prepare_case R v = Inr w" and "regular_case w"
    and "sealed_reference rc" and "sealed_validation vc"
  shows "ok (evaluate_case R v rc vc)"
  using evaluate_prepared_total[OF prepare_case_valid[OF assms(1)] assms(2-4)] assms(1)
  by (simp add: evaluate_case_def)

section \<open>The order of the documents\<close>

text \<open>The status of R004 on a validated case, without its loop.\<close>

lemma r4_loop_status:
  assumes "r4_loop R event a (map JDict docs) st = Inr r" and "r4_verdict r = Inr f"
    and "\<forall>d \<in> set docs. truthy (dget ''revision_date'' d)"
  shows "f_status f \<noteq> UNVERIFIABLE"
proof -
  have "\<exists>st'. r = Inr st'" using assms(1,3)
  proof (induction docs arbitrary: st)
    case (Cons d docs)
    show ?case
    proof (cases "is_approved d")
      case False
      with Cons show ?thesis by (simp add: is_approved_def)
    next
      case True
      with Cons.prems(1) obtain q where q: "r4_document R event a d st = Inr q"
        "(case q of Inl f \<Rightarrow> Inr (Inl f) | Inr st' \<Rightarrow> r4_loop R event a (map JDict docs) st') = Inr r"
        by (auto simp: is_approved_def rbind_Inr_iff)
      have "\<exists>st'. q = Inr st'"
        using q(1) Cons.prems(2)
        by (auto simp: r4_document_def Let_def rbind_Inr_iff simp del: split_paired_Ex split: if_splits)
      then obtain st' where "q = Inr st'" by blast
      with q(2) Cons.IH[of st'] Cons.prems(2) show ?thesis by simp
    qed
  qed auto
  then obtain st' where "r = Inr st'" by blast
  with assms(2) show ?thesis by (cases st') (auto simp: r4_verdict_def r4_finding_def split: if_splits)
qed

definition r4_status :: "dict \<Rightarrow> dict set \<Rightarrow> check_status" where
  "r4_status event docs =
     (if \<not> truthy (dget ''approved_at'' event) then UNVERIFIABLE
      else if \<exists>a. parse_date (dget ''approved_at'' event) = Inr a
        \<and> (\<forall>d \<in> docs. is_approved d \<longrightarrow> date_ok event a d) then PASS
      else CONTRADICTED)"

lemma rule_revision_after_approval_status:
  assumes v: "validate_case R v = Inr ()"
    and f: "rule_revision_after_approval R (dict_of v) plan = Inr f"
  shows "f_status f = r4_status (event_of v) (set (documents_of v))"
proof -
  have event: "event_dict (dict_of v) = Inr (event_of v)"
    using validate_case_event(2)[OF v] by (simp add: event_dict_def)
  show ?thesis
  proof (cases "truthy (dget ''approved_at'' (event_of v))")
    case False
    with f show ?thesis
      by (auto simp: rule_revision_after_approval_def event Let_def rbind_Inr_iff r4_finding_def r4_status_def)
  next
    case True
    with f obtain a r where r: "r4_loop R (event_of v) a (map JDict (documents_of v)) ([], []) = Inr r"
      "r4_verdict r = Inr f"
      by (auto simp: rule_revision_after_approval_def event Let_def rbind_Inr_iff
          validate_case_documents(2)[OF v])
    have "f_status f \<noteq> UNVERIFIABLE"
      using validated_revision_date(1)[OF v] by (intro r4_loop_status[OF r]) blast
    then show ?thesis
      using rule_revision_after_approval_pass[OF v f] True by (cases "f_status f") (auto simp: r4_status_def)
  qed
qed

end
