(* ===== verification/Order_Facts.thy ===== *)
theory Order_Facts
  imports Engine_Facts
begin

text \<open>
  Reordering the documents of a validated case changes neither the identity of its run nor the
  status of any rule.
\<close>

definition same_but_documents :: "dict \<Rightarrow> dict \<Rightarrow> bool" where
  "same_but_documents c c' \<longleftrightarrow> (\<forall>k. k \<noteq> ''documents'' \<longrightarrow> map_of c' k = map_of c k)"

lemma same_but_documents_get:
  assumes "same_but_documents c c'" and "k \<noteq> ''documents''"
  shows "dget k c' = dget k c" and "dhas k c' = dhas k c" and "ditem k c' = ditem k c"
  using assms by (simp_all add: same_but_documents_def dget_def dget_or_def dhas_iff ditem_def)

text \<open>Two validated cases that differ in the order of their documents only.\<close>

definition reordered :: "runtime \<Rightarrow> json \<Rightarrow> json \<Rightarrow> bool" where
  "reordered R v w \<longleftrightarrow> validate_case R v = Inr () \<and> validate_case R w = Inr ()
     \<and> same_but_documents (dict_of v) (dict_of w) \<and> mset (documents_of w) = mset (documents_of v)"

lemma reordered_case:
  assumes "validate_case R (JDict c) = Inr ()"
    and "dget ''documents'' c = JList docs" and "mset docs = mset docs'"
  shows "reordered R (JDict c) (JDict (dset ''documents'' (JList docs') c))"
proof -
  have "same_but_documents c (dset ''documents'' (JList docs') c)" by (simp add: same_but_documents_def)
  moreover have "mset (documents_of (JDict (dset ''documents'' (JList docs') c)))
      = mset (documents_of (JDict c))"
    using assms(2,3) by (simp add: documents_of_def)
  ultimately show ?thesis using assms(1) validate_case_reorder[OF assms] by (simp add: reordered_def)
qed

lemma reordered_facts:
  assumes "reordered R v w"
  shows "event_of w = event_of v" and "event_dict (dict_of w) = event_dict (dict_of v)"
    and "set (documents_of w) = set (documents_of v)"
    and "dhas ''relationship_migration'' (dict_of w) = dhas ''relationship_migration'' (dict_of v)"
    and "dget ''validation_migration'' (dict_of w) = dget ''validation_migration'' (dict_of v)"
    and "ditem ''schema_version'' (dict_of w) = ditem ''schema_version'' (dict_of v)"
    and "t \<in> set REQUIRED_DOCUMENT_TYPES \<Longrightarrow> approved_document w t = approved_document v t"
proof -
  from assms have s: "same_but_documents (dict_of v) (dict_of w)"
    and v: "validate_case R v = Inr ()" and w: "validate_case R w = Inr ()"
    and m: "mset (documents_of w) = mset (documents_of v)"
    by (simp_all add: reordered_def)
  note g = same_but_documents_get[OF s]
  show "event_of w = event_of v" "event_dict (dict_of w) = event_dict (dict_of v)"
    "dhas ''relationship_migration'' (dict_of w) = dhas ''relationship_migration'' (dict_of v)"
    "dget ''validation_migration'' (dict_of w) = dget ''validation_migration'' (dict_of v)"
    "ditem ''schema_version'' (dict_of w) = ditem ''schema_version'' (dict_of v)"
    by (simp_all add: event_of_def event_dict_def g)
  show set: "set (documents_of w) = set (documents_of v)" using m by (metis set_mset_mset)
  assume t: "t \<in> set REQUIRED_DOCUMENT_TYPES"
  have "approved_document w t \<in> set (documents_of v)"
    using approved_document_found(2)[OF w t] set by simp
  then show "approved_document w t = approved_document v t"
    by (rule approved_document_unique[OF v t _ approved_document_found(3)[OF w t]])
qed

lemma reordered_by_type:
  assumes "reordered R v w" and "t \<in> set REQUIRED_DOCUMENT_TYPES"
  shows "document_by_type (dict_of w) t = document_by_type (dict_of v) t"
  using assms approved_document_found(1)[of R v _ t] approved_document_found(1)[of R w _ t]
    reordered_facts(7)[OF assms]
  by (auto simp: reordered_def)

lemma reordered_plan:
  "reordered R v w \<Longrightarrow> build_impact_plan R' (dict_of w) = build_impact_plan R' (dict_of v)"
  using same_but_documents_get(3)[of "dict_of v" "dict_of w" "''event''"]
  by (simp add: build_impact_plan_def reordered_def)

section \<open>The status of each rule\<close>

definition status_of :: "finding res \<Rightarrow> check_status option" where
  "status_of r = (case r of Inl _ \<Rightarrow> None | Inr f \<Rightarrow> Some (f_status f))"

definition same_status :: "finding res \<Rightarrow> finding res \<Rightarrow> bool" where
  "same_status r s \<longleftrightarrow> (\<forall>f g. r = Inr f \<longrightarrow> s = Inr g \<longrightarrow> f_status f = f_status g)"

lemma same_statusD: "same_status r s \<Longrightarrow> r = Inr f \<Longrightarrow> s = Inr g \<Longrightarrow> f_status f = f_status g"
  by (simp add: same_status_def)

lemma same_status_refl [simp]: "same_status r r"
  by (auto simp: same_status_def)

lemma same_status_if:
  "(b \<Longrightarrow> same_status r r') \<Longrightarrow> (\<not> b \<Longrightarrow> same_status s s') \<Longrightarrow>
    same_status (if b then r else s) (if b then r' else s')"
  by simp

lemma same_status_rbind:
  "(\<And>x. same_status (f x) (g x)) \<Longrightarrow> same_status (rbind r f) (rbind r g)"
  by (cases r) (simp_all add: same_status_def)

lemma same_status_yields:
  assumes "yields (\<lambda>f. f_status f = x) r" and "yields (\<lambda>f. f_status f = x) s"
  shows "same_status r s"
  using assms by (auto simp: same_status_def dest: yieldsD)

text \<open>What the rules read of the case: everything but the order of its documents.\<close>

lemma reordered_reads:
  assumes "reordered R v w"
  shows "event_dict (dict_of w) = event_dict (dict_of v)"
    and "links_evidence R' (dict_of w) = links_evidence R' (dict_of v)"
    and "legacy_unbound_evidence R' (dict_of w) = legacy_unbound_evidence R' (dict_of v)"
    and "ditem ''schema_version'' (dict_of w) = ditem ''schema_version'' (dict_of v)"
    and "dget ''validation_migration'' (dict_of w) = dget ''validation_migration'' (dict_of v)"
    and "document_by_type (dict_of w) ''PROCESS_FLOW'' = document_by_type (dict_of v) ''PROCESS_FLOW''"
    and "document_by_type (dict_of w) ''PFMEA'' = document_by_type (dict_of v) ''PFMEA''"
    and "document_by_type (dict_of w) ''CONTROL_PLAN'' = document_by_type (dict_of v) ''CONTROL_PLAN''"
    and "document_by_type (dict_of w) ''SOP'' = document_by_type (dict_of v) ''SOP''"
    and "document_by_type (dict_of w) ''INSPECTION_RECORD'' = document_by_type (dict_of v) ''INSPECTION_RECORD''"
proof -
  note f = reordered_facts(2,4,5,6)[OF assms]
  show "event_dict (dict_of w) = event_dict (dict_of v)"
    "ditem ''schema_version'' (dict_of w) = ditem ''schema_version'' (dict_of v)"
    "dget ''validation_migration'' (dict_of w) = dget ''validation_migration'' (dict_of v)"
    by (fact f)+
  show "links_evidence R' (dict_of w) = links_evidence R' (dict_of v)"
    by (simp add: links_evidence_def f)
  show "legacy_unbound_evidence R' (dict_of w) = legacy_unbound_evidence R' (dict_of v)"
    by (simp add: fun_eq_iff legacy_unbound_evidence_def f)
qed (rule reordered_by_type[OF assms]; simp add: REQUIRED_DOCUMENT_TYPES_def)+

lemma coverage_status:
  assumes "reordered R v w"
  shows "same_status (rule_process_coverage R' (dict_of v) plan) (rule_process_coverage R' (dict_of w) plan)"
  unfolding rule_process_coverage_def r1_documents_def r1_relations_def reordered_reads[OF assms]
  by (intro same_status_rbind same_status_if same_status_refl same_status_yields[of UNVERIFIABLE])
    (auto simp: r1_missing_inputs_def r1_finding_def intro!: yields_intros)

lemma specification_status:
  assumes "reordered R v w"
  shows "same_status (rule_spec_consistency R' (dict_of v) plan) (rule_spec_consistency R' (dict_of w) plan)"
  unfolding rule_spec_consistency_def rmap.simps r2_documents_def reordered_reads[OF assms]
  by (intro same_status_rbind same_status_if same_status_refl same_status_yields[of UNVERIFIABLE])
    (auto simp: r2_missing_inputs_def r2_finding_def intro!: yields_intros)

lemma control_status:
  assumes "reordered R v w"
  shows "same_status (rule_special_characteristic_control R' (dict_of v) plan)
    (rule_special_characteristic_control R' (dict_of w) plan)"
  unfolding rule_special_characteristic_control_def r3_documents_def r3_missing_risks_def
    reordered_reads[OF assms]
  by (intro same_status_rbind same_status_if same_status_refl same_status_yields[of UNVERIFIABLE])
    (auto simp: r3_missing_inputs_def r3_finding_def intro!: yields_intros)

lemma revision_status:
  assumes "reordered R v w"
  shows "same_status (rule_revision_after_approval R (dict_of v) plan) (rule_revision_after_approval R (dict_of w) plan)"
  using assms rule_revision_after_approval_status[of R v plan] rule_revision_after_approval_status[of R w plan]
    reordered_facts(1,3)[OF assms]
  by (simp add: same_status_def reordered_def)

lemma references_status:
  assumes "reordered R v w"
  shows "same_status (rule_inspection_current_references R' (dict_of v) plan rc)
    (rule_inspection_current_references R' (dict_of w) plan rc)"
  unfolding rule_inspection_current_references_def reordered_reads[OF assms]
  by (intro same_status_rbind same_status_if same_status_refl same_status_yields[of UNVERIFIABLE])
    (auto simp: r5_finding_def intro!: yields_intros)

lemma validation_status:
  assumes "reordered R v w"
  shows "rule_validation_evidence R' (dict_of w) plan vc = rule_validation_evidence R' (dict_of v) plan vc"
  unfolding rule_validation_evidence_def r6_no_context_def r6_compare_def r6_report_def comparisons_def
    reordered_reads[OF assms] ..

lemma approval_status:
  assumes "reordered R v w"
  shows "rule_high_risk_approval R' (dict_of w) plan = rule_high_risk_approval R' (dict_of v) plan"
  unfolding rule_high_risk_approval_def reordered_reads[OF assms] ..

lemma rule_answers_reordered:
  assumes re: "reordered R v w"
    and "rule_answers R (dict_of v) plan rc vc = Inr fs" and "rule_answers R (dict_of w) plan rc vc = Inr gs"
  shows "map f_status gs = map f_status fs"
proof -
  from assms(2) obtain f1 f2 f3 f4 f5 f6 f7 where fs: "fs = [f1, f2, f3, f4, f5, f6, f7]"
    "rule_process_coverage R (dict_of v) plan = Inr f1"
    "rule_spec_consistency R (dict_of v) plan = Inr f2"
    "rule_special_characteristic_control R (dict_of v) plan = Inr f3"
    "rule_revision_after_approval R (dict_of v) plan = Inr f4"
    "rule_inspection_current_references R (dict_of v) plan rc = Inr f5"
    "rule_validation_evidence R (dict_of v) plan vc = Inr f6"
    "rule_high_risk_approval R (dict_of v) plan = Inr f7" by (rule rule_answers_list)
  from assms(3) obtain g1 g2 g3 g4 g5 g6 g7 where gs: "gs = [g1, g2, g3, g4, g5, g6, g7]"
    "rule_process_coverage R (dict_of w) plan = Inr g1"
    "rule_spec_consistency R (dict_of w) plan = Inr g2"
    "rule_special_characteristic_control R (dict_of w) plan = Inr g3"
    "rule_revision_after_approval R (dict_of w) plan = Inr g4"
    "rule_inspection_current_references R (dict_of w) plan rc = Inr g5"
    "rule_validation_evidence R (dict_of w) plan vc = Inr g6"
    "rule_high_risk_approval R (dict_of w) plan = Inr g7" by (rule rule_answers_list)
  from same_statusD[OF coverage_status[OF re] fs(2) gs(2)]
    same_statusD[OF specification_status[OF re] fs(3) gs(3)]
    same_statusD[OF control_status[OF re] fs(4) gs(4)]
    same_statusD[OF revision_status[OF re] fs(5) gs(5)]
    same_statusD[OF references_status[OF re] fs(6) gs(6)]
    fs(7,8) gs(7,8) validation_status[OF re] approval_status[OF re]
  show ?thesis by (simp add: fs(1) gs(1))
qed

section \<open>The run\<close>

lemma evaluate_prepared_reordered:
  assumes v: "validate_case R (JDict c) = Inr ()"
    and d: "dget ''documents'' c = JList docs" "mset docs = mset docs'"
    and "evaluate_prepared R (JDict c) rc vc = Inr r"
    and "evaluate_prepared R (JDict (dset ''documents'' (JList docs') c)) rc vc = Inr s"
  shows "rr_run_id s = rr_run_id r \<and> rr_case_hash s = rr_case_hash r
    \<and> rr_impact_plan s = rr_impact_plan r \<and> rr_overall_status s = rr_overall_status r
    \<and> map f_status (rr_findings s) = map f_status (rr_findings r)"
proof -
  let ?c' = "dset ''documents'' (JList docs') c"
  note re = reordered_case[OF v d]
  from assms(4) obtain p fs h i where r: "build_impact_plan R c = Inr p"
    "rule_answers R c p rc vc = Inr fs" "canonical_hash R (JDict c) = Inr h" "run_id_of R h rc vc = Inr i"
    "rr_run_id r = JStr i" "rr_case_hash r = JStr h" "rr_findings r = fs" "rr_impact_plan r = p"
    "rr_overall_status r = overall_status (map f_status fs)"
    by (rule evaluate_preparedE) simp
  from assms(5) obtain q gs k j where s: "build_impact_plan R ?c' = Inr q"
    "rule_answers R ?c' q rc vc = Inr gs" "canonical_hash R (JDict ?c') = Inr k" "run_id_of R k rc vc = Inr j"
    "rr_run_id s = JStr j" "rr_case_hash s = JStr k" "rr_findings s = gs" "rr_impact_plan s = q"
    "rr_overall_status s = overall_status (map f_status gs)"
    by (rule evaluate_preparedE) simp
  have q: "q = p" using reordered_plan[OF re, of R] r(1) s(1) by simp
  moreover have "k = h" using canonical_hash_reorder[OF v d] r(3) s(3) by simp
  moreover from this have "j = i" using r(4) s(4) by simp
  moreover have "map f_status gs = map f_status fs"
    using rule_answers_reordered[OF re, of p rc vc fs gs] r(2) s(2) q by simp
  ultimately show ?thesis using r(5-9) s(5-9) by simp
qed

end
