(* ===== verification/Demo_Run.thy ===== *)
theory Demo_Run
  imports Order_Facts Demo_Case
begin

text \<open>
  The runs of the demonstration case: its plan, a sealed context of each kind, and the answers
  of the rules on them.
\<close>

definition demo_impact :: impact_plan where
  "demo_impact = plan_of demo_runtime (event_of (JDict demo_case))"

lemma demo_regular: "regular_case (JDict demo_case)"
  by code_simp

definition demo_reference_context :: reference_context where
  "demo_reference_context =
     \<lparr>rc_contract_version = REFERENCE_CONTRACT_VERSION, rc_reference_set_hash = demo_sha CHR ''9'',
      rc_inspection_document_id = ''IR-1'',
      rc_references = JDict [(''SOP'', demo_reference ''SOP'' ''SOP-1'' CHR ''4''),
        (''CONTROL_PLAN'', demo_reference ''CONTROL_PLAN'' ''CP-1'' CHR ''3'')],
      rc_evidence = JDict [(''CONTROL_PLAN'', JDict [(''inspection'', JDict
        [(''revision'', JStr ''B''), (''source_hash'', JStr (demo_sha CHR ''5''))])])],
      rc_sealed = True\<rparr>"

definition demo_report :: json where
  "demo_report = JDict
     [(''evidence_id'', JStr ''E-1''), (''result'', JStr ''PASS''), (''event_id'', JStr ''EV-1''),
      (''event_revision'', JStr ''2''), (''scope_digest'', JStr (demo_sha CHR ''6'')),
      (''case_subject_hash'', JStr (demo_sha CHR ''7'')), (''evidence_type'', JStr ''MSA''),
      (''claim'', JStr ''gauge capable''), (''issuer_id'', JStr ''lab''), (''issuer_role'', JStr ''LAB''),
      (''ruleset_version'', JStr RULESET_VERSION), (''case_schema_version'', JStr CASE_SCHEMA_VERSION),
      (''performed_at'', JStr ''2026-02-01T08:00:00Z''), (''issued_at'', JStr ''2026-02-02T08:00:00Z''),
      (''source_id'', JStr ''S-1''), (''locator'', JStr ''e1.json#/result''),
      (''source_hash'', JStr (demo_sha CHR ''8''))]"

definition demo_validation_context :: validation_context where
  "demo_validation_context =
     \<lparr>vc_phase = ''SOURCE'', vc_contract_version = VALIDATION_CONTRACT_VERSION,
      vc_evidence_set_hash = demo_sha CHR ''a'', vc_case_subject_hash = demo_sha CHR ''7'',
      vc_scope_digest = demo_sha CHR ''6'', vc_reports = JList [demo_report],
      vc_witnesses = [], vc_sealed = True\<rparr>"

lemma demo_sealed_reference: "sealed_reference (Some demo_reference_context)"
proof -
  have "rc_sealed demo_reference_context \<and> good_reference_context demo_reference_context
     \<and> is_lower_sha (rc_reference_set_hash demo_reference_context)
     \<and> rc_contract_version demo_reference_context = REFERENCE_CONTRACT_VERSION" by code_simp
  then show ?thesis by (simp add: sealed_reference_def)
qed

lemma demo_sealed_validation: "sealed_validation (Some demo_validation_context)"
proof -
  have "vc_sealed demo_validation_context \<and> good_validation_context demo_validation_context
     \<and> is_lower_sha (vc_evidence_set_hash demo_validation_context)
     \<and> vc_contract_version demo_validation_context = VALIDATION_CONTRACT_VERSION" by code_simp
  then show ?thesis by (simp add: sealed_validation_def)
qed

lemma demo_r5: "status_of (rule_inspection_current_references demo_runtime demo_case demo_impact
    (Some demo_reference_context)) = Some PASS"
  by code_simp

lemma demo_r6: "status_of (rule_validation_evidence demo_runtime demo_case demo_impact
    (Some demo_validation_context)) = Some PASS"
  by code_simp

lemma demo_r1: "status_of (rule_process_coverage demo_runtime demo_case demo_impact) = Some PASS"
  by code_simp

lemma demo_r2: "status_of (rule_spec_consistency demo_runtime demo_case demo_impact) = Some PASS"
  by code_simp

lemma demo_r3: "status_of (rule_special_characteristic_control demo_runtime demo_case demo_impact) = Some PASS"
  by code_simp

lemma demo_r4: "status_of (rule_revision_after_approval demo_runtime demo_case demo_impact) = Some PASS"
  by code_simp

lemma demo_r7: "status_of (rule_high_risk_approval demo_runtime demo_case demo_impact) = Some PASS"
  by code_simp

end
