(* ===== verification/Rule_Properties.thy ===== *)
theory Rule_Properties
  imports Demo_Run
begin


lemma status_of_SomeE:
  assumes "status_of r = Some s"
  obtains f where "r = Inr f" and "f_status f = s"
  using assms by (auto simp: status_of_def split: sum.splits)

section \<open>The relationship rules\<close>







section \<open>The gates\<close>

text \<open>
  C13. QCI-R004 passes exactly when the event carries an approval date and every approved document
  is dated on or after it or has a valid waiver.
\<close>

theorem revisions_follow_approval:
  assumes "validate_case R v = Inr ()" and "rule_revision_after_approval R (dict_of v) plan = Inr f"
  shows "f_status f = PASS \<longleftrightarrow> truthy (dget ''approved_at'' (event_of v)) \<and>
    (\<exists>a. parse_date (dget ''approved_at'' (event_of v)) = Inr a
       \<and> (\<forall>d \<in> set (documents_of v). is_approved d \<longrightarrow> date_ok (event_of v) a d))"
  by (rule rule_revision_after_approval_pass[OF assms])

theorem revisions_follow_approval_witness:
  "\<exists>a. parse_date (dget ''approved_at'' (event_of (JDict demo_case))) = Inr a
    \<and> (\<forall>d \<in> set (documents_of (JDict demo_case)). is_approved d \<longrightarrow> date_ok (event_of (JDict demo_case)) a d)"
proof -
  from demo_r4 obtain f where f: "rule_revision_after_approval demo_runtime demo_case demo_impact = Inr f"
    "f_status f = PASS" by (rule status_of_SomeE)
  show ?thesis
    using revisions_follow_approval[OF demo_case_valid, unfolded dict_of.simps, OF f(1)] f(2) by blast
qed

text \<open>
  C14. QCI-R005 passes only with a sealed context, for an inspection record that is the one the
  context was sealed for, whose references are exactly those of the SOP and the control plan, each
  equal to the sealed identity and to the identity of the current approved document.
\<close>

theorem references_need_sealed_bytes:
  assumes "validate_case R v = Inr ()"
    and "rule_inspection_current_references R (dict_of v) plan ctx = Inr f" and "f_status f = PASS"
  shows "\<exists>x refs. ctx = Some x \<and> rc_sealed x
    \<and> dget ''references'' (doc_fields (approved_document v ''INSPECTION_RECORD'')) = JDict refs
    \<and> set (map fst refs) = {''SOP'', ''CONTROL_PLAN''}
    \<and> dget ''document_id'' (approved_document v ''INSPECTION_RECORD'') = JStr (rc_inspection_document_id x)
    \<and> current_reference R x refs ''SOP'' (approved_document v ''SOP'')
    \<and> current_reference R x refs ''CONTROL_PLAN'' (approved_document v ''CONTROL_PLAN'')"
  using rule_inspection_current_references_pass[OF assms] by blast

theorem references_need_sealed_bytes_witness:
  "\<exists>refs. dget ''references'' (doc_fields (approved_document (JDict demo_case) ''INSPECTION_RECORD'')) = JDict refs
    \<and> current_reference demo_runtime demo_reference_context refs ''SOP''
        (approved_document (JDict demo_case) ''SOP'')"
proof -
  from demo_r5 obtain f where "rule_inspection_current_references demo_runtime demo_case demo_impact
    (Some demo_reference_context) = Inr f" "f_status f = PASS" by (rule status_of_SomeE)
  from references_need_sealed_bytes[OF demo_case_valid, unfolded dict_of.simps, OF this]
  show ?thesis by auto
qed

text \<open>
  C15. QCI-R006 passes only with a sealed context whose reports are exactly those the validation
  plan requires, each of them passing, for this event, revision, scope and case subject, from the
  required issuer, and inside the required window of time.
\<close>

theorem validation_needs_matching_reports:
  assumes "validate_case R v = Inr ()"
    and "rule_validation_evidence R (dict_of v) plan ctx = Inr f" and "f_status f = PASS"
  shows "\<exists>x. ctx = Some x \<and> vc_sealed x \<and> is_dict (dget ''validation_plan'' (event_of v))
    \<and> set (map fst (plan_requirements (event_of v))) = set (map fst (context_report_items x))
    \<and> (\<forall>k \<in> set (map fst (plan_requirements (event_of v))).
         supports (dict_of v) (event_of v) x (last_of (plan_requirements (event_of v)) k)
           (last_of (context_report_items x) k))"
  by (rule rule_validation_evidence_pass[OF assms])

theorem validation_needs_matching_reports_witness:
  "list_all (\<lambda>k. supports demo_case (event_of (JDict demo_case)) demo_validation_context
       (last_of (plan_requirements (event_of (JDict demo_case))) k)
       (last_of (context_report_items demo_validation_context) k))
     (map fst (plan_requirements (event_of (JDict demo_case))))"
proof -
  from demo_r6 obtain f where "rule_validation_evidence demo_runtime demo_case demo_impact
    (Some demo_validation_context) = Inr f" "f_status f = PASS" by (rule status_of_SomeE)
  from validation_needs_matching_reports[OF demo_case_valid, unfolded dict_of.simps, OF this]
  show ?thesis unfolding option.inject list_all_iff by blast
qed



end
