(* ===== verification/Engine_Properties.thy ===== *)
theory Engine_Properties
  imports Demo_Run
begin

text \<open>
  The properties of \<open>engine.py\<close>, \<open>impact.py\<close> and \<open>RunResult\<close>: a regular case always yields a
  result, no result of a plain JSON case is PASS, the overall status is the worst of the seven
  findings, the order of documents is irrelevant, and the inputs on which validation is too weak.
\<close>

section \<open>Results\<close>


lemma prepare_current:
  assumes "validate_case R w = Inr ()"
  shows "prepare_case R w = Inr w"
proof -
  obtain c where "w = JDict c" using validate_case_header_facts(1)[OF assms] by (rule is_dictE)
  with assms validate_case_header_facts(6)[OF assms] show ?thesis
    by (simp add: prepare_case_def migrate_current)
qed

lemma demo_prepared: "prepare_case demo_runtime (JDict demo_case) = Inr (JDict demo_case)"
  by (rule prepare_current[OF demo_case_valid])


text \<open>
  C8. A run of a plain JSON case is never PASS: the two rules that need raw evidence do not pass
  without a sealed context, whatever markers the JSON contains.
\<close>

theorem plain_json_never_passes:
  assumes "run_case R v = Inr r"
  shows "rr_overall_status r \<noteq> PASS
    \<and> (\<forall>f \<in> set (rr_findings r). f_rule_id f \<in> {''QCI-R005'', ''QCI-R006''} \<longrightarrow> f_status f \<noteq> PASS)"
proof -
  from assms obtain p where v: "validate_case R p = Inr ()" and e: "evaluate_prepared R p None None = Inr r"
    unfolding run_case_def by (rule evaluate_caseE)
  from e obtain plan fs where a: "rule_answers R (dict_of p) plan None None = Inr fs"
    and r: "rr_findings r = fs" "rr_overall_status r = overall_status (map f_status fs)"
    by (rule evaluate_preparedE) simp
  from a obtain f1 f2 f3 f4 f5 f6 f7 where fs: "fs = [f1, f2, f3, f4, f5, f6, f7]"
    and f: "rule_inspection_current_references R (dict_of p) plan None = Inr f5"
      "rule_validation_evidence R (dict_of p) plan None = Inr f6"
    by (rule rule_answers_list) simp
  have 5: "f_status f5 \<noteq> PASS" using rule_inspection_current_references_pass[OF v f(1)] by auto
  have 6: "f_status f6 \<noteq> PASS" using rule_validation_evidence_pass[OF v f(2)] by auto
  have ids: "map f_rule_id fs = RULE_IDS" by (rule rule_answers_contract(1)[OF v a])
  have "overall_status (map f_status fs) \<noteq> PASS"
    using 5 fs by (cases "f_status f5") (auto simp: overall_status_def)
  moreover have "\<forall>f \<in> set fs. f_rule_id f \<in> {''QCI-R005'', ''QCI-R006''} \<longrightarrow> f_status f \<noteq> PASS"
    using 5 6 ids by (simp add: fs RULE_IDS_def)
  ultimately show ?thesis using r by simp
qed

lemma no_contexts: "sealed_reference None" "sealed_validation None"
  by (simp_all add: sealed_reference_def sealed_validation_def)

lemma demo_run: "\<exists>r. run_case demo_runtime (JDict demo_case) = Inr r"
  using evaluate_case_total[OF demo_prepared demo_regular no_contexts]
  by (auto simp: run_case_def elim: okE)

theorem plain_json_never_passes_witness:
  "\<exists>r. run_case demo_runtime (JDict demo_case) = Inr r \<and> rr_overall_status r \<noteq> PASS"
  using demo_run plain_json_never_passes by blast

text \<open>
  C9. The findings of a result are the answers of the seven rules in order; each cites evidence and
  has severity LOW exactly when it passes; the overall status is the worst status of them.
\<close>

theorem findings_contract:
  assumes "evaluate_case R v rc vc = Inr r"
  shows "map f_rule_id (rr_findings r) = RULE_IDS
    \<and> (\<forall>f \<in> set (rr_findings r). f_evidence f \<noteq> [] \<and> (f_status f = PASS \<longleftrightarrow> f_severity f = ''LOW''))
    \<and> rr_overall_status r = Max (f_status ` set (rr_findings r))"
proof -
  from assms obtain p where v: "validate_case R p = Inr ()" and e: "evaluate_prepared R p rc vc = Inr r"
    by (rule evaluate_caseE)
  from e obtain plan fs where a: "rule_answers R (dict_of p) plan rc vc = Inr fs"
    and r: "rr_findings r = fs" "rr_overall_status r = overall_status (map f_status fs)"
    by (rule evaluate_preparedE) simp
  note c = rule_answers_contract[OF v a]
  have "map f_status fs \<noteq> []" using c(1) by (auto simp: RULE_IDS_def)
  from overall_status_Max[OF this] c r show ?thesis by simp
qed

theorem findings_contract_witness:
  "\<exists>r. run_case demo_runtime (JDict demo_case) = Inr r \<and> map f_rule_id (rr_findings r) = RULE_IDS
    \<and> rr_overall_status r = Max (f_status ` set (rr_findings r))"
  using demo_run findings_contract[of demo_runtime "JDict demo_case" None None]
  unfolding run_case_def by blast

section \<open>The order of the documents\<close>

text \<open>
  C17. Reordering the documents of a case changes neither the identity of the run, the case hash
  and the plan, nor the status of any rule.
\<close>

theorem document_order_keeps_run:
  assumes "validate_case R (JDict c) = Inr ()" and "dget ''documents'' c = JList docs"
    and "mset docs = mset docs'"
    and "evaluate_case R (JDict c) rc vc = Inr r"
    and "evaluate_case R (JDict (dset ''documents'' (JList docs') c)) rc vc = Inr s"
  shows "rr_run_id s = rr_run_id r \<and> rr_case_hash s = rr_case_hash r
    \<and> rr_impact_plan s = rr_impact_plan r \<and> rr_overall_status s = rr_overall_status r
    \<and> map f_status (rr_findings s) = map f_status (rr_findings r)"
proof -
  have "evaluate_prepared R (JDict c) rc vc = Inr r"
    "evaluate_prepared R (JDict (dset ''documents'' (JList docs') c)) rc vc = Inr s"
    using assms(4,5) prepare_current[OF assms(1)] prepare_current[OF validate_case_reorder[OF assms(1-3)]]
    by (simp_all add: evaluate_case_def)
  then show ?thesis by (rule evaluate_prepared_reordered[OF assms(1-3)])
qed

lemma demo_documents_get: "dget ''documents'' demo_case = JList demo_documents"
  by (simp add: demo_case_def dget_def dget_or_def)

definition demo_swapped :: dict where
  "demo_swapped = dset ''documents'' (JList (rev demo_documents)) demo_case"

lemma demo_swapped_run: "\<exists>r. run_case demo_runtime (JDict demo_swapped) = Inr r"
proof -
  have v: "validate_case demo_runtime (JDict demo_swapped) = Inr ()"
    unfolding demo_swapped_def by (rule validate_case_reorder[OF demo_case_valid demo_documents_get]) simp
  have "regular_case (JDict demo_swapped)" by code_simp
  from evaluate_case_total[OF prepare_current[OF v] this no_contexts]
  show ?thesis by (auto simp: run_case_def elim: okE)
qed

theorem document_order_keeps_run_witness:
  "\<exists>r s. run_case demo_runtime (JDict demo_case) = Inr r \<and> run_case demo_runtime (JDict demo_swapped) = Inr s
    \<and> rr_run_id s = rr_run_id r \<and> rr_overall_status s = rr_overall_status r"
proof -
  from demo_run demo_swapped_run obtain r s where
    r: "run_case demo_runtime (JDict demo_case) = Inr r" "run_case demo_runtime (JDict demo_swapped) = Inr s"
    by blast
  from document_order_keeps_run[OF demo_case_valid demo_documents_get, of "rev demo_documents" None None r s] r
  show ?thesis by (auto simp: run_case_def demo_swapped_def)
qed

section \<open>The legacy projection\<close>

text \<open>
  The projection of a plain run to version 3 keeps every member of the old contract but the
  run id, adds none, and its run id is sixteen hexadecimal digits.
\<close>

theorem legacy_projection_exact:
  assumes "legacy_run_result_projection R r = Inr d"
  shows "map fst d = LEGACY_RUN_RESULT_KEYS
    \<and> (\<forall>k \<in> set LEGACY_RUN_RESULT_KEYS. k \<noteq> ''run_id'' \<longrightarrow> dget k d = dget k (run_result_items r))
    \<and> (\<exists>i. dget ''run_id'' d = JStr i \<and> length i = 16 \<and> list_all is_lower_hex_char i)
    \<and> rr_source r = unbound_assurance"
proof -
  from assms obtain i where i: "run_id_for_identity R (legacy_identity (rr_case_hash r) (rr_reference_state r)
             (rr_reference_set_hash r) (rr_reference_version r) (rr_validation_state r)
             (rr_validation_set_hash r) (rr_validation_version r)) = Inr i"
    and s: "rr_source r = unbound_assurance"
    and d: "d = dset ''run_id'' (JStr i) (map (\<lambda>k. (k, dget k (run_result_items r))) LEGACY_RUN_RESULT_KEYS)"
    by (auto simp: legacy_run_result_projection_def rbind_Inr_iff split: if_splits)
  from i obtain h where h: "i = take 16 (sha256_hex (LEGACY_IDENTITY_DOMAIN @ h))"
    by (auto simp: run_id_for_identity_def rbind_Inr_iff)
  have "map fst d = LEGACY_RUN_RESULT_KEYS" by (simp add: d LEGACY_RUN_RESULT_KEYS_def)
  moreover have "dget k d = dget k (run_result_items r)"
    if "k \<in> set LEGACY_RUN_RESULT_KEYS" "k \<noteq> ''run_id''" for k
    using that unfolding d dget_dset by (auto simp: dget_def dget_or_def map_of_map_restrict)
  moreover have "dget ''run_id'' d = JStr i" by (simp add: d dget_def dget_or_def)
  ultimately show ?thesis using h run_id_shape s by blast
qed

lemma plain_run_projects:
  assumes "run_case R v = Inr r"
  shows "ok (legacy_run_result_projection R r)"
proof -
  from assms obtain p where e: "evaluate_prepared R p None None = Inr r"
    unfolding run_case_def by (rule evaluate_caseE)
  from e obtain h where r: "rr_case_hash r = JStr h" "rr_source r = unbound_assurance"
    "rr_contract_version r = JStr RUN_RESULT_CONTRACT_VERSION"
    "rr_identity_version r = JStr RUN_IDENTITY_VERSION"
    "(rr_reference_state r, rr_reference_set_hash r, rr_reference_version r) = reference_assurance None"
    "(rr_validation_state r, rr_validation_set_hash r, rr_validation_version r) = validation_assurance None"
    by (rule evaluate_preparedE) simp
  have "ok (run_id_for_identity R (legacy_identity (rr_case_hash r) (rr_reference_state r)
             (rr_reference_set_hash r) (rr_reference_version r) (rr_validation_state r)
             (rr_validation_set_hash r) (rr_validation_version r)))"
    using r(1,5,6)
    by (simp add: run_id_for_identity_def canonical_hash_def canonical_payload_def is_case_value_def
        legacy_identity_def dget_def dget_or_def json_dumps_def reference_assurance_def
        validation_assurance_def is_sealed_validation_context_def)
  then show ?thesis
    using r(2-4) unbound_assurance_valid
    by (auto simp: legacy_run_result_projection_def intro!: ok_rbind)
qed

theorem legacy_projection_exact_witness:
  "\<exists>r d. run_case demo_runtime (JDict demo_case) = Inr r
    \<and> legacy_run_result_projection demo_runtime r = Inr d \<and> map fst d = LEGACY_RUN_RESULT_KEYS"
proof -
  from demo_run obtain r where r: "run_case demo_runtime (JDict demo_case) = Inr r" by blast
  from plain_run_projects[OF r] obtain d where "legacy_run_result_projection demo_runtime r = Inr d" by (rule okE)
  with legacy_projection_exact[OF this] r show ?thesis by blast
qed

section \<open>Inputs that validation lets through\<close>

text \<open>
  C19. Validation accepts an event whose \<open>affected_links\<close> is null, and every run of such a case
  raises a \<open>TypeError\<close> in the impact plan.
\<close>

theorem null_links_break_the_run:
  assumes "validate_case R v = Inr ()" and "null_links (event_of v)"
  shows "evaluate_case R v rc vc = Inl TypeError"
  using plan_null_links[OF assms] prepare_current[OF assms(1)]
  by (simp add: evaluate_case_def evaluate_prepared_def)

definition demo_null_links :: dict where
  "demo_null_links = dset ''event'' (JDict (dset ''affected_links'' JNull demo_event)) demo_case"

theorem null_links_break_the_run_witness:
  "validate_case demo_runtime (JDict demo_null_links) = Inr ()
    \<and> evaluate_case demo_runtime (JDict demo_null_links) None None = Inl TypeError"
proof -
  have v: "validate_case demo_runtime (JDict demo_null_links) = Inr ()" by code_simp
  have "null_links (event_of (JDict demo_null_links))" by code_simp
  with v null_links_break_the_run[OF v] show ?thesis by simp
qed

text \<open>
  Validation accepts a characteristic whose \<open>control_id\<close> is null outside a control plan, and
  neither the canonical hash nor any run of such a case succeeds.
\<close>

lemma sort_member_keys:
  assumes "sort_member key is_dict k d = Inr d'" and "list_all is_dict (list_of (dget key d))"
    and "x \<in> set (list_of (dget key d))"
  shows "ok (k x)"
proof -
  from assms(3) obtain xs where "dget key d = JList xs" by (cases "dget key d") auto
  with assms obtain ys where "rsort_by k xs = Inr ys" by (auto simp: sort_member_def rbind_Inr_iff)
  from rsort_by_Inr[OF this] assms(3) \<open>dget key d = JList xs\<close> show ?thesis by auto
qed

lemma null_control_row_key:
  assumes "dhas ''control_id'' (dict_of x)" and "dget ''control_id'' (dict_of x) = JNull"
  shows "\<not> ok (row_key R ''control_id'' x)"
  using assms by (auto simp: row_key_def ok_iff rbind_Inr_iff item_identity_def dget_or_dget)

theorem null_control_id_breaks_the_hash:
  assumes v: "validate_case R v = Inr ()" and doc: "doc \<in> set (documents_of v)"
    and x: "x \<in> set (rows_of ''characteristics'' doc)"
    and null: "dhas ''control_id'' (dict_of x)" "dget ''control_id'' (dict_of x) = JNull"
  shows "\<not> ok (canonical_hash R v) \<and> \<not> ok (evaluate_case R v rc vc)"
proof -
  have "\<not> ok (project_document R (JDict doc))"
  proof
    assume "ok (project_document R (JDict doc))"
    then obtain f1 f2 where f1: "sort_member ''process_steps'' is_str (identity_of R) (doc_fields doc) = Inr f1"
      and f2: "sort_member ''characteristics'' is_dict (row_key R ''control_id'') f1 = Inr f2"
      by (auto simp: project_document_def project_fields_def ok_iff rbind_Inr_iff
          validate_document_facts(10)[OF validate_case_document[OF v doc]])
    have "dget ''characteristics'' f1 = dget ''characteristics'' (doc_fields doc)"
      by (rule sort_member_result(2)[OF f1]) simp
    moreover have "list_all is_dict (rows_of ''characteristics'' doc)"
      using validated_rows(2)[OF validate_case_document[OF v doc], of "''characteristics''"]
      by (auto simp: list_all_iff good_row_def)
    ultimately have "ok (row_key R ''control_id'' x)"
      using sort_member_keys[OF f2] x by (simp add: rows_of_def)
    with null_control_row_key[OF null] show False by simp
  qed
  moreover have "ok (project_document R (JDict doc))" if "canonical_payload R v = Inr t" for t
  proof -
    from that obtain c c' where c: "project_case_event R (dict_of v) = Inr c" "project_documents R c = Inr c'"
      by (auto simp: canonical_payload_valid[OF v] canonical_case_projection_def rbind_Inr_iff)
    have "dget ''documents'' c = JList (map JDict (documents_of v))"
      using c(1) validate_case_documents(1)[OF v]
      by (auto simp: project_case_event_def rbind_Inr_iff split: json.splits)
    moreover have "list_all is_dict (map JDict (documents_of v))" by (simp add: list_all_iff)
    ultimately obtain ds ws where ds: "rsort_by (item_identity R ''document_id'') (map JDict (documents_of v)) = Inr ds"
      and ws: "rmap (project_document R) ds = Inr ws"
      using c(2) by (auto simp: project_documents_def rbind_Inr_iff)
    from rsort_by_Inr[OF ds] doc have "JDict doc \<in> set ds" by auto
    with ws show ?thesis by (auto simp: rmap_Inr list_all2_conv_all_nth in_set_conv_nth ok_iff)
  qed
  ultimately have h: "\<not> ok (canonical_hash R v)"
    by (auto simp: canonical_hash_def ok_iff rbind_Inr_iff)
  moreover have "\<not> ok (evaluate_case R v rc vc)"
    using h by (auto simp: evaluate_case_def prepare_current[OF v] ok_iff elim!: evaluate_preparedE)
  ultimately show ?thesis by blast
qed

definition demo_null_control :: dict where
  "demo_null_control = dset ''documents'' (JList (map (\<lambda>d.
     if dget ''document_id'' (dict_of d) = JStr ''SOP-1''
     then demo_document ''SOP'' ''SOP-1'' CHR ''4'' [demo_steps,
       (''characteristics'', JList [demo_characteristic [(''control_id'', JNull)]])] []
     else d) demo_documents)) demo_case"

theorem null_control_id_breaks_the_hash_witness:
  "validate_case demo_runtime (JDict demo_null_control) = Inr ()
    \<and> \<not> ok (canonical_hash demo_runtime (JDict demo_null_control))"
proof -
  have v: "validate_case demo_runtime (JDict demo_null_control) = Inr ()" by code_simp
  let ?doc = "documents_of (JDict demo_null_control) ! 3"
  have "?doc \<in> set (documents_of (JDict demo_null_control))"
    by (rule nth_mem) code_simp
  moreover have "demo_characteristic [(''control_id'', JNull)] \<in> set (rows_of ''characteristics'' ?doc)"
    by code_simp
  moreover have "dhas ''control_id'' (dict_of (demo_characteristic [(''control_id'', JNull)]))"
    "dget ''control_id'' (dict_of (demo_characteristic [(''control_id'', JNull)])) = JNull"
    by code_simp+
  ultimately show ?thesis using null_control_id_breaks_the_hash[OF v] v by blast
qed

end
