(* ===== verification/Strict_Json.thy ===== *)
theory Strict_Json
  imports Loader_Core
begin

text \<open>
  \<open>strict_json_loads\<close> of \<open>loader.py\<close>: \<open>json.loads\<close> of a text, with duplicate keys and
  numbers outside the finite floats refused, and the canonical bytes the other modules compare
  raw bytes with.  The parser reads a text from the left and returns the value and what is left.

  A text is its UTF-8 encoding; an unpaired surrogate, which only an escape can produce, is the
  three bytes its code point would have, and such a text is refused where it is encoded.
\<close>

section \<open>UTF-8\<close>

definition utf8_of_code :: "nat \<Rightarrow> string" where
  "utf8_of_code n =
     (if n < 128 then [char_of n]
      else if n < 2048 then [char_of (192 + n div 64), char_of (128 + n mod 64)]
      else if n < 65536 then
        [char_of (224 + n div 4096), char_of (128 + n div 64 mod 64), char_of (128 + n mod 64)]
      else [char_of (240 + n div 262144), char_of (128 + n div 4096 mod 64),
            char_of (128 + n div 64 mod 64), char_of (128 + n mod 64)])"

text \<open>
  \<open>raw.decode("utf-8")\<close> succeeds: no overlong form, no surrogate, nothing above U+10FFFF.
\<close>

definition byte_between :: "nat \<Rightarrow> nat \<Rightarrow> char \<Rightarrow> bool" where
  "byte_between lo hi a \<longleftrightarrow> lo \<le> of_char a \<and> of_char a \<le> (hi :: nat)"

text \<open>The number of bytes of the character a text starts with, or 0.\<close>

fun utf8_len :: "string \<Rightarrow> nat" where
  "utf8_len [] = 0"
| "utf8_len (a # s) =
     (if byte_between 0 127 a then 1
      else if byte_between 194 223 a \<and> 1 \<le> length s \<and> byte_between 128 191 (s ! 0) then 2
      else if byte_between 224 239 a \<and> 2 \<le> length s
        \<and> byte_between (if byte_between 224 224 a then 160 else 128)
            (if byte_between 237 237 a then 159 else 191) (s ! 0)
        \<and> byte_between 128 191 (s ! 1) then 3
      else if byte_between 240 244 a \<and> 3 \<le> length s
        \<and> byte_between (if byte_between 240 240 a then 144 else 128)
            (if byte_between 244 244 a then 143 else 191) (s ! 0)
        \<and> byte_between 128 191 (s ! 1) \<and> byte_between 128 191 (s ! 2) then 4
      else 0)"

fun utf8_valid :: "string \<Rightarrow> bool" where
  "utf8_valid [] = True"
| "utf8_valid (a # s) = (case utf8_len (a # s) of 0 \<Rightarrow> False | Suc n \<Rightarrow> utf8_valid (drop n s))"

section \<open>Tokens\<close>

definition json_error :: "string \<Rightarrow> 'a res" where
  "json_error message = Inl (ValueError message)"

definition json_ws :: "char \<Rightarrow> bool" where
  "json_ws a \<longleftrightarrow> a \<in> set [CHR 0x20, CHR 0x09, CHR 0x0A, CHR 0x0D]"

definition skip_ws :: "string \<Rightarrow> string" where
  "skip_ws s = dropWhile json_ws s"

text \<open>The prefix \<open>p\<close> taken off a text.\<close>

definition strip_prefix :: "string \<Rightarrow> string \<Rightarrow> string option" where
  "strip_prefix p s = (if take (length p) s = p then Some (drop (length p) s) else None)"

subsection \<open>Strings\<close>

definition hex_char_val :: "char \<Rightarrow> nat option" where
  "hex_char_val a =
     (let n = of_char a :: nat in
      if 48 \<le> n \<and> n \<le> 57 then Some (n - 48)
      else if 97 \<le> n \<and> n \<le> 102 then Some (n - 87)
      else if 65 \<le> n \<and> n \<le> 70 then Some (n - 55)
      else None)"

text \<open>The code unit of a four-digit escape, read after the \<open>u\<close>.\<close>

definition hex4 :: "string \<Rightarrow> nat option" where
  "hex4 s =
     (case map hex_char_val (take 4 s) of
        [Some a, Some b, Some c, Some d] \<Rightarrow> Some (((a * 16 + b) * 16 + c) * 16 + d)
      | _ \<Rightarrow> None)"

text \<open>
  The code point of an escape and the length of what follows the first four digits: a high
  surrogate takes the low one after it, if there is one.
\<close>

definition escape_code :: "nat \<Rightarrow> string \<Rightarrow> nat \<times> nat" where
  "escape_code u r =
     (if 55296 \<le> u \<and> u \<le> 56319 \<and> take 2 r = [CHR 0x5C, CHR ''u'']
      then (case hex4 (drop 2 r) of
              Some l \<Rightarrow> (if 56320 \<le> l \<and> l \<le> 57343
                then (65536 + (u - 55296) * 1024 + (l - 56320), 6) else (u, 0))
            | None \<Rightarrow> (u, 0))
      else (u, 0))"

definition simple_escape :: "char \<Rightarrow> char option" where
  "simple_escape a =
     map_of [(CHR 0x22, CHR 0x22), (CHR 0x5C, CHR 0x5C), (CHR ''/'', CHR ''/''),
             (CHR ''b'', CHR 0x08), (CHR ''f'', CHR 0x0C), (CHR ''n'', CHR 0x0A),
             (CHR ''r'', CHR 0x0D), (CHR ''t'', CHR 0x09)] a"

definition prepend :: "string \<Rightarrow> (string \<times> string) res \<Rightarrow> (string \<times> string) res" where
  "prepend p r = rbind r (\<lambda>tr. Inr (p @ fst tr, snd tr))"

text \<open>What follows an opening quote, up to the closing one.\<close>

fun scan_string :: "string \<Rightarrow> (string \<times> string) res" where
  "scan_string [] = json_error ''Unterminated string starting at''"
| "scan_string (a # s) =
     (if a = CHR 0x22 then Inr ([], s)
      else if a = CHR 0x5C then
        (case s of
           [] \<Rightarrow> json_error ''Unterminated string starting at''
         | b # r \<Rightarrow>
             (if b = CHR ''u'' then
                (case hex4 r of
                   None \<Rightarrow> json_error (''Invalid '' @ [CHR 0x5C] @ ''uXXXX escape'')
                 | Some u \<Rightarrow>
                     prepend (utf8_of_code (fst (escape_code u (drop 4 r))))
                       (scan_string (drop (4 + snd (escape_code u (drop 4 r))) r)))
              else
                (case simple_escape b of
                   None \<Rightarrow> json_error (''Invalid '' @ [CHR 0x5C] @ ''escape: '')
                 | Some c \<Rightarrow> prepend [c] (scan_string r))))
      else if (of_char a :: nat) < 32 then json_error ''Invalid control character at''
      else prepend [a] (scan_string s))"

subsection \<open>Numbers\<close>

definition int_part :: "string \<Rightarrow> string" where
  "int_part s =
     (let ds = takeWhile is_digit s in
      if ds \<noteq> [] \<and> hd ds = CHR ''0'' then ''0'' else ds)"

definition fraction_part :: "string \<Rightarrow> string" where
  "fraction_part s =
     (if take 1 s = ''.'' \<and> takeWhile is_digit (drop 1 s) \<noteq> []
      then CHR ''.'' # takeWhile is_digit (drop 1 s) else [])"

definition exponent_part :: "string \<Rightarrow> string" where
  "exponent_part s =
     (if take 1 s = ''e'' \<or> take 1 s = ''E'' then
        (let n = (if take 1 (drop 1 s) = ''+'' \<or> take 1 (drop 1 s) = ''-'' then 2 else 1);
             ds = takeWhile is_digit (drop n s)
         in if ds \<noteq> [] then take n s @ ds else [])
      else [])"

text \<open>\<open>int(text)\<close> refuses more digits than the interpreter's limit.\<close>

definition MAX_INT_DIGITS :: nat where "MAX_INT_DIGITS = 4300"

definition int_of_text :: "bool \<Rightarrow> string \<Rightarrow> json res" where
  "int_of_text negative ds =
     (if MAX_INT_DIGITS < length ds then json_error ''Exceeds the limit''
      else Inr (JInt (if negative then - int (digits_val ds) else int (digits_val ds))))"

text \<open>\<open>_strict_json_float\<close>.\<close>

definition strict_json_float :: "runtime \<Rightarrow> string \<Rightarrow> json res" where
  "strict_json_float R t =
     (let parsed = rt_float_of_text R t in
      if finite_float parsed then Inr (JFloat parsed)
      else json_error ''non-finite JSON number is not allowed: '')"

definition parse_number :: "runtime \<Rightarrow> string \<Rightarrow> (json \<times> string) res" where
  "parse_number R s =
     (let sign = (if take 1 s = ''-'' then ''-'' else []);
          s1 = drop (length sign) s; ip = int_part s1;
          s2 = drop (length ip) s1; fp = fraction_part s2;
          s3 = drop (length fp) s2; ep = exponent_part s3;
          rest = drop (length ep) s3
      in if ip = [] then json_error ''Expecting value''
         else if fp = [] \<and> ep = [] then rbind (int_of_text (sign \<noteq> []) ip) (\<lambda>v. Inr (v, rest))
         else rbind (strict_json_float R (sign @ ip @ fp @ ep)) (\<lambda>v. Inr (v, rest)))"

section \<open>Values\<close>

text \<open>\<open>_strict_object_pairs\<close>.\<close>

definition add_pair :: "dict \<Rightarrow> string \<times> json \<Rightarrow> dict res" where
  "add_pair d kv =
     (if dhas (fst kv) d then Inl (ValueError (''duplicate JSON object key: '' @ fst kv))
      else Inr (dset (fst kv) (snd kv) d))"

definition strict_object_pairs :: "(string \<times> json) list \<Rightarrow> dict res" where
  "strict_object_pairs pairs = rfold add_pair [] pairs"

text \<open>\<open>_reject_json_constant\<close> for the constants, the numbers otherwise.\<close>

definition parse_literal :: "runtime \<Rightarrow> string \<Rightarrow> (json \<times> string) res" where
  "parse_literal R s =
     (case strip_prefix ''null'' s of Some r \<Rightarrow> Inr (JNull, r) | None \<Rightarrow>
      case strip_prefix ''true'' s of Some r \<Rightarrow> Inr (JBool True, r) | None \<Rightarrow>
      case strip_prefix ''false'' s of Some r \<Rightarrow> Inr (JBool False, r) | None \<Rightarrow>
      if strip_prefix ''NaN'' s \<noteq> None \<or> strip_prefix ''Infinity'' s \<noteq> None
         \<or> strip_prefix ''-Infinity'' s \<noteq> None
      then json_error ''non-finite JSON number is not allowed: ''
      else parse_number R s)"

lemma rbind_cong [fundef_cong]:
  "r = r' \<Longrightarrow> (\<And>x. r' = Inr x \<Longrightarrow> f x = f' x) \<Longrightarrow> rbind r f = rbind r' f'"
  by (cases r') auto

text \<open>
  A value, the items of a list up to the closing bracket, the pairs of an object up to the
  closing brace.  The text left over is always shorter than the text read (\<open>parse_shorter\<close>),
  so the tests on lengths, which make the recursion terminate, never fail.
\<close>

function parse_value :: "runtime \<Rightarrow> string \<Rightarrow> (json \<times> string) res"
  and parse_items :: "runtime \<Rightarrow> string \<Rightarrow> (json list \<times> string) res"
  and parse_pairs :: "runtime \<Rightarrow> string \<Rightarrow> ((string \<times> json) list \<times> string) res" where
  "parse_value R s =
     (case s of [] \<Rightarrow> json_error ''Expecting value'' | a # r \<Rightarrow>
      if a = CHR 0x22 then rbind (scan_string r) (\<lambda>tq. Inr (JStr (fst tq), snd tq))
      else if a = CHR ''{'' then
        (if take 1 (skip_ws r) = ''}'' then Inr (JDict [], drop 1 (skip_ws r))
         else if length (skip_ws r) < length s then
           rbind (parse_pairs R (skip_ws r)) (\<lambda>pq.
           rbind (strict_object_pairs (fst pq)) (\<lambda>d. Inr (JDict d, snd pq)))
         else json_error ''Expecting value'')
      else if a = CHR ''['' then
        (if take 1 (skip_ws r) = '']'' then Inr (JList [], drop 1 (skip_ws r))
         else if length (skip_ws r) < length s then
           rbind (parse_items R (skip_ws r)) (\<lambda>iq. Inr (JList (fst iq), snd iq))
         else json_error ''Expecting value'')
      else parse_literal R s)"
| "parse_items R s =
     rbind (parse_value R s) (\<lambda>vq.
     let q = skip_ws (snd vq); r = skip_ws (drop 1 q) in
     if take 1 q = '']'' then Inr ([fst vq], drop 1 q)
     else if take 1 q = '','' then
       (if length r < length s then rbind (parse_items R r) (\<lambda>iq. Inr (fst vq # fst iq, snd iq))
        else json_error ''Expecting value'')
     else json_error ''Expecting ',' delimiter'')"
| "parse_pairs R s =
     (if take 1 s \<noteq> [CHR 0x22] then json_error ''Expecting property name enclosed in double quotes''
      else rbind (scan_string (drop 1 s)) (\<lambda>kq.
        let q = skip_ws (snd kq); p = skip_ws (drop 1 q) in
        if take 1 q \<noteq> '':'' then json_error ''Expecting ':' delimiter''
        else if length p < length s then
          rbind (parse_value R p) (\<lambda>vq.
          let t = skip_ws (snd vq); r = skip_ws (drop 1 t) in
          if take 1 t = ''}'' then Inr ([(fst kq, fst vq)], drop 1 t)
          else if take 1 t = '','' then
            (if length r < length s
             then rbind (parse_pairs R r) (\<lambda>pq. Inr ((fst kq, fst vq) # fst pq, snd pq))
             else json_error ''Expecting value'')
          else json_error ''Expecting ',' delimiter'')
        else json_error ''Expecting value''))"
  by pat_completeness auto
termination
  by (relation "measure (\<lambda>x. case x of Inl (R, s) \<Rightarrow> 2 * length s | Inr (Inl (R, s)) \<Rightarrow> 2 * length s + 1
        | Inr (Inr (R, s)) \<Rightarrow> 2 * length s + 1)") auto

declare parse_value.simps [simp del] parse_items.simps [simp del] parse_pairs.simps [simp del]

text \<open>
  \<open>strict_json_loads\<close>.  The depth at which the interpreter raises a \<open>RecursionError\<close>, turned
  into a \<open>ValueError\<close>, is a limit of the machine and not modelled.
\<close>

definition strict_json_loads :: "runtime \<Rightarrow> string \<Rightarrow> json res" where
  "strict_json_loads R s =
     (if take 3 s = [CHR 0xEF, CHR 0xBB, CHR 0xBF] then json_error ''Unexpected UTF-8 BOM''
      else rbind (parse_value R (skip_ws s)) (\<lambda>vq.
        if skip_ws (snd vq) = [] then Inr (fst vq) else json_error ''Extra data''))"

section \<open>Canonical bytes\<close>

text \<open>\<open>_canonical_bytes\<close>: \<open>encode("utf-8")\<close> refuses an unpaired surrogate.\<close>

definition canonical_bytes :: "runtime \<Rightarrow> json \<Rightarrow> string res" where
  "canonical_bytes R v = rbind (json_dumps R v) (\<lambda>t.
     if utf8_valid t then Inr t else Inl (ValueError ''surrogates not allowed''))"

text \<open>\<open>_domain_hash\<close>.\<close>

definition domain_hash :: "runtime \<Rightarrow> string \<Rightarrow> json \<Rightarrow> string res" where
  "domain_hash R tag v = rbind (canonical_bytes R v) (\<lambda>t. Inr (sha256_hex (tag @ t)))"

lemma domain_hash_lower: "domain_hash R tag v = Inr h \<Longrightarrow> is_lower_sha h"
  by (auto simp: domain_hash_def rbind_Inr_iff intro: sha.digest_lower_sha)

end
