(* ===== verification/Validation_Evidence.thy ===== *)
theory Validation_Evidence
  imports Strict_Json Loader_Canonical Rules_Evidence
begin

text \<open>
  \<open>validation_evidence.py\<close>: raw validation reports are captured in a bundle of immutable bytes,
  and a bundle is sealed into the context QCI-R006 accepts after the manifest and every report
  have been parsed from those bytes and bound to the subject of a case.

  Where the source loops over a Python set of keys, the order of the iteration is the
  interpreter's: the model checks the keys in the order they are written, which only decides
  which of several messages is raised.
\<close>

section \<open>Contract constants\<close>

definition VALIDATION_PLAN_CONTRACT_VERSION :: string where
  "VALIDATION_PLAN_CONTRACT_VERSION = ''qualityci-validation-plan-0.1''"

definition VALIDATION_EVIDENCE_CONTRACT_VERSION :: string where
  "VALIDATION_EVIDENCE_CONTRACT_VERSION = ''qualityci-validation-evidence-0.1''"

definition VALIDATION_EVIDENCE_PACK_VERSION :: string where
  "VALIDATION_EVIDENCE_PACK_VERSION = ''qualityci-validation-evidence-pack-0.1''"

definition VALIDATION_PARSER_CONTRACT_VERSION :: string where
  "VALIDATION_PARSER_CONTRACT_VERSION = ''qualityci-validation-json-parser-0.1''"

definition VALIDATION_APPROVAL_POLICY_VERSION :: string where
  "VALIDATION_APPROVAL_POLICY_VERSION = ''qualityci-validation-approval-policy-0.1''"

definition VALIDATION_PHASES :: "string list" where
  "VALIDATION_PHASES = [''SOURCE'', ''RESOLVED'']"

definition MAX_VALIDATION_MEMBERS :: nat where "MAX_VALIDATION_MEMBERS = 1024"
definition MAX_VALIDATION_MEMBER_BYTES :: nat where "MAX_VALIDATION_MEMBER_BYTES = 2097152"
definition MAX_VALIDATION_TOTAL_BYTES :: nat where "MAX_VALIDATION_TOTAL_BYTES = 16777216"
definition MAX_VALIDATION_JSON_DEPTH :: nat where "MAX_VALIDATION_JSON_DEPTH = 32"

definition MANIFEST_KEYS :: "string list" where
  "MANIFEST_KEYS = [''contract_version'', ''phase'', ''members'']"

definition MEMBER_KEYS :: "string list" where
  "MEMBER_KEYS = [''source_id'', ''source_path'', ''evidence_id'', ''format'', ''phase'']"

definition REPORT_KEYS :: "string list" where
  "REPORT_KEYS =
     [''case_schema_version'', ''case_subject_hash'', ''claim'', ''event_id'', ''event_revision'',
      ''evidence_id'', ''evidence_type'', ''issued_at'', ''issuer_id'', ''issuer_role'', ''locator'',
      ''performed_at'', ''result'', ''ruleset_version'', ''scope_digest'', ''summary'']"

section \<open>Small checks\<close>

definition exact_string :: "json \<Rightarrow> string \<Rightarrow> string res" where
  "exact_string v label =
     (if nonblank_str v then Inr (str_of v)
      else Inl (ValueError (label @ '' must be an exact non-empty string'')))"

text \<open>
  \<open>int(text, 16)\<close> succeeds: white space around, a sign, a prefix \<open>0x\<close> and single
  underscores between digits are all accepted.
\<close>

definition ascii_space :: "char \<Rightarrow> bool" where
  "ascii_space a \<longleftrightarrow> a \<in> set [CHR 0x20, CHR 0x09, CHR 0x0A, CHR 0x0B, CHR 0x0C, CHR 0x0D]"

definition trim_spaces :: "string \<Rightarrow> string" where
  "trim_spaces s = rev (dropWhile ascii_space (rev (dropWhile ascii_space s)))"

definition drop_underscore :: "string \<Rightarrow> string" where
  "drop_underscore s = (if take 1 s = ''_'' then drop 1 s else s)"

definition base16_accepts :: "runtime \<Rightarrow> string \<Rightarrow> bool" where
  "base16_accepts R text =
     (let s = trim_spaces (rt_decimal_ascii R text);
          s1 = (if take 1 s = ''+'' \<or> take 1 s = ''-'' then drop 1 s else s);
          s2 = (if take 2 s1 = ''0x'' \<or> take 2 s1 = ''0X'' then drop_underscore (drop 2 s1) else s1)
      in list_all (\<lambda>p. p \<noteq> [] \<and> list_all (\<lambda>a. hex_char_val a \<noteq> None) p) (split_char CHR ''_'' s2))"

definition lower_sha :: "runtime \<Rightarrow> json \<Rightarrow> string \<Rightarrow> string res" where
  "lower_sha R v label =
     rbind (exact_string v label) (\<lambda>s.
     if py_len s \<noteq> 64 \<or> s \<noteq> rt_lower R s then Inl (ValueError (label @ '' must be a lowercase SHA-256''))
     else if base16_accepts R s then Inr s
     else Inl (ValueError (label @ '' must be a lowercase SHA-256'')))"

text \<open>\<open>value.strip()\<close>: the white-space characters at both ends.\<close>

definition ws_char :: "string \<Rightarrow> bool" where
  "ws_char p \<longleftrightarrow> p \<noteq> [] \<and> ws_len p = length p"

definition py_strip :: "string \<Rightarrow> string" where
  "py_strip s = concat (rev (dropWhile ws_char (rev (dropWhile ws_char (utf8_chars s)))))"

text \<open>\<open>Path(value).parts\<close> without the root: empty and \<open>.\<close> components are dropped.\<close>

definition path_parts :: "string \<Rightarrow> string list" where
  "path_parts s = filter (\<lambda>p. p \<noteq> [] \<and> p \<noteq> ''.'') (split_char CHR ''/'' s)"

definition canonical_filename :: "json \<Rightarrow> string res" where
  "canonical_filename v =
     rbind (exact_string v ''validation source_path'') (\<lambda>s.
     if s \<noteq> py_strip s \<or> \<not> list_all (\<lambda>a. 32 \<le> (of_char a :: nat)) s
     then Inl (ValueError ''validation source_path must be a canonical filename'')
     else if take 1 s = ''/'' \<or> length (path_parts s) \<noteq> 1 \<or> s = ''.'' \<or> s = ''..''
        \<or> CHR 0x5C \<in> set s \<or> CHR ''#'' \<in> set s
     then Inl (ValueError ''validation source_path must be one relative filename without #'')
     else Inr s)"

section \<open>The subject and the scope of a case\<close>

text \<open>The requirements of the plan, by the case-folded text of their identifier.\<close>

definition requirement_text :: "runtime \<Rightarrow> json \<Rightarrow> string" where
  "requirement_text R v =
     (if is_dict v then py_str R (dget_or ''evidence_id'' (JStr []) (dict_of v)) else [])"

definition sort_requirements :: "runtime \<Rightarrow> json \<Rightarrow> json" where
  "sort_requirements R plan =
     (if is_dict plan \<and> is_list (dget ''required_evidence'' (dict_of plan))
      then JDict (dset ''required_evidence''
             (JList (sort_key (\<lambda>v. (rt_casefold R (requirement_text R v), requirement_text R v))
               (list_of (dget ''required_evidence'' (dict_of plan))))) (dict_of plan))
      else plan)"

text \<open>
  \<open>sorted(values)\<close> and the sort of the links by their pair: the members are texts in a
  validated case; anything else is a \<open>TypeError\<close> here.
\<close>

definition sorted_values :: "json \<Rightarrow> json res" where
  "sorted_values v = rbind (iter v) (\<lambda>xs.
     if list_all is_str xs then Inr (JList (sort_key str_of xs)) else Inl TypeError)"

definition link_key :: "json \<Rightarrow> (string \<times> string) res" where
  "link_key v = rbind (as_dict v) (\<lambda>d.
     let p = dget_or ''process_step_id'' (JStr []) d; c = dget_or ''characteristic_id'' (JStr []) d in
     if is_str p \<and> is_str c then Inr (str_of p, str_of c) else Inl TypeError)"

definition scope_projection :: "runtime \<Rightarrow> dict \<Rightarrow> json res" where
  "scope_projection R c =
     rbind (ditem ''event'' c) (\<lambda>ev. rbind (as_dict ev) (\<lambda>event.
     rbind (ditem ''case_id'' c) (\<lambda>case_id.
     rbind (ditem ''event_id'' event) (\<lambda>event_id.
     rbind (ditem ''revision'' event) (\<lambda>revision.
     rbind (ditem ''event_type'' event) (\<lambda>event_type.
     rbind (ditem ''risk_level'' event) (\<lambda>risk_level.
     rbind (sorted_values (dget_or ''affected_process_steps'' (JList []) event)) (\<lambda>steps.
     rbind (sorted_values (dget_or ''affected_characteristics'' (JList []) event)) (\<lambda>chars.
     rbind (rbind (iter (dget_or ''affected_links'' (JList []) event)) (rsort_by link_key)) (\<lambda>links.
     Inr (JDict
       [(''case_id'', case_id), (''event_id'', event_id), (''event_revision'', revision),
        (''event_type'', event_type), (''risk_level'', risk_level),
        (''affected_process_steps'', steps), (''affected_characteristics'', chars),
        (''affected_links'', JList links),
        (''validation_plan'', sort_requirements R (dget ''validation_plan'' event)),
        (''case_schema_version'', dget ''schema_version'' c),
        (''ruleset_version'', JStr ''qci-rules-0.6.0'')])))))))))))"

definition SCOPE_DOMAIN :: string where
  "SCOPE_DOMAIN = ''QualityCI/validation-scope/v1'' @ [CHR 0x00]"

definition validation_scope_digest :: "runtime \<Rightarrow> dict \<Rightarrow> string res" where
  "validation_scope_digest R c = rbind (scope_projection R c) (domain_hash R SCOPE_DOMAIN)"

definition SUBJECT_EVENT_KEYS :: "string list" where
  "SUBJECT_EVENT_KEYS =
     [''validation_evidence'', ''validation_context'', ''validation_evidence_set_hash'', ''approvals'']"

definition SUBJECT_CASE_KEYS :: "string list" where
  "SUBJECT_CASE_KEYS =
     [''active_mutation'', ''run_result'', ''findings'', ''audit'', ''validation_context'',
      ''validation_evidence_set_hash'']"

definition SUBJECT_DOMAIN :: string where
  "SUBJECT_DOMAIN = ''QualityCI/validation-case-subject/v1'' @ [CHR 0x00]"

text \<open>The canonical projection without what is downstream of the subject.\<close>

definition subject_event :: "runtime \<Rightarrow> dict \<Rightarrow> dict" where
  "subject_event R event =
     (let e = fold dpop SUBJECT_EVENT_KEYS event in
      if is_dict (dget ''validation_plan'' e)
      then dset ''validation_plan'' (sort_requirements R (dget ''validation_plan'' e)) e else e)"

definition subject_projection :: "runtime \<Rightarrow> dict \<Rightarrow> dict res" where
  "subject_projection R c =
     rbind (canonical_case_projection R c) (\<lambda>p.
     Inr (fold dpop SUBJECT_CASE_KEYS
       (if is_dict (dget ''event'' p)
        then dset ''event'' (JDict (subject_event R (dict_of (dget ''event'' p)))) p else p)))"

definition validation_case_subject_hash :: "runtime \<Rightarrow> dict \<Rightarrow> string res" where
  "validation_case_subject_hash R c =
     rbind (subject_projection R c) (\<lambda>p. domain_hash R SUBJECT_DOMAIN (JDict p))"

record case_identity =
  ci_case_subject_hash :: string
  ci_scope_digest :: string

definition prepare_validation_case_identity :: "runtime \<Rightarrow> dict \<Rightarrow> case_identity res" where
  "prepare_validation_case_identity R c =
     rbind (validation_case_subject_hash R c) (\<lambda>h.
     rbind (validation_scope_digest R c) (\<lambda>d.
     Inr \<lparr>ci_case_subject_hash = h, ci_scope_digest = d\<rparr>))"

text \<open>A caller may pass an identity it has prepared before.\<close>

definition given_identity :: "runtime \<Rightarrow> dict \<Rightarrow> case_identity option \<Rightarrow> case_identity res" where
  "given_identity R c i =
     (case i of None \<Rightarrow> prepare_validation_case_identity R c | Some x \<Rightarrow> Inr x)"

definition validation_approval_policy :: "runtime \<Rightarrow> dict \<Rightarrow> dict \<Rightarrow> case_identity option
    \<Rightarrow> case_identity option \<Rightarrow> json res" where
  "validation_approval_policy R source_case resolved_case si ri =
     rbind (given_identity R source_case si) (\<lambda>s.
     rbind (given_identity R resolved_case ri) (\<lambda>r.
     Inr (JDict
       [(''contract_version'', JStr VALIDATION_APPROVAL_POLICY_VERSION),
        (''validation_evidence_contract_version'', JStr VALIDATION_EVIDENCE_CONTRACT_VERSION),
        (''required_phases'', JList [JStr ''SOURCE'', JStr ''RESOLVED'']),
        (''source_case_subject_hash'', JStr (ci_case_subject_hash s)),
        (''source_scope_digest'', JStr (ci_scope_digest s)),
        (''resolved_case_subject_hash'', JStr (ci_case_subject_hash r)),
        (''resolved_scope_digest'', JStr (ci_scope_digest r))])))"

definition PAIR_DOMAIN :: string where
  "PAIR_DOMAIN = ''QualityCI/validation-evidence-pair/v1'' @ [CHR 0x00]"

definition validation_evidence_pair_hash :: "runtime \<Rightarrow> validation_context \<Rightarrow> validation_context \<Rightarrow> string res" where
  "validation_evidence_pair_hash R source resolved =
     rbind (domain_hash R [] (JDict
       [(''source_case_subject_hash'', JStr (vc_case_subject_hash source)),
        (''source_evidence_set_hash'', JStr (vc_evidence_set_hash source)),
        (''resolved_case_subject_hash'', JStr (vc_case_subject_hash resolved)),
        (''resolved_evidence_set_hash'', JStr (vc_evidence_set_hash resolved)),
        (''contract_version'', JStr VALIDATION_EVIDENCE_CONTRACT_VERSION)])) (\<lambda>h.
     Inr (sha256_hex (PAIR_DOMAIN @ h)))"

end
