(* ===== verification/Validation_Bundle.thy ===== *)
theory Validation_Bundle
  imports Validation_Evidence
begin

text \<open>
  \<open>validation_evidence.py\<close>, second part: members and bundles of raw bytes, the capture of the
  files of a manifest, and the sealing of a bundle into the context of a run.
\<close>

section \<open>Members and bundles\<close>

record evidence_member =
  em_source_id :: string
  em_evidence_id :: string
  em_filename :: string
  em_raw_bytes :: string

record evidence_bundle =
  eb_manifest_bytes :: string
  eb_members :: "evidence_member list"

text \<open>The fields a caller passes may be any value; \<open>raw_bytes\<close> is always bytes.\<close>

definition make_member :: "json \<Rightarrow> json \<Rightarrow> json \<Rightarrow> string \<Rightarrow> evidence_member res" where
  "make_member source_id evidence_id filename raw =
     (if \<not> (is_str source_id \<and> is_str evidence_id \<and> is_str filename) then Inl TypeError
      else rbind (exact_string source_id ''validation member source_id'') (\<lambda>s.
           rbind (exact_string evidence_id ''validation member evidence_id'') (\<lambda>e.
           rbind (canonical_filename filename) (\<lambda>f.
           if raw = [] \<or> MAX_VALIDATION_MEMBER_BYTES < length raw
           then Inl (ValueError ''validation member byte size is invalid'')
           else Inr \<lparr>em_source_id = s, em_evidence_id = e, em_filename = f, em_raw_bytes = raw\<rparr>))))"

definition remake_member :: "evidence_member \<Rightarrow> evidence_member res" where
  "remake_member m = make_member (JStr (em_source_id m)) (JStr (em_evidence_id m)) (JStr (em_filename m))
     (em_raw_bytes m)"

text \<open>The depth at which a value is nested; the root is at depth 1.\<close>

fun json_depth :: "json \<Rightarrow> nat" where
  "json_depth (JList xs) = Suc (fold max (map json_depth xs) 0)"
| "json_depth (JDict d) = Suc (fold max (map (\<lambda>kv. json_depth (snd kv)) d) 0)"
| "json_depth v = 1"

definition strict_json_bytes :: "runtime \<Rightarrow> string \<Rightarrow> string \<Rightarrow> json res" where
  "strict_json_bytes R raw label =
     (if \<not> utf8_valid raw then Inl (ValueError (label @ '' is not UTF-8 JSON''))
      else rbind (strict_json_loads R raw) (\<lambda>v.
        if MAX_VALIDATION_JSON_DEPTH < json_depth v
        then Inl (ValueError (label @ '' JSON nesting exceeds 32 levels''))
        else rbind (canonical_bytes R v) (\<lambda>t.
          if raw \<noteq> t then Inl (ValueError (label @ '' is not canonical JSON'')) else Inr v)))"

section \<open>The manifest\<close>

definition validate_spec :: "json \<Rightarrow> dict \<Rightarrow> unit res" where
  "validate_spec phase spec =
     rbind (exact_string (dget ''source_id'' spec) ''validation manifest source_id'') (\<lambda>_.
     rbind (exact_string (dget ''evidence_id'' spec) ''validation manifest evidence_id'') (\<lambda>_.
     rbind (canonical_filename (dget ''source_path'' spec)) (\<lambda>_.
     require (dget ''format'' spec = JStr ''JSON'' \<and> py_eq (dget ''phase'' spec) phase)
       (ValueError ''validation member format/phase differs from manifest''))))"

definition spec_names :: "string \<Rightarrow> dict list \<Rightarrow> string list" where
  "spec_names key specs = map (\<lambda>s. str_of (dget key s)) specs"

definition distinct_identities :: "runtime \<Rightarrow> dict list \<Rightarrow> string \<Rightarrow> unit res" where
  "distinct_identities R specs key =
     require (distinct (map (normalized_identity R) (spec_names key specs)))
       (ValueError (''duplicate normalized validation '' @ key))"

definition member_shape :: "json \<Rightarrow> bool" where
  "member_shape v \<longleftrightarrow> is_dict v \<and> keys_exactly MEMBER_KEYS (dict_of v)"

definition validate_manifest :: "runtime \<Rightarrow> json \<Rightarrow> unit res" where
  "validate_manifest R m = seq_checks
     [require (is_dict m \<and> keys_exactly MANIFEST_KEYS (dict_of m))
        (ValueError ''validation manifest has unsupported root shape''),
      require (dget ''contract_version'' (dict_of m) = JStr VALIDATION_EVIDENCE_PACK_VERSION)
        (ValueError ''unsupported validation evidence pack version''),
      require (str_in (dget ''phase'' (dict_of m)) VALIDATION_PHASES)
        (ValueError ''validation manifest phase is unsupported''),
      require (is_list (dget ''members'' (dict_of m)) \<and> list_of (dget ''members'' (dict_of m)) \<noteq> []
          \<and> length (list_of (dget ''members'' (dict_of m))) \<le> MAX_VALIDATION_MEMBERS
          \<and> list_all member_shape (list_of (dget ''members'' (dict_of m))))
        (ValueError ''validation manifest members have unsupported shape''),
      check_all (\<lambda>_ v. validate_spec (dget ''phase'' (dict_of m)) (dict_of v))
        (list_of (dget ''members'' (dict_of m))),
      distinct_identities R (map dict_of (list_of (dget ''members'' (dict_of m)))) ''source_id'',
      distinct_identities R (map dict_of (list_of (dget ''members'' (dict_of m)))) ''evidence_id'',
      distinct_identities R (map dict_of (list_of (dget ''members'' (dict_of m)))) ''source_path'']"

definition spec_key :: "runtime \<Rightarrow> json \<Rightarrow> string \<times> string" where
  "spec_key R v =
     (let i = str_of (dget ''evidence_id'' (dict_of v)) in (normalized_identity R i, i))"

definition canonical_manifest :: "runtime \<Rightarrow> dict \<Rightarrow> dict" where
  "canonical_manifest R m =
     [(''contract_version'', JStr VALIDATION_EVIDENCE_PACK_VERSION),
      (''members'', JList (sort_key (spec_key R) (list_of (dget ''members'' m)))),
      (''phase'', dget ''phase'' m)]"

text \<open>The member of an identifier: with duplicates the last one, as in a dictionary.\<close>

definition member_of :: "evidence_member list \<Rightarrow> string \<Rightarrow> evidence_member option" where
  "member_of ms i = map_of (rev (map (\<lambda>m. (em_evidence_id m, m)) ms)) i"

definition spec_of :: "dict list \<Rightarrow> string \<Rightarrow> dict option" where
  "spec_of specs i = map_of (rev (map (\<lambda>s. (str_of (dget ''evidence_id'' s), s)) specs)) i"

definition member_agrees :: "evidence_member list \<Rightarrow> dict \<Rightarrow> bool" where
  "member_agrees ms spec =
     (case member_of ms (str_of (dget ''evidence_id'' spec)) of
        None \<Rightarrow> False
      | Some m \<Rightarrow> JStr (em_source_id m) = dget ''source_id'' spec
                \<and> JStr (em_filename m) = dget ''source_path'' spec)"

definition validate_bundle :: "runtime \<Rightarrow> evidence_bundle \<Rightarrow> dict res" where
  "validate_bundle R b =
     rbind (strict_json_bytes R (eb_manifest_bytes b) ''validation manifest'') (\<lambda>m.
     rbind (validate_manifest R m) (\<lambda>_.
     let canonical = canonical_manifest R (dict_of m);
         specs = map dict_of (list_of (dget ''members'' (dict_of m)));
         ms = eb_members b in
     rbind (canonical_bytes R (JDict canonical)) (\<lambda>t.
     if eb_manifest_bytes b \<noteq> t then Inl (ValueError ''validation manifest is not canonical'')
     else if \<not> distinct (map em_evidence_id ms)
        \<or> set (map em_evidence_id ms) \<noteq> set (spec_names ''evidence_id'' specs)
     then Inl (ValueError ''validation members differ from manifest'')
     else if \<not> list_all (member_agrees ms) specs
     then Inl (ValueError ''validation member identity differs from manifest'')
     else Inr canonical)))"

definition make_bundle :: "runtime \<Rightarrow> string \<Rightarrow> evidence_member list \<Rightarrow> evidence_bundle res" where
  "make_bundle R manifest ms =
     (if ms = [] \<or> MAX_VALIDATION_MEMBERS < length ms
      then Inl (ValueError ''validation bundle member count is invalid'')
      else if MAX_VALIDATION_TOTAL_BYTES < sum_list (map (\<lambda>m. length (em_raw_bytes m)) ms)
      then Inl (ValueError ''validation bundle exceeds total byte limit'')
      else rbind (rmap remake_member ms) (\<lambda>ms'.
           rbind (validate_bundle R \<lparr>eb_manifest_bytes = manifest, eb_members = ms'\<rparr>) (\<lambda>_.
           Inr \<lparr>eb_manifest_bytes = manifest, eb_members = ms'\<rparr>)))"

section \<open>The capture of the files\<close>

text \<open>
  What \<open>os.lstat\<close> tells of a file.  The file system is a parameter: for a name, the status
  before, the bytes that were read, and the status after.
\<close>

record file_meta =
  fm_regular :: bool
  fm_symlink :: bool
  fm_nlink :: nat
  fm_size :: nat
  fm_dev :: int
  fm_ino :: int
  fm_mtime_ns :: int

definition same_file :: "file_meta \<Rightarrow> file_meta \<Rightarrow> bool" where
  "same_file a b \<longleftrightarrow> (fm_dev a, fm_ino a, fm_size a, fm_mtime_ns a) = (fm_dev b, fm_ino b, fm_size b, fm_mtime_ns b)"

definition capture_file :: "(string \<Rightarrow> file_meta \<times> string \<times> file_meta) \<Rightarrow> string \<Rightarrow> string res" where
  "capture_file fs name =
     (case fs name of (metadata, raw, after) \<Rightarrow>
      if \<not> fm_regular metadata \<or> fm_symlink metadata \<or> fm_nlink metadata \<noteq> 1 \<or> fm_size metadata = 0
         \<or> MAX_VALIDATION_MEMBER_BYTES < fm_size metadata
      then Inl (ValueError ''validation report must be one regular non-link file'')
      else if length raw \<noteq> fm_size metadata \<or> \<not> same_file metadata after
      then Inl (ValueError ''validation report changed during capture'')
      else Inr raw)"

definition capture_member :: "(string \<Rightarrow> string res) \<Rightarrow> json \<Rightarrow> evidence_member res" where
  "capture_member capture v =
     (case v of
        JDict spec \<Rightarrow>
          rbind (canonical_filename (dget ''source_path'' spec)) (\<lambda>filename.
          rbind (capture filename) (\<lambda>raw.
          make_member (dget ''source_id'' spec) (dget ''evidence_id'' spec) (JStr filename) raw))
      | _ \<Rightarrow> Inl (ValueError ''validation manifest member must be an object''))"

definition load_key :: "runtime \<Rightarrow> json \<Rightarrow> (string \<times> string) res" where
  "load_key R v = rbind (as_dict v) (\<lambda>d.
     let i = dget_or ''evidence_id'' (JStr []) d in
     rbind (identity_of R i) (\<lambda>k. Inr (k, str_of i)))"

definition member_key :: "runtime \<Rightarrow> evidence_member \<Rightarrow> string \<times> string" where
  "member_key R m = (normalized_identity R (em_evidence_id m), em_evidence_id m)"

text \<open>The manifest is already decoded; \<open>capture\<close> reads a file beside it.\<close>

definition load_validation_evidence_bundle :: "runtime \<Rightarrow> (string \<Rightarrow> string res) \<Rightarrow> json \<Rightarrow> evidence_bundle res" where
  "load_validation_evidence_bundle R capture manifest =
     (if \<not> is_dict manifest \<or> \<not> is_list (dget ''members'' (dict_of manifest))
      then Inl (ValueError ''validation manifest has unsupported shape'')
      else
        let m = dict_of manifest; specs = list_of (dget ''members'' m) in
        rbind (rmap (capture_member capture) specs) (\<lambda>ms.
        rbind (rsort_by (load_key R) specs) (\<lambda>sorted_specs.
        rbind (canonical_bytes R (JDict
          [(''contract_version'', dget ''contract_version'' m), (''members'', JList sorted_specs),
           (''phase'', dget ''phase'' m)])) (\<lambda>t.
        make_bundle R t (sort_key (member_key R) ms)))))"

section \<open>Sealing\<close>

definition check_report :: "runtime \<Rightarrow> string \<Rightarrow> evidence_member \<Rightarrow> dict \<Rightarrow> unit res" where
  "check_report R i m report =
     rbind (check_all (\<lambda>_ k. rbind (exact_string (dget k report) (''validation report '' @ i @ ''.'' @ k)) (\<lambda>_. Inr ()))
       (filter (\<lambda>k. k \<noteq> ''summary'') REPORT_KEYS)) (\<lambda>_.
     rbind (require (is_str (dget ''summary'' report))
       (ValueError ''validation report summary must be an exact string'')) (\<lambda>_.
     rbind (require (dget ''evidence_id'' report = JStr i)
       (ValueError ''validation report evidence_id differs from manifest'')) (\<lambda>_.
     rbind (require (str_in (dget ''result'' report) [''PASS'', ''FAIL'', ''PENDING''])
       (ValueError ''validation report result is unsupported'')) (\<lambda>_.
     rbind (lower_sha R (dget ''case_subject_hash'' report) ''validation case_subject_hash'') (\<lambda>_.
     rbind (lower_sha R (dget ''scope_digest'' report) ''validation scope_digest'') (\<lambda>_.
     rbind (parse_rfc3339_utc (dget ''performed_at'' report) ''validation performed_at'') (\<lambda>performed.
     rbind (parse_rfc3339_utc (dget ''issued_at'' report) ''validation issued_at'') (\<lambda>issued.
     rbind (require (\<not> issued < performed) (ValueError ''validation issued_at precedes performed_at'')) (\<lambda>_.
     require (dget ''locator'' report = JStr (em_filename m @ ''#/result''))
       (ValueError ''validation report locator does not identify its result cell''))))))))))"

definition sealed_report :: "string \<Rightarrow> evidence_member \<Rightarrow> dict \<Rightarrow> dict" where
  "sealed_report phase m report =
     dset ''phase'' (JStr phase) (dset ''source_hash'' (JStr (sha256_hex (em_raw_bytes m)))
       (dset ''source_path'' (JStr (em_filename m)) (dset ''source_id'' (JStr (em_source_id m)) report)))"

text \<open>\<open>_ValidationWitness\<close>.\<close>

definition make_witness :: "string \<Rightarrow> string \<Rightarrow> string \<Rightarrow> string \<Rightarrow> string \<Rightarrow> validation_witness res" where
  "make_witness source_id i filename h raw =
     (if sha256_hex raw \<noteq> h then Inl (ValueError ''validation witness hash differs from raw bytes'')
      else Inr \<lparr>vw_source_id = source_id, vw_evidence_id = i, vw_filename = filename,
             vw_source_hash = h, vw_raw_bytes = raw\<rparr>)"

definition seal_report :: "runtime \<Rightarrow> string \<Rightarrow> evidence_member list \<Rightarrow> string \<Rightarrow> (dict \<times> validation_witness) res" where
  "seal_report R phase ms i =
     (case member_of ms i of
        None \<Rightarrow> Inl (KeyError i)
      | Some m \<Rightarrow>
          rbind (strict_json_bytes R (em_raw_bytes m) (''validation report '' @ i)) (\<lambda>v.
          rbind (require (is_dict v \<and> keys_exactly REPORT_KEYS (dict_of v))
            (ValueError ''validation report has unsupported claim shape'')) (\<lambda>_.
          rbind (check_report R i m (dict_of v)) (\<lambda>_.
          rbind (make_witness (em_source_id m) i (em_filename m) (sha256_hex (em_raw_bytes m))
            (em_raw_bytes m)) (\<lambda>w.
          Inr (sealed_report phase m (dict_of v), w))))))"

definition SET_DOMAIN :: string where
  "SET_DOMAIN = ''QualityCI/validation-evidence-set/v1'' @ [CHR 0x00]"

definition set_payload :: "case_identity \<Rightarrow> dict \<Rightarrow> string \<Rightarrow> dict list \<Rightarrow> json" where
  "set_payload ci manifest phase reports = JDict
     [(''case_subject_hash'', JStr (ci_case_subject_hash ci)),
      (''contract_version'', JStr VALIDATION_EVIDENCE_CONTRACT_VERSION),
      (''manifest'', JDict manifest),
      (''parser_contract_version'', JStr VALIDATION_PARSER_CONTRACT_VERSION),
      (''phase'', JStr phase),
      (''reports'', JList (map JDict reports)),
      (''scope_digest'', JStr (ci_scope_digest ci))]"

text \<open>
  The reports of a context are kept as the value that \<open>reports()\<close> decodes from the bytes the
  source stores; the reports come in the order of their identifiers.
\<close>

definition prepare_validation_evidence_context :: "runtime \<Rightarrow> evidence_bundle \<Rightarrow> dict \<Rightarrow> string
    \<Rightarrow> case_identity option \<Rightarrow> validation_context res" where
  "prepare_validation_evidence_context R b c expected_phase i =
     (if expected_phase \<notin> set VALIDATION_PHASES
      then Inl (ValueError ''validation expected phase is unsupported'')
      else rbind (validate_bundle R b) (\<lambda>manifest.
        if dget ''phase'' manifest \<noteq> JStr expected_phase
        then Inl (ValueError ''validation evidence phase mismatch'')
        else
          rbind (rmap (seal_report R expected_phase (eb_members b))
            (sort (spec_names ''evidence_id'' (map dict_of (list_of (dget ''members'' manifest)))))) (\<lambda>rws.
          rbind (given_identity R c i) (\<lambda>ci.
          let reports = sort_key (\<lambda>r. str_of (dget ''evidence_id'' r)) (map fst rws) in
          rbind (domain_hash R SET_DOMAIN (set_payload ci manifest expected_phase reports)) (\<lambda>h.
          rbind (canonical_bytes R (JList (map JDict reports))) (\<lambda>reports_json.
          rbind (strict_json_loads R reports_json) (\<lambda>decoded.
          Inr \<lparr>vc_phase = expected_phase, vc_contract_version = VALIDATION_EVIDENCE_CONTRACT_VERSION,
               vc_evidence_set_hash = h, vc_case_subject_hash = ci_case_subject_hash ci,
               vc_scope_digest = ci_scope_digest ci, vc_reports = decoded,
               vc_witnesses = map snd rws, vc_sealed = True\<rparr>)))))))"

end
