(* ===== verification/Strict_Json_Facts.thy ===== *)
theory Strict_Json_Facts
  imports Strict_Json Demo_Runtime
begin

text \<open>
  The strict parser: what it reads is shorter than what it was given and well formed, and it
  reads back what the canonical printer writes.
\<close>

section \<open>What is left over\<close>

lemma skip_ws_length: "length (skip_ws s) \<le> length s"
  by (simp add: skip_ws_def length_dropWhile_le)

lemma prepend_Inr: "prepend p r = Inr (t, q) \<longleftrightarrow> (\<exists>u. r = Inr (u, q) \<and> t = p @ u)"
  by (auto simp: prepend_def rbind_Inr_iff)

lemma json_error_Inr [simp]: "json_error m \<noteq> Inr x"
  by (simp add: json_error_def)

lemma scan_string_shorter: "scan_string s = Inr (t, q) \<Longrightarrow> length q < length s"
proof (induction s arbitrary: t rule: scan_string.induct)
  case (2 a s)
  consider "a = CHR 0x22" | "a \<noteq> CHR 0x22" "a \<noteq> CHR 0x5C"
    | r where "a = CHR 0x5C" "s = CHR ''u'' # r" | b r where "a = CHR 0x5C" "s = b # r" "b \<noteq> CHR ''u''"
    using "2.prems" by (cases s) (auto split: if_splits)
  then show ?case
  proof cases
    case 2
    with "2.IH"(3) "2.prems" show ?thesis by (force simp: prepend_Inr split: if_splits)
  next
    case (3 r)
    with "2.IH"(1)[of "CHR ''u''" r] "2.prems" show ?thesis
      by (force simp: prepend_Inr split: option.splits)
  next
    case (4 b r)
    with "2.IH"(2)[of b r] "2.prems" show ?thesis by (force simp: prepend_Inr split: option.splits)
  qed (use "2.prems" in simp)
qed simp

lemma int_part_nonempty: "int_part s \<noteq> [] \<Longrightarrow> s \<noteq> []"
  by (auto simp: int_part_def Let_def split: if_splits)

lemma parse_number_shorter:
  assumes "parse_number R s = Inr (v, q)"
  shows "length q < length s"
proof -
  define sg where "sg = (if take 1 s = ''-'' then ''-'' else [])"
  define ip where "ip = int_part (drop (length sg) s)"
  have "ip \<noteq> []" and "length q \<le> length (drop (length ip) (drop (length sg) s))"
    using assms by (auto simp: parse_number_def Let_def sg_def ip_def rbind_Inr_iff split: if_splits)
  moreover from this(1) have "drop (length sg) s \<noteq> []" unfolding ip_def by (rule int_part_nonempty)
  ultimately show ?thesis by (cases ip) auto
qed

lemma parse_literal_shorter:
  assumes "parse_literal R s = Inr (v, q)"
  shows "length q < length s"
proof -
  have "length r < length s" if "strip_prefix p s = Some r" "p \<noteq> []" for p r
    using that by (cases p; cases s) (auto simp: strip_prefix_def split: if_splits)
  then show ?thesis
    using assms parse_number_shorter
    by (fastforce simp: parse_literal_def split: option.splits if_splits)
qed

text \<open>The ways a parser returns.\<close>

lemma parse_valueE:
  assumes "parse_value R s = Inr (v, q)"
  obtains (string) r t where "s = CHR 0x22 # r" "scan_string r = Inr (t, q)" "v = JStr t"
  | (empty_dict) r where "s = CHR ''{'' # r" "take 1 (skip_ws r) = ''}''" "v = JDict []" "q = drop 1 (skip_ws r)"
  | (dict) r ps d where "s = CHR ''{'' # r" "take 1 (skip_ws r) \<noteq> ''}''" "length (skip_ws r) < length s"
      "parse_pairs R (skip_ws r) = Inr (ps, q)" "strict_object_pairs ps = Inr d" "v = JDict d"
  | (empty_list) r where "s = CHR ''['' # r" "take 1 (skip_ws r) = '']''" "v = JList []" "q = drop 1 (skip_ws r)"
  | (list) r vs where "s = CHR ''['' # r" "take 1 (skip_ws r) \<noteq> '']''" "length (skip_ws r) < length s"
      "parse_items R (skip_ws r) = Inr (vs, q)" "v = JList vs"
  | (literal) "parse_literal R s = Inr (v, q)"
proof (cases s)
  case Nil
  then show thesis using assms by (subst (asm) parse_value.simps) simp
next
  case (Cons a r)
  have eq: "(if a = CHR 0x22 then rbind (scan_string r) (\<lambda>tq. Inr (JStr (fst tq), snd tq))
      else if a = CHR ''{'' then
        (if take 1 (skip_ws r) = ''}'' then Inr (JDict [], drop 1 (skip_ws r))
         else if length (skip_ws r) < length s then
           rbind (parse_pairs R (skip_ws r)) (\<lambda>pq.
           rbind (strict_object_pairs (fst pq)) (\<lambda>d. Inr (JDict d, snd pq)))
         else json_error ''Expecting value'')
      else if a = CHR ''['' then
        (if take 1 (skip_ws r) = '']'' then Inr (JList [], drop 1 (skip_ws r))
         else if length (skip_ws r) < length s then
           rbind (parse_items R (skip_ws r)) (\<lambda>iq. Inr (JList (fst iq), snd iq))
         else json_error ''Expecting value'')
      else parse_literal R s) = Inr (v, q)"
    using assms by (subst (asm) parse_value.simps) (simp add: Cons)
  consider "a = CHR 0x22" | "a = CHR ''{''" | "a = CHR ''[''" | "a \<noteq> CHR 0x22" "a \<noteq> CHR ''{''" "a \<noteq> CHR ''[''"
    by blast
  then show thesis
  proof cases
    case 1
    with eq Cons string show thesis by (auto simp: rbind_Inr_iff)
  next
    case 2
    with eq Cons empty_dict dict show thesis by (auto simp: rbind_Inr_iff split: if_splits)
  next
    case 3
    with eq Cons empty_list list show thesis by (auto simp: rbind_Inr_iff split: if_splits)
  next
    case 4
    with eq literal show thesis by simp
  qed
qed

lemma parse_itemsE:
  assumes "parse_items R s = Inr (vs, q)"
  obtains (last) v p where "parse_value R s = Inr (v, p)" "take 1 (skip_ws p) = '']''" "vs = [v]"
      "q = drop 1 (skip_ws p)"
  | (more) v p ws where "parse_value R s = Inr (v, p)" "take 1 (skip_ws p) = '',''"
      "length (skip_ws (drop 1 (skip_ws p))) < length s"
      "parse_items R (skip_ws (drop 1 (skip_ws p))) = Inr (ws, q)" "vs = v # ws"
  using assms by (subst (asm) parse_items.simps) (auto simp: rbind_Inr_iff Let_def split: if_splits)

lemma parse_pairsE:
  assumes "parse_pairs R s = Inr (ps, q)"
  obtains (last) k p v t where "take 1 s = [CHR 0x22]" "scan_string (drop 1 s) = Inr (k, p)"
      "take 1 (skip_ws p) = '':''" "parse_value R (skip_ws (drop 1 (skip_ws p))) = Inr (v, t)"
      "length (skip_ws (drop 1 (skip_ws p))) < length s"
      "take 1 (skip_ws t) = ''}''" "ps = [(k, v)]" "q = drop 1 (skip_ws t)"
  | (more) k p v t rs where "take 1 s = [CHR 0x22]" "scan_string (drop 1 s) = Inr (k, p)"
      "take 1 (skip_ws p) = '':''" "parse_value R (skip_ws (drop 1 (skip_ws p))) = Inr (v, t)"
      "length (skip_ws (drop 1 (skip_ws p))) < length s"
      "take 1 (skip_ws t) = '',''" "length (skip_ws (drop 1 (skip_ws t))) < length s"
      "parse_pairs R (skip_ws (drop 1 (skip_ws t))) = Inr (rs, q)" "ps = (k, v) # rs"
  using assms by (subst (asm) parse_pairs.simps) (auto simp: rbind_Inr_iff Let_def split: if_splits)

lemma drop_skip_shorter: "take 1 (skip_ws p) = [c] \<Longrightarrow> length (drop 1 (skip_ws p)) < length p"
  using skip_ws_length[of p] by (cases "skip_ws p") auto

lemma skip_drop_shorter:
  "take 1 (skip_ws p) = [c] \<Longrightarrow> length (skip_ws (drop 1 (skip_ws p))) < length p"
  using drop_skip_shorter[of p c] skip_ws_length[of "drop 1 (skip_ws p)"] by linarith

lemma parse_shorter:
  "parse_value R s = Inr (v, q) \<Longrightarrow> length q < length s"
  "parse_items R s = Inr (vs, q) \<Longrightarrow> length q < length s"
  "parse_pairs R s = Inr (ps, q) \<Longrightarrow> length q < length s"
proof (induction "length s" arbitrary: s v q vs ps rule: less_induct)
  case less
  { case 1
    then show ?case
    proof (cases rule: parse_valueE)
      case (string r t)
      then show ?thesis using scan_string_shorter[of r t q] by simp
    next
      case (dict r ps d)
      then show ?thesis using less(3) by fastforce
    next
      case (list r vs)
      then show ?thesis using less(2) by fastforce
    next
      case literal
      then show ?thesis by (rule parse_literal_shorter)
    next
      case (empty_dict r)
      then show ?thesis using drop_skip_shorter[of r] by fastforce
    next
      case (empty_list r)
      then show ?thesis using drop_skip_shorter[of r] by fastforce
    qed }
  note V = this
  { case 2
    then show ?case
    proof (cases rule: parse_itemsE)
      case (last v p)
      then show ?thesis using V[of v p] drop_skip_shorter[of p] by fastforce
    next
      case (more v p ws)
      then show ?thesis using V[of v p] less(2) by fastforce
    qed }
  { case 3
    then show ?case
    proof (cases rule: parse_pairsE)
      case (last k p v t)
      then show ?thesis using less(1)[OF last(5,4)] drop_skip_shorter[OF last(6)] by simp
    next
      case (more k p v t rs)
      then show ?thesis using less(3)[OF more(7,8)] by simp
    qed }
qed

text \<open>So the tests on lengths hold whenever the parser gets to them.\<close>

lemma parse_guards:
  "length (skip_ws r) < length (c # r)"
  "parse_value R s = Inr (v, p) \<Longrightarrow> take 1 (skip_ws p) = '','' \<Longrightarrow>
     length (skip_ws (drop 1 (skip_ws p))) < length s"
  "scan_string (drop 1 s) = Inr (k, p) \<Longrightarrow> take 1 (skip_ws p) = '':'' \<Longrightarrow>
     length (skip_ws (drop 1 (skip_ws p))) < length s"
  using skip_ws_length[of r] parse_shorter(1)[of R s v p] scan_string_shorter[of "drop 1 s" k p]
    skip_drop_shorter[of p]
  by fastforce+

section \<open>What is read is well formed\<close>

lemma add_pair_new: "\<not> dhas (fst kv) e \<Longrightarrow> add_pair e kv = Inr (e @ [kv])"
proof -
  have "\<not> dhas k e \<Longrightarrow> dset k v e = e @ [(k, v)]" for k v
    by (induction e) (auto simp: dhas_def)
  then show "\<not> dhas (fst kv) e \<Longrightarrow> ?thesis" by (cases kv) (simp add: add_pair_def)
qed

lemma strict_object_pairs_facts:
  assumes "strict_object_pairs ps = Inr d"
  shows "d = ps \<and> distinct (map fst ps)"
proof -
  have "rfold add_pair e ps = Inr d \<Longrightarrow> distinct (map fst e) \<Longrightarrow> d = e @ ps \<and> distinct (map fst (e @ ps))" for e
  proof (induction ps arbitrary: e)
    case (Cons kv ps)
    have new: "\<not> dhas (fst kv) e" using Cons.prems(1) by (auto simp: add_pair_def)
    with Cons.prems add_pair_new[OF new] have "rfold add_pair (e @ [kv]) ps = Inr d" by simp
    moreover have "distinct (map fst (e @ [kv]))" using new Cons.prems(2) by (auto simp: dhas_def)
    ultimately show ?case using Cons.IH[of "e @ [kv]"] by simp
  qed simp
  from this[of "[]"] assms show ?thesis by (simp add: strict_object_pairs_def)
qed

lemma strict_object_pairs_distinct: "distinct (map fst ps) \<Longrightarrow> strict_object_pairs ps = Inr ps"
proof -
  have "distinct (map fst (e @ ps)) \<Longrightarrow> rfold add_pair e ps = Inr (e @ ps)" for e
  proof (induction ps arbitrary: e)
    case (Cons kv ps)
    then have new: "\<not> dhas (fst kv) e" by (auto simp: dhas_def)
    show ?case using Cons.IH[of "e @ [kv]"] Cons.prems add_pair_new[OF new] by simp
  qed simp
  from this[of "[]"] show "distinct (map fst ps) \<Longrightarrow> ?thesis" by (simp add: strict_object_pairs_def)
qed

lemma parse_literal_scalar:
  assumes "parse_literal R s = Inr (v, q)"
  shows "wf_json v \<and> json_finite v"
  using assms
  by (auto simp: parse_literal_def parse_number_def Let_def rbind_Inr_iff int_of_text_def
      strict_json_float_def finite_float_def split: option.splits if_splits pyfloat.splits)

lemma parse_wf:
  "parse_value R s = Inr (v, q) \<Longrightarrow> wf_json v \<and> json_finite v"
  "parse_items R s = Inr (vs, q) \<Longrightarrow> wf_list vs \<and> finite_list vs"
  "parse_pairs R s = Inr (ps, q) \<Longrightarrow> wf_items ps \<and> finite_items ps"
proof (induction "length s" arbitrary: s v q vs ps rule: less_induct)
  case less
  { case 1
    then show ?case
    proof (cases rule: parse_valueE)
      case (dict r ps d)
      then show ?thesis using less(3)[OF dict(3,4)] strict_object_pairs_facts[OF dict(5)] by simp
    next
      case (list r vs)
      then show ?thesis using less(2)[OF list(3,4)] by simp
    next
      case literal
      then show ?thesis by (rule parse_literal_scalar)
    qed simp_all }
  note V = this
  { case 2
    then show ?case
    proof (cases rule: parse_itemsE)
      case (last v p)
      then show ?thesis using V[OF last(1)] by simp
    next
      case (more v p ws)
      then show ?thesis using V[OF more(1)] less(2)[OF more(3,4)] by simp
    qed }
  { case 3
    then show ?case
    proof (cases rule: parse_pairsE)
      case (last k p v t)
      then show ?thesis using less(1)[OF last(5,4)] by simp
    next
      case (more k p v t rs)
      then show ?thesis using less(1)[OF more(5,4)] less(3)[OF more(7,8)] by simp
    qed }
qed

lemma strict_json_loads_wf: "strict_json_loads R s = Inr v \<Longrightarrow> wf_json v \<and> json_finite v"
  by (auto simp: strict_json_loads_def rbind_Inr_iff split: if_splits dest!: parse_wf(1))

section \<open>Reading what was printed\<close>

text \<open>
  The values a text can be read back from: distinct keys, finite floats, and integers within the
  limit of \<open>int\<close> on digits.
\<close>

fun printable :: "json \<Rightarrow> bool"
  and printable_list :: "json list \<Rightarrow> bool"
  and printable_items :: "dict \<Rightarrow> bool" where
  "printable (JInt i) = (length (show_nat (nat \<bar>i\<bar>)) \<le> MAX_INT_DIGITS)"
| "printable (JFloat f) = finite_float f"
| "printable (JList xs) = printable_list xs"
| "printable (JDict d) = (distinct (map fst d) \<and> printable_items d)"
| "printable JNull = True"
| "printable (JBool b) = True"
| "printable (JStr s) = True"
| "printable_list [] = True"
| "printable_list (x # xs) = (printable x \<and> printable_list xs)"
| "printable_items [] = True"
| "printable_items ((k, v) # d) = (printable v \<and> printable_items d)"

lemma printable_list_iff: "printable_list xs \<longleftrightarrow> list_all printable xs"
  by (induction xs) auto

lemma printable_items_iff: "printable_items d \<longleftrightarrow> list_all (\<lambda>kv. printable (snd kv)) d"
  by (induction d) auto

lemma printable_finite:
  "printable v \<Longrightarrow> json_finite v"
  "printable_list xs \<Longrightarrow> finite_list xs"
  "printable_items d \<Longrightarrow> finite_items d"
  by (induction v and xs and d rule: printable_printable_list_printable_items.induct)
    (auto simp: finite_float_def)

lemma printable_canon:
  "printable (canon v) = printable v"
  "printable_list (canon_list xs) = printable_list xs"
  "printable_items (canon_items d) = printable_items d"
proof (induction v and xs and d rule: canon_canon_list_canon_items.induct)
  case (2 d)
  have "distinct (map fst (sort_key fst (canon_items d))) \<longleftrightarrow> distinct (map fst d)"
  proof (rule mset_eq_imp_distinct_iff)
    have "map fst (canon_items d) = map fst d" by (simp add: canon_items_map)
    then show "mset (map fst (sort_key fst (canon_items d))) = mset (map fst d)" by (metis mset_map mset_sort)
  qed
  with 2 show ?case by (simp add: printable_items_iff list_all_iff)
qed auto

text \<open>What can follow a value inside a text: the end, or a closing or separating character.\<close>

definition delimited :: "string \<Rightarrow> bool" where
  "delimited x \<longleftrightarrow> x = [] \<or> hd x \<in> {CHR '','', CHR '']'', CHR ''}''}"

lemma delimited_Cons [simp]:
  "delimited (CHR '','' # x)" "delimited (CHR '']'' # x)" "delimited (CHR ''}'' # x)" "delimited []"
  by (simp_all add: delimited_def)

subsection \<open>Strings\<close>

lemma hex_char_val_digit: "n < 16 \<Longrightarrow> hex_char_val (hex_digit n) = Some n"
proof -
  have "\<forall>n < 16. hex_char_val (''0123456789abcdef'' ! n) = Some n" by code_simp
  then show "n < 16 \<Longrightarrow> ?thesis" by (simp add: hex_digit_def)
qed

lemma scan_control:
  assumes "(of_char a :: nat) < 32"
  shows "scan_string ([CHR 0x5C, CHR ''u'', CHR ''0'', CHR ''0'',
           hex_digit (of_char a div 16), hex_digit (of_char a mod 16)] @ x) = prepend [a] (scan_string x)"
proof -
  let ?hi = "hex_digit (of_char a div 16)" and ?lo = "hex_digit (of_char a mod 16)"
  have z: "hex_char_val CHR ''0'' = Some 0" by code_simp
  have "hex_char_val ?hi = Some (of_char a div 16)" by (rule hex_char_val_digit) (use assms in simp)
  moreover have "hex_char_val ?lo = Some (of_char a mod 16)" by (rule hex_char_val_digit) simp
  ultimately have "hex4 ([CHR ''0'', CHR ''0'', ?hi, ?lo] @ x) = Some (of_char a)"
    by (simp add: hex4_def z)
  moreover have "escape_code (of_char a) x = (of_char a, 0)" using assms by (simp add: escape_code_def)
  moreover have "utf8_of_code (of_char a) = [a]" using assms by (simp add: utf8_of_code_def)
  ultimately show ?thesis by simp
qed

lemma scan_escape: "scan_string (escape_char a @ x) = prepend [a] (scan_string x)"
proof (cases "a \<in> set [CHR 0x22, CHR 0x5C, CHR 0x0A, CHR 0x0D, CHR 0x09, CHR 0x0C, CHR 0x08]")
  case True
  then show ?thesis by (auto simp: escape_char_def simple_escape_def)
next
  case False
  then have e: "escape_char a = (if (of_char a :: nat) < 32
        then [CHR 0x5C, CHR ''u'', CHR ''0'', CHR ''0'',
              hex_digit (of_char a div 16), hex_digit (of_char a mod 16)] else [a])"
    by (simp add: escape_char_def)
  show ?thesis
  proof (cases "(of_char a :: nat) < 32")
    case True
    then show ?thesis unfolding e if_P[OF True] by (rule scan_control)
  next
    case high: False
    with False show ?thesis unfolding e by simp
  qed
qed

lemma scan_quote: "scan_string (concat (map escape_char s) @ CHR 0x22 # x) = Inr (s, x)"
  by (induction s) (simp_all add: scan_escape prepend_def)

subsection \<open>Numbers\<close>

definition digits1 :: "string \<Rightarrow> bool" where
  "digits1 ds \<longleftrightarrow> ds \<noteq> [] \<and> list_all is_digit ds"

text \<open>The grammar of a number: its integer part, its fraction and its exponent.\<close>

definition int_text :: "string \<Rightarrow> bool" where
  "int_text ip \<longleftrightarrow> ip = ''0'' \<or> digits1 ip \<and> hd ip \<noteq> CHR ''0''"

definition float_text :: "string \<Rightarrow> bool" where
  "float_text t \<longleftrightarrow> (\<exists>sg ip fp ep. t = sg @ ip @ fp @ ep \<and> sg \<in> {[], ''-''} \<and> int_text ip
     \<and> (fp = [] \<or> (\<exists>ds. fp = CHR ''.'' # ds \<and> digits1 ds))
     \<and> (ep = [] \<or> (\<exists>s ds. ep = s @ ds \<and> s \<in> {''e'', ''e+'', ''e-''} \<and> digits1 ds))
     \<and> (fp \<noteq> [] \<or> ep \<noteq> []))"

text \<open>\<open>float(repr(f)) == f\<close>, and what \<open>repr\<close> writes is a number of JSON.\<close>

locale float_reader = float_printer +
  fixes read :: "string \<Rightarrow> pyfloat"
  assumes read_repr: "finite_float f \<Longrightarrow> read (repr f) = f"
    and repr_grammar: "finite_float f \<Longrightarrow> float_text (repr f)"

definition no_digit :: "string \<Rightarrow> bool" where
  "no_digit y \<longleftrightarrow> y = [] \<or> \<not> is_digit (hd y)"

lemma no_digit_Cons [simp]: "no_digit (a # y) \<longleftrightarrow> \<not> is_digit a" "no_digit []"
  by (simp_all add: no_digit_def)

lemma not_digits [simp]:
  "\<not> is_digit CHR ''.''" "\<not> is_digit CHR ''e''" "\<not> is_digit CHR '',''" "\<not> is_digit CHR '']''"
  "\<not> is_digit CHR ''}''" "\<not> is_digit CHR ''+''" "is_digit CHR ''0''"
  "\<not> is_digit CHR 0x22" "\<not> is_digit CHR ''['' " "\<not> is_digit CHR ''{''" "\<not> is_digit CHR ''n''"
  "\<not> is_digit CHR ''t''" "\<not> is_digit CHR ''f''" "\<not> is_digit CHR ''N''" "\<not> is_digit CHR ''I''"
  by (simp_all add: is_digit_iff)

lemma delimited_no_digit: "delimited x \<Longrightarrow> no_digit x"
  by (cases x) (auto simp: delimited_def)

lemma take_digits: "list_all is_digit ds \<Longrightarrow> no_digit y \<Longrightarrow> takeWhile is_digit (ds @ y) = ds"
  by (cases y) (auto simp: list_all_iff takeWhile_append)

lemma int_part_text: "int_text ip \<Longrightarrow> no_digit y \<Longrightarrow> int_part (ip @ y) = ip"
  using take_digits[of "''0''" y] take_digits[of ip y] by (auto simp: int_text_def digits1_def int_part_def)

lemma fraction_part_text:
  assumes "digits1 ds" and "no_digit y"
  shows "fraction_part (CHR ''.'' # ds @ y) = CHR ''.'' # ds"
  using assms take_digits by (simp add: fraction_part_def digits1_def)

lemma fraction_part_none: "no_digit y \<Longrightarrow> take 1 y \<noteq> ''.'' \<Longrightarrow> fraction_part y = []"
  by (simp add: fraction_part_def)

lemma digits1_Cons:
  assumes "digits1 ds"
  obtains d es where "ds = d # es" and "is_digit d" and "d \<noteq> CHR ''+''" and "d \<noteq> CHR ''-''"
proof (cases ds)
  case (Cons d es)
  with assms have d: "is_digit d" by (simp add: digits1_def)
  then have "d \<noteq> CHR ''+''" "d \<noteq> CHR ''-''" by (auto simp: is_digit_iff)
  with Cons d that show thesis by blast
qed (use assms in \<open>simp add: digits1_def\<close>)

lemma exponent_part_text:
  assumes "digits1 ds" and "no_digit y" and "s \<in> {''e'', ''e+'', ''e-''}"
  shows "exponent_part (s @ ds @ y) = s @ ds"
  using assms(1)
proof (rule digits1_Cons)
  fix d es assume d: "ds = d # es" "is_digit d" "d \<noteq> CHR ''+''" "d \<noteq> CHR ''-''"
  have "takeWhile is_digit (ds @ y) = ds" using assms take_digits by (simp add: digits1_def)
  with d assms(3) show ?thesis by (auto simp: exponent_part_def Let_def)
qed

lemma exponent_part_none: "delimited y \<Longrightarrow> exponent_part y = []"
  by (cases y) (auto simp: exponent_part_def delimited_def)

lemma int_text_Cons:
  assumes "int_text ip"
  obtains d es where "ip = d # es" and "is_digit d"
  using assms by (cases ip) (auto simp: int_text_def digits1_def)

text \<open>A number of JSON as the parser splits it.\<close>

lemma parse_number_split:
  assumes "sg \<in> {[], ''-''}" and ip: "int_text ip" and "no_digit (fp @ ep @ x)"
    and "fraction_part (fp @ ep @ x) = fp" and "exponent_part (ep @ x) = ep"
  shows "parse_number R (sg @ ip @ fp @ ep @ x) =
     (if fp = [] \<and> ep = [] then rbind (int_of_text (sg \<noteq> []) ip) (\<lambda>v. Inr (v, x))
      else rbind (strict_json_float R (sg @ ip @ fp @ ep)) (\<lambda>v. Inr (v, x)))"
  using ip
proof (rule int_text_Cons)
  fix d es assume d: "ip = d # es" "is_digit d"
  then have "(if take 1 (sg @ ip @ fp @ ep @ x) = ''-'' then ''-'' else []) = sg"
    using assms(1) by auto
  moreover have "int_part (ip @ fp @ ep @ x) = ip" by (rule int_part_text[OF assms(2,3)])
  moreover have "ip \<noteq> []" using d by simp
  moreover have "drop (length xs) (xs @ ys) = ys" for xs ys :: string by simp
  ultimately show ?thesis
    by (simp only: parse_number_def Let_def assms(4,5) if_False)
qed

lemma show_nat_int_text: "int_text (show_nat n)"
proof (induction n rule: show_nat.induct)
  case (1 n)
  show ?case
  proof (cases "n < 10")
    case True
    have "int_text [digit_char n]"
    proof (cases "n = 0")
      case z: True
      have "digit_char 0 = CHR ''0''" by code_simp
      with z show ?thesis by (simp add: int_text_def)
    next
      case False
      have "digit_val CHR ''0'' = 0" by code_simp
      with False True digit_val_digit_char[of n] have "digit_char n \<noteq> CHR ''0''" by metis
      with True show ?thesis by (simp add: int_text_def digits1_def)
    qed
    with True show ?thesis by (subst show_nat.simps) simp
  next
    case False
    with 1 have i: "int_text (show_nat (n div 10))" by simp
    have "show_nat (n div 10) \<noteq> ''0''"
    proof
      assume "show_nat (n div 10) = ''0''"
      then have "digits_val (show_nat (n div 10)) = 0" by (simp add: digits_val_def digit_val_def)
      with False show False by simp
    qed
    with i False show ?thesis
      by (subst show_nat.simps) (auto simp: int_text_def digits1_def)
  qed
qed

lemma parse_number_int:
  assumes "delimited x" and "length (show_nat (nat \<bar>i\<bar>)) \<le> MAX_INT_DIGITS"
  shows "parse_number R (show_int i @ x) = Inr (JInt i, x)"
proof -
  define sg where "sg = (if i < 0 then ''-'' else [])"
  have s: "show_int i = sg @ show_nat (nat \<bar>i\<bar>)" by (simp add: show_int_def sg_def)
  have x: "no_digit ([] @ [] @ x)" using delimited_no_digit[OF assms(1)] by simp
  have "take 1 x \<noteq> ''.''" using assms(1) by (cases x) (auto simp: delimited_def)
  then have "fraction_part ([] @ [] @ x) = []" using x fraction_part_none by simp
  moreover have "exponent_part ([] @ x) = []" using exponent_part_none[OF assms(1)] by simp
  moreover have "sg \<in> {[], ''-''}" by (simp add: sg_def)
  ultimately have "parse_number R (sg @ show_nat (nat \<bar>i\<bar>) @ [] @ [] @ x)
      = rbind (int_of_text (sg \<noteq> []) (show_nat (nat \<bar>i\<bar>))) (\<lambda>v. Inr (v, x))"
    using parse_number_split[OF _ show_nat_int_text x] by simp
  with assms(2) show ?thesis by (simp add: s int_of_text_def sg_def)
qed

context float_reader
begin

lemma parse_number_float:
  assumes "rt_float_of_text R = read" and "delimited x" and "finite_float f"
  shows "parse_number R (repr f @ x) = Inr (JFloat f, x)"
proof -
  from repr_grammar[OF assms(3)] obtain sg ip fp ep where t: "repr f = sg @ ip @ fp @ ep"
    and sg: "sg \<in> {[], ''-''}" and ip: "int_text ip"
    and fp: "fp = [] \<or> (\<exists>ds. fp = CHR ''.'' # ds \<and> digits1 ds)"
    and ep: "ep = [] \<or> (\<exists>s ds. ep = s @ ds \<and> s \<in> {''e'', ''e+'', ''e-''} \<and> digits1 ds)"
    and some: "fp \<noteq> [] \<or> ep \<noteq> []"
    unfolding float_text_def by (elim exE conjE) (rule that)
  have x: "no_digit x" by (rule delimited_no_digit[OF assms(2)])
  have ex: "no_digit (ep @ x) \<and> take 1 (ep @ x) \<noteq> ''.''"
    using ep x assms(2) by (cases x) (auto simp: delimited_def)
  have fx: "no_digit (fp @ ep @ x)" using fp ex by auto
  have "exponent_part (ep @ x) = ep"
    using ep
  proof (elim disjE exE conjE)
    fix s ds assume "ep = s @ ds" "s \<in> {''e'', ''e+'', ''e-''}" "digits1 ds"
    with exponent_part_text[OF _ x] show ?thesis by simp
  qed (simp add: exponent_part_none[OF assms(2)])
  moreover have "fraction_part (fp @ ep @ x) = fp"
    using fp fraction_part_none[of "ep @ x"] fraction_part_text[of _ "ep @ x"] ex by auto
  ultimately have "parse_number R (sg @ ip @ fp @ ep @ x) =
     rbind (strict_json_float R (sg @ ip @ fp @ ep)) (\<lambda>v. Inr (v, x))"
    using parse_number_split[OF sg ip fx] some by auto
  then show ?thesis
    using assms(3) read_repr by (simp add: t[symmetric] strict_json_float_def assms(1)) (simp add: t)
qed

end

subsection \<open>Values\<close>

lemma number_start:
  assumes "float_text t \<or> t = show_int i"
  obtains d es where "is_digit d" and "t = d # es \<or> t = CHR ''-'' # d # es"
proof -
  have "\<exists>sg ip y. t = sg @ ip @ y \<and> sg \<in> {[], ''-''} \<and> int_text ip"
    using assms
  proof
    assume "t = show_int i"
    then have "t = (if i < 0 then ''-'' else []) @ show_nat (nat \<bar>i\<bar>) @ []" by (simp add: show_int_def)
    then show ?thesis using show_nat_int_text by (metis insertCI)
  qed (auto simp: float_text_def)
  then obtain sg ip y where t: "t = sg @ ip @ y" "sg \<in> {[], ''-''}" and "int_text ip" by blast
  from this(3) show thesis
  proof (rule int_text_Cons)
    fix d es assume "ip = d # es" "is_digit d"
    with t that[of d "es @ y"] show thesis by auto
  qed
qed

lemma parse_value_number:
  assumes "is_digit d" and "s = d # es \<or> s = CHR ''-'' # d # es"
  shows "parse_value R s = parse_number R s"
proof -
  have "d \<notin> set [CHR 0x22, CHR ''{'', CHR ''['', CHR ''n'', CHR ''t'', CHR ''f'', CHR ''N'', CHR ''I'', CHR ''-'']"
    using assms(1) by (auto simp: is_digit_iff)
  then show ?thesis
    using assms(2) by (subst parse_value.simps) (auto simp: parse_literal_def strip_prefix_def)
qed

context float_reader
begin

lemma parse_value_scalar:
  assumes R: "rt_float_repr R = repr" "rt_float_of_text R = read" and x: "delimited x"
    and v: "is_number v" "printable v"
  shows "parse_value R (scalar_text R v @ x) = Inr (v, x)"
proof -
  have n: "parse_number R (scalar_text R v @ x) = Inr (v, x)"
    using v parse_number_int[OF x] parse_number_float[OF R(2) x]
    by (cases v) (simp_all add: scalar_text_def R(1))
  have "\<exists>i. float_text (scalar_text R v) \<or> scalar_text R v = show_int i"
    using v repr_grammar by (cases v) (auto simp: scalar_text_def R(1))
  then obtain i where "float_text (scalar_text R v) \<or> scalar_text R v = show_int i" by blast
  then obtain d es where "is_digit d" "scalar_text R v = d # es \<or> scalar_text R v = CHR ''-'' # d # es"
    by (rule number_start)
  then have "parse_value R (scalar_text R v @ x) = parse_number R (scalar_text R v @ x)"
    by (intro parse_value_number[of d _ "es @ x"]) auto
  with n show ?thesis by simp
qed

text \<open>The first character of a text: no white space, no closing bracket, nothing outside ASCII.\<close>

lemma ptext_start:
  assumes "rt_float_repr R = repr" and "printable v"
  obtains a s where "ptext R v = a # s" and "\<not> json_ws a" and "a \<notin> {CHR '']'', CHR ''}''}" and "of_char a < (128 :: nat)"
proof (cases "is_number v")
  case True
  have "\<exists>i. float_text (scalar_text R v) \<or> scalar_text R v = show_int i"
    using True assms repr_grammar by (cases v) (auto simp: scalar_text_def)
  then obtain i where "float_text (scalar_text R v) \<or> scalar_text R v = show_int i" by blast
  then obtain d es where d: "is_digit d" and t: "scalar_text R v = d # es \<or> scalar_text R v = CHR ''-'' # d # es"
    by (rule number_start)
  have "\<not> json_ws d" "d \<notin> {CHR '']'', CHR ''}''}" "of_char d < (128 :: nat)"
    using d by (auto simp: json_ws_def is_digit_iff)
  moreover have "\<not> json_ws CHR ''-''" "of_char CHR ''-'' < (128 :: nat)" by (simp_all add: json_ws_def)
  moreover have "ptext R v = scalar_text R v" using True by (cases v) simp_all
  ultimately show thesis using t that by fastforce
next
  case False
  show thesis
  proof (cases v)
    case (JBool b)
    then show thesis using that by (cases b) (simp_all add: scalar_text_def json_ws_def)
  qed (use False that in \<open>simp_all add: scalar_text_def quote_def json_ws_def\<close>)
qed

lemma skip_ptext:
  assumes "rt_float_repr R = repr" and "printable v"
  shows "skip_ws (ptext R v @ x) = ptext R v @ x" "take 1 (ptext R v @ x) \<noteq> '']''"
proof -
  from assms obtain a s where "ptext R v = a # s" "\<not> json_ws a" "a \<noteq> CHR '']''" by (rule ptext_start) auto
  then show "skip_ws (ptext R v @ x) = ptext R v @ x" "take 1 (ptext R v @ x) \<noteq> '']''"
    by (simp_all add: skip_ws_def)
qed

lemma ptext_list_Cons: "ptext_list R (v # vs) @ y = ptext R v @ (if vs = [] then y else CHR '','' # ptext_list R vs @ y)"
  by simp

lemma skip_punctuation:
  "skip_ws (CHR '','' # x) = CHR '','' # x" "skip_ws (CHR '']'' # x) = CHR '']'' # x"
  "skip_ws (CHR ''}'' # x) = CHR ''}'' # x" "skip_ws (CHR '':'' # x) = CHR '':'' # x"
  "skip_ws (CHR 0x22 # x) = CHR 0x22 # x"
  by (simp_all add: skip_ws_def json_ws_def)

lemma parse_ptext:
  assumes R: "rt_float_repr R = repr" "rt_float_of_text R = read"
  shows
    "printable v \<Longrightarrow> delimited x \<Longrightarrow> parse_value R (ptext R v @ x) = Inr (v, x)"
    "printable_list vs \<Longrightarrow> vs \<noteq> [] \<Longrightarrow> parse_items R (ptext_list R vs @ CHR '']'' # x) = Inr (vs, x)"
    "printable_items d \<Longrightarrow> d \<noteq> [] \<Longrightarrow> parse_pairs R (ptext_items R d @ CHR ''}'' # x) = Inr (d, x)"
proof (induction v and vs and d arbitrary: x and x and x rule: printable_printable_list_printable_items.induct)
  case (3 vs)
  show ?case
  proof (cases vs)
    case Nil
    then show ?thesis by (subst parse_value.simps) (simp add: skip_punctuation)
  next
    case (Cons w ws)
    let ?r = "ptext_list R vs @ CHR '']'' # x"
    have w: "printable w" using "3.prems" Cons by simp
    have s: "skip_ws ?r = ?r" "take 1 ?r \<noteq> '']''"
      unfolding Cons ptext_list_Cons using skip_ptext[OF R(1) w] by blast+
    have "parse_items R ?r = Inr (vs, x)" using 3 Cons by simp
    with s show ?thesis by (subst parse_value.simps) simp
  qed
next
  case (4 d)
  show ?case
  proof (cases d)
    case Nil
    then show ?thesis by (subst parse_value.simps) (simp add: skip_punctuation)
  next
    case (Cons kv e)
    let ?r = "ptext_items R d @ CHR ''}'' # x"
    obtain y where y: "?r = CHR 0x22 # y" using Cons by (cases kv) (simp add: quote_def)
    have s: "skip_ws ?r = ?r" "take 1 ?r \<noteq> ''}''" unfolding y by (simp_all add: skip_punctuation)
    have "parse_pairs R ?r = Inr (d, x)" "strict_object_pairs d = Inr d"
      using 4 Cons strict_object_pairs_distinct by simp_all
    with s show ?thesis by (subst parse_value.simps) simp
  qed
next
  case (6 b)
  then show ?case by (subst parse_value.simps) (simp add: scalar_text_def parse_literal_def strip_prefix_def)
next
  case (9 v vs)
  show ?case
  proof (cases "vs = []")
    case True
    then show ?thesis using 9 by (subst parse_items.simps) (simp add: skip_punctuation)
  next
    case False
    let ?y = "ptext_list R vs @ CHR '']'' # x"
    have v: "parse_value R (ptext R v @ CHR '','' # ?y) = Inr (v, CHR '','' # ?y)" using 9 by simp
    obtain w ws where vs: "vs = w # ws" using False by (cases vs) auto
    have "skip_ws ?y = ?y" unfolding vs ptext_list_Cons by (rule skip_ptext(1)[OF R(1)]) (use "9.prems" vs in simp)
    moreover have "parse_items R ?y = Inr (vs, x)" using 9 False by simp
    ultimately show ?thesis
      using False v by (subst parse_items.simps) (simp add: skip_punctuation)
  qed
next
  case (11 k v d)
  have sk: "skip_ws (ptext R v @ z) = ptext R v @ z" for z
    by (rule skip_ptext(1)[OF R(1)]) (use "11.prems" in simp)
  show ?case
  proof (cases "d = []")
    case True
    then show ?thesis using 11 by (subst parse_pairs.simps) (simp add: skip_punctuation quote_def scan_quote sk)
  next
    case False
    let ?y = "ptext_items R d @ CHR ''}'' # x"
    have v: "parse_value R (ptext R v @ CHR '','' # ?y) = Inr (v, CHR '','' # ?y)" using 11 by simp
    have "\<exists>z. ?y = CHR 0x22 # z" using False by (cases d) (auto simp: quote_def)
    then have "skip_ws ?y = ?y" by (auto simp: skip_punctuation)
    moreover have "parse_pairs R ?y = Inr (d, x)" using 11 False by simp
    ultimately show ?thesis
      using False v by (subst parse_pairs.simps) (simp add: skip_punctuation quote_def scan_quote sk)
  qed
next
  case (1 i)
  then show ?case using parse_value_scalar[OF R, of x "JInt i"] by simp
next
  case (2 f)
  then show ?case using parse_value_scalar[OF R, of x "JFloat f"] by simp
next
  case 5
  then show ?case by (subst parse_value.simps) (simp add: scalar_text_def parse_literal_def strip_prefix_def)
next
  case (7 s)
  then show ?case by (subst parse_value.simps) (simp add: scalar_text_def quote_def scan_quote)
qed simp_all

text \<open>The canonical text of a value is read back as its canonical form.\<close>

lemma strict_json_loads_jtext:
  assumes R: "rt_float_repr R = repr" "rt_float_of_text R = read" and v: "printable v"
  shows "strict_json_loads R (jtext R v) = Inr (canon v)"
proof -
  have c: "printable (canon v)" using v by (simp add: printable_canon)
  obtain a s where a: "ptext R (canon v) = a # s" "of_char a < (128 :: nat)"
    using R(1) c by (rule ptext_start)
  have "a \<noteq> CHR 0xEF" using a(2) by auto
  then show ?thesis
    using skip_ptext(1)[OF R(1) c, of "[]"] parse_ptext(1)[OF R c, of "[]"] a(1)
    by (simp add: strict_json_loads_def jtext_ptext) (simp add: skip_ws_def)
qed

end

subsection \<open>The demonstration runtime\<close>

lemma demo_fin_text:
  obtains n d where "quotient_of q = (n, d)" "d > 0" "demo_float_repr (FFin q) = show_int n @ CHR ''.'' # show_nat (nat d)"
proof -
  obtain n d where q: "quotient_of q = (n, d)" by (cases "quotient_of q")
  have "d > 0" by (rule quotient_of_denom_pos[OF q])
  with q that show thesis by (simp add: show_int_def)
qed

lemma show_int_sign: "take 1 (show_int i) = ''-'' \<longleftrightarrow> i < 0"
  using hd_show_nat[of "nat i"] by (cases "show_nat (nat i)") (auto simp: show_int_def)

lemma demo_read_fin: "demo_float_of_text (demo_float_repr (FFin q)) = FFin q"
proof -
  obtain n d where q: "quotient_of q = (n, d)" "d > 0"
    and t: "demo_float_repr (FFin q) = show_int n @ CHR ''.'' # show_nat (nat d)" by (rule demo_fin_text)
  let ?t = "show_int n @ CHR ''.'' # show_nat (nat d)"
  have "takeWhile (\<lambda>a. a \<noteq> CHR ''.'') ?t = show_int n" "dropWhile (\<lambda>a. a \<noteq> CHR ''.'') ?t = CHR ''.'' # show_nat (nat d)"
    using show_int_no_dot[of n] by (subst takeWhile_append2 dropWhile_append2; force)+
  moreover have "(if take 1 (show_int n) = ''-'' then - int (digits_val (tl (show_int n))) else int (digits_val (show_int n))) = n"
    unfolding show_int_sign by (simp add: show_int_def)
  moreover have "?t \<noteq> ''-0.0''" using demo_neg_zero[of q] t by simp
  ultimately have "demo_float_of_text ?t = FFin (of_int n / of_nat (nat d))"
    by (simp add: demo_float_of_text_def Let_def)
  also have "of_int n / of_nat (nat d) = q" using quotient_of_div[OF q(1)] q(2) by simp
  finally show ?thesis using t by simp
qed

interpretation demo_reader: float_reader demo_float_repr demo_float_of_text
proof
  fix f assume "finite_float f"
  then show "demo_float_of_text (demo_float_repr f) = f"
    using demo_read_fin by (cases f) (auto simp: finite_float_def demo_float_of_text_def)
next
  fix f assume "finite_float f"
  then consider q where "f = FFin q" | "f = FNegZero" by (cases f) (auto simp: finite_float_def)
  then show "float_text (demo_float_repr f)"
  proof cases
    case (1 q)
    obtain n d where t: "demo_float_repr (FFin q) = show_int n @ CHR ''.'' # show_nat (nat d)" by (rule demo_fin_text)
    have "digits1 (show_nat (nat d))" using show_nat_digits by (auto simp: digits1_def list_all_iff)
    moreover have "show_int n @ CHR ''.'' # show_nat (nat d) =
        (if n < 0 then ''-'' else []) @ show_nat (nat \<bar>n\<bar>) @ (CHR ''.'' # show_nat (nat d)) @ []"
      by (simp add: show_int_def)
    moreover have "(if n < 0 then ''-'' else []) \<in> {[], ''-''}" by simp
    ultimately show ?thesis unfolding 1 t float_text_def using show_nat_int_text by blast
  next
    case 2
    have "demo_float_repr FNegZero = ''-'' @ ''0'' @ (CHR ''.'' # ''0'') @ []" by simp
    moreover have "digits1 ''0''" "int_text ''0''" "''-'' \<in> {[], ''-''}" by (simp_all add: digits1_def int_text_def)
    ultimately show ?thesis unfolding 2 float_text_def by blast
  qed
qed

end
