(* ===== verification/Validation_Sound.thy ===== *)
theory Validation_Sound
  imports Validation_Bundle Strict_Json_Facts Engine_Facts
begin

text \<open>
  What a sealed validation context holds: one decoded report for every member of the bundle, in
  the order of the identifiers, and exactly the bytes it was captured from.
\<close>

section \<open>Canonical values\<close>

lemma sort_key_twice: "sort_key f (sort_key f xs) = sort_key f xs"
  by (rule sort_key_id_if_sorted) simp

lemma canon_idem:
  "canon (canon v) = canon v" "canon_list (canon_list xs) = canon_list xs"
  "canon_items (canon_items d) = canon_items d"
proof (induction v and xs and d rule: canon_canon_list_canon_items.induct)
  case (2 d)
  have "canon_items (sort_key fst (canon_items d)) = sort_key fst (canon_items (canon_items d))"
    unfolding canon_items_map by (rule sort_key_map[symmetric]) simp
  with 2 show ?case by (simp add: sort_key_twice)
qed auto

lemma wf_canon:
  "wf_json v \<Longrightarrow> wf_json (canon v)" "wf_list xs \<Longrightarrow> wf_list (canon_list xs)"
  "wf_items d \<Longrightarrow> wf_items (canon_items d)"
proof (induction v and xs and d rule: canon_canon_list_canon_items.induct)
  case (2 d)
  have "map fst (canon_items d) = map fst d" by (simp add: canon_items_map)
  then have "distinct (map fst (sort_key fst (canon_items d))) \<longleftrightarrow> distinct (map fst d)"
    by (intro mset_eq_imp_distinct_iff) (metis mset_map mset_sort)
  with 2 show ?case by (simp add: wf_items_iff list_all_iff)
qed auto

section \<open>Strict bytes\<close>

lemma canonical_bytes_Inr: "canonical_bytes R v = Inr t \<longleftrightarrow> json_finite v \<and> utf8_valid (jtext R v) \<and> t = jtext R v"
  by (auto simp: canonical_bytes_def json_dumps_def rbind_Inr_iff split: if_splits)

lemma strict_json_bytes_facts:
  assumes "strict_json_bytes R raw label = Inr v"
  shows "strict_json_loads R raw = Inr v" "raw = jtext R v" "wf_json v" "json_finite v" "utf8_valid raw"
    "json_depth v \<le> MAX_VALIDATION_JSON_DEPTH"
  using assms strict_json_loads_wf[of R raw v]
  by (auto simp: strict_json_bytes_def rbind_Inr_iff canonical_bytes_Inr split: if_splits)

lemma strict_json_bytes_Inr:
  assumes "float_reader (rt_float_repr R) (rt_float_of_text R)" and v: "printable v" and "utf8_valid (jtext R v)"
    and "json_depth v \<le> MAX_VALIDATION_JSON_DEPTH" and "canon v = v"
  shows "strict_json_bytes R (jtext R v) label = Inr v"
  using assms float_reader.strict_json_loads_jtext[OF assms(1) refl refl v] printable_finite(1)[OF v]
  by (simp add: strict_json_bytes_def canonical_bytes_Inr[THEN iffD2])

section \<open>Values made of texts\<close>

definition text_values :: "dict \<Rightarrow> bool" where
  "text_values d \<longleftrightarrow> distinct (map fst d) \<and> list_all (\<lambda>kv. is_str (snd kv)) d"

lemma text_values_printable: "text_values d \<Longrightarrow> printable (JDict d)"
  by (auto simp: text_values_def printable_items_iff list_all_iff elim!: is_strE)

lemma canon_str: "is_str v \<Longrightarrow> canon v = v"
  by (cases v) simp_all

lemma canon_text_values: "text_values d \<Longrightarrow> canon (JDict d) = JDict (sort_key fst d)"
proof -
  assume "text_values d"
  then have "map (\<lambda>kv. (fst kv, canon (snd kv))) d = map (\<lambda>kv. kv) d"
    by (intro map_cong) (auto simp: text_values_def list_all_iff canon_str)
  then show ?thesis by (simp add: canon_items_map)
qed

lemma dget_sort:
  assumes "distinct (map fst d)"
  shows "dget k (sort_key fst d) = dget k d" "dhas k (sort_key fst d) = dhas k d"
  using map_of_sort_key_fst[OF assms] by (simp_all add: dget_def dget_or_def dhas_iff)

lemma text_values_dset: "text_values d \<Longrightarrow> text_values (dset k (JStr s) d)"
proof -
  have "list_all (\<lambda>kv. is_str (snd kv)) d \<Longrightarrow> list_all (\<lambda>kv. is_str (snd kv)) (dset k (JStr s) d)"
    by (induction k "JStr s" d rule: dset.induct) auto
  then show "text_values d \<Longrightarrow> ?thesis" by (simp add: text_values_def)
qed

lemma text_values_keys:
  assumes "distinct (map fst d)" and "keys_exactly ks d" and "\<forall>k \<in> set ks. is_str (dget k d)"
  shows "text_values d"
proof -
  have "is_str v" if "(k, v) \<in> set d" for k v
  proof -
    have "dget k d = v" using that assms(1) by (simp add: dget_def dget_or_def)
    moreover have "k \<in> set ks" using that assms(2) by (force simp: keys_exactly_iff)
    ultimately show ?thesis using assms(3) by auto
  qed
  with assms(1) show ?thesis by (auto simp: text_values_def list_all_iff)
qed

section \<open>One report\<close>

lemma exact_string_Inr: "exact_string v label = Inr s \<longleftrightarrow> nonblank_str v \<and> s = str_of v"
  by (auto simp: exact_string_def)

definition accepted_report :: "runtime \<Rightarrow> string \<Rightarrow> evidence_member \<Rightarrow> dict \<Rightarrow> bool" where
  "accepted_report R i m report \<longleftrightarrow>
     strict_json_bytes R (em_raw_bytes m) (''validation report '' @ i) = Inr (JDict report)
     \<and> keys_exactly REPORT_KEYS report \<and> check_report R i m report = Inr ()"

lemma seal_report_Inr:
  assumes "seal_report R phase ms i = Inr (r, w)"
  obtains m report where "member_of ms i = Some m" "accepted_report R i m report"
    "r = sealed_report phase m report"
    "w = \<lparr>vw_source_id = em_source_id m, vw_evidence_id = i, vw_filename = em_filename m,
             vw_source_hash = sha256_hex (em_raw_bytes m), vw_raw_bytes = em_raw_bytes m\<rparr>"
  using assms
  by (auto simp: seal_report_def accepted_report_def make_witness_def rbind_Inr_iff
      split: option.splits if_splits elim!: is_dictE)

lemma check_report_facts:
  assumes "check_report R i m report = Inr ()"
  shows "\<forall>k \<in> set REPORT_KEYS. is_str (dget k report)" "dget ''evidence_id'' report = JStr i"
    "str_in (dget ''result'' report) [''PASS'', ''FAIL'', ''PENDING'']"
    "ok (parse_utc (dget ''performed_at'' report))" "ok (parse_utc (dget ''issued_at'' report))"
    "dget ''locator'' report = JStr (em_filename m @ ''#/result'')"
proof -
  have c: "\<exists>u. check_all (\<lambda>_ k. rbind (exact_string (dget k report) (''validation report '' @ i @ ''.'' @ k)) (\<lambda>_. Inr ()))
       (filter (\<lambda>k. k \<noteq> ''summary'') REPORT_KEYS) = Inr u"
    and s: "is_str (dget ''summary'' report)" and e: "dget ''evidence_id'' report = JStr i"
    and r: "str_in (dget ''result'' report) [''PASS'', ''FAIL'', ''PENDING'']"
    and p: "\<exists>t. parse_rfc3339_utc (dget ''performed_at'' report) ''validation performed_at'' = Inr t"
    and q: "\<exists>t. parse_rfc3339_utc (dget ''issued_at'' report) ''validation issued_at'' = Inr t"
    and l: "dget ''locator'' report = JStr (em_filename m @ ''#/result'')"
    using assms unfolding check_report_def rbind_Inr_iff require_Inr by blast+
  have "is_str (dget k report)" if "k \<in> set REPORT_KEYS" for k
  proof (cases "k = ''summary''")
    case False
    with that have "k \<in> set (filter (\<lambda>k. k \<noteq> ''summary'') REPORT_KEYS)" by simp
    with c have "nonblank_str (dget k report)"
      by (auto simp: rbind_Inr_iff exact_string_Inr elim!: check_all_InrD)
    then show ?thesis by (auto elim: nonblank_strE)
  qed (simp add: s)
  then show "\<forall>k \<in> set REPORT_KEYS. is_str (dget k report)" by blast
  show "ok (parse_utc (dget ''performed_at'' report))" "ok (parse_utc (dget ''issued_at'' report))"
    using p q parse_utc_rfc3339 by (force simp: ok_iff)+
  show "dget ''evidence_id'' report = JStr i" by (rule e)
  show "str_in (dget ''result'' report) [''PASS'', ''FAIL'', ''PENDING'']" by (rule r)
  show "dget ''locator'' report = JStr (em_filename m @ ''#/result'')" by (rule l)
qed

text \<open>The report of a context, from the report its member holds.\<close>

lemma sealed_report_get:
  "dget k (sealed_report phase m report) =
     (if k = ''phase'' then JStr phase else if k = ''source_hash'' then JStr (sha256_hex (em_raw_bytes m))
      else if k = ''source_path'' then JStr (em_filename m)
      else if k = ''source_id'' then JStr (em_source_id m) else dget k report)"
  by (simp add: sealed_report_def)

lemma accepted_report_facts:
  assumes "accepted_report R i m report"
  shows "text_values report" "text_values (sealed_report phase m report)"
    "dget ''evidence_id'' (sealed_report phase m report) = JStr i"
    "good_report (JDict (sort_key fst (sealed_report phase m report)))"
proof -
  have b: "strict_json_bytes R (em_raw_bytes m) (''validation report '' @ i) = Inr (JDict report)"
    and k: "keys_exactly REPORT_KEYS report" and c: "check_report R i m report = Inr ()"
    using assms by (simp_all add: accepted_report_def)
  note f = check_report_facts[OF c]
  have d: "distinct (map fst report)" using strict_json_bytes_facts(3)[OF b] by simp
  show t: "text_values report" by (rule text_values_keys[OF d k f(1)])
  then show s: "text_values (sealed_report phase m report)"
    unfolding sealed_report_def by (intro text_values_dset)
  then have ds: "distinct (map fst (sealed_report phase m report))" by (simp add: text_values_def)
  show "dget ''evidence_id'' (sealed_report phase m report) = JStr i" by (simp add: sealed_report_get f(2))
  have has: "dhas x (sealed_report phase m report)" if "x \<in> set REPORT_ITEMS" for x
    using that keys_exactly_has_keys[OF k]
    by (auto simp: sealed_report_def has_keys_iff REPORT_ITEMS_def REPORT_KEYS_def)
  have "printable (JDict (sealed_report phase m report))" by (rule text_values_printable[OF s])
  then have "json_finite (canon (JDict (sealed_report phase m report)))"
    by (simp only: json_finite_canon printable_finite)
  then have "json_finite (JDict (sort_key fst (sealed_report phase m report)))"
    by (simp only: canon_text_values[OF s])
  with has show "good_report (JDict (sort_key fst (sealed_report phase m report)))"
    unfolding good_report_def dict_of.simps has_keys_iff dget_sort[OF ds] by (simp add: sealed_report_get f)
qed

section \<open>The context\<close>

text \<open>The decoded report \<open>d\<close> of a context was read from the bytes of the member \<open>i\<close>.\<close>

definition sealed_from :: "runtime \<Rightarrow> string \<Rightarrow> evidence_member list \<Rightarrow> string \<Rightarrow> json \<Rightarrow> bool" where
  "sealed_from R phase ms i v \<longleftrightarrow> (\<exists>m report. member_of ms i = Some m \<and> accepted_report R i m report
     \<and> v = JDict (sort_key fst (sealed_report phase m report)))"

lemma sealed_from_facts:
  assumes "sealed_from R phase ms i v"
  shows "good_report v" "dget ''evidence_id'' (dict_of v) = JStr i"
  using assms accepted_report_facts
  by (auto simp: sealed_from_def dget_sort text_values_def)

lemma seal_reports:
  assumes "rmap (seal_report R phase ms) ids = Inr rws"
  shows "list_all2 (\<lambda>i rw. \<exists>m report. member_of ms i = Some m \<and> accepted_report R i m report
     \<and> fst rw = sealed_report phase m report) ids rws"
proof -
  have "\<exists>m report. member_of ms i = Some m \<and> accepted_report R i m report \<and> fst rw = sealed_report phase m report"
    if "seal_report R phase ms i = Inr rw" for i rw
    using that by (cases rw) (auto elim!: seal_report_Inr)
  with assms show ?thesis unfolding rmap_Inr by (rule list_all2_mono)
qed

lemma sealed_reports_sorted:
  assumes "list_all2 (\<lambda>i rw. \<exists>m report. member_of ms i = Some m \<and> accepted_report R i m report
     \<and> fst rw = sealed_report phase m report) ids rws" and "sorted ids"
  shows "sort_key (\<lambda>r. str_of (dget ''evidence_id'' r)) (map fst rws) = map fst rws"
proof (rule sort_key_id_if_sorted)
  have "map (\<lambda>r. str_of (dget ''evidence_id'' r)) (map fst rws) = ids"
    using assms(1) by (induction rule: list_all2_induct) (auto simp: accepted_report_facts(3))
  with assms(2) show "sorted (map (\<lambda>r. str_of (dget ''evidence_id'' r)) (map fst rws))" by simp
qed

lemma sealed_reports_canon:
  assumes "list_all2 (\<lambda>i rw. \<exists>m report. member_of ms i = Some m \<and> accepted_report R i m report
     \<and> fst rw = sealed_report phase m report) ids rws"
  shows "\<exists>vs. canon (JList (map JDict (map fst rws))) = JList vs \<and> list_all2 (sealed_from R phase ms) ids vs
    \<and> printable (JList (map JDict (map fst rws)))"
  using assms
proof (induction rule: list_all2_induct)
  case Nil
  show ?case by simp
next
  case (Cons i ids rw rws)
  then obtain m report where mr: "member_of ms i = Some m" "accepted_report R i m report"
    "fst rw = sealed_report phase m report" by blast
  note t = accepted_report_facts(2)[OF mr(2), of phase]
  from Cons.IH obtain vs where vs: "canon (JList (map JDict (map fst rws))) = JList vs"
    "list_all2 (sealed_from R phase ms) ids vs" "printable (JList (map JDict (map fst rws)))" by blast
  have "sealed_from R phase ms i (JDict (sort_key fst (fst rw)))" using mr by (auto simp: sealed_from_def)
  moreover have "canon (JDict (fst rw)) = JDict (sort_key fst (fst rw))" "printable (JDict (fst rw))"
    using canon_text_values[OF t] text_values_printable[OF t] mr(3) by simp_all
  ultimately show ?case using vs by (auto simp del: canon.simps(2) printable.simps(4))
qed

text \<open>The identifiers of a bundle.\<close>

definition bundle_ids :: "evidence_bundle \<Rightarrow> string list" where
  "bundle_ids b = sort (map em_evidence_id (eb_members b))"

lemma validate_bundle_ids:
  assumes "validate_bundle R b = Inr manifest"
  shows "sort (spec_names ''evidence_id'' (map dict_of (list_of (dget ''members'' manifest)))) = bundle_ids b"
    "distinct (map em_evidence_id (eb_members b))"
proof -
  from assms obtain m where v: "validate_manifest R m = Inr ()"
    and eq: "set (map em_evidence_id (eb_members b)) = set (spec_names ''evidence_id'' (map dict_of (list_of (dget ''members'' (dict_of m)))))"
    and d: "distinct (map em_evidence_id (eb_members b))"
    and c: "manifest = canonical_manifest R (dict_of m)"
    by (auto simp: validate_bundle_def rbind_Inr_iff Let_def split: if_splits)
  let ?names = "spec_names ''evidence_id'' (map dict_of (list_of (dget ''members'' (dict_of m))))"
  have "distinct (map (normalized_identity R) ?names)"
    using v unfolding validate_manifest_def seq_checks_Cons_Inr distinct_identities_def require_Inr by blast
  then have dn: "distinct ?names" by (simp add: distinct_map)
  have "dget ''members'' manifest = JList (sort_key (spec_key R) (list_of (dget ''members'' (dict_of m))))"
    by (simp add: c canonical_manifest_def dget_def dget_or_def)
  then have "mset (spec_names ''evidence_id'' (map dict_of (list_of (dget ''members'' manifest)))) = mset ?names"
    by (simp add: spec_names_def)
  also have "\<dots> = mset (map em_evidence_id (eb_members b))"
    using d dn eq by (simp only: set_eq_iff_mset_eq_distinct)
  finally show "sort (spec_names ''evidence_id'' (map dict_of (list_of (dget ''members'' manifest)))) = bundle_ids b"
    unfolding bundle_ids_def by (metis sorted_list_of_multiset_mset)
  show "distinct (map em_evidence_id (eb_members b))" by (rule d)
qed

lemma prepare_contextE:
  assumes R: "float_reader (rt_float_repr R) (rt_float_of_text R)"
    and "prepare_validation_evidence_context R b c phase i = Inr x"
  obtains ci vs manifest rws where "given_identity R c i = Inr ci" "vc_case_subject_hash x = ci_case_subject_hash ci"
    "vc_scope_digest x = ci_scope_digest ci" "vc_phase x = phase" "phase \<in> set VALIDATION_PHASES"
    "vc_contract_version x = VALIDATION_EVIDENCE_CONTRACT_VERSION" "is_lower_sha (vc_evidence_set_hash x)"
    "vc_sealed x" "vc_reports x = JList vs" "list_all2 (sealed_from R phase (eb_members b)) (bundle_ids b) vs"
    "validate_bundle R b = Inr manifest" "dget ''phase'' manifest = JStr phase"
    "rmap (seal_report R phase (eb_members b)) (bundle_ids b) = Inr rws" "vc_witnesses x = map snd rws"
    "domain_hash R SET_DOMAIN (set_payload ci manifest phase (map fst rws)) = Inr (vc_evidence_set_hash x)"
proof -
  from assms(2) obtain manifest rws ci t decoded where p: "phase \<in> set VALIDATION_PHASES"
    and m: "validate_bundle R b = Inr manifest" and ph: "dget ''phase'' manifest = JStr phase"
    and r: "rmap (seal_report R phase (eb_members b))
        (sort (spec_names ''evidence_id'' (map dict_of (list_of (dget ''members'' manifest))))) = Inr rws"
    and ci: "given_identity R c i = Inr ci"
    and h: "domain_hash R SET_DOMAIN (set_payload ci manifest phase
          (sort_key (\<lambda>r. str_of (dget ''evidence_id'' r)) (map fst rws))) = Inr (vc_evidence_set_hash x)"
    and t: "canonical_bytes R (JList (map JDict (sort_key (\<lambda>r. str_of (dget ''evidence_id'' r)) (map fst rws)))) = Inr t"
    and d: "strict_json_loads R t = Inr decoded"
    and x: "vc_reports x = decoded" "vc_case_subject_hash x = ci_case_subject_hash ci"
      "vc_scope_digest x = ci_scope_digest ci" "vc_phase x = phase" "vc_sealed x"
      "vc_contract_version x = VALIDATION_EVIDENCE_CONTRACT_VERSION" "vc_witnesses x = map snd rws"
    by (auto simp: prepare_validation_evidence_context_def rbind_Inr_iff Let_def split: if_splits)
  note r = r[unfolded validate_bundle_ids(1)[OF m]]
  note s = seal_reports[OF r]
  have "sorted (bundle_ids b)" by (simp add: bundle_ids_def)
  note srt = sealed_reports_sorted[OF s this]
  from sealed_reports_canon[OF s] obtain vs where vs: "canon (JList (map JDict (map fst rws))) = JList vs"
    "list_all2 (sealed_from R phase (eb_members b)) (bundle_ids b) vs"
    and pr: "printable (JList (map JDict (map fst rws)))" by blast
  have "t = jtext R (JList (map JDict (map fst rws)))" using t srt by (simp only: canonical_bytes_Inr)
  then have "decoded = JList vs"
    using d float_reader.strict_json_loads_jtext[OF R refl refl pr] vs(1) by simp
  then show thesis
    using that[OF ci x(2,3,4) p x(6) domain_hash_lower[OF h] x(5) _ vs(2) m ph r x(7)] h x(1) srt by simp
qed

lemma prepared_context_sealed:
  assumes R: "float_reader (rt_float_repr R) (rt_float_of_text R)"
    and "prepare_validation_evidence_context R b c phase i = Inr x"
  shows "sealed_validation (Some x)"
proof -
  from assms show ?thesis
  proof (rule prepare_contextE)
    fix ci vs manifest rws
    assume a: "vc_sealed x" "is_lower_sha (vc_evidence_set_hash x)"
      "vc_contract_version x = VALIDATION_EVIDENCE_CONTRACT_VERSION" "vc_reports x = JList vs"
      "list_all2 (sealed_from R phase (eb_members b)) (bundle_ids b) vs"
    have "list_all good_report vs"
      using a(5) by (induction rule: list_all2_induct) (auto simp: sealed_from_facts)
    with a show ?thesis
      by (simp add: sealed_validation_def good_validation_context_def VALIDATION_EVIDENCE_CONTRACT_VERSION_def
          VALIDATION_CONTRACT_VERSION_def)
  qed
qed

end
