(* ===== verification/Validation_Total.thy ===== *)
theory Validation_Total
  imports Validation_Sound
begin

text \<open>
  When sealing succeeds, and what the hash of an evidence set identifies: equal hashes mean the
  same subject, scope, phase and bytes, or a collision of SHA-256.
\<close>

section \<open>Texts in ASCII\<close>

definition ascii :: "string \<Rightarrow> bool" where
  "ascii s \<longleftrightarrow> list_all (\<lambda>a. (of_char a :: nat) < 128) s"

text \<open>No float and no character outside ASCII.\<close>

fun ascii_json :: "json \<Rightarrow> bool" where
  "ascii_json (JStr s) = ascii s"
| "ascii_json (JFloat f) = False"
| "ascii_json (JList xs) = list_all ascii_json xs"
| "ascii_json (JDict d) = list_all (\<lambda>kv. ascii (fst kv) \<and> ascii_json (snd kv)) d"
| "ascii_json _ = True"

lemma ascii_append [simp]: "ascii (s @ t) \<longleftrightarrow> ascii s \<and> ascii t"
  by (simp add: ascii_def)

lemma ascii_Cons [simp]: "ascii (a # s) \<longleftrightarrow> (of_char a :: nat) < 128 \<and> ascii s" "ascii []"
  by (simp_all add: ascii_def)

lemma ascii_utf8_valid: "ascii s \<Longrightarrow> utf8_valid s"
  by (induction s) (simp_all add: byte_between_def)

lemma ascii_join: "ascii sep \<Longrightarrow> list_all ascii xs \<Longrightarrow> ascii (join_with sep xs)"
  by (induction sep xs rule: join_with.induct) simp_all

lemma ascii_hex_digit: "n < 16 \<Longrightarrow> (of_char (hex_digit n) :: nat) < 128"
proof -
  have "\<forall>n < 16. (of_char (''0123456789abcdef'' ! n) :: nat) < 128" by code_simp
  then show "n < 16 \<Longrightarrow> ?thesis" by (simp add: hex_digit_def)
qed

lemma ascii_escape: "(of_char a :: nat) < 128 \<Longrightarrow> ascii (escape_char a)"
  using ascii_hex_digit[of "of_char a div 16"] ascii_hex_digit[of "of_char a mod 16"]
  by (auto simp: escape_char_def)

lemma ascii_quote: "ascii s \<Longrightarrow> ascii (quote s)"
  by (induction s) (simp_all add: quote_def ascii_escape)

lemma ascii_show_int: "ascii (show_int i)"
  by (auto simp: ascii_def list_all_iff is_digit_iff dest!: show_int_chars)

lemma ascii_jtext:
  "ascii_json v \<Longrightarrow> ascii (jtext R v)"
proof (induction v rule: ascii_json.induct)
  case (3 xs)
  then have "list_all ascii (jtext_list R xs)" by (simp add: jtext_list_map list_all_iff)
  then show ?case by (simp add: ascii_join)
next
  case (4 d)
  then have "list_all ascii (map item_text (sort_key fst (jtext_items R d)))"
    by (auto simp: jtext_items_map list_all_iff item_text_def ascii_quote)
  then show ?case by (simp add: ascii_join)
qed (simp_all add: scalar_text_def ascii_quote ascii_show_int)

lemma ascii_finite: "ascii_json v \<Longrightarrow> json_finite v"
  by (induction v rule: ascii_json.induct) (auto simp: finite_list_iff finite_items_iff list_all_iff)

lemma ascii_bytes: "ascii_json v \<Longrightarrow> canonical_bytes R v = Inr (jtext R v)"
  using ascii_jtext ascii_finite ascii_utf8_valid by (simp add: canonical_bytes_Inr)

lemma ascii_domain_hash: "ascii_json v \<Longrightarrow> domain_hash R tag v = Inr (sha256_hex (tag @ jtext R v))"
  by (simp add: domain_hash_def ascii_bytes)

lemma ascii_sha: "is_lower_sha s \<Longrightarrow> ascii s"
proof -
  have "list_all (\<lambda>a. (of_char a :: nat) < 128) ''0123456789abcdef''" by code_simp
  then show "is_lower_sha s \<Longrightarrow> ?thesis"
    unfolding is_lower_sha_def ascii_def list_all_iff is_lower_hex_char_def by blast
qed

section \<open>Digests\<close>

lemma lower_hex_facts:
  assumes "is_lower_hex_char a"
  shows "hex_char_val a \<noteq> None" "a \<noteq> CHR ''_''" "\<not> ascii_space a" "\<not> utf8_continuation a" "ws1 a = False"
    "(of_char a :: nat) < 128"
proof -
  have "list_all (\<lambda>a. hex_char_val a \<noteq> None \<and> a \<noteq> CHR ''_'' \<and> \<not> ascii_space a \<and> \<not> utf8_continuation a
    \<and> \<not> ws1 a \<and> (of_char a :: nat) < 128) ''0123456789abcdef''" by code_simp
  with assms show "hex_char_val a \<noteq> None" "a \<noteq> CHR ''_''" "\<not> ascii_space a" "\<not> utf8_continuation a" "ws1 a = False"
    "(of_char a :: nat) < 128"
    unfolding is_lower_hex_char_def list_all_iff by blast+
qed

lemma split_char_none: "d \<notin> set s \<Longrightarrow> split_char d s = [s]"
  by (induction s) auto

lemma digest_text:
  assumes "is_lower_sha h"
  shows "py_len h = 64" "\<not> is_blank h" "rt_decimal_ascii R h = h \<Longrightarrow> base16_accepts R h"
proof -
  have hx: "\<forall>a \<in> set h. is_lower_hex_char a" and l: "length h = 64"
    using assms by (simp_all add: is_lower_sha_def list_all_iff)
  have "filter (\<lambda>a. \<not> utf8_continuation a) h = h" using hx lower_hex_facts(4) by (simp add: filter_id_conv)
  with l show "py_len h = 64" by (simp add: py_len_def)
  obtain a b c t where h: "h = a # b # c # t" using l by (auto simp: length_Suc_conv numeral_eq_Suc)
  have w: "\<not> ws1 a" "a \<noteq> CHR 0xC2" "a \<noteq> CHR 0xE1" "a \<noteq> CHR 0xE2" "a \<noteq> CHR 0xE3" "a \<noteq> CHR ''+''" "a \<noteq> CHR ''-''"
  proof -
    have "list_all (\<lambda>a. \<not> ws1 a \<and> a \<noteq> CHR 0xC2 \<and> a \<noteq> CHR 0xE1 \<and> a \<noteq> CHR 0xE2 \<and> a \<noteq> CHR 0xE3
      \<and> a \<noteq> CHR ''+'' \<and> a \<noteq> CHR ''-'') ''0123456789abcdef''" by code_simp
    then show "\<not> ws1 a" "a \<noteq> CHR 0xC2" "a \<noteq> CHR 0xE1" "a \<noteq> CHR 0xE2" "a \<noteq> CHR 0xE3" "a \<noteq> CHR ''+''" "a \<noteq> CHR ''-''"
      using hx h unfolding is_lower_hex_char_def list_all_iff by auto
  qed
  then show "\<not> is_blank h" by (simp add: h is_blank_def ws2_def ws3_def)
  have x: "b \<noteq> CHR ''x''" "b \<noteq> CHR ''X''"
  proof -
    have "\<not> is_lower_hex_char CHR ''x''" "\<not> is_lower_hex_char CHR ''X''" by code_simp+
    with hx h show "b \<noteq> CHR ''x''" "b \<noteq> CHR ''X''" by auto
  qed
  assume d: "rt_decimal_ascii R h = h"
  have t: "trim_spaces h = h"
  proof -
    have "dropWhile ascii_space g = g" if "set g \<subseteq> set h" for g
      using that hx lower_hex_facts(3) by (cases g) auto
    then show ?thesis by (simp add: trim_spaces_def)
  qed
  have u: "CHR ''_'' \<notin> set h" using hx lower_hex_facts(2) by blast
  have v: "list_all (\<lambda>a. hex_char_val a \<noteq> None) h" using hx lower_hex_facts(1) by (simp add: list_all_iff)
  have p: "(if take 1 h = ''+'' \<or> take 1 h = ''-'' then drop 1 h else h) = h"
    "(if take 2 h = ''0x'' \<or> take 2 h = ''0X'' then drop_underscore (drop 2 h) else h) = h"
    using w x by (simp_all add: h)
  show "base16_accepts R h"
    unfolding base16_accepts_def Let_def d t p split_char_none[OF u] using v by (simp add: h)
qed

lemma lower_sha_digest:
  assumes "is_lower_sha h" and "rt_lower R h = h" and "rt_decimal_ascii R h = h"
  shows "lower_sha R (JStr h) label = Inr h"
  using digest_text[OF assms(1)] assms(2,3) by (simp add: lower_sha_def exact_string_def)

section \<open>Sealing succeeds\<close>

lemma ascii_dset: "ascii_json (JDict d) \<Longrightarrow> ascii k \<Longrightarrow> ascii s \<Longrightarrow> ascii_json (JDict (dset k (JStr s) d))"
  by (induction k "JStr s" d rule: dset.induct) auto

lemma ascii_sealed_report:
  assumes "ascii_json (JDict report)" and "ascii phase" "ascii (em_filename m)" "ascii (em_source_id m)"
  shows "ascii_json (JDict (sealed_report phase m report))"
  unfolding sealed_report_def using assms ascii_sha[OF sha.digest_lower_sha]
  by (intro ascii_dset) simp_all

lemma payload_ascii:
  "ascii VALIDATION_EVIDENCE_CONTRACT_VERSION" "ascii VALIDATION_PARSER_CONTRACT_VERSION"
  "ascii ''case_subject_hash''" "ascii ''contract_version''" "ascii ''manifest''"
  "ascii ''parser_contract_version''" "ascii ''phase''" "ascii ''reports''" "ascii ''scope_digest''"
  by code_simp+

lemma ascii_set_payload:
  assumes "ascii (ci_case_subject_hash ci)" and "ascii (ci_scope_digest ci)" and "ascii phase"
    and "ascii_json (JDict manifest)" and "list_all (\<lambda>r. ascii_json (JDict r)) reports"
  shows "ascii_json (set_payload ci manifest phase reports)"
proof -
  have "ascii_json (JList (map JDict reports))" using assms(5) by (simp only: ascii_json.simps list.pred_map comp_def)
  then show ?thesis
    unfolding set_payload_def ascii_json.simps(4)[of "_ # _"] list.pred_inject fst_conv snd_conv
    using assms(1-4) payload_ascii by (simp only: ascii_json.simps(1) simp_thms list.pred_inject)
qed

lemma prepare_context_total:
  assumes R: "float_reader (rt_float_repr R) (rt_float_of_text R)"
    and ph: "phase \<in> set VALIDATION_PHASES" and v: "validate_bundle R b = Inr manifest"
    and mp: "dget ''phase'' manifest = JStr phase" and am: "ascii_json (JDict manifest)"
    and ci: "given_identity R c i = Inr ci" "ascii (ci_case_subject_hash ci)" "ascii (ci_scope_digest ci)"
    and r: "\<forall>k \<in> set (bundle_ids b). \<exists>m report. member_of (eb_members b) k = Some m
      \<and> accepted_report R k m report \<and> ascii_json (JDict report) \<and> ascii (em_filename m) \<and> ascii (em_source_id m)"
  shows "ok (prepare_validation_evidence_context R b c phase i)"
proof -
  have ap: "ascii phase" using ph by (auto simp: VALIDATION_PHASES_def)
  have "ok (seal_report R phase (eb_members b) k)" if k: "k \<in> set (bundle_ids b)" for k
  proof -
    from r k obtain m report where m: "member_of (eb_members b) k = Some m" and a: "accepted_report R k m report"
      by blast
    then show ?thesis by (simp add: seal_report_def accepted_report_def make_witness_def)
  qed
  then obtain rws where rws: "rmap (seal_report R phase (eb_members b)) (bundle_ids b) = Inr rws"
    using ok_rmap by (blast elim: okE)
  note s = seal_reports[OF rws]
  have "sorted (bundle_ids b)" by (simp add: bundle_ids_def)
  note srt = sealed_reports_sorted[OF s this]
  have ar: "list_all (\<lambda>rw. ascii_json (JDict (fst rw))) rws"
  proof -
    have "ascii_json (JDict (fst rw))" if "rw \<in> set rws" for rw
    proof -
      from that obtain n where n: "n < length rws" "rw = rws ! n" by (auto simp: in_set_conv_nth)
      define k where "k = bundle_ids b ! n"
      have k: "k \<in> set (bundle_ids b)" "\<exists>m report. member_of (eb_members b) k = Some m
          \<and> accepted_report R k m report \<and> fst rw = sealed_report phase m report"
        using list_all2_nthD2[OF s n(1)] list_all2_lengthD[OF s] n by (simp_all add: k_def)
      from k(2) obtain m report where m: "member_of (eb_members b) k = Some m" "accepted_report R k m report"
        "fst rw = sealed_report phase m report" by blast
      from r k(1) obtain m' report' where m': "member_of (eb_members b) k = Some m'" "accepted_report R k m' report'"
        "ascii_json (JDict report')" "ascii (em_filename m')" "ascii (em_source_id m')" by blast
      have mm: "m' = m" using m(1) m'(1) by simp
      from m(2) m'(2)[unfolded mm] have "report' = report" unfolding accepted_report_def by (metis Inr_inject json.inject(6))
      with ascii_sealed_report[OF m'(3) ap m'(4,5)] mm m(3) show ?thesis by simp
    qed
    then show ?thesis by (simp add: list_all_iff)
  qed
  have "ascii_json (set_payload ci manifest phase (map fst rws))"
    using am ar ap ci(2,3) by (intro ascii_set_payload) (simp_all only: list.pred_map comp_def)
  note h = ascii_domain_hash[OF this]
  have al: "ascii_json (JList (map JDict (map fst rws)))" using ar by (simp add: list_all_iff)
  from sealed_reports_canon[OF s] have "printable (JList (map JDict (map fst rws)))" by blast
  from float_reader.strict_json_loads_jtext[OF R refl refl this] show ?thesis
    using ph v mp rws ci(1) srt h ascii_bytes[OF al]
    by (simp add: prepare_validation_evidence_context_def validate_bundle_ids(1)[OF v] del: canon.simps jtext.simps)
qed

section \<open>What the hash of a set identifies\<close>

lemma canon_dget:
  assumes "distinct (map fst d)"
  shows "dget k (dict_of (canon (JDict d))) = canon (dget k d)"
proof -
  have "distinct (map fst (canon_items d))" using assms by (simp add: canon_items_map comp_def)
  then have "dget k (dict_of (canon (JDict d))) = dget k (canon_items d)" by (simp add: dget_sort)
  also have "\<dots> = canon (dget k d)"
    by (induction d) (auto simp: dget_def dget_or_def)
  finally show ?thesis .
qed

lemma canon_dict_eqD:
  assumes "canon (JDict d) = canon (JDict e)" and "distinct (map fst d)" and "distinct (map fst e)"
  shows "canon (dget k d) = canon (dget k e)"
  using canon_dget[OF assms(2), of k] canon_dget[OF assms(3), of k] assms(1) by simp

lemma domain_hash_eqD:
  assumes "float_printer (rt_float_repr R)" and "domain_hash R tag v = Inr h" and "domain_hash R tag w = Inr h"
  shows "canon v = canon w \<or> (\<exists>s t. sha_collision s t)"
proof -
  from assms(2,3) have f: "json_finite v" "json_finite w"
    and h: "sha256_hex (tag @ jtext R v) = sha256_hex (tag @ jtext R w)"
    by (auto simp: domain_hash_def rbind_Inr_iff canonical_bytes_Inr)
  from sha256_hex_eqD[OF h] float_printer.jtext_inject[OF assms(1) refl f] show ?thesis by auto
qed

lemma same_report_same_witness:
  assumes "seal_report R phase ms i = Inr (r, w)" and "seal_report R phase' ms' i' = Inr (r', w')"
    and "canon (JDict r) = canon (JDict r')"
  shows "w = w' \<or> (\<exists>s t. sha_collision s t)"
proof -
  from assms(1) obtain m p where m: "accepted_report R i m p" "r = sealed_report phase m p"
    "w = \<lparr>vw_source_id = em_source_id m, vw_evidence_id = i, vw_filename = em_filename m,
             vw_source_hash = sha256_hex (em_raw_bytes m), vw_raw_bytes = em_raw_bytes m\<rparr>"
    by (rule seal_report_Inr)
  from assms(2) obtain m' p' where m': "accepted_report R i' m' p'" "r' = sealed_report phase' m' p'"
    "w' = \<lparr>vw_source_id = em_source_id m', vw_evidence_id = i', vw_filename = em_filename m',
             vw_source_hash = sha256_hex (em_raw_bytes m'), vw_raw_bytes = em_raw_bytes m'\<rparr>"
    by (rule seal_report_Inr)
  have d: "distinct (map fst r)" "distinct (map fst r')"
    using accepted_report_facts(2)[OF m(1), of phase] accepted_report_facts(2)[OF m'(1), of phase'] m(2) m'(2)
    by (simp_all add: text_values_def)
  note eq = canon_dict_eqD[OF assms(3) d]
  have "em_source_id m = em_source_id m'" using eq[of "''source_id''"] by (simp add: m(2) m'(2) sealed_report_get)
  moreover have "em_filename m = em_filename m'" using eq[of "''source_path''"] by (simp add: m(2) m'(2) sealed_report_get)
  moreover have "i = i'"
    using eq[of "''evidence_id''"] accepted_report_facts(3)[OF m(1), of phase] accepted_report_facts(3)[OF m'(1), of phase']
    by (simp add: m(2) m'(2))
  moreover have h: "sha256_hex (em_raw_bytes m) = sha256_hex (em_raw_bytes m')"
    using eq[of "''source_hash''"] by (simp add: m(2) m'(2) sealed_report_get)
  ultimately show ?thesis using sha256_hex_eqD[OF h] m(3) m'(3) by auto
qed

lemma same_reports_same_witnesses:
  assumes "rmap (seal_report R phase ms) ids = Inr rws" and "rmap (seal_report R phase' ms') ids' = Inr rws'"
    and "map canon (map JDict (map fst rws)) = map canon (map JDict (map fst rws'))"
  shows "map snd rws = map snd rws' \<or> (\<exists>s t. sha_collision s t)"
proof (cases "\<exists>s t. sha_collision s t")
  case no: False
  have l: "length rws = length rws'" using arg_cong[OF assms(3), of length] by simp
  have "snd (rws ! n) = snd (rws' ! n)" if n: "n < length rws" for n
  proof -
    have "seal_report R phase ms (ids ! n) = Inr (fst (rws ! n), snd (rws ! n))"
      using assms(1) n by (simp add: rmap_Inr list_all2_conv_all_nth)
    moreover have "seal_report R phase' ms' (ids' ! n) = Inr (fst (rws' ! n), snd (rws' ! n))"
      using assms(2) n l by (simp add: rmap_Inr list_all2_conv_all_nth)
    moreover have "canon (JDict (fst (rws ! n))) = canon (JDict (fst (rws' ! n)))"
      using arg_cong[OF assms(3), of "\<lambda>xs. xs ! n"] n l by (simp del: canon.simps)
    ultimately show ?thesis using same_report_same_witness no by blast
  qed
  with l show ?thesis by (auto intro: nth_equalityI)
qed simp

lemma set_payload_get:
  "dget ''case_subject_hash'' (dict_of (set_payload ci m ph rs)) = JStr (ci_case_subject_hash ci)"
  "dget ''scope_digest'' (dict_of (set_payload ci m ph rs)) = JStr (ci_scope_digest ci)"
  "dget ''phase'' (dict_of (set_payload ci m ph rs)) = JStr ph"
  "dget ''reports'' (dict_of (set_payload ci m ph rs)) = JList (map JDict rs)"
  "distinct (map fst (dict_of (set_payload ci m ph rs)))"
  "set_payload ci m ph rs = JDict (dict_of (set_payload ci m ph rs))"
  by (simp_all add: set_payload_def dget_def dget_or_def)

lemma evidence_set_binds:
  assumes R: "float_reader (rt_float_repr R) (rt_float_of_text R)"
    and x: "prepare_validation_evidence_context R b c phase i = Inr x"
    and y: "prepare_validation_evidence_context R b' c' phase' i' = Inr y"
    and h: "vc_evidence_set_hash x = vc_evidence_set_hash y"
  shows "vc_witnesses x = vc_witnesses y \<and> vc_phase x = vc_phase y
      \<and> vc_case_subject_hash x = vc_case_subject_hash y \<and> vc_scope_digest x = vc_scope_digest y
    \<or> (\<exists>s t. sha_collision s t)"
proof -
  have P: "float_printer (rt_float_repr R)" using R by (simp add: float_reader_def)
  from R x obtain ci m rws where cx: "vc_case_subject_hash x = ci_case_subject_hash ci"
    "vc_scope_digest x = ci_scope_digest ci" "vc_phase x = phase" "vc_witnesses x = map snd rws"
    "rmap (seal_report R phase (eb_members b)) (bundle_ids b) = Inr rws"
    "domain_hash R SET_DOMAIN (set_payload ci m phase (map fst rws)) = Inr (vc_evidence_set_hash x)"
    by (rule prepare_contextE) blast
  from R y obtain ci' m' rws' where cy: "vc_case_subject_hash y = ci_case_subject_hash ci'"
    "vc_scope_digest y = ci_scope_digest ci'" "vc_phase y = phase'" "vc_witnesses y = map snd rws'"
    "rmap (seal_report R phase' (eb_members b')) (bundle_ids b') = Inr rws'"
    "domain_hash R SET_DOMAIN (set_payload ci' m' phase' (map fst rws')) = Inr (vc_evidence_set_hash y)"
    by (rule prepare_contextE) blast
  let ?p = "set_payload ci m phase (map fst rws)" and ?q = "set_payload ci' m' phase' (map fst rws')"
  from domain_hash_eqD[OF P cx(6), of ?q] cy(6) h consider "canon ?p = canon ?q" | "\<exists>s t. sha_collision s t" by auto
  then show ?thesis
  proof cases
    case 1
    then have "canon (JDict (dict_of ?p)) = canon (JDict (dict_of ?q))" by (simp only: set_payload_get(6)[symmetric])
    note eq = canon_dict_eqD[OF this set_payload_get(5) set_payload_get(5)]
    have "map canon (map JDict (map fst rws)) = map canon (map JDict (map fst rws'))"
      using eq[of "''reports''"] unfolding set_payload_get(1-4) canon.simps(1) canon_list_map json.inject .
    from same_reports_same_witnesses[OF cx(5) cy(5) this]
    show ?thesis
      using eq[of "''phase''"] eq[of "''case_subject_hash''"] eq[of "''scope_digest''"]
      unfolding set_payload_get(1-4) canon.simps json.inject cx cy by blast
  qed simp
qed

end
