(* ===== verification/Demo_Evidence.thy ===== *)
theory Demo_Evidence
  imports Validation_Total Demo_Run
begin

text \<open>
  A bundle of one report for the demonstration case, and the context it is sealed into.
\<close>

definition demo_raw_report :: dict where
  "demo_raw_report =
     [(''case_schema_version'', JStr CASE_SCHEMA_VERSION), (''case_subject_hash'', JStr (demo_sha CHR ''7'')),
      (''claim'', JStr ''gauge capable''), (''event_id'', JStr ''EV-1''), (''event_revision'', JStr ''2''),
      (''evidence_id'', JStr ''E-1''), (''evidence_type'', JStr ''MSA''),
      (''issued_at'', JStr ''2026-02-02T08:00:00Z''), (''issuer_id'', JStr ''lab''), (''issuer_role'', JStr ''LAB''),
      (''locator'', JStr ''e1.json#/result''), (''performed_at'', JStr ''2026-02-01T08:00:00Z''),
      (''result'', JStr ''PASS''), (''ruleset_version'', JStr RULESET_VERSION),
      (''scope_digest'', JStr (demo_sha CHR ''6'')), (''summary'', JStr [])]"

definition demo_manifest :: dict where
  "demo_manifest =
     [(''contract_version'', JStr VALIDATION_EVIDENCE_PACK_VERSION),
      (''members'', JList [JDict [(''evidence_id'', JStr ''E-1''), (''format'', JStr ''JSON''),
         (''phase'', JStr ''SOURCE''), (''source_id'', JStr ''S-1''), (''source_path'', JStr ''e1.json'')]]),
      (''phase'', JStr ''SOURCE'')]"

definition demo_member :: evidence_member where
  "demo_member = \<lparr>em_source_id = ''S-1'', em_evidence_id = ''E-1'', em_filename = ''e1.json'',
     em_raw_bytes = jtext demo_runtime (JDict demo_raw_report)\<rparr>"

definition demo_bundle :: evidence_bundle where
  "demo_bundle = \<lparr>eb_manifest_bytes = jtext demo_runtime (JDict demo_manifest), eb_members = [demo_member]\<rparr>"

definition demo_identity :: case_identity where
  "demo_identity = \<lparr>ci_case_subject_hash = demo_sha CHR ''7'', ci_scope_digest = demo_sha CHR ''6''\<rparr>"

lemma demo_reader_runtime: "float_reader (rt_float_repr demo_runtime) (rt_float_of_text demo_runtime)"
  using demo_reader.float_reader_axioms by (simp add: demo_runtime_def)

lemma demo_bundle_valid: "validate_bundle demo_runtime demo_bundle = Inr demo_manifest"
  by code_simp

lemma demo_report_read:
  "strict_json_bytes demo_runtime (jtext demo_runtime (JDict demo_raw_report)) label = Inr (JDict demo_raw_report)"
proof (rule strict_json_bytes_Inr[OF demo_reader_runtime])
  show "utf8_valid (jtext demo_runtime (JDict demo_raw_report))"
    by (rule ascii_utf8_valid, rule ascii_jtext) code_simp
qed code_simp+

lemma demo_report_accepted: "accepted_report demo_runtime ''E-1'' demo_member demo_raw_report"
proof -
  have "check_report demo_runtime ''E-1'' demo_member demo_raw_report = Inr ()"
    "keys_exactly REPORT_KEYS demo_raw_report" by code_simp+
  then show ?thesis using demo_report_read by (simp add: accepted_report_def demo_member_def)
qed

lemma demo_bundle_ids: "bundle_ids demo_bundle = [''E-1'']"
  by (simp add: bundle_ids_def demo_bundle_def demo_member_def)

lemma demo_context_sealed:
  obtains x where "prepare_validation_evidence_context demo_runtime demo_bundle demo_case ''SOURCE''
    (Some demo_identity) = Inr x"
proof -
  have "ok (prepare_validation_evidence_context demo_runtime demo_bundle demo_case ''SOURCE'' (Some demo_identity))"
  proof (rule prepare_context_total[OF demo_reader_runtime _ demo_bundle_valid])
    show "\<forall>k \<in> set (bundle_ids demo_bundle). \<exists>m report. member_of (eb_members demo_bundle) k = Some m
      \<and> accepted_report demo_runtime k m report \<and> ascii_json (JDict report) \<and> ascii (em_filename m) \<and> ascii (em_source_id m)"
    proof -
      have "member_of (eb_members demo_bundle) ''E-1'' = Some demo_member"
        by (simp add: member_of_def demo_bundle_def demo_member_def)
      moreover have "ascii_json (JDict demo_raw_report)" "ascii (em_filename demo_member)"
        "ascii (em_source_id demo_member)" by code_simp+
      ultimately show ?thesis using demo_report_accepted unfolding demo_bundle_ids by auto
    qed
    show "given_identity demo_runtime demo_case (Some demo_identity) = Inr demo_identity"
      by (simp add: given_identity_def)
  qed code_simp+
  then show thesis using that by (rule okE)
qed

text \<open>The decoded report of that context, whatever its bytes hash to.\<close>

lemma demo_r6_sealed:
  "status_of (rule_validation_evidence demo_runtime demo_case demo_impact (Some
     \<lparr>vc_phase = ''SOURCE'', vc_contract_version = cv, vc_evidence_set_hash = g,
      vc_case_subject_hash = demo_sha CHR ''7'', vc_scope_digest = demo_sha CHR ''6'',
      vc_reports = JList [JDict (sort_key fst (dset ''phase'' (JStr ''SOURCE'') (dset ''source_hash'' (JStr h)
        (dset ''source_path'' (JStr ''e1.json'') (dset ''source_id'' (JStr ''S-1'') demo_raw_report)))))],
      vc_witnesses = ws, vc_sealed = True\<rparr>)) = Some PASS"
  by code_simp

end
