(* ===== verification/Evidence_Properties.thy ===== *)
theory Evidence_Properties
  imports Demo_Evidence Engine_Properties Rule_Properties
begin

text \<open>
  The properties of \<open>validation_evidence.py\<close> and of the strict JSON reader: canonical bytes are
  read back, a sealed context satisfies what the engine relies on, a passed validation rule is
  backed by raw bytes, and the hash of an evidence set identifies those bytes.
\<close>

section \<open>Reading back\<close>

text \<open>
  C20. The strict reader of the canonical text of a value returns the value with its keys
  sorted, and printing that again gives the same text.  Floats are read as the interpreter
  reads its own shortest representation.
\<close>

theorem strict_json_reads_back:
  assumes "float_reader (rt_float_repr R) (rt_float_of_text R)" and "printable v"
    and "canonical_bytes R v = Inr t"
  shows "strict_json_loads R t = Inr (canon v) \<and> canonical_bytes R (canon v) = Inr t"
proof -
  have t: "t = jtext R v" "utf8_valid t" using assms(3) by (simp_all add: canonical_bytes_Inr)
  have "jtext R (canon v) = jtext R v" by (rule canon_jtext) (rule canon_idem)
  then show ?thesis
    using float_reader.strict_json_loads_jtext[OF assms(1) refl refl assms(2)] t
      printable_finite(1)[OF assms(2)]
    by (simp add: canonical_bytes_Inr json_finite_canon)
qed

theorem strict_json_reads_back_witness:
  "\<exists>t. canonical_bytes demo_runtime (JDict demo_manifest) = Inr t
    \<and> strict_json_loads demo_runtime t = Inr (JDict demo_manifest)"
proof -
  have p: "printable (JDict demo_manifest)" "canon (JDict demo_manifest) = JDict demo_manifest" by code_simp+
  have "ascii_json (JDict demo_manifest)" by code_simp
  then have "canonical_bytes demo_runtime (JDict demo_manifest) = Inr (jtext demo_runtime (JDict demo_manifest))"
    by (rule ascii_bytes)
  with strict_json_reads_back[OF demo_reader_runtime p(1) this] p(2) show ?thesis by auto
qed

section \<open>Sealing\<close>

text \<open>
  A context sealed from a bundle, for any case and identity, has what the engine relies
  on: with it the evaluation of a regular case returns a result that records the hash of the
  evidence set and passes the constructor checks.
\<close>

theorem sealed_evidence_run_total:
  assumes "float_reader (rt_float_repr R) (rt_float_of_text R)"
    and "prepare_validation_evidence_context R b c phase i = Inr x"
    and "prepare_case R v = Inr w" and "regular_case w" and "sealed_reference rc"
  shows "\<exists>r. evaluate_case R v rc (Some x) = Inr r \<and> check_run_result R r = Inr ()
    \<and> rr_validation_set_hash r = JStr (vc_evidence_set_hash x)"
proof -
  have s: "sealed_validation (Some x)" by (rule prepared_context_sealed[OF assms(1,2)])
  from evaluate_case_total[OF assms(3-5) s] obtain r where r: "evaluate_case R v rc (Some x) = Inr r" by (rule okE)
  then obtain p where p: "evaluate_prepared R p rc (Some x) = Inr r" by (rule evaluate_caseE)
  from p have "check_run_result R r = Inr ()"
    "(rr_validation_state r, rr_validation_set_hash r, rr_validation_version r) = validation_assurance (Some x)"
    by (rule evaluate_preparedE; simp)+
  with s r show ?thesis
    by (auto simp: validation_assurance_def is_sealed_validation_context_def sealed_validation_def)
qed

theorem sealed_evidence_run_total_witness:
  "\<exists>x r. prepare_validation_evidence_context demo_runtime demo_bundle demo_case ''SOURCE'' (Some demo_identity) = Inr x
    \<and> evaluate_case demo_runtime (JDict demo_case) (Some demo_reference_context) (Some x) = Inr r
    \<and> rr_validation_set_hash r = JStr (vc_evidence_set_hash x)"
proof -
  obtain x where x: "prepare_validation_evidence_context demo_runtime demo_bundle demo_case ''SOURCE''
    (Some demo_identity) = Inr x" by (rule demo_context_sealed)
  from sealed_evidence_run_total[OF demo_reader_runtime x demo_prepared demo_regular demo_sealed_reference] x
  show ?thesis by blast
qed

section \<open>What a passed rule rests on\<close>

text \<open>
  The bytes of a member, read strictly, are a passing report for the subject and the scope of
  the case, of the type and the issuer a requirement names.
\<close>

definition backed_by :: "runtime \<Rightarrow> case_identity \<Rightarrow> dict \<Rightarrow> evidence_member \<Rightarrow> bool" where
  "backed_by R ci requirement m \<longleftrightarrow> (\<exists>report.
     strict_json_bytes R (em_raw_bytes m) (''validation report '' @ em_evidence_id m) = Inr (JDict report)
     \<and> dget ''result'' report = JStr ''PASS''
     \<and> dget ''case_subject_hash'' report = JStr (ci_case_subject_hash ci)
     \<and> dget ''scope_digest'' report = JStr (ci_scope_digest ci)
     \<and> py_eq (dget ''evidence_type'' report) (dget ''evidence_type'' requirement)
     \<and> py_eq (dget ''claim'' report) (dget ''claim'' requirement)
     \<and> py_eq (dget ''issuer_id'' report) (dget ''issuer_id'' requirement)
     \<and> in_time_window requirement report = Inr True)"

lemma member_of_Some:
  assumes "member_of ms i = Some m"
  shows "m \<in> set ms" "em_evidence_id m = i"
  using map_of_SomeD[OF assms[unfolded member_of_def]] by auto

lemma sealed_get:
  assumes "accepted_report R i m report" and "k \<notin> {''phase'', ''source_hash'', ''source_path'', ''source_id''}"
  shows "dget k (sort_key fst (sealed_report phase m report)) = dget k report"
    "ditem k (sort_key fst (sealed_report phase m report)) = ditem k report"
proof -
  have d: "distinct (map fst (sealed_report phase m report))"
    using accepted_report_facts(2)[OF assms(1)] by (simp add: text_values_def)
  show "dget k (sort_key fst (sealed_report phase m report)) = dget k report"
    using assms(2) by (simp add: dget_sort[OF d] sealed_report_get)
  show "ditem k (sort_key fst (sealed_report phase m report)) = ditem k report"
    using assms(2) by (simp add: ditem_def map_of_sort_key_fst[OF d]) (simp add: sealed_report_def)
qed

lemma sealed_supports:
  assumes "sealed_from R phase ms i v" and "supports c event x requirement (dict_of v)"
    and "vc_case_subject_hash x = ci_case_subject_hash ci" "vc_scope_digest x = ci_scope_digest ci"
  shows "\<exists>m \<in> set ms. em_evidence_id m = i \<and> backed_by R ci requirement m"
proof -
  from assms(1) obtain m report where m: "member_of ms i = Some m" "accepted_report R i m report"
    and v: "v = JDict (sort_key fst (sealed_report phase m report))"
    unfolding sealed_from_def by blast
  note g = sealed_get[OF m(2), where phase = phase]
  have "in_time_window requirement (sort_key fst (sealed_report phase m report)) = in_time_window requirement report"
    by (simp add: in_time_window_def g)
  then have "backed_by R ci requirement m"
    using assms(2-4) m member_of_Some[OF m(1)]
    by (auto simp: supports_def v g accepted_report_def backed_by_def simp del: py_eq.simps)
  with member_of_Some[OF m(1)] show ?thesis by blast
qed

lemma last_of_pair: "k \<in> set (map fst ps) \<Longrightarrow> (k, last_of ps k) \<in> set ps"
proof -
  assume "k \<in> set (map fst ps)"
  then have "map_of (rev ps) k \<noteq> None" by (simp add: map_of_eq_None_iff)
  then obtain d where d: "map_of (rev ps) k = Some d" by blast
  then show ?thesis by (auto simp: last_of_def dest: map_of_SomeD)
qed

text \<open>
  C22. When QCI-R006 passes in a sealed context, the members of the bundle are exactly the
  evidence the validation plan requires, and the bytes of each of them are a passing report
  for the subject and the scope of this case, in the required window of time.
\<close>

theorem passed_validation_rests_on_bytes:
  assumes R: "float_reader (rt_float_repr R) (rt_float_of_text R)"
    and v: "validate_case R v = Inr ()"
    and x: "prepare_validation_evidence_context R b (dict_of v) phase i = Inr x"
    and f: "rule_validation_evidence R (dict_of v) plan (Some x) = Inr f" "f_status f = PASS"
  shows "\<exists>ci. given_identity R (dict_of v) i = Inr ci
    \<and> set (map fst (plan_requirements (event_of v))) = set (map em_evidence_id (eb_members b))
    \<and> (\<forall>k \<in> set (map fst (plan_requirements (event_of v))). \<exists>m \<in> set (eb_members b).
         em_evidence_id m = k \<and> backed_by R ci (last_of (plan_requirements (event_of v)) k) m)"
proof -
  from R x obtain ci vs where ci: "given_identity R (dict_of v) i = Inr ci"
    "vc_case_subject_hash x = ci_case_subject_hash ci" "vc_scope_digest x = ci_scope_digest ci"
    and vs: "vc_reports x = JList vs" "list_all2 (sealed_from R phase (eb_members b)) (bundle_ids b) vs"
    by (rule prepare_contextE) (rule that; assumption)
  from rule_validation_evidence_pass[OF v f]
  have ids: "set (map fst (plan_requirements (event_of v))) = set (map fst (context_report_items x))"
    and sup: "\<forall>k \<in> set (map fst (plan_requirements (event_of v))).
         supports (dict_of v) (event_of v) x (last_of (plan_requirements (event_of v)) k)
           (last_of (context_report_items x) k)" unfolding option.inject by blast+
  have it: "map fst (context_report_items x) = bundle_ids b"
    unfolding context_report_items_def vs(1) list_of.simps using vs(2)
    by (induction rule: list_all2_induct) (auto simp: sealed_from_facts)
  have "\<exists>m \<in> set (eb_members b). em_evidence_id m = k \<and> backed_by R ci (last_of (plan_requirements (event_of v)) k) m"
    if k: "k \<in> set (map fst (plan_requirements (event_of v)))" for k
  proof -
    from k ids it have kb: "k \<in> set (map fst (context_report_items x))" by simp
    from last_of_pair[OF kb] obtain w where w: "w \<in> set vs" "last_of (context_report_items x) k = dict_of w"
      "k = str_of (dget ''evidence_id'' (dict_of w))"
      by (auto simp: context_report_items_def vs(1))
    from vs(2) w(1) obtain j where j: "sealed_from R phase (eb_members b) j w"
      by (auto simp: list_all2_conv_all_nth in_set_conv_nth)
    then have w: "last_of (context_report_items x) k = dict_of w" "sealed_from R phase (eb_members b) k w"
      using w sealed_from_facts(2)[OF j] by simp_all
    from bspec[OF sup k] w(1) have "supports (dict_of v) (event_of v) x (last_of (plan_requirements (event_of v)) k) (dict_of w)"
      by simp
    from sealed_supports[OF w(2) this ci(2,3)] show ?thesis .
  qed
  moreover have "set (bundle_ids b) = set (map em_evidence_id (eb_members b))" by (simp add: bundle_ids_def)
  ultimately show ?thesis using ci(1) ids it by metis
qed


theorem passed_validation_rests_on_bytes_witness:
  "set (map fst (plan_requirements (event_of (JDict demo_case)))) = set (map em_evidence_id (eb_members demo_bundle))
    \<and> list_all (\<lambda>k. list_ex (\<lambda>m. em_evidence_id m = k
         \<and> backed_by demo_runtime demo_identity (last_of (plan_requirements (event_of (JDict demo_case))) k) m)
         (eb_members demo_bundle)) (map fst (plan_requirements (event_of (JDict demo_case))))"
proof -
  obtain x where x: "prepare_validation_evidence_context demo_runtime demo_bundle demo_case ''SOURCE''
    (Some demo_identity) = Inr x" by (rule demo_context_sealed)
  from demo_reader_runtime x obtain vs ci where vs: "vc_reports x = JList vs"
      "list_all2 (sealed_from demo_runtime ''SOURCE'' (eb_members demo_bundle)) (bundle_ids demo_bundle) vs"
    and g: "given_identity demo_runtime demo_case (Some demo_identity) = Inr ci"
    and i: "vc_phase x = ''SOURCE''" "vc_case_subject_hash x = ci_case_subject_hash ci"
      "vc_scope_digest x = ci_scope_digest ci" "vc_sealed x"
    by (rule prepare_contextE) (rule that; assumption)
  from g have "ci = demo_identity" by (simp add: given_identity_def)
  with i have e: "vc_phase x = ''SOURCE''" "vc_case_subject_hash x = demo_sha CHR ''7''"
      "vc_scope_digest x = demo_sha CHR ''6''" "vc_sealed x" by (simp_all add: demo_identity_def)
  from vs(2) obtain d where d: "vs = [d]" "sealed_from demo_runtime ''SOURCE'' (eb_members demo_bundle) ''E-1'' d"
    by (auto simp: demo_bundle_ids list_all2_Cons1)
  from d(2) obtain m report where m: "member_of (eb_members demo_bundle) ''E-1'' = Some m"
    "accepted_report demo_runtime ''E-1'' m report" "d = JDict (sort_key fst (sealed_report ''SOURCE'' m report))"
    unfolding sealed_from_def by blast
  have mm: "m = demo_member" using m(1) by (simp add: member_of_def demo_bundle_def demo_member_def)
  have "report = demo_raw_report"
    using m(2) demo_report_read unfolding mm accepted_report_def by (simp add: demo_member_def)
  then have d': "d = JDict (sort_key fst (dset ''phase'' (JStr ''SOURCE'')
      (dset ''source_hash'' (JStr (sha256_hex (em_raw_bytes demo_member)))
        (dset ''source_path'' (JStr ''e1.json'') (dset ''source_id'' (JStr ''S-1'') demo_raw_report)))))"
    unfolding m(3) mm sealed_report_def by (simp only:) (simp add: demo_member_def)
  have "x = \<lparr>vc_phase = ''SOURCE'', vc_contract_version = vc_contract_version x,
      vc_evidence_set_hash = vc_evidence_set_hash x, vc_case_subject_hash = demo_sha CHR ''7'',
      vc_scope_digest = demo_sha CHR ''6'', vc_reports = JList [d], vc_witnesses = vc_witnesses x, vc_sealed = True\<rparr>"
    using e vs(1) d(1) by (cases x) simp
  then have "status_of (rule_validation_evidence demo_runtime demo_case demo_impact (Some x)) = Some PASS"
    using demo_r6_sealed d' by metis
  then obtain f where f: "rule_validation_evidence demo_runtime demo_case demo_impact (Some x) = Inr f"
    "f_status f = PASS" by (rule status_of_SomeE)
  from passed_validation_rests_on_bytes[OF demo_reader_runtime demo_case_valid, unfolded dict_of.simps, OF x f]
  show ?thesis unfolding given_identity_def option.case sum.inject list_all_iff list_ex_iff by blast
qed



section \<open>Where the checks are weaker than their names\<close>

text \<open>
  \<open>_lower_sha\<close> accepts values that are not 64 hexadecimal digits: every text \<open>0x\<close>
  followed by 62 of them passes, since \<open>int(value, 16)\<close> reads the prefix.
\<close>

theorem loose_sha_accepted:
  assumes "length h = 62" and "list_all is_lower_hex_char h"
    and "rt_lower R (''0x'' @ h) = ''0x'' @ h" and "rt_decimal_ascii R (''0x'' @ h) = ''0x'' @ h"
  shows "lower_sha R (JStr (''0x'' @ h)) label = Inr (''0x'' @ h) \<and> \<not> is_lower_sha (''0x'' @ h)"
proof -
  let ?s = "''0x'' @ h"
  have hx: "\<forall>a \<in> set h. is_lower_hex_char a" using assms(2) by (simp add: list_all_iff)
  have "\<not> is_blank ?s" by (cases h) (simp_all add: is_blank_def ws1_def ws2_def ws3_def)
  then have e: "exact_string (JStr ?s) label = Inr ?s" by (simp add: exact_string_def)
  have "filter (\<lambda>a. \<not> utf8_continuation a) h = h"
    using hx lower_hex_facts(4) by (simp add: filter_id_conv)
  then have l: "py_len ?s = 64" using assms(1) by (simp add: py_len_def utf8_continuation_def)
  have "trim_spaces ?s = ?s"
  proof -
    have "dropWhile ascii_space (rev ?s) = rev ?s"
      using hx lower_hex_facts(3) assms(1) by (cases h rule: rev_cases) auto
    moreover have "dropWhile ascii_space ?s = ?s" by (simp add: ascii_space_def)
    ultimately show ?thesis unfolding trim_spaces_def by simp
  qed
  moreover have "CHR ''_'' \<notin> set h" using hx lower_hex_facts(2) by blast
  moreover from this assms(1) have "drop_underscore h = h" by (cases h) (auto simp: drop_underscore_def)
  moreover have "list_all (\<lambda>a. hex_char_val a \<noteq> None) h" using hx lower_hex_facts(1) by (simp add: list_all_iff)
  moreover have "h \<noteq> []" using assms(1) by auto
  ultimately have "base16_accepts R ?s" using assms(4) by (simp add: base16_accepts_def split_char_none)
  with e l assms(3) have "lower_sha R (JStr ?s) label = Inr ?s" by (simp add: lower_sha_def)
  moreover have "\<not> is_lower_hex_char CHR ''x''" by code_simp
  ultimately show ?thesis by (simp add: is_lower_sha_def)
qed

theorem loose_sha_accepted_witness:
  "lower_sha demo_runtime (JStr (''0x'' @ replicate 62 CHR ''a'')) ''scope''
     = Inr (''0x'' @ replicate 62 CHR ''a'')"
proof -
  have "length (replicate 62 CHR ''a'') = 62 \<and> list_all is_lower_hex_char (replicate 62 CHR ''a'')
    \<and> rt_lower demo_runtime (''0x'' @ replicate 62 CHR ''a'') = ''0x'' @ replicate 62 CHR ''a''
    \<and> rt_decimal_ascii demo_runtime (''0x'' @ replicate 62 CHR ''a'') = ''0x'' @ replicate 62 CHR ''a''"
    by code_simp
  then show ?thesis using loose_sha_accepted[of "replicate 62 CHR ''a''" demo_runtime "''scope''"] by blast
qed

end
