(* ===== verification/Authorization_Records.thy ===== *)
theory Authorization_Records
  imports Validation_Bundle
begin

text \<open>
  \<open>authorization_records.py\<close>: the strict capture of authorization records.  A bundle is a
  manifest and the raw bytes of its members; preparing it yields a context of textual claims,
  each with the hash of the bytes that made it.  As in \<open>Validation_Evidence\<close>, keys the source
  takes from a set are checked in the order they are written.
\<close>

section \<open>Contract constants\<close>

definition AUTHORIZATION_RECORD_CONTRACT_VERSION :: string where
  "AUTHORIZATION_RECORD_CONTRACT_VERSION = ''qualityci-authorization-record-0.1''"

definition AUTHORIZATION_RECORD_PACK_VERSION :: string where
  "AUTHORIZATION_RECORD_PACK_VERSION = ''qualityci-authorization-record-pack-0.1''"

definition AUTHORIZATION_RECORD_SET_VERSION :: string where
  "AUTHORIZATION_RECORD_SET_VERSION = ''qualityci-authorization-record-set-0.1''"

definition SIGNED_RECORD_CONTRACT_VERSION :: string where
  "SIGNED_RECORD_CONTRACT_VERSION = ''qualityci-authorization-record-0.2''"

definition SIGNED_RECORD_PACK_VERSION :: string where
  "SIGNED_RECORD_PACK_VERSION = ''qualityci-authorization-record-pack-0.2''"

definition SIGNED_RECORD_SET_VERSION :: string where
  "SIGNED_RECORD_SET_VERSION = ''qualityci-authorization-record-set-0.2''"

definition AUTHORIZATION_PURPOSE_CODE :: string where
  "AUTHORIZATION_PURPOSE_CODE = ''APPLY_APPROVED_RESOLUTION''"

definition AUTHORIZATION_SCOPE_CODE :: string where
  "AUTHORIZATION_SCOPE_CODE = ''EXACT_SUBJECT''"

definition AUTHORIZATION_ROLE_CLAIMS :: "string list" where
  "AUTHORIZATION_ROLE_CLAIMS = [''QUALITY_MANAGER'', ''PROCESS_OWNER'']"

definition MAX_AUTHORIZATION_MEMBERS :: nat where "MAX_AUTHORIZATION_MEMBERS = 128"
definition MAX_AUTHORIZATION_MEMBER_BYTES :: int where "MAX_AUTHORIZATION_MEMBER_BYTES = 262144"
definition MAX_AUTHORIZATION_TOTAL_BYTES :: int where "MAX_AUTHORIZATION_TOTAL_BYTES = 4194304"
definition MAX_AUTHORIZATION_JSON_DEPTH :: nat where "MAX_AUTHORIZATION_JSON_DEPTH = 16"

definition PACK_MANIFEST_KEYS :: "string list" where
  "PACK_MANIFEST_KEYS = [''contract_version'', ''bundle_id'', ''members'']"

definition PACK_MEMBER_KEYS :: "string list" where
  "PACK_MEMBER_KEYS = [''record_id'', ''source_path'', ''content_hash'', ''size_bytes'', ''format'']"

definition RECORD_KEYS :: "string list" where
  "RECORD_KEYS =
     [''contract_version'', ''record_id'', ''approver_id_claim'', ''role_claim'', ''purpose_code'',
      ''scope_code'', ''effective_from'', ''expires_at'']"

definition SIGNATURE_KEYS :: "string list" where
  "SIGNATURE_KEYS =
     [''trust_domain'', ''issuer_id'', ''verification_key_id'', ''issued_at'', ''signature_algorithm'',
      ''signature'']"

section \<open>Small checks\<close>

definition no_control :: "string \<Rightarrow> bool" where
  "no_control s \<longleftrightarrow> list_all (\<lambda>a. 32 \<le> (of_char a :: nat)) s"

definition trimmed_string :: "json \<Rightarrow> string \<Rightarrow> string res" where
  "trimmed_string v label =
     (if \<not> is_str v \<or> str_of v = [] \<or> str_of v \<noteq> py_strip (str_of v)
      then Inl (ValueError (label @ '' must be an exact non-empty trimmed string''))
      else if \<not> no_control (str_of v) then Inl (ValueError (label @ '' contains control characters''))
      else Inr (str_of v))"

definition trimmed_sha :: "runtime \<Rightarrow> json \<Rightarrow> string \<Rightarrow> string res" where
  "trimmed_sha R v label =
     rbind (trimmed_string v label) (\<lambda>s.
     if py_len s \<noteq> 64 \<or> s \<noteq> rt_lower R s then Inl (ValueError (label @ '' must be a lowercase SHA-256''))
     else if base16_accepts R s then Inr s
     else Inl (ValueError (label @ '' must be a lowercase SHA-256'')))"

text \<open>\<open>type(value) is int\<close>: a bool is not one.\<close>

definition exact_positive_int :: "json \<Rightarrow> string \<Rightarrow> int res" where
  "exact_positive_int v label =
     (case v of JInt i \<Rightarrow> (if 0 < i then Inr i else Inl (ValueError (label @ '' must be an exact positive integer'')))
      | _ \<Rightarrow> Inl (ValueError (label @ '' must be an exact positive integer'')))"

subsection \<open>Base 64\<close>

definition base64_alphabet :: string where
  "base64_alphabet = ''ABCDEFGHIJKLMNOPQRSTUVWXYZabcdefghijklmnopqrstuvwxyz0123456789+/''"

definition base64_val :: "char \<Rightarrow> nat option" where
  "base64_val a = map_of (zip base64_alphabet [0..<64]) a"

fun base64_encode :: "nat list \<Rightarrow> string" where
  "base64_encode [] = []"
| "base64_encode [a] = [base64_alphabet ! (a div 4), base64_alphabet ! (a mod 4 * 16), CHR ''='', CHR ''='']"
| "base64_encode [a, b] =
     [base64_alphabet ! (a div 4), base64_alphabet ! (a mod 4 * 16 + b div 16),
      base64_alphabet ! (b mod 16 * 4), CHR ''='']"
| "base64_encode (a # b # c # bs) =
     [base64_alphabet ! (a div 4), base64_alphabet ! (a mod 4 * 16 + b div 16),
      base64_alphabet ! (b mod 16 * 4 + c div 64), base64_alphabet ! (c mod 64)] @ base64_encode bs"

text \<open>The unused low bits before the padding are ignored, as \<open>b64decode\<close> does.\<close>

fun base64_decode :: "string \<Rightarrow> nat list option" where
  "base64_decode [] = Some []"
| "base64_decode (p # q # r # s # t) =
     (case (base64_val p, base64_val q) of
        (Some a, Some b) \<Rightarrow>
          (if r = CHR ''='' then (if s = CHR ''='' \<and> t = [] then Some [a * 4 + b div 16] else None)
           else (case base64_val r of
             None \<Rightarrow> None
           | Some c \<Rightarrow>
               (if s = CHR ''='' then (if t = [] then Some [a * 4 + b div 16, b mod 16 * 16 + c div 4] else None)
                else (case (base64_val s, base64_decode t) of
                  (Some d, Some bs) \<Rightarrow> Some ([a * 4 + b div 16, b mod 16 * 16 + c div 4, c mod 4 * 64 + d] @ bs)
                | _ \<Rightarrow> None))))
      | _ \<Rightarrow> None)"
| "base64_decode _ = None"

definition strict_base64 :: "json \<Rightarrow> string \<Rightarrow> nat \<Rightarrow> nat list res" where
  "strict_base64 v label expected_size =
     rbind (trimmed_string v label) (\<lambda>s.
     case base64_decode s of
       None \<Rightarrow> Inl (ValueError (label @ '' must be canonical base64''))
     | Some raw \<Rightarrow>
         (if length raw \<noteq> expected_size \<or> base64_encode raw \<noteq> s
          then Inl (ValueError (label @ '' must encode exactly '' @ show_nat expected_size @ '' bytes''))
          else Inr raw))"

subsection \<open>Paths and bytes\<close>

definition canonical_pack_path :: "json \<Rightarrow> string res" where
  "canonical_pack_path v =
     rbind (trimmed_string v ''authorization source_path'') (\<lambda>s.
     if CHR 0x5C \<in> set s
     then Inl (ValueError ''authorization source_path must use canonical '/' separators'')
     else if take 1 s = ''/'' \<or> s = ''.'' \<or> s = ''..'' \<or> path_parts s = [] \<or> ''..'' \<in> set (path_parts s)
        \<or> join_with ''/'' (path_parts s) \<noteq> s
     then Inl (ValueError ''authorization source_path must be a canonical pack-relative path'')
     else Inr s)"

definition record_bytes :: "runtime \<Rightarrow> string \<Rightarrow> string \<Rightarrow> json res" where
  "record_bytes R raw label =
     (if \<not> utf8_valid raw then Inl (ValueError (label @ '' is not UTF-8 JSON''))
      else rbind (strict_json_loads R raw) (\<lambda>v.
        if MAX_AUTHORIZATION_JSON_DEPTH < json_depth v
        then Inl (ValueError (label @ '' JSON nesting exceeds 16 levels''))
        else rbind (canonical_bytes R v) (\<lambda>t.
          if raw \<noteq> t then Inl (ValueError (label @ '' is not canonical JSON'')) else Inr v)))"

definition normalized_unique :: "runtime \<Rightarrow> string list \<Rightarrow> string \<Rightarrow> unit res" where
  "normalized_unique R values label =
     require (distinct (map (normalized_identity R) values))
       (ValueError (''duplicate normalized authorization '' @ label))"

section \<open>Members, bundles and claims\<close>

record authorization_member =
  am_record_id :: string
  am_filename :: string
  am_content_hash :: string
  am_size_bytes :: int
  am_raw_bytes :: string

record authorization_bundle =
  ab_manifest_bytes :: string
  ab_members :: "authorization_member list"

record authorization_claim =
  cl_record_id :: string
  cl_content_hash :: string
  cl_approver_id :: string
  cl_role :: string
  cl_purpose_code :: string
  cl_scope_code :: string
  cl_effective_from :: string
  cl_expires_at :: string

record authorization_context =
  ac_contract_version :: string
  ac_bundle_id :: string
  ac_record_set_hash :: string
  ac_records :: "authorization_claim list"

fun is_int :: "json \<Rightarrow> bool" where
  "is_int (JInt _) = True"
| "is_int _ = False"

definition make_authorization_member :: "runtime \<Rightarrow> json \<Rightarrow> json \<Rightarrow> json \<Rightarrow> json \<Rightarrow> string \<Rightarrow> authorization_member res" where
  "make_authorization_member R record_id filename content_hash nbytes raw =
     (if \<not> (is_str record_id \<and> is_str filename \<and> is_str content_hash \<and> is_int nbytes) then Inl TypeError
      else rbind (trimmed_string record_id ''authorization member record_id'') (\<lambda>i.
           rbind (canonical_pack_path filename) (\<lambda>f.
           rbind (trimmed_sha R content_hash ''authorization member content_hash'') (\<lambda>h.
           rbind (exact_positive_int nbytes ''authorization member size_bytes'') (\<lambda>n.
           if MAX_AUTHORIZATION_MEMBER_BYTES < n then Inl (ValueError ''authorization member exceeds byte limit'')
           else if int (length raw) \<noteq> n
           then Inl (ValueError ''authorization member size differs from captured bytes'')
           else if sha256_hex raw \<noteq> h
           then Inl (ValueError ''authorization member hash differs from captured bytes'')
           else Inr \<lparr>am_record_id = i, am_filename = f, am_content_hash = h, am_size_bytes = n,
                  am_raw_bytes = raw\<rparr>)))))"

definition remake_authorization_member :: "runtime \<Rightarrow> authorization_member \<Rightarrow> authorization_member res" where
  "remake_authorization_member R m = make_authorization_member R (JStr (am_record_id m)) (JStr (am_filename m))
     (JStr (am_content_hash m)) (JInt (am_size_bytes m)) (am_raw_bytes m)"

text \<open>\<open>AuthorizationRecordContext.record\<close>.\<close>

definition context_record :: "runtime \<Rightarrow> authorization_context \<Rightarrow> json \<Rightarrow> json \<Rightarrow> authorization_claim res" where
  "context_record R x record_id content_hash =
     rbind (trimmed_string record_id ''authorization lookup record_id'') (\<lambda>i.
     rbind (trimmed_sha R content_hash ''authorization lookup content_hash'') (\<lambda>h.
     case filter (\<lambda>c. cl_record_id c = i \<and> cl_content_hash c = h) (ac_records x) of
       [c] \<Rightarrow> Inr c
     | _ \<Rightarrow> Inl (ValueError ''authorization record binding is missing or ambiguous'')))"

section \<open>Records\<close>

definition check_record_window :: "dict \<Rightarrow> bool \<Rightarrow> unit res" where
  "check_record_window record with_signature =
     rbind (parse_rfc3339_utc (dget ''effective_from'' record) ''authorization record effective_from'') (\<lambda>from.
     rbind (parse_rfc3339_utc (dget ''expires_at'' record) ''authorization record expires_at'') (\<lambda>until.
     rbind (require (\<not> until < from) (ValueError ''authorization record static UTC window is reversed'')) (\<lambda>_.
     if \<not> with_signature then Inr ()
     else rbind (parse_rfc3339_utc (dget ''issued_at'' record) ''authorization record issued_at'') (\<lambda>issued.
       require (from \<le> issued \<and> issued \<le> until)
         (ValueError ''authorization record issued_at is outside its static UTC window'')))))"

definition check_texts :: "dict \<Rightarrow> string \<Rightarrow> string list \<Rightarrow> unit res" where
  "check_texts d label ks =
     check_all (\<lambda>_ k. rbind (trimmed_string (dget k d) (label @ k)) (\<lambda>_. Inr ())) ks"

definition check_signature_fields :: "dict \<Rightarrow> unit res" where
  "check_signature_fields record = seq_checks
     [check_texts record ''authorization record '' SIGNATURE_KEYS,
      require (dget ''signature_algorithm'' record = JStr ''ED25519'')
        (ValueError ''authorization record signature_algorithm is unsupported''),
      rbind (strict_base64 (dget ''signature'' record) ''authorization record signature'' 64) (\<lambda>_. Inr ())]"

definition check_record :: "dict \<Rightarrow> string \<Rightarrow> string \<Rightarrow> unit res" where
  "check_record record record_id version = seq_checks
     [require (dget ''contract_version'' record = JStr version)
        (ValueError ''unsupported authorization record version''),
      check_texts record ''authorization record '' (filter (\<lambda>k. k \<noteq> ''contract_version'') RECORD_KEYS),
      when_check (version = SIGNED_RECORD_CONTRACT_VERSION) (check_signature_fields record),
      require (dget ''record_id'' record = JStr record_id)
        (ValueError ''authorization record_id differs from manifest foreign key''),
      require (str_in (dget ''role_claim'' record) AUTHORIZATION_ROLE_CLAIMS)
        (ValueError ''authorization record role_claim is unsupported''),
      require (dget ''purpose_code'' record = JStr AUTHORIZATION_PURPOSE_CODE)
        (ValueError ''authorization record purpose_code is unsupported''),
      require (dget ''scope_code'' record = JStr AUTHORIZATION_SCOPE_CODE)
        (ValueError ''authorization record scope_code is unsupported''),
      check_record_window record (version = SIGNED_RECORD_CONTRACT_VERSION)]"

definition record_keys :: "string \<Rightarrow> string list" where
  "record_keys version =
     (if version = SIGNED_RECORD_CONTRACT_VERSION then RECORD_KEYS @ SIGNATURE_KEYS else RECORD_KEYS)"

definition validate_record :: "runtime \<Rightarrow> string \<Rightarrow> string \<Rightarrow> string \<Rightarrow> dict res" where
  "validate_record R raw record_id version =
     rbind (record_bytes R raw (''authorization record '' @ record_id)) (\<lambda>v.
     rbind (require (is_dict v \<and> keys_exactly (record_keys version) (dict_of v))
       (ValueError ''authorization record has unsupported claim shape'')) (\<lambda>_.
     rbind (check_record (dict_of v) record_id version) (\<lambda>_. Inr (dict_of v))))"

section \<open>The manifest\<close>

definition check_spec :: "runtime \<Rightarrow> dict \<Rightarrow> unit res" where
  "check_spec R spec =
     rbind (trimmed_string (dget ''record_id'' spec) ''authorization manifest record_id'') (\<lambda>_.
     rbind (canonical_pack_path (dget ''source_path'' spec)) (\<lambda>_.
     rbind (trimmed_sha R (dget ''content_hash'' spec) ''authorization manifest content_hash'') (\<lambda>_.
     rbind (exact_positive_int (dget ''size_bytes'' spec) ''authorization manifest size_bytes'') (\<lambda>n.
     rbind (require (n \<le> MAX_AUTHORIZATION_MEMBER_BYTES)
       (ValueError ''authorization manifest member exceeds byte limit'')) (\<lambda>_.
     require (dget ''format'' spec = JStr ''JSON'')
       (ValueError ''authorization manifest member format is unsupported''))))))"

fun int_of :: "json \<Rightarrow> int" where
  "int_of (JInt i) = i"
| "int_of _ = 0"

definition pack_member_shape :: "json \<Rightarrow> bool" where
  "pack_member_shape v \<longleftrightarrow> is_dict v \<and> keys_exactly PACK_MEMBER_KEYS (dict_of v)"

definition pack_specs :: "dict \<Rightarrow> dict list" where
  "pack_specs m = map dict_of (list_of (dget ''members'' m))"

definition validate_pack_manifest :: "runtime \<Rightarrow> json \<Rightarrow> unit res" where
  "validate_pack_manifest R v = seq_checks
     [require (is_dict v \<and> keys_exactly PACK_MANIFEST_KEYS (dict_of v))
        (ValueError ''authorization manifest has unsupported root shape''),
      rbind (hash_in (dget ''contract_version'' (dict_of v))
          [AUTHORIZATION_RECORD_PACK_VERSION, SIGNED_RECORD_PACK_VERSION]) (\<lambda>known.
        require known (ValueError ''unsupported authorization record pack version'')),
      rbind (trimmed_string (dget ''bundle_id'' (dict_of v)) ''authorization manifest bundle_id'') (\<lambda>_. Inr ()),
      require (is_list (dget ''members'' (dict_of v)) \<and> list_of (dget ''members'' (dict_of v)) \<noteq> []
          \<and> length (list_of (dget ''members'' (dict_of v))) \<le> MAX_AUTHORIZATION_MEMBERS
          \<and> list_all pack_member_shape (list_of (dget ''members'' (dict_of v))))
        (ValueError ''authorization manifest members have unsupported shape''),
      check_all (\<lambda>_ s. check_spec R s) (pack_specs (dict_of v)),
      require (sum_list (map (\<lambda>s. int_of (dget ''size_bytes'' s)) (pack_specs (dict_of v))) \<le> MAX_AUTHORIZATION_TOTAL_BYTES)
        (ValueError ''authorization manifest exceeds total byte limit''),
      normalized_unique R (spec_names ''record_id'' (pack_specs (dict_of v))) ''manifest record_id'',
      normalized_unique R (spec_names ''source_path'' (pack_specs (dict_of v))) ''manifest source_path'']"

definition record_spec_key :: "runtime \<Rightarrow> json \<Rightarrow> string \<times> string" where
  "record_spec_key R v =
     (let i = str_of (dget ''record_id'' (dict_of v)) in (normalized_identity R i, i))"

definition canonical_pack_manifest :: "runtime \<Rightarrow> dict \<Rightarrow> dict" where
  "canonical_pack_manifest R m =
     [(''bundle_id'', dget ''bundle_id'' m), (''contract_version'', dget ''contract_version'' m),
      (''members'', JList (sort_key (record_spec_key R) (list_of (dget ''members'' m))))]"

definition record_version :: "dict \<Rightarrow> string" where
  "record_version m =
     (if dget ''contract_version'' m = JStr SIGNED_RECORD_PACK_VERSION
      then SIGNED_RECORD_CONTRACT_VERSION else AUTHORIZATION_RECORD_CONTRACT_VERSION)"

definition set_version :: "dict \<Rightarrow> string" where
  "set_version m =
     (if dget ''contract_version'' m = JStr SIGNED_RECORD_PACK_VERSION
      then SIGNED_RECORD_SET_VERSION else AUTHORIZATION_RECORD_SET_VERSION)"

definition authorization_member_of :: "authorization_member list \<Rightarrow> string \<Rightarrow> authorization_member option" where
  "authorization_member_of ms i = map_of (rev (map (\<lambda>m. (am_record_id m, m)) ms)) i"

definition check_pack_member :: "runtime \<Rightarrow> string \<Rightarrow> authorization_member list \<Rightarrow> dict \<Rightarrow> unit res" where
  "check_pack_member R version ms spec =
     (case authorization_member_of ms (str_of (dget ''record_id'' spec)) of
        None \<Rightarrow> Inl (KeyError (str_of (dget ''record_id'' spec)))
      | Some m \<Rightarrow>
          if JStr (am_filename m) \<noteq> dget ''source_path'' spec \<or> JStr (am_content_hash m) \<noteq> dget ''content_hash'' spec
             \<or> JInt (am_size_bytes m) \<noteq> dget ''size_bytes'' spec
          then Inl (ValueError ''authorization member identity differs from manifest'')
          else rbind (validate_record R (am_raw_bytes m) (am_record_id m) version) (\<lambda>_. Inr ()))"

definition validate_authorization_bundle :: "runtime \<Rightarrow> authorization_bundle \<Rightarrow> dict res" where
  "validate_authorization_bundle R b =
     rbind (record_bytes R (ab_manifest_bytes b) ''authorization manifest'') (\<lambda>v.
     rbind (validate_pack_manifest R v) (\<lambda>_.
     let canonical = canonical_pack_manifest R (dict_of v); specs = pack_specs (dict_of v); ms = ab_members b in
     rbind (canonical_bytes R (JDict canonical)) (\<lambda>t.
     if ab_manifest_bytes b \<noteq> t then Inl (ValueError ''authorization manifest is not canonical'')
     else if \<not> distinct (map am_record_id ms) \<or> set (map am_record_id ms) \<noteq> set (spec_names ''record_id'' specs)
     then Inl (ValueError ''authorization members differ from manifest'')
     else rbind (normalized_unique R (map am_record_id ms) ''member record_id'') (\<lambda>_.
          rbind (normalized_unique R (map am_filename ms) ''member source_path'') (\<lambda>_.
          rbind (check_all (\<lambda>_ s. check_pack_member R (record_version (dict_of v)) ms s) specs) (\<lambda>_.
          Inr canonical))))))"

definition make_authorization_bundle :: "runtime \<Rightarrow> string \<Rightarrow> authorization_member list \<Rightarrow> authorization_bundle res" where
  "make_authorization_bundle R manifest ms =
     (if ms = [] \<or> MAX_AUTHORIZATION_MEMBERS < length ms
      then Inl (ValueError ''authorization bundle member count is invalid'')
      else if MAX_AUTHORIZATION_TOTAL_BYTES < sum_list (map am_size_bytes ms)
      then Inl (ValueError ''authorization bundle exceeds total byte limit'')
      else rbind (rmap (remake_authorization_member R) ms) (\<lambda>ms'.
           rbind (validate_authorization_bundle R \<lparr>ab_manifest_bytes = manifest, ab_members = ms'\<rparr>) (\<lambda>_.
           Inr \<lparr>ab_manifest_bytes = manifest, ab_members = ms'\<rparr>)))"

section \<open>The context\<close>

definition claim_of :: "authorization_member \<Rightarrow> dict \<Rightarrow> authorization_claim" where
  "claim_of m record = \<lparr>cl_record_id = str_of (dget ''record_id'' record), cl_content_hash = am_content_hash m,
     cl_approver_id = str_of (dget ''approver_id_claim'' record), cl_role = str_of (dget ''role_claim'' record),
     cl_purpose_code = str_of (dget ''purpose_code'' record), cl_scope_code = str_of (dget ''scope_code'' record),
     cl_effective_from = str_of (dget ''effective_from'' record), cl_expires_at = str_of (dget ''expires_at'' record)\<rparr>"

definition record_spec_of :: "dict list \<Rightarrow> string \<Rightarrow> dict option" where
  "record_spec_of specs i = map_of (rev (map (\<lambda>s. (str_of (dget ''record_id'' s), s)) specs)) i"

definition member_claim :: "runtime \<Rightarrow> string \<Rightarrow> dict list \<Rightarrow> authorization_member \<Rightarrow> authorization_claim res" where
  "member_claim R version specs m =
     rbind (validate_record R (am_raw_bytes m) (am_record_id m) version) (\<lambda>record.
     case record_spec_of specs (am_record_id m) of
       None \<Rightarrow> Inl (KeyError (am_record_id m))
     | Some spec \<Rightarrow>
         if JStr (am_content_hash m) \<noteq> dget ''content_hash'' spec \<or> JInt (am_size_bytes m) \<noteq> dget ''size_bytes'' spec
         then Inl (ValueError ''authorization captured bytes differ from manifest'')
         else Inr (claim_of m record))"

definition claim_key :: "runtime \<Rightarrow> authorization_claim \<Rightarrow> string \<times> string" where
  "claim_key R c = (normalized_identity R (cl_record_id c), cl_record_id c)"

definition RECORD_SET_DOMAIN :: string where
  "RECORD_SET_DOMAIN = ''QualityCI/authorization-record-set/v1'' @ [CHR 0x00]"

definition set_subject :: "dict \<Rightarrow> authorization_claim list \<Rightarrow> json" where
  "set_subject manifest claims = JDict
     [(''bundle_id'', dget ''bundle_id'' manifest), (''contract_version'', JStr (set_version manifest)),
      (''members'', JList (map (\<lambda>c. JDict [(''content_hash'', JStr (cl_content_hash c)),
         (''record_id'', JStr (cl_record_id c))]) claims)),
      (''pack_contract_version'', dget ''contract_version'' manifest),
      (''record_contract_version'', JStr (record_version manifest))]"

definition prepare_authorization_context :: "runtime \<Rightarrow> authorization_bundle \<Rightarrow> authorization_context res" where
  "prepare_authorization_context R b =
     rbind (validate_authorization_bundle R b) (\<lambda>manifest.
     rbind (rmap (member_claim R (record_version manifest) (pack_specs manifest)) (ab_members b)) (\<lambda>cs.
     let claims = sort_key (claim_key R) cs in
     rbind (domain_hash R RECORD_SET_DOMAIN (set_subject manifest claims)) (\<lambda>h.
     Inr \<lparr>ac_contract_version = set_version manifest, ac_bundle_id = str_of (dget ''bundle_id'' manifest),
          ac_record_set_hash = h, ac_records = claims\<rparr>)))"

section \<open>The capture of a pack\<close>

record file_identity =
  fi_dev :: int
  fi_ino :: int
  fi_mode :: int
  fi_nlink :: nat
  fi_size :: nat
  fi_mtime_ns :: int

text \<open>
  The four statuses of one capture (before, opened, closed, after), whether the first is of a
  regular file and not of a link, and the bytes; \<open>None\<close> where the system raises an \<open>OSError\<close>.
\<close>

record file_capture =
  fc_before :: "(file_identity \<times> bool) option"
  fc_read :: "(file_identity \<times> string \<times> file_identity) option"
  fc_after :: "file_identity option"

definition capture_regular_file_once :: "string \<Rightarrow> nat \<Rightarrow> file_capture \<Rightarrow> string res" where
  "capture_regular_file_once label maximum c =
     (case fc_before c of
        None \<Rightarrow> Inl (ValueError (label @ '' is unavailable''))
      | Some (before, regular) \<Rightarrow>
          if \<not> regular \<or> fi_nlink before \<noteq> 1 \<or> fi_size before = 0 \<or> maximum < fi_size before
          then Inl (ValueError (label @ '' must be one bounded regular non-link file''))
          else (case (fc_read c, fc_after c) of
                  (Some (opening, raw, closing), Some after) \<Rightarrow>
                    if maximum < length raw \<or> length raw \<noteq> fi_size before \<or> before \<noteq> opening \<or> opening \<noteq> closing
                       \<or> before \<noteq> after
                    then Inl (ValueError (label @ '' changed during capture'')) else Inr raw
                | _ \<Rightarrow> Inl (ValueError (label @ '' changed during capture''))))"

text \<open>
  \<open>load_authorization_record_bundle\<close>, given the bytes of the manifest, its name in the pack and
  the capture of a file of the pack (its real parent directories included).  The root shape and
  the list of members are checked first; the rest of what is refused before a member is read is
  what \<open>validate_pack_manifest\<close> refuses, in its order.
\<close>

definition capture_pack_member :: "runtime \<Rightarrow> (string \<Rightarrow> string res) \<Rightarrow> string \<Rightarrow> dict \<Rightarrow> authorization_member res" where
  "capture_pack_member R capture manifest_name spec =
     rbind (canonical_pack_path (dget ''source_path'' spec)) (\<lambda>p.
     if p = manifest_name then Inl (ValueError ''authorization member must not reference its manifest'')
     else rbind (capture p) (\<lambda>raw.
       make_authorization_member R (dget ''record_id'' spec) (dget ''source_path'' spec)
         (dget ''content_hash'' spec) (dget ''size_bytes'' spec) raw))"

definition record_member_key :: "runtime \<Rightarrow> authorization_member \<Rightarrow> string \<times> string" where
  "record_member_key R m = (normalized_identity R (am_record_id m), am_record_id m)"

definition load_authorization_bundle ::
    "runtime \<Rightarrow> (string \<Rightarrow> string res) \<Rightarrow> string \<Rightarrow> string \<Rightarrow> authorization_bundle res" where
  "load_authorization_bundle R capture manifest_name raw =
     rbind (record_bytes R raw ''authorization manifest'') (\<lambda>v.
     rbind (require (is_dict v \<and> keys_exactly PACK_MANIFEST_KEYS (dict_of v))
       (ValueError ''authorization manifest has unsupported root shape'')) (\<lambda>_.
     rbind (require (is_list (dget ''members'' (dict_of v)))
       (ValueError ''authorization manifest members have unsupported shape'')) (\<lambda>_.
     rbind (validate_pack_manifest R v) (\<lambda>_.
     rbind (canonical_bytes R (JDict (canonical_pack_manifest R (dict_of v)))) (\<lambda>t.
     if raw \<noteq> t then Inl (ValueError ''authorization manifest is not canonical'')
     else rbind (rmap (capture_pack_member R capture manifest_name) (pack_specs (dict_of v))) (\<lambda>ms.
          rbind (make_authorization_bundle R raw (sort_key (record_member_key R) ms)) (\<lambda>b.
          rbind (prepare_authorization_context R b) (\<lambda>_. Inr b))))))))"

end
