(* ===== verification/Approval_Subject.thy ===== *)
theory Approval_Subject
  imports Authorization_Records Run_Result
begin

text \<open>
  \<open>approval_subject.py\<close>: the subject an approval is given for, the assertions of the approvers,
  and the validation that joins each assertion to a captured authorization record.  Keys the
  source takes from a set are checked in the order they are written.
\<close>

section \<open>Contract constants\<close>

definition LEGACY_SUBJECT_VERSION :: string where
  "LEGACY_SUBJECT_VERSION = ''qualityci-approval-subject-0.1''"

definition SOURCE_SUBJECT_VERSION :: string where
  "SOURCE_SUBJECT_VERSION = ''qualityci-approval-subject-0.2''"

definition APPROVAL_ASSERTION_VERSION :: string where
  "APPROVAL_ASSERTION_VERSION = ''qualityci-approval-assertion-0.1''"

definition APPROVAL_POLICY_VERSION :: string where
  "APPROVAL_POLICY_VERSION = ''qualityci-approval-policy-0.1''"

definition APPROVAL_USE_POLICY :: string where "APPROVAL_USE_POLICY = ''SINGLE_REPLAY''"

definition GLOBAL_SINGLE_USE_UNVERIFIED :: string where
  "GLOBAL_SINGLE_USE_UNVERIFIED = ''GLOBAL_SINGLE_USE_UNVERIFIED''"

definition APPROVAL_ROLES :: "string list" where
  "APPROVAL_ROLES = [''PROCESS_OWNER'', ''QUALITY_MANAGER'']"

definition approval_domain :: "string \<Rightarrow> string" where
  "approval_domain s = ''QualityCI/approval-'' @ s @ [CHR 0x00]"

text \<open>The keys of a subject whose values are texts, and the ones whose values are digests.\<close>

definition SUBJECT_TEXT_KEYS :: "string list" where
  "SUBJECT_TEXT_KEYS =
     [''contract_version'', ''purpose_code'', ''scope_code'', ''purpose_text'', ''purpose_text_hash'',
      ''resolution_id'', ''resolution_description_hash'', ''operations_hash'', ''case_id'', ''event_id'',
      ''event_revision'', ''pre_case_subject_hash'', ''artifact_subject_hash'',
      ''controlled_reference_policy_hash'', ''validation_approval_policy_hash'',
      ''approval_policy_version'', ''use_policy'', ''execution_nonce'']"

definition APPROVAL_SUBJECT_KEYS :: "string list" where
  "APPROVAL_SUBJECT_KEYS = SUBJECT_TEXT_KEYS @ [''required_role_claims'']"

definition SOURCE_APPROVAL_SUBJECT_KEYS :: "string list" where
  "SOURCE_APPROVAL_SUBJECT_KEYS = APPROVAL_SUBJECT_KEYS @ [''pre_case_source'']"

definition SUBJECT_HASH_KEYS :: "string list" where
  "SUBJECT_HASH_KEYS =
     [''purpose_text_hash'', ''resolution_description_hash'', ''operations_hash'',
      ''pre_case_subject_hash'', ''artifact_subject_hash'', ''controlled_reference_policy_hash'',
      ''validation_approval_policy_hash'']"

definition APPROVAL_ASSERTION_KEYS :: "string list" where
  "APPROVAL_ASSERTION_KEYS =
     [''assertion_contract_version'', ''approval_id'', ''approval_subject_hash'', ''decision'',
      ''approver_id_claim'', ''role_claim'', ''authorization_record_id'',
      ''authorization_record_hash'', ''issued_at'', ''effective_from'', ''expires_at'']"

definition FORBIDDEN_POST_FACT_KEYS :: "string list" where
  "FORBIDDEN_POST_FACT_KEYS =
     [''approval_subject_hash'', ''approval_assertion'', ''approval_assertions'', ''assertion_hash'',
      ''assertion_hashes'', ''authorization_record_hash'', ''before'', ''after'', ''before_run'',
      ''after_run'', ''run_id'', ''run_hash'', ''source_validation_evidence_set_hash'',
      ''resolved_validation_evidence_set_hash'', ''validation_evidence_pair_hash'', ''baseline'',
      ''replay_admission_hash'', ''replay_ledger_hash'', ''consumption'', ''consumption_hash'',
      ''signature'']"

section \<open>The subject\<close>

definition check_each :: "dict \<Rightarrow> string \<Rightarrow> string list \<Rightarrow> (json \<Rightarrow> string \<Rightarrow> string res) \<Rightarrow> unit res" where
  "check_each d label ks f = check_all (\<lambda>_ k. rbind (f (dget k d) (label @ k)) (\<lambda>_. Inr ())) ks"

definition check_pre_case_source :: "json \<Rightarrow> string \<Rightarrow> unit res" where
  "check_pre_case_source v message =
     rbind (validate_assurance_payload v) (\<lambda>_.
     require (str_in (dget ''case_source_assurance_state'' (dict_of v)) [SOURCE_BOUND, SOURCE_DERIVED])
       (ValueError (message @ '' must be BOUND or SOURCE_ROOTED'')))"

definition role_key :: "runtime \<Rightarrow> string \<Rightarrow> string \<times> string" where
  "role_key R r = (normalized_identity R r, r)"

definition check_roles :: "runtime \<Rightarrow> json \<Rightarrow> unit res" where
  "check_roles R v = seq_checks
     [require (is_list v \<and> list_all nonblank_str (list_of v))
        (ValueError ''required_role_claims must be an exact string array''),
      require (map str_of (list_of v) = sort_key (role_key R) (map str_of (list_of v))
          \<and> distinct (map (normalized_identity R) (map str_of (list_of v))))
        (ValueError ''required_role_claims must be canonical and unique''),
      require (v = JList (map JStr (sort APPROVAL_ROLES)))
        (ValueError ''required_role_claims must exactly match the approval policy roles'')]"

text \<open>\<open>sha256(_TEXT_DOMAIN + text.encode("utf-8"))\<close>.\<close>

definition purpose_hash :: "string \<Rightarrow> string res" where
  "purpose_hash s =
     (if utf8_valid s then Inr (sha256_hex (approval_domain ''text/v1'' @ s))
      else Inl (ValueError ''surrogates not allowed''))"

definition subject_keys :: "dict \<Rightarrow> string list res" where
  "subject_keys d =
     (if dget ''contract_version'' d = JStr LEGACY_SUBJECT_VERSION then Inr APPROVAL_SUBJECT_KEYS
      else if dget ''contract_version'' d = JStr SOURCE_SUBJECT_VERSION then Inr SOURCE_APPROVAL_SUBJECT_KEYS
      else Inl (ValueError ''unsupported approval subject contract_version''))"

definition check_purpose :: "dict \<Rightarrow> unit res" where
  "check_purpose d = rbind (purpose_hash (str_of (dget ''purpose_text'' d))) (\<lambda>h.
     require (dget ''purpose_text_hash'' d = JStr h \<and> dget ''resolution_description_hash'' d = JStr h)
       (ValueError ''approval subject captured purpose text hash mismatch''))"

definition check_subject :: "runtime \<Rightarrow> dict \<Rightarrow> unit res" where
  "check_subject R d = seq_checks
     [rbind (subject_keys d) (\<lambda>ks. seq_checks
        [require (\<not> list_ex (\<lambda>k. k \<notin> set SOURCE_APPROVAL_SUBJECT_KEYS
              \<and> k \<in> set FORBIDDEN_POST_FACT_KEYS) (map fst d))
           (ValueError ''approval subject contains forbidden post-fact keys''),
         require (keys_exactly ks d)
           (ValueError ''approval subject must contain the exact versioned key set'')]),
      check_each d ''approval subject '' SUBJECT_TEXT_KEYS exact_string,
      check_each d ''approval subject '' SUBJECT_HASH_KEYS (lower_sha R),
      when_check (dget ''contract_version'' d = JStr SOURCE_SUBJECT_VERSION)
        (rbind (require (is_dict (dget ''pre_case_source'' d))
           (ValueError ''approval subject pre_case_source must be an exact object'')) (\<lambda>_.
         check_pre_case_source (dget ''pre_case_source'' d) ''approval subject pre_case_source'')),
      require (dget ''purpose_code'' d = JStr AUTHORIZATION_PURPOSE_CODE)
        (ValueError ''unsupported approval purpose_code''),
      require (dget ''scope_code'' d = JStr AUTHORIZATION_SCOPE_CODE)
        (ValueError ''unsupported approval scope_code''),
      require (dget ''approval_policy_version'' d = JStr APPROVAL_POLICY_VERSION)
        (ValueError ''unsupported approval_policy_version''),
      require (dget ''use_policy'' d = JStr APPROVAL_USE_POLICY)
        (ValueError ''unsupported approval use_policy''),
      check_roles R (dget ''required_role_claims'' d),
      check_purpose d]"

text \<open>
  \<open>json.loads(_canonical_bytes(value))\<close>: what the printer wrote has no duplicate key and no
  constant, where the reader of the library and the strict one agree.
\<close>

definition canonical_copy :: "runtime \<Rightarrow> json \<Rightarrow> json res" where
  "canonical_copy R v = rbind (canonical_bytes R v) (strict_json_loads R)"

definition validate_approval_subject :: "runtime \<Rightarrow> json \<Rightarrow> dict res" where
  "validate_approval_subject R v =
     rbind (require (is_dict v) (ValueError ''approval subject must be an exact object'')) (\<lambda>_.
     rbind (check_subject R (dict_of v)) (\<lambda>_.
     rbind (canonical_copy R v) (\<lambda>w. Inr (dict_of w))))"

text \<open>The optional argument \<open>expected\<close>.\<close>

definition validate_expected_subject :: "runtime \<Rightarrow> json \<Rightarrow> json option \<Rightarrow> dict res" where
  "validate_expected_subject R v expected =
     rbind (validate_approval_subject R v) (\<lambda>d.
     case expected of
       None \<Rightarrow> Inr d
     | Some e \<Rightarrow> rbind (validate_approval_subject R e) (\<lambda>d'.
         if py_eq (JDict d) (JDict d') then Inr d
         else Inl (ValueError ''approval subject differs from internally derived subject'')))"

definition approval_subject_hash :: "runtime \<Rightarrow> json \<Rightarrow> string res" where
  "approval_subject_hash R v =
     rbind (validate_approval_subject R v) (\<lambda>d.
     domain_hash R (approval_domain (if dget ''contract_version'' d = JStr LEGACY_SUBJECT_VERSION
       then ''subject/v1'' else ''subject/v2'')) (JDict d))"

subsection \<open>Its derivation\<close>

record subject_facts =
  sf_resolution_id :: json
  sf_description :: json
  sf_operations :: json
  sf_case_id :: json
  sf_event_id :: json
  sf_event_revision :: json
  sf_pre_case_subject_hash :: json
  sf_artifact_subject :: json
  sf_reference_policy :: json
  sf_validation_policy :: json
  sf_roles :: json
  sf_execution_nonce :: json
  sf_pre_case_source :: "json option"

definition nonempty_dict :: "json \<Rightarrow> bool" where
  "nonempty_dict v \<longleftrightarrow> is_dict v \<and> dict_of v \<noteq> []"

definition check_facts :: "runtime \<Rightarrow> subject_facts \<Rightarrow> unit res" where
  "check_facts R a = seq_checks
     [rbind (exact_string (sf_resolution_id a) ''resolution_id'') (\<lambda>_. Inr ()),
      rbind (exact_string (sf_description a) ''resolution description'') (\<lambda>_. Inr ()),
      rbind (exact_string (sf_case_id a) ''case_id'') (\<lambda>_. Inr ()),
      rbind (exact_string (sf_event_id a) ''event_id'') (\<lambda>_. Inr ()),
      rbind (exact_string (sf_event_revision a) ''event_revision'') (\<lambda>_. Inr ()),
      rbind (exact_string (sf_execution_nonce a) ''execution_nonce'') (\<lambda>_. Inr ()),
      rbind (lower_sha R (sf_pre_case_subject_hash a) ''pre_case_subject_hash'') (\<lambda>_. Inr ()),
      require (is_list (sf_operations a) \<and> list_of (sf_operations a) \<noteq> [])
        (ValueError ''operations must be a non-empty exact sequence''),
      require (list_all is_dict (list_of (sf_operations a)))
        (ValueError ''operations members must be exact objects''),
      require (nonempty_dict (sf_artifact_subject a))
        (ValueError ''artifact_subject must be an exact non-empty object''),
      require (nonempty_dict (sf_reference_policy a))
        (ValueError ''controlled_reference_policy must be an exact non-empty object''),
      require (nonempty_dict (sf_validation_policy a))
        (ValueError ''validation_approval_policy must be an exact non-empty object''),
      require (is_list (sf_roles a)) (ValueError ''required_role_claims must be an exact sequence''),
      require (list_all nonblank_str (list_of (sf_roles a)))
        (ValueError ''required_role_claims must contain exact non-empty strings''),
      require (distinct (map (normalized_identity R) (map str_of (list_of (sf_roles a)))))
        (ValueError ''required_role_claims contains normalized duplicates'')]"

definition check_given_source :: "json option \<Rightarrow> unit res" where
  "check_given_source s =
     (case s of
        None \<Rightarrow> Inr ()
      | Some v \<Rightarrow> rbind (require (is_dict v) (ValueError ''pre_case_source must be an exact object'')) (\<lambda>_.
          check_pre_case_source v ''pre_case_source''))"

definition subject_of :: "runtime \<Rightarrow> subject_facts \<Rightarrow> string \<Rightarrow> string \<Rightarrow> string \<Rightarrow> string \<Rightarrow> string \<Rightarrow> dict" where
  "subject_of R a text_hash ops art ref val =
     [(''contract_version'', JStr (if sf_pre_case_source a = None then LEGACY_SUBJECT_VERSION else SOURCE_SUBJECT_VERSION)),
      (''purpose_code'', JStr AUTHORIZATION_PURPOSE_CODE), (''scope_code'', JStr AUTHORIZATION_SCOPE_CODE),
      (''purpose_text'', sf_description a), (''purpose_text_hash'', JStr text_hash),
      (''resolution_id'', sf_resolution_id a), (''resolution_description_hash'', JStr text_hash),
      (''operations_hash'', JStr ops), (''case_id'', sf_case_id a), (''event_id'', sf_event_id a),
      (''event_revision'', sf_event_revision a), (''pre_case_subject_hash'', sf_pre_case_subject_hash a),
      (''artifact_subject_hash'', JStr art), (''controlled_reference_policy_hash'', JStr ref),
      (''validation_approval_policy_hash'', JStr val), (''approval_policy_version'', JStr APPROVAL_POLICY_VERSION),
      (''required_role_claims'',
       JList (map JStr (sort_key (role_key R) (map str_of (list_of (sf_roles a)))))),
      (''use_policy'', JStr APPROVAL_USE_POLICY), (''execution_nonce'', sf_execution_nonce a)]
     @ (case sf_pre_case_source a of None \<Rightarrow> [] | Some v \<Rightarrow> [(''pre_case_source'', v)])"

definition derive_approval_subject :: "runtime \<Rightarrow> subject_facts \<Rightarrow> dict res" where
  "derive_approval_subject R a =
     rbind (check_facts R a) (\<lambda>_.
     rbind (purpose_hash (str_of (sf_description a))) (\<lambda>text_hash.
     rbind (check_given_source (sf_pre_case_source a)) (\<lambda>_.
     rbind (domain_hash R (approval_domain ''operations/v1'') (sf_operations a)) (\<lambda>ops.
     rbind (domain_hash R (approval_domain ''artifact-subject/v1'') (sf_artifact_subject a)) (\<lambda>art.
     rbind (domain_hash R (approval_domain ''reference-policy/v1'') (sf_reference_policy a)) (\<lambda>ref.
     rbind (domain_hash R (approval_domain ''validation-policy/v1'') (sf_validation_policy a)) (\<lambda>val.
     validate_approval_subject R (JDict (subject_of R a text_hash ops art ref val)))))))))"

section \<open>Assertions\<close>

definition check_assertion_window :: "dict \<Rightarrow> unit res" where
  "check_assertion_window d =
     rbind (parse_rfc3339_utc (dget ''effective_from'' d) ''approval assertion effective_from'') (\<lambda>effective.
     rbind (parse_rfc3339_utc (dget ''issued_at'' d) ''approval assertion issued_at'') (\<lambda>issued.
     rbind (parse_rfc3339_utc (dget ''expires_at'' d) ''approval assertion expires_at'') (\<lambda>expires.
     require (effective \<le> issued \<and> issued \<le> expires)
       (ValueError ''approval assertion static time window mismatch''))))"

definition check_assertion :: "runtime \<Rightarrow> dict \<Rightarrow> unit res" where
  "check_assertion R d = seq_checks
     [check_each d ''approval assertion '' APPROVAL_ASSERTION_KEYS exact_string,
      require (dget ''assertion_contract_version'' d = JStr APPROVAL_ASSERTION_VERSION)
        (ValueError ''unsupported approval assertion contract_version''),
      require (dget ''decision'' d = JStr ''APPROVED'')
        (ValueError ''approval assertion decision must be APPROVED''),
      require (str_in (dget ''role_claim'' d) APPROVAL_ROLES)
        (ValueError ''approval assertion role_claim is unsupported''),
      rbind (lower_sha R (dget ''approval_subject_hash'' d) ''approval assertion subject hash'') (\<lambda>_. Inr ()),
      rbind (lower_sha R (dget ''authorization_record_hash'' d) ''approval assertion authorization record hash'')
        (\<lambda>_. Inr ()),
      check_assertion_window d]"

definition validate_approval_assertion_shape :: "runtime \<Rightarrow> json \<Rightarrow> dict res" where
  "validate_approval_assertion_shape R v =
     rbind (require (is_dict v \<and> keys_exactly APPROVAL_ASSERTION_KEYS (dict_of v))
       (ValueError ''approval assertion must contain the exact versioned key set'')) (\<lambda>_.
     rbind (check_assertion R (dict_of v)) (\<lambda>_.
     rbind (canonical_copy R v) (\<lambda>w. Inr (dict_of w))))"

definition approval_assertion_hash :: "runtime \<Rightarrow> json \<Rightarrow> string res" where
  "approval_assertion_hash R v = rbind (validate_approval_assertion_shape R v) (\<lambda>d.
     domain_hash R (approval_domain ''assertion/v1'') (JDict d))"

definition authorization_record_binding ::
    "runtime \<Rightarrow> authorization_context \<Rightarrow> json \<Rightarrow> json \<Rightarrow> authorization_claim res" where
  "authorization_record_binding R x record_id content_hash =
     rbind (context_record R x record_id content_hash) (\<lambda>c.
     if cl_purpose_code c \<noteq> AUTHORIZATION_PURPOSE_CODE \<or> cl_scope_code c \<noteq> AUTHORIZATION_SCOPE_CODE
     then Inl (ValueError ''authorization purpose/scope claim is unsupported'')
     else rbind (parse_rfc3339_utc (JStr (cl_effective_from c)) ''authorization effective_from'') (\<lambda>effective.
          rbind (parse_rfc3339_utc (JStr (cl_expires_at c)) ''authorization expires_at'') (\<lambda>expires.
          if expires < effective then Inl (ValueError ''authorization expires_at precedes effective_from'')
          else Inr c)))"

definition build_approval_assertion ::
    "runtime \<Rightarrow> json \<Rightarrow> json \<Rightarrow> authorization_context \<Rightarrow> json \<Rightarrow> json \<Rightarrow> json \<Rightarrow> json \<Rightarrow> dict res" where
  "build_approval_assertion R subject approval_id x record_id record_hash issued_at decision =
     rbind (approval_subject_hash R subject) (\<lambda>h.
     rbind (authorization_record_binding R x record_id record_hash) (\<lambda>c.
     rbind (exact_string approval_id ''approval_id'') (\<lambda>i.
     validate_approval_assertion_shape R (JDict
       [(''assertion_contract_version'', JStr APPROVAL_ASSERTION_VERSION), (''approval_id'', JStr i),
        (''approval_subject_hash'', JStr h), (''decision'', decision),
        (''approver_id_claim'', JStr (cl_approver_id c)), (''role_claim'', JStr (cl_role c)),
        (''authorization_record_id'', JStr (cl_record_id c)),
        (''authorization_record_hash'', JStr (cl_content_hash c)), (''issued_at'', issued_at),
        (''effective_from'', JStr (cl_effective_from c)), (''expires_at'', JStr (cl_expires_at c))]))))"

section \<open>The validation of a set of assertions\<close>

record approval_validation =
  av_subject_hash :: string
  av_assertion_hashes :: "string list"
  av_approved_roles :: "string list"
  av_record_set_hash :: string
  av_record_set_version :: string
  av_single_use_status :: string
  av_single_use_verified :: bool

text \<open>The entry of \<open>records\<close> for an identifier; the identities are distinct.\<close>

definition claim_by_identity :: "runtime \<Rightarrow> authorization_claim list \<Rightarrow> string \<Rightarrow> authorization_claim option" where
  "claim_by_identity R cs i = map_of (map (\<lambda>c. (normalized_identity R (cl_record_id c), c)) cs) (normalized_identity R i)"

definition joins :: "dict \<Rightarrow> dict \<Rightarrow> authorization_claim \<Rightarrow> bool" where
  "joins subject a c \<longleftrightarrow>
     dget ''authorization_record_id'' a = JStr (cl_record_id c)
     \<and> dget ''authorization_record_hash'' a = JStr (cl_content_hash c)
     \<and> dget ''approver_id_claim'' a = JStr (cl_approver_id c) \<and> dget ''role_claim'' a = JStr (cl_role c)
     \<and> JStr (cl_purpose_code c) = dget ''purpose_code'' subject \<and> JStr (cl_scope_code c) = dget ''scope_code'' subject
     \<and> dget ''effective_from'' a = JStr (cl_effective_from c) \<and> dget ''expires_at'' a = JStr (cl_expires_at c)"

record seen_assertions =
  se_approval_ids :: "string list"
  se_roles :: "string list"
  se_hashes :: "string list"

definition accept_assertion :: "runtime \<Rightarrow> dict \<Rightarrow> string \<Rightarrow> authorization_claim list \<Rightarrow> seen_assertions \<Rightarrow> json
    \<Rightarrow> seen_assertions res" where
  "accept_assertion R subject subject_hash claims seen raw =
     rbind (validate_approval_assertion_shape R raw) (\<lambda>a.
     let approval_key = normalized_identity R (str_of (dget ''approval_id'' a)); role = dget ''role_claim'' a in
     if approval_key \<in> set (se_approval_ids seen)
     then Inl (ValueError ''approval assertions contain normalized duplicate approval_id'')
     else if dget ''approval_subject_hash'' a \<noteq> JStr subject_hash
     then Inl (ValueError ''approval assertion is bound to a different subject'')
     else if role \<notin> set (list_of (dget ''required_role_claims'' subject))
     then Inl (ValueError ''approval assertion role is not required by the subject'')
     else if str_of role \<in> set (se_roles seen)
     then Inl (ValueError ''approval assertions contain duplicate role claims'')
     else (case claim_by_identity R claims (str_of (dget ''authorization_record_id'' a)) of
       None \<Rightarrow> Inl (ValueError ''approval assertion authorization record is missing'')
     | Some c \<Rightarrow>
         if \<not> joins subject a c then Inl (ValueError ''approval assertion authorization record join mismatch'')
         else rbind (approval_assertion_hash R (JDict a)) (\<lambda>h.
              Inr \<lparr>se_approval_ids = approval_key # se_approval_ids seen,
                   se_roles = str_of role # se_roles seen, se_hashes = se_hashes seen @ [h]\<rparr>)))"

definition validate_approval_assertions ::
    "runtime \<Rightarrow> json \<Rightarrow> json \<Rightarrow> authorization_context \<Rightarrow> approval_validation res" where
  "validate_approval_assertions R subject assertions x =
     rbind (validate_approval_subject R subject) (\<lambda>s.
     rbind (approval_subject_hash R (JDict s)) (\<lambda>h.
     rbind (require (is_list assertions \<and> list_of assertions \<noteq> [])
       (ValueError ''native approval requires explicit assertions'')) (\<lambda>_.
     rbind (require (distinct (map (\<lambda>c. normalized_identity R (cl_record_id c)) (ac_records x)))
       (ValueError ''authorization records contain normalized duplicate IDs'')) (\<lambda>_.
     rbind (rfold (accept_assertion R s h (ac_records x))
       \<lparr>se_approval_ids = [], se_roles = [], se_hashes = []\<rparr> (list_of assertions)) (\<lambda>seen.
     if set (map JStr (se_roles seen)) \<noteq> set (list_of (dget ''required_role_claims'' s))
     then Inl (ValueError ''native approval is missing required role assertions'')
     else if \<not> distinct (se_hashes seen) then Inl (ValueError ''approval assertions contain duplicate hashes'')
     else Inr \<lparr>av_subject_hash = h, av_assertion_hashes = sort (se_hashes seen),
            av_approved_roles = sort (se_roles seen), av_record_set_hash = ac_record_set_hash x,
            av_record_set_version = ac_contract_version x,
            av_single_use_status = GLOBAL_SINGLE_USE_UNVERIFIED, av_single_use_verified = False\<rparr>)))))"

end
