(* ===== verification/Approval_Facts.thy ===== *)
theory Approval_Facts
  imports Approval_Subject Validation_Sound Gates_Total
begin

text \<open>
  Facts of \<open>Authorization_Records\<close> and \<open>Approval_Subject\<close>: what a captured record, a claim of a
  prepared context, an accepted subject and a set of accepted assertions satisfy.
\<close>

section \<open>Base 64\<close>

lemma base64_alphabet_facts: "length base64_alphabet = 64" "distinct base64_alphabet"
  "CHR ''='' \<notin> set base64_alphabet" "list_all (\<lambda>a. 32 < (of_char a :: nat) \<and> (of_char a :: nat) < 128) base64_alphabet"
  by code_simp+

lemma base64_val_nth: "n < 64 \<Longrightarrow> base64_val (base64_alphabet ! n) = Some n"
  using base64_alphabet_facts(1,2) by (auto simp: base64_val_def map_of_zip_nth)

lemma base64_nth_pad: "n < 64 \<Longrightarrow> base64_alphabet ! n \<noteq> CHR ''=''"
  using base64_alphabet_facts(1,3) by (metis nth_mem)

lemma base64_join:
  assumes "x < (m :: nat)" and "0 < m"
  shows "(y * m + x) div m = y" "(y * m + x) mod m = x"
  using assms by simp_all

lemma base64_bound:
  assumes "x < (m :: nat)" and "y < n" and "m * n = 64"
  shows "y * m + x < 64"
proof -
  have "y * m + x < (y + 1) * m" using assms(1) by simp
  also have "\<dots> \<le> n * m" using assms(2) by (intro mult_le_mono1) simp
  finally show ?thesis using assms(3) by (simp add: mult.commute)
qed

lemma base64_parts:
  assumes "a < 256" "b < 256" "c < (256::nat)"
  shows "a div 4 < 64" "a mod 4 * 16 + b div 16 < 64" "b mod 16 * 4 + c div 64 < 64" "c mod 64 < 64"
    "a mod 4 * 16 < 64" "b mod 16 * 4 < 64"
    "(a mod 4 * 16 + b div 16) div 16 = a mod 4" "(a mod 4 * 16 + b div 16) mod 16 = b div 16"
    "(b mod 16 * 4 + c div 64) div 4 = b mod 16" "(b mod 16 * 4 + c div 64) mod 4 = c div 64"
proof -
  have d: "b div 16 < 16" "c div 64 < 4" "a mod 4 < 4" "b mod 16 < 16"
    using assms by (auto intro: less_mult_imp_div_less)
  show "a div 4 < 64" using assms(1) by (auto intro: less_mult_imp_div_less)
  show "c mod 64 < 64" by simp
  show "a mod 4 * 16 + b div 16 < 64" by (rule base64_bound[OF d(1,3)]) simp
  show "b mod 16 * 4 + c div 64 < 64" by (rule base64_bound[OF d(2,4)]) simp
  show "a mod 4 * 16 < 64" "b mod 16 * 4 < 64" using d(3,4) by simp_all
  show "(a mod 4 * 16 + b div 16) div 16 = a mod 4" "(a mod 4 * 16 + b div 16) mod 16 = b div 16"
    using base64_join[OF d(1)] by simp_all
  show "(b mod 16 * 4 + c div 64) div 4 = b mod 16" "(b mod 16 * 4 + c div 64) mod 4 = c div 64"
    using base64_join[OF d(2)] by simp_all
qed

lemma base64_decode_encode:
  "list_all (\<lambda>b. b < 256) bs \<Longrightarrow> base64_decode (base64_encode bs) = Some bs"
proof (induction bs rule: base64_encode.induct)
  case (2 a)
  then show ?case using base64_parts(1,5)[of a 0 0] by (simp add: base64_val_nth base64_nth_pad)
next
  case (3 a b)
  then have l: "a < 256" "b < 256" by simp_all
  show ?case using base64_parts[OF l, of 0] by (simp add: base64_val_nth base64_nth_pad)
next
  case (4 a b c bs)
  then have l: "a < 256" "b < 256" "c < 256" "base64_decode (base64_encode bs) = Some bs" by simp_all
  show ?case using l(4) base64_parts[OF l(1-3)] by (simp add: base64_val_nth base64_nth_pad)
qed simp

lemma length_base64_encode: "length (base64_encode bs) = 4 * ((length bs + 2) div 3)"
proof (induction bs rule: base64_encode.induct)
  case (4 a b c bs)
  have "(length (a # b # c # bs) + 2) div 3 = (length bs + 2) div 3 + 1" by simp
  with 4 show ?case by simp
qed simp_all


lemma base64_decode_bytes: "base64_decode s = Some bs \<Longrightarrow> list_all (\<lambda>b. b < 256) bs"
proof (induction s arbitrary: bs rule: base64_decode.induct)
  case (2 p q r s t)
  have val: "base64_val x = Some n \<Longrightarrow> n < 64" for x n
    unfolding base64_val_def by (drule map_of_SomeD, drule set_zip_rightD) simp
  have b: "a * 4 + b div 16 < 256" "b mod 16 * 16 + c div 4 < 256" "c mod 4 * 64 + d < 256"
    if "a < 64" "b < 64" "c < 64" "d < (64 :: nat)" for a b c d using that by linarith+
  show ?case
    using 2 by (auto split: option.splits if_splits dest!: val intro!: b[of _ _ 0 0] b[of 0 _ _ 0] b[of 0 0])
qed simp_all

section \<open>Visible ASCII texts are trimmed\<close>

definition visible :: "string \<Rightarrow> bool" where
  "visible s \<longleftrightarrow> list_all (\<lambda>a. 32 < (of_char a :: nat) \<and> (of_char a :: nat) < 128) s"

lemma visible_not_ws:
  assumes "32 < (of_char a :: nat)" and "(of_char a :: nat) < 128"
  shows "\<not> utf8_continuation a" "\<not> ws_char [a]"
proof -
  have "\<not> 128 \<le> (of_char a :: nat)" using assms(2) by simp
  then show "\<not> utf8_continuation a" by (auto simp: utf8_continuation_def less_eq_char_def)
  show "\<not> ws_char [a]" using assms(1) by (auto simp: ws_char_def ws1_def)
qed

lemma visible_chars: "visible s \<Longrightarrow> utf8_chars s = map (\<lambda>a. [a]) s"
proof (induction s)
  case (Cons a s)
  then have "utf8_chars s = map (\<lambda>a. [a]) s" by (simp add: visible_def)
  moreover have "s \<noteq> [] \<Longrightarrow> \<not> utf8_continuation (hd s)"
    using Cons.prems visible_not_ws by (cases s) (auto simp: visible_def)
  ultimately show ?case by (cases s) simp_all
qed simp

lemma visible_strip: "visible s \<Longrightarrow> py_strip s = s"
proof -
  assume v: "visible s"
  have d: "visible t \<Longrightarrow> dropWhile ws_char (map (\<lambda>a. [a]) t) = map (\<lambda>a. [a]) t" for t
    by (cases t) (auto simp: visible_def visible_not_ws)
  have r: "visible (rev s)" using v by (simp add: visible_def)
  show ?thesis
    using v d[OF v] d[OF r] by (simp add: py_strip_def visible_chars rev_map)
qed

lemma visible_trimmed: "visible s \<Longrightarrow> s \<noteq> [] \<Longrightarrow> trimmed_string (JStr s) label = Inr s"
  using visible_strip by (auto simp: trimmed_string_def no_control_def visible_def list_all_iff)

lemma visible_base64: "list_all (\<lambda>b. b < 256) bs \<Longrightarrow> visible (base64_encode bs)"
proof (induction bs rule: base64_encode.induct)
  have n: "n < 64 \<Longrightarrow> 32 < (of_char (base64_alphabet ! n) :: nat) \<and> (of_char (base64_alphabet ! n) :: nat) < 128" for n
    using base64_alphabet_facts(1,4) by (simp add: list_all_length)
  {
    case (2 a)
    then show ?case using base64_parts(1,5)[of a 0 0] by (simp add: visible_def n)
  next
    case (3 a b)
    then show ?case using base64_parts(1,2,6)[of a b 0] by (simp add: visible_def n)
  next
    case (4 a b c bs)
    then show ?case using base64_parts(1-4)[of a b c] by (simp add: visible_def n)
  }
qed (simp add: visible_def)

lemma trimmed_string_Inr:
  "trimmed_string v label = Inr s \<longleftrightarrow> v = JStr s \<and> s \<noteq> [] \<and> s = py_strip s \<and> no_control s"
  by (cases v) (auto simp: trimmed_string_def)

lemma strict_base64_Inr:
  assumes "0 < n"
  shows "strict_base64 v label n = Inr raw
    \<longleftrightarrow> v = JStr (base64_encode raw) \<and> length raw = n \<and> list_all (\<lambda>b. b < 256) raw"
proof
  assume "strict_base64 v label n = Inr raw"
  then show "v = JStr (base64_encode raw) \<and> length raw = n \<and> list_all (\<lambda>b. b < 256) raw"
    by (auto simp: strict_base64_def rbind_Inr_iff trimmed_string_Inr dest: base64_decode_bytes
        split: option.splits if_splits)
next
  assume r: "v = JStr (base64_encode raw) \<and> length raw = n \<and> list_all (\<lambda>b. b < 256) raw"
  then have "length (base64_encode raw) \<noteq> 0" using assms by (simp add: length_base64_encode)
  then have "base64_encode raw \<noteq> []" by auto
  then show "strict_base64 v label n = Inr raw"
    using r visible_trimmed visible_base64 base64_decode_encode by (simp add: strict_base64_def)
qed

section \<open>Captured records\<close>

lemma record_bytes_facts:
  assumes "record_bytes R raw label = Inr v"
  shows "strict_json_loads R raw = Inr v" "raw = jtext R v" "wf_json v" "json_finite v"
    "json_depth v \<le> MAX_AUTHORIZATION_JSON_DEPTH"
  using assms strict_json_loads_wf[of R raw v]
  by (auto simp: record_bytes_def rbind_Inr_iff canonical_bytes_Inr split: if_splits)

text \<open>What the bytes of a record say: the role, the approver and the window of a claim.\<close>

definition records_claim :: "runtime \<Rightarrow> string \<Rightarrow> authorization_claim \<Rightarrow> bool" where
  "records_claim R raw c \<longleftrightarrow> (\<exists>record from until.
     strict_json_loads R raw = Inr (JDict record) \<and> raw = jtext R (JDict record)
     \<and> sha256_hex raw = cl_content_hash c
     \<and> dget ''record_id'' record = JStr (cl_record_id c)
     \<and> dget ''approver_id_claim'' record = JStr (cl_approver_id c)
     \<and> dget ''role_claim'' record = JStr (cl_role c) \<and> cl_role c \<in> set AUTHORIZATION_ROLE_CLAIMS
     \<and> dget ''purpose_code'' record = JStr AUTHORIZATION_PURPOSE_CODE
     \<and> dget ''scope_code'' record = JStr AUTHORIZATION_SCOPE_CODE
     \<and> dget ''effective_from'' record = JStr (cl_effective_from c) \<and> parse_utc (JStr (cl_effective_from c)) = Inr from
     \<and> dget ''expires_at'' record = JStr (cl_expires_at c) \<and> parse_utc (JStr (cl_expires_at c)) = Inr until
     \<and> from \<le> until)"

lemma check_texts_Inr:
  "check_texts d label ks = Inr () \<Longrightarrow> k \<in> set ks \<Longrightarrow> \<exists>s. dget k d = JStr s \<and> s \<noteq> []"
  unfolding check_texts_def by (drule check_all_InrD, assumption) (auto simp: rbind_Inr_iff trimmed_string_Inr)

lemma check_record_facts:
  assumes "check_record record i version = Inr ()"
  shows "dget ''record_id'' record = JStr i" "str_in (dget ''role_claim'' record) AUTHORIZATION_ROLE_CLAIMS"
    "dget ''purpose_code'' record = JStr AUTHORIZATION_PURPOSE_CODE"
    "dget ''scope_code'' record = JStr AUTHORIZATION_SCOPE_CODE"
    "\<And>k. k \<in> set RECORD_KEYS \<Longrightarrow> is_str (dget k record)"
    "\<exists>from until. parse_utc (dget ''effective_from'' record) = Inr from
       \<and> parse_utc (dget ''expires_at'' record) = Inr until \<and> from \<le> until"
proof -
  have c: "dget ''contract_version'' record = JStr version"
    "check_texts record ''authorization record '' (filter (\<lambda>k. k \<noteq> ''contract_version'') RECORD_KEYS) = Inr ()"
    "dget ''record_id'' record = JStr i" "str_in (dget ''role_claim'' record) AUTHORIZATION_ROLE_CLAIMS"
    "dget ''purpose_code'' record = JStr AUTHORIZATION_PURPOSE_CODE"
    "dget ''scope_code'' record = JStr AUTHORIZATION_SCOPE_CODE"
    "check_record_window record (version = SIGNED_RECORD_CONTRACT_VERSION) = Inr ()"
    using assms unfolding check_record_def seq_checks_Cons_Inr require_Inr by blast+
  show "dget ''record_id'' record = JStr i" "str_in (dget ''role_claim'' record) AUTHORIZATION_ROLE_CLAIMS"
    "dget ''purpose_code'' record = JStr AUTHORIZATION_PURPOSE_CODE"
    "dget ''scope_code'' record = JStr AUTHORIZATION_SCOPE_CODE" by fact+
  show "is_str (dget k record)" if "k \<in> set RECORD_KEYS" for k
    using check_texts_Inr[OF c(2), of k] that c(1) by (cases "k = ''contract_version''") auto
  show "\<exists>from until. parse_utc (dget ''effective_from'' record) = Inr from
       \<and> parse_utc (dget ''expires_at'' record) = Inr until \<and> from \<le> until"
    using c(7) unfolding check_record_window_def rbind_Inr_iff require_Inr not_less by (blast dest: parse_utc_rfc3339)
qed

lemma validate_record_claim:
  assumes "validate_record R (am_raw_bytes m) (am_record_id m) version = Inr record"
    and "sha256_hex (am_raw_bytes m) = am_content_hash m"
  shows "records_claim R (am_raw_bytes m) (claim_of m record)" "cl_record_id (claim_of m record) = am_record_id m"
    "cl_content_hash (claim_of m record) = am_content_hash m"
proof -
  obtain v label where v: "record_bytes R (am_raw_bytes m) label = Inr v" "is_dict v" "record = dict_of v"
    and c: "check_record record (am_record_id m) version = Inr ()"
    using assms(1) by (auto simp: validate_record_def rbind_Inr_iff)
  note b = record_bytes_facts[OF v(1)]
  have j: "v = JDict record" using v(2,3) by (auto elim: is_dictE)
  note f = check_record_facts[OF c]
  have s: "dget k record = JStr (str_of (dget k record))" if "k \<in> set RECORD_KEYS" for k
    using f(5)[OF that] by (auto elim: is_strE)
  have k: "''approver_id_claim'' \<in> set RECORD_KEYS" "''role_claim'' \<in> set RECORD_KEYS"
    "''effective_from'' \<in> set RECORD_KEYS" "''expires_at'' \<in> set RECORD_KEYS"
    by (simp_all add: RECORD_KEYS_def)
  obtain role where r: "dget ''role_claim'' record = JStr role" "role \<in> set AUTHORIZATION_ROLE_CLAIMS"
    using f(2) by (rule str_inE)
  show "records_claim R (am_raw_bytes m) (claim_of m record)"
    using b(1,2) assms(2) f(1,3,4,6) r s[OF k(1)] s[OF k(3)] s[OF k(4)]
    unfolding records_claim_def claim_of_def j by fastforce
  show "cl_record_id (claim_of m record) = am_record_id m" using f(1) by (simp add: claim_of_def)
  show "cl_content_hash (claim_of m record) = am_content_hash m" by (simp add: claim_of_def)
qed

text \<open>The members of a constructed bundle carry their own digest.\<close>

lemma make_member_facts:
  assumes "make_authorization_member R i f h n raw = Inr m"
  shows "am_raw_bytes m = raw" "sha256_hex raw = am_content_hash m" "i = JStr (am_record_id m)" "f = JStr (am_filename m)"
    "h = JStr (am_content_hash m)" "n = JInt (am_size_bytes m)" "int (length raw) = am_size_bytes m"
    "am_size_bytes m \<le> MAX_AUTHORIZATION_MEMBER_BYTES"
  using assms
  by (auto simp: make_authorization_member_def rbind_Inr_iff trimmed_string_Inr trimmed_sha_def
      canonical_pack_path_def exact_positive_int_def split: if_splits json.splits)

lemma make_bundle_members:
  assumes "make_authorization_bundle R manifest ms = Inr b" and "m \<in> set (ab_members b)"
  shows "sha256_hex (am_raw_bytes m) = am_content_hash m" "int (length (am_raw_bytes m)) = am_size_bytes m"
    "am_size_bytes m \<le> MAX_AUTHORIZATION_MEMBER_BYTES"
proof -
  obtain ms' where r: "rmap (remake_authorization_member R) ms = Inr ms'" and b: "ab_members b = ms'"
    using assms(1) by (auto simp: make_authorization_bundle_def rbind_Inr_iff split: if_splits)
  obtain n where "n < length ms'" "m = ms' ! n" using assms(2) b by (auto simp: in_set_conv_nth)
  with r have "remake_authorization_member R (ms ! n) = Inr m"
    by (auto simp: rmap_Inr dest: list_all2_nthD2)
  from make_member_facts[OF this[unfolded remake_authorization_member_def]]
  show "sha256_hex (am_raw_bytes m) = am_content_hash m" "int (length (am_raw_bytes m)) = am_size_bytes m"
    "am_size_bytes m \<le> MAX_AUTHORIZATION_MEMBER_BYTES" by simp_all
qed

lemma prepare_authorization_claims:
  assumes "prepare_authorization_context R b = Inr x" and "c \<in> set (ac_records x)"
    and "\<forall>m \<in> set (ab_members b). sha256_hex (am_raw_bytes m) = am_content_hash m"
  shows "\<exists>m \<in> set (ab_members b). am_record_id m = cl_record_id c \<and> records_claim R (am_raw_bytes m) c"
proof -
  obtain manifest cs where cs: "rmap (member_claim R (record_version manifest) (pack_specs manifest)) (ab_members b) = Inr cs"
    and x: "ac_records x = sort_key (claim_key R) cs"
    using assms(1) by (auto simp: prepare_authorization_context_def rbind_Inr_iff Let_def)
  from assms(2) x have "c \<in> set cs" by simp
  then obtain n where n: "n < length cs" "c = cs ! n" by (auto simp: in_set_conv_nth)
  define m where "m = ab_members b ! n"
  have m: "m \<in> set (ab_members b)" "member_claim R (record_version manifest) (pack_specs manifest) m = Inr c"
    using cs n by (auto simp: rmap_Inr m_def dest: list_all2_nthD2 list_all2_lengthD)
  then obtain d where d: "validate_record R (am_raw_bytes m) (am_record_id m) (record_version manifest) = Inr d"
    and c: "c = claim_of m d"
    by (auto simp: member_claim_def rbind_Inr_iff split: option.splits if_splits)
  from validate_record_claim(1,2)[OF d] assms(3) m(1) show ?thesis unfolding c by force
qed

section \<open>Canonical copies\<close>

lemma canonical_copy_Inr:
  assumes "float_reader (rt_float_repr R) (rt_float_of_text R)" and "printable v"
  shows "canonical_copy R v = Inr w \<longleftrightarrow> utf8_valid (jtext R v) \<and> w = canon v"
  using float_reader.strict_json_loads_jtext[OF assms(1) refl refl assms(2)] printable_finite(1)[OF assms(2)]
  by (auto simp: canonical_copy_def rbind_Inr_iff canonical_bytes_Inr)

lemma check_each_Inr: "check_each d label ks f = Inr () \<longleftrightarrow> (\<forall>k \<in> set ks. ok (f (dget k d) (label @ k)))"
  unfolding check_each_def check_all_Inr all_set_conv_all_nth by (simp add: rbind_Inr_iff ok_iff)

lemma ok_exact_string: "ok (exact_string v label) \<longleftrightarrow> nonblank_str v"
  by (auto simp: ok_iff exact_string_Inr)

section \<open>Assertions\<close>

lemma check_assertion_facts:
  assumes "check_assertion R d = Inr ()"
  shows "\<And>k. k \<in> set APPROVAL_ASSERTION_KEYS \<Longrightarrow> nonblank_str (dget k d)" "dget ''decision'' d = JStr ''APPROVED''"
    "str_in (dget ''role_claim'' d) APPROVAL_ROLES"
    "\<exists>e i x. parse_utc (dget ''effective_from'' d) = Inr e \<and> parse_utc (dget ''issued_at'' d) = Inr i
       \<and> parse_utc (dget ''expires_at'' d) = Inr x \<and> e \<le> i \<and> i \<le> x"
proof -
  have c: "check_each d ''approval assertion '' APPROVAL_ASSERTION_KEYS exact_string = Inr ()"
    "dget ''decision'' d = JStr ''APPROVED''" "str_in (dget ''role_claim'' d) APPROVAL_ROLES"
    "check_assertion_window d = Inr ()"
    using assms unfolding check_assertion_def seq_checks_Cons_Inr require_Inr by blast+
  show "nonblank_str (dget k d)" if "k \<in> set APPROVAL_ASSERTION_KEYS" for k
    using c(1) that by (simp add: check_each_Inr ok_exact_string)
  show "dget ''decision'' d = JStr ''APPROVED''" "str_in (dget ''role_claim'' d) APPROVAL_ROLES" by fact+
  show "\<exists>e i x. parse_utc (dget ''effective_from'' d) = Inr e \<and> parse_utc (dget ''issued_at'' d) = Inr i
       \<and> parse_utc (dget ''expires_at'' d) = Inr x \<and> e \<le> i \<and> i \<le> x"
    using c(4) unfolding check_assertion_window_def rbind_Inr_iff require_Inr by (blast dest: parse_utc_rfc3339)
qed

lemma keys_exactly_sort [simp]: "keys_exactly ks (sort_key f d) \<longleftrightarrow> keys_exactly ks d"
  by (simp add: keys_exactly_iff)

lemma assertion_shape_Inr:
  assumes R: "float_reader (rt_float_repr R) (rt_float_of_text R)" and v: "wf_json v"
  shows "validate_approval_assertion_shape R v = Inr a \<longleftrightarrow>
    is_dict v \<and> keys_exactly APPROVAL_ASSERTION_KEYS (dict_of v) \<and> check_assertion R (dict_of v) = Inr ()
    \<and> utf8_valid (jtext R v) \<and> a = sort_key fst (dict_of v)" (is "?l \<longleftrightarrow> ?r")
proof (cases "is_dict v \<and> keys_exactly APPROVAL_ASSERTION_KEYS (dict_of v) \<and> check_assertion R (dict_of v) = Inr ()")
  case True
  then obtain d where d: "v = JDict d" by (auto elim: is_dictE)
  with v have dist: "distinct (map fst d)" by simp
  have "is_str (dget k d)" if "k \<in> set APPROVAL_ASSERTION_KEYS" for k
    using check_assertion_facts(1)[of R d k] that True d by (auto elim: nonblank_strE)
  then have t: "text_values d" using text_values_keys[OF dist] True d by auto
  have c: "canonical_copy R v = Inr w \<longleftrightarrow> utf8_valid (jtext R v) \<and> w = JDict (sort_key fst d)" for w
    using canonical_copy_Inr[OF R text_values_printable[OF t]] canon_text_values[OF t] d by simp
  have e: "validate_approval_assertion_shape R v = rbind (canonical_copy R v) (\<lambda>w. Inr (dict_of w))"
    unfolding validate_approval_assertion_shape_def using True by (simp only: require_cases rbind_simps simp_thms)
  have "?l \<longleftrightarrow> utf8_valid (jtext R v) \<and> a = sort_key fst d"
    unfolding e rbind_Inr_iff c sum.inject by force
  with True show ?thesis unfolding d dict_of.simps by blast
next
  case False
  then show ?thesis unfolding validate_approval_assertion_shape_def rbind_Inr_iff require_Inr by (metis old.unit.exhaust)
qed

lemma assertion_shape_get:
  assumes "float_reader (rt_float_repr R) (rt_float_of_text R)" and "wf_json v"
    and "validate_approval_assertion_shape R v = Inr a"
  shows "dget k a = dget k (dict_of v)" "check_assertion R (dict_of v) = Inr ()" "is_dict v"
proof -
  note s = assms(3)[unfolded assertion_shape_Inr[OF assms(1,2)]]
  then show "is_dict v" "check_assertion R (dict_of v) = Inr ()" by simp_all
  have "distinct (map fst (dict_of v))" using s assms(2) by (auto elim!: is_dictE)
  with s show "dget k a = dget k (dict_of v)" by (simp add: dget_sort)
qed

section \<open>Subjects\<close>

lemma check_subject_facts:
  assumes "check_subject R d = Inr ()"
  shows "\<exists>ks. subject_keys d = Inr ks \<and> keys_exactly ks d"
    "\<not> list_ex (\<lambda>k. k \<notin> set SOURCE_APPROVAL_SUBJECT_KEYS \<and> k \<in> set FORBIDDEN_POST_FACT_KEYS) (map fst d)"
    "check_each d ''approval subject '' SUBJECT_TEXT_KEYS exact_string = Inr ()"
    "check_each d ''approval subject '' SUBJECT_HASH_KEYS (lower_sha R) = Inr ()"
    "dget ''contract_version'' d = JStr SOURCE_SUBJECT_VERSION \<Longrightarrow> is_dict (dget ''pre_case_source'' d)
      \<and> check_pre_case_source (dget ''pre_case_source'' d) ''approval subject pre_case_source'' = Inr ()"
    "dget ''purpose_code'' d = JStr AUTHORIZATION_PURPOSE_CODE"
    "dget ''scope_code'' d = JStr AUTHORIZATION_SCOPE_CODE"
    "dget ''approval_policy_version'' d = JStr APPROVAL_POLICY_VERSION"
    "dget ''use_policy'' d = JStr APPROVAL_USE_POLICY"
    "check_roles R (dget ''required_role_claims'' d) = Inr ()" "check_purpose d = Inr ()"
proof -
  note c = assms[unfolded check_subject_def seq_checks_Cons_Inr require_Inr when_check_Inr]
  from c have r: "rbind (subject_keys d) (\<lambda>ks. seq_checks
        [require (\<not> list_ex (\<lambda>k. k \<notin> set SOURCE_APPROVAL_SUBJECT_KEYS
              \<and> k \<in> set FORBIDDEN_POST_FACT_KEYS) (map fst d))
           (ValueError ''approval subject contains forbidden post-fact keys''),
         require (keys_exactly ks d)
           (ValueError ''approval subject must contain the exact versioned key set'')]) = Inr ()" by blast
  then show "\<exists>ks. subject_keys d = Inr ks \<and> keys_exactly ks d"
    "\<not> list_ex (\<lambda>k. k \<notin> set SOURCE_APPROVAL_SUBJECT_KEYS \<and> k \<in> set FORBIDDEN_POST_FACT_KEYS) (map fst d)"
    unfolding rbind_Inr_iff seq_checks_Cons_Inr require_Inr by blast+
  show "check_each d ''approval subject '' SUBJECT_TEXT_KEYS exact_string = Inr ()"
    "check_each d ''approval subject '' SUBJECT_HASH_KEYS (lower_sha R) = Inr ()"
    "dget ''purpose_code'' d = JStr AUTHORIZATION_PURPOSE_CODE"
    "dget ''scope_code'' d = JStr AUTHORIZATION_SCOPE_CODE"
    "dget ''approval_policy_version'' d = JStr APPROVAL_POLICY_VERSION"
    "dget ''use_policy'' d = JStr APPROVAL_USE_POLICY"
    "check_roles R (dget ''required_role_claims'' d) = Inr ()" "check_purpose d = Inr ()"
    using c by blast+
  assume "dget ''contract_version'' d = JStr SOURCE_SUBJECT_VERSION"
  with c show "is_dict (dget ''pre_case_source'' d)
      \<and> check_pre_case_source (dget ''pre_case_source'' d) ''approval subject pre_case_source'' = Inr ()"
    unfolding rbind_Inr_iff require_Inr by blast
qed

lemma check_roles_Inr: "check_roles R v = Inr () \<Longrightarrow> v = JList (map JStr (sort APPROVAL_ROLES))"
  unfolding check_roles_def seq_checks_Cons_Inr require_Inr by blast

text \<open>A value whose members are texts or null is its own canonical form up to the order of keys.\<close>

definition flat :: "json \<Rightarrow> bool" where
  "flat v \<longleftrightarrow> is_str v \<or> v = JNull"

lemma flat_facts: "flat v \<Longrightarrow> printable v" "flat v \<Longrightarrow> canon v = v"
  by (auto simp: flat_def elim: is_strE)

lemma lower_sha_json_flat: "lower_sha_json v \<Longrightarrow> flat v"
  by (simp add: lower_sha_json_def flat_def)

lemma assurance_flat:
  assumes "validate_assurance_payload v = Inr ()" and "k \<in> set ASSURANCE_KEYS"
  shows "flat (dget k (dict_of v))" "is_dict v" "keys_exactly ASSURANCE_KEYS (dict_of v)"
proof -
  note c = assms(1)[unfolded validate_assurance_payload_def seq_checks_Cons_Inr require_Inr]
  from c show "is_dict v" "keys_exactly ASSURANCE_KEYS (dict_of v)" by blast+
  let ?d = "dict_of v"
  have st: "flat (dget ''case_source_assurance_state'' ?d)"
  proof -
    from c have "str_in (dget ''case_source_assurance_state'' ?d) [SOURCE_UNBOUND, SOURCE_BOUND, SOURCE_DERIVED]" by blast
    then show ?thesis by (auto simp: flat_def elim: str_inE)
  qed
  show "flat (dget k ?d)"
  proof (cases "dget ''case_source_assurance_state'' ?d = JStr SOURCE_UNBOUND")
    case True
    with c have "list_all (\<lambda>k. dget k ?d = JNull) (tl ASSURANCE_KEYS)" by simp
    with assms(2) st show ?thesis unfolding list_all_iff by (auto simp: ASSURANCE_KEYS_def flat_def)
  next
    case False
    with c have d: "dget ''case_source_pack_contract_version'' ?d = JStr SOURCE_PACK_VERSION"
      "dget ''case_source_set_contract_version'' ?d = JStr SOURCE_SET_VERSION"
      "lower_sha_json (dget ''case_source_set_hash'' ?d)" "lower_sha_json (dget ''case_source_binding_hash'' ?d)"
      "validate_assurance_lineage ?d = Inr ()"
      by (simp_all add: require_sha_Inr)
    have "flat (dget ''case_source_lineage_contract_version'' ?d) \<and> flat (dget ''case_source_lineage_hash'' ?d)"
      using d(5) unfolding validate_assurance_lineage_def
      by (auto simp: flat_def require_sha_Inr lower_sha_json_def split: if_splits)
    with assms(2) st d(1-4) show ?thesis by (auto simp: ASSURANCE_KEYS_def flat_def lower_sha_json_def)
  qed
qed

lemma dget_member: "distinct (map fst d) \<Longrightarrow> (k, v) \<in> set d \<Longrightarrow> dget k d = v"
  by (simp add: dget_def dget_or_def)

lemma flat_dict:
  assumes "distinct (map fst d)" and "keys_exactly ks d" and "\<forall>k \<in> set ks. flat (dget k d)"
  shows "printable (JDict d)" "canon (JDict d) = JDict (sort_key fst d)"
proof -
  have f: "flat (snd kv)" if "kv \<in> set d" for kv
  proof -
    obtain k v where kv: "kv = (k, v)" by (cases kv)
    with that assms(2) have "k \<in> set ks" by (force simp: keys_exactly_iff)
    with assms(3) dget_member[OF assms(1)] that kv show ?thesis by fastforce
  qed
  then show "printable (JDict d)" using assms(1) flat_facts(1) by (auto simp: printable_items_iff list_all_iff)
  have "map (\<lambda>kv. (fst kv, canon (snd kv))) d = map (\<lambda>kv. kv) d"
    using f flat_facts(2) by (intro map_cong) auto
  then show "canon (JDict d) = JDict (sort_key fst d)" by (simp add: canon_items_map)
qed

lemma subject_keys_cases:
  assumes "subject_keys d = Inr ks"
  shows "(dget ''contract_version'' d = JStr LEGACY_SUBJECT_VERSION \<and> ks = APPROVAL_SUBJECT_KEYS)
    \<or> (dget ''contract_version'' d = JStr SOURCE_SUBJECT_VERSION \<and> ks = SOURCE_APPROVAL_SUBJECT_KEYS)"
  using assms by (auto simp: subject_keys_def split: if_splits)

lemma subject_text:
  assumes "check_subject R d = Inr ()" and "k \<in> set SUBJECT_TEXT_KEYS"
  shows "nonblank_str (dget k d)"
  using check_subject_facts(3)[OF assms(1)] assms(2) by (simp add: check_each_Inr ok_exact_string)

text \<open>The pre-approval source is a flat dictionary.\<close>

lemma pre_case_source_flat:
  assumes "check_pre_case_source v label = Inr ()" and "wf_json v"
  shows "printable v" "canon v = JDict (sort_key fst (dict_of v))" "distinct (map fst (dict_of v))"
    "validate_assurance_payload v = Inr ()"
proof -
  show p: "validate_assurance_payload v = Inr ()"
    using assms(1) unfolding check_pre_case_source_def rbind_Inr_iff by (metis old.unit.exhaust)
  obtain q where q: "v = JDict q" using assurance_flat(2)[OF p, of "hd ASSURANCE_KEYS"]
    by (auto simp: ASSURANCE_KEYS_def elim: is_dictE)
  have k: "keys_exactly ASSURANCE_KEYS q" "\<forall>k \<in> set ASSURANCE_KEYS. flat (dget k q)"
    using assurance_flat(1,3)[OF p] q by (auto simp: ASSURANCE_KEYS_def)
  show d: "distinct (map fst (dict_of v))" using assms(2) q by simp
  show "printable v" "canon v = JDict (sort_key fst (dict_of v))" using flat_dict[OF _ k] d q by simp_all
qed

lemma subject_members:
  assumes c: "check_subject R d = Inr ()" and w: "wf_json (JDict d)" and v: "(k, v) \<in> set d"
  obtains "k \<in> set SUBJECT_TEXT_KEYS" "nonblank_str v"
  | "k = ''required_role_claims''" "v = JList (map JStr (sort APPROVAL_ROLES))"
  | "k = ''pre_case_source''" "check_pre_case_source v ''approval subject pre_case_source'' = Inr ()" "wf_json v"
proof -
  note f = check_subject_facts[OF c]
  from f(1) obtain ks where ks: "subject_keys d = Inr ks" "keys_exactly ks d" by blast
  have g: "dget k d = v" using w by (intro dget_member[OF _ v]) simp
  have k: "k \<in> set ks" using ks(2) v by (force simp: keys_exactly_iff)
  have "wf_json v" using w v by (auto simp: wf_items_iff list_all_iff)
  moreover have "k \<in> set SUBJECT_TEXT_KEYS \<or> k = ''required_role_claims''
    \<or> (k = ''pre_case_source'' \<and> dget ''contract_version'' d = JStr SOURCE_SUBJECT_VERSION)"
    using subject_keys_cases[OF ks(1)] k
    by (auto simp only: APPROVAL_SUBJECT_KEYS_def SOURCE_APPROVAL_SUBJECT_KEYS_def set_append list.set)
  moreover note subject_text[OF c, of k] f(5) check_roles_Inr[OF f(10)] g
  ultimately show thesis using that by blast
qed

lemma subject_printable:
  assumes "check_subject R d = Inr ()" and "wf_json (JDict d)"
  shows "printable (JDict d)"
proof -
  have "printable v" if "(k, v) \<in> set d" for k v
    using subject_members[OF assms that]
    by cases (auto elim: nonblank_strE simp: printable_list_iff list_all_iff dest: pre_case_source_flat(1))
  with assms(2) show ?thesis by (auto simp: printable_items_iff list_all_iff)
qed

lemma approval_subject_Inr:
  assumes R: "float_reader (rt_float_repr R) (rt_float_of_text R)" and v: "wf_json v"
  shows "validate_approval_subject R v = Inr d \<longleftrightarrow>
    is_dict v \<and> check_subject R (dict_of v) = Inr () \<and> utf8_valid (jtext R v) \<and> JDict d = canon v" (is "?l \<longleftrightarrow> ?r")
proof (cases "is_dict v \<and> check_subject R (dict_of v) = Inr ()")
  case True
  then obtain q where q: "v = JDict q" by (auto elim: is_dictE)
  then have p: "printable v" using subject_printable[of R q] True v by simp
  have e: "validate_approval_subject R v = rbind (canonical_copy R v) (\<lambda>w. Inr (dict_of w))"
    unfolding validate_approval_subject_def using True by (simp only: require_cases rbind_simps)
  have "JDict d = canon v \<longleftrightarrow> dict_of (canon v) = d" using q by auto
  then have "?l \<longleftrightarrow> utf8_valid (jtext R v) \<and> JDict d = canon v"
    unfolding e rbind_Inr_iff canonical_copy_Inr[OF R p] sum.inject by blast
  with True show ?thesis by blast
next
  case False
  then show ?thesis unfolding validate_approval_subject_def rbind_Inr_iff require_Inr
    by (metis old.unit.exhaust)
qed

end
