(* ===== verification/Demo_Approval.thy ===== *)
theory Demo_Approval
  imports Approval_Facts Validation_Total Demo_Evidence
begin

text \<open>
  A bundle of two authorization records, one for each role, the context it is prepared into, a
  subject and the two assertions that approve it, over the demonstration runtime.
\<close>

section \<open>Digests in the demonstration runtime\<close>

lemma demo_lower: "is_lower_sha h \<Longrightarrow> map ascii_lower h = h"
proof -
  have "list_all (\<lambda>a. ascii_lower a = a) ''0123456789abcdef''" by code_simp
  then show "is_lower_sha h \<Longrightarrow> ?thesis"
    unfolding is_lower_sha_def is_lower_hex_char_def list_all_iff by (intro map_idI) blast
qed

lemma visible_digest: "is_lower_sha h \<Longrightarrow> visible h"
proof -
  have "list_all (\<lambda>a. 32 < (of_char a :: nat) \<and> (of_char a :: nat) < 128) ''0123456789abcdef''" by code_simp
  then show "is_lower_sha h \<Longrightarrow> ?thesis"
    unfolding is_lower_sha_def visible_def is_lower_hex_char_def list_all_iff by blast
qed

lemma demo_lower_sha: "is_lower_sha h \<Longrightarrow> lower_sha demo_runtime (JStr h) label = Inr h"
  by (rule lower_sha_digest) (simp_all add: demo_runtime_def demo_lower)

lemma demo_trimmed_sha: "is_lower_sha h \<Longrightarrow> trimmed_sha demo_runtime (JStr h) label = Inr h"
proof -
  assume h: "is_lower_sha h"
  then have "h \<noteq> []" by (auto simp: is_lower_sha_def)
  note t = visible_trimmed[OF visible_digest[OF h] this] digest_text(1)[OF h] digest_text(3)[OF h, of demo_runtime]
  show ?thesis using t demo_lower[OF h] by (simp add: trimmed_sha_def demo_runtime_def)
qed

section \<open>Records\<close>

definition demo_signature :: string where
  "demo_signature = concat (replicate 21 ''BwcH'') @ ''Bw==''"

lemma demo_signature_bytes: "demo_signature = base64_encode (replicate 64 7)"
  by code_simp

definition demo_signed :: "string \<Rightarrow> string \<Rightarrow> string \<Rightarrow> string \<Rightarrow> dict" where
  "demo_signed s i approver role =
     [(''approver_id_claim'', JStr approver), (''contract_version'', JStr SIGNED_RECORD_CONTRACT_VERSION),
      (''effective_from'', JStr ''2026-01-01T00:00:00Z''), (''expires_at'', JStr ''2026-12-31T00:00:00Z''),
      (''issued_at'', JStr ''2026-01-15T00:00:00Z''), (''issuer_id'', JStr ''issuer-1''),
      (''purpose_code'', JStr AUTHORIZATION_PURPOSE_CODE), (''record_id'', JStr i), (''role_claim'', JStr role),
      (''scope_code'', JStr AUTHORIZATION_SCOPE_CODE), (''signature'', JStr s),
      (''signature_algorithm'', JStr ''ED25519''), (''trust_domain'', JStr ''QUALITYCI_SYNTHETIC_LOCAL_V1''),
      (''verification_key_id'', JStr ''key-1'')]"

definition demo_record :: "string \<Rightarrow> string \<Rightarrow> string \<Rightarrow> dict" where
  "demo_record = demo_signed demo_signature"

definition demo_owner_raw :: string where
  "demo_owner_raw = jtext demo_runtime (JDict (demo_record ''AR-1'' ''ann'' ''PROCESS_OWNER''))"

definition demo_manager_raw :: string where
  "demo_manager_raw = jtext demo_runtime (JDict (demo_record ''AR-2'' ''bob'' ''QUALITY_MANAGER''))"

lemma record_bytes_Inr:
  assumes "float_reader (rt_float_repr R) (rt_float_of_text R)" and v: "printable v" and "utf8_valid (jtext R v)"
    and "json_depth v \<le> MAX_AUTHORIZATION_JSON_DEPTH" and "canon v = v"
  shows "record_bytes R (jtext R v) label = Inr v"
  using assms float_reader.strict_json_loads_jtext[OF assms(1) refl refl v] printable_finite(1)[OF v]
  by (simp add: record_bytes_def canonical_bytes_Inr[THEN iffD2])

lemma demo_signature_facts:
  "trimmed_string (JStr demo_signature) label = Inr demo_signature"
  "strict_base64 (JStr demo_signature) label 64 = Inr (replicate 64 7)" "ascii demo_signature"
proof -
  have b: "list_all (\<lambda>b. b < 256) (replicate 64 (7 :: nat))" by code_simp
  have v: "visible demo_signature" unfolding demo_signature_bytes by (rule visible_base64[OF b])
  have "length demo_signature = 88" unfolding demo_signature_bytes by (simp add: length_base64_encode)
  then have "demo_signature \<noteq> []" by auto
  with v show "trimmed_string (JStr demo_signature) label = Inr demo_signature" by (rule visible_trimmed)
  show "strict_base64 (JStr demo_signature) label 64 = Inr (replicate 64 7)"
    using b by (subst strict_base64_Inr) (simp_all add: demo_signature_bytes)
  show "ascii demo_signature" using v by (simp add: visible_def ascii_def list_all_iff)
qed

definition demo_pair_ok :: "string \<Rightarrow> string \<Rightarrow> string \<Rightarrow> bool" where
  "demo_pair_ok i approver role \<longleftrightarrow>
     (i, approver, role) = (''AR-1'', ''ann'', ''PROCESS_OWNER'') \<or> (i, approver, role) = (''AR-2'', ''bob'', ''QUALITY_MANAGER'')"

lemma demo_pair_cases:
  assumes "demo_pair_ok i approver role"
    and "P ''AR-1'' ''ann'' ''PROCESS_OWNER''" and "P ''AR-2'' ''bob'' ''QUALITY_MANAGER''"
  shows "P i approver role"
  using assms unfolding demo_pair_ok_def by (simp only: prod.inject) blast

text \<open>What does not look at the signature is evaluated with any signature.\<close>

lemma demo_signed_shape:
  assumes "demo_pair_ok i approver role"
  shows "printable (JDict (demo_signed s i approver role))" "canon (JDict (demo_signed s i approver role)) = JDict (demo_signed s i approver role)"
    "json_depth (JDict (demo_signed s i approver role)) \<le> MAX_AUTHORIZATION_JSON_DEPTH"
    "keys_exactly (record_keys SIGNED_RECORD_CONTRACT_VERSION) (demo_signed s i approver role)"
    "dget ''contract_version'' (demo_signed s i approver role) = JStr SIGNED_RECORD_CONTRACT_VERSION"
    "check_texts (demo_signed s i approver role) ''authorization record '' (filter (\<lambda>k. k \<noteq> ''contract_version'') RECORD_KEYS) = Inr ()"
    "check_texts (demo_signed s i approver role) ''authorization record '' (filter (\<lambda>k. k \<noteq> ''signature'') SIGNATURE_KEYS) = Inr ()"
    "dget ''signature'' (demo_signed s i approver role) = JStr s"
    "dget ''signature_algorithm'' (demo_signed s i approver role) = JStr ''ED25519''"
    "dget ''record_id'' (demo_signed s i approver role) = JStr i"
    "str_in (dget ''role_claim'' (demo_signed s i approver role)) AUTHORIZATION_ROLE_CLAIMS"
    "dget ''purpose_code'' (demo_signed s i approver role) = JStr AUTHORIZATION_PURPOSE_CODE"
    "dget ''scope_code'' (demo_signed s i approver role) = JStr AUTHORIZATION_SCOPE_CODE"
    "check_record_window (demo_signed s i approver role) True = Inr ()"
    "list_all (\<lambda>(k, v). ascii k \<and> (if k = ''signature'' then v = JStr s else ascii_json v)) (demo_signed s i approver role)"
  by (rule demo_pair_cases[OF assms]; code_simp)+

lemma check_texts_found:
  "check_texts d l ks = Inr () \<longleftrightarrow> (\<forall>k \<in> set ks. \<exists>s. trimmed_string (dget k d) (l @ k) = Inr s)"
  by (auto simp: check_texts_def check_all_Inr rbind_Inr_iff all_set_conv_all_nth)

lemma demo_record_checked:
  assumes p: "demo_pair_ok i approver role"
  shows "check_record (demo_record i approver role) i SIGNED_RECORD_CONTRACT_VERSION = Inr ()"
proof -
  note s = demo_signed_shape[OF p, of demo_signature, folded demo_record_def]
  have "\<exists>s. trimmed_string (dget ''signature'' (demo_record i approver role)) l = Inr s" for l
    using demo_signature_facts(1) by (auto simp: s(8))
  moreover have "\<exists>s. trimmed_string (dget k (demo_record i approver role)) (''authorization record '' @ k) = Inr s"
    if "k \<in> set SIGNATURE_KEYS" "k \<noteq> ''signature''" for k
  proof -
    from that have "k \<in> set (filter (\<lambda>k. k \<noteq> ''signature'') SIGNATURE_KEYS)" unfolding set_filter by blast
    then show ?thesis by (rule bspec[OF s(7)[unfolded check_texts_found]])
  qed
  ultimately have "check_texts (demo_record i approver role) ''authorization record '' SIGNATURE_KEYS = Inr ()"
    unfolding check_texts_found by blast
  then have f: "check_signature_fields (demo_record i approver role) = Inr ()"
    by (simp add: check_signature_fields_def seq_checks_Cons_Inr s(8,9) demo_signature_facts(2) res_simps)
  show ?thesis
    unfolding check_record_def seq_checks_Cons_Inr
    using s(5,6,10-14) f by (simp add: when_check_def res_simps)
qed

lemma demo_record_ascii:
  assumes p: "demo_pair_ok i approver role"
  shows "ascii_json (JDict (demo_record i approver role))"
proof -
  note s = demo_signed_shape[OF p, of demo_signature, folded demo_record_def]
  show ?thesis using s(15) demo_signature_facts(3) by (auto simp: list_all_iff split: if_splits)
qed

lemma demo_record_valid:
  assumes p: "demo_pair_ok i approver role"
  shows "validate_record demo_runtime (jtext demo_runtime (JDict (demo_record i approver role))) i SIGNED_RECORD_CONTRACT_VERSION
    = Inr (demo_record i approver role)"
proof -
  note s = demo_signed_shape[OF p, of demo_signature, folded demo_record_def]
  have "record_bytes demo_runtime (jtext demo_runtime (JDict (demo_record i approver role))) l
      = Inr (JDict (demo_record i approver role))" for l
    by (rule record_bytes_Inr[OF demo_reader_runtime s(1) _ s(3) s(2)])
      (rule ascii_utf8_valid, rule ascii_jtext, rule demo_record_ascii[OF p])
  then show ?thesis using s(4) demo_record_checked[OF p] by (simp add: validate_record_def)
qed

lemma demo_records_valid:
  "validate_record demo_runtime demo_owner_raw ''AR-1'' SIGNED_RECORD_CONTRACT_VERSION
     = Inr (demo_record ''AR-1'' ''ann'' ''PROCESS_OWNER'')"
  "validate_record demo_runtime demo_manager_raw ''AR-2'' SIGNED_RECORD_CONTRACT_VERSION
     = Inr (demo_record ''AR-2'' ''bob'' ''QUALITY_MANAGER'')"
  unfolding demo_owner_raw_def demo_manager_raw_def
  by (rule demo_record_valid, simp add: demo_pair_ok_def)+

lemma demo_raw_sizes:
  "length demo_owner_raw = 548" "length demo_manager_raw = 550"
  by code_simp+

section \<open>The bundle\<close>

definition demo_spec :: "string \<Rightarrow> string \<Rightarrow> string \<Rightarrow> int \<Rightarrow> json" where
  "demo_spec i f h n = JDict [(''content_hash'', JStr h), (''format'', JStr ''JSON''), (''record_id'', JStr i),
     (''size_bytes'', JInt n), (''source_path'', JStr f)]"

definition demo_pack :: "string \<Rightarrow> string \<Rightarrow> dict" where
  "demo_pack g h =
     [(''bundle_id'', JStr ''AB-1''), (''contract_version'', JStr SIGNED_RECORD_PACK_VERSION),
      (''members'', JList [demo_spec ''AR-1'' ''owner.json'' g 548,
         demo_spec ''AR-2'' ''manager.json'' h 550])]"

definition demo_owner_hash :: string where "demo_owner_hash = sha256_hex demo_owner_raw"
definition demo_manager_hash :: string where "demo_manager_hash = sha256_hex demo_manager_raw"

lemma demo_hashes: "is_lower_sha demo_owner_hash" "is_lower_sha demo_manager_hash"
  by (simp_all add: demo_owner_hash_def demo_manager_hash_def sha.digest_lower_sha)

definition demo_owner_member :: authorization_member where
  "demo_owner_member = \<lparr>am_record_id = ''AR-1'', am_filename = ''owner.json'', am_content_hash = demo_owner_hash,
     am_size_bytes = 548, am_raw_bytes = demo_owner_raw\<rparr>"

definition demo_manager_member :: authorization_member where
  "demo_manager_member = \<lparr>am_record_id = ''AR-2'', am_filename = ''manager.json'', am_content_hash = demo_manager_hash,
     am_size_bytes = 550, am_raw_bytes = demo_manager_raw\<rparr>"

definition demo_pack_bytes :: string where
  "demo_pack_bytes = jtext demo_runtime (JDict (demo_pack demo_owner_hash demo_manager_hash))"

definition demo_authorization_bundle :: authorization_bundle where
  "demo_authorization_bundle = \<lparr>ab_manifest_bytes = demo_pack_bytes, ab_members = [demo_owner_member, demo_manager_member]\<rparr>"

lemma demo_remake:
  "remake_authorization_member demo_runtime demo_owner_member = Inr demo_owner_member"
  "remake_authorization_member demo_runtime demo_manager_member = Inr demo_manager_member"
proof -
  have t: "trimmed_string (JStr ''AR-1'') label = Inr ''AR-1''" "trimmed_string (JStr ''AR-2'') label = Inr ''AR-2''"
    "canonical_pack_path (JStr ''owner.json'') = Inr ''owner.json''"
    "canonical_pack_path (JStr ''manager.json'') = Inr ''manager.json''" for label by code_simp+
  show "remake_authorization_member demo_runtime demo_owner_member = Inr demo_owner_member"
    using demo_raw_sizes(1) demo_trimmed_sha[OF demo_hashes(1)]
    by (simp add: remake_authorization_member_def make_authorization_member_def demo_owner_member_def t
        exact_positive_int_def MAX_AUTHORIZATION_MEMBER_BYTES_def demo_owner_hash_def)
  show "remake_authorization_member demo_runtime demo_manager_member = Inr demo_manager_member"
    using demo_raw_sizes(2) demo_trimmed_sha[OF demo_hashes(2)]
    by (simp add: remake_authorization_member_def make_authorization_member_def demo_manager_member_def t
        exact_positive_int_def MAX_AUTHORIZATION_MEMBER_BYTES_def demo_manager_hash_def)
qed

lemma demo_pack_canonical:
  "json_depth (JDict (demo_pack g h)) \<le> MAX_AUTHORIZATION_JSON_DEPTH"
  "canon (JDict (demo_pack g h)) = JDict (demo_pack g h)" "printable (JDict (demo_pack g h))"
  "canonical_pack_manifest demo_runtime (demo_pack g h) = demo_pack g h"
  "record_version (demo_pack g h) = SIGNED_RECORD_CONTRACT_VERSION"
  "ascii (set_version (demo_pack g h))" "ascii_json (dget ''bundle_id'' (demo_pack g h))"
  "ascii_json (dget ''contract_version'' (demo_pack g h))"
  by code_simp+

lemma demo_spec_checked:
  assumes "is_lower_sha h" and "(i, f, n) = (''AR-1'', ''owner.json'', 548) \<or> (i, f, n) = (''AR-2'', ''manager.json'', 550)"
  shows "check_spec demo_runtime (dict_of (demo_spec i f h n)) = Inr ()"
proof -
  have d: "dget ''record_id'' (dict_of (demo_spec i f h n)) = JStr i" "dget ''source_path'' (dict_of (demo_spec i f h n)) = JStr f"
    "dget ''content_hash'' (dict_of (demo_spec i f h n)) = JStr h" "dget ''size_bytes'' (dict_of (demo_spec i f h n)) = JInt n"
    "dget ''format'' (dict_of (demo_spec i f h n)) = JStr ''JSON''"
    by (simp_all add: demo_spec_def dget_Cons)
  have t: "trimmed_string (JStr ''AR-1'') label = Inr ''AR-1''" "trimmed_string (JStr ''AR-2'') label = Inr ''AR-2''"
    "canonical_pack_path (JStr ''owner.json'') = Inr ''owner.json''"
    "canonical_pack_path (JStr ''manager.json'') = Inr ''manager.json''" for label by code_simp+
  show ?thesis using assms(2)
    by (auto simp: check_spec_def d demo_trimmed_sha[OF assms(1)] t exact_positive_int_def MAX_AUTHORIZATION_MEMBER_BYTES_def)
qed

lemma demo_pack_valid:
  assumes "is_lower_sha g" and "is_lower_sha h"
  shows "validate_pack_manifest demo_runtime (JDict (demo_pack g h)) = Inr ()"
proof -
  have s: "pack_specs (demo_pack g h) = [dict_of (demo_spec ''AR-1'' ''owner.json'' g 548),
    dict_of (demo_spec ''AR-2'' ''manager.json'' h 550)]"
    by (simp add: pack_specs_def demo_pack_def demo_spec_def dget_Cons)
  have "check_all (\<lambda>_ s. check_spec demo_runtime s) (pack_specs (demo_pack g h)) = Inr ()"
    using demo_spec_checked[OF assms(1)] demo_spec_checked[OF assms(2)] by (simp add: s check_all_def)
  then show ?thesis
    unfolding validate_pack_manifest_def seq_checks_Cons_Inr dict_of.simps
    by (intro conjI; (assumption | code_simp))
qed

lemma demo_pack_ascii:
  assumes "is_lower_sha g" and "is_lower_sha h"
  shows "ascii_json (JDict (demo_pack g h))"
proof -
  have k: "ascii ''content_hash''" "ascii ''format''" "ascii ''JSON''" "ascii ''record_id''" "ascii ''size_bytes''"
    "ascii ''source_path''" "ascii ''AR-1''" "ascii ''AR-2''" "ascii ''owner.json''" "ascii ''manager.json''"
    "ascii ''bundle_id''" "ascii ''AB-1''" "ascii ''contract_version''" "ascii SIGNED_RECORD_PACK_VERSION"
    "ascii ''members''" by code_simp+
  show ?thesis
    unfolding demo_pack_def demo_spec_def using k ascii_sha[OF assms(1)] ascii_sha[OF assms(2)]
    by (simp only: ascii_json.simps list.pred_inject fst_conv snd_conv simp_thms)
qed

lemma demo_pack_read:
  "record_bytes demo_runtime demo_pack_bytes label = Inr (JDict (demo_pack demo_owner_hash demo_manager_hash))"
  unfolding demo_pack_bytes_def
  by (rule record_bytes_Inr[OF demo_reader_runtime demo_pack_canonical(3) _ demo_pack_canonical(1,2)])
    (rule ascii_utf8_valid, rule ascii_jtext, rule demo_pack_ascii, rule demo_hashes, rule demo_hashes)

lemma demo_pack_member:
  "check_pack_member demo_runtime SIGNED_RECORD_CONTRACT_VERSION [demo_owner_member, demo_manager_member]
     (dict_of (demo_spec ''AR-1'' ''owner.json'' demo_owner_hash 548)) = Inr ()"
  "check_pack_member demo_runtime SIGNED_RECORD_CONTRACT_VERSION [demo_owner_member, demo_manager_member]
     (dict_of (demo_spec ''AR-2'' ''manager.json'' demo_manager_hash 550)) = Inr ()"
  by (simp_all add: check_pack_member_def authorization_member_of_def demo_spec_def dget_Cons demo_owner_member_def
      demo_manager_member_def demo_records_valid)

lemma demo_authorization_bundle_valid:
  "validate_authorization_bundle demo_runtime demo_authorization_bundle
     = Inr (demo_pack demo_owner_hash demo_manager_hash)"
proof -
  let ?d = "demo_pack demo_owner_hash demo_manager_hash"
  have s: "pack_specs ?d = [dict_of (demo_spec ''AR-1'' ''owner.json'' demo_owner_hash 548),
    dict_of (demo_spec ''AR-2'' ''manager.json'' demo_manager_hash 550)]"
    by (simp add: pack_specs_def demo_pack_def demo_spec_def dget_Cons)
  note v = demo_pack_canonical(5)
  have b: "canonical_bytes demo_runtime (JDict ?d) = Inr demo_pack_bytes"
    unfolding demo_pack_bytes_def by (rule ascii_bytes[OF demo_pack_ascii[OF demo_hashes]])
  have n: "normalized_unique demo_runtime [''AR-1'', ''AR-2''] label = Inr ()"
    "normalized_unique demo_runtime [''owner.json'', ''manager.json''] label = Inr ()" for label by code_simp+
  have i: "map am_record_id [demo_owner_member, demo_manager_member] = [''AR-1'', ''AR-2'']"
    "map am_filename [demo_owner_member, demo_manager_member] = [''owner.json'', ''manager.json'']"
    "spec_names ''record_id'' (pack_specs ?d) = [''AR-1'', ''AR-2'']"
    by (simp_all add: demo_owner_member_def demo_manager_member_def s spec_names_def demo_spec_def dget_Cons)
  have c: "check_all (\<lambda>_. check_pack_member demo_runtime SIGNED_RECORD_CONTRACT_VERSION
      [demo_owner_member, demo_manager_member]) (pack_specs ?d) = Inr ()"
    unfolding s by (simp add: check_all_def demo_pack_member del: dict_of.simps)
  show ?thesis
    unfolding validate_authorization_bundle_def demo_authorization_bundle_def Let_def
      authorization_bundle.simps demo_pack_read rbind_simps demo_pack_valid[OF demo_hashes] dict_of.simps
      demo_pack_canonical(4) b i n v c
    by simp
qed

definition demo_claims :: "authorization_claim list" where
  "demo_claims = [claim_of demo_owner_member (demo_record ''AR-1'' ''ann'' ''PROCESS_OWNER''),
     claim_of demo_manager_member (demo_record ''AR-2'' ''bob'' ''QUALITY_MANAGER'')]"

lemma demo_authorization_context:
  obtains x where "prepare_authorization_context demo_runtime demo_authorization_bundle = Inr x"
    and "ac_records x = demo_claims"
proof -
  let ?d = "demo_pack demo_owner_hash demo_manager_hash"
  have s: "pack_specs ?d = [dict_of (demo_spec ''AR-1'' ''owner.json'' demo_owner_hash 548),
    dict_of (demo_spec ''AR-2'' ''manager.json'' demo_manager_hash 550)]"
    by (simp add: pack_specs_def demo_pack_def demo_spec_def dget_Cons)
  note v = demo_pack_canonical(5)
  have m: "rmap (member_claim demo_runtime SIGNED_RECORD_CONTRACT_VERSION (pack_specs ?d))
      [demo_owner_member, demo_manager_member] = Inr demo_claims"
    by (simp add: s member_claim_def record_spec_of_def demo_spec_def dget_Cons demo_claims_def demo_records_valid
        demo_owner_member_def demo_manager_member_def)
  have k: "sort_key (claim_key demo_runtime) demo_claims = demo_claims"
  proof -
    have "(normalized_identity demo_runtime ''AR-1'', ''AR-1'') \<le> (normalized_identity demo_runtime ''AR-2'', ''AR-2'')"
      by code_simp
    then have "claim_key demo_runtime (hd demo_claims) \<le> claim_key demo_runtime (demo_claims ! 1)"
      by (simp add: demo_claims_def claim_key_def claim_of_def demo_record_def demo_signed_def dget_Cons)
    then show ?thesis by (simp add: demo_claims_def)
  qed
  have a: "ascii_json (set_subject ?d demo_claims)"
  proof -
    have t: "ascii ''bundle_id''" "ascii ''contract_version''" "ascii ''members''" "ascii ''pack_contract_version''"
      "ascii ''record_contract_version''" "ascii ''content_hash''" "ascii ''record_id''"
      "ascii SIGNED_RECORD_CONTRACT_VERSION" "ascii ''AR-1''" "ascii ''AR-2''" by code_simp+
    have "map (\<lambda>c. JDict [(''content_hash'', JStr (cl_content_hash c)), (''record_id'', JStr (cl_record_id c))]) demo_claims
      = [JDict [(''content_hash'', JStr demo_owner_hash), (''record_id'', JStr ''AR-1'')],
         JDict [(''content_hash'', JStr demo_manager_hash), (''record_id'', JStr ''AR-2'')]]"
      by (simp add: demo_claims_def claim_of_def demo_record_def demo_signed_def dget_Cons demo_owner_member_def demo_manager_member_def)
    then show ?thesis
      unfolding set_subject_def v using t demo_pack_canonical(6-8) ascii_sha[OF demo_hashes(1)] ascii_sha[OF demo_hashes(2)]
      by (simp only: ascii_json.simps list.pred_inject fst_conv snd_conv simp_thms)
  qed
  have b: "ab_members demo_authorization_bundle = [demo_owner_member, demo_manager_member]"
    by (simp add: demo_authorization_bundle_def)
  have "\<exists>x. prepare_authorization_context demo_runtime demo_authorization_bundle = Inr x \<and> ac_records x = demo_claims"
    by (simp add: prepare_authorization_context_def demo_authorization_bundle_valid v b m k ascii_domain_hash[OF a]
        del: rmap.simps)
  with that show thesis by blast
qed

lemma demo_bundle_made:
  "make_authorization_bundle demo_runtime demo_pack_bytes [demo_owner_member, demo_manager_member]
     = Inr demo_authorization_bundle"
proof -
  have "MAX_AUTHORIZATION_MEMBERS \<ge> 2" "MAX_AUTHORIZATION_TOTAL_BYTES \<ge> 1098" by code_simp+
  moreover have "sum_list (map am_size_bytes [demo_owner_member, demo_manager_member]) = 1098"
    by (simp add: demo_owner_member_def demo_manager_member_def)
  ultimately show ?thesis
    using demo_authorization_bundle_valid
    by (simp add: make_authorization_bundle_def demo_remake demo_authorization_bundle_def)
qed

section \<open>The subject and its approval\<close>

definition demo_subject :: "string \<Rightarrow> dict" where
  "demo_subject h =
     [(''approval_policy_version'', JStr APPROVAL_POLICY_VERSION), (''artifact_subject_hash'', JStr (demo_sha CHR ''1'')),
      (''case_id'', JStr ''CASE-1''), (''contract_version'', JStr LEGACY_SUBJECT_VERSION),
      (''controlled_reference_policy_hash'', JStr (demo_sha CHR ''2'')), (''event_id'', JStr ''EV-1''),
      (''event_revision'', JStr ''2''), (''execution_nonce'', JStr ''N-1''),
      (''operations_hash'', JStr (demo_sha CHR ''3'')), (''pre_case_subject_hash'', JStr (demo_sha CHR ''4'')),
      (''purpose_code'', JStr AUTHORIZATION_PURPOSE_CODE), (''purpose_text'', JStr ''fix''), (''purpose_text_hash'', JStr h),
      (''required_role_claims'', JList [JStr ''PROCESS_OWNER'', JStr ''QUALITY_MANAGER'']),
      (''resolution_description_hash'', JStr h), (''resolution_id'', JStr ''RES-1''),
      (''scope_code'', JStr AUTHORIZATION_SCOPE_CODE), (''use_policy'', JStr APPROVAL_USE_POLICY),
      (''validation_approval_policy_hash'', JStr (demo_sha CHR ''5''))]"

definition demo_text_hash :: string where
  "demo_text_hash = sha256_hex (approval_domain ''text/v1'' @ ''fix'')"

lemma demo_text_hash_lower: "is_lower_sha demo_text_hash"
  by (simp add: demo_text_hash_def sha.digest_lower_sha)

lemma demo_subject_get:
  "dget ''purpose_text_hash'' (demo_subject h) = JStr h" "dget ''resolution_description_hash'' (demo_subject h) = JStr h"
  "dget ''purpose_text'' (demo_subject h) = JStr ''fix''"
  by (simp_all add: demo_subject_def dget_Cons)

lemma demo_subject_shape:
  assumes "check_each (demo_subject h) ''approval subject '' SUBJECT_HASH_KEYS (lower_sha demo_runtime) = Inr ()"
    and "check_each (demo_subject h) ''approval subject '' SUBJECT_TEXT_KEYS exact_string = Inr ()"
    and "check_purpose (demo_subject h) = Inr ()"
  shows "check_subject demo_runtime (demo_subject h) = Inr ()"
  unfolding check_subject_def seq_checks_Cons_Inr by (intro conjI; (rule assms | code_simp))

lemma demo_subject_checked:
  "check_subject demo_runtime (demo_subject demo_text_hash) = Inr ()"
proof -
  have d: "is_lower_sha (demo_sha a)" if "is_lower_hex_char a" for a
    using that by (simp add: demo_sha_def is_lower_sha_def list_all_iff)
  have x: "is_lower_hex_char CHR ''1''" "is_lower_hex_char CHR ''2''" "is_lower_hex_char CHR ''3''"
    "is_lower_hex_char CHR ''4''" "is_lower_hex_char CHR ''5''" by code_simp+
  have "check_each (demo_subject demo_text_hash) ''approval subject '' SUBJECT_HASH_KEYS (lower_sha demo_runtime) = Inr ()"
    unfolding check_each_Inr SUBJECT_HASH_KEYS_def
    using demo_text_hash_lower d[OF x(1)] d[OF x(2)] d[OF x(3)] d[OF x(4)] d[OF x(5)]
    by (simp add: demo_subject_def dget_Cons demo_lower_sha)
  moreover have "check_each (demo_subject h) ''approval subject '' SUBJECT_TEXT_KEYS exact_string = Inr ()"
    if "\<not> is_blank h" for h
    using that unfolding check_each_Inr SUBJECT_TEXT_KEYS_def
    by (simp add: demo_subject_def dget_Cons ok_exact_string) code_simp
  moreover have "check_purpose (demo_subject demo_text_hash) = Inr ()"
  proof -
    have "utf8_valid ''fix''" by code_simp
    then show ?thesis by (simp add: check_purpose_def demo_subject_get purpose_hash_def demo_text_hash_def)
  qed
  ultimately show ?thesis using digest_text(2)[OF demo_text_hash_lower] by (intro demo_subject_shape) blast+
qed

lemma demo_subject_canonical:
  "canon (JDict (demo_subject h)) = JDict (demo_subject h)" "wf_json (JDict (demo_subject h))"
  by code_simp+

lemma demo_subject_ascii: "ascii h \<Longrightarrow> ascii_json (JDict (demo_subject h))"
proof -
  have "list_all (\<lambda>kv. ascii (fst kv)) (demo_subject h)" by code_simp
  moreover have "list_all (\<lambda>kv. fst kv \<in> {''purpose_text_hash'', ''resolution_description_hash''} \<or> ascii_json (snd kv))
    (demo_subject h)" by code_simp
  ultimately show "ascii h \<Longrightarrow> ?thesis" unfolding demo_subject_def by simp
qed

lemma demo_subject_valid:
  "validate_approval_subject demo_runtime (JDict (demo_subject demo_text_hash)) = Inr (demo_subject demo_text_hash)"
  unfolding approval_subject_Inr[OF demo_reader_runtime demo_subject_canonical(2)]
  using demo_subject_checked ascii_utf8_valid[OF ascii_jtext[OF demo_subject_ascii[OF ascii_sha[OF demo_text_hash_lower]]]]
  by (simp only: demo_subject_canonical dict_of.simps is_dict.simps simp_thms)

definition demo_subject_hash :: string where
  "demo_subject_hash = sha256_hex (approval_domain ''subject/v1'' @ jtext demo_runtime (JDict (demo_subject demo_text_hash)))"

lemma demo_subject_hashed:
  "approval_subject_hash demo_runtime (JDict (demo_subject demo_text_hash)) = Inr demo_subject_hash"
proof -
  have "dget ''contract_version'' (demo_subject h) = JStr LEGACY_SUBJECT_VERSION" for h by code_simp
  with demo_subject_valid ascii_domain_hash[OF demo_subject_ascii[OF ascii_sha[OF demo_text_hash_lower]]] show ?thesis
    by (simp add: approval_subject_hash_def demo_subject_hash_def del: jtext.simps)
qed

definition demo_assertion :: "string \<Rightarrow> string \<Rightarrow> string \<Rightarrow> string \<Rightarrow> string \<Rightarrow> string \<Rightarrow> dict" where
  "demo_assertion i h role approver rec_id rec_hash =
     [(''approval_id'', JStr i), (''approval_subject_hash'', JStr h), (''approver_id_claim'', JStr approver),
      (''assertion_contract_version'', JStr APPROVAL_ASSERTION_VERSION), (''authorization_record_hash'', JStr rec_hash),
      (''authorization_record_id'', JStr rec_id), (''decision'', JStr ''APPROVED''),
      (''effective_from'', JStr ''2026-01-01T00:00:00Z''), (''expires_at'', JStr ''2026-12-31T00:00:00Z''),
      (''issued_at'', JStr ''2026-03-01T00:00:00Z''), (''role_claim'', JStr role)]"

definition demo_owner_assertion :: "string \<Rightarrow> string \<Rightarrow> dict" where
  "demo_owner_assertion h g = demo_assertion ''A-1'' h ''PROCESS_OWNER'' ''ann'' ''AR-1'' g"

definition demo_manager_assertion :: "string \<Rightarrow> string \<Rightarrow> dict" where
  "demo_manager_assertion h g = demo_assertion ''A-2'' h ''QUALITY_MANAGER'' ''bob'' ''AR-2'' g"

lemma demo_assertion_shape:
  assumes "check_each d ''approval assertion '' APPROVAL_ASSERTION_KEYS exact_string = Inr ()"
    and "is_lower_sha h" and "is_lower_sha g" and "d = demo_owner_assertion h g \<or> d = demo_manager_assertion h g"
  shows "check_assertion demo_runtime d = Inr ()"
proof -
  have c: "dget ''approval_subject_hash'' d = JStr h" "dget ''authorization_record_hash'' d = JStr g"
    using assms(4) by (auto simp: demo_owner_assertion_def demo_manager_assertion_def demo_assertion_def dget_Cons)
  have "rbind (lower_sha demo_runtime (dget ''approval_subject_hash'' d) l) (\<lambda>_. Inr ()) = Inr ()"
    "rbind (lower_sha demo_runtime (dget ''authorization_record_hash'' d) l) (\<lambda>_. Inr ()) = Inr ()" for l
    using assms(2,3) by (simp_all add: c demo_lower_sha)
  moreover have "dget ''assertion_contract_version'' d = JStr APPROVAL_ASSERTION_VERSION"
    "dget ''decision'' d = JStr ''APPROVED''" "str_in (dget ''role_claim'' d) APPROVAL_ROLES"
    "check_assertion_window d = Inr ()"
    using assms(4) by (elim disjE; simp only:; code_simp)+
  ultimately show ?thesis
    unfolding check_assertion_def seq_checks_Cons_Inr require_Inr using assms(1) by simp
qed

lemma demo_assertion_texts:
  assumes "\<not> is_blank h" and "\<not> is_blank g"
  shows "check_each (demo_owner_assertion h g) ''approval assertion '' APPROVAL_ASSERTION_KEYS exact_string = Inr ()"
    "check_each (demo_manager_assertion h g) ''approval assertion '' APPROVAL_ASSERTION_KEYS exact_string = Inr ()"
proof -
  have b: "\<not> is_blank ''A-1''" "\<not> is_blank ''A-2''" "\<not> is_blank ''ann''" "\<not> is_blank ''bob''" "\<not> is_blank ''AR-1''"
    "\<not> is_blank ''AR-2''" "\<not> is_blank ''PROCESS_OWNER''" "\<not> is_blank ''QUALITY_MANAGER''" "\<not> is_blank ''APPROVED''"
    "\<not> is_blank ''2026-01-01T00:00:00Z''" "\<not> is_blank ''2026-12-31T00:00:00Z''" "\<not> is_blank ''2026-03-01T00:00:00Z''"
    "\<not> is_blank APPROVAL_ASSERTION_VERSION" by code_simp+
  show "check_each (demo_owner_assertion h g) ''approval assertion '' APPROVAL_ASSERTION_KEYS exact_string = Inr ()"
    "check_each (demo_manager_assertion h g) ''approval assertion '' APPROVAL_ASSERTION_KEYS exact_string = Inr ()"
    unfolding check_each_Inr ok_exact_string APPROVAL_ASSERTION_KEYS_def demo_owner_assertion_def
      demo_manager_assertion_def demo_assertion_def
    using b assms by (simp_all add: dget_Cons)
qed

lemma demo_assertion_valid:
  assumes "is_lower_sha h" and "is_lower_sha g" and d: "d = demo_owner_assertion h g \<or> d = demo_manager_assertion h g"
  shows "validate_approval_assertion_shape demo_runtime (JDict d) = Inr d" "wf_json (JDict d)" "ascii_json (JDict d)"
proof -
  have s: "sort_key fst d = d" "keys_exactly APPROVAL_ASSERTION_KEYS d"
    using d by (elim disjE; simp only:; code_simp)+
  show w: "wf_json (JDict d)" using d by (elim disjE; simp only:; code_simp)
  have c: "check_assertion demo_runtime d = Inr ()"
    using demo_assertion_texts[OF digest_text(2)[OF assms(1)] digest_text(2)[OF assms(2)]] d
    by (intro demo_assertion_shape[OF _ assms]) blast
  have k: "ascii ''approval_id''" "ascii ''approval_subject_hash''" "ascii ''approver_id_claim''"
    "ascii ''assertion_contract_version''" "ascii ''authorization_record_hash''" "ascii ''authorization_record_id''"
    "ascii ''decision''" "ascii ''effective_from''" "ascii ''expires_at''" "ascii ''issued_at''" "ascii ''role_claim''"
    "ascii ''A-1''" "ascii ''A-2''" "ascii ''ann''" "ascii ''bob''" "ascii ''AR-1''" "ascii ''AR-2''"
    "ascii ''PROCESS_OWNER''" "ascii ''QUALITY_MANAGER''" "ascii ''APPROVED''" "ascii ''2026-01-01T00:00:00Z''"
    "ascii ''2026-12-31T00:00:00Z''" "ascii ''2026-03-01T00:00:00Z''" "ascii APPROVAL_ASSERTION_VERSION" by code_simp+
  show a: "ascii_json (JDict d)"
    using d k ascii_sha[OF assms(1)] ascii_sha[OF assms(2)]
    unfolding demo_owner_assertion_def demo_manager_assertion_def demo_assertion_def
    by (elim disjE) (simp_all only: ascii_json.simps list.pred_inject fst_conv snd_conv simp_thms)
  show "validate_approval_assertion_shape demo_runtime (JDict d) = Inr d"
    unfolding assertion_shape_Inr[OF demo_reader_runtime w]
    using s c ascii_utf8_valid[OF ascii_jtext[OF a]] by (simp only: is_dict.simps dict_of.simps simp_thms)
qed

definition demo_assertions :: json where
  "demo_assertions = JList [JDict (demo_owner_assertion demo_subject_hash demo_owner_hash),
     JDict (demo_manager_assertion demo_subject_hash demo_manager_hash)]"

lemma demo_subject_hash_lower: "is_lower_sha demo_subject_hash"
  by (simp add: demo_subject_hash_def sha.digest_lower_sha)

lemma demo_joins:
  "joins (demo_subject t) (demo_owner_assertion h demo_owner_hash) (demo_claims ! 0)"
  "joins (demo_subject t) (demo_manager_assertion h demo_manager_hash) (demo_claims ! 1)"
  by (simp_all add: joins_def demo_subject_def demo_owner_assertion_def demo_manager_assertion_def demo_assertion_def
      dget_Cons demo_claims_def claim_of_def demo_record_def demo_signed_def demo_owner_member_def demo_manager_member_def)

lemma demo_claim_found:
  "claim_by_identity demo_runtime demo_claims ''AR-1'' = Some (demo_claims ! 0)"
  "claim_by_identity demo_runtime demo_claims ''AR-2'' = Some (demo_claims ! 1)"
  "distinct (map (\<lambda>c. normalized_identity demo_runtime (cl_record_id c)) demo_claims)"
proof -
  have "normalized_identity demo_runtime ''AR-1'' \<noteq> normalized_identity demo_runtime ''AR-2''" by code_simp
  then show "claim_by_identity demo_runtime demo_claims ''AR-1'' = Some (demo_claims ! 0)"
    "claim_by_identity demo_runtime demo_claims ''AR-2'' = Some (demo_claims ! 1)"
    "distinct (map (\<lambda>c. normalized_identity demo_runtime (cl_record_id c)) demo_claims)"
    by (simp_all add: claim_by_identity_def demo_claims_def claim_of_def demo_record_def demo_signed_def dget_Cons)
qed

definition demo_owner_digest :: string where
  "demo_owner_digest = sha256_hex (approval_domain ''assertion/v1''
     @ jtext demo_runtime (JDict (demo_owner_assertion demo_subject_hash demo_owner_hash)))"

definition demo_manager_digest :: string where
  "demo_manager_digest = sha256_hex (approval_domain ''assertion/v1''
     @ jtext demo_runtime (JDict (demo_manager_assertion demo_subject_hash demo_manager_hash)))"

lemma demo_assertion_hashes:
  "approval_assertion_hash demo_runtime (JDict (demo_owner_assertion demo_subject_hash demo_owner_hash))
     = Inr demo_owner_digest"
  "approval_assertion_hash demo_runtime (JDict (demo_manager_assertion demo_subject_hash demo_manager_hash))
     = Inr demo_manager_digest"
proof -
  note p = demo_assertion_valid[OF demo_subject_hash_lower demo_hashes(1) disjI1[OF refl]]
  note q = demo_assertion_valid[OF demo_subject_hash_lower demo_hashes(2) disjI2[OF refl]]
  show "approval_assertion_hash demo_runtime (JDict (demo_owner_assertion demo_subject_hash demo_owner_hash))
     = Inr demo_owner_digest"
    by (simp only: approval_assertion_hash_def p(1) rbind_simps ascii_domain_hash[OF p(3)] demo_owner_digest_def)
  show "approval_assertion_hash demo_runtime (JDict (demo_manager_assertion demo_subject_hash demo_manager_hash))
     = Inr demo_manager_digest"
    by (simp only: approval_assertion_hash_def q(1) rbind_simps ascii_domain_hash[OF q(3)] demo_manager_digest_def)
qed

lemma demo_assertion_gets:
  "dget ''approval_id'' (demo_owner_assertion h g) = JStr ''A-1''"
  "dget ''approval_id'' (demo_manager_assertion h g) = JStr ''A-2''"
  "dget ''approval_subject_hash'' (demo_owner_assertion h g) = JStr h"
  "dget ''approval_subject_hash'' (demo_manager_assertion h g) = JStr h"
  "dget ''role_claim'' (demo_owner_assertion h g) = JStr ''PROCESS_OWNER''"
  "dget ''role_claim'' (demo_manager_assertion h g) = JStr ''QUALITY_MANAGER''"
  "dget ''authorization_record_id'' (demo_owner_assertion h g) = JStr ''AR-1''"
  "dget ''authorization_record_id'' (demo_manager_assertion h g) = JStr ''AR-2''"
  "dget ''required_role_claims'' (demo_subject t) = JList [JStr ''PROCESS_OWNER'', JStr ''QUALITY_MANAGER'']"
  by (simp_all add: demo_owner_assertion_def demo_manager_assertion_def demo_assertion_def demo_subject_def dget_Cons)

end
