(* ===== verification/Approval_Properties.thy ===== *)
theory Approval_Properties
  imports Demo_Approval
begin

text \<open>
  The properties of \<open>authorization_records.py\<close> and \<open>approval_subject.py\<close>: an accepted set of
  assertions holds both roles once each, every one joined to raw bytes that make its claim; a
  validated subject is a fixed point of its validation; its hash identifies it.
\<close>

section \<open>The canonical subject\<close>

lemma check_pre_case_source_canon:
  assumes "check_pre_case_source v label = Inr ()" and "wf_json v"
  shows "check_pre_case_source (canon v) label = Inr ()"
proof -
  note p = pre_case_source_flat[OF assms]
  have g: "dget k (sort_key fst (dict_of v)) = dget k (dict_of v)" for k by (rule dget_sort(1)[OF p(3)])
  have d: "is_dict v" using assurance_flat(2)[OF p(4), of "hd ASSURANCE_KEYS"] by (simp add: ASSURANCE_KEYS_def)
  have "validate_assurance_payload (canon v) = validate_assurance_payload v"
    unfolding p(2) validate_assurance_payload_def validate_assurance_lineage_def dict_of.simps g keys_exactly_sort
    using d by simp
  then show ?thesis using assms(1) unfolding check_pre_case_source_def p(2) dict_of.simps g by simp
qed

lemma canon_texts: "canon (JList (map JStr ss)) = JList (map JStr ss)"
  by (simp add: canon_list_map)

lemma check_subject_canon:
  assumes c: "check_subject R d = Inr ()" and w: "wf_json (JDict d)"
  shows "check_subject R (dict_of (canon (JDict d))) = Inr ()"
proof -
  note f = check_subject_facts[OF c]
  have dist: "distinct (map fst d)" using w by simp
  define e where "e = dict_of (canon (JDict d))"
  have g: "dget k e = canon (dget k d)" for k unfolding e_def by (rule canon_dget[OF dist])
  have t: "dget k e = dget k d" if "k \<in> set SUBJECT_TEXT_KEYS" for k
    using subject_text[OF c that] by (auto simp: g elim: nonblank_strE)
  have n: "''contract_version'' \<in> set SUBJECT_TEXT_KEYS" "''purpose_code'' \<in> set SUBJECT_TEXT_KEYS"
    "''scope_code'' \<in> set SUBJECT_TEXT_KEYS" "''approval_policy_version'' \<in> set SUBJECT_TEXT_KEYS"
    "''use_policy'' \<in> set SUBJECT_TEXT_KEYS" "''purpose_text'' \<in> set SUBJECT_TEXT_KEYS"
    "''purpose_text_hash'' \<in> set SUBJECT_TEXT_KEYS" "''resolution_description_hash'' \<in> set SUBJECT_TEXT_KEYS"
    "set SUBJECT_HASH_KEYS \<subseteq> set SUBJECT_TEXT_KEYS" by code_simp+
  have m: "map fst e = map fst (sort_key fst (canon_items d))" by (simp add: e_def)
  have s: "set (map fst e) = set (map fst d)" unfolding m by (simp add: canon_items_map image_image)
  have roles: "dget ''required_role_claims'' e = dget ''required_role_claims'' d"
    using check_roles_Inr[OF f(10)] by (simp only: g canon_texts)
  have "check_subject R e = Inr ()"
    unfolding check_subject_def seq_checks_Cons_Inr
  proof (intro conjI)
    show "seq_checks [] = Inr ()" by simp
    obtain ks where ks: "subject_keys d = Inr ks" "keys_exactly ks d" using f(1) by blast
    have "keys_exactly ks e" using ks(2) s by (simp add: keys_exactly_iff)
    moreover have "subject_keys e = Inr ks" using ks(1) unfolding subject_keys_def t[OF n(1)] .
    moreover have "\<not> list_ex (\<lambda>k. k \<notin> set SOURCE_APPROVAL_SUBJECT_KEYS \<and> k \<in> set FORBIDDEN_POST_FACT_KEYS) (map fst e)"
      using f(2) s unfolding list_ex_iff by simp
    ultimately show "rbind (subject_keys e) (\<lambda>ks. seq_checks
        [require (\<not> list_ex (\<lambda>k. k \<notin> set SOURCE_APPROVAL_SUBJECT_KEYS
              \<and> k \<in> set FORBIDDEN_POST_FACT_KEYS) (map fst e))
           (ValueError ''approval subject contains forbidden post-fact keys''),
         require (keys_exactly ks e)
           (ValueError ''approval subject must contain the exact versioned key set'')]) = Inr ()"
      unfolding rbind_Inr_iff seq_checks_Cons_Inr require_Inr by (simp only: seq_checks.simps simp_thms sum.inject)
    show "check_each e ''approval subject '' SUBJECT_TEXT_KEYS exact_string = Inr ()"
      using f(3) t unfolding check_each_Inr by simp
    show "check_each e ''approval subject '' SUBJECT_HASH_KEYS (lower_sha R) = Inr ()"
      unfolding check_each_Inr
    proof (rule ballI)
      fix k assume k: "k \<in> set SUBJECT_HASH_KEYS"
      then have "ok (lower_sha R (dget k d) (''approval subject '' @ k))" using f(4) unfolding check_each_Inr by blast
      then show "ok (lower_sha R (dget k e) (''approval subject '' @ k))" using t[OF subsetD[OF n(9) k]] by simp
    qed
    show "when_check (dget ''contract_version'' e = JStr SOURCE_SUBJECT_VERSION)
        (rbind (require (is_dict (dget ''pre_case_source'' e))
           (ValueError ''approval subject pre_case_source must be an exact object'')) (\<lambda>_.
         check_pre_case_source (dget ''pre_case_source'' e) ''approval subject pre_case_source'')) = Inr ()"
    proof (cases "dget ''contract_version'' e = JStr SOURCE_SUBJECT_VERSION")
      case True
      with t[OF n(1)] f(5) have p: "is_dict (dget ''pre_case_source'' d)"
        "check_pre_case_source (dget ''pre_case_source'' d) ''approval subject pre_case_source'' = Inr ()" by simp_all
      have "dget ''pre_case_source'' d \<noteq> JNull" using p(1) by (cases "dget ''pre_case_source'' d") simp_all
      then have "dhas ''pre_case_source'' d" by (rule dget_nonnull_dhas)
      then have "(''pre_case_source'', dget ''pre_case_source'' d) \<in> set d"
        by (auto simp: dhas_iff dget_def dget_or_def dest: map_of_SomeD)
      then have "wf_json (dget ''pre_case_source'' d)" using w by (auto simp: wf_items_iff list_all_iff)
      with p check_pre_case_source_canon pre_case_source_flat(2) show ?thesis by (simp add: g)
    qed simp
  qed (use f(6-11) t n roles in \<open>simp_all add: check_purpose_def\<close>)
  then show ?thesis by (simp only: e_def)
qed

lemma subject_stable:
  assumes R: "float_reader (rt_float_repr R) (rt_float_of_text R)" and w: "wf_json v"
    and d: "validate_approval_subject R v = Inr d"
  shows "validate_approval_subject R (JDict d) = Inr d" "wf_json (JDict d)" "canon (JDict d) = JDict d"
    "check_subject R d = Inr ()"
proof -
  note a = d[unfolded approval_subject_Inr[OF R w]]
  then have j: "JDict d = canon v" and c: "check_subject R (dict_of v) = Inr ()" by simp_all
  show wd: "wf_json (JDict d)" unfolding j by (rule wf_canon(1)[OF w])
  show cd: "canon (JDict d) = JDict d" unfolding j by (rule canon_idem(1))
  have "v = JDict (dict_of v)" using a by (auto elim: is_dictE)
  with check_subject_canon[OF c] w j show cs: "check_subject R d = Inr ()" by (metis dict_of.simps(1))
  have "jtext R (canon v) = jtext R v" by (rule canon_jtext) (rule canon_idem)
  with a have "utf8_valid (jtext R (JDict d))" unfolding j by simp
  then show "validate_approval_subject R (JDict d) = Inr d"
    unfolding approval_subject_Inr[OF R wd] using cs cd by simp
qed

lemma subject_roles:
  assumes "check_subject R d = Inr ()"
  shows "dget ''required_role_claims'' d = JList [JStr ''PROCESS_OWNER'', JStr ''QUALITY_MANAGER'']"
proof -
  have "sort APPROVAL_ROLES = [''PROCESS_OWNER'', ''QUALITY_MANAGER'']" by code_simp
  with check_roles_Inr[OF check_subject_facts(10)[OF assms]] show ?thesis by (simp only: list.map)
qed

section \<open>The loop over the assertions\<close>

definition assertion_ok :: "runtime \<Rightarrow> dict \<Rightarrow> string \<Rightarrow> authorization_claim list \<Rightarrow> dict \<Rightarrow> bool" where
  "assertion_ok R s h claims a \<longleftrightarrow>
     dget ''approval_subject_hash'' a = JStr h \<and> dget ''role_claim'' a \<in> set (list_of (dget ''required_role_claims'' s))
     \<and> (\<exists>c. claim_by_identity R claims (str_of (dget ''authorization_record_id'' a)) = Some c \<and> joins s a c)"

definition assertion_key :: "runtime \<Rightarrow> dict \<Rightarrow> string" where
  "assertion_key R a = normalized_identity R (str_of (dget ''approval_id'' a))"

definition role_of :: "dict \<Rightarrow> string" where
  "role_of a = str_of (dget ''role_claim'' a)"

lemma accept_assertion_Inr:
  "accept_assertion R s h claims seen raw = Inr seen' \<longleftrightarrow>
     (\<exists>a g. validate_approval_assertion_shape R raw = Inr a \<and> assertion_ok R s h claims a
       \<and> assertion_key R a \<notin> set (se_approval_ids seen) \<and> role_of a \<notin> set (se_roles seen)
       \<and> approval_assertion_hash R (JDict a) = Inr g
       \<and> seen' = \<lparr>se_approval_ids = assertion_key R a # se_approval_ids seen,
            se_roles = role_of a # se_roles seen, se_hashes = se_hashes seen @ [g]\<rparr>)"
  by (auto simp: accept_assertion_def assertion_ok_def assertion_key_def role_of_def rbind_Inr_iff Let_def
      split: option.splits if_splits)

lemma accept_assertions_Inr:
  assumes "rfold (accept_assertion R s h claims) seen xs = Inr seen'"
    and "distinct (se_roles seen)" and "distinct (se_approval_ids seen)"
  shows "\<exists>as gs. list_all2 (\<lambda>x a. validate_approval_assertion_shape R x = Inr a) xs as
    \<and> list_all (assertion_ok R s h claims) as
    \<and> list_all2 (\<lambda>a g. approval_assertion_hash R (JDict a) = Inr g) as gs
    \<and> distinct (se_roles seen') \<and> distinct (se_approval_ids seen')
    \<and> se_roles seen' = rev (map role_of as) @ se_roles seen
    \<and> se_approval_ids seen' = rev (map (assertion_key R) as) @ se_approval_ids seen
    \<and> se_hashes seen' = se_hashes seen @ gs"
  using assms
proof (induction xs arbitrary: seen)
  case Nil
  then show ?case by simp
next
  case (Cons x xs)
  from Cons.prems(1) obtain mid where m: "accept_assertion R s h claims seen x = Inr mid"
    "rfold (accept_assertion R s h claims) mid xs = Inr seen'"
    by (cases "accept_assertion R s h claims seen x") simp_all
  from m(1)[unfolded accept_assertion_Inr] obtain a g where a: "validate_approval_assertion_shape R x = Inr a"
    "assertion_ok R s h claims a" "approval_assertion_hash R (JDict a) = Inr g"
    and mid: "se_approval_ids mid = assertion_key R a # se_approval_ids seen" "se_roles mid = role_of a # se_roles seen"
      "se_hashes mid = se_hashes seen @ [g]"
    and d: "distinct (se_roles mid)" "distinct (se_approval_ids mid)"
    using Cons.prems(2,3) by auto
  from Cons.IH[OF m(2) d] obtain as gs where "list_all2 (\<lambda>x a. validate_approval_assertion_shape R x = Inr a) xs as"
    "list_all (assertion_ok R s h claims) as" "list_all2 (\<lambda>a g. approval_assertion_hash R (JDict a) = Inr g) as gs"
    "distinct (se_roles seen')" "distinct (se_approval_ids seen')"
    "se_roles seen' = rev (map role_of as) @ se_roles mid"
    "se_approval_ids seen' = rev (map (assertion_key R) as) @ se_approval_ids mid"
    "se_hashes seen' = se_hashes mid @ gs" by blast
  with a mid show ?case by (intro exI[of _ "a # as"] exI[of _ "g # gs"]) simp
qed

section \<open>Approvals rest on bytes\<close>

text \<open>
  The value \<open>v\<close> approves the subject with hash \<open>h\<close> in the role given, and a member of the bundle
  holds canonical bytes, with the digest the assertion names, that make this claim: the same
  record, approver, role and window, with the time of issue inside the window.
\<close>

definition approved_on_bytes :: "runtime \<Rightarrow> authorization_bundle \<Rightarrow> string \<Rightarrow> string \<Rightarrow> json \<Rightarrow> bool" where
  "approved_on_bytes R b h role v \<longleftrightarrow> (\<exists>c from issued until.
     (\<exists>m \<in> set (ab_members b). am_record_id m = cl_record_id c \<and> records_claim R (am_raw_bytes m) c)
     \<and> dget ''decision'' (dict_of v) = JStr ''APPROVED'' \<and> dget ''approval_subject_hash'' (dict_of v) = JStr h
     \<and> dget ''role_claim'' (dict_of v) = JStr role \<and> cl_role c = role
     \<and> dget ''approver_id_claim'' (dict_of v) = JStr (cl_approver_id c)
     \<and> dget ''authorization_record_id'' (dict_of v) = JStr (cl_record_id c)
     \<and> dget ''authorization_record_hash'' (dict_of v) = JStr (cl_content_hash c)
     \<and> parse_utc (JStr (cl_effective_from c)) = Inr from \<and> parse_utc (JStr (cl_expires_at c)) = Inr until
     \<and> parse_utc (dget ''issued_at'' (dict_of v)) = Inr issued \<and> from \<le> issued \<and> issued \<le> until)"

lemma assertion_on_bytes:
  assumes R: "float_reader (rt_float_repr R) (rt_float_of_text R)" and w: "wf_json v"
    and a: "validate_approval_assertion_shape R v = Inr a" and k: "assertion_ok R s h (ac_records x) a"
    and b: "make_authorization_bundle R manifest ms = Inr b" and x: "prepare_authorization_context R b = Inr x"
  shows "approved_on_bytes R b h (role_of a) v"
proof -
  note g = assertion_shape_get[OF R w a]
  note f = check_assertion_facts[OF g(2)]
  from k obtain c where c: "c \<in> set (ac_records x)" "joins s a c" and h: "dget ''approval_subject_hash'' a = JStr h"
    by (auto simp: assertion_ok_def claim_by_identity_def dest!: map_of_SomeD)
  have "\<forall>m \<in> set (ab_members b). sha256_hex (am_raw_bytes m) = am_content_hash m"
    using make_bundle_members(1)[OF b] by blast
  note m = prepare_authorization_claims[OF x c(1) this]
  from f(4) obtain e i t where w: "parse_utc (dget ''effective_from'' (dict_of v)) = Inr e"
    "parse_utc (dget ''issued_at'' (dict_of v)) = Inr i" "parse_utc (dget ''expires_at'' (dict_of v)) = Inr t"
    "e \<le> i" "i \<le> t" by blast
  note j = c(2)[unfolded joins_def g(1)]
  have "role_of a = cl_role c" using j by (simp add: role_of_def g(1))
  moreover have "parse_utc (JStr (cl_effective_from c)) = Inr e" "parse_utc (JStr (cl_expires_at c)) = Inr t"
    using w(1,3) j by simp_all
  ultimately show ?thesis unfolding approved_on_bytes_def using m j h[unfolded g(1)] f(2) w(2,4,5) by metis
qed

lemma validate_assertionsE:
  assumes R: "float_reader (rt_float_repr R) (rt_float_of_text R)" and w: "wf_json subject"
    and v: "validate_approval_assertions R subject assertions x = Inr v"
  obtains s as gs where "validate_approval_subject R subject = Inr s" "approval_subject_hash R subject = Inr (av_subject_hash v)"
    "list_all2 (\<lambda>y a. validate_approval_assertion_shape R y = Inr a) (list_of assertions) as"
    "list_all (assertion_ok R s (av_subject_hash v) (ac_records x)) as" "distinct (map role_of as)"
    "set (map role_of as) = {''PROCESS_OWNER'', ''QUALITY_MANAGER''}"
    "av_approved_roles v = sort (map role_of as)" "distinct (map (assertion_key R) as)"
    "list_all2 (\<lambda>a g. approval_assertion_hash R (JDict a) = Inr g) as gs" "av_assertion_hashes v = sort gs" "distinct gs"
proof -
  from v obtain s h seen where s: "validate_approval_subject R subject = Inr s"
    and h: "approval_subject_hash R (JDict s) = Inr h"
    and seen: "rfold (accept_assertion R s h (ac_records x)) \<lparr>se_approval_ids = [], se_roles = [], se_hashes = []\<rparr>
      (list_of assertions) = Inr seen"
    and r: "set (map JStr (se_roles seen)) = set (list_of (dget ''required_role_claims'' s))"
    and d: "distinct (se_hashes seen)"
    and v': "av_subject_hash v = h" "av_approved_roles v = sort (se_roles seen)" "av_assertion_hashes v = sort (se_hashes seen)"
    unfolding validate_approval_assertions_def rbind_Inr_iff by (auto split: if_splits)
  note st = subject_stable[OF R w s]
  have "approval_subject_hash R subject = Inr h" using h s st(1) by (simp add: approval_subject_hash_def)
  moreover from accept_assertions_Inr[OF seen] obtain as gs where
    as: "list_all2 (\<lambda>y a. validate_approval_assertion_shape R y = Inr a) (list_of assertions) as"
    "list_all (assertion_ok R s h (ac_records x)) as" "list_all2 (\<lambda>a g. approval_assertion_hash R (JDict a) = Inr g) as gs"
    "distinct (se_roles seen)" "distinct (se_approval_ids seen)" "se_roles seen = rev (map role_of as)"
    "se_approval_ids seen = rev (map (assertion_key R) as)" "se_hashes seen = gs" by auto
  have "JStr ` set (map role_of as) = JStr ` {''PROCESS_OWNER'', ''QUALITY_MANAGER''}"
    using r subject_roles[OF st(4)] as(6) by simp
  then have "set (map role_of as) = {''PROCESS_OWNER'', ''QUALITY_MANAGER''}"
    by (subst (asm) inj_image_eq_iff) (auto simp: inj_def)
  moreover have "sort (se_roles seen) = sort (map role_of as)"
    unfolding as(6) by (rule properties_for_sort) simp_all
  ultimately show thesis using that s as d v' by (metis distinct_rev)
qed

lemma two_roles:
  assumes "distinct (map f as)" and "set (map f as) = {p, q}" and "p \<noteq> q"
  shows "length as = 2" "sort (map f as) = (if p \<le> q then [p, q] else [q, (p :: 'a :: linorder)])"
proof -
  have "card (set (map f as)) = 2" using assms(2,3) by simp
  with assms(1) show "length as = 2" by (metis distinct_card length_map)
  have "sort (map f as) = sorted_list_of_set {p, q}"
    using assms(1,2) by (metis sorted_list_of_set_sort_remdups distinct_remdups_id)
  then show "sort (map f as) = (if p \<le> q then [p, q] else [q, p])" using assms(3) by simp
qed

section \<open>The gate\<close>

text \<open>The assertion read from \<open>v\<close> is the value \<open>a\<close>, holds the role, and has the digest \<open>g\<close>.\<close>

definition assertion_for :: "runtime \<Rightarrow> dict \<Rightarrow> string \<Rightarrow> authorization_claim list \<Rightarrow> string \<Rightarrow> json \<Rightarrow> dict \<Rightarrow> string \<Rightarrow> bool" where
  "assertion_for R s h claims role v a g \<longleftrightarrow> validate_approval_assertion_shape R v = Inr a
     \<and> role_of a = role \<and> dget ''approval_subject_hash'' a = JStr h
     \<and> (\<exists>c. claim_by_identity R claims (str_of (dget ''authorization_record_id'' a)) = Some c \<and> joins s a c)
     \<and> approval_assertion_hash R (JDict a) = Inr g"

definition validation_of :: "authorization_context \<Rightarrow> string \<Rightarrow> string list \<Rightarrow> approval_validation" where
  "validation_of x h gs = \<lparr>av_subject_hash = h, av_assertion_hashes = sort gs,
     av_approved_roles = [''PROCESS_OWNER'', ''QUALITY_MANAGER''], av_record_set_hash = ac_record_set_hash x,
     av_record_set_version = ac_contract_version x, av_single_use_status = GLOBAL_SINGLE_USE_UNVERIFIED,
     av_single_use_verified = False\<rparr>"

lemma role_claim_text:
  assumes "float_reader (rt_float_repr R) (rt_float_of_text R)" and "wf_json v"
    and "validate_approval_assertion_shape R v = Inr a"
  shows "dget ''role_claim'' a = JStr (role_of a)" "role_of a \<in> set APPROVAL_ROLES"
proof -
  note g = assertion_shape_get[OF assms]
  from check_assertion_facts(3)[OF g(2)] obtain r where "dget ''role_claim'' (dict_of v) = JStr r" "r \<in> set APPROVAL_ROLES"
    by (rule str_inE)
  then show "dget ''role_claim'' a = JStr (role_of a)" "role_of a \<in> set APPROVAL_ROLES"
    by (simp_all add: role_of_def g(1))
qed

lemma validate_two_assertions:
  assumes R: "float_reader (rt_float_repr R) (rt_float_of_text R)" and w: "wf_json subject" "wf_json p" "wf_json q"
    and s: "validate_approval_subject R subject = Inr s" and h: "approval_subject_hash R subject = Inr h"
    and d: "distinct (map (\<lambda>c. normalized_identity R (cl_record_id c)) (ac_records x))"
    and p: "assertion_for R s h (ac_records x) role p a g" and q: "assertion_for R s h (ac_records x) role' q b k"
    and r: "{role, role'} = {''PROCESS_OWNER'', ''QUALITY_MANAGER''}"
    and n: "assertion_key R a \<noteq> assertion_key R b" and gk: "g \<noteq> k"
  shows "validate_approval_assertions R subject (JList [p, q]) x = Inr (validation_of x h [g, k])"
proof -
  note st = subject_stable[OF R w(1) s]
  have hs: "approval_subject_hash R (JDict s) = Inr h" using h s st(1) by (simp add: approval_subject_hash_def)
  note rs = subject_roles[OF st(4)]
  have rr: "role \<noteq> role'" using r by (auto simp: doubleton_eq_iff)
  have ok: "assertion_ok R s h (ac_records x) a" "assertion_ok R s h (ac_records x) b"
  proof -
    have "JStr role \<in> {JStr ''PROCESS_OWNER'', JStr ''QUALITY_MANAGER''}" "JStr role' \<in> {JStr ''PROCESS_OWNER'', JStr ''QUALITY_MANAGER''}"
      using r by (auto simp: doubleton_eq_iff)
    then show "assertion_ok R s h (ac_records x) a" "assertion_ok R s h (ac_records x) b"
      using p q role_claim_text(1)[OF R w(2)] role_claim_text(1)[OF R w(3)] rs
      unfolding assertion_ok_def assertion_for_def by auto
  qed
  let ?e = "\<lparr>se_approval_ids = [], se_roles = [], se_hashes = []\<rparr>"
  let ?m = "\<lparr>se_approval_ids = [assertion_key R a], se_roles = [role], se_hashes = [g]\<rparr>"
  let ?f = "\<lparr>se_approval_ids = [assertion_key R b, assertion_key R a], se_roles = [role', role], se_hashes = [g, k]\<rparr>"
  have "accept_assertion R s h (ac_records x) ?e p = Inr ?m"
    unfolding accept_assertion_Inr using p ok(1) by (intro exI[of _ a] exI[of _ g]) (auto simp: assertion_for_def)
  moreover have "accept_assertion R s h (ac_records x) ?m q = Inr ?f"
    unfolding accept_assertion_Inr using q ok(2) n rr
    by (intro exI[of _ b] exI[of _ k]) (auto simp: assertion_for_def)
  ultimately have "rfold (accept_assertion R s h (ac_records x)) ?e [p, q] = Inr ?f" by simp
  moreover have "{JStr role, JStr role'} = {JStr ''PROCESS_OWNER'', JStr ''QUALITY_MANAGER''}"
    using r by (auto simp: doubleton_eq_iff)
  moreover have "sort [role', role] = [''PROCESS_OWNER'', ''QUALITY_MANAGER'']"
  proof -
    have "sort [''PROCESS_OWNER'', ''QUALITY_MANAGER''] = [''PROCESS_OWNER'', ''QUALITY_MANAGER'']"
      "sort [''QUALITY_MANAGER'', ''PROCESS_OWNER''] = [''PROCESS_OWNER'', ''QUALITY_MANAGER'']" by code_simp+
    with r show ?thesis by (auto simp only: doubleton_eq_iff)
  qed
  ultimately show ?thesis
    using s hs d rs gk by (simp add: validate_approval_assertions_def validation_of_def insert_commute del: sort_key_simps)
qed

text \<open>
  The contract of the gate: exactly two assertions, one for each required role in either order,
  both for the hash of this subject, with different identifiers and digests, each joined to the
  record of the context its identifier names.
\<close>

definition approved_by :: "runtime \<Rightarrow> json \<Rightarrow> json \<Rightarrow> authorization_context \<Rightarrow> approval_validation \<Rightarrow> bool" where
  "approved_by R subject assertions x v \<longleftrightarrow> (\<exists>s h p q a b g k role role'.
     validate_approval_subject R subject = Inr s \<and> approval_subject_hash R subject = Inr h
     \<and> distinct (map (\<lambda>c. normalized_identity R (cl_record_id c)) (ac_records x))
     \<and> assertions = JList [p, q] \<and> assertion_for R s h (ac_records x) role p a g
     \<and> assertion_for R s h (ac_records x) role' q b k
     \<and> {role, role'} = {''PROCESS_OWNER'', ''QUALITY_MANAGER''}
     \<and> assertion_key R a \<noteq> assertion_key R b \<and> g \<noteq> k \<and> v = validation_of x h [g, k])"

lemma list_all2_two:
  assumes "list_all2 P xs [a, b]"
  obtains p q where "xs = [p, q]" "P p a" "P q b"
  using assms by (auto simp: list_all2_Cons2)

lemma validate_assertions_sound:
  assumes R: "float_reader (rt_float_repr R) (rt_float_of_text R)" and w: "wf_json subject"
    and v: "validate_approval_assertions R subject assertions x = Inr v"
  shows "approved_by R subject assertions x v"
proof -
  obtain s as gs where s: "validate_approval_subject R subject = Inr s"
    and h: "approval_subject_hash R subject = Inr (av_subject_hash v)"
    and l: "list_all2 (\<lambda>y a. validate_approval_assertion_shape R y = Inr a) (list_of assertions) as"
    and ok: "list_all (assertion_ok R s (av_subject_hash v) (ac_records x)) as" and dr: "distinct (map role_of as)"
    and r: "set (map role_of as) = {''PROCESS_OWNER'', ''QUALITY_MANAGER''}"
    and vr: "av_approved_roles v = sort (map role_of as)" and dk: "distinct (map (assertion_key R) as)"
    and g: "list_all2 (\<lambda>a g. approval_assertion_hash R (JDict a) = Inr g) as gs"
    and vg: "av_assertion_hashes v = sort gs" "distinct gs"
    by (rule validate_assertionsE[OF R w v])
  have ne: "''PROCESS_OWNER'' \<noteq> ''QUALITY_MANAGER''" by simp
  obtain a b where as: "as = [a, b]" using two_roles(1)[OF dr r ne] by (auto simp: length_Suc_conv numeral_2_eq_2)
  from l[unfolded as] obtain p q where pq: "list_of assertions = [p, q]" "validate_approval_assertion_shape R p = Inr a"
    "validate_approval_assertion_shape R q = Inr b" by (rule list_all2_two)
  from g[unfolded as] obtain g1 g2 where gs: "gs = [g1, g2]" "approval_assertion_hash R (JDict a) = Inr g1"
    "approval_assertion_hash R (JDict b) = Inr g2" by (auto simp: list_all2_Cons1)
  have "''PROCESS_OWNER'' \<le> ''QUALITY_MANAGER''" by code_simp
  then have sorted: "sort (map role_of as) = [''PROCESS_OWNER'', ''QUALITY_MANAGER'']"
    using two_roles(2)[OF dr r ne] by simp
  have top: "is_list assertions" "distinct (map (\<lambda>c. normalized_identity R (cl_record_id c)) (ac_records x))"
    "v = \<lparr>av_subject_hash = av_subject_hash v, av_assertion_hashes = av_assertion_hashes v,
      av_approved_roles = av_approved_roles v, av_record_set_hash = ac_record_set_hash x,
      av_record_set_version = ac_contract_version x, av_single_use_status = GLOBAL_SINGLE_USE_UNVERIFIED,
      av_single_use_verified = False\<rparr>"
    using v unfolding validate_approval_assertions_def rbind_Inr_iff by (auto split: if_splits)
  have v': "v = validation_of x (av_subject_hash v) [g1, g2]"
    using top(3) vr vg(1) sorted unfolding validation_of_def gs(1) by metis
  have "assertions = JList [p, q]" using top(1) pq(1) by (cases assertions) auto
  moreover have "assertion_for R s (av_subject_hash v) (ac_records x) (role_of a) p a g1"
    "assertion_for R s (av_subject_hash v) (ac_records x) (role_of b) q b g2"
    using ok pq(2,3) gs(2,3) unfolding as by (auto simp: assertion_for_def assertion_ok_def)
  moreover have "{role_of a, role_of b} = {''PROCESS_OWNER'', ''QUALITY_MANAGER''}" using r by (simp add: as)
  moreover have "assertion_key R a \<noteq> assertion_key R b" "g1 \<noteq> g2" using dk vg(2) by (simp_all add: as gs(1))
  ultimately show ?thesis unfolding approved_by_def using s h top(2) v' by blast
qed

text \<open>
  C24. The approval gate accepts exactly what its contract says: a valid subject and two
  assertions, one by each required role, bound to the hash of this subject, with different
  identifiers and digests, each joined to the captured record it names.  The result lists the
  digests in order and both roles, and never claims global single use.
\<close>

theorem approval_gate_exact:
  assumes "float_reader (rt_float_repr R) (rt_float_of_text R)" and "wf_json subject" and "wf_json assertions"
  shows "validate_approval_assertions R subject assertions x = Inr v \<longleftrightarrow> approved_by R subject assertions x v"
proof
  show "validate_approval_assertions R subject assertions x = Inr v \<Longrightarrow> approved_by R subject assertions x v"
    by (rule validate_assertions_sound[OF assms(1,2)])
  assume "approved_by R subject assertions x v"
  then obtain s h p q a b g k role role' where o: "validate_approval_subject R subject = Inr s"
    "approval_subject_hash R subject = Inr h"
    "distinct (map (\<lambda>c. normalized_identity R (cl_record_id c)) (ac_records x))"
    "assertion_for R s h (ac_records x) role p a g" "assertion_for R s h (ac_records x) role' q b k"
    "{role, role'} = {''PROCESS_OWNER'', ''QUALITY_MANAGER''}" "assertion_key R a \<noteq> assertion_key R b" "g \<noteq> k"
    and e: "assertions = JList [p, q]" "v = validation_of x h [g, k]"
    unfolding approved_by_def by blast
  have "wf_json p" "wf_json q" using assms(3) by (simp_all add: e(1))
  from validate_two_assertions[OF assms(1,2) this o] show "validate_approval_assertions R subject assertions x = Inr v"
    by (simp only: e)
qed

lemma wf_json_list: "wf_json (JList xs) \<longleftrightarrow> list_all wf_json xs"
  by (simp add: wf_list_iff)

lemma demo_assertions_wf: "wf_json demo_assertions"
  using demo_assertion_valid(2)[OF demo_subject_hash_lower demo_hashes(1) disjI1[OF refl]]
    demo_assertion_valid(2)[OF demo_subject_hash_lower demo_hashes(2) disjI2[OF refl]]
  unfolding demo_assertions_def by (simp only: wf_json_list list.pred_inject simp_thms)

lemma demo_assertions_for:
  assumes "ac_records x = demo_claims"
  shows "assertion_for demo_runtime (demo_subject t) demo_subject_hash (ac_records x) ''PROCESS_OWNER''
      (JDict (demo_owner_assertion demo_subject_hash demo_owner_hash))
      (demo_owner_assertion demo_subject_hash demo_owner_hash) demo_owner_digest"
    "assertion_for demo_runtime (demo_subject t) demo_subject_hash (ac_records x) ''QUALITY_MANAGER''
      (JDict (demo_manager_assertion demo_subject_hash demo_manager_hash))
      (demo_manager_assertion demo_subject_hash demo_manager_hash) demo_manager_digest"
  unfolding assertion_for_def assms
  using demo_assertion_valid(1)[OF demo_subject_hash_lower demo_hashes(1) disjI1[OF refl]]
    demo_assertion_valid(1)[OF demo_subject_hash_lower demo_hashes(2) disjI2[OF refl]]
  by (simp_all add: demo_assertion_gets role_of_def demo_claim_found demo_joins[unfolded One_nat_def] demo_assertion_hashes)

lemma demo_approval_keys:
  "assertion_key demo_runtime (demo_owner_assertion h g) \<noteq> assertion_key demo_runtime (demo_manager_assertion h k)"
proof -
  have "normalized_identity demo_runtime ''A-1'' \<noteq> normalized_identity demo_runtime ''A-2''" by code_simp
  then show ?thesis by (simp add: assertion_key_def demo_assertion_gets)
qed

lemma demo_approved:
  assumes "ac_records x = demo_claims" and "demo_owner_digest \<noteq> demo_manager_digest"
  shows "approved_by demo_runtime (JDict (demo_subject demo_text_hash)) demo_assertions x
    (validation_of x demo_subject_hash [demo_owner_digest, demo_manager_digest])"
    "validate_approval_assertions demo_runtime (JDict (demo_subject demo_text_hash)) demo_assertions x
      = Inr (validation_of x demo_subject_hash [demo_owner_digest, demo_manager_digest])"
proof -
  have d: "distinct (map (\<lambda>c. normalized_identity demo_runtime (cl_record_id c)) (ac_records x))"
    using demo_claim_found(3) assms(1) by simp
  show "approved_by demo_runtime (JDict (demo_subject demo_text_hash)) demo_assertions x
    (validation_of x demo_subject_hash [demo_owner_digest, demo_manager_digest])"
    unfolding approved_by_def demo_assertions_def
    using demo_subject_valid demo_subject_hashed demo_assertions_for[OF assms(1)] assms(2) demo_approval_keys d by blast
  have w: "wf_json (JDict (demo_owner_assertion demo_subject_hash demo_owner_hash))"
    "wf_json (JDict (demo_manager_assertion demo_subject_hash demo_manager_hash))"
    using demo_assertions_wf unfolding demo_assertions_def by (simp_all only: wf_json_list list.pred_inject)
  show "validate_approval_assertions demo_runtime (JDict (demo_subject demo_text_hash)) demo_assertions x
      = Inr (validation_of x demo_subject_hash [demo_owner_digest, demo_manager_digest])"
    unfolding demo_assertions_def
    by (rule validate_two_assertions[OF demo_reader_runtime demo_subject_canonical(2) w demo_subject_valid
        demo_subject_hashed d demo_assertions_for[OF assms(1)] refl demo_approval_keys assms(2)])
qed

theorem approval_gate_exact_witness:
  "\<exists>x. prepare_authorization_context demo_runtime demo_authorization_bundle = Inr x
    \<and> (validate_approval_assertions demo_runtime (JDict (demo_subject demo_text_hash)) demo_assertions x
         = Inr (validation_of x demo_subject_hash [demo_owner_digest, demo_manager_digest]))
      = (demo_owner_digest \<noteq> demo_manager_digest)"
proof -
  obtain x where x: "prepare_authorization_context demo_runtime demo_authorization_bundle = Inr x"
    "ac_records x = demo_claims" by (rule demo_authorization_context)
  let ?v = "validation_of x demo_subject_hash [demo_owner_digest, demo_manager_digest]"
  have "approved_by demo_runtime (JDict (demo_subject demo_text_hash)) demo_assertions x ?v
    \<Longrightarrow> demo_owner_digest \<noteq> demo_manager_digest"
    using demo_assertion_hashes demo_assertion_valid(1)[OF demo_subject_hash_lower demo_hashes(1) disjI1[OF refl]]
      demo_assertion_valid(1)[OF demo_subject_hash_lower demo_hashes(2) disjI2[OF refl]]
    unfolding approved_by_def assertion_for_def demo_assertions_def by (metis Inr_inject json.inject(5) list.inject)
  with demo_approved(1)[OF x(2)]
    approval_gate_exact[OF demo_reader_runtime demo_subject_canonical(2) demo_assertions_wf, of demo_text_hash x ?v] x(1)
  show ?thesis by blast
qed

section \<open>What an approval rests on\<close>

text \<open>
  C25. Whatever the gate accepts is approved on bytes: each of the two assertions approves this
  subject in its role, and a captured member of the bundle holds canonical bytes, with the
  digest the assertion names, that make the same claim, issued inside the window of the record.
\<close>

theorem approvals_rest_on_bytes:
  assumes "float_reader (rt_float_repr R) (rt_float_of_text R)" and "wf_json subject" and "wf_json assertions"
    and "make_authorization_bundle R manifest ms = Inr b" and "prepare_authorization_context R b = Inr x"
  shows "case validate_approval_assertions R subject assertions x of
      Inl e \<Rightarrow> True
    | Inr v \<Rightarrow> approval_subject_hash R subject = Inr (av_subject_hash v)
        \<and> (\<exists>p q role role'. assertions = JList [p, q] \<and> {role, role'} = {''PROCESS_OWNER'', ''QUALITY_MANAGER''}
          \<and> approved_on_bytes R b (av_subject_hash v) role p \<and> approved_on_bytes R b (av_subject_hash v) role' q)"
proof (cases "validate_approval_assertions R subject assertions x")
  case (Inr v)
  from validate_assertions_sound[OF assms(1,2) Inr] obtain s h p q a b' g k role role' where
    h: "approval_subject_hash R subject = Inr h" and s: "validate_approval_subject R subject = Inr s"
    and e: "assertions = JList [p, q]" and r: "{role, role'} = {''PROCESS_OWNER'', ''QUALITY_MANAGER''}"
    and p: "assertion_for R s h (ac_records x) role p a g" and q: "assertion_for R s h (ac_records x) role' q b' k"
    and v: "v = validation_of x h [g, k]" unfolding approved_by_def by blast
  have w: "wf_json p" "wf_json q" using assms(3) by (simp_all add: e)
  note rs = subject_roles[OF subject_stable(4)[OF assms(1,2) s]]
  have "approved_on_bytes R b h role y" if "assertion_for R s h (ac_records x) role y a g" "wf_json y" for role y a g
  proof -
    from that have y: "validate_approval_assertion_shape R y = Inr a" "role_of a = role" by (simp_all add: assertion_for_def)
    note t = role_claim_text[OF assms(1) that(2) y(1)]
    have "dget ''role_claim'' a \<in> set (list_of (dget ''required_role_claims'' s))"
      using t unfolding rs APPROVAL_ROLES_def by auto
    with that(1) have "assertion_ok R s h (ac_records x) a" unfolding assertion_for_def assertion_ok_def by blast
    from assertion_on_bytes[OF assms(1) that(2) y(1) this assms(4,5)] y(2) show ?thesis by simp
  qed
  from this[OF p w(1)] this[OF q w(2)] h r e
  show ?thesis unfolding Inr sum.case by (simp only: v validation_of_def approval_validation.simps) blast
qed simp

theorem approvals_rest_on_bytes_witness:
  "demo_owner_digest = demo_manager_digest \<or> (\<exists>x v.
     prepare_authorization_context demo_runtime demo_authorization_bundle = Inr x
     \<and> validate_approval_assertions demo_runtime (JDict (demo_subject demo_text_hash)) demo_assertions x = Inr v
     \<and> (\<exists>p q role role'. demo_assertions = JList [p, q] \<and> {role, role'} = {''PROCESS_OWNER'', ''QUALITY_MANAGER''}
        \<and> approved_on_bytes demo_runtime demo_authorization_bundle (av_subject_hash v) role p
        \<and> approved_on_bytes demo_runtime demo_authorization_bundle (av_subject_hash v) role' q))"
proof (cases "demo_owner_digest = demo_manager_digest")
  case False
  obtain x where x: "prepare_authorization_context demo_runtime demo_authorization_bundle = Inr x"
    "ac_records x = demo_claims" by (rule demo_authorization_context)
  note v = demo_approved(2)[OF x(2) False]
  note t = approvals_rest_on_bytes[OF demo_reader_runtime demo_subject_canonical(2) demo_assertions_wf demo_bundle_made x(1),
      of demo_text_hash, unfolded v sum.case]
  show ?thesis by (rule disjI2, rule exI, rule exI, rule conjI, rule x(1), rule conjI, rule v, rule conjunct2[OF t])
qed simp

section \<open>The subject of an approval\<close>

text \<open>
  C26. Validation is a projection: the value it returns is canonical and validates to itself,
  so a subject and its validated copy have the same hash, which exists and is a SHA-256 digest.
\<close>

theorem subject_validation_stable:
  assumes "float_reader (rt_float_repr R) (rt_float_of_text R)" and "wf_json v"
    and "validate_approval_subject R v = Inr d"
  shows "validate_approval_subject R (JDict d) = Inr d \<and> canon (JDict d) = JDict d
    \<and> (\<exists>h. approval_subject_hash R v = Inr h \<and> approval_subject_hash R (JDict d) = Inr h \<and> is_lower_sha h)"
proof -
  note s = subject_stable[OF assms]
  note e = assms(3)[unfolded approval_subject_Inr[OF assms(1,2)]]
  have "printable (JDict d)" by (rule subject_printable[OF s(4,2)])
  moreover have "utf8_valid (jtext R (JDict d))"
    using s(1) unfolding approval_subject_Inr[OF assms(1) s(2)] by simp
  ultimately have "canonical_bytes R (JDict d) = Inr (jtext R (JDict d))"
    by (simp only: canonical_bytes_Inr printable_finite simp_thms)
  then have "domain_hash R tag (JDict d) = Inr (sha256_hex (tag @ jtext R (JDict d)))" for tag
    by (simp only: domain_hash_def rbind_simps)
  with s(1,3) assms(3) sha.digest_lower_sha show ?thesis
    by (simp only: approval_subject_hash_def rbind_simps) blast
qed

theorem subject_validation_stable_witness:
  "validate_approval_subject demo_runtime (JDict (demo_subject demo_text_hash)) = Inr (demo_subject demo_text_hash)
    \<and> (\<exists>h. approval_subject_hash demo_runtime (JDict (demo_subject demo_text_hash)) = Inr h \<and> is_lower_sha h)"
  using subject_validation_stable[OF demo_reader_runtime demo_subject_canonical(2) demo_subject_valid] by blast









section \<open>A complete set of facts has a subject\<close>















section \<open>Facts of a demonstration\<close>










section \<open>Signatures\<close>

text \<open>
  C29. The encoding of a signature is unique: the reader accepts exactly the canonical base 64
  text of 64 bytes, which has 88 characters, and returns those bytes.
\<close>

theorem signature_encoding_exact:
  "strict_base64 v label 64 = Inr raw
    \<longleftrightarrow> v = JStr (base64_encode raw) \<and> length raw = 64 \<and> list_all (\<lambda>b. b < 256) raw
      \<and> length (base64_encode raw) = 88"
  unfolding strict_base64_Inr[of 64 v label raw, simplified] by (auto simp: length_base64_encode)

end
