(* ===== verification/Authenticity.thy ===== *)
theory Authenticity
  imports Approval_Subject
begin

text \<open>
  \<open>authorization_authenticity.py\<close>: the boundary that decides whether captured authorization
  records are signed by an issuer of the one trusted snapshot.  Ed25519 is a third-party library:
  the verification of a signature by a public key is the argument \<open>verify\<close>.  The module's own
  \<open>AuthorizationAuthenticityError\<close> is a \<open>ValueError\<close> here.
\<close>

type_synonym signature_check = "nat list \<Rightarrow> nat list \<Rightarrow> string \<Rightarrow> bool"

section \<open>Contract constants\<close>

definition AUTHENTICITY_PASS :: string where "AUTHENTICITY_PASS = ''PASS''"
definition AUTHENTICITY_CONTRADICTED :: string where "AUTHENTICITY_CONTRADICTED = ''CONTRADICTED''"
definition AUTHENTICITY_UNVERIFIABLE :: string where "AUTHENTICITY_UNVERIFIABLE = ''UNVERIFIABLE''"

definition LEGACY_UNSIGNED_AUTHORIZATION :: string where
  "LEGACY_UNSIGNED_AUTHORIZATION = ''LEGACY_UNSIGNED_AUTHORIZATION''"

definition TRUST_SNAPSHOT_VERSION :: string where
  "TRUST_SNAPSHOT_VERSION = ''qualityci-authorization-trust-snapshot-0.1''"

definition TRUST_POLICY_VERSION :: string where
  "TRUST_POLICY_VERSION = ''qualityci-authorization-trust-policy-0.1''"

definition AUTHENTICITY_CONTEXT_VERSION :: string where
  "AUTHENTICITY_CONTEXT_VERSION = ''qualityci-authorization-authenticity-context-0.1''"

definition AUTHENTICITY_BINDING_VERSION :: string where
  "AUTHENTICITY_BINDING_VERSION = ''qualityci-authorization-authenticity-binding-0.1''"

definition MAX_TRUST_SNAPSHOT_BYTES :: nat where "MAX_TRUST_SNAPSHOT_BYTES = 262144"
definition MAX_TRUST_JSON_DEPTH :: nat where "MAX_TRUST_JSON_DEPTH = 16"

definition trust_domain :: "string \<Rightarrow> string" where
  "trust_domain s = ''QualityCI/'' @ s @ ''/v1'' @ [CHR 0x00]"

definition ANCHOR_PUBLIC_KEY :: string where
  "ANCHOR_PUBLIC_KEY = ''DiGh7dlGivcJqWZ4xpdviGh3cAenSoAPMFUSGqiGamo=''"

definition FIXED_POLICY :: dict where
  "FIXED_POLICY =
     [(''anchor_id'', JStr ''QUALITYCI_SYNTHETIC_ROOT_2026''), (''anchor_public_key'', JStr ANCHOR_PUBLIC_KEY),
      (''contract_version'', JStr TRUST_POLICY_VERSION), (''minimum_snapshot_sequence'', JInt 1),
      (''required_role_claims'', JList [JStr ''PROCESS_OWNER'', JStr ''QUALITY_MANAGER'']),
      (''signature_algorithm'', JStr ''ED25519''), (''snapshot_id'', JStr ''QCI-SYNTHETIC-TRUST-2026-001''),
      (''trust_domain'', JStr ''QUALITYCI_SYNTHETIC_LOCAL_V1'')]"

definition SNAPSHOT_KEYS :: "string list" where
  "SNAPSHOT_KEYS =
     [''anchor_id'', ''contract_version'', ''issued_at'', ''issuer_keys'', ''signature'', ''signature_algorithm'',
      ''snapshot_id'', ''snapshot_sequence'', ''trust_domain'']"

definition ISSUER_KEY_KEYS :: "string list" where
  "ISSUER_KEY_KEYS =
     [''allowed_purpose_codes'', ''allowed_role_claims'', ''allowed_scope_codes'', ''effective_from'',
      ''expires_at'', ''issuer_id'', ''public_key'', ''revocation_status'', ''revoked_at'', ''verification_key_id'']"

definition SIGNED_RECORD_KEYS :: "string list" where
  "SIGNED_RECORD_KEYS =
     [''approver_id_claim'', ''contract_version'', ''effective_from'', ''expires_at'', ''issued_at'', ''issuer_id'',
      ''purpose_code'', ''record_id'', ''role_claim'', ''scope_code'', ''signature'', ''signature_algorithm'',
      ''trust_domain'', ''verification_key_id'']"

section \<open>Small checks\<close>

definition trust_sha :: "runtime \<Rightarrow> json \<Rightarrow> string \<Rightarrow> string res" where
  "trust_sha R v label =
     (if \<not> is_str v \<or> py_len (str_of v) \<noteq> 64 \<or> str_of v \<noteq> rt_lower R (str_of v) \<or> \<not> base16_accepts R (str_of v)
      then Inl (ValueError (label @ '' must be a lowercase SHA-256'')) else Inr (str_of v))"

definition trust_string :: "json \<Rightarrow> string \<Rightarrow> string res" where
  "trust_string v label =
     (if \<not> is_str v \<or> str_of v = [] \<or> str_of v \<noteq> py_strip (str_of v)
      then Inl (ValueError (label @ '' must be an exact non-empty trimmed string''))
      else if \<not> no_control (str_of v) then Inl (ValueError (label @ '' contains control characters''))
      else Inr (str_of v))"

definition trust_base64 :: "json \<Rightarrow> string \<Rightarrow> nat \<Rightarrow> nat list res" where
  "trust_base64 v label expected_size =
     rbind (trust_string v label) (\<lambda>s.
     case base64_decode s of
       None \<Rightarrow> Inl (ValueError (label @ '' is not canonical base64''))
     | Some raw \<Rightarrow>
         (if length raw \<noteq> expected_size \<or> base64_encode raw \<noteq> s
          then Inl (ValueError (label @ '' has invalid encoded size'')) else Inr raw))"

definition exact_sorted_strings :: "runtime \<Rightarrow> json \<Rightarrow> string \<Rightarrow> string list \<Rightarrow> string list res" where
  "exact_sorted_strings R v label allowed =
     rbind (require (is_list v \<and> list_of v \<noteq> [] \<and> list_all is_str (list_of v))
       (ValueError (label @ '' must be a non-empty exact array''))) (\<lambda>_.
     rbind (rmap (\<lambda>x. trust_string x label) (list_of v)) (\<lambda>result.
     if result \<noteq> sort_key (role_key R) result \<or> \<not> distinct (map (normalized_identity R) result)
     then Inl (ValueError (label @ '' must be unique and canonical''))
     else if \<not> list_all (\<lambda>s. s \<in> set allowed) result
     then Inl (ValueError (label @ '' contains unsupported capability''))
     else Inr result))"

section \<open>The trust snapshot\<close>

definition check_trust_texts :: "dict \<Rightarrow> string \<Rightarrow> string list \<Rightarrow> unit res" where
  "check_trust_texts d label ks = check_all (\<lambda>_ k. rbind (trust_string (dget k d) (label @ k)) (\<lambda>_. Inr ())) ks"

definition check_revocation :: "pydatetime \<Rightarrow> dict \<Rightarrow> unit res" where
  "check_revocation snapshot_issued key =
     (if dget ''revocation_status'' key = JStr ''REVOKED'' then
        rbind (parse_rfc3339_utc (dget ''revoked_at'' key) ''authorization issuer key revoked_at'') (\<lambda>revoked.
        require (\<not> snapshot_issued < revoked) (ValueError ''authorization issuer revocation occurs after snapshot''))
      else require (dget ''revoked_at'' key = JNull)
        (ValueError ''non-revoked authorization issuer key must have null revoked_at''))"

definition check_key_window :: "dict \<Rightarrow> unit res" where
  "check_key_window key =
     rbind (parse_rfc3339_utc (dget ''effective_from'' key) ''authorization issuer key effective_from'') (\<lambda>effective.
     rbind (parse_rfc3339_utc (dget ''expires_at'' key) ''authorization issuer key expires_at'') (\<lambda>expires.
     require (\<not> expires < effective) (ValueError ''authorization issuer key static UTC window is reversed'')))"

definition check_issuer_key :: "runtime \<Rightarrow> pydatetime \<Rightarrow> dict \<Rightarrow> unit res" where
  "check_issuer_key R snapshot_issued key = seq_checks
     [check_trust_texts key ''authorization issuer key ''
        [''issuer_id'', ''verification_key_id'', ''public_key'', ''effective_from'', ''expires_at'', ''revocation_status''],
      rbind (trust_base64 (dget ''public_key'' key) ''authorization issuer public_key'' 32) (\<lambda>_. Inr ()),
      rbind (exact_sorted_strings R (dget ''allowed_role_claims'' key) ''authorization issuer allowed_role_claims''
        [''PROCESS_OWNER'', ''QUALITY_MANAGER'']) (\<lambda>_. Inr ()),
      rbind (exact_sorted_strings R (dget ''allowed_purpose_codes'' key) ''authorization issuer allowed_purpose_codes''
        [''APPLY_APPROVED_RESOLUTION'']) (\<lambda>_. Inr ()),
      rbind (exact_sorted_strings R (dget ''allowed_scope_codes'' key) ''authorization issuer allowed_scope_codes''
        [''EXACT_SUBJECT'']) (\<lambda>_. Inr ()),
      check_key_window key,
      require (str_in (dget ''revocation_status'' key) [''ACTIVE'', ''REVOKED'', ''UNKNOWN''])
        (ValueError ''authorization issuer key revocation_status is unsupported''),
      check_revocation snapshot_issued key]"

definition issuer_keys_of :: "dict \<Rightarrow> dict list" where
  "issuer_keys_of snapshot = map dict_of (list_of (dget ''issuer_keys'' snapshot))"

definition check_snapshot :: "runtime \<Rightarrow> dict \<Rightarrow> unit res" where
  "check_snapshot R d =
     rbind (require (dget ''contract_version'' d = JStr TRUST_SNAPSHOT_VERSION)
       (ValueError ''unsupported authorization trust snapshot contract_version'')) (\<lambda>_.
     rbind (check_trust_texts d ''authorization trust snapshot ''
       [''snapshot_id'', ''issued_at'', ''trust_domain'', ''anchor_id'', ''signature_algorithm'', ''signature'']) (\<lambda>_.
     rbind (require (is_int (dget ''snapshot_sequence'' d) \<and> 0 < int_of (dget ''snapshot_sequence'' d))
       (ValueError ''authorization trust snapshot_sequence must be an exact positive integer'')) (\<lambda>_.
     rbind (parse_rfc3339_utc (dget ''issued_at'' d) ''authorization trust snapshot issued_at'') (\<lambda>issued.
     rbind (require (dget ''signature_algorithm'' d = JStr ''ED25519'')
       (ValueError ''authorization trust snapshot signature_algorithm is unsupported'')) (\<lambda>_.
     rbind (trust_base64 (dget ''signature'' d) ''authorization trust snapshot signature'' 64) (\<lambda>_.
     rbind (require (is_list (dget ''issuer_keys'' d) \<and> length (list_of (dget ''issuer_keys'' d)) = 2
         \<and> list_all (\<lambda>v. is_dict v \<and> keys_exactly ISSUER_KEY_KEYS (dict_of v)) (list_of (dget ''issuer_keys'' d)))
       (ValueError ''authorization trust snapshot issuer_keys has unsupported shape'')) (\<lambda>_.
     check_all (\<lambda>_. check_issuer_key R issued) (issuer_keys_of d))))))))"

text \<open>\<open>except (UnicodeError, ValueError)\<close> around the strict reader.\<close>

definition read_trusted :: "runtime \<Rightarrow> string \<Rightarrow> string \<Rightarrow> json res" where
  "read_trusted R raw message =
     (if \<not> utf8_valid raw then Inl (ValueError message)
      else (case strict_json_loads R raw of
              Inl (ValueError m) \<Rightarrow> Inl (ValueError message)
            | r \<Rightarrow> r))"

definition snapshot_value :: "runtime \<Rightarrow> string \<Rightarrow> dict res" where
  "snapshot_value R raw =
     rbind (require (raw \<noteq> [] \<and> length raw \<le> MAX_TRUST_SNAPSHOT_BYTES)
       (ValueError ''authorization trust snapshot requires bounded exact immutable bytes'')) (\<lambda>_.
     rbind (read_trusted R raw ''authorization trust snapshot is not strict UTF-8 JSON'') (\<lambda>v.
     rbind (require (is_dict v \<and> keys_exactly SNAPSHOT_KEYS (dict_of v))
       (ValueError ''authorization trust snapshot has unsupported root shape'')) (\<lambda>_.
     rbind (require (json_depth v \<le> MAX_TRUST_JSON_DEPTH)
       (ValueError ''authorization trust snapshot exceeds JSON depth limit'')) (\<lambda>_.
     rbind (canonical_bytes R v) (\<lambda>t.
     rbind (require (raw = t) (ValueError ''authorization trust snapshot must be canonical JSON'')) (\<lambda>_.
     rbind (check_snapshot R (dict_of v)) (\<lambda>_. Inr (dict_of v))))))))"

section \<open>Signed records\<close>

definition check_signed_record :: "dict \<Rightarrow> unit res" where
  "check_signed_record d = seq_checks
     [check_trust_texts d ''signed authorization record '' SIGNED_RECORD_KEYS,
      require (dget ''contract_version'' d = JStr SIGNED_RECORD_CONTRACT_VERSION)
        (ValueError ''unsupported signed authorization record contract_version''),
      require (dget ''signature_algorithm'' d = JStr ''ED25519'')
        (ValueError ''signed authorization record signature_algorithm is unsupported''),
      rbind (trust_base64 (dget ''signature'' d) ''signed authorization record signature'' 64) (\<lambda>_. Inr ())]"

definition signed_record_value :: "runtime \<Rightarrow> string \<Rightarrow> dict res" where
  "signed_record_value R raw =
     rbind (read_trusted R raw ''signed authorization record is not strict UTF-8 JSON'') (\<lambda>v.
     rbind (require (is_dict v \<and> keys_exactly SIGNED_RECORD_KEYS (dict_of v))
       (ValueError ''signed authorization record has unsupported root shape'')) (\<lambda>_.
     rbind (canonical_bytes R v) (\<lambda>t.
     rbind (require (raw = t) (ValueError ''signed authorization record must be canonical JSON'')) (\<lambda>_.
     rbind (check_signed_record (dict_of v)) (\<lambda>_. Inr (dict_of v))))))"

definition verify_ed25519 :: "signature_check \<Rightarrow> json \<Rightarrow> json \<Rightarrow> string \<Rightarrow> bool res" where
  "verify_ed25519 verify public_key signature message =
     rbind (trust_base64 public_key ''authorization public_key'' 32) (\<lambda>k.
     rbind (trust_base64 signature ''authorization signature'' 64) (\<lambda>s.
     Inr (verify k s message)))"

definition without_signature :: "dict \<Rightarrow> dict" where
  "without_signature d = filter (\<lambda>kv. fst kv \<noteq> ''signature'') d"

section \<open>The context\<close>

record authenticity_context =
  au_contract_version :: string
  au_state :: string
  au_reason_code :: string
  au_record_context :: authorization_context
  au_record_set_hash :: string
  au_record_set_version :: string
  au_trust_snapshot_hash :: string
  au_trust_snapshot_version :: string
  au_trust_policy_hash :: string
  au_trust_policy_version :: string
  au_context_hash :: string
  au_authenticated :: "authorization_claim list"
  au_issued_at :: "(string \<times> string) list"

definition authenticity_subject :: "authorization_context \<Rightarrow> string \<Rightarrow> string \<Rightarrow> string \<Rightarrow> string \<Rightarrow> json" where
  "authenticity_subject x state reason policy_hash snapshot_hash = JDict
     [(''authorization_record_set_contract_version'', JStr (ac_contract_version x)),
      (''authorization_record_set_hash'', JStr (ac_record_set_hash x)),
      (''contract_version'', JStr AUTHENTICITY_CONTEXT_VERSION), (''reason_code'', JStr reason),
      (''state'', JStr state), (''trust_policy_hash'', JStr policy_hash),
      (''trust_policy_version'', JStr TRUST_POLICY_VERSION),
      (''trust_snapshot_contract_version'', JStr TRUST_SNAPSHOT_VERSION),
      (''trust_snapshot_hash'', JStr snapshot_hash)]"

definition make_authenticity_context :: "runtime \<Rightarrow> string \<Rightarrow> string \<Rightarrow> authorization_context \<Rightarrow> string
    \<Rightarrow> authorization_claim list \<Rightarrow> (string \<times> string) list \<Rightarrow> authenticity_context res" where
  "make_authenticity_context R state reason x snapshot_hash authenticated issued =
     (if state \<notin> set [AUTHENTICITY_PASS, AUTHENTICITY_CONTRADICTED, AUTHENTICITY_UNVERIFIABLE]
      then Inl (ValueError ''unsupported authorization authenticity state'')
      else rbind (trust_sha R (JStr snapshot_hash) ''trust_snapshot_hash'') (\<lambda>_.
           rbind (domain_hash R (trust_domain ''authorization-trust-policy'') (JDict FIXED_POLICY)) (\<lambda>policy_hash.
           rbind (domain_hash R (trust_domain ''authorization-authenticity-context'')
             (authenticity_subject x state reason policy_hash snapshot_hash)) (\<lambda>context_hash.
           Inr \<lparr>au_contract_version = AUTHENTICITY_CONTEXT_VERSION, au_state = state, au_reason_code = reason,
                au_record_context = x, au_record_set_hash = ac_record_set_hash x,
                au_record_set_version = ac_contract_version x, au_trust_snapshot_hash = snapshot_hash,
                au_trust_snapshot_version = TRUST_SNAPSHOT_VERSION, au_trust_policy_hash = policy_hash,
                au_trust_policy_version = TRUST_POLICY_VERSION, au_context_hash = context_hash,
                au_authenticated = authenticated, au_issued_at = issued\<rparr>))))"

section \<open>The verdict\<close>

text \<open>What one record, or the whole set, amounts to; the text is the reason code or the time of issue.\<close>

datatype record_verdict = RContradicted string | RPending string | RSigned string

datatype verdict = VContradicted string | VUnverifiable string | VAuthentic "(string \<times> string) list"

definition key_identity :: "dict \<Rightarrow> json \<times> json" where
  "key_identity key = (dget ''issuer_id'' key, dget ''verification_key_id'' key)"

definition lists_claim :: "string \<Rightarrow> string \<Rightarrow> dict \<Rightarrow> dict \<Rightarrow> bool" where
  "lists_claim claim allowed value key \<longleftrightarrow> dget claim value \<in> set (list_of (dget allowed key))"

definition nested_windows :: "dict \<Rightarrow> dict \<Rightarrow> bool res" where
  "nested_windows key value =
     rbind (parse_rfc3339_utc (dget ''effective_from'' key) ''issuer effective_from'') (\<lambda>key_from.
     rbind (parse_rfc3339_utc (dget ''expires_at'' key) ''issuer expires_at'') (\<lambda>key_until.
     rbind (parse_rfc3339_utc (dget ''effective_from'' value) ''record effective_from'') (\<lambda>record_from.
     rbind (parse_rfc3339_utc (dget ''issued_at'' value) ''record issued_at'') (\<lambda>record_issued.
     rbind (parse_rfc3339_utc (dget ''expires_at'' value) ''record expires_at'') (\<lambda>record_until.
     Inr (key_from \<le> record_from \<and> record_from \<le> record_issued \<and> record_issued \<le> record_until
       \<and> record_until \<le> key_until))))))"

definition signed_message :: "runtime \<Rightarrow> string \<Rightarrow> dict \<Rightarrow> string res" where
  "signed_message R tag d =
     rbind (canonical_bytes R (JDict (without_signature d))) (\<lambda>t. Inr (trust_domain tag @ t))"

definition judge_record :: "runtime \<Rightarrow> signature_check \<Rightarrow> dict \<Rightarrow> string \<times> dict \<Rightarrow> record_verdict res" where
  "judge_record R verify snapshot iv =
     (let (record_id, value) = iv in
      if dget ''record_id'' value \<noteq> JStr record_id \<or> dget ''trust_domain'' value \<noteq> dget ''trust_domain'' snapshot
      then Inr (RContradicted ''AUTHORIZATION_RECORD_TRUST_JOIN_MISMATCH'')
      else case map_of (map (\<lambda>k. (key_identity k, k)) (issuer_keys_of snapshot)) (key_identity value) of
        None \<Rightarrow> Inr (RPending ''AUTHORIZATION_ISSUER_KEY_NOT_FOUND'')
      | Some key \<Rightarrow>
          if dget ''revocation_status'' key = JStr ''REVOKED''
          then Inr (RContradicted ''AUTHORIZATION_ISSUER_KEY_REVOKED'')
          else if dget ''revocation_status'' key = JStr ''UNKNOWN''
          then Inr (RPending ''AUTHORIZATION_ISSUER_KEY_STATUS_UNKNOWN'')
          else if \<not> lists_claim ''role_claim'' ''allowed_role_claims'' value key
             \<or> \<not> lists_claim ''purpose_code'' ''allowed_purpose_codes'' value key
             \<or> \<not> lists_claim ''scope_code'' ''allowed_scope_codes'' value key
          then Inr (RContradicted ''AUTHORIZATION_ISSUER_CAPABILITY_MISMATCH'')
          else rbind (nested_windows key value) (\<lambda>inside.
            if \<not> inside then Inr (RContradicted ''AUTHORIZATION_STATIC_WINDOW_MISMATCH'')
            else rbind (signed_message R ''signed-authorization-record'' value) (\<lambda>message.
              rbind (verify_ed25519 verify (dget ''public_key'' key) (dget ''signature'' value) message) (\<lambda>valid.
              if valid then Inr (RSigned (str_of (dget ''issued_at'' value)))
              else Inr (RContradicted ''AUTHORIZATION_RECORD_SIGNATURE_INVALID'')))))"

text \<open>The loop over the records: a contradiction returns at once, a pending record waits for the end.\<close>

fun judge_records :: "runtime \<Rightarrow> signature_check \<Rightarrow> dict \<Rightarrow> (string \<times> dict) list \<Rightarrow> string option
    \<Rightarrow> (string \<times> string) list \<Rightarrow> verdict res" where
  "judge_records R verify snapshot [] pending issued =
     Inr (case pending of Some reason \<Rightarrow> VUnverifiable reason | None \<Rightarrow> VAuthentic (sort issued))"
| "judge_records R verify snapshot (iv # ivs) pending issued =
     rbind (judge_record R verify snapshot iv) (\<lambda>r.
     case r of
       RContradicted reason \<Rightarrow> Inr (VContradicted reason)
     | RPending reason \<Rightarrow> judge_records R verify snapshot ivs (Some reason) issued
     | RSigned time \<Rightarrow> judge_records R verify snapshot ivs pending (issued @ [(fst iv, time)]))"

definition follows_policy :: "dict \<Rightarrow> bool" where
  "follows_policy snapshot \<longleftrightarrow>
     list_all (\<lambda>k. dget k snapshot = dget k FIXED_POLICY)
       [''anchor_id'', ''signature_algorithm'', ''snapshot_id'', ''trust_domain'']"

definition distinct_issuers :: "runtime \<Rightarrow> dict \<Rightarrow> bool" where
  "distinct_issuers R snapshot \<longleftrightarrow>
     distinct (map key_identity (issuer_keys_of snapshot))
     \<and> distinct (map (\<lambda>k. (normalized_identity R (str_of (dget ''issuer_id'' k)),
         normalized_identity R (str_of (dget ''verification_key_id'' k)))) (issuer_keys_of snapshot))"

definition member_value :: "runtime \<Rightarrow> authorization_member \<Rightarrow> (string \<times> dict) res" where
  "member_value R m = rbind (signed_record_value R (am_raw_bytes m)) (\<lambda>v. Inr (am_record_id m, v))"

definition judge_set :: "runtime \<Rightarrow> signature_check \<Rightarrow> dict \<Rightarrow> authorization_member list \<Rightarrow> verdict res" where
  "judge_set R verify snapshot ms =
     (if \<not> follows_policy snapshot then Inr (VContradicted ''TRUST_SNAPSHOT_POLICY_MISMATCH'')
      else if int_of (dget ''snapshot_sequence'' snapshot) < int_of (dget ''minimum_snapshot_sequence'' FIXED_POLICY)
      then Inr (VContradicted ''TRUST_SNAPSHOT_SEQUENCE_MISMATCH'')
      else if \<not> distinct_issuers R snapshot then Inr (VContradicted ''TRUST_SNAPSHOT_ISSUER_IDENTITY_CONFLICT'')
      else rbind (signed_message R ''authorization-trust-snapshot'' snapshot) (\<lambda>message.
        rbind (verify_ed25519 verify (dget ''anchor_public_key'' FIXED_POLICY) (dget ''signature'' snapshot) message) (\<lambda>valid.
        if \<not> valid then Inr (VContradicted ''TRUST_SNAPSHOT_SIGNATURE_INVALID'')
        else rbind (rmap (member_value R) ms) (\<lambda>values.
          if JList (map JStr (sort_key (role_key R) (map (\<lambda>iv. str_of (dget ''role_claim'' (snd iv))) values)))
             \<noteq> dget ''required_role_claims'' FIXED_POLICY
          then Inr (VContradicted ''AUTHORIZATION_ROLE_SET_MISMATCH'')
          else judge_records R verify snapshot values None []))))"

definition prepare_authenticity_context :: "runtime \<Rightarrow> signature_check \<Rightarrow> authorization_bundle \<Rightarrow> string
    \<Rightarrow> authenticity_context res" where
  "prepare_authenticity_context R verify b snapshot_bytes =
     rbind (prepare_authorization_context R b) (\<lambda>x.
     rbind (snapshot_value R snapshot_bytes) (\<lambda>snapshot.
     let snapshot_hash = sha256_hex (trust_domain ''authorization-trust-snapshot-hash'' @ snapshot_bytes) in
     if ac_contract_version x = AUTHORIZATION_RECORD_SET_VERSION
     then make_authenticity_context R AUTHENTICITY_UNVERIFIABLE LEGACY_UNSIGNED_AUTHORIZATION x snapshot_hash [] []
     else if ac_contract_version x \<noteq> SIGNED_RECORD_SET_VERSION
     then Inl (ValueError ''unsupported authorization record set at authenticity boundary'')
     else rbind (judge_set R verify snapshot (ab_members b)) (\<lambda>v.
       case v of
         VContradicted reason \<Rightarrow> make_authenticity_context R AUTHENTICITY_CONTRADICTED reason x snapshot_hash [] []
       | VUnverifiable reason \<Rightarrow> make_authenticity_context R AUTHENTICITY_UNVERIFIABLE reason x snapshot_hash [] []
       | VAuthentic issued \<Rightarrow> make_authenticity_context R AUTHENTICITY_PASS AUTHENTICITY_PASS x snapshot_hash
           (ac_records x) issued)))"

section \<open>Assertions over authentic records\<close>

definition check_authenticated :: "dict list \<Rightarrow> (string \<times> string) list \<Rightarrow> authorization_claim \<Rightarrow> unit res" where
  "check_authenticated assertions issued c =
     (case map_of (rev (map (\<lambda>a. (dget ''authorization_record_id'' a, a)) assertions)) (JStr (cl_record_id c)) of
        None \<Rightarrow> Inl (ValueError ''approval assertion differs from authenticated authorization record'')
      | Some a \<Rightarrow>
          if dget ''authorization_record_hash'' a \<noteq> JStr (cl_content_hash c)
             \<or> dget ''approver_id_claim'' a \<noteq> JStr (cl_approver_id c) \<or> dget ''role_claim'' a \<noteq> JStr (cl_role c)
             \<or> dget ''effective_from'' a \<noteq> JStr (cl_effective_from c) \<or> dget ''expires_at'' a \<noteq> JStr (cl_expires_at c)
          then Inl (ValueError ''approval assertion differs from authenticated authorization record'')
          else rbind (parse_rfc3339_utc (dget ''issued_at'' a) ''approval assertion issued_at'') (\<lambda>asserted.
               case map_of issued (cl_record_id c) of
                 None \<Rightarrow> Inl (KeyError (cl_record_id c))
               | Some t \<Rightarrow> rbind (parse_rfc3339_utc (JStr t) ''signed authorization record issued_at'') (\<lambda>signed_at.
                   require (\<not> asserted < signed_at) (ValueError ''approval assertion predates signed authorization record''))))"

definition require_authenticated_assertion_records :: "runtime \<Rightarrow> json \<Rightarrow> authenticity_context
    \<Rightarrow> authorization_claim list res" where
  "require_authenticated_assertion_records R assertions x =
     (if au_state x \<noteq> AUTHENTICITY_PASS then Inl (ValueError (''authorization authenticity is not PASS: '' @ au_state x))
      else if \<not> is_list assertions \<or> \<not> list_all is_dict (list_of assertions) then Inl TypeError
      else rbind (rmap (validate_approval_assertion_shape R) (list_of assertions)) (\<lambda>validated.
        if length validated \<noteq> length (au_authenticated x)
        then Inl (ValueError ''approval assertions differ from authenticated authorization records'')
        else if \<not> distinct (map (dget ''authorization_record_id'') validated)
        then Inl (ValueError ''approval assertions contain duplicate authorization record references'')
        else rbind (check_all (\<lambda>_. check_authenticated validated (au_issued_at x)) (au_authenticated x)) (\<lambda>_.
          Inr (au_authenticated x))))"

definition authenticity_binding_hash :: "runtime \<Rightarrow> string \<Rightarrow> string \<Rightarrow> string \<Rightarrow> json \<Rightarrow> string \<Rightarrow> string res" where
  "authenticity_binding_hash R subject_hash assertion_set_hash context_hash case_hash run_hash =
     rbind (trust_sha R case_hash ''after_case_hash'') (\<lambda>c.
     rbind (trust_sha R (JStr run_hash) ''after_run_hash'') (\<lambda>r.
     rbind (trust_sha R (JStr assertion_set_hash) ''approval_assertion_set_hash'') (\<lambda>a.
     rbind (trust_sha R (JStr subject_hash) ''approval_subject_hash'') (\<lambda>s.
     rbind (trust_sha R (JStr context_hash) ''authorization_authenticity_context_hash'') (\<lambda>x.
     domain_hash R (trust_domain ''authorization-authenticity-binding'') (JDict
       [(''after_case_hash'', JStr c), (''after_run_hash'', JStr r), (''approval_assertion_set_hash'', JStr a),
        (''approval_subject_hash'', JStr s), (''authorization_authenticity_context_hash'', JStr x),
        (''contract_version'', JStr AUTHENTICITY_BINDING_VERSION)]))))))"

end
