(* ===== verification/Authenticity_Facts.thy ===== *)
theory Authenticity_Facts
  imports Authenticity Demo_Approval
begin

text \<open>
  What the verdict on a signed set of records says: the loop ends in \<open>VAuthentic\<close> exactly when
  every record is signed under an active key of the snapshot, and the set only when the snapshot
  itself is signed by the anchor.
\<close>

section \<open>One record\<close>

definition signature_holds :: "runtime \<Rightarrow> signature_check \<Rightarrow> string \<Rightarrow> json \<Rightarrow> dict \<Rightarrow> bool" where
  "signature_holds R verify tag public_key d \<longleftrightarrow>
     (case signed_message R tag d of
        Inl e \<Rightarrow> False
      | Inr message \<Rightarrow> verify_ed25519 verify public_key (dget ''signature'' d) message = Inr True)"

definition key_grants :: "runtime \<Rightarrow> signature_check \<Rightarrow> dict \<Rightarrow> dict \<Rightarrow> bool" where
  "key_grants R verify key value \<longleftrightarrow>
     key_identity key = key_identity value
     \<and> dget ''revocation_status'' key \<notin> {JStr ''REVOKED'', JStr ''UNKNOWN''}
     \<and> lists_claim ''role_claim'' ''allowed_role_claims'' value key
     \<and> lists_claim ''purpose_code'' ''allowed_purpose_codes'' value key
     \<and> lists_claim ''scope_code'' ''allowed_scope_codes'' value key
     \<and> nested_windows key value = Inr True
     \<and> signature_holds R verify ''signed-authorization-record'' (dget ''public_key'' key) value"

definition authentic_record :: "runtime \<Rightarrow> signature_check \<Rightarrow> dict \<Rightarrow> string \<times> dict \<Rightarrow> bool" where
  "authentic_record R verify snapshot iv \<longleftrightarrow>
     dget ''record_id'' (snd iv) = JStr (fst iv)
     \<and> dget ''trust_domain'' (snd iv) = dget ''trust_domain'' snapshot
     \<and> list_ex (\<lambda>key. key_grants R verify key (snd iv)) (issuer_keys_of snapshot)"

lemma map_of_identity:
  assumes "distinct (map f ks)"
  shows "map_of (map (\<lambda>k. (f k, k)) ks) a = Some k \<longleftrightarrow> k \<in> set ks \<and> f k = a"
proof -
  have "distinct (map fst (map (\<lambda>k. (f k, k)) ks))" using assms by (simp add: o_def)
  then show ?thesis by (auto simp: map_of_eq_Some_iff)
qed

lemma judge_record_signed:
  assumes "distinct (map key_identity (issuer_keys_of snapshot))"
  shows "judge_record R verify snapshot iv = Inr (RSigned t) \<longleftrightarrow>
    authentic_record R verify snapshot iv \<and> t = str_of (dget ''issued_at'' (snd iv))"
proof (cases "map_of (map (\<lambda>k. (key_identity k, k)) (issuer_keys_of snapshot)) (key_identity (snd iv))")
  case None
  then have "key_identity k \<noteq> key_identity (snd iv)" if "k \<in> set (issuer_keys_of snapshot)" for k
    using that unfolding map_of_eq_None_iff set_map image_image fst_conv by (metis imageI)
  then show ?thesis using None
    by (auto simp: judge_record_def authentic_record_def key_grants_def list_ex_iff split: prod.splits)
next
  case (Some key)
  note k = Some[unfolded map_of_identity[OF assms]]
  have u: "list_ex (\<lambda>key. key_grants R verify key (snd iv)) (issuer_keys_of snapshot) \<longleftrightarrow> key_grants R verify key (snd iv)"
  proof
    assume "list_ex (\<lambda>key. key_grants R verify key (snd iv)) (issuer_keys_of snapshot)"
    then obtain key' where "key' \<in> set (issuer_keys_of snapshot)" "key_grants R verify key' (snd iv)"
      by (auto simp: list_ex_iff)
    with k assms show "key_grants R verify key (snd iv)" by (metis key_grants_def distinct_map inj_onD)
  qed (use k in \<open>auto simp: list_ex_iff\<close>)
  show ?thesis
    unfolding authentic_record_def u judge_record_def split_beta Let_def Some option.case
    using k by (auto simp: key_grants_def signature_holds_def rbind_Inr_iff split: sum.splits if_splits)
qed

section \<open>The loop\<close>

lemma judge_records_authentic:
  assumes d: "distinct (map key_identity (issuer_keys_of snapshot))"
  shows "judge_records R verify snapshot ivs pending issued = Inr (VAuthentic z) \<longleftrightarrow>
    pending = None \<and> list_all (authentic_record R verify snapshot) ivs
    \<and> z = sort (issued @ map (\<lambda>iv. (fst iv, str_of (dget ''issued_at'' (snd iv)))) ivs)"
proof (induction ivs arbitrary: pending issued)
  case Nil
  then show ?case by (auto split: option.splits)
next
  case (Cons iv ivs)
  show ?case
  proof (cases "judge_record R verify snapshot iv")
    case (Inl e)
    then have "\<not> authentic_record R verify snapshot iv" using judge_record_signed[OF d] by (metis sum.distinct(1))
    with Inl show ?thesis by simp
  next
    case (Inr r)
    have "(r = RSigned t) = (authentic_record R verify snapshot iv \<and> t = str_of (dget ''issued_at'' (snd iv)))" for t
      using judge_record_signed[OF d, of R verify iv] by (simp add: Inr)
    note a = this
    show ?thesis
    proof (cases r)
      case (RSigned time)
      then have "authentic_record R verify snapshot iv" "time = str_of (dget ''issued_at'' (snd iv))"
        using a[of time] by simp_all
      with RSigned show ?thesis by (simp add: Inr Cons.IH)
    next
      case (RPending reason)
      then have "\<not> authentic_record R verify snapshot iv" using a[of "str_of (dget ''issued_at'' (snd iv))"] by simp
      with RPending show ?thesis by (simp add: Inr Cons.IH)
    next
      case (RContradicted reason)
      then have "\<not> authentic_record R verify snapshot iv" using a[of "str_of (dget ''issued_at'' (snd iv))"] by simp
      with RContradicted show ?thesis by (simp add: Inr)
    qed
  qed
qed

section \<open>The set and the context\<close>

text \<open>
  The trust that the policy asks for: the anchor of the fixed policy signed the snapshot, which
  names its two issuers apart, and each of the required roles has one record, signed by a key of
  the snapshot that may grant it.
\<close>

definition trusted_snapshot :: "runtime \<Rightarrow> signature_check \<Rightarrow> dict \<Rightarrow> bool" where
  "trusted_snapshot R verify snapshot \<longleftrightarrow>
     follows_policy snapshot \<and> 1 \<le> int_of (dget ''snapshot_sequence'' snapshot) \<and> distinct_issuers R snapshot
     \<and> signature_holds R verify ''authorization-trust-snapshot'' (JStr ANCHOR_PUBLIC_KEY) snapshot"

definition claimed_roles :: "runtime \<Rightarrow> (string \<times> dict) list \<Rightarrow> string list" where
  "claimed_roles R ivs = sort_key (role_key R) (map (\<lambda>iv. str_of (dget ''role_claim'' (snd iv))) ivs)"

definition authentic_set :: "runtime \<Rightarrow> signature_check \<Rightarrow> dict \<Rightarrow> authorization_member list \<Rightarrow> bool" where
  "authentic_set R verify snapshot ms \<longleftrightarrow>
     trusted_snapshot R verify snapshot
     \<and> (case rmap (member_value R) ms of
          Inl e \<Rightarrow> False
        | Inr values \<Rightarrow> claimed_roles R values = [''PROCESS_OWNER'', ''QUALITY_MANAGER'']
            \<and> list_all (authentic_record R verify snapshot) values)"

lemma FIXED_POLICY_fields:
  "dget ''minimum_snapshot_sequence'' FIXED_POLICY = JInt 1"
  "dget ''anchor_public_key'' FIXED_POLICY = JStr ANCHOR_PUBLIC_KEY"
  "dget ''required_role_claims'' FIXED_POLICY = JList (map JStr [''PROCESS_OWNER'', ''QUALITY_MANAGER''])"
  by code_simp+

definition issue_times :: "runtime \<Rightarrow> authorization_member list \<Rightarrow> (string \<times> string) list" where
  "issue_times R ms =
     (case rmap (member_value R) ms of
        Inl e \<Rightarrow> []
      | Inr values \<Rightarrow> sort (map (\<lambda>iv. (fst iv, str_of (dget ''issued_at'' (snd iv)))) values))"

lemma judge_set_authentic:
  "judge_set R verify snapshot ms = Inr (VAuthentic z) \<longleftrightarrow> authentic_set R verify snapshot ms \<and> z = issue_times R ms"
proof (cases "follows_policy snapshot \<and> 1 \<le> int_of (dget ''snapshot_sequence'' snapshot) \<and> distinct_issuers R snapshot")
  case True
  then have d: "distinct (map key_identity (issuer_keys_of snapshot))" by (simp add: distinct_issuers_def)
  have inj: "JList (map JStr xs) = JList (map JStr ys) \<longleftrightarrow> xs = ys" for xs ys :: "string list"
    by (simp add: inj_map_eq_map inj_def)
  show ?thesis
    using True unfolding judge_set_def authentic_set_def trusted_snapshot_def signature_holds_def FIXED_POLICY_fields inj
    by (auto simp: rbind_Inr_iff judge_records_authentic[OF d] claimed_roles_def issue_times_def split: sum.splits if_splits)
qed (auto simp: judge_set_def authentic_set_def trusted_snapshot_def FIXED_POLICY_fields)

lemma authenticity_states:
  "AUTHENTICITY_CONTRADICTED \<noteq> AUTHENTICITY_PASS" "AUTHENTICITY_UNVERIFIABLE \<noteq> AUTHENTICITY_PASS"
  "SIGNED_RECORD_SET_VERSION \<noteq> AUTHORIZATION_RECORD_SET_VERSION"
  by code_simp+

lemma make_authenticity_context_Inr:
  assumes "make_authenticity_context R state reason x h authenticated issued = Inr y"
  shows "au_state y = state" "au_reason_code y = reason" "au_record_context y = x" "au_trust_snapshot_hash y = h"
    "au_authenticated y = authenticated" "au_issued_at y = issued"
  using assms by (auto simp: make_authenticity_context_def rbind_Inr_iff split: if_splits)

lemma make_authenticity_contextD:
  "make_authenticity_context R state reason x h authenticated issued = Inr y \<Longrightarrow>
     au_state y = state \<and> au_record_context y = x \<and> au_authenticated y = authenticated \<and> au_issued_at y = issued"
  by (simp add: make_authenticity_context_Inr)

end
