(* ===== verification/Demo_Authenticity.thy ===== *)
theory Demo_Authenticity
  imports Authenticity_Facts
begin

text \<open>
  A trust snapshot of two issuers, the first of which may grant both roles, under which the
  demonstration bundle is authentic whenever the signature check accepts.
\<close>

section \<open>Encoded keys and signatures\<close>

lemma trust_string_visible: "visible s \<Longrightarrow> s \<noteq> [] \<Longrightarrow> trust_string (JStr s) label = Inr s"
  using visible_trimmed[of s label] by (auto simp: trust_string_def trimmed_string_def visible_def no_control_def
      list_all_iff split: if_splits)

lemma trust_base64_encoded:
  assumes "list_all (\<lambda>b. b < 256) raw" and "raw \<noteq> []"
  shows "trust_base64 (JStr (base64_encode raw)) label (length raw) = Inr raw"
proof -
  have "length (base64_encode raw) \<noteq> 0" using assms(2) by (cases raw) (simp_all add: length_base64_encode)
  then have "base64_encode raw \<noteq> []" by auto
  from trust_string_visible[OF visible_base64[OF assms(1)] this] show ?thesis
    using base64_decode_encode[OF assms(1)] by (simp add: trust_base64_def)
qed

definition demo_public_key :: string where
  "demo_public_key = concat (replicate 10 ''BwcH'') @ ''Bwc=''"

lemma demo_public_key_bytes: "demo_public_key = base64_encode (replicate 32 7)"
  by code_simp

definition anchor_bytes :: "nat list" where
  "anchor_bytes =
     [14, 33, 161, 237, 217, 70, 138, 247, 9, 169, 102, 120, 198, 151, 111, 136,
      104, 119, 112, 7, 167, 74, 128, 15, 48, 85, 18, 26, 168, 134, 106, 106]"

lemma anchor_encoded: "ANCHOR_PUBLIC_KEY = base64_encode anchor_bytes"
  by code_simp

lemma demo_encoded:
  "trust_base64 (JStr demo_public_key) label 32 = Inr (replicate 32 7)"
  "trust_base64 (JStr demo_signature) label 64 = Inr (replicate 64 7)"
  "trust_base64 (JStr ANCHOR_PUBLIC_KEY) label 32 = Inr anchor_bytes"
  "trust_string (JStr demo_public_key) label = Inr demo_public_key"
  "trust_string (JStr demo_signature) label = Inr demo_signature" "ascii demo_public_key"
proof -
  have p: "list_all (\<lambda>b. b < 256) (replicate 32 (7 :: nat))" and s: "list_all (\<lambda>b. b < 256) (replicate 64 (7 :: nat))"
    by code_simp+
  show t: "trust_base64 (JStr demo_public_key) label 32 = Inr (replicate 32 7)"
    "trust_base64 (JStr demo_signature) label 64 = Inr (replicate 64 7)"
    using trust_base64_encoded[OF p, of label] trust_base64_encoded[OF s, of label]
    by (simp_all add: demo_public_key_bytes demo_signature_bytes)
  show "trust_string (JStr demo_public_key) label = Inr demo_public_key"
    "trust_string (JStr demo_signature) label = Inr demo_signature"
    using t by (auto simp: trust_base64_def rbind_Inr_iff trust_string_def split: if_splits)
  show "ascii demo_public_key" by code_simp
  have "list_all (\<lambda>b. b < 256) anchor_bytes" "length anchor_bytes = 32" "anchor_bytes \<noteq> []" by code_simp+
  then show "trust_base64 (JStr ANCHOR_PUBLIC_KEY) label 32 = Inr anchor_bytes"
    using trust_base64_encoded[of anchor_bytes label] by (simp add: anchor_encoded)
qed

section \<open>The snapshot\<close>

definition demo_issuer_key :: "string \<Rightarrow> string \<Rightarrow> string \<Rightarrow> dict" where
  "demo_issuer_key p i k =
     [(''allowed_purpose_codes'', JList [JStr ''APPLY_APPROVED_RESOLUTION'']),
      (''allowed_role_claims'', JList [JStr ''PROCESS_OWNER'', JStr ''QUALITY_MANAGER'']),
      (''allowed_scope_codes'', JList [JStr ''EXACT_SUBJECT'']),
      (''effective_from'', JStr ''2025-01-01T00:00:00Z''), (''expires_at'', JStr ''2027-12-31T00:00:00Z''),
      (''issuer_id'', JStr i), (''public_key'', JStr p), (''revocation_status'', JStr ''ACTIVE''),
      (''revoked_at'', JNull), (''verification_key_id'', JStr k)]"

definition demo_snapshot :: "string \<Rightarrow> string \<Rightarrow> dict" where
  "demo_snapshot s p =
     [(''anchor_id'', JStr ''QUALITYCI_SYNTHETIC_ROOT_2026''), (''contract_version'', JStr TRUST_SNAPSHOT_VERSION),
      (''issued_at'', JStr ''2026-01-01T00:00:00Z''),
      (''issuer_keys'', JList [JDict (demo_issuer_key p ''issuer-1'' ''key-1''), JDict (demo_issuer_key p ''issuer-2'' ''key-2'')]),
      (''signature'', JStr s), (''signature_algorithm'', JStr ''ED25519''),
      (''snapshot_id'', JStr ''QCI-SYNTHETIC-TRUST-2026-001''), (''snapshot_sequence'', JInt 1),
      (''trust_domain'', JStr ''QUALITYCI_SYNTHETIC_LOCAL_V1'')]"

definition demo_trust :: dict where
  "demo_trust = demo_snapshot demo_signature demo_public_key"

lemma demo_snapshot_shape:
  "printable (JDict (demo_snapshot s p))" "canon (JDict (demo_snapshot s p)) = JDict (demo_snapshot s p)"
  "json_depth (JDict (demo_snapshot s p)) \<le> MAX_TRUST_JSON_DEPTH" "keys_exactly SNAPSHOT_KEYS (demo_snapshot s p)"
  "dget ''contract_version'' (demo_snapshot s p) = JStr TRUST_SNAPSHOT_VERSION"
  "check_trust_texts (demo_snapshot s p) ''authorization trust snapshot ''
     [''snapshot_id'', ''issued_at'', ''trust_domain'', ''anchor_id'', ''signature_algorithm''] = Inr ()"
  "dget ''signature'' (demo_snapshot s p) = JStr s" "dget ''snapshot_sequence'' (demo_snapshot s p) = JInt 1"
  "dget ''issued_at'' (demo_snapshot s p) = JStr ''2026-01-01T00:00:00Z''"
  "dget ''signature_algorithm'' (demo_snapshot s p) = JStr ''ED25519''"
  "follows_policy (demo_snapshot s p)" "distinct_issuers demo_runtime (demo_snapshot s p)"
  by code_simp+

lemma demo_snapshot_keys:
  "dget ''issuer_keys'' (demo_snapshot s p)
     = JList [JDict (demo_issuer_key p ''issuer-1'' ''key-1''), JDict (demo_issuer_key p ''issuer-2'' ''key-2'')]"
  "issuer_keys_of (demo_snapshot s p) = [demo_issuer_key p ''issuer-1'' ''key-1'', demo_issuer_key p ''issuer-2'' ''key-2'']"
  by (simp_all add: demo_snapshot_def dget_Cons issuer_keys_of_def)

lemma demo_key_shape:
  assumes "(i, k) = (''issuer-1'', ''key-1'') \<or> (i, k) = (''issuer-2'', ''key-2'')"
  shows "keys_exactly ISSUER_KEY_KEYS (demo_issuer_key p i k)"
    "check_trust_texts (demo_issuer_key p i k) ''authorization issuer key ''
       [''issuer_id'', ''verification_key_id'', ''effective_from'', ''expires_at'', ''revocation_status''] = Inr ()"
    "dget ''public_key'' (demo_issuer_key p i k) = JStr p"
    "rbind (exact_sorted_strings demo_runtime (dget ''allowed_role_claims'' (demo_issuer_key p i k))
        ''authorization issuer allowed_role_claims'' [''PROCESS_OWNER'', ''QUALITY_MANAGER'']) (\<lambda>_. Inr ()) = Inr ()"
    "rbind (exact_sorted_strings demo_runtime (dget ''allowed_purpose_codes'' (demo_issuer_key p i k))
        ''authorization issuer allowed_purpose_codes'' [''APPLY_APPROVED_RESOLUTION'']) (\<lambda>_. Inr ()) = Inr ()"
    "rbind (exact_sorted_strings demo_runtime (dget ''allowed_scope_codes'' (demo_issuer_key p i k))
        ''authorization issuer allowed_scope_codes'' [''EXACT_SUBJECT'']) (\<lambda>_. Inr ()) = Inr ()"
    "check_key_window (demo_issuer_key p i k) = Inr ()"
    "str_in (dget ''revocation_status'' (demo_issuer_key p i k)) [''ACTIVE'', ''REVOKED'', ''UNKNOWN'']"
    "check_revocation t (demo_issuer_key p i k) = Inr ()"
  using assms by (elim disjE; simp only: prod.inject; code_simp)+

lemma check_trust_texts_Inr:
  "check_trust_texts d l ks = Inr () \<longleftrightarrow> (\<forall>k \<in> set ks. \<exists>s. trust_string (dget k d) (l @ k) = Inr s)"
  by (auto simp: check_trust_texts_def check_all_Inr rbind_Inr_iff all_set_conv_all_nth)

lemma check_trust_texts_more:
  assumes "check_trust_texts d l ks = Inr ()" and "dget k d = JStr s" and "\<And>label. trust_string (JStr s) label = Inr s"
    and "set ks' \<subseteq> insert k (set ks)"
  shows "check_trust_texts d l ks' = Inr ()"
  using assms unfolding check_trust_texts_Inr by (metis insertE subsetD)

lemma demo_issuer_checked:
  assumes "(i, k) = (''issuer-1'', ''key-1'') \<or> (i, k) = (''issuer-2'', ''key-2'')"
  shows "check_issuer_key demo_runtime t (demo_issuer_key demo_public_key i k) = Inr ()"
proof -
  note s = demo_key_shape[OF assms, where p = demo_public_key]
  have "check_trust_texts (demo_issuer_key demo_public_key i k) ''authorization issuer key ''
     [''issuer_id'', ''verification_key_id'', ''public_key'', ''effective_from'', ''expires_at'', ''revocation_status''] = Inr ()"
    by (rule check_trust_texts_more[OF s(2,3) demo_encoded(4)]) auto
  then show ?thesis
    unfolding check_issuer_key_def seq_checks_Cons_Inr using s(4-9)
    by (simp add: s(3) demo_encoded(1))
qed

lemma demo_snapshot_checked: "check_snapshot demo_runtime demo_trust = Inr ()"
proof -
  note s = demo_snapshot_shape[of demo_signature demo_public_key, folded demo_trust_def]
  note k = demo_snapshot_keys[of demo_signature demo_public_key, folded demo_trust_def]
  have t: "check_trust_texts demo_trust ''authorization trust snapshot ''
     [''snapshot_id'', ''issued_at'', ''trust_domain'', ''anchor_id'', ''signature_algorithm'', ''signature''] = Inr ()"
    by (rule check_trust_texts_more[OF s(6,7) demo_encoded(5)]) auto
  have i: "parse_rfc3339_utc (JStr ''2026-01-01T00:00:00Z'') label = Inr ((2026, 1, 1), (0, 0, 0), 0)" for label
    by code_simp
  have "check_all (\<lambda>_. check_issuer_key demo_runtime d) (issuer_keys_of demo_trust) = Inr ()" for d
    by (simp add: k check_all_def demo_issuer_checked)
  then show ?thesis using t demo_key_shape(1)
    by (simp add: check_snapshot_def s(5,8-10) s(7) demo_encoded(2) k(1) i)
qed

lemma demo_snapshot_ascii: "ascii_json (JDict demo_trust)"
proof -
  have k: "list_all (\<lambda>(f, v). ascii f \<and> (if f = ''public_key'' then v = JStr p else ascii_json v)) (demo_issuer_key p i k)"
    if "(i, k) = (''issuer-1'', ''key-1'') \<or> (i, k) = (''issuer-2'', ''key-2'')" for p i k
    using that by (elim disjE; simp only: prod.inject; code_simp)
  have i: "ascii_json (JDict (demo_issuer_key demo_public_key i k))"
    if "(i, k) = (''issuer-1'', ''key-1'') \<or> (i, k) = (''issuer-2'', ''key-2'')" for i k
    using k[OF that, of demo_public_key] demo_encoded(6) by (auto simp: list_all_iff split: if_splits)
  have d: "list_all (\<lambda>(f, v). ascii f \<and> (if f = ''signature'' then v = JStr s
      else if f = ''issuer_keys'' then v = JList [JDict (demo_issuer_key p ''issuer-1'' ''key-1''), JDict (demo_issuer_key p ''issuer-2'' ''key-2'')]
      else ascii_json v)) (demo_snapshot s p)" for s p
    by code_simp
  have j: "ascii_json (JList [JDict (demo_issuer_key demo_public_key ''issuer-1'' ''key-1''),
      JDict (demo_issuer_key demo_public_key ''issuer-2'' ''key-2'')])" "ascii_json (JStr demo_signature)"
    using i[of "''issuer-1''" "''key-1''"] i[of "''issuer-2''" "''key-2''"] demo_signature_facts(3) by simp_all
  have "list_all (\<lambda>kv. ascii (fst kv) \<and> ascii_json (snd kv)) demo_trust"
    using d[of demo_signature demo_public_key, folded demo_trust_def]
  proof (rule list.pred_mono_strong)
    fix z :: "string \<times> json"
    show "ascii (fst z) \<and> ascii_json (snd z)"
      if "case z of (f, v) \<Rightarrow> ascii f \<and> (if f = ''signature'' then v = JStr demo_signature
        else if f = ''issuer_keys'' then v = JList [JDict (demo_issuer_key demo_public_key ''issuer-1'' ''key-1''),
          JDict (demo_issuer_key demo_public_key ''issuer-2'' ''key-2'')] else ascii_json v)"
    proof -
      obtain f v where z: "z = (f, v)" by (cases z)
      have a: "ascii f" using that unfolding z case_prod_conv by (rule conjunct1)
      have "v = JStr demo_signature \<or> v = JList [JDict (demo_issuer_key demo_public_key ''issuer-1'' ''key-1''),
          JDict (demo_issuer_key demo_public_key ''issuer-2'' ''key-2'')] \<or> ascii_json v"
        using that unfolding z case_prod_conv by (auto simp only: split: if_split_asm)
      then have "ascii_json v" using j by (elim disjE) (simp_all only:)
      with a show ?thesis by (simp only: z fst_conv snd_conv simp_thms)
    qed
  qed
  then show ?thesis by simp
qed

definition demo_snapshot_bytes :: string where
  "demo_snapshot_bytes = jtext demo_runtime (JDict demo_trust)"

lemma demo_snapshot_value: "snapshot_value demo_runtime demo_snapshot_bytes = Inr demo_trust"
proof -
  note s = demo_snapshot_shape[of demo_signature demo_public_key, folded demo_trust_def]
  have n: "demo_snapshot_bytes \<noteq> []" "length demo_snapshot_bytes \<le> MAX_TRUST_SNAPSHOT_BYTES" by code_simp+
  have u: "utf8_valid demo_snapshot_bytes"
    unfolding demo_snapshot_bytes_def by (rule ascii_utf8_valid, rule ascii_jtext, rule demo_snapshot_ascii)
  have l: "strict_json_loads demo_runtime demo_snapshot_bytes = Inr (JDict demo_trust)"
    using float_reader.strict_json_loads_jtext[OF demo_reader_runtime refl refl s(1)] u
    by (simp only: demo_snapshot_bytes_def s(2))
  show ?thesis
    using n u l s(3,4) demo_snapshot_checked ascii_bytes[OF demo_snapshot_ascii, of demo_runtime, folded demo_snapshot_bytes_def]
    by (simp add: snapshot_value_def read_trusted_def del: jtext.simps)
qed

section \<open>The records under the snapshot\<close>

lemma demo_signed_fields:
  assumes "demo_pair_ok i approver role"
  shows "keys_exactly SIGNED_RECORD_KEYS (demo_signed s i approver role)"
    "check_trust_texts (demo_signed s i approver role) ''signed authorization record ''
       (filter (\<lambda>k. k \<noteq> ''signature'') SIGNED_RECORD_KEYS) = Inr ()"
    "dget ''trust_domain'' (demo_signed s i approver role) = dget ''trust_domain'' (demo_snapshot t p)"
    "nested_windows (demo_issuer_key p ''issuer-1'' ''key-1'') (demo_signed s i approver role) = Inr True"
    "lists_claim ''role_claim'' ''allowed_role_claims'' (demo_signed s i approver role) (demo_issuer_key p ''issuer-1'' ''key-1'')"
    "lists_claim ''purpose_code'' ''allowed_purpose_codes'' (demo_signed s i approver role) (demo_issuer_key p ''issuer-1'' ''key-1'')"
    "lists_claim ''scope_code'' ''allowed_scope_codes'' (demo_signed s i approver role) (demo_issuer_key p ''issuer-1'' ''key-1'')"
    "key_identity (demo_issuer_key p ''issuer-1'' ''key-1'') = key_identity (demo_signed s i approver role)"
    "dget ''role_claim'' (demo_signed s i approver role) = JStr role"
  by (rule demo_pair_cases[OF assms]; code_simp)+

lemma demo_key_status: "dget ''revocation_status'' (demo_issuer_key p i k) = JStr ''ACTIVE''"
  by (simp add: demo_issuer_key_def dget_Cons)

lemma demo_signed_record_value:
  assumes p: "demo_pair_ok i approver role"
  shows "signed_record_value demo_runtime (jtext demo_runtime (JDict (demo_record i approver role)))
    = Inr (demo_record i approver role)"
proof -
  note s = demo_signed_shape[OF p, of demo_signature, folded demo_record_def]
  note f = demo_signed_fields[OF p, where s = demo_signature, folded demo_record_def]
  define raw where "raw = jtext demo_runtime (JDict (demo_record i approver role))"
  have b: "canonical_bytes demo_runtime (JDict (demo_record i approver role)) = Inr raw" "utf8_valid raw"
    unfolding raw_def using ascii_bytes[OF demo_record_ascii[OF p]] ascii_utf8_valid[OF ascii_jtext[OF demo_record_ascii[OF p]]]
    by blast+
  have l: "strict_json_loads demo_runtime raw = Inr (JDict (demo_record i approver role))"
    using float_reader.strict_json_loads_jtext[OF demo_reader_runtime refl refl s(1)] b(2)
    by (simp only: raw_def s(2))
  have "check_trust_texts (demo_record i approver role) ''signed authorization record '' SIGNED_RECORD_KEYS = Inr ()"
    by (rule check_trust_texts_more[OF f(2) s(8) demo_encoded(5)]) auto
  then have "check_signed_record (demo_record i approver role) = Inr ()"
    unfolding check_signed_record_def seq_checks_Cons_Inr using s(5,8,9) demo_encoded(2) by simp
  then show ?thesis
    unfolding raw_def[symmetric] using b l f(1) by (simp add: signed_record_value_def read_trusted_def)
qed

lemma accepting_signature:
  assumes "ascii_json (JDict (without_signature d))" and "dget ''signature'' d = JStr demo_signature"
    and "\<And>label. trust_base64 k label 32 \<in> range Inr"
  shows "signature_holds demo_runtime (\<lambda>_ _ _. True) tag k d"
proof -
  obtain raw where "trust_base64 k ''authorization public_key'' 32 = Inr raw" using assms(3) by blast
  then show ?thesis
    using assms(2) by (simp add: signature_holds_def signed_message_def ascii_bytes[OF assms(1)] verify_ed25519_def
        demo_encoded(2))
qed

lemma without_signature_ascii: "ascii_json (JDict d) \<Longrightarrow> ascii_json (JDict (without_signature d))"
  by (simp add: without_signature_def list_all_iff)

lemma demo_authentic_record:
  assumes p: "demo_pair_ok i approver role"
  shows "authentic_record demo_runtime (\<lambda>_ _ _. True) demo_trust (i, demo_record i approver role)"
proof -
  note s = demo_signed_shape[OF p, of demo_signature, folded demo_record_def]
  note f = demo_signed_fields[OF p, where s = demo_signature, folded demo_record_def]
  have "key_grants demo_runtime (\<lambda>_ _ _. True) (demo_issuer_key demo_public_key ''issuer-1'' ''key-1'')
      (demo_record i approver role)"
    unfolding key_grants_def demo_key_status
    using f(4-8) accepting_signature[OF without_signature_ascii[OF demo_record_ascii[OF p]] s(8)]
    by (simp add: demo_key_shape(3) demo_encoded(1))
  then show ?thesis
    using s(10) f(3) by (simp add: authentic_record_def demo_trust_def demo_snapshot_keys(2))
qed

definition demo_issued :: "(string \<times> string) list" where
  "demo_issued = [(''AR-1'', ''2026-01-15T00:00:00Z''), (''AR-2'', ''2026-01-15T00:00:00Z'')]"

lemma demo_authentic_set:
  "authentic_set demo_runtime (\<lambda>_ _ _. True) demo_trust [demo_owner_member, demo_manager_member]"
  "issue_times demo_runtime [demo_owner_member, demo_manager_member] = demo_issued"
proof -
  note s = demo_snapshot_shape[of demo_signature demo_public_key, folded demo_trust_def]
  have p: "demo_pair_ok ''AR-1'' ''ann'' ''PROCESS_OWNER''" "demo_pair_ok ''AR-2'' ''bob'' ''QUALITY_MANAGER''"
    by (simp_all add: demo_pair_ok_def)
  have v: "rmap (member_value demo_runtime) [demo_owner_member, demo_manager_member]
    = Inr [(''AR-1'', demo_record ''AR-1'' ''ann'' ''PROCESS_OWNER''), (''AR-2'', demo_record ''AR-2'' ''bob'' ''QUALITY_MANAGER'')]"
    using demo_signed_record_value[OF p(1)] demo_signed_record_value[OF p(2)]
    by (simp add: member_value_def demo_owner_member_def demo_manager_member_def demo_owner_raw_def demo_manager_raw_def
        del: jtext.simps)
  have r: "dget ''role_claim'' (demo_record ''AR-1'' ''ann'' ''PROCESS_OWNER'') = JStr ''PROCESS_OWNER''"
    "dget ''role_claim'' (demo_record ''AR-2'' ''bob'' ''QUALITY_MANAGER'') = JStr ''QUALITY_MANAGER''"
    unfolding demo_record_def using demo_signed_fields(9)[OF p(1)] demo_signed_fields(9)[OF p(2)] .
  have "sort_key (role_key demo_runtime) [''PROCESS_OWNER'', ''QUALITY_MANAGER''] = [''PROCESS_OWNER'', ''QUALITY_MANAGER'']"
    by code_simp
  then have c: "claimed_roles demo_runtime [(''AR-1'', demo_record ''AR-1'' ''ann'' ''PROCESS_OWNER''),
      (''AR-2'', demo_record ''AR-2'' ''bob'' ''QUALITY_MANAGER'')] = [''PROCESS_OWNER'', ''QUALITY_MANAGER'']"
    by (simp only: claimed_roles_def list.map snd_conv r str_of.simps)
  have "trusted_snapshot demo_runtime (\<lambda>_ _ _. True) demo_trust"
    using s(8,11,12) accepting_signature[OF without_signature_ascii[OF demo_snapshot_ascii] s(7), of "JStr ANCHOR_PUBLIC_KEY"]
    by (simp add: trusted_snapshot_def demo_encoded(3))
  then show "authentic_set demo_runtime (\<lambda>_ _ _. True) demo_trust [demo_owner_member, demo_manager_member]"
    using demo_authentic_record[OF p(1)] demo_authentic_record[OF p(2)] by (simp only: authentic_set_def v c sum.case list.pred_inject simp_thms)
  have "dget ''issued_at'' (demo_record i a r) = JStr ''2026-01-15T00:00:00Z''" for i a r
    by (simp add: demo_record_def demo_signed_def dget_Cons)
  then show "issue_times demo_runtime [demo_owner_member, demo_manager_member] = demo_issued"
    by (simp add: issue_times_def v demo_issued_def del: rmap.simps)
qed

lemma demo_trust_sha: "is_lower_sha h \<Longrightarrow> trust_sha demo_runtime (JStr h) label = Inr h"
  using digest_text(1,3)[of h] demo_lower[of h] by (simp add: trust_sha_def demo_runtime_def)

lemma fixed_policy_ascii: "ascii_json (JDict FIXED_POLICY)"
  by code_simp

lemma demo_authenticity_ascii:
  assumes "ac_contract_version c = SIGNED_RECORD_SET_VERSION" and "is_lower_sha t" and "is_lower_sha (ac_record_set_hash c)"
    and "is_lower_sha p"
  shows "ascii_json (authenticity_subject c AUTHENTICITY_PASS AUTHENTICITY_PASS p t)"
proof -
  have k: "ascii ''authorization_record_set_contract_version''" "ascii ''authorization_record_set_hash''"
    "ascii ''contract_version''" "ascii ''reason_code''" "ascii ''state''" "ascii ''trust_policy_hash''"
    "ascii ''trust_policy_version''" "ascii ''trust_snapshot_contract_version''" "ascii ''trust_snapshot_hash''"
    "ascii SIGNED_RECORD_SET_VERSION" "ascii AUTHENTICITY_CONTEXT_VERSION" "ascii AUTHENTICITY_PASS"
    "ascii TRUST_POLICY_VERSION" "ascii TRUST_SNAPSHOT_VERSION" by code_simp+
  show ?thesis
    unfolding authenticity_subject_def assms(1)
    using k ascii_sha[OF assms(2)] ascii_sha[OF assms(3)] ascii_sha[OF assms(4)]
    by (simp only: ascii_json.simps list.pred_inject fst_conv snd_conv simp_thms)
qed

lemma demo_pass_context:
  obtains x where "prepare_authenticity_context demo_runtime (\<lambda>_ _ _. True) demo_authorization_bundle demo_snapshot_bytes = Inr x"
    and "au_state x = AUTHENTICITY_PASS" and "au_authenticated x = demo_claims"
    and "au_issued_at x = demo_issued"
proof -
  obtain c where c: "prepare_authorization_context demo_runtime demo_authorization_bundle = Inr c" "ac_records c = demo_claims"
    by (rule demo_authorization_context)
  from c(1) have v: "ac_contract_version c = SIGNED_RECORD_SET_VERSION" and h: "ac_record_set_hash c \<in> range sha256_hex"
    by (auto simp: prepare_authorization_context_def demo_authorization_bundle_valid rbind_Inr_iff Let_def set_version_def
        domain_hash_def demo_pack_def dget_Cons)
  define t where "t = sha256_hex (trust_domain ''authorization-trust-snapshot-hash'' @ demo_snapshot_bytes)"
  have l: "is_lower_sha t" "is_lower_sha (ac_record_set_hash c)" using h by (auto simp: t_def sha.digest_lower_sha)
  obtain ts where j: "judge_set demo_runtime (\<lambda>_ _ _. True) demo_trust (ab_members demo_authorization_bundle) = Inr (VAuthentic ts)"
    and i: "ts = demo_issued"
    using demo_authentic_set judge_set_authentic by (simp add: demo_authorization_bundle_def)
  have m: "\<exists>x. make_authenticity_context demo_runtime AUTHENTICITY_PASS AUTHENTICITY_PASS c t (ac_records c) ts = Inr x"
    using demo_trust_sha[OF l(1)] ascii_domain_hash[OF fixed_policy_ascii] demo_authenticity_ascii[OF v l]
    by (simp add: make_authenticity_context_def ascii_domain_hash sha.digest_lower_sha)
  then obtain x where x: "make_authenticity_context demo_runtime AUTHENTICITY_PASS AUTHENTICITY_PASS c t (ac_records c) ts = Inr x"
    by blast
  have "prepare_authenticity_context demo_runtime (\<lambda>_ _ _. True) demo_authorization_bundle demo_snapshot_bytes = Inr x"
    using authenticity_states(3) x
    by (simp add: prepare_authenticity_context_def c(1) demo_snapshot_value v j Let_def flip: t_def)
  then show thesis
    by (rule that) (simp_all add: make_authenticity_context_Inr[OF x] c(2) i)
qed

end
