(* ===== verification/Authenticity_Properties.thy ===== *)
theory Authenticity_Properties
  imports Demo_Authenticity
begin

text \<open>
  The properties of \<open>authorization_authenticity.py\<close>: a set of records is authentic exactly when the
  chain from the anchor of the policy to the bytes of each record holds, and assertions are accepted
  only when each authentic record has its assertion, made no earlier than the record was signed.
\<close>

lemma prepare_authenticity_Inr:
  assumes "prepare_authenticity_context R verify b snapshot_bytes = Inr x"
  shows "prepare_authorization_context R b = Inr (au_record_context x)"
    "au_state x = AUTHENTICITY_PASS \<longleftrightarrow>
       ac_contract_version (au_record_context x) = SIGNED_RECORD_SET_VERSION
       \<and> (\<exists>s. snapshot_value R snapshot_bytes = Inr s \<and> authentic_set R verify s (ab_members b))"
    "au_authenticated x = (if au_state x = AUTHENTICITY_PASS then ac_records (au_record_context x) else [])"
    "au_state x = AUTHENTICITY_PASS \<Longrightarrow> au_issued_at x = issue_times R (ab_members b)"
proof -
  obtain c s where c: "prepare_authorization_context R b = Inr c" and s: "snapshot_value R snapshot_bytes = Inr s"
    using assms by (auto simp: prepare_authenticity_context_def rbind_Inr_iff)
  have "au_record_context x = c
    \<and> (au_state x = AUTHENTICITY_PASS \<longleftrightarrow> ac_contract_version c = SIGNED_RECORD_SET_VERSION
         \<and> authentic_set R verify s (ab_members b))
    \<and> au_authenticated x = (if au_state x = AUTHENTICITY_PASS then ac_records c else [])
    \<and> (au_state x = AUTHENTICITY_PASS \<longrightarrow> au_issued_at x = issue_times R (ab_members b))"
  proof (cases "ac_contract_version c = SIGNED_RECORD_SET_VERSION")
    case False
    then show ?thesis
      using assms authenticity_states
      by (auto simp: prepare_authenticity_context_def c s Let_def split: if_splits dest!: make_authenticity_contextD)
  next
    case True
    then obtain v where v: "judge_set R verify s (ab_members b) = Inr v"
      using assms authenticity_states(3) by (auto simp: prepare_authenticity_context_def c s Let_def rbind_Inr_iff)
    note j = judge_set_authentic[of R verify s "ab_members b", unfolded v]
    show ?thesis
      using assms True authenticity_states v j
      by (cases v) (auto simp: prepare_authenticity_context_def c s Let_def dest!: make_authenticity_contextD)
  qed
  with c s show "prepare_authorization_context R b = Inr (au_record_context x)"
    "au_state x = AUTHENTICITY_PASS \<longleftrightarrow>
       ac_contract_version (au_record_context x) = SIGNED_RECORD_SET_VERSION
       \<and> (\<exists>s. snapshot_value R snapshot_bytes = Inr s \<and> authentic_set R verify s (ab_members b))"
    "au_authenticated x = (if au_state x = AUTHENTICITY_PASS then ac_records (au_record_context x) else [])"
    "au_state x = AUTHENTICITY_PASS \<Longrightarrow> au_issued_at x = issue_times R (ab_members b)"
    by auto
qed

text \<open>
  C30.  \<open>prepare_authorization_authenticity_context\<close> says \<open>PASS\<close> exactly when the captured set is of
  the signed contract, the snapshot follows the fixed policy, is signed by its anchor and names its
  issuers apart, the two roles are claimed once each, and the bytes of every record are signed under
  a key of the snapshot that is active, may grant the role, the purpose and the scope, and whose
  window holds the record's; only then does the context carry authenticated records, the ones of
  the captured set.  An unsigned set never passes.
\<close>

theorem authenticity_pass_exact:
  assumes "prepare_authenticity_context R verify b snapshot_bytes = Inr x"
  shows "prepare_authorization_context R b = Inr (au_record_context x)
    \<and> (au_state x = AUTHENTICITY_PASS \<longleftrightarrow>
         ac_contract_version (au_record_context x) = SIGNED_RECORD_SET_VERSION
         \<and> (\<exists>s. snapshot_value R snapshot_bytes = Inr s \<and> authentic_set R verify s (ab_members b)))
    \<and> au_authenticated x = (if au_state x = AUTHENTICITY_PASS then ac_records (au_record_context x) else [])"
  using prepare_authenticity_Inr[OF assms] by blast

theorem authenticity_pass_exact_witness:
  "\<exists>x. prepare_authenticity_context demo_runtime (\<lambda>_ _ _. True) demo_authorization_bundle demo_snapshot_bytes = Inr x
    \<and> au_state x = AUTHENTICITY_PASS \<and> au_authenticated x = ac_records (au_record_context x)"
proof -
  obtain x where x: "prepare_authenticity_context demo_runtime (\<lambda>_ _ _. True) demo_authorization_bundle demo_snapshot_bytes = Inr x"
    "au_state x = AUTHENTICITY_PASS" by (rule demo_pass_context)
  with authenticity_pass_exact[OF x(1)] show ?thesis by auto
qed

section \<open>Assertions over authentic records\<close>

definition assertion_of_claim :: "(string \<times> string) list \<Rightarrow> authorization_claim \<Rightarrow> dict \<Rightarrow> bool" where
  "assertion_of_claim issued c a \<longleftrightarrow>
     dget ''authorization_record_id'' a = JStr (cl_record_id c)
     \<and> dget ''authorization_record_hash'' a = JStr (cl_content_hash c)
     \<and> dget ''approver_id_claim'' a = JStr (cl_approver_id c) \<and> dget ''role_claim'' a = JStr (cl_role c)
     \<and> dget ''effective_from'' a = JStr (cl_effective_from c) \<and> dget ''expires_at'' a = JStr (cl_expires_at c)
     \<and> (case map_of issued (cl_record_id c) of
          None \<Rightarrow> False
        | Some t \<Rightarrow>
            (case (parse_rfc3339_utc (dget ''issued_at'' a) ''approval assertion issued_at'',
                   parse_rfc3339_utc (JStr t) ''signed authorization record issued_at'') of
               (Inr asserted, Inr signed_at) \<Rightarrow> signed_at \<le> asserted
             | _ \<Rightarrow> False))"

lemma check_authenticated_Inr:
  assumes "distinct (map (dget ''authorization_record_id'') as)"
  shows "check_authenticated as issued c = Inr () \<longleftrightarrow> list_ex (assertion_of_claim issued c) as"
proof -
  have d: "distinct (map (dget ''authorization_record_id'') (rev as))" using assms by (simp flip: rev_map)
  have r: "map_of (rev (map (\<lambda>a. (dget ''authorization_record_id'' a, a)) as)) i = Some a
      \<longleftrightarrow> a \<in> set as \<and> dget ''authorization_record_id'' a = i" for i a
    using map_of_identity[OF d] by (simp add: rev_map)
  show ?thesis
  proof (cases "map_of (rev (map (\<lambda>a. (dget ''authorization_record_id'' a, a)) as)) (JStr (cl_record_id c))")
    case None
    then have "dget ''authorization_record_id'' a \<noteq> JStr (cl_record_id c)" if "a \<in> set as" for a
      using r[of "JStr (cl_record_id c)" a] that by auto
    with None show ?thesis by (auto simp: check_authenticated_def assertion_of_claim_def list_ex_iff)
  next
    case (Some a)
    note a = Some[unfolded r]
    have u: "list_ex (assertion_of_claim issued c) as \<longleftrightarrow> assertion_of_claim issued c a"
    proof
      assume "list_ex (assertion_of_claim issued c) as"
      then obtain a' where "a' \<in> set as" "assertion_of_claim issued c a'" by (auto simp: list_ex_iff)
      with r[of "JStr (cl_record_id c)" a'] Some show "assertion_of_claim issued c a" by (simp add: assertion_of_claim_def)
    qed (use a in \<open>auto simp: list_ex_iff\<close>)
    show ?thesis
      unfolding u check_authenticated_def Some option.case
      using a by (auto simp: assertion_of_claim_def rbind_Inr_iff require_Inr not_less split: option.splits sum.splits)
  qed
qed

text \<open>
  C31.  \<open>require_authenticated_assertion_records\<close> accepts a list of assertions exactly when the context
  is \<open>PASS\<close>, there are as many assertions as authenticated records, no two of them name the same
  record, and every authenticated record has an assertion with its identifier, its hash, its
  approver, role and window, made no earlier than the record was signed; what it returns are the
  authenticated records.  So an assertion cannot predate, exceed or reuse the authority it names.
\<close>

theorem authenticated_assertions_exact:
  assumes "rmap (validate_approval_assertion_shape R) (map JDict ds) = Inr as"
  shows "require_authenticated_assertion_records R (JList (map JDict ds)) x = Inr cs \<longleftrightarrow>
    au_state x = AUTHENTICITY_PASS \<and> length as = length cs \<and> cs = au_authenticated x
    \<and> distinct (map (dget ''authorization_record_id'') as)
    \<and> list_all (\<lambda>c. list_ex (assertion_of_claim (au_issued_at x) c) as) cs"
proof -
  have d: "list_all is_dict (map JDict ds)" by (simp add: list_all_iff)
  show ?thesis
    using assms d check_authenticated_Inr
    by (auto simp: require_authenticated_assertion_records_def check_all_Inr list_all_length rbind_Inr_iff)
qed

theorem authenticated_assertions_exact_witness:
  "\<exists>x. au_state x = AUTHENTICITY_PASS \<and> au_authenticated x = demo_claims
    \<and> require_authenticated_assertion_records demo_runtime
        (JList (map JDict [demo_owner_assertion demo_subject_hash demo_owner_hash,
           demo_manager_assertion demo_subject_hash demo_manager_hash])) x = Inr demo_claims"
proof -
  let ?as = "[demo_owner_assertion demo_subject_hash demo_owner_hash, demo_manager_assertion demo_subject_hash demo_manager_hash]"
  obtain x where "prepare_authenticity_context demo_runtime (\<lambda>_ _ _. True) demo_authorization_bundle demo_snapshot_bytes = Inr x"
    and x: "au_state x = AUTHENTICITY_PASS" "au_authenticated x = demo_claims" "au_issued_at x = demo_issued"
    by (rule demo_pass_context)
  have v: "rmap (validate_approval_assertion_shape demo_runtime) (map JDict ?as) = Inr ?as"
    using demo_assertion_valid(1)[OF demo_subject_hash_lower demo_hashes(1) disjI1[OF refl]]
      demo_assertion_valid(1)[OF demo_subject_hash_lower demo_hashes(2) disjI2[OF refl]] by simp
  have t: "parse_rfc3339_utc (JStr ''2026-03-01T00:00:00Z'') l = Inr ((2026, 3, 1), (0, 0, 0), 0)"
    "parse_rfc3339_utc (JStr ''2026-01-15T00:00:00Z'') l = Inr ((2026, 1, 15), (0, 0, 0), 0)" for l
    by code_simp+
  have "list_all (\<lambda>c. list_ex (assertion_of_claim demo_issued c) ?as) demo_claims"
    by (simp add: demo_claims_def claim_of_def demo_record_def demo_signed_def dget_Cons assertion_of_claim_def
        demo_owner_assertion_def demo_manager_assertion_def demo_assertion_def demo_owner_member_def
        demo_manager_member_def demo_issued_def t)
  moreover have "length demo_claims = 2" by (simp add: demo_claims_def)
  moreover have "distinct (map (dget ''authorization_record_id'') ?as)" by (simp add: demo_assertion_gets)
  ultimately have "require_authenticated_assertion_records demo_runtime (JList (map JDict ?as)) x = Inr demo_claims"
    using authenticated_assertions_exact[OF v, of x demo_claims] x by simp
  with x show ?thesis by blast
qed

end
