(* ===== verification/Artifact_Context.thy ===== *)
theory Artifact_Context
  imports Loader_Mutation Rules_Evidence Strict_Json
begin

text \<open>
  The part of \<open>revision_artifacts.py\<close> that the workflow uses after a bundle of replacement
  documents has been rebuilt: the context, the paths an operation may touch, and the one
  authoritative case after a resolution.  How the context is rebuilt from office documents is
  not modelled.
\<close>

section \<open>The context\<close>

definition ARTIFACT_CONTRACT_VERSION :: string where
  "ARTIFACT_CONTRACT_VERSION = ''qualityci-revision-artifact-0.3''"

definition PROTECTED_ROOTS :: "string list" where
  "PROTECTED_ROOTS = [''document_id'', ''source_hash'', ''source'', ''mapping_provenance'', ''revision_artifact'']"

definition ALLOWED_FACT_ROOTS :: "string list" where
  "ALLOWED_FACT_ROOTS = [''document_type'', ''revision'', ''status'', ''owner'', ''revision_date'', ''fields'']"

record artifact_index_entry =
  ae_document_id :: string
  ae_source_id :: string
  ae_source_path :: string
  ae_source_hash :: string
  ae_size_bytes :: int
  ae_declared_format :: string
  ae_detected_format :: string
  ae_supersedes_document_id :: string
  ae_supersedes_revision :: string
  ae_supersedes_source_hash :: string

definition index_entry_dict :: "artifact_index_entry \<Rightarrow> json" where
  "index_entry_dict e = JDict
     [(''document_id'', JStr (ae_document_id e)), (''source_id'', JStr (ae_source_id e)),
      (''source_path'', JStr (ae_source_path e)), (''source_hash'', JStr (ae_source_hash e)),
      (''size_bytes'', JInt (ae_size_bytes e)), (''declared_format'', JStr (ae_declared_format e)),
      (''detected_format'', JStr (ae_detected_format e)),
      (''supersedes'', JDict [(''document_id'', JStr (ae_supersedes_document_id e)),
         (''revision'', JStr (ae_supersedes_revision e)), (''source_hash'', JStr (ae_supersedes_source_hash e))])]"

text \<open>The manifest and the raw members of the context are only compared with a bundle.\<close>

record artifact_context =
  ax_replacement_set_id :: string
  ax_artifact_set_hash :: string
  ax_documents_json :: string
  ax_index :: "artifact_index_entry list"
  ax_reference_context :: "reference_context option"
  ax_source_reference_set_hash :: "string option"
  ax_sealed :: bool
  ax_artifact_version :: string
  ax_case_schema_version :: string
  ax_parser_version :: string
  ax_mapping_version :: string
  ax_security_version :: string

definition context_documents :: "runtime \<Rightarrow> artifact_context \<Rightarrow> json list res" where
  "context_documents R x =
     (if \<not> utf8_valid (ax_documents_json x) then Inl (ValueError ''invalid UTF-8'')
      else rbind (strict_json_loads R (ax_documents_json x)) (\<lambda>v.
        if \<not> is_list v \<or> \<not> list_all is_dict (list_of v)
        then Inl (RevisionArtifactError ''internal artifact documents are invalid'') else Inr (list_of v)))"

definition optional_string :: "string option \<Rightarrow> json" where
  "optional_string s = (case s of None \<Rightarrow> JNull | Some t \<Rightarrow> JStr t)"

definition subject_fields :: "artifact_context \<Rightarrow> dict" where
  "subject_fields x =
     [(''replacement_set_id'', JStr (ax_replacement_set_id x)), (''artifact_set_hash'', JStr (ax_artifact_set_hash x)),
      (''artifact_contract_version'', JStr (ax_artifact_version x)),
      (''case_schema_version'', JStr (ax_case_schema_version x)),
      (''parser_contract_version'', JStr (ax_parser_version x)),
      (''mapping_contract_version'', JStr (ax_mapping_version x)),
      (''security_root_policy_version'', JStr (ax_security_version x)),
      (''touched_document_artifacts'', JList (map index_entry_dict (ax_index x)))]
     @ (case ax_reference_context x of
          None \<Rightarrow> []
        | Some r \<Rightarrow>
            [(''reference_contract_version'', JStr (rc_contract_version r)),
             (''controlled_reference_set_hash'', JStr (rc_reference_set_hash r)),
             (''controlled_reference_source_set_hash'', optional_string (ax_source_reference_set_hash x))])"

section \<open>The paths of the operations\<close>

definition require_artifact_string :: "json \<Rightarrow> string \<Rightarrow> string res" where
  "require_artifact_string v label =
     (if nonblank_str v then Inr (str_of v)
      else Inl (RevisionArtifactError (label @ '' must be a non-empty string'')))"

text \<open>\<open>_PATH_SEGMENT\<close>: a letter or an underscore, then letters, digits and underscores.\<close>

definition is_letter :: "char \<Rightarrow> bool" where
  "is_letter a \<longleftrightarrow> 65 \<le> (of_char a :: nat) \<and> (of_char a :: nat) \<le> 90
     \<or> 97 \<le> (of_char a :: nat) \<and> (of_char a :: nat) \<le> 122 \<or> a = CHR ''_''"

definition path_segment :: "string \<Rightarrow> bool" where
  "path_segment s \<longleftrightarrow> s \<noteq> [] \<and> is_letter (hd s) \<and> list_all (\<lambda>a. is_letter a \<or> is_digit a) s"

definition safe_path :: "runtime \<Rightarrow> string \<Rightarrow> bool" where
  "safe_path R path \<longleftrightarrow>
     list_all (\<lambda>s. path_segment s \<and> rt_casefold R (rt_nfkc R s) = s) (split_char CHR ''.'' path)"

text \<open>The documents touched so far, by the identity of their identifier.\<close>

definition touch :: "runtime \<Rightarrow> (string \<times> string) list \<Rightarrow> nat \<times> json \<Rightarrow> (string \<times> string) list res" where
  "touch R touched ix =
     (let (index, v) = ix in
      if \<not> is_dict v \<or> dget_or ''target'' (JStr ''document'') (dict_of v) \<noteq> JStr ''document''
      then Inl (RevisionArtifactError ''revision artifacts can replace documents only'')
      else rbind (require_artifact_string (dget ''document_id'' (dict_of v))
             (''operations['' @ show_nat index @ ''].document_id'')) (\<lambda>document_id.
           rbind (require_artifact_string (dget ''path'' (dict_of v))
             (''operations['' @ show_nat index @ ''].path'')) (\<lambda>path.
           if \<not> safe_path R path
           then Inl (RevisionArtifactError ''resolution path contains unsafe or non-canonical segments'')
           else if hd (split_char CHR ''.'' path) \<in> set PROTECTED_ROOTS
              \<or> hd (split_char CHR ''.'' path) \<notin> set ALLOWED_FACT_ROOTS
           then Inl (RevisionArtifactError (''resolution path targets protected/generated field: '' @ path))
           else (case map_of touched (normalized_identity R document_id) of
                   None \<Rightarrow> Inr ((normalized_identity R document_id, document_id) # touched)
                 | Some previous \<Rightarrow>
                     if previous \<noteq> document_id
                     then Inl (RevisionArtifactError ''normalized duplicate touched document_id'')
                     else Inr touched))))"

definition validate_resolution_operation_paths :: "runtime \<Rightarrow> json \<Rightarrow> string list res" where
  "validate_resolution_operation_paths R operations =
     (if \<not> is_list operations \<or> list_of operations = []
      then Inl (RevisionArtifactError ''resolution operations must be a non-empty list'')
      else rbind (rfold (touch R) [] (zip [0..<length (list_of operations)] (list_of operations))) (\<lambda>touched.
        Inr (map snd (sort_key fst touched))))"

section \<open>The case after a resolution\<close>

text \<open>\<open>{item["document_id"]: item for item in documents}\<close>, in the order of first insertion.\<close>

fun put_document :: "json \<Rightarrow> json \<Rightarrow> (json \<times> json) list \<Rightarrow> (json \<times> json) list" where
  "put_document k d [] = [(k, d)]"
| "put_document k d ((k', d') # ds) = (if py_eq k k' then (k', d) # ds else (k', d') # put_document k d ds)"

definition add_document :: "(json \<times> json) list \<Rightarrow> json \<Rightarrow> (json \<times> json) list res" where
  "add_document ds d = rbind (document_key d) (\<lambda>k. Inr (put_document k d ds))"

fun find_document :: "json \<Rightarrow> (json \<times> json) list \<Rightarrow> json option" where
  "find_document k [] = None"
| "find_document k ((k', d) # ds) = (if py_eq k k' then Some d else find_document k ds)"

definition FACT_KEYS :: "string list" where
  "FACT_KEYS = [''document_id'', ''document_type'', ''revision'', ''status'', ''owner'', ''revision_date'', ''fields'']"

definition same_facts :: "json \<Rightarrow> json \<Rightarrow> bool" where
  "same_facts expected rebuilt \<longleftrightarrow>
     list_all (\<lambda>k. py_eq (dget k (dict_of expected)) (dget k (dict_of rebuilt))) FACT_KEYS"

definition replace_document :: "(json \<times> json) list \<Rightarrow> json \<Rightarrow> (json \<times> json) list res" where
  "replace_document ds rebuilt =
     (let k = dget ''document_id'' (dict_of rebuilt) in
      case find_document k ds of
        None \<Rightarrow> Inl (RevisionArtifactError (''rebuilt artifact facts differ from approved patch for '' @ str_of k))
      | Some expected \<Rightarrow>
          if \<not> same_facts expected rebuilt
          then Inl (RevisionArtifactError (''rebuilt artifact facts differ from approved patch for '' @ str_of k))
          else Inr (put_document k rebuilt ds))"

definition rebuilt_agree :: "runtime \<Rightarrow> json list \<Rightarrow> string list \<Rightarrow> bool" where
  "rebuilt_agree R rebuilt index_ids \<longleftrightarrow>
     (let ids = map (\<lambda>d. dget ''document_id'' (dict_of d)) rebuilt in
      list_all is_str ids \<and> JStr [] \<notin> set ids \<and> distinct (map str_of ids)
      \<and> distinct (map (normalized_identity R) (map str_of ids)) \<and> length ids = length index_ids
      \<and> set (map str_of ids) = set index_ids)"

definition covers_operations :: "runtime \<Rightarrow> string list \<Rightarrow> string list \<Rightarrow> bool" where
  "covers_operations R touched index_ids \<longleftrightarrow>
     set (map (normalized_identity R) touched) = set (map (normalized_identity R) index_ids)
     \<and> length touched = length index_ids"

definition resolution_mutation :: "string \<Rightarrow> json \<Rightarrow> json" where
  "resolution_mutation resolution_id operations =
     JDict [(''mutation_id'', JStr (''resolution:'' @ resolution_id)), (''operations'', operations)]"

text \<open>The proposed case with the rebuilt documents in the place of the patched ones.\<close>

definition rebuild_documents :: "runtime \<Rightarrow> artifact_context \<Rightarrow> dict \<Rightarrow> dict res" where
  "rebuild_documents R x proposed =
     rbind (ditem ''documents'' proposed) (\<lambda>v.
     rbind (iter v) (\<lambda>docs.
     rbind (rfold add_document [] docs) (\<lambda>by_id.
     rbind (context_documents R x) (\<lambda>rebuilt.
     if \<not> rebuilt_agree R rebuilt (map ae_document_id (ax_index x))
     then Inl (RevisionArtifactError ''sealed artifact documents do not exactly match its artifact index'')
     else rbind (rfold replace_document by_id rebuilt) (\<lambda>by_id'.
       Inr (dset ''documents'' (JList (map snd by_id')) proposed))))))"

definition same_risk :: "dict \<Rightarrow> dict \<Rightarrow> unit res" where
  "same_risk proposed pre_case =
     rbind (ditem ''event'' proposed) (\<lambda>e. rbind (item ''risk_level'' e) (\<lambda>r.
     rbind (ditem ''event'' pre_case) (\<lambda>e'. rbind (item ''risk_level'' e') (\<lambda>r'.
     require (py_eq r r') (RevisionArtifactError (''resolution blocked; v0.1 resolutions cannot reclassify event risk; ''
       @ ''create a new event revision and approval subject''))))))"

definition resolve_case_from_artifact_context :: "runtime \<Rightarrow> json \<Rightarrow> json \<Rightarrow> json \<Rightarrow> artifact_context \<Rightarrow> dict res" where
  "resolve_case_from_artifact_context R pre_case resolution_id operations x =
     rbind (require (is_dict pre_case) (RevisionArtifactError ''pre-resolution Case must be an exact object'')) (\<lambda>_.
     rbind (require (nonblank_str resolution_id) (RevisionArtifactError ''resolution_id must be a non-empty string'')) (\<lambda>_.
     rbind (require (is_list operations) (RevisionArtifactError ''resolution operations must be an exact list'')) (\<lambda>_.
     rbind (require (ax_sealed x) (RevisionArtifactError
       ''post-resolution Case requires an internally rebuilt artifact context'')) (\<lambda>_.
     rbind (validate_resolution_operation_paths R operations) (\<lambda>touched.
     rbind (require (covers_operations R touched (map ae_document_id (ax_index x)))
       (RevisionArtifactError ''sealed artifact context does not exactly cover resolution operations'')) (\<lambda>_.
     rbind (apply_mutation (dict_of pre_case) (resolution_mutation (str_of resolution_id) operations)) (\<lambda>proposed.
     rbind (rebuild_documents R x proposed) (\<lambda>rebuilt.
     rbind (validate_case R (JDict rebuilt)) (\<lambda>_.
     rbind (same_risk rebuilt (dict_of pre_case)) (\<lambda>_.
     Inr (dset ''applied_resolution'' (JStr (str_of resolution_id)) (dpop ''active_mutation'' rebuilt))))))))))))"

end
