(* ===== verification/Workflow_Gate.thy ===== *)
theory Workflow_Gate
  imports Artifact_Context Authenticity Validation_Bundle Engine
begin

text \<open>
  The gate of \<open>workflow.py\<close>: which operations and which resolutions are accepted, the exact subject
  an approval is bound to, the approvals of a resolution, and the preview that is never trusted.
  The texts of the exceptions are kept up to the values they quote.
\<close>

section \<open>Constants and exceptions\<close>

definition REQUIRED_APPROVAL_ROLES :: "string list" where
  "REQUIRED_APPROVAL_ROLES = [''PROCESS_OWNER'', ''QUALITY_MANAGER'']"

definition NATIVE_RESOLUTION_KEYS :: "string list" where
  "NATIVE_RESOLUTION_KEYS = [''resolution_id'', ''description'', ''replacement_set_id'', ''operations'']"

definition NATIVE_SET_OPERATION_KEYS :: "string list" where
  "NATIVE_SET_OPERATION_KEYS = [''op'', ''document_id'', ''path'', ''value'']"

text \<open>The subclasses of \<open>ApprovalGateError\<close>, of \<open>ValueError\<close>, and \<open>(KeyError, TypeError, ValueError)\<close>.\<close>

fun is_gate_error :: "exn \<Rightarrow> bool" where
  "is_gate_error (ApprovalGateError _) = True"
| "is_gate_error (ArtifactGateError _) = True"
| "is_gate_error _ = False"

fun is_value_error :: "exn \<Rightarrow> bool" where
  "is_value_error (ValueError _) = True"
| "is_value_error (RevisionArtifactError _) = True"
| "is_value_error e = is_gate_error e"

fun is_rejection :: "exn \<Rightarrow> bool" where
  "is_rejection (KeyError _) = True"
| "is_rejection TypeError = True"
| "is_rejection e = is_value_error e"

text \<open>\<open>except\<close> clauses that raise another exception from the one they catch.\<close>

definition reraise :: "(exn \<Rightarrow> exn) \<Rightarrow> 'a res \<Rightarrow> 'a res" where
  "reraise f r = (case r of Inl e \<Rightarrow> Inl (f e) | Inr x \<Rightarrow> Inr x)"

definition as_gate_error :: "string \<Rightarrow> exn \<Rightarrow> exn" where
  "as_gate_error message e = (if is_rejection e then ApprovalGateError message else e)"

definition as_json_error :: "string \<Rightarrow> exn \<Rightarrow> exn" where
  "as_json_error message e = (if e = TypeError \<or> is_value_error e then ApprovalGateError message else e)"

section \<open>Operations\<close>

definition check_resolution_operation :: "nat \<Rightarrow> json \<Rightarrow> unit res" where
  "check_resolution_operation index v =
     (if \<not> is_dict v
      then Inl (ApprovalGateError (''resolution blocked; operation['' @ show_nat index @ ''] must be an object''))
      else let operation = dict_of v in
        if dget_or ''target'' (JStr ''document'') operation \<noteq> JStr ''document''
        then Inl (ApprovalGateError (''resolution blocked; v0.1 resolutions may modify documents only; ''
          @ ''case/event changes require a new event revision and approval subject''))
        else if \<not> nonblank_str (dget ''document_id'' operation)
        then Inl (ApprovalGateError (''resolution blocked; operation['' @ show_nat index @ ''] requires a document_id''))
        else rbind (hash_in (dget ''op'' operation) [''set'', ''delete'']) (\<lambda>known.
          if \<not> known
          then Inl (ApprovalGateError (''resolution blocked; operation['' @ show_nat index @ ''] has unsupported op''))
          else if \<not> is_str (dget ''path'' operation) \<or> dget ''path'' operation = JStr []
          then Inl (ApprovalGateError (''resolution blocked; operation['' @ show_nat index
            @ ''] requires a non-empty path''))
          else require (dget ''op'' operation \<noteq> JStr ''set'' \<or> dhas ''value'' operation)
            (ApprovalGateError (''resolution blocked; operation['' @ show_nat index @ ''] set requires value''))))"

definition validate_resolution_operations :: "json \<Rightarrow> json list res" where
  "validate_resolution_operations v =
     (if \<not> is_list v then Inl (ApprovalGateError ''resolution blocked; operations must be a list'')
      else if list_of v = []
      then Inl (ApprovalGateError ''resolution blocked; an approved resolution must contain operations'')
      else rbind (check_all check_resolution_operation (list_of v)) (\<lambda>_. Inr (list_of v)))"

definition check_native_operation :: "nat \<Rightarrow> json \<Rightarrow> unit res" where
  "check_native_operation index v =
     (if \<not> is_dict v \<or> \<not> keys_exactly NATIVE_SET_OPERATION_KEYS (dict_of v)
      then Inl (ApprovalGateError (''native resolution operation['' @ show_nat index
        @ ''] must contain the exact set-operation key set''))
      else require (dget ''op'' (dict_of v) = JStr ''set'')
        (ApprovalGateError (''native resolution operation['' @ show_nat index @ ''] op must be set'')))"

definition validate_native_resolution_operations :: "json \<Rightarrow> json list res" where
  "validate_native_resolution_operations v =
     (if \<not> is_list v then Inl (ApprovalGateError ''native resolution operations must be an exact list'')
      else rbind (validate_resolution_operations v) (\<lambda>ops.
           rbind (check_all check_native_operation ops) (\<lambda>_. Inr ops)))"

section \<open>Resolutions\<close>

text \<open>
  \<open>json.loads(json.dumps(value))\<close>: what the printer wrote has no duplicate key and no constant, where
  the reader of the library and the strict one agree.
\<close>

definition json_copy :: "runtime \<Rightarrow> json \<Rightarrow> json res" where
  "json_copy R v = rbind (json_dumps R v) (strict_json_loads R)"

definition check_native_resolution :: "dict \<Rightarrow> unit res" where
  "check_native_resolution d = seq_checks
     [require (nonblank_str (dget ''resolution_id'' d))
        (ApprovalGateError ''native resolution_id must be an exact non-empty string''),
      require (nonblank_str (dget ''description'' d))
        (ApprovalGateError ''native resolution description must be non-empty''),
      require (nonblank_str (dget ''replacement_set_id'' d))
        (ApprovalGateError ''native replacement_set_id must be non-empty''),
      rbind (validate_native_resolution_operations (dget ''operations'' d)) (\<lambda>_. Inr ())]"

definition validate_native_resolution :: "runtime \<Rightarrow> json \<Rightarrow> dict res" where
  "validate_native_resolution R v =
     (if \<not> is_dict v \<or> \<not> keys_exactly NATIVE_RESOLUTION_KEYS (dict_of v)
      then (if is_dict v \<and> dhas ''approvals'' (dict_of v)
            then Inl (ApprovalGateError ''LEGACY_APPROVAL_UNATTESTED: native resolution must not contain legacy approvals'')
            else Inl (ApprovalGateError ''native resolution must contain the exact approval-free key set''))
      else rbind (reraise (as_json_error ''native resolution is not canonical JSON'') (json_copy R v)) (\<lambda>w.
           rbind (check_native_resolution (dict_of w)) (\<lambda>_. Inr (dict_of w))))"

definition migrate_legacy_resolution_to_native :: "runtime \<Rightarrow> json \<Rightarrow> dict res" where
  "migrate_legacy_resolution_to_native R v =
     (if \<not> is_dict v \<or> \<not> keys_exactly (NATIVE_RESOLUTION_KEYS @ [''approvals'']) (dict_of v)
      then Inl (ApprovalGateError ''legacy resolution migration requires the exact R001-style key set'')
      else if \<not> is_list (dget ''approvals'' (dict_of v)) \<or> list_of (dget ''approvals'' (dict_of v)) = []
      then Inl (ApprovalGateError ''legacy resolution migration requires legacy approvals'')
      else validate_native_resolution R (JDict (dpop ''approvals'' (dict_of v))))"

text \<open>The readers of raw bytes; \<open>UnicodeError\<close> is a \<open>ValueError\<close>.\<close>

definition read_raw_json :: "runtime \<Rightarrow> string \<Rightarrow> string \<Rightarrow> json res" where
  "read_raw_json R raw message =
     (if \<not> utf8_valid raw then Inl (ApprovalGateError message)
      else reraise (as_json_error message) (strict_json_loads R raw))"

definition native_resolution_from_bytes :: "runtime \<Rightarrow> string \<Rightarrow> dict res" where
  "native_resolution_from_bytes R raw =
     rbind (read_raw_json R raw ''native resolution bytes are invalid JSON'') (validate_native_resolution R)"

definition raw_exact_object :: "runtime \<Rightarrow> string \<Rightarrow> string \<Rightarrow> dict res" where
  "raw_exact_object R raw label =
     rbind (read_raw_json R raw (label @ '' bytes are invalid JSON'')) (\<lambda>v.
     if is_dict v then Inr (dict_of v) else Inl (ApprovalGateError (label @ '' must be an exact JSON object'')))"

definition approval_assertions_from_bytes :: "runtime \<Rightarrow> string \<Rightarrow> json list res" where
  "approval_assertions_from_bytes R raw =
     rbind (raw_exact_object R raw ''approval assertions'') (\<lambda>d.
     if \<not> keys_exactly [''assertions''] d \<or> \<not> is_list (dget ''assertions'' d)
     then Inl (ApprovalGateError ''approval assertions must contain only an exact assertions array'')
     else if list_of (dget ''assertions'' d) = [] \<or> \<not> list_all is_dict (list_of (dget ''assertions'' d))
     then Inl (ApprovalGateError ''approval assertions must contain exact objects'')
     else Inr (list_of (dget ''assertions'' d)))"

section \<open>The subject of an approval\<close>

definition is_blocked :: "string \<Rightarrow> bool" where
  "is_blocked message \<longleftrightarrow> take 19 message = ''resolution blocked;''"

fun unblock :: "exn \<Rightarrow> exn" where
  "unblock (RevisionArtifactError m) = (if is_blocked m then ApprovalGateError m else RevisionArtifactError m)"
| "unblock e = e"

definition resolved_case_from_context :: "runtime \<Rightarrow> json \<Rightarrow> dict \<Rightarrow> json \<Rightarrow> artifact_context \<Rightarrow> dict res" where
  "resolved_case_from_context R pre_case resolution operations x =
     rbind (ditem ''resolution_id'' resolution) (\<lambda>i.
     reraise unblock (resolve_case_from_artifact_context R pre_case i operations x))"

text \<open>\<open>dict.update\<close>.\<close>

definition dupdate :: "dict \<Rightarrow> dict \<Rightarrow> dict" where
  "dupdate d e = fold (\<lambda>kv d. dset (fst kv) (snd kv) d) e d"

definition subject_head :: "json \<Rightarrow> json \<Rightarrow> json \<Rightarrow> json \<Rightarrow> json \<Rightarrow> json \<Rightarrow> dict" where
  "subject_head resolution_id case_id event_id event_revision case_hash operations =
     [(''resolution_id'', resolution_id), (''case_id'', case_id), (''event_id'', event_id),
      (''event_revision'', event_revision), (''approved_case_hash'', case_hash), (''operations'', operations)]"

definition subject_from_context :: "runtime \<Rightarrow> dict \<Rightarrow> dict \<Rightarrow> dict \<Rightarrow> artifact_context \<Rightarrow> case_identity
    \<Rightarrow> case_identity \<Rightarrow> dict res" where
  "subject_from_context R resolution c resolved x si ri =
     rbind (ditem ''event'' c) (\<lambda>e. rbind (as_dict e) (\<lambda>event.
     rbind (canonical_hash R (JDict c)) (\<lambda>h.
     rbind (validation_approval_policy R c resolved (Some si) (Some ri)) (\<lambda>policy.
     Inr (dset ''validation_policy'' policy (dupdate
       (subject_head (dget ''resolution_id'' resolution) (dget ''case_id'' c) (dget ''event_id'' event)
         (dget ''revision'' event) (JStr h) (dget_or ''operations'' (JList []) resolution))
       (subject_fields x)))))))"

fun artifact_rejected :: "exn \<Rightarrow> exn" where
  "artifact_rejected (RevisionArtifactError m) = ArtifactGateError (''resolution artifact rejected: '' @ m)"
| "artifact_rejected e = e"

definition same_documents :: "string list \<Rightarrow> artifact_context \<Rightarrow> bool" where
  "same_documents touched x \<longleftrightarrow> set touched = set (map ae_document_id (ax_index x))"

definition resolution_subject_from_context :: "runtime \<Rightarrow> dict \<Rightarrow> json \<Rightarrow> artifact_context \<Rightarrow> dict res" where
  "resolution_subject_from_context R resolution pre_case x =
     rbind (require (ax_sealed x) (ArtifactGateError ''approval subject context is not exact and sealed'')) (\<lambda>_.
     rbind (prepare_case R pre_case) (\<lambda>c.
     rbind (validate_resolution_operations (dget ''operations'' resolution)) (\<lambda>ops.
     rbind (require (dget ''replacement_set_id'' resolution = JStr (ax_replacement_set_id x)) (ArtifactGateError
       ''resolution artifact rejected: replacement_set_id differs from sealed context'')) (\<lambda>_.
     rbind (validate_resolution_operation_paths R (JList ops)) (\<lambda>touched.
     rbind (require (same_documents touched x) (ArtifactGateError
       ''resolution artifact rejected: sealed context does not exactly cover operations'')) (\<lambda>_.
     rbind (reraise artifact_rejected (resolved_case_from_context R c resolution (JList ops) x)) (\<lambda>resolved.
     rbind (prepare_validation_case_identity R (dict_of c)) (\<lambda>si.
     rbind (prepare_validation_case_identity R resolved) (\<lambda>ri.
     subject_from_context R resolution (dict_of c) resolved x si ri)))))))))"

definition ARTIFACT_SUBJECT_KEYS :: "string list" where
  "ARTIFACT_SUBJECT_KEYS =
     [''replacement_set_id'', ''artifact_set_hash'', ''artifact_contract_version'', ''case_schema_version'',
      ''parser_contract_version'', ''mapping_contract_version'', ''security_root_policy_version'',
      ''touched_document_artifacts'']"

definition REFERENCE_POLICY_KEYS :: "string list" where
  "REFERENCE_POLICY_KEYS =
     [''reference_contract_version'', ''controlled_reference_set_hash'', ''controlled_reference_source_set_hash'']"

definition pick_keys :: "string list \<Rightarrow> dict \<Rightarrow> json res" where
  "pick_keys ks d = rbind (rmap (\<lambda>k. rbind (ditem k d) (\<lambda>v. Inr (k, v))) ks) (\<lambda>kvs. Inr (JDict kvs))"

definition native_facts :: "dict \<Rightarrow> dict \<Rightarrow> json \<Rightarrow> subject_facts res" where
  "native_facts resolution legacy nonce =
     rbind (ditem ''resolution_id'' resolution) (\<lambda>resolution_id.
     rbind (ditem ''description'' resolution) (\<lambda>description.
     rbind (ditem ''operations'' legacy) (\<lambda>operations.
     rbind (ditem ''case_id'' legacy) (\<lambda>case_id.
     rbind (ditem ''event_id'' legacy) (\<lambda>event_id.
     rbind (ditem ''event_revision'' legacy) (\<lambda>event_revision.
     rbind (ditem ''approved_case_hash'' legacy) (\<lambda>case_hash.
     rbind (pick_keys ARTIFACT_SUBJECT_KEYS legacy) (\<lambda>artifact.
     rbind (pick_keys REFERENCE_POLICY_KEYS legacy) (\<lambda>reference.
     rbind (ditem ''validation_policy'' legacy) (\<lambda>validation.
     Inr \<lparr>sf_resolution_id = resolution_id, sf_description = description, sf_operations = operations,
          sf_case_id = case_id, sf_event_id = event_id, sf_event_revision = event_revision,
          sf_pre_case_subject_hash = case_hash, sf_artifact_subject = artifact, sf_reference_policy = reference,
          sf_validation_policy = validation, sf_roles = JList (map JStr (sort REQUIRED_APPROVAL_ROLES)),
          sf_execution_nonce = nonce, sf_pre_case_source = None\<rparr>))))))))))"

text \<open>The native subject, and the projection for the older gate it was derived from.\<close>

definition native_subject_from_context :: "runtime \<Rightarrow> dict \<Rightarrow> json \<Rightarrow> json \<Rightarrow> artifact_context \<Rightarrow> (dict \<times> dict) res" where
  "native_subject_from_context R resolution pre_case nonce x =
     rbind (resolution_subject_from_context R resolution pre_case x) (\<lambda>legacy.
     rbind (reraise (as_gate_error ''native approval subject derivation failed: '')
       (rbind (native_facts resolution legacy nonce) (derive_approval_subject R))) (\<lambda>subject.
     Inr (subject, legacy)))"

definition resolution_patch_hash_for_subject :: "runtime \<Rightarrow> dict \<Rightarrow> json \<Rightarrow> json \<Rightarrow> json \<Rightarrow> json
    \<Rightarrow> dict option \<Rightarrow> dict option \<Rightarrow> string res" where
  "resolution_patch_hash_for_subject R resolution case_id event_id event_revision case_hash artifact policy =
     (let subject = subject_head (dget ''resolution_id'' resolution) case_id event_id event_revision case_hash
            (dget_or ''operations'' (JList []) resolution);
          subject' = (case artifact of None \<Rightarrow> subject | Some a \<Rightarrow> dupdate subject a);
          subject'' = (case policy of None \<Rightarrow> subject'
            | Some p \<Rightarrow> if p = [] then subject' else dset ''validation_policy'' (JDict p) subject')
      in canonical_hash R (JDict subject''))"

section \<open>The approvals of a resolution\<close>

definition APPROVAL_FIELDS :: "string list" where
  "APPROVAL_FIELDS =
     [''role'', ''decision'', ''case_id'', ''event_id'', ''event_revision'', ''approved_case_hash'', ''approved_patch_hash'']"

definition bound_to :: "dict \<Rightarrow> string \<Rightarrow> dict \<Rightarrow> bool" where
  "bound_to subject patch_hash approval \<longleftrightarrow>
     dget ''decision'' approval = JStr ''APPROVED''
     \<and> list_all (\<lambda>k. py_eq (dget k approval) (dget k subject))
         [''case_id'', ''event_id'', ''event_revision'', ''approved_case_hash'']
     \<and> dget ''approved_patch_hash'' approval = JStr patch_hash"

definition approved_role :: "dict \<Rightarrow> string \<Rightarrow> json \<Rightarrow> bool res" where
  "approved_role subject patch_hash v =
     (if \<not> is_dict v then Inr False
      else rbind (hash_in (dget ''role'' (dict_of v)) REQUIRED_APPROVAL_ROLES) (\<lambda>known.
           Inr (known \<and> bound_to subject patch_hash (dict_of v))))"

definition bound_roles :: "dict \<Rightarrow> dict \<Rightarrow> string \<Rightarrow> string list res" where
  "bound_roles resolution subject patch_hash =
     rbind (iter (dget_or ''approvals'' (JList []) resolution)) (\<lambda>items.
     rbind (rfilter (approved_role subject patch_hash) items) (\<lambda>kept.
     Inr (sort (remdups (map (\<lambda>v. str_of (dget ''role'' (dict_of v))) kept)))))"

definition check_approval :: "dict \<Rightarrow> string \<Rightarrow> string list \<Rightarrow> nat \<times> json \<Rightarrow> string list res" where
  "check_approval subject patch_hash seen iv =
     (let (index, v) = iv; approval = dict_of v; here = ''resolution blocked; approval['' @ show_nat index @ '']'' in
      if \<not> has_keys APPROVAL_FIELDS approval then Inl (ApprovalGateError (here @ '' missing fields: ''))
      else rbind (hash_in (dget ''role'' approval) REQUIRED_APPROVAL_ROLES) (\<lambda>known.
        if \<not> known then Inl (ApprovalGateError (here @ '' has unauthorized-role ''))
        else if str_of (dget ''role'' approval) \<in> set seen
        then Inl (ApprovalGateError (''resolution blocked; duplicate approval role: '' @ str_of (dget ''role'' approval)))
        else if dget ''decision'' approval \<noteq> JStr ''APPROVED''
        then Inl (ApprovalGateError (here @ '' decision is not APPROVED''))
        else if \<not> py_eq (dget ''case_id'' approval) (dget ''case_id'' subject)
           \<or> \<not> py_eq (dget ''event_id'' approval) (dget ''event_id'' subject)
        then Inl (ApprovalGateError ''resolution blocked; approval is bound to a different case/event subject'')
        else if \<not> py_eq (dget ''event_revision'' approval) (dget ''event_revision'' subject)
        then Inl (ApprovalGateError ''resolution blocked; approval is bound to a different event revision'')
        else if \<not> py_eq (dget ''approved_case_hash'' approval) (dget ''approved_case_hash'' subject)
        then Inl (ApprovalGateError ''resolution blocked; approval is bound to a different exact case snapshot'')
        else if dget ''approved_patch_hash'' approval \<noteq> JStr patch_hash
        then Inl (ApprovalGateError ''resolution blocked; approval patch hash does not bind the supplied operations'')
        else if dhas ''comment'' approval \<and> \<not> is_str (dget ''comment'' approval)
        then Inl (ApprovalGateError (here @ '' comment must be a string''))
        else Inr (str_of (dget ''role'' approval) # seen)))"

definition validate_resolution_approvals :: "dict \<Rightarrow> dict \<Rightarrow> string \<Rightarrow> string list res" where
  "validate_resolution_approvals resolution subject patch_hash =
     (let v = dget ''approvals'' resolution in
      if \<not> is_list v \<or> list_of v = [] \<or> \<not> list_all is_dict (list_of v)
      then Inl (ApprovalGateError ''resolution blocked; approvals must be a non-empty list of records'')
      else rbind (rfold (check_approval subject patch_hash) [] (zip [0..<length (list_of v)] (list_of v))) (\<lambda>_.
           bound_roles resolution subject patch_hash))"

section \<open>The preview\<close>

record proposal_preview =
  pp_resolution_id :: string
  pp_proposal_id :: string
  pp_findings :: "(string \<times> string \<times> string) list"
  pp_state :: string
  pp_trusted :: bool
  pp_eligible_for_baseline :: bool

definition proposal_subject :: "dict \<Rightarrow> dict \<Rightarrow> string \<Rightarrow> json \<Rightarrow> json list \<Rightarrow> json res" where
  "proposal_subject c event h resolution_id ops =
     rbind (ditem ''case_id'' c) (\<lambda>case_id.
     rbind (ditem ''event_id'' event) (\<lambda>event_id.
     rbind (ditem ''revision'' event) (\<lambda>revision.
     Inr (JDict [(''state'', JStr ''PROPOSED_UNATTESTED''), (''case_id'', case_id), (''event_id'', event_id),
       (''event_revision'', revision), (''case_hash'', JStr h), (''resolution_id'', resolution_id),
       (''operations'', JList ops)]))))"

definition preview_resolution :: "runtime \<Rightarrow> json \<Rightarrow> json \<Rightarrow> proposal_preview res" where
  "preview_resolution R v resolution =
     rbind (prepare_case R v) (\<lambda>c.
     rbind (require (is_dict resolution) (ApprovalGateError ''resolution blocked; resolution must be an object'')) (\<lambda>_.
     let r = dict_of resolution; i = dget ''resolution_id'' r in
     rbind (require (nonblank_str i) (ApprovalGateError ''resolution blocked; resolution_id is missing'')) (\<lambda>_.
     rbind (require (nonblank_str (dget ''description'' r))
       (ApprovalGateError ''resolution blocked; description must be a non-empty string'')) (\<lambda>_.
     rbind (validate_resolution_operations (dget ''operations'' r)) (\<lambda>ops.
     rbind (apply_mutation (dict_of c) (JDict
       [(''mutation_id'', JStr (''proposal:'' @ str_of i)), (''operations'', JList ops)])) (\<lambda>proposed.
     rbind (validate_case R (JDict proposed)) (\<lambda>_.
     rbind (run_case R (JDict proposed)) (\<lambda>result.
     rbind (ditem ''event'' (dict_of c)) (\<lambda>e. rbind (as_dict e) (\<lambda>event.
     rbind (canonical_hash R c) (\<lambda>h.
     rbind (proposal_subject (dict_of c) event h i ops) (\<lambda>subject.
     rbind (canonical_hash R subject) (\<lambda>g.
     Inr \<lparr>pp_resolution_id = str_of i,
          pp_proposal_id = take 16 (sha256_hex (''QualityCI/proposal-preview/v1'' @ [CHR 0x00] @ g)),
          pp_findings = map (\<lambda>f. (f_rule_id f, status_text (f_status f), f_summary f)) (rr_findings result),
          pp_state = ''PROPOSED_UNATTESTED'', pp_trusted = False,
          pp_eligible_for_baseline = False\<rparr>)))))))))))))"

end
