(* ===== verification/Workflow_Replay.thy ===== *)
theory Workflow_Replay
  imports Workflow_Gate
begin

text \<open>
  The replay of an approved resolution in \<open>workflow.py\<close>: the attestation against the artifact
  context, the two runs and the baseline, and the native entry that reaches them only through signed
  authorizations.  The office documents of the replacement artifacts and the capture of the
  controlled references are not modelled: how a context is rebuilt from them, whether a context
  belongs to them and the reference context they give are the first three fields of the material.
\<close>

section \<open>Attestation\<close>

record replay_material =
  rm_rebuild :: "json \<Rightarrow> json \<Rightarrow> artifact_context res"
  rm_matches :: "artifact_context \<Rightarrow> bool"
  rm_reference :: "reference_context res"
  rm_source_validation :: evidence_bundle
  rm_resolved_validation :: evidence_bundle

record attested_resolution =
  ar_resolved_case_json :: string
  ar_roles :: "string list"
  ar_context :: artifact_context
  ar_before_reference :: reference_context
  ar_source_identity :: case_identity
  ar_resolved_identity :: case_identity
  ar_subject_json :: string
  ar_patch_hash :: string

definition attested_value :: "runtime \<Rightarrow> string \<Rightarrow> string \<Rightarrow> dict res" where
  "attested_value R raw message =
     (if \<not> utf8_valid raw then Inl (ValueError ''invalid UTF-8'')
      else rbind (strict_json_loads R raw) (\<lambda>v.
        if is_dict v then Inr (dict_of v) else Inl (ArtifactGateError message)))"

definition attested_case :: "runtime \<Rightarrow> attested_resolution \<Rightarrow> dict res" where
  "attested_case R a = attested_value R (ar_resolved_case_json a) ''internal attested resolved case is invalid''"

definition attested_subject :: "runtime \<Rightarrow> attested_resolution \<Rightarrow> dict res" where
  "attested_subject R a = attested_value R (ar_subject_json a) ''internal attested approval subject is invalid''"

definition check_resolution_header :: "dict \<Rightarrow> json \<Rightarrow> unit res" where
  "check_resolution_header event resolution =
     rbind (require (is_dict resolution) (ApprovalGateError ''resolution blocked; resolution must be an object'')) (\<lambda>_.
     rbind (hash_in (dget ''risk_level'' event) [''LOW'', ''MEDIUM'', ''HIGH'']) (\<lambda>known. seq_checks
       [require known (ApprovalGateError ''resolution blocked; event risk_level is missing or unsupported''),
        require (nonblank_str (dget ''resolution_id'' (dict_of resolution)))
          (ApprovalGateError ''resolution blocked; resolution_id is missing''),
        require (nonblank_str (dget ''description'' (dict_of resolution)))
          (ApprovalGateError ''resolution blocked; description must be a non-empty string'')]))"

text \<open>The context of the artifacts, rebuilt or handed on from the same call.\<close>

definition select_context :: "runtime \<Rightarrow> replay_material \<Rightarrow> json \<Rightarrow> dict \<Rightarrow> json \<Rightarrow> artifact_context option
    \<Rightarrow> artifact_context res" where
  "select_context R M c resolution operations given =
     rbind (validate_resolution_operation_paths R operations) (\<lambda>touched.
     rbind (case given of
         None \<Rightarrow> rm_rebuild M c operations
       | Some x \<Rightarrow>
           if \<not> rm_matches M x then Inl (RevisionArtifactError ''internal artifact context has an invalid type'')
           else if \<not> same_documents touched x
           then Inl (RevisionArtifactError ''internal artifact context does not cover the exact operations'')
           else Inr x) (\<lambda>x.
     rbind (require (dget ''replacement_set_id'' resolution = JStr (ax_replacement_set_id x)) (RevisionArtifactError
       ''resolution replacement_set_id does not match captured artifact bundle'')) (\<lambda>_. Inr x)))"

text \<open>A \<open>RevisionArtifactError\<close> is caught before the wider clause, which also catches gate errors.\<close>

definition resolution_failure :: "exn \<Rightarrow> exn" where
  "resolution_failure e =
     (case e of
        RevisionArtifactError m \<Rightarrow> ArtifactGateError (''resolution artifact rejected: '' @ m)
      | _ \<Rightarrow> as_gate_error ''resolution blocked; resolved case fails validation: '' e)"

definition check_roles_for_risk :: "dict \<Rightarrow> string list \<Rightarrow> unit res" where
  "check_roles_for_risk event roles = seq_checks
     [require (roles \<noteq> []) (ApprovalGateError (''resolution blocked; no authorized-role approval is bound ''
        @ ''to the current event revision and patch hash'')),
      require (dget ''risk_level'' event \<noteq> JStr ''HIGH'' \<or> set REQUIRED_APPROVAL_ROLES \<subseteq> set roles)
        (ApprovalGateError ''resolution blocked; missing current-event, patch-bound approvals: '')]"

definition prepared_event :: "json \<Rightarrow> dict res" where
  "prepared_event c = rbind (ditem ''event'' (dict_of c)) as_dict"

definition attest_approved_resolution :: "runtime \<Rightarrow> replay_material \<Rightarrow> json \<Rightarrow> json \<Rightarrow> artifact_context option
    \<Rightarrow> attested_resolution res" where
  "attest_approved_resolution R M v resolution given =
     rbind (prepare_case R v) (\<lambda>c.
     rbind (rm_reference M) (\<lambda>before.
     rbind (prepared_event c) (\<lambda>event.
     rbind (check_resolution_header event resolution) (\<lambda>_.
     let r = dict_of resolution in
     rbind (validate_resolution_operations (dget ''operations'' r)) (\<lambda>ops.
     rbind (reraise artifact_rejected (select_context R M c r (JList ops) given)) (\<lambda>x.
     rbind (reraise resolution_failure (resolved_case_from_context R c r (JList ops) x)) (\<lambda>resolved.
     rbind (prepare_validation_case_identity R (dict_of c)) (\<lambda>si.
     rbind (prepare_validation_case_identity R resolved) (\<lambda>ri.
     rbind (subject_from_context R r (dict_of c) resolved x si ri) (\<lambda>subject.
     rbind (canonical_hash R (JDict subject)) (\<lambda>patch_hash.
     rbind (validate_resolution_approvals r subject patch_hash) (\<lambda>roles.
     rbind (check_roles_for_risk event roles) (\<lambda>_.
     rbind (canonical_bytes R (JDict resolved)) (\<lambda>case_json.
     rbind (canonical_bytes R (JDict subject)) (\<lambda>subject_json.
     Inr \<lparr>ar_resolved_case_json = case_json, ar_roles = sort roles, ar_context = x, ar_before_reference = before,
          ar_source_identity = si, ar_resolved_identity = ri, ar_subject_json = subject_json,
          ar_patch_hash = patch_hash\<rparr>)))))))))))))))"

text \<open>The public entries of the older surface are disabled.\<close>

definition attest_legacy :: "'a res" where
  "attest_legacy = Inl (ApprovalGateError
     ''LEGACY_APPROVAL_UNATTESTED: public legacy attestation is disabled; use replay_with_native_approval'')"

definition apply_approved_resolution :: "'a res" where
  "apply_approved_resolution = Inl (ApprovalGateError
     ''LEGACY_APPROVAL_UNATTESTED: public legacy apply is disabled; use replay_with_native_approval'')"

definition replay_with_resolution :: "'a res" where
  "replay_with_resolution = Inl (ApprovalGateError
     ''LEGACY_APPROVAL_UNATTESTED: public legacy replay is disabled; use replay_with_native_approval'')"

section \<open>The replay\<close>

record baseline_record =
  bl_baseline_id :: string
  bl_case_id :: json
  bl_source_run_id :: json
  bl_case_hash :: json
  bl_ruleset_version :: json
  bl_resolution_id :: json
  bl_approved_case_hash :: json
  bl_approved_event_id :: json
  bl_approved_event_revision :: json
  bl_approved_patch_hash :: string
  bl_approved_roles :: "string list"
  bl_artifact_set_hash :: string
  bl_reference_set_hash :: string
  bl_reference_version :: string
  bl_source_evidence_set_hash :: string
  bl_resolved_evidence_set_hash :: string
  bl_evidence_pair_hash :: string
  bl_evidence_version :: string
  bl_artifact_version :: string
  bl_case_schema_version :: string
  bl_parser_version :: string
  bl_mapping_version :: string
  bl_security_version :: string
  bl_touched_artifacts :: "json list"
  bl_status :: string

record replay_result =
  rp_before :: run_result
  rp_after :: run_result
  rp_baseline :: "baseline_record option"
  rp_resolution_id :: json
  rp_artifact_set_hash :: string
  rp_reference_set_hash :: string
  rp_source_evidence_set_hash :: string
  rp_resolved_evidence_set_hash :: string
  rp_evidence_pair_hash :: string
  rp_assurance_state :: string

definition baseline_id :: "runtime \<Rightarrow> run_result \<Rightarrow> json \<Rightarrow> string \<Rightarrow> string list \<Rightarrow> string res" where
  "baseline_id R after resolution_id patch_hash roles =
     rbind (canonical_hash R (JList (map JStr roles))) (\<lambda>h.
     let seed = py_str R (rr_run_id after) @ '':'' @ py_str R resolution_id @ '':'' @ patch_hash @ '':'' @ h in
     if utf8_valid seed then Inr (take 16 (sha256_hex seed)) else Inl (ValueError ''surrogates not allowed''))"

definition make_baseline :: "runtime \<Rightarrow> run_result \<Rightarrow> json \<Rightarrow> attested_resolution \<Rightarrow> dict \<Rightarrow> validation_context
    \<Rightarrow> validation_context \<Rightarrow> string \<Rightarrow> baseline_record res" where
  "make_baseline R after resolution_id a subject source resolved pair_hash =
     (let x = ar_context a in
      rbind (baseline_id R after resolution_id (ar_patch_hash a) (ar_roles a)) (\<lambda>i.
      rbind (ditem ''approved_case_hash'' subject) (\<lambda>case_hash.
      rbind (ditem ''event_id'' subject) (\<lambda>event_id.
      rbind (ditem ''event_revision'' subject) (\<lambda>revision.
      case ax_reference_context x of
        None \<Rightarrow> Inl AttributeError
      | Some r \<Rightarrow> Inr
        \<lparr>bl_baseline_id = i, bl_case_id = rr_case_id after, bl_source_run_id = rr_run_id after,
         bl_case_hash = rr_case_hash after, bl_ruleset_version = rr_ruleset_version after,
         bl_resolution_id = resolution_id, bl_approved_case_hash = case_hash, bl_approved_event_id = event_id,
         bl_approved_event_revision = revision, bl_approved_patch_hash = ar_patch_hash a,
         bl_approved_roles = ar_roles a, bl_artifact_set_hash = ax_artifact_set_hash x,
         bl_reference_set_hash = rc_reference_set_hash r, bl_reference_version = rc_contract_version r,
         bl_source_evidence_set_hash = vc_evidence_set_hash source,
         bl_resolved_evidence_set_hash = vc_evidence_set_hash resolved, bl_evidence_pair_hash = pair_hash,
         bl_evidence_version = VALIDATION_EVIDENCE_CONTRACT_VERSION, bl_artifact_version = ax_artifact_version x,
         bl_case_schema_version = ax_case_schema_version x, bl_parser_version = ax_parser_version x,
         bl_mapping_version = ax_mapping_version x, bl_security_version = ax_security_version x,
         bl_touched_artifacts = map index_entry_dict (ax_index x), bl_status = ''BASELINED''\<rparr>)))))"

definition run_resolved :: "runtime \<Rightarrow> dict \<Rightarrow> artifact_context \<Rightarrow> validation_context \<Rightarrow> run_result res" where
  "run_resolved R resolved x vc =
     (case ax_reference_context x of
        None \<Rightarrow> run_case R (JDict resolved)
      | Some r \<Rightarrow> run_case_with_reference_context R (JDict resolved) r (Some vc))"

definition replay_attested_resolution :: "runtime \<Rightarrow> json \<Rightarrow> dict \<Rightarrow> attested_resolution \<Rightarrow> validation_context
    \<Rightarrow> validation_context \<Rightarrow> replay_result res" where
  "replay_attested_resolution R v resolution a source resolved =
     rbind (prepare_case R v) (\<lambda>c.
     rbind (run_case_with_reference_context R c (ar_before_reference a) (Some source)) (\<lambda>before.
     rbind (attested_case R a) (\<lambda>resolved_case.
     rbind (attested_subject R a) (\<lambda>subject.
     rbind (run_resolved R resolved_case (ar_context a) resolved) (\<lambda>after.
     rbind (validation_evidence_pair_hash R source resolved) (\<lambda>pair_hash.
     rbind (ditem ''resolution_id'' resolution) (\<lambda>i.
     rbind (if rr_overall_status after = PASS
            then rbind (make_baseline R after i a subject source resolved pair_hash) (\<lambda>b. Inr (Some b))
            else Inr None) (\<lambda>baseline.
     case ax_reference_context (ar_context a) of
       None \<Rightarrow> Inl AttributeError
     | Some r \<Rightarrow> Inr
         \<lparr>rp_before = before, rp_after = after, rp_baseline = baseline, rp_resolution_id = i,
          rp_artifact_set_hash = ax_artifact_set_hash (ar_context a),
          rp_reference_set_hash = rc_reference_set_hash r,
          rp_source_evidence_set_hash = vc_evidence_set_hash source,
          rp_resolved_evidence_set_hash = vc_evidence_set_hash resolved,
          rp_evidence_pair_hash = pair_hash, rp_assurance_state = ''ATTESTED_REPLACEMENT''\<rparr>))))))))"

definition validation_rejected :: "exn \<Rightarrow> exn" where
  "validation_rejected e =
     (if e = TypeError \<or> is_value_error e then ArtifactGateError ''resolution validation artifacts rejected: '' else e)"

definition replay_contexts :: "runtime \<Rightarrow> replay_material \<Rightarrow> dict \<Rightarrow> dict \<Rightarrow> attested_resolution
    \<Rightarrow> (validation_context \<times> validation_context) res" where
  "replay_contexts R M c resolved a =
     reraise validation_rejected
       (rbind (prepare_validation_evidence_context R (rm_source_validation M) c ''SOURCE''
          (Some (ar_source_identity a))) (\<lambda>source.
        rbind (prepare_validation_evidence_context R (rm_resolved_validation M) resolved ''RESOLVED''
          (Some (ar_resolved_identity a))) (\<lambda>after. Inr (source, after))))"

definition replay_with_validated_native_approval :: "runtime \<Rightarrow> replay_material \<Rightarrow> json \<Rightarrow> dict \<Rightarrow> artifact_context
    \<Rightarrow> replay_result res" where
  "replay_with_validated_native_approval R M v resolution x =
     rbind (require (rm_matches M x) (ArtifactGateError
       ''resolution blocked; internal artifact context differs from raw bundle'')) (\<lambda>_.
     rbind (prepare_case R v) (\<lambda>c.
     rbind (attest_approved_resolution R M c (JDict resolution) (Some x)) (\<lambda>a.
     rbind (attested_case R a) (\<lambda>resolved.
     rbind (replay_contexts R M (dict_of c) resolved a) (\<lambda>sr.
     replay_attested_resolution R c resolution a (fst sr) (snd sr))))))"

section \<open>The native entry\<close>

record approval_sidecar =
  as_subject_hash :: string
  as_assertion_hashes :: "string list"
  as_approved_roles :: "string list"
  as_record_set_hash :: string
  as_record_set_version :: string
  as_authenticity_state :: string
  as_authenticity_context_hash :: string
  as_authenticity_binding_hash :: string
  as_trust_snapshot_hash :: string
  as_trust_snapshot_version :: string
  as_trust_policy_hash :: string
  as_trust_policy_version :: string
  as_execution_nonce :: json
  as_use_policy :: json
  as_single_use_status :: string
  as_single_use_verified :: bool
  as_consumption_evidence :: bool

definition APPROVAL_ASSERTION_SET_DOMAIN :: string where
  "APPROVAL_ASSERTION_SET_DOMAIN = ''QualityCI/approval-assertion-set/v1'' @ [CHR 0x00]"

definition stateless_approval_sidecar :: "runtime \<Rightarrow> dict \<Rightarrow> approval_validation \<Rightarrow> authenticity_context
    \<Rightarrow> replay_result \<Rightarrow> approval_sidecar res" where
  "stateless_approval_sidecar R subject v x replay =
     rbind (approval_subject_hash R (JDict subject)) (\<lambda>h.
     rbind (require (av_subject_hash v = h) (ApprovalGateError ''internal approval subject identity mismatch'')) (\<lambda>_.
     rbind (domain_hash R APPROVAL_ASSERTION_SET_DOMAIN (JList (map JStr (sort (av_assertion_hashes v))))) (\<lambda>set_hash.
     rbind (canonical_hash R (JDict (run_result_items (rp_after replay)))) (\<lambda>run_hash.
     rbind (authenticity_binding_hash R (av_subject_hash v) set_hash (au_context_hash x)
       (rr_case_hash (rp_after replay)) run_hash) (\<lambda>binding.
     rbind (ditem ''execution_nonce'' subject) (\<lambda>nonce.
     rbind (ditem ''use_policy'' subject) (\<lambda>policy.
     Inr \<lparr>as_subject_hash = av_subject_hash v, as_assertion_hashes = av_assertion_hashes v,
          as_approved_roles = av_approved_roles v, as_record_set_hash = av_record_set_hash v,
          as_record_set_version = av_record_set_version v, as_authenticity_state = au_state x,
          as_authenticity_context_hash = au_context_hash x, as_authenticity_binding_hash = binding,
          as_trust_snapshot_hash = au_trust_snapshot_hash x,
          as_trust_snapshot_version = au_trust_snapshot_version x, as_trust_policy_hash = au_trust_policy_hash x,
          as_trust_policy_version = au_trust_policy_version x, as_execution_nonce = nonce, as_use_policy = policy,
          as_single_use_status = av_single_use_status v, as_single_use_verified = av_single_use_verified v,
          as_consumption_evidence = False\<rparr>)))))))"

text \<open>The material that a validated native approval consists of.\<close>

record native_approval =
  na_resolution :: dict
  na_subject :: dict
  na_authenticity :: authenticity_context
  na_artifacts :: artifact_context
  na_legacy_subject :: dict
  na_validation :: approval_validation

definition native_rejected :: "exn \<Rightarrow> exn" where
  "native_rejected e = (if is_gate_error e then e else as_gate_error ''native approval rejected: '' e)"

definition validate_native_approval :: "runtime \<Rightarrow> signature_check \<Rightarrow> replay_material \<Rightarrow> json \<Rightarrow> json \<Rightarrow> json \<Rightarrow> json
    \<Rightarrow> authorization_bundle \<Rightarrow> string \<Rightarrow> native_approval res" where
  "validate_native_approval R verify M v resolution subject assertions b snapshot_bytes =
     rbind (validate_native_resolution R resolution) (\<lambda>native.
     rbind (validate_approval_subject R subject) (\<lambda>candidate.
     rbind (prepare_authenticity_context R verify b snapshot_bytes) (\<lambda>x.
     rbind (require (au_state x = AUTHENTICITY_PASS)
       (ApprovalGateError (''authorization authenticity is not PASS: '' @ au_state x))) (\<lambda>_.
     rbind (prepare_case R v) (\<lambda>c.
     rbind (ditem ''operations'' native) (\<lambda>operations.
     rbind (rm_rebuild M c operations) (\<lambda>artifacts.
     rbind (ditem ''execution_nonce'' candidate) (\<lambda>nonce.
     rbind (native_subject_from_context R native c nonce artifacts) (\<lambda>(expected, legacy).
     rbind (validate_expected_subject R (JDict candidate) (Some (JDict expected))) (\<lambda>_.
     rbind (validate_approval_assertions R (JDict candidate) assertions (au_record_context x)) (\<lambda>validation.
     rbind (require_authenticated_assertion_records R assertions x) (\<lambda>_.
     Inr \<lparr>na_resolution = native, na_subject = candidate, na_authenticity = x, na_artifacts = artifacts,
          na_legacy_subject = legacy, na_validation = validation\<rparr>))))))))))))"

text \<open>The adapter: one approval for each validated role, bound to the older subject.\<close>

definition adapted_approval :: "dict \<Rightarrow> string \<Rightarrow> string \<Rightarrow> json" where
  "adapted_approval legacy patch_hash role = JDict
     [(''role'', JStr role), (''decision'', JStr ''APPROVED''), (''case_id'', dget ''case_id'' legacy),
      (''event_id'', dget ''event_id'' legacy), (''event_revision'', dget ''event_revision'' legacy),
      (''approved_case_hash'', dget ''approved_case_hash'' legacy), (''approved_patch_hash'', JStr patch_hash)]"

definition adapt_resolution :: "runtime \<Rightarrow> native_approval \<Rightarrow> dict res" where
  "adapt_resolution R n =
     rbind (json_copy R (JDict (na_resolution n))) (\<lambda>copied.
     rbind (canonical_hash R (JDict (na_legacy_subject n))) (\<lambda>patch_hash.
     Inr (dset ''approvals'' (JList (map (adapted_approval (na_legacy_subject n) patch_hash)
       (av_approved_roles (na_validation n)))) (dict_of copied))))"

definition replay_with_native_approval :: "runtime \<Rightarrow> signature_check \<Rightarrow> replay_material \<Rightarrow> json \<Rightarrow> json
    \<Rightarrow> json option \<Rightarrow> json option \<Rightarrow> authorization_bundle \<Rightarrow> string \<Rightarrow> (replay_result \<times> approval_sidecar) res" where
  "replay_with_native_approval R verify M v resolution subject assertions b snapshot_bytes =
     (case (subject, assertions) of
        (Some s, Some as) \<Rightarrow>
          rbind (reraise native_rejected (validate_native_approval R verify M v resolution s as b snapshot_bytes)) (\<lambda>n.
          rbind (adapt_resolution R n) (\<lambda>adapted.
          rbind (replay_with_validated_native_approval R M v adapted (na_artifacts n)) (\<lambda>replay.
          rbind (stateless_approval_sidecar R (na_subject n) (na_validation n) (na_authenticity n) replay) (\<lambda>sidecar.
          Inr (replay, sidecar)))))
      | _ \<Rightarrow> Inl (ApprovalGateError (''LEGACY_APPROVAL_UNATTESTED: native replay requires a versioned ''
          @ ''ApprovalSubject, ApprovalAssertions, exact raw authorization bundle, ''
          @ ''and exact raw authorization trust snapshot'')))"

end
