(* ===== verification/Workflow_Facts.thy ===== *)
theory Workflow_Facts
  imports Workflow_Replay Approval_Facts
begin

text \<open>
  Lemmas on the gate: the checks of operations and approvals as predicates on their members, and the
  approvals that the adapter writes.
\<close>

section \<open>Operations\<close>

lemma check_resolution_operation_Inr:
  "check_resolution_operation i v = Inr u \<Longrightarrow>
     is_dict v \<and> dget_or ''target'' (JStr ''document'') (dict_of v) = JStr ''document''
     \<and> nonblank_str (dget ''document_id'' (dict_of v)) \<and> str_in (dget ''op'' (dict_of v)) [''set'', ''delete'']
     \<and> is_str (dget ''path'' (dict_of v)) \<and> dget ''path'' (dict_of v) \<noteq> JStr []
     \<and> (dget ''op'' (dict_of v) = JStr ''set'' \<longrightarrow> dhas ''value'' (dict_of v))"
  by (auto simp: check_resolution_operation_def rbind_Inr_iff require_Inr Let_def split: if_splits elim: hash_in.elims)

definition native_operation :: "json \<Rightarrow> bool" where
  "native_operation v \<longleftrightarrow>
     is_dict v \<and> keys_exactly NATIVE_SET_OPERATION_KEYS (dict_of v) \<and> dget ''op'' (dict_of v) = JStr ''set''
     \<and> nonblank_str (dget ''document_id'' (dict_of v))
     \<and> is_str (dget ''path'' (dict_of v)) \<and> dget ''path'' (dict_of v) \<noteq> JStr []"

lemma validate_native_operations_Inr:
  assumes "validate_native_resolution_operations v = Inr ops"
  shows "v = JList ops" "ops \<noteq> []" "list_all native_operation ops"
proof -
  have v: "is_list v" and r: "validate_resolution_operations v = Inr ops"
    and n: "check_all check_native_operation ops = Inr ()"
    using assms by (auto simp: validate_native_resolution_operations_def rbind_Inr_iff split: if_splits)
  from r show "v = JList ops" "ops \<noteq> []"
    by (cases v; auto simp: validate_resolution_operations_def rbind_Inr_iff split: if_splits)+
  from r have c: "check_all check_resolution_operation ops = Inr ()"
    by (auto simp: validate_resolution_operations_def rbind_Inr_iff split: if_splits)
  show "list_all native_operation ops"
    unfolding list_all_iff
  proof
    fix w assume w: "w \<in> set ops"
    obtain i where "check_native_operation i w = Inr ()" using check_all_InrD[OF n w] by blast
    moreover obtain j where "check_resolution_operation j w = Inr ()" using check_all_InrD[OF c w] by blast
    ultimately show "native_operation w"
      by (auto simp: native_operation_def check_native_operation_def require_Inr split: if_splits
          dest: check_resolution_operation_Inr)
  qed
qed

lemma reraise_Inr [simp]: "reraise f r = Inr x \<longleftrightarrow> r = Inr x"
  by (cases r) (simp_all add: reraise_def)

section \<open>Approvals\<close>

definition role_text :: "dict \<Rightarrow> string" where
  "role_text d = str_of (dget ''role'' d)"

definition approval_holds :: "dict \<Rightarrow> string \<Rightarrow> dict \<Rightarrow> bool" where
  "approval_holds subject h d \<longleftrightarrow>
     has_keys APPROVAL_FIELDS d \<and> str_in (dget ''role'' d) REQUIRED_APPROVAL_ROLES \<and> bound_to subject h d
     \<and> \<not> (dhas ''comment'' d \<and> \<not> is_str (dget ''comment'' d))"

lemma hash_in_True: "hash_in v ts = Inr True \<longleftrightarrow> str_in v ts"
  by (cases v) auto

lemma check_approval_Inr:
  "check_approval subject h seen iv = Inr seen' \<longleftrightarrow>
     approval_holds subject h (dict_of (snd iv)) \<and> role_text (dict_of (snd iv)) \<notin> set seen
     \<and> seen' = role_text (dict_of (snd iv)) # seen"
proof -
  obtain i v where iv: "iv = (i, v)" by (cases iv)
  show ?thesis
  proof (cases "hash_in (dget ''role'' (dict_of v)) REQUIRED_APPROVAL_ROLES")
    case (Inl e)
    then have "\<not> str_in (dget ''role'' (dict_of v)) REQUIRED_APPROVAL_ROLES" using hash_in_True by (metis sum.distinct(1))
    with Inl show ?thesis by (auto simp: iv check_approval_def approval_holds_def Let_def split: if_splits)
  next
    case (Inr b)
    then have b: "b = str_in (dget ''role'' (dict_of v)) REQUIRED_APPROVAL_ROLES"
      using hash_in_True[of "dget ''role'' (dict_of v)" REQUIRED_APPROVAL_ROLES] by (cases b) simp_all
    show ?thesis
      by (simp add: iv check_approval_def approval_holds_def bound_to_def role_text_def Let_def Inr b) blast
  qed
qed

lemma check_approvals_Inr:
  "rfold (check_approval subject h) seen (zip is (map JDict ds)) = Inr seen' \<longleftrightarrow>
     list_all (approval_holds subject h) ds \<and> distinct (map role_text ds) \<and> set (map role_text ds) \<inter> set seen = {}
     \<and> seen' = rev (map role_text ds) @ seen" if "length is = length ds" for "is" :: "nat list"
  using that
proof (induction ds arbitrary: seen "is")
  case Nil
  then show ?case by auto
next
  case (Cons d ds)
  then obtain i is' where i: "is = i # is'" "length is' = length ds" by (cases "is") auto
  show ?case
  proof (cases "check_approval subject h seen (i, JDict d)")
    case (Inl e)
    then have "\<not> (approval_holds subject h d \<and> role_text d \<notin> set seen)"
      using check_approval_Inr[of subject h seen "(i, JDict d)"] by auto
    with Inl show ?thesis by (auto simp: i)
  next
    case (Inr s)
    then have "approval_holds subject h d" "role_text d \<notin> set seen" "s = role_text d # seen"
      using check_approval_Inr[of subject h seen "(i, JDict d)"] by auto
    then show ?thesis using Inr Cons.IH[OF i(2), of s] by (auto simp: i)
  qed
qed

lemma approved_roles_all:
  assumes "list_all (approval_holds subject h) ds" and "distinct (map role_text ds)"
    and "dget ''approvals'' resolution = JList (map JDict ds)"
  shows "bound_roles resolution subject h = Inr (sort (map role_text ds))"
proof -
  have "dget_or ''approvals'' (JList []) resolution = JList (map JDict ds)"
    using assms(3) by (auto simp: dget_def dget_or_def split: option.splits)
  moreover have "approved_role subject h (JDict d) = Inr True" if "d \<in> set ds" for d
    using assms(1) that hash_in_True[of "dget ''role'' d" REQUIRED_APPROVAL_ROLES]
    by (simp add: approved_role_def approval_holds_def list_all_iff)
  then have "rfilter (approved_role subject h) (map JDict ds) = Inr (map JDict ds)"
    by (induction ds) auto
  moreover have "map ((\<lambda>v. str_of (dget ''role'' (dict_of v))) \<circ> JDict) ds = map role_text ds"
    by (simp add: role_text_def)
  ultimately show ?thesis
    unfolding bound_roles_def using assms(2) by (simp only: rbind_simps iter.simps map_map distinct_remdups_id)
qed

lemma dict_back: "is_dict v \<Longrightarrow> JDict (dict_of v) = v"
  by (cases v) simp_all

lemma resolution_approvals_Inr:
  "validate_resolution_approvals resolution subject h = Inr roles \<longleftrightarrow>
     (\<exists>ds. dget ''approvals'' resolution = JList (map JDict ds) \<and> ds \<noteq> [] \<and> list_all (approval_holds subject h) ds
       \<and> distinct (map role_text ds) \<and> roles = sort (map role_text ds))" (is "?l \<longleftrightarrow> ?r")
proof
  assume l: ?l
  then have g: "is_list (dget ''approvals'' resolution)" "list_of (dget ''approvals'' resolution) \<noteq> []"
    "list_all is_dict (list_of (dget ''approvals'' resolution))"
    by (auto simp: validate_resolution_approvals_def Let_def split: if_splits)
  define ds where "ds = map dict_of (list_of (dget ''approvals'' resolution))"
  have m: "list_of (dget ''approvals'' resolution) = map JDict ds"
    using g(3) unfolding ds_def map_map by (intro map_idI[symmetric]) (simp add: list_all_iff dict_back)
  have a: "dget ''approvals'' resolution = JList (map JDict ds)"
    using g(1) m by (cases "dget ''approvals'' resolution") auto
  have "length [0..<length ds] = length ds" by simp
  note c = check_approvals_Inr[OF this, of subject h "[]"]
  from l a have "\<exists>seen. rfold (check_approval subject h) [] (zip [0..<length ds] (map JDict ds)) = Inr seen"
    and r: "bound_roles resolution subject h = Inr roles"
    by (auto simp: validate_resolution_approvals_def Let_def rbind_Inr_iff split: if_splits)
  then have h: "list_all (approval_holds subject h) ds" "distinct (map role_text ds)" using c by auto
  with approved_roles_all[OF h a] r a g(2) m show ?r by auto
next
  assume ?r
  then obtain ds where a: "dget ''approvals'' resolution = JList (map JDict ds)" and "ds \<noteq> []"
    and h: "list_all (approval_holds subject h) ds" "distinct (map role_text ds)" and r: "roles = sort (map role_text ds)"
    by blast
  have "length [0..<length ds] = length ds" by simp
  from check_approvals_Inr[OF this, of subject h "[]"] h
  have "rfold (check_approval subject h) [] (zip [0..<length ds] (map JDict ds)) = Inr (rev (map role_text ds))" by simp
  then show ?l
    using a \<open>ds \<noteq> []\<close> approved_roles_all[OF h a] r
    by (simp add: validate_resolution_approvals_def Let_def list_all_iff)
qed

section \<open>The adapter\<close>

lemma adapted_approval_holds:
  assumes "list_all (\<lambda>k. is_str (dget k legacy)) [''case_id'', ''event_id'', ''event_revision'', ''approved_case_hash'']"
    and "role \<in> set REQUIRED_APPROVAL_ROLES"
  shows "approval_holds legacy h (dict_of (adapted_approval legacy h role))"
    "role_text (dict_of (adapted_approval legacy h role)) = role"
proof -
  have e: "is_str v \<Longrightarrow> py_eq v v" for v by (cases v) auto
  show "approval_holds legacy h (dict_of (adapted_approval legacy h role))"
    using assms e by (simp add: approval_holds_def adapted_approval_def has_keys_def APPROVAL_FIELDS_def dhas_def
        bound_to_def dget_Cons)
  show "role_text (dict_of (adapted_approval legacy h role)) = role"
    by (simp add: role_text_def adapted_approval_def dget_Cons)
qed

lemma adapted_approvals_accepted:
  assumes "list_all (\<lambda>k. is_str (dget k legacy)) [''case_id'', ''event_id'', ''event_revision'', ''approved_case_hash'']"
    and "roles \<noteq> []" and "distinct roles" and "set roles \<subseteq> set REQUIRED_APPROVAL_ROLES"
  shows "validate_resolution_approvals (dset ''approvals'' (JList (map (adapted_approval legacy h) roles)) d) legacy h
    = Inr (sort roles)"
proof -
  let ?ds = "map (\<lambda>r. dict_of (adapted_approval legacy h r)) roles"
  have "map (adapted_approval legacy h) roles = map JDict ?ds" by (simp add: adapted_approval_def)
  moreover have "list_all (approval_holds legacy h) ?ds" "map role_text ?ds = roles"
    using adapted_approval_holds[OF assms(1)] assms(4) by (auto simp: list_all_iff intro!: map_idI)
  ultimately show ?thesis
    unfolding resolution_approvals_Inr using assms(2,3)
    by (intro exI[of _ ?ds]) simp
qed

end
