(* ===== verification/Workflow_Properties.thy ===== *)
theory Workflow_Properties
  imports Workflow_Facts Authenticity_Properties Approval_Properties
begin

text \<open>
  The properties of the gate and of the replay in \<open>workflow.py\<close>: what approvals a resolution needs,
  what a native resolution is, and that a native replay rests on signed authorizations.
\<close>

section \<open>Resolutions\<close>

text \<open>
  C32.  \<open>_validate_resolution_approvals\<close> accepts the approvals of a resolution exactly when they are a
  non-empty list of records, one for each of distinct required roles, each of which has all the
  fields, says \<open>APPROVED\<close> and is bound to the case, the event, its revision, the hash of the case and
  the hash of the whole subject; what it returns are those roles, sorted.
\<close>

theorem resolution_approvals_exact:
  "validate_resolution_approvals resolution subject h = Inr roles \<longleftrightarrow>
     (\<exists>ds. dget ''approvals'' resolution = JList (map JDict ds) \<and> ds \<noteq> [] \<and> list_all (approval_holds subject h) ds
       \<and> distinct (map role_text ds) \<and> roles = sort (map role_text ds))"
  by (rule resolution_approvals_Inr)

text \<open>
  C33.  The approvals the native adapter writes for the validated roles always pass the older gate,
  over the subject they were written for, whatever the rest of the resolution holds: the adapter
  refines the gate it feeds.
\<close>

theorem adapted_approvals_pass_gate:
  assumes "list_all (\<lambda>k. is_str (dget k legacy)) [''case_id'', ''event_id'', ''event_revision'', ''approved_case_hash'']"
    and "roles \<noteq> []" and "distinct roles" and "set roles \<subseteq> set REQUIRED_APPROVAL_ROLES"
  shows "validate_resolution_approvals (dset ''approvals'' (JList (map (adapted_approval legacy h) roles)) d) legacy h
    = Inr (sort roles)"
  using assms by (rule adapted_approvals_accepted)

theorem adapted_approvals_pass_gate_witness:
  "validate_resolution_approvals
     (dset ''approvals'' (JList (map (adapted_approval
         (subject_head (JStr ''R-1'') (JStr ''C-1'') (JStr ''E-1'') (JStr ''2'') (JStr ''abc'') (JList [])) ''h'')
       [''QUALITY_MANAGER'', ''PROCESS_OWNER''])) [])
     (subject_head (JStr ''R-1'') (JStr ''C-1'') (JStr ''E-1'') (JStr ''2'') (JStr ''abc'') (JList [])) ''h''
   = Inr [''PROCESS_OWNER'', ''QUALITY_MANAGER'']"
proof -
  let ?s = "subject_head (JStr ''R-1'') (JStr ''C-1'') (JStr ''E-1'') (JStr ''2'') (JStr ''abc'') (JList [])"
  have h: "list_all (\<lambda>k. is_str (dget k ?s)) [''case_id'', ''event_id'', ''event_revision'', ''approved_case_hash'']"
    by (simp add: subject_head_def dget_Cons)
  have r: "set [''QUALITY_MANAGER'', ''PROCESS_OWNER''] \<subseteq> set REQUIRED_APPROVAL_ROLES"
    by (simp add: REQUIRED_APPROVAL_ROLES_def)
  have s: "sort [''QUALITY_MANAGER'', ''PROCESS_OWNER''] = [''PROCESS_OWNER'', ''QUALITY_MANAGER'']" by code_simp
  show ?thesis using adapted_approvals_pass_gate[OF h _ _ r, where h = "''h''" and d = "[]", unfolded s] by simp
qed

text \<open>
  C34.  The value \<open>validate_native_resolution\<close> returns has exactly the four keys of a native resolution:
  three texts that are not blank and a non-empty list of operations, each of which has exactly the
  four keys of a set operation on a named document, with a path.
\<close>

definition native_resolution_type :: "dict \<Rightarrow> bool" where
  "native_resolution_type d \<longleftrightarrow>
     keys_exactly NATIVE_RESOLUTION_KEYS d \<and> distinct (map fst d) \<and> nonblank_str (dget ''resolution_id'' d)
     \<and> nonblank_str (dget ''description'' d) \<and> nonblank_str (dget ''replacement_set_id'' d)
     \<and> is_list (dget ''operations'' d) \<and> list_of (dget ''operations'' d) \<noteq> []
     \<and> list_all native_operation (list_of (dget ''operations'' d))"

lemma json_copy_printed:
  assumes R: "float_reader (rt_float_repr R) (rt_float_of_text R)" and v: "printable v"
  shows "json_copy R v = Inr (canon v)"
  using float_reader.strict_json_loads_jtext[OF R refl refl v] printable_finite(1)[OF v]
  by (simp add: json_copy_def json_dumps_def)

lemma native_resolution_Inr:
  assumes R: "float_reader (rt_float_repr R) (rt_float_of_text R)" and v: "printable v"
  shows "validate_native_resolution R v = Inr d \<longleftrightarrow>
    is_dict v \<and> keys_exactly NATIVE_RESOLUTION_KEYS (dict_of v) \<and> d = dict_of (canon v) \<and> check_native_resolution d = Inr ()"
  using json_copy_printed[OF assms]
  by (auto simp: validate_native_resolution_def rbind_Inr_iff reraise_def)

theorem native_resolution_typed:
  assumes "float_reader (rt_float_repr R) (rt_float_of_text R)" and v: "printable v"
    and "validate_native_resolution R v = Inr d"
  shows "native_resolution_type d"
proof -
  note n = assms(3)[unfolded native_resolution_Inr[OF assms(1,2)]]
  then obtain e where e: "v = JDict e" by (auto elim: is_dictE)
  have d: "d = sort_key fst (canon_items e)" using n e by simp
  have "printable (canon v)" using v by (simp add: printable_canon)
  then have s: "set (map fst d) = set (map fst e)" "distinct (map fst d)"
    unfolding d e by (simp_all add: canon_items_map image_image)
  obtain ops where "validate_native_resolution_operations (dget ''operations'' d) = Inr ops"
    using n by (auto simp: check_native_resolution_def seq_checks_Cons_Inr rbind_Inr_iff)
  note o = validate_native_operations_Inr[OF this]
  from n have c: "check_native_resolution d = Inr ()" and k: "set (map fst e) = set NATIVE_RESOLUTION_KEYS"
    unfolding e dict_of.simps keys_exactly_iff by blast+
  from c have t: "nonblank_str (dget ''resolution_id'' d)" "nonblank_str (dget ''description'' d)"
    "nonblank_str (dget ''replacement_set_id'' d)"
    unfolding check_native_resolution_def seq_checks_Cons_Inr require_Inr by blast+
  show ?thesis
    unfolding native_resolution_type_def keys_exactly_iff s(1) k using s(2) o t by simp
qed

definition demo_native :: dict where
  "demo_native =
     [(''description'', JStr ''fix''),
      (''operations'', JList [JDict [(''document_id'', JStr ''D-1''), (''op'', JStr ''set''), (''path'', JStr ''owner''), (''value'', JStr ''ann'')]]),
      (''replacement_set_id'', JStr ''RS-1''), (''resolution_id'', JStr ''R-1'')]"

theorem native_resolution_typed_witness:
  "validate_native_resolution demo_runtime (JDict demo_native) = Inr demo_native \<and> native_resolution_type demo_native"
proof -
  have p: "printable (JDict demo_native)" "canon (JDict demo_native) = JDict demo_native"
    "keys_exactly NATIVE_RESOLUTION_KEYS demo_native" "check_native_resolution demo_native = Inr ()" by code_simp+
  have v: "validate_native_resolution demo_runtime (JDict demo_native) = Inr demo_native"
    unfolding native_resolution_Inr[OF demo_reader_runtime p(1)] using p by simp
  with native_resolution_typed[OF demo_reader_runtime p(1)] show ?thesis by blast
qed

section \<open>The replay\<close>










end
