(* ===== verification/Resolution_Properties.thy ===== *)
theory Resolution_Properties
  imports Artifact_Context Demo_Evidence Strict_Json_Facts Canonical_Facts Migration_Facts
begin

text \<open>
  The property of the authoritative case in \<open>revision_artifacts.py\<close>: after a resolution the case is
  the approved case with the operations applied and the rebuilt documents in the place of the
  patched ones, with the same facts.
\<close>

section \<open>Documents by identifier\<close>

lemma put_document_members:
  "kd \<in> set (put_document k d ds) \<Longrightarrow> kd \<in> set ds \<or> (snd kd = d \<and> (fst kd = k \<or> py_eq k (fst kd)))"
  by (induction k d ds rule: put_document.induct) (auto split: if_splits)

lemma put_document_has: "\<exists>k'. (k', d) \<in> set (put_document k d ds) \<and> (k' = k \<or> py_eq k k')"
  by (induction k d ds rule: put_document.induct) auto

lemma put_document_keeps: "(k', e) \<in> set ds \<Longrightarrow> \<not> py_eq k k' \<Longrightarrow> (k', e) \<in> set (put_document k d ds)"
  by (induction k d ds rule: put_document.induct) auto

lemma find_document_member: "find_document k ds = Some d \<Longrightarrow> \<exists>k'. (k', d) \<in> set ds \<and> py_eq k k'"
  by (induction k ds rule: find_document.induct) (auto split: if_splits)

lemma rfold_ConsE:
  assumes "rfold f s (x # xs) = Inr t"
  obtains s' where "f s x = Inr s'" "rfold f s' xs = Inr t"
  using assms by (cases "f s x") simp_all

lemma add_document_Inr: "add_document ds d = Inr ds' \<Longrightarrow> \<exists>k. ds' = put_document k d ds"
  by (auto simp: add_document_def rbind_Inr_iff)

lemma replace_document_Inr:
  "replace_document ds r = Inr ds' \<Longrightarrow>
     \<exists>e. find_document (dget ''document_id'' (dict_of r)) ds = Some e \<and> same_facts e r
       \<and> ds' = put_document (dget ''document_id'' (dict_of r)) r ds"
  by (auto simp: replace_document_def Let_def split: option.splits if_splits)

lemma add_documents_members:
  assumes "rfold add_document ds docs = Inr ds'"
  shows "snd ` set ds' \<subseteq> snd ` set ds \<union> set docs"
  using assms
proof (induction docs arbitrary: ds)
  case (Cons d docs)
  from Cons.prems obtain k where r: "rfold add_document (put_document k d ds) docs = Inr ds'"
    by (rule rfold_ConsE) (auto dest: add_document_Inr)
  have "snd ` set (put_document k d ds) \<subseteq> insert d (snd ` set ds)"
    using put_document_members[of _ k d ds] by force
  with Cons.IH[OF r] show ?case by auto
qed simp

text \<open>The identifier of a document.\<close>

abbreviation doc_id :: "json \<Rightarrow> json" where
  "doc_id d \<equiv> dget ''document_id'' (dict_of d)"

definition carries :: "json list \<Rightarrow> json list \<Rightarrow> json \<Rightarrow> bool" where
  "carries patched rebuilt d \<longleftrightarrow> d \<in> set patched \<or> (d \<in> set rebuilt \<and> list_ex (\<lambda>p. same_facts p d) patched)"

text \<open>
  The loop that replaces: documents already replaced are among the rebuilt ones, the others are
  patched ones; each identifier is replaced once.
\<close>

lemma replace_documents:
  assumes "rfold replace_document ds rs = Inr ds'" and "list_all (\<lambda>r. is_str (doc_id r)) rs"
    and "distinct (map doc_id rs)" and "set rs \<subseteq> set rebuilt"
    and "\<forall>(k, d) \<in> set ds. carries patched rebuilt d \<and> (k \<in> doc_id ` set rs \<longrightarrow> d \<in> set patched)"
  shows "(\<forall>(k, d) \<in> set ds'. carries patched rebuilt d) \<and> set rs \<subseteq> snd ` set ds'
    \<and> (\<forall>(k, d) \<in> set ds. k \<notin> doc_id ` set rs \<longrightarrow> (k, d) \<in> set ds')"
  using assms
proof (induction rs arbitrary: ds)
  case Nil
  then show ?case by auto
next
  case (Cons r rs)
  let ?k = "doc_id r"
  obtain s where s: "?k = JStr s" using Cons.prems(2) by (cases ?k) auto
  from Cons.prems(1) obtain mid where m: "replace_document ds r = Inr mid" "rfold replace_document mid rs = Inr ds'"
    by (rule rfold_ConsE)
  from replace_document_Inr[OF m(1)] m(2) obtain e where e: "find_document ?k ds = Some e" "same_facts e r"
    and f: "rfold replace_document (put_document ?k r ds) rs = Inr ds'" by blast
  from find_document_member[OF e(1)] s obtain k' where "(k', e) \<in> set ds" "k' = ?k" by auto
  then have p: "e \<in> set patched" using Cons.prems(5) by auto
  have c: "carries patched rebuilt r"
    using p e(2) Cons.prems(4) by (auto simp: carries_def list_ex_iff)
  have n: "?k \<notin> doc_id ` set rs" using Cons.prems(3) by simp
  have m': "kd \<in> set ds \<or> (snd kd = r \<and> fst kd = ?k)" if "kd \<in> set (put_document ?k r ds)" for kd
    using put_document_members[OF that] s by auto
  have i: "\<forall>(k, d) \<in> set (put_document ?k r ds). carries patched rebuilt d \<and> (k \<in> doc_id ` set rs \<longrightarrow> d \<in> set patched)"
  proof (intro ballI, clarify)
    fix k d assume "(k, d) \<in> set (put_document ?k r ds)"
    from m'[OF this] show "carries patched rebuilt d \<and> (k \<in> doc_id ` set rs \<longrightarrow> d \<in> set patched)"
    proof
      assume "(k, d) \<in> set ds"
      with Cons.prems(5) have "carries patched rebuilt d \<and> (k \<in> doc_id ` set (r # rs) \<longrightarrow> d \<in> set patched)" by fast
      then show ?thesis by simp
    qed (use c n in auto)
  qed
  have "list_all (\<lambda>r. is_str (doc_id r)) rs" "distinct (map doc_id rs)" "set rs \<subseteq> set rebuilt"
    using Cons.prems(2-4) by simp_all
  note IH = Cons.IH[OF f this i]
  obtain k0 where "(k0, r) \<in> set (put_document ?k r ds)" "k0 = ?k \<or> py_eq ?k k0" using put_document_has by blast
  moreover from this(2) s n have "k0 \<notin> doc_id ` set rs" by auto
  ultimately have "(k0, r) \<in> set ds'" using IH by fast
  then have "r \<in> snd ` set ds'" by (rule image_eqI[rotated]) simp
  moreover have "(k, d) \<in> set ds'" if "(k, d) \<in> set ds" "k \<notin> doc_id ` set (r # rs)" for k d
  proof -
    have "(k, d) \<in> set (put_document ?k r ds)" using that s by (intro put_document_keeps) auto
    with IH that(2) show ?thesis by fastforce
  qed
  ultimately show ?case using IH by auto
qed

section \<open>The resolved case\<close>

lemma touched_targets:
  assumes "rfold (touch R) t (zip is ops) = Inr t'" and "length is = length ops"
  shows "list_all targets_document ops"
  using assms
proof (induction ops arbitrary: "is" t)
  case (Cons v ops)
  obtain i is' where i: "is = i # is'" using Cons.prems(2) by (cases "is") auto
  from Cons.prems(1)[unfolded i zip_Cons_Cons] obtain mid where m: "touch R t (i, v) = Inr mid"
    "rfold (touch R) mid (zip is' ops) = Inr t'" by (rule rfold_ConsE)
  from m(1) have "targets_document v"
    by (auto simp: touch_def targets_document_def split: if_splits)
  with Cons.IH[OF m(2)] Cons.prems(2) i show ?case by simp
qed simp

lemma paths_targets:
  assumes "validate_resolution_operation_paths R ops = Inr touched"
  shows "list_all targets_document (list_of ops)"
proof -
  from assms obtain t where "rfold (touch R) [] (zip [0..<length (list_of ops)] (list_of ops)) = Inr t"
    by (auto simp: validate_resolution_operation_paths_def rbind_Inr_iff split: if_splits)
  then show ?thesis by (rule touched_targets) simp
qed

text \<open>
  C36.  After a resolution the authoritative case is the approved case with another list of documents,
  the mark of the resolution and no mark of a mutation: nothing else of it changes, the event least
  of all.  Every document of the new list is a patched document, or a rebuilt one that agrees with
  a patched one on every fact; every rebuilt document is in it; and the whole was validated.
\<close>

theorem resolution_changes_documents_only:
  assumes "resolve_case_from_artifact_context R (JDict c) i ops x = Inr c'" and "dget ''documents'' c = JList docs"
  shows "\<exists>proposed patched rebuilt final.
    apply_mutation c (resolution_mutation (str_of i) ops) = Inr proposed \<and> dget ''documents'' proposed = JList patched
    \<and> length patched = length docs \<and> context_documents R x = Inr rebuilt
    \<and> list_all (carries patched rebuilt) final \<and> set rebuilt \<subseteq> set final
    \<and> validate_case R (JDict (dset ''documents'' (JList final) proposed)) = Inr ()
    \<and> c' = dset ''applied_resolution'' i (dpop ''active_mutation'' (dset ''documents'' (JList final) c))"
proof -
  from assms(1) obtain touched proposed full where i: "nonblank_str i"
    and t: "validate_resolution_operation_paths R ops = Inr touched"
    and p: "apply_mutation c (resolution_mutation (str_of i) ops) = Inr proposed"
    and f: "rebuild_documents R x proposed = Inr full" and v: "validate_case R (JDict full) = Inr ()"
    and c': "c' = dset ''applied_resolution'' (JStr (str_of i)) (dpop ''active_mutation'' full)"
    by (auto simp: resolve_case_from_artifact_context_def rbind_Inr_iff require_Inr)
  obtain ids patched where a: "proposed = dset ''active_mutation'' (JStr (''resolution:'' @ str_of i)) (dset ''documents'' (JList patched) c)"
    "length patched = length docs"
    using apply_mutation_documents[OF p[unfolded resolution_mutation_def] assms(2)] paths_targets[OF t]
    by (auto simp: dget_Cons)
  have d: "dget ''documents'' proposed = JList patched" unfolding a by simp
  have "ditem ''documents'' proposed = Inr (JList patched)"
    using d dhas_ditem[of "''documents''" proposed] dget_nonnull_dhas[of "''documents''" proposed] by simp
  with f obtain by_id rebuilt by_id' where b: "rfold add_document [] patched = Inr by_id"
    and r: "context_documents R x = Inr rebuilt" "rebuilt_agree R rebuilt (map ae_document_id (ax_index x))"
    and b': "rfold replace_document by_id rebuilt = Inr by_id'"
    and full: "full = dset ''documents'' (JList (map snd by_id')) proposed"
    by (auto simp: rebuild_documents_def rbind_Inr_iff split: if_splits)
  from r(2) have s: "list_all (\<lambda>r. is_str (doc_id r)) rebuilt" "distinct (map doc_id rebuilt)"
    by (auto simp: rebuilt_agree_def Let_def list_all_iff o_def distinct_map inj_on_def)
  have "snd ` set by_id \<subseteq> set patched" using add_documents_members[OF b] by simp
  then have "\<forall>(k, d) \<in> set by_id. carries patched rebuilt d \<and> (k \<in> doc_id ` set rebuilt \<longrightarrow> d \<in> set patched)"
    by (fastforce simp: carries_def)
  from replace_documents[OF b' s subset_refl this] have k: "\<forall>(k, d) \<in> set by_id'. carries patched rebuilt d"
    "set rebuilt \<subseteq> snd ` set by_id'" by blast+
  have "dpop ''active_mutation'' full = dpop ''active_mutation'' (dset ''documents'' (JList (map snd by_id')) c)"
    unfolding full a by (simp add: dpop_dset_other)
  moreover have "JStr (str_of i) = i" using i by (cases i) simp_all
  moreover have "list_all (carries patched rebuilt) (map snd by_id')" using k(1) by (auto simp: list_all_iff)
  moreover have "set rebuilt \<subseteq> set (map snd by_id')" using k(2) by simp
  ultimately show ?thesis using p d a(2) r(1) v c' unfolding full by metis
qed

text \<open>A resolution that gives the control plan another owner, with the control plan rebuilt.\<close>

definition demo_operations :: json where
  "demo_operations = JList [JDict [(''op'', JStr ''set''), (''document_id'', JStr ''CP-1''),
     (''path'', JStr ''owner''), (''value'', JStr ''ann'')]]"

definition demo_rebuilt :: json where
  "demo_rebuilt = JDict (dset ''owner'' (JStr ''ann'') (dict_of (demo_documents ! 2)))"

definition demo_context :: artifact_context where
  "demo_context = \<lparr>ax_replacement_set_id = ''RS-1'', ax_artifact_set_hash = replicate 64 CHR ''a'',
     ax_documents_json = jtext demo_runtime (JList [demo_rebuilt]),
     ax_index = [\<lparr>ae_document_id = ''CP-1'', ae_source_id = ''S-1'', ae_source_path = ''cp.xlsx'',
       ae_source_hash = replicate 64 CHR ''b'', ae_size_bytes = 10, ae_declared_format = ''xlsx'', ae_detected_format = ''xlsx'',
       ae_supersedes_document_id = ''CP-1'', ae_supersedes_revision = ''A'', ae_supersedes_source_hash = replicate 64 CHR ''c''\<rparr>],
     ax_reference_context = None, ax_source_reference_set_hash = None, ax_sealed = True,
     ax_artifact_version = ARTIFACT_CONTRACT_VERSION, ax_case_schema_version = CASE_SCHEMA_VERSION,
     ax_parser_version = [], ax_mapping_version = [], ax_security_version = []\<rparr>"

lemma demo_context_documents: "context_documents demo_runtime demo_context = Inr [canon demo_rebuilt]"
proof -
  have p: "printable (JList [demo_rebuilt])" "canon (JList [demo_rebuilt]) = JList [canon demo_rebuilt]" "is_dict (canon demo_rebuilt)"
    by code_simp+
  have t: "ax_documents_json demo_context = jtext demo_runtime (JList [demo_rebuilt])"
    unfolding demo_context_def by (simp only: artifact_context.simps)
  have u: "utf8_valid (jtext demo_runtime (JList [demo_rebuilt]))" by code_simp
  show ?thesis
    unfolding context_documents_def t float_reader.strict_json_loads_jtext[OF demo_reader_runtime refl refl p(1)] p(2)
    using u p(3) by (simp del: jtext.simps)
qed

definition demo_patched :: dict where
  "demo_patched = dset ''active_mutation'' (JStr ''resolution:R-1'')
     (dset ''documents'' (JList (demo_documents[2 := demo_rebuilt])) demo_case)"

definition demo_resolved_documents :: "json list" where
  "demo_resolved_documents = demo_documents[2 := canon demo_rebuilt]"

lemma demo_rebuild:
  "rebuild_documents demo_runtime demo_context demo_patched
     = Inr (dset ''documents'' (JList demo_resolved_documents) demo_patched)"
proof -
  have "ditem ''documents'' demo_patched = Inr (JList (demo_documents[2 := demo_rebuilt]))"
    "iter (JList (demo_documents[2 := demo_rebuilt])) = Inr (demo_documents[2 := demo_rebuilt])"
    "rfold add_document [] (demo_documents[2 := demo_rebuilt])
      = Inr (map (\<lambda>d. (dget ''document_id'' (dict_of d), d)) (demo_documents[2 := demo_rebuilt]))"
    "rebuilt_agree demo_runtime [canon demo_rebuilt] (map ae_document_id (ax_index demo_context))"
    "rfold replace_document (map (\<lambda>d. (dget ''document_id'' (dict_of d), d)) (demo_documents[2 := demo_rebuilt])) [canon demo_rebuilt]
      = Inr (map (\<lambda>d. (dget ''document_id'' (dict_of d), d)) demo_resolved_documents)"
    "map snd (map (\<lambda>d. (dget ''document_id'' (dict_of d), d)) demo_resolved_documents) = demo_resolved_documents"
    by code_simp+
  then show ?thesis
    unfolding rebuild_documents_def demo_context_documents by (simp only: rbind_simps if_True not_not simp_thms if_False)
qed

definition demo_resolved :: dict where
  "demo_resolved = dset ''applied_resolution'' (JStr ''R-1'')
     (dpop ''active_mutation'' (dset ''documents'' (JList demo_resolved_documents) demo_patched))"

lemma demo_resolution:
  "resolve_case_from_artifact_context demo_runtime (JDict demo_case) (JStr ''R-1'') demo_operations demo_context
   = Inr demo_resolved"
proof -
  let ?f = "dset ''documents'' (JList demo_resolved_documents) demo_patched"
  have "is_list demo_operations" "ax_sealed demo_context" "nonblank_str (JStr ''R-1'')"
    "validate_resolution_operation_paths demo_runtime demo_operations = Inr [''CP-1'']"
    "covers_operations demo_runtime [''CP-1''] (map ae_document_id (ax_index demo_context))"
    "apply_mutation demo_case (resolution_mutation ''R-1'' demo_operations) = Inr demo_patched"
    "validate_case demo_runtime (JDict ?f) = Inr ()" "same_risk ?f demo_case = Inr ()"
    by code_simp+
  then show ?thesis
    unfolding resolve_case_from_artifact_context_def demo_resolved_def
    by (simp only: rbind_simps require_def if_True is_dict.simps dict_of.simps str_of.simps demo_rebuild)
qed

theorem resolution_changes_documents_only_witness:
  "\<exists>final. resolve_case_from_artifact_context demo_runtime (JDict demo_case) (JStr ''R-1'') demo_operations demo_context
      = Inr demo_resolved \<and> canon demo_rebuilt \<in> set final
    \<and> demo_resolved = dset ''applied_resolution'' (JStr ''R-1'') (dpop ''active_mutation'' (dset ''documents'' (JList final) demo_case))"
proof -
  have d: "dget ''documents'' demo_case = JList demo_documents" by code_simp
  from resolution_changes_documents_only[OF demo_resolution d] demo_resolution demo_context_documents
  show ?thesis by fastforce
qed

end
