(* ===== verification/Team_Trace.thy ===== *)
theory Team_Trace
  imports Validation_Bundle Engine
begin

text \<open>
  What the two profiles of \<open>orchestration.py\<close> share: exact texts and identities, the events of a
  trace, the checks of an assurance profile, and the state machine the trace of a team follows.
\<close>

section \<open>Constants and small checks\<close>

definition TEAM_RUNTIME_MODE :: string where
  "TEAM_RUNTIME_MODE = ''LOCAL_DETERMINISTIC_CONTRACT''"

definition TEAM_READY :: string where "TEAM_READY = ''READY_FOR_HUMAN_RELEASE_REVIEW''"
definition TEAM_BLOCKED :: string where "TEAM_BLOCKED = ''BLOCKED_PENDING_RESOLUTION''"

definition exact_text :: "json \<Rightarrow> string \<Rightarrow> string res" where
  "exact_text v label =
     (if \<not> is_str v then Inl TypeError
      else if str_of v = [] \<or> str_of v \<noteq> py_strip (str_of v)
      then Inl (ValueError (label @ '' must be an exact non-empty trimmed string''))
      else Inr (str_of v))"

definition check_text :: "json \<Rightarrow> string \<Rightarrow> unit res" where
  "check_text v label = rbind (exact_text v label) (\<lambda>_. Inr ())"

definition exact_constant :: "json \<Rightarrow> string \<Rightarrow> string \<Rightarrow> unit res" where
  "exact_constant v expected label = require (v = JStr expected) (ValueError (label @ '' is unsupported''))"

definition lower_hex :: "json \<Rightarrow> nat \<Rightarrow> string \<Rightarrow> unit res" where
  "lower_hex v n label =
     require (is_str v \<and> length (str_of v) = n \<and> list_all is_lower_hex_char (str_of v))
       (ValueError (label @ '' must be one lowercase hexadecimal identity''))"

section \<open>The events of a trace\<close>

record team_event =
  te_sequence :: int
  te_agent_id :: string
  te_skill_id :: string
  te_state_from :: string
  te_state_to :: string
  te_input_hash :: string
  te_output_hash :: string
  te_evidence :: "string list"

definition validate_trace_fields :: "string \<Rightarrow> ('a) team_event_scheme \<Rightarrow> unit res" where
  "validate_trace_fields label e = seq_checks
     [require (0 < te_sequence e) TypeError,
      check_text (JStr (te_agent_id e)) (label @ '' agent_id''),
      check_text (JStr (te_skill_id e)) (label @ '' skill_id''),
      check_text (JStr (te_state_from e)) (label @ '' state_from''),
      check_text (JStr (te_state_to e)) (label @ '' state_to''),
      lower_hex (JStr (te_input_hash e)) 64 (label @ '' input_hash''),
      lower_hex (JStr (te_output_hash e)) 64 (label @ '' output_hash'')]"

text \<open>
  \<open>sorted({ref.locator for finding in findings for ref in finding.evidence if ref.locator})\<close>; a
  locator that is not a text makes the set, the order or the event raise a \<open>TypeError\<close>.
\<close>

definition run_locators :: "finding list \<Rightarrow> string list res" where
  "run_locators findings =
     (let found = filter truthy (map ev_locator (concat (map f_evidence findings))) in
      if list_all is_str found then Inr (sort (remdups (map str_of found))) else Inl TypeError)"

section \<open>The profile of a run\<close>

definition validate_reference_profile :: "string \<Rightarrow> json \<times> json \<times> json \<Rightarrow> json \<times> json \<times> json \<Rightarrow> unit res" where
  "validate_reference_profile label ref val =
     (let (ref_state, ref_hash, ref_version) = ref; (val_state, val_hash, val_version) = val in seq_checks
      [require (is_str ref_state) TypeError,
       (if ref_state = JStr ''UNATTESTED_JSON'' then
          require (ref_hash = JNull \<and> ref_version = JNull)
            (ValueError (label @ '' unattested reference profile requires nulls''))
        else if ref_state = JStr ''ATTESTED_REFERENCE_SET'' then seq_checks
          [lower_hex ref_hash 64 (label @ '' reference set hash''),
           exact_constant ref_version ''qualityci-controlled-reference-0.1'' (label @ '' reference contract version'')]
        else Inl (ValueError (label @ '' reference assurance state is unsupported''))),
       require (is_str val_state) TypeError,
       (if val_state = JStr ''UNATTESTED_VALIDATION_JSON'' then
          require (val_hash = JNull \<and> val_version = JNull)
            (ValueError (label @ '' unattested validation profile requires nulls''))
        else if val_state = JStr ''ATTESTED_VALIDATION_SET'' then seq_checks
          [lower_hex val_hash 64 (label @ '' validation evidence set hash''),
           exact_constant val_version ''qualityci-validation-evidence-0.1'' (label @ '' validation contract version'')]
        else Inl (ValueError (label @ '' validation assurance state is unsupported'')))])"

text \<open>The types are those of the model; what is left is the status.\<close>

definition validate_result_values :: "string \<Rightarrow> check_status \<Rightarrow> finding list \<Rightarrow> unit res" where
  "validate_result_values label overall findings =
     require (overall = overall_status (map f_status findings))
       (ValueError (label @ '' overall_status disagrees with its findings''))"

section \<open>The profile of a trace\<close>

definition DISPATCH_PROFILE :: "(int \<times> string \<times> string) list" where
  "DISPATCH_PROFILE =
     [(1, ''QCI-IMPACT'', ''compile-impact-plan''), (2, ''QCI-EVIDENCE'', ''run-evidence-regression''),
      (3, ''QCI-GATEKEEPER'', ''enforce-release-gate'')]"

definition TRACE_PROFILE :: "string \<Rightarrow> (int \<times> string \<times> string \<times> string \<times> string) list" where
  "TRACE_PROFILE gate =
     [(1, ''QCI-MANAGER'', ''quality-task-intake'', ''RECEIVED'', ''SCOPED''),
      (2, ''QCI-IMPACT'', ''compile-impact-plan'', ''SCOPED'', ''PLANNED''),
      (3, ''QCI-EVIDENCE'', ''run-evidence-regression'', ''PLANNED'', ''CHECKED''),
      (4, ''QCI-GATEKEEPER'', ''enforce-release-gate'', ''CHECKED'', gate)]"

definition event_profile :: "('a) team_event_scheme \<Rightarrow> int \<times> string \<times> string \<times> string \<times> string" where
  "event_profile e = (te_sequence e, te_agent_id e, te_skill_id e, te_state_from e, te_state_to e)"

definition check_trace_profile :: "string \<Rightarrow> string \<Rightarrow> ('a) team_event_scheme list \<Rightarrow> unit res" where
  "check_trace_profile label gate trace =
     require (map event_profile trace = TRACE_PROFILE gate)
       (ValueError (label @ '' trace profile is inconsistent''))"

definition check_hash_joins :: "string \<Rightarrow> string \<Rightarrow> string \<Rightarrow> string \<Rightarrow> string \<Rightarrow> string
    \<Rightarrow> ('a) team_event_scheme list \<Rightarrow> unit res" where
  "check_hash_joins label start manager impact run final trace =
     require (map (\<lambda>e. (te_input_hash e, te_output_hash e)) trace
         = [(start, manager), (manager, impact), (impact, run), (run, final)])
       (ValueError (label @ '' trace hash joins are inconsistent''))"

section \<open>The state machine\<close>

text \<open>The steps of a task, each with the agent that makes it and the skill it uses.\<close>

inductive team_step :: "string \<Rightarrow> string \<Rightarrow> string \<Rightarrow> string \<Rightarrow> bool" where
  intake: "team_step ''RECEIVED'' ''QCI-MANAGER'' ''quality-task-intake'' ''SCOPED''"
| plan: "team_step ''SCOPED'' ''QCI-IMPACT'' ''compile-impact-plan'' ''PLANNED''"
| regression: "team_step ''PLANNED'' ''QCI-EVIDENCE'' ''run-evidence-regression'' ''CHECKED''"
| block: "team_step ''CHECKED'' ''QCI-GATEKEEPER'' ''enforce-release-gate'' TEAM_BLOCKED"
| release: "team_step ''CHECKED'' ''QCI-GATEKEEPER'' ''enforce-release-gate'' TEAM_READY"

text \<open>
  A run of the machine: each event makes a step and takes as its input what the event before it
  left as its output.
\<close>

inductive team_path :: "string \<Rightarrow> string \<Rightarrow> ('a) team_event_scheme list \<Rightarrow> string \<Rightarrow> string \<Rightarrow> bool" where
  rest: "team_path s h [] s h"
| handover: "team_step s (te_agent_id e) (te_skill_id e) s' \<Longrightarrow> te_state_from e = s \<Longrightarrow> te_state_to e = s'
    \<Longrightarrow> te_input_hash e = h \<Longrightarrow> team_path s' (te_output_hash e) es t g \<Longrightarrow> team_path s h (e # es) t g"

inductive_simps team_step_received: "team_step ''RECEIVED'' a k t"
inductive_simps team_step_scoped: "team_step ''SCOPED'' a k t"
inductive_simps team_step_planned: "team_step ''PLANNED'' a k t"
inductive_simps team_step_checked: "team_step ''CHECKED'' a k t"
inductive_simps team_step_blocked: "team_step ''BLOCKED_PENDING_RESOLUTION'' a k t"
inductive_simps team_step_ready: "team_step ''READY_FOR_HUMAN_RELEASE_REVIEW'' a k t"
inductive_simps team_path_Nil: "team_path s h [] t g"
inductive_simps team_path_Cons: "team_path s h (e # es) t g"

lemmas team_steps = team_step_received team_step_scoped team_step_planned team_step_checked

text \<open>A finished task has no step left.\<close>

lemma final_states_stuck: "\<not> team_step TEAM_BLOCKED a k t" "\<not> team_step TEAM_READY a k t"
  unfolding TEAM_BLOCKED_def TEAM_READY_def
  by (simp_all add: team_step_blocked team_step_ready TEAM_BLOCKED_def TEAM_READY_def)

lemma final_paths:
  "team_path TEAM_BLOCKED h es t g \<longleftrightarrow> es = [] \<and> t = TEAM_BLOCKED \<and> g = h"
  "team_path TEAM_READY h es t g \<longleftrightarrow> es = [] \<and> t = TEAM_READY \<and> g = h"
  by (cases es; auto simp: team_path_Nil team_path_Cons final_states_stuck)+

text \<open>The state before an event is on the path; a path that ends in a final state has all four events.\<close>

definition final_state :: "string \<Rightarrow> bool" where
  "final_state t \<longleftrightarrow> t = TEAM_BLOCKED \<or> t = TEAM_READY"

lemma final_not_initial: "final_state t \<Longrightarrow> t \<notin> {''RECEIVED'', ''SCOPED'', ''PLANNED'', ''CHECKED''}"
  by (auto simp: final_state_def TEAM_BLOCKED_def TEAM_READY_def)

definition makes :: "('a) team_event_scheme \<Rightarrow> string \<Rightarrow> string \<Rightarrow> string \<Rightarrow> string \<Rightarrow> string \<Rightarrow> bool" where
  "makes e s a k t h \<longleftrightarrow> te_state_from e = s \<and> te_agent_id e = a \<and> te_skill_id e = k \<and> te_state_to e = t
     \<and> te_input_hash e = h"

lemma path_from_checked:
  assumes "final_state t"
  shows "team_path ''CHECKED'' h es t g \<longleftrightarrow>
    (\<exists>e. es = [e] \<and> makes e ''CHECKED'' ''QCI-GATEKEEPER'' ''enforce-release-gate'' t h \<and> te_output_hash e = g)"
  using assms final_not_initial[OF assms]
  by (cases es) (auto simp: team_path_Nil team_path_Cons team_step_checked final_paths makes_def final_state_def)

lemma path_from_planned:
  assumes "final_state t"
  shows "team_path ''PLANNED'' h es t g \<longleftrightarrow>
    (\<exists>e es'. es = e # es' \<and> makes e ''PLANNED'' ''QCI-EVIDENCE'' ''run-evidence-regression'' ''CHECKED'' h
       \<and> team_path ''CHECKED'' (te_output_hash e) es' t g)"
  using final_not_initial[OF assms]
  by (cases es) (auto simp: team_path_Nil team_path_Cons team_step_planned makes_def)

lemma path_from_scoped:
  assumes "final_state t"
  shows "team_path ''SCOPED'' h es t g \<longleftrightarrow>
    (\<exists>e es'. es = e # es' \<and> makes e ''SCOPED'' ''QCI-IMPACT'' ''compile-impact-plan'' ''PLANNED'' h
       \<and> team_path ''PLANNED'' (te_output_hash e) es' t g)"
  using final_not_initial[OF assms]
  by (cases es) (auto simp: team_path_Nil team_path_Cons team_step_scoped makes_def)

lemma path_from_received:
  assumes "final_state t"
  shows "team_path ''RECEIVED'' h es t g \<longleftrightarrow>
    (\<exists>e es'. es = e # es' \<and> makes e ''RECEIVED'' ''QCI-MANAGER'' ''quality-task-intake'' ''SCOPED'' h
       \<and> team_path ''SCOPED'' (te_output_hash e) es' t g)"
  using final_not_initial[OF assms]
  by (cases es) (auto simp: team_path_Nil team_path_Cons team_step_received makes_def)

text \<open>
  The two checks of a trace accept exactly the runs of the machine from the receipt of a task to its
  final state, numbered from 1, with the four hashes as what the agents handed over.
\<close>

lemma trace_checks_path:
  assumes "final_state gate"
  shows "check_trace_profile label gate es = Inr () \<and> check_hash_joins label h m i r f es = Inr () \<longleftrightarrow>
    team_path ''RECEIVED'' h es gate f \<and> map te_sequence es = [1, 2, 3, 4] \<and> map te_output_hash es = [m, i, r, f]"
proof -
  have p: "team_path ''RECEIVED'' h es gate f \<longleftrightarrow> (\<exists>a b c d. es = [a, b, c, d]
      \<and> makes a ''RECEIVED'' ''QCI-MANAGER'' ''quality-task-intake'' ''SCOPED'' h
      \<and> makes b ''SCOPED'' ''QCI-IMPACT'' ''compile-impact-plan'' ''PLANNED'' (te_output_hash a)
      \<and> makes c ''PLANNED'' ''QCI-EVIDENCE'' ''run-evidence-regression'' ''CHECKED'' (te_output_hash b)
      \<and> makes d ''CHECKED'' ''QCI-GATEKEEPER'' ''enforce-release-gate'' gate (te_output_hash c)
      \<and> te_output_hash d = f)"
    unfolding path_from_received[OF assms] path_from_scoped[OF assms] path_from_planned[OF assms]
      path_from_checked[OF assms] by blast
  show ?thesis
    unfolding p check_trace_profile_def check_hash_joins_def require_Inr TRACE_PROFILE_def event_profile_def
      map_eq_Cons_conv map_is_Nil_conv makes_def by auto
qed

end
