(* ===== verification/Team_Legacy.thy ===== *)
theory Team_Legacy
  imports Team_Trace
begin

text \<open>
  The older profile of \<open>orchestration.py\<close>: \<open>LegacyTeamRunView\<close>, \<open>TeamRunResult\<close> with the checks of
  their constructors, and \<open>_run_agent_team\<close>, which runs one case and always leaves it blocked.
  A tuple is a list, and the text of a failed comparison is kept without its values.
\<close>

section \<open>The view of a run\<close>

record team_run_view =
  tv_run_id :: json
  tv_case_id :: json
  tv_case_hash :: json
  tv_ruleset_version :: json
  tv_reference_state :: json
  tv_reference_set_hash :: json
  tv_reference_version :: json
  tv_validation_state :: json
  tv_validation_set_hash :: json
  tv_validation_version :: json
  tv_overall_status :: check_status
  tv_impact_plan :: impact_plan
  tv_findings :: "finding list"

definition view_items :: "team_run_view \<Rightarrow> dict" where
  "view_items v =
     [(''run_id'', tv_run_id v), (''case_id'', tv_case_id v), (''case_hash'', tv_case_hash v),
      (''ruleset_version'', tv_ruleset_version v), (''reference_assurance_state'', tv_reference_state v),
      (''reference_set_hash'', tv_reference_set_hash v), (''reference_contract_version'', tv_reference_version v),
      (''validation_assurance_state'', tv_validation_state v),
      (''validation_evidence_set_hash'', tv_validation_set_hash v),
      (''validation_evidence_contract_version'', tv_validation_version v),
      (''overall_status'', JStr (status_text (tv_overall_status v))), (''impact_plan'', plan_json (tv_impact_plan v)),
      (''findings'', JList (map finding_json (tv_findings v)))]"

definition validate_team_run_view :: "runtime \<Rightarrow> team_run_view \<Rightarrow> unit res" where
  "validate_team_run_view R v =
     rbind (seq_checks
       [lower_hex (tv_run_id v) 16 ''LEGACY_V3 run_id'',
        check_text (tv_case_id v) ''LEGACY_V3 case_id'',
        lower_hex (tv_case_hash v) 64 ''LEGACY_V3 case_hash'',
        exact_constant (tv_ruleset_version v) RULESET_VERSION ''LEGACY_V3 ruleset_version'',
        validate_reference_profile ''LEGACY_V3''
          (tv_reference_state v, tv_reference_set_hash v, tv_reference_version v)
          (tv_validation_state v, tv_validation_set_hash v, tv_validation_version v),
        validate_result_values ''LEGACY_V3'' (tv_overall_status v) (tv_findings v)]) (\<lambda>_.
     rbind (run_id_for_identity R (legacy_identity (tv_case_hash v) (tv_reference_state v)
       (tv_reference_set_hash v) (tv_reference_version v) (tv_validation_state v) (tv_validation_set_hash v)
       (tv_validation_version v))) (\<lambda>expected. seq_checks
       [require (tv_run_id v = JStr expected) (ValueError ''LEGACY_V3 run_id differs from its exact identity''),
        require (keys_exactly LEGACY_RUN_RESULT_KEYS (view_items v))
          (ValueError ''legacy Team run differs from the exact LEGACY_V3 profile'')]))"

text \<open>The constructor, and the comparison with the frozen projection of the run.\<close>

definition legacy_team_run_view :: "runtime \<Rightarrow> run_result \<Rightarrow> team_run_view res" where
  "legacy_team_run_view R r =
     rbind (legacy_run_result_projection R r) (\<lambda>projection.
     let v = \<lparr>tv_run_id = dget ''run_id'' projection, tv_case_id = rr_case_id r, tv_case_hash = rr_case_hash r,
         tv_ruleset_version = rr_ruleset_version r, tv_reference_state = rr_reference_state r,
         tv_reference_set_hash = rr_reference_set_hash r, tv_reference_version = rr_reference_version r,
         tv_validation_state = rr_validation_state r, tv_validation_set_hash = rr_validation_set_hash r,
         tv_validation_version = rr_validation_version r, tv_overall_status = rr_overall_status r,
         tv_impact_plan = rr_impact_plan r, tv_findings = rr_findings r\<rparr> in
     rbind (validate_team_run_view R v) (\<lambda>_.
     rbind (require (view_items v = projection)
       (AssertionError ''legacy Team Run object differs from its frozen payload'')) (\<lambda>_. Inr v)))"

section \<open>The values that are hashed\<close>

definition legacy_task_context :: "json \<Rightarrow> json \<Rightarrow> json \<Rightarrow> json" where
  "legacy_task_context case_id event_id case_hash = JDict
     [(''case_id'', case_id), (''event_id'', event_id), (''case_hash'', case_hash), (''synthetic'', JBool True)]"

definition dispatch_step_json :: "int \<times> string \<times> string \<Rightarrow> json" where
  "dispatch_step_json d = JDict
     [(''sequence'', JInt (fst d)), (''agent_id'', JStr (fst (snd d))), (''skill_id'', JStr (snd (snd d)))]"

definition legacy_dispatch_payload :: json where
  "legacy_dispatch_payload = JList (map dispatch_step_json DISPATCH_PROFILE)"

definition manager_output :: "json \<Rightarrow> json \<Rightarrow> json" where
  "manager_output task_context dispatch_plan = JDict
     [(''task_context'', task_context), (''dispatch_plan'', dispatch_plan)]"

definition legacy_impact_artifact :: "json \<Rightarrow> json \<Rightarrow> json" where
  "legacy_impact_artifact case_hash plan = JDict [(''case_hash'', case_hash), (''impact_plan'', plan)]"

definition legacy_final_payload :: "string \<Rightarrow> team_run_view \<Rightarrow> json" where
  "legacy_final_payload gate v = JDict
     [(''decision'', JStr gate), (''run_id'', tv_run_id v),
      (''overall_status'', JStr (status_text (tv_overall_status v)))]"

section \<open>The result\<close>

record team_run_result =
  tr_run :: team_run_view
  tr_trace :: "team_event list"
  tr_final_state :: string
  tr_shared_state :: dict
  tr_runtime_mode :: string

definition LEGACY_SHARED_STATE_KEYS :: "string list" where
  "LEGACY_SHARED_STATE_KEYS =
     [''case_id'', ''event_id'', ''current_state'', ''artifact_hashes'', ''dispatch_plan'', ''run_id'', ''ruleset_version'']"

definition LEGACY_ARTIFACT_HASH_KEYS :: "string list" where
  "LEGACY_ARTIFACT_HASH_KEYS = [''task_context'', ''dispatch_plan'', ''impact_plan'', ''run_result'']"

definition is_dispatch_step :: "json \<Rightarrow> bool" where
  "is_dispatch_step v \<longleftrightarrow> is_dict v \<and> keys_exactly [''sequence'', ''agent_id'', ''skill_id''] (dict_of v)"

definition check_shared_shape :: "dict \<Rightarrow> unit res" where
  "check_shared_shape shared =
     (let artifacts = dget ''artifact_hashes'' shared; dispatch = dget ''dispatch_plan'' shared in seq_checks
      [require (keys_exactly LEGACY_SHARED_STATE_KEYS shared) TypeError,
       require (is_dict artifacts \<and> keys_exactly LEGACY_ARTIFACT_HASH_KEYS (dict_of artifacts)) TypeError,
       seq_checks (map (\<lambda>kv. lower_hex (snd kv) 64 (''legacy Team artifact hash '' @ fst kv)) (dict_of artifacts)),
       require (is_list dispatch \<and> list_all is_dispatch_step (list_of dispatch)
           \<and> py_eq dispatch legacy_dispatch_payload)
         (ValueError ''legacy Team dispatch plan differs from its exact profile''),
       check_text (dget ''case_id'' shared) ''legacy Team shared case_id'',
       lower_hex (dget ''run_id'' shared) 16 ''legacy Team shared run_id'',
       exact_constant (dget ''ruleset_version'' shared) RULESET_VERSION ''legacy Team shared ruleset_version'',
       exact_constant (dget ''current_state'' shared) TEAM_BLOCKED ''legacy Team shared current_state''])"

definition check_shared_joins :: "dict \<Rightarrow> team_run_view \<Rightarrow> string \<Rightarrow> unit res" where
  "check_shared_joins shared v final_team_state = seq_checks
     [require (dget ''case_id'' shared = tv_case_id v \<and> dget ''run_id'' shared = tv_run_id v
         \<and> dget ''ruleset_version'' shared = tv_ruleset_version v
         \<and> dget ''current_state'' shared = JStr final_team_state)
        (ValueError ''legacy Team shared state differs from its run or final state''),
      check_text (dget ''event_id'' shared) ''legacy Team shared event_id'']"

definition legacy_artifact_hashes :: "runtime \<Rightarrow> json \<Rightarrow> json \<Rightarrow> json \<Rightarrow> string \<Rightarrow> dict res" where
  "legacy_artifact_hashes R task_context dispatch_plan plan run_hash =
     rbind (canonical_hash R task_context) (\<lambda>t.
     rbind (canonical_hash R dispatch_plan) (\<lambda>d.
     rbind (canonical_hash R plan) (\<lambda>p.
     Inr [(''task_context'', JStr t), (''dispatch_plan'', JStr d), (''impact_plan'', JStr p),
          (''run_result'', JStr run_hash)])))"

definition check_legacy_hashes :: "runtime \<Rightarrow> team_run_result \<Rightarrow> unit res" where
  "check_legacy_hashes R t =
     (let v = tr_run t; shared = tr_shared_state t; dispatch = dget ''dispatch_plan'' shared;
          task = legacy_task_context (tv_case_id v) (dget ''event_id'' shared) (tv_case_hash v);
          plan = plan_json (tv_impact_plan v) in
      rbind (canonical_hash R (JDict (view_items v))) (\<lambda>run_hash.
      rbind (legacy_artifact_hashes R task dispatch plan run_hash) (\<lambda>expected.
      rbind (require (py_eq (dget ''artifact_hashes'' shared) (JDict expected))
        (ValueError ''legacy Team artifact hashes differ from exact values'')) (\<lambda>_.
      rbind (check_trace_profile ''legacy Team'' TEAM_BLOCKED (tr_trace t)) (\<lambda>_.
      rbind (canonical_hash R (manager_output task dispatch)) (\<lambda>manager.
      rbind (canonical_hash R (legacy_impact_artifact (tv_case_hash v) plan)) (\<lambda>impact.
      rbind (canonical_hash R (legacy_final_payload (tr_final_state t) v)) (\<lambda>final.
      check_hash_joins ''legacy Team'' (str_of (tv_case_hash v)) manager impact run_hash final (tr_trace t)))))))))"

definition validate_legacy_team_result :: "runtime \<Rightarrow> team_run_result \<Rightarrow> unit res" where
  "validate_legacy_team_result R t = seq_checks
     [validate_team_run_view R (tr_run t),
      exact_constant (JStr (tr_runtime_mode t)) TEAM_RUNTIME_MODE ''legacy Team runtime mode'',
      exact_constant (JStr (tr_final_state t)) TEAM_BLOCKED ''legacy Team final state'',
      require (length (tr_trace t) = 4) TypeError,
      check_shared_shape (tr_shared_state t),
      check_shared_joins (tr_shared_state t) (tr_run t) (tr_final_state t),
      check_legacy_hashes R t]"

section \<open>The run\<close>

definition make_team_event :: "string \<Rightarrow> team_event \<Rightarrow> team_event res" where
  "make_team_event label e = rbind (validate_trace_fields label e) (\<lambda>_. Inr e)"

definition INTAKE_EVIDENCE :: "string list" where
  "INTAKE_EVIDENCE = [''case_id'', ''event.event_id'', ''synthetic_for_competition'']"

definition PLAN_EVIDENCE :: "string list" where
  "PLAN_EVIDENCE = [''event.affected_process_steps'', ''event.affected_characteristics'']"

definition GATE_EVIDENCE :: "string list" where
  "GATE_EVIDENCE = [''run_id'', ''case_hash'', ''ruleset_version'', ''overall_status'']"

definition intake_event :: "string \<Rightarrow> string \<Rightarrow> team_event" where
  "intake_event start manager =
     \<lparr>te_sequence = 1, te_agent_id = ''QCI-MANAGER'', te_skill_id = ''quality-task-intake'',
      te_state_from = ''RECEIVED'', te_state_to = ''SCOPED'', te_input_hash = start, te_output_hash = manager,
      te_evidence = INTAKE_EVIDENCE\<rparr>"

definition plan_event :: "string \<Rightarrow> string \<Rightarrow> team_event" where
  "plan_event manager impact =
     \<lparr>te_sequence = 2, te_agent_id = ''QCI-IMPACT'', te_skill_id = ''compile-impact-plan'',
      te_state_from = ''SCOPED'', te_state_to = ''PLANNED'', te_input_hash = manager, te_output_hash = impact,
      te_evidence = PLAN_EVIDENCE\<rparr>"

definition regression_event :: "string \<Rightarrow> string \<Rightarrow> string list \<Rightarrow> team_event" where
  "regression_event impact run locators =
     \<lparr>te_sequence = 3, te_agent_id = ''QCI-EVIDENCE'', te_skill_id = ''run-evidence-regression'',
      te_state_from = ''PLANNED'', te_state_to = ''CHECKED'', te_input_hash = impact, te_output_hash = run,
      te_evidence = locators\<rparr>"

definition gate_event :: "string \<Rightarrow> string \<Rightarrow> string \<Rightarrow> string list \<Rightarrow> team_event" where
  "gate_event gate run final cited =
     \<lparr>te_sequence = 4, te_agent_id = ''QCI-GATEKEEPER'', te_skill_id = ''enforce-release-gate'',
      te_state_from = ''CHECKED'', te_state_to = gate, te_input_hash = run, te_output_hash = final,
      te_evidence = cited\<rparr>"

definition legacy_trace :: "runtime \<Rightarrow> string \<Rightarrow> json \<Rightarrow> json \<Rightarrow> team_run_view \<Rightarrow> team_event list res" where
  "legacy_trace R case_hash manager_value impact_value v =
     rbind (canonical_hash R manager_value) (\<lambda>manager.
     rbind (make_team_event ''legacy Team trace'' (intake_event case_hash manager)) (\<lambda>e1.
     rbind (canonical_hash R impact_value) (\<lambda>impact.
     rbind (make_team_event ''legacy Team trace'' (plan_event manager impact)) (\<lambda>e2.
     rbind (canonical_hash R (JDict (view_items v))) (\<lambda>run.
     rbind (run_locators (tv_findings v)) (\<lambda>locators.
     rbind (make_team_event ''legacy Team trace'' (regression_event impact run locators)) (\<lambda>e3.
     rbind (canonical_hash R (legacy_final_payload TEAM_BLOCKED v)) (\<lambda>final.
     rbind (make_team_event ''legacy Team trace'' (gate_event TEAM_BLOCKED run final GATE_EVIDENCE)) (\<lambda>e4.
     Inr [e1, e2, e3, e4])))))))))"

definition legacy_shared_state :: "json \<Rightarrow> json \<Rightarrow> dict \<Rightarrow> team_run_view \<Rightarrow> dict" where
  "legacy_shared_state case_id event_id artifacts v =
     [(''case_id'', case_id), (''event_id'', event_id), (''current_state'', JStr TEAM_BLOCKED),
      (''artifact_hashes'', JDict artifacts), (''dispatch_plan'', legacy_dispatch_payload),
      (''run_id'', tv_run_id v), (''ruleset_version'', tv_ruleset_version v)]"

text \<open>The run of the rules inside the team.\<close>

definition team_run :: "runtime \<Rightarrow> json \<Rightarrow> reference_context option \<Rightarrow> validation_context option \<Rightarrow> run_result res" where
  "team_run R c rc vc =
     (case rc of Some x \<Rightarrow> run_case_with_reference_context R c x vc | None \<Rightarrow> run_case R c)"

definition assemble_team :: "runtime \<Rightarrow> json \<Rightarrow> json \<Rightarrow> string \<Rightarrow> json \<Rightarrow> run_result \<Rightarrow> team_run_result res" where
  "assemble_team R case_id event_id case_hash plan r =
     (let task = legacy_task_context case_id event_id (JStr case_hash) in
      rbind (legacy_team_run_view R r) (\<lambda>v.
      rbind (legacy_trace R case_hash (manager_output task legacy_dispatch_payload)
        (legacy_impact_artifact (JStr case_hash) plan) v) (\<lambda>trace.
      rbind (canonical_hash R (JDict (view_items v))) (\<lambda>run_hash.
      rbind (legacy_artifact_hashes R task legacy_dispatch_payload plan run_hash) (\<lambda>artifacts.
      let t = \<lparr>tr_run = v, tr_trace = trace, tr_final_state = TEAM_BLOCKED,
          tr_shared_state = legacy_shared_state case_id event_id artifacts v, tr_runtime_mode = TEAM_RUNTIME_MODE\<rparr> in
      rbind (validate_legacy_team_result R t) (\<lambda>_. Inr t)))))) "

definition run_agent_team_in :: "runtime \<Rightarrow> json \<Rightarrow> reference_context option \<Rightarrow> validation_context option
    \<Rightarrow> team_run_result res" where
  "run_agent_team_in R v rc vc =
     (if \<not> is_dict v then Inl TypeError
      else rbind (prepare_case R v) (\<lambda>c.
        rbind (canonical_hash R c) (\<lambda>case_hash.
        rbind (ditem ''case_id'' (dict_of c)) (\<lambda>case_id.
        rbind (ditem ''event'' (dict_of c)) (\<lambda>event.
        rbind (item ''event_id'' event) (\<lambda>event_id.
        rbind (build_impact_plan R (dict_of c)) (\<lambda>plan.
        rbind (team_run R c rc vc) (assemble_team R case_id event_id case_hash (plan_json plan)))))))))"

text \<open>
  The entries: without reference bytes no context is built, and validation bytes need reference
  bytes.  How a reference bundle is sealed is not modelled: its context is the parameter.
\<close>

definition run_agent_team :: "runtime \<Rightarrow> json \<Rightarrow> reference_context res option \<Rightarrow> evidence_bundle option
    \<Rightarrow> string \<Rightarrow> team_run_result res" where
  "run_agent_team R v reference validation phase =
     (case reference of
        None \<Rightarrow> (if validation \<noteq> None then Inl TypeError else run_agent_team_in R v None None)
      | Some sealing \<Rightarrow>
          rbind (case validation of
              None \<Rightarrow> Inr None
            | Some b \<Rightarrow> rbind (prepare_case R v) (\<lambda>c.
                rbind (prepare_validation_evidence_context R b (dict_of c) phase None) (\<lambda>x. Inr (Some x)))) (\<lambda>vc.
          rbind sealing (\<lambda>rc. run_agent_team_in R v (Some rc) vc)))"

definition run_agent_team_with_reference_context :: "runtime \<Rightarrow> json \<Rightarrow> reference_context \<Rightarrow> validation_context option
    \<Rightarrow> team_run_result res" where
  "run_agent_team_with_reference_context R v x vc =
     (if \<not> is_sealed_reference_context (Some x) then Inl TypeError
      else if vc \<noteq> None \<and> \<not> is_sealed_validation_context vc then Inl TypeError
      else run_agent_team_in R v (Some x) vc)"

end
