(* ===== verification/Team_Rooted.thy ===== *)
theory Team_Rooted
  imports Team_Legacy
begin

text \<open>
  The profile 0.2 of \<open>orchestration.py\<close>: a team result that names the source of the case in every
  part, and \<open>run_agent_team_with_source_bundle\<close>, which builds it from the evaluation of a source
  bundle.  That evaluation is the parameter: the case it rebuilt and the run it made.
\<close>

section \<open>Constants and the source tuple\<close>

definition TEAM_RUN_CONTRACT_VERSION :: string where
  "TEAM_RUN_CONTRACT_VERSION = ''qualityci-team-run-0.2''"

definition TEAM_TASK_CONTEXT_CONTRACT_VERSION :: string where
  "TEAM_TASK_CONTEXT_CONTRACT_VERSION = ''qualityci-team-task-context-0.2''"

definition TEAM_TRACE_EVENT_CONTRACT_VERSION :: string where
  "TEAM_TRACE_EVENT_CONTRACT_VERSION = ''qualityci-team-trace-event-0.2''"

definition TEAM_SHARED_STATE_CONTRACT_VERSION :: string where
  "TEAM_SHARED_STATE_CONTRACT_VERSION = ''qualityci-team-shared-state-0.2''"

definition TEAM_FINAL_DECISION_CONTRACT_VERSION :: string where
  "TEAM_FINAL_DECISION_CONTRACT_VERSION = ''qualityci-team-final-decision-0.2''"

definition is_text_or_null :: "json \<Rightarrow> bool" where
  "is_text_or_null v \<longleftrightarrow> v = JNull \<or> is_str v"

definition source_tuple :: "source_assurance \<Rightarrow> string \<Rightarrow> unit res" where
  "source_tuple a label = seq_checks
     [require (list_all (\<lambda>kv. is_text_or_null (snd kv)) (assurance_items a)) TypeError,
      require (sa_state a = JStr SOURCE_BOUND \<or> sa_state a = JStr SOURCE_DERIVED)
        (ValueError (label @ '' source tuple must be BOUND or SOURCE_ROOTED''))]"

definition team_state_for_status :: "string \<Rightarrow> string" where
  "team_state_for_status status = (if status = status_text PASS then TEAM_READY else TEAM_BLOCKED)"

section \<open>The parts of a result\<close>

record dispatch_step =
  ds_sequence :: int
  ds_agent_id :: string
  ds_skill_id :: string

definition check_dispatch_step :: "dispatch_step \<Rightarrow> unit res" where
  "check_dispatch_step d = seq_checks
     [require (0 < ds_sequence d) TypeError,
      check_text (JStr (ds_agent_id d)) ''Team 0.2 dispatch agent_id'',
      check_text (JStr (ds_skill_id d)) ''Team 0.2 dispatch skill_id'']"

definition step_triple :: "dispatch_step \<Rightarrow> int \<times> string \<times> string" where
  "step_triple d = (ds_sequence d, ds_agent_id d, ds_skill_id d)"

definition validate_dispatch_plan :: "dispatch_step list \<Rightarrow> string \<Rightarrow> unit res" where
  "validate_dispatch_plan ds label = seq_checks
     [require (length ds = length DISPATCH_PROFILE) TypeError,
      require (map step_triple ds = DISPATCH_PROFILE)
        (ValueError (label @ '' dispatch plan differs from its exact profile''))]"

definition dispatch_json :: "dispatch_step list \<Rightarrow> json" where
  "dispatch_json ds = JList (map (\<lambda>d. dispatch_step_json (step_triple d)) ds)"

record task_context =
  tk_contract_version :: string
  tk_case_source :: source_assurance
  tk_case_id :: json
  tk_event_id :: json
  tk_case_hash :: json
  tk_synthetic :: bool

definition check_task_context :: "task_context \<Rightarrow> unit res" where
  "check_task_context k = seq_checks
     [exact_constant (JStr (tk_contract_version k)) TEAM_TASK_CONTEXT_CONTRACT_VERSION ''Team 0.2 task context contract version'',
      source_tuple (tk_case_source k) ''Team 0.2 task context'',
      check_text (tk_case_id k) ''Team 0.2 task context case_id'',
      check_text (tk_event_id k) ''Team 0.2 task context event_id'',
      lower_hex (tk_case_hash k) 64 ''Team 0.2 task context case_hash'']"

definition task_json :: "task_context \<Rightarrow> json" where
  "task_json k = JDict
     [(''contract_version'', JStr (tk_contract_version k)), (''case_source'', JDict (assurance_items (tk_case_source k))),
      (''case_id'', tk_case_id k), (''event_id'', tk_event_id k), (''case_hash'', tk_case_hash k),
      (''synthetic'', JBool (tk_synthetic k))]"

record rooted_event = team_event +
  re_contract_version :: string
  re_case_source :: source_assurance

definition check_rooted_event :: "rooted_event \<Rightarrow> unit res" where
  "check_rooted_event e = seq_checks
     [exact_constant (JStr (re_contract_version e)) TEAM_TRACE_EVENT_CONTRACT_VERSION ''Team 0.2 trace contract version'',
      source_tuple (re_case_source e) ''Team 0.2 trace'',
      validate_trace_fields ''Team 0.2 trace'' e]"

record artifact_hashes =
  ah_task_context :: string
  ah_dispatch_plan :: string
  ah_impact_plan :: string
  ah_run_result :: string
  ah_final_decision :: string

definition check_artifact_hashes :: "artifact_hashes \<Rightarrow> unit res" where
  "check_artifact_hashes a = seq_checks
     [lower_hex (JStr (ah_task_context a)) 64 ''Team 0.2 artifact hash task_context'',
      lower_hex (JStr (ah_dispatch_plan a)) 64 ''Team 0.2 artifact hash dispatch_plan'',
      lower_hex (JStr (ah_impact_plan a)) 64 ''Team 0.2 artifact hash impact_plan'',
      lower_hex (JStr (ah_run_result a)) 64 ''Team 0.2 artifact hash run_result'',
      lower_hex (JStr (ah_final_decision a)) 64 ''Team 0.2 artifact hash final_decision'']"

record final_decision =
  fd_contract_version :: string
  fd_case_source :: source_assurance
  fd_decision :: string
  fd_run_id :: json
  fd_overall_status :: string

definition CHECK_STATUS_VALUES :: "string list" where
  "CHECK_STATUS_VALUES = map status_text [PASS, CONTRADICTED, UNVERIFIABLE]"

definition check_final_decision :: "final_decision \<Rightarrow> unit res" where
  "check_final_decision f = seq_checks
     [exact_constant (JStr (fd_contract_version f)) TEAM_FINAL_DECISION_CONTRACT_VERSION ''Team 0.2 final decision contract version'',
      source_tuple (fd_case_source f) ''Team 0.2 final decision'',
      require (fd_decision f \<in> {TEAM_READY, TEAM_BLOCKED}) (ValueError ''Team 0.2 final decision state is unsupported''),
      lower_hex (fd_run_id f) 16 ''Team 0.2 final decision run_id'',
      require (fd_overall_status f \<in> set CHECK_STATUS_VALUES) (ValueError ''Team 0.2 final decision status is unsupported''),
      require (fd_decision f = team_state_for_status (fd_overall_status f))
        (ValueError ''Team 0.2 final decision differs from overall status'')]"

definition decision_json :: "final_decision \<Rightarrow> json" where
  "decision_json f = JDict
     [(''contract_version'', JStr (fd_contract_version f)), (''case_source'', JDict (assurance_items (fd_case_source f))),
      (''decision'', JStr (fd_decision f)), (''run_id'', fd_run_id f), (''overall_status'', JStr (fd_overall_status f))]"

record rooted_shared_state =
  sh_contract_version :: string
  sh_case_source :: source_assurance
  sh_case_id :: json
  sh_event_id :: json
  sh_current_state :: string
  sh_artifact_hashes :: artifact_hashes
  sh_dispatch_plan :: "dispatch_step list"
  sh_run_id :: json
  sh_ruleset_version :: json

definition check_rooted_shared_state :: "rooted_shared_state \<Rightarrow> unit res" where
  "check_rooted_shared_state s = seq_checks
     [exact_constant (JStr (sh_contract_version s)) TEAM_SHARED_STATE_CONTRACT_VERSION ''Team 0.2 shared state contract version'',
      source_tuple (sh_case_source s) ''Team 0.2 shared state'',
      check_text (sh_case_id s) ''Team 0.2 shared state case_id'',
      check_text (sh_event_id s) ''Team 0.2 shared state event_id'',
      require (sh_current_state s \<in> {TEAM_READY, TEAM_BLOCKED})
        (ValueError ''Team 0.2 shared state current_state is unsupported''),
      validate_dispatch_plan (sh_dispatch_plan s) ''Team 0.2 shared state'',
      lower_hex (sh_run_id s) 16 ''Team 0.2 shared state run_id'',
      check_text (sh_ruleset_version s) ''Team 0.2 shared state ruleset_version'']"

text \<open>The constructors.\<close>

definition built :: "('a \<Rightarrow> unit res) \<Rightarrow> 'a \<Rightarrow> 'a res" where
  "built check x = rbind (check x) (\<lambda>_. Inr x)"

section \<open>The result\<close>

record rooted_team_result =
  rt_contract_version :: string
  rt_case_source :: source_assurance
  rt_task_context :: task_context
  rt_run :: run_result
  rt_trace :: "rooted_event list"
  rt_final_state :: string
  rt_final_decision :: final_decision
  rt_shared_state :: rooted_shared_state
  rt_runtime_mode :: string

definition CURRENT_RUN_KEYS :: "string list" where
  "CURRENT_RUN_KEYS =
     LEGACY_RUN_RESULT_KEYS @ [''run_result_contract_version'', ''run_identity_version''] @ ASSURANCE_KEYS"

definition validate_current_team_run :: "runtime \<Rightarrow> run_result \<Rightarrow> source_assurance \<Rightarrow> unit res" where
  "validate_current_team_run R r a =
     rbind (seq_checks
       [exact_constant (rr_contract_version r) RUN_RESULT_CONTRACT_VERSION ''CURRENT_V4 RunResult contract version'',
        exact_constant (rr_identity_version r) RUN_IDENTITY_VERSION ''CURRENT_V4 RunResult identity version'',
        lower_hex (rr_run_id r) 16 ''CURRENT_V4 RunResult run_id'',
        check_text (rr_case_id r) ''CURRENT_V4 RunResult case_id'',
        lower_hex (rr_case_hash r) 64 ''CURRENT_V4 RunResult case_hash'',
        exact_constant (rr_ruleset_version r) RULESET_VERSION ''CURRENT_V4 RunResult ruleset_version'',
        require (keys_exactly CURRENT_RUN_KEYS (run_result_items r))
          (ValueError ''Team 0.2 nested run is not the exact CURRENT_V4 profile''),
        require (list_all (\<lambda>kv. is_text_or_null (snd kv)) (assurance_items (rr_source r))) TypeError,
        require (rr_source r = a) (ValueError ''Team 0.2 nested run source tuple disagrees with the root''),
        validate_reference_profile ''CURRENT_V4''
          (rr_reference_state r, rr_reference_set_hash r, rr_reference_version r)
          (rr_validation_state r, rr_validation_set_hash r, rr_validation_version r),
        validate_result_values ''CURRENT_V4'' (rr_overall_status r) (rr_findings r)]) (\<lambda>_.
     rbind (run_id_for_current_identity R a (rr_case_hash r) (rr_reference_state r) (rr_reference_set_hash r)
       (rr_reference_version r) (rr_validation_state r) (rr_validation_set_hash r) (rr_validation_version r)) (\<lambda>expected.
     require (rr_run_id r = JStr expected) (ValueError ''CURRENT_V4 RunResult run_id differs from its exact identity'')))"

text \<open>The sources of the parts, in the order of the loop that compares them.\<close>

definition nested_sources :: "rooted_team_result \<Rightarrow> (source_assurance \<times> string) list" where
  "nested_sources t =
     [(tk_case_source (rt_task_context t), ''task context''), (sh_case_source (rt_shared_state t), ''shared state''),
      (fd_case_source (rt_final_decision t), ''final decision'')]
     @ map (\<lambda>(index, e). (re_case_source e, ''trace['' @ show_nat index @ '']'')) (zip [0..<length (rt_trace t)] (rt_trace t))"

definition check_nested_source :: "source_assurance \<Rightarrow> source_assurance \<times> string \<Rightarrow> unit res" where
  "check_nested_source a nested = seq_checks
     [source_tuple (fst nested) (''Team 0.2 '' @ snd nested),
      require (fst nested = a) (ValueError (''Team 0.2 '' @ snd nested @ '' source tuple disagrees with the root''))]"

definition check_task_joins :: "rooted_team_result \<Rightarrow> unit res" where
  "check_task_joins t =
     (let task = rt_task_context t; shared = rt_shared_state t; run = rt_run t in
      require (tk_case_id task = rr_case_id run \<and> sh_case_id shared = rr_case_id run
          \<and> tk_case_hash task = rr_case_hash run \<and> tk_event_id task = sh_event_id shared \<and> tk_synthetic task)
        (ValueError ''Team 0.2 task/shared identity joins disagree with the run''))"

definition check_state_joins :: "rooted_team_result \<Rightarrow> unit res" where
  "check_state_joins t =
     (let status = status_text (rr_overall_status (rt_run t)); expected = team_state_for_status status;
          shared = rt_shared_state t; decision = rt_final_decision t; run = rt_run t in
      require (rt_final_state t = expected \<and> sh_current_state shared = expected \<and> fd_decision decision = expected
          \<and> fd_run_id decision = rr_run_id run \<and> fd_overall_status decision = status
          \<and> sh_run_id shared = rr_run_id run \<and> sh_ruleset_version shared = rr_ruleset_version run)
        (ValueError ''Team 0.2 run/status/state joins are inconsistent''))"

definition source_input :: "source_assurance \<Rightarrow> json \<Rightarrow> json" where
  "source_input a case_hash = JDict [(''case_source'', JDict (assurance_items a)), (''case_hash'', case_hash)]"

definition dispatch_artifact :: "source_assurance \<Rightarrow> json \<Rightarrow> json" where
  "dispatch_artifact a plan = JDict [(''case_source'', JDict (assurance_items a)), (''dispatch_plan'', plan)]"

definition impact_artifact :: "source_assurance \<Rightarrow> json \<Rightarrow> impact_plan \<Rightarrow> json" where
  "impact_artifact a case_hash plan = JDict
     [(''case_source'', JDict (assurance_items a)), (''case_hash'', case_hash), (''impact_plan'', plan_json plan)]"

definition rooted_artifact_hashes :: "runtime \<Rightarrow> source_assurance \<Rightarrow> task_context \<Rightarrow> json \<Rightarrow> run_result
    \<Rightarrow> final_decision \<Rightarrow> artifact_hashes res" where
  "rooted_artifact_hashes R a task plan run decision =
     rbind (canonical_hash R (task_json task)) (\<lambda>h1.
     rbind (canonical_hash R (dispatch_artifact a plan)) (\<lambda>h2.
     rbind (canonical_hash R (impact_artifact a (rr_case_hash run) (rr_impact_plan run))) (\<lambda>h3.
     rbind (canonical_hash R (JDict (run_result_items run))) (\<lambda>h4.
     rbind (canonical_hash R (decision_json decision)) (\<lambda>h5.
     Inr \<lparr>ah_task_context = h1, ah_dispatch_plan = h2, ah_impact_plan = h3, ah_run_result = h4,
          ah_final_decision = h5\<rparr>)))))"

definition check_rooted_hashes :: "runtime \<Rightarrow> rooted_team_result \<Rightarrow> unit res" where
  "check_rooted_hashes R t =
     (let a = rt_case_source t; run = rt_run t; plan = dispatch_json (sh_dispatch_plan (rt_shared_state t)) in
      rbind (rooted_artifact_hashes R a (rt_task_context t) plan run (rt_final_decision t)) (\<lambda>expected.
      rbind (require (sh_artifact_hashes (rt_shared_state t) = expected)
        (ValueError ''Team 0.2 artifact hashes differ from exact nested values'')) (\<lambda>_.
      rbind (check_trace_profile ''Team 0.2'' (team_state_for_status (status_text (rr_overall_status run))) (rt_trace t)) (\<lambda>_.
      rbind (canonical_hash R (source_input a (rr_case_hash run))) (\<lambda>start.
      rbind (canonical_hash R (manager_output (task_json (rt_task_context t)) plan)) (\<lambda>manager.
      rbind (canonical_hash R (impact_artifact a (rr_case_hash run) (rr_impact_plan run))) (\<lambda>impact.
      check_hash_joins ''Team 0.2'' start manager impact (ah_run_result expected) (ah_final_decision expected)
        (rt_trace t)))))))) "

definition validate_rooted_team_result :: "runtime \<Rightarrow> rooted_team_result \<Rightarrow> unit res" where
  "validate_rooted_team_result R t = seq_checks
     [exact_constant (JStr (rt_contract_version t)) TEAM_RUN_CONTRACT_VERSION ''Team 0.2 root contract version'',
      exact_constant (JStr (rt_runtime_mode t)) TEAM_RUNTIME_MODE ''Team 0.2 runtime mode'',
      source_tuple (rt_case_source t) ''Team 0.2 root'',
      validate_current_team_run R (rt_run t) (rt_case_source t),
      require (length (rt_trace t) = 4) TypeError,
      seq_checks (map (check_nested_source (rt_case_source t)) (nested_sources t)),
      check_task_joins t,
      check_state_joins t,
      validate_dispatch_plan (sh_dispatch_plan (rt_shared_state t)) ''Team 0.2 root'',
      check_rooted_hashes R t]"

section \<open>The run\<close>

definition rooted_event_of :: "source_assurance \<Rightarrow> team_event \<Rightarrow> rooted_event" where
  "rooted_event_of a e = team_event.extend e \<lparr>re_contract_version = TEAM_TRACE_EVENT_CONTRACT_VERSION, re_case_source = a\<rparr>"

definition make_rooted_event :: "source_assurance \<Rightarrow> team_event \<Rightarrow> rooted_event res" where
  "make_rooted_event a e = built check_rooted_event (rooted_event_of a e)"

definition ROOTED_GATE_EVIDENCE :: "string list" where
  "ROOTED_GATE_EVIDENCE = GATE_EVIDENCE @ [''case_source'']"

definition rooted_trace :: "runtime \<Rightarrow> source_assurance \<Rightarrow> string \<Rightarrow> json \<Rightarrow> run_result \<Rightarrow> final_decision
    \<Rightarrow> rooted_event list res" where
  "rooted_trace R a gate manager_value run decision =
     rbind (canonical_hash R (source_input a (rr_case_hash run))) (\<lambda>start.
     rbind (canonical_hash R manager_value) (\<lambda>manager.
     rbind (make_rooted_event a (intake_event start manager)) (\<lambda>e1.
     rbind (canonical_hash R (impact_artifact a (rr_case_hash run) (rr_impact_plan run))) (\<lambda>impact.
     rbind (make_rooted_event a (plan_event manager impact)) (\<lambda>e2.
     rbind (canonical_hash R (JDict (run_result_items run))) (\<lambda>hash.
     rbind (run_locators (rr_findings run)) (\<lambda>locators.
     rbind (make_rooted_event a (regression_event impact hash locators)) (\<lambda>e3.
     rbind (canonical_hash R (decision_json decision)) (\<lambda>final.
     rbind (make_rooted_event a (gate_event gate hash final ROOTED_GATE_EVIDENCE)) (\<lambda>e4.
     Inr [e1, e2, e3, e4]))))))))))"

definition DISPATCH_STEPS :: "dispatch_step list" where
  "DISPATCH_STEPS = map (\<lambda>(n, a, s). \<lparr>ds_sequence = n, ds_agent_id = a, ds_skill_id = s\<rparr>) DISPATCH_PROFILE"

definition release_gate :: "run_result \<Rightarrow> string" where
  "release_gate run = (if rr_overall_status run = PASS then TEAM_READY else TEAM_BLOCKED)"

definition assemble_rooted_team :: "runtime \<Rightarrow> source_assurance \<Rightarrow> json \<Rightarrow> json \<Rightarrow> json \<Rightarrow> run_result
    \<Rightarrow> rooted_team_result res" where
  "assemble_rooted_team R a case_id event_id case_hash run =
     rbind (built check_task_context
       \<lparr>tk_contract_version = TEAM_TASK_CONTEXT_CONTRACT_VERSION, tk_case_source = a, tk_case_id = case_id,
        tk_event_id = event_id, tk_case_hash = case_hash, tk_synthetic = True\<rparr>) (\<lambda>task.
     rbind (rmap (built check_dispatch_step) DISPATCH_STEPS) (\<lambda>plan.
     rbind (built check_final_decision
       \<lparr>fd_contract_version = TEAM_FINAL_DECISION_CONTRACT_VERSION, fd_case_source = a, fd_decision = release_gate run,
        fd_run_id = rr_run_id run, fd_overall_status = status_text (rr_overall_status run)\<rparr>) (\<lambda>decision.
     rbind (rooted_trace R a (release_gate run) (manager_output (task_json task) (dispatch_json plan)) run decision) (\<lambda>trace.
     rbind (rooted_artifact_hashes R a task (dispatch_json plan) run decision) (\<lambda>hashes.
     rbind (built check_artifact_hashes hashes) (\<lambda>hashes.
     rbind (built check_rooted_shared_state
       \<lparr>sh_contract_version = TEAM_SHARED_STATE_CONTRACT_VERSION, sh_case_source = a, sh_case_id = case_id,
        sh_event_id = event_id, sh_current_state = release_gate run, sh_artifact_hashes = hashes, sh_dispatch_plan = plan,
        sh_run_id = rr_run_id run, sh_ruleset_version = rr_ruleset_version run\<rparr>) (\<lambda>shared.
     built (validate_rooted_team_result R)
       \<lparr>rt_contract_version = TEAM_RUN_CONTRACT_VERSION, rt_case_source = a, rt_task_context = task, rt_run = run,
        rt_trace = trace, rt_final_state = release_gate run, rt_final_decision = decision, rt_shared_state = shared,
        rt_runtime_mode = TEAM_RUNTIME_MODE\<rparr>)))))))"

text \<open>
  The comparisons after the construction hold by the values that were just put in, but for the one
  of the hash of the case.
\<close>

definition run_agent_team_with_source :: "runtime \<Rightarrow> (json \<times> run_result) res \<Rightarrow> rooted_team_result res" where
  "run_agent_team_with_source R evaluation =
     rbind evaluation (\<lambda>(c, run).
     rbind (make_assurance (rr_source run)) (\<lambda>a.
     rbind (require (sa_state a = JStr SOURCE_BOUND \<or> sa_state a = JStr SOURCE_DERIVED)
       (AssertionError ''source-rooted Team requires a bound or derived Run'')) (\<lambda>_.
     rbind (canonical_hash R c) (\<lambda>case_hash.
     rbind (require (JStr case_hash = rr_case_hash run)
       (AssertionError ''source-rooted Team Case differs from current Run'')) (\<lambda>_.
     rbind (ditem ''case_id'' (dict_of c)) (\<lambda>case_id.
     rbind (ditem ''event'' (dict_of c)) (\<lambda>event.
     rbind (item ''event_id'' event) (\<lambda>event_id.
     assemble_rooted_team R a case_id event_id (JStr case_hash) run))))))))"

end
