(* ===== verification/Team_Facts.thy ===== *)
theory Team_Facts
  imports Team_Legacy Engine_Facts
begin

text \<open>
  What the choreography of the older profile builds, as one value without the checks of the
  constructors, and when those checks accept it.
\<close>

section \<open>Small checks\<close>

definition trimmed :: "json \<Rightarrow> bool" where
  "trimmed v \<longleftrightarrow> is_str v \<and> str_of v \<noteq> [] \<and> str_of v = py_strip (str_of v)"

lemma check_text_Inr [simp]: "check_text v label = Inr u \<longleftrightarrow> trimmed v"
  by (auto simp: check_text_def exact_text_def trimmed_def)

lemma exact_constant_Inr [simp]: "exact_constant v e label = Inr u \<longleftrightarrow> v = JStr e"
  by (simp add: exact_constant_def)

lemma lower_hex_Inr: "lower_hex v n label = Inr u \<longleftrightarrow>
    is_str v \<and> length (str_of v) = n \<and> list_all is_lower_hex_char (str_of v)"
  by (simp add: lower_hex_def)

lemma lower_hex_sha [simp]: "lower_hex (JStr h) 64 label = Inr u \<longleftrightarrow> is_lower_sha h"
  by (simp add: lower_hex_Inr is_lower_sha_def)

lemma lower_hex_sha_json: "lower_hex v 64 label = Inr u \<longleftrightarrow> lower_sha_json v"
  by (simp add: lower_hex_Inr is_lower_sha_def lower_sha_json_def)

text \<open>The digest of a value that is no case.\<close>

definition text_hash :: "runtime \<Rightarrow> json \<Rightarrow> string" where
  "text_hash R v = sha256_hex (jtext R v)"

lemma plain_hash:
  assumes "\<not> is_case_value v"
  shows "canonical_hash R v = Inr h \<longleftrightarrow> json_finite v \<and> h = text_hash R v"
  using assms by (auto simp: canonical_hash_def canonical_payload_def rbind_Inr_iff json_dumps_def text_hash_def)

lemma text_hash_lower: "is_lower_sha (text_hash R v)"
  unfolding text_hash_def by (rule sha.digest_lower_sha)

lemma no_schema_no_case: "dget ''schema_version'' d = JNull \<Longrightarrow> \<not> is_case_value (JDict d)"
  by (simp add: is_case_value_def)

lemma dget_Nil [simp]: "dget k [] = JNull"
  by (simp add: dget_def dget_or_def)

lemma list_no_case [simp]: "\<not> is_case_value (JList xs)"
  by (simp add: is_case_value_def)

lemma literal_texts:
  "trimmed (JStr ''QCI-MANAGER'')" "trimmed (JStr ''QCI-IMPACT'')" "trimmed (JStr ''QCI-EVIDENCE'')"
  "trimmed (JStr ''QCI-GATEKEEPER'')" "trimmed (JStr ''quality-task-intake'')" "trimmed (JStr ''compile-impact-plan'')"
  "trimmed (JStr ''run-evidence-regression'')" "trimmed (JStr ''enforce-release-gate'')" "trimmed (JStr ''RECEIVED'')"
  "trimmed (JStr ''SCOPED'')" "trimmed (JStr ''PLANNED'')" "trimmed (JStr ''CHECKED'')" "trimmed (JStr TEAM_BLOCKED)"
  "trimmed (JStr TEAM_READY)"
  by code_simp+

section \<open>The view of a run\<close>

text \<open>The profile checks accept what the constructor of a run accepted.\<close>

lemma run_profile:
  assumes "check_run_result R r = Inr ()"
  shows "validate_reference_profile label (rr_reference_state r, rr_reference_set_hash r, rr_reference_version r)
    (rr_validation_state r, rr_validation_set_hash r, rr_validation_version r) = Inr ()"
proof -
  have "rr_reference_state r = JStr REFERENCE_UNATTESTED \<and> rr_reference_set_hash r = JNull \<and> rr_reference_version r = JNull \<or>
    rr_reference_state r = JStr REFERENCE_ATTESTED \<and> lower_sha_json (rr_reference_set_hash r)
      \<and> rr_reference_version r = JStr REFERENCE_CONTRACT_VERSION"
    using assms by (auto simp: check_run_result_def check_result_reference_def require_result_sha_def split: if_splits)
  moreover have "rr_validation_state r = JStr VALIDATION_UNATTESTED \<and> rr_validation_set_hash r = JNull \<and> rr_validation_version r = JNull \<or>
    rr_validation_state r = JStr VALIDATION_ATTESTED \<and> lower_sha_json (rr_validation_set_hash r)
      \<and> rr_validation_version r = JStr VALIDATION_CONTRACT_VERSION"
    using assms by (auto simp: check_run_result_def check_result_validation_def require_result_sha_def split: if_splits)
  ultimately show ?thesis
    by (auto simp: validate_reference_profile_def lower_hex_sha_json REFERENCE_UNATTESTED_def REFERENCE_ATTESTED_def
        VALIDATION_UNATTESTED_def VALIDATION_ATTESTED_def REFERENCE_CONTRACT_VERSION_def VALIDATION_CONTRACT_VERSION_def)
qed

definition run_legacy_identity :: "run_result \<Rightarrow> json" where
  "run_legacy_identity r = legacy_identity (rr_case_hash r) (rr_reference_state r) (rr_reference_set_hash r)
     (rr_reference_version r) (rr_validation_state r) (rr_validation_set_hash r) (rr_validation_version r)"

definition legacy_run_id :: "runtime \<Rightarrow> run_result \<Rightarrow> string" where
  "legacy_run_id R r = take 16 (sha256_hex (LEGACY_IDENTITY_DOMAIN @ text_hash R (run_legacy_identity r)))"

definition view_of :: "runtime \<Rightarrow> run_result \<Rightarrow> team_run_view" where
  "view_of R r =
     \<lparr>tv_run_id = JStr (legacy_run_id R r), tv_case_id = rr_case_id r, tv_case_hash = rr_case_hash r,
      tv_ruleset_version = rr_ruleset_version r, tv_reference_state = rr_reference_state r,
      tv_reference_set_hash = rr_reference_set_hash r, tv_reference_version = rr_reference_version r,
      tv_validation_state = rr_validation_state r, tv_validation_set_hash = rr_validation_set_hash r,
      tv_validation_version = rr_validation_version r, tv_overall_status = rr_overall_status r,
      tv_impact_plan = rr_impact_plan r, tv_findings = rr_findings r\<rparr>"

text \<open>What an unbound run of the engine looks like.\<close>

definition unbound_run :: "runtime \<Rightarrow> run_result \<Rightarrow> bool" where
  "unbound_run R r \<longleftrightarrow> check_run_result R r = Inr () \<and> rr_source r = unbound_assurance
     \<and> rr_ruleset_version r = JStr RULESET_VERSION \<and> rr_overall_status r = overall_status (map f_status (rr_findings r))"

lemma profile_finite:
  assumes "check_run_result R r = Inr ()"
  shows "json_finite (run_legacy_identity r)"
proof -
  have "json_finite (rr_reference_state r)" "json_finite (rr_reference_set_hash r)" "json_finite (rr_reference_version r)"
    "json_finite (rr_validation_state r)" "json_finite (rr_validation_set_hash r)" "json_finite (rr_validation_version r)"
    "json_finite (rr_case_hash r)"
    using assms by (auto simp: check_run_result_def check_result_reference_def check_result_validation_def
        check_result_header_def require_result_sha_def lower_sha_json_finite split: if_splits)
  then show ?thesis by (simp add: run_legacy_identity_def legacy_identity_def)
qed

lemma legacy_run_id_Inr:
  assumes "check_run_result R r = Inr ()"
  shows "run_id_for_identity R (run_legacy_identity r) = Inr (legacy_run_id R r)"
proof -
  have "\<not> is_case_value (run_legacy_identity r)"
    by (simp add: run_legacy_identity_def legacy_identity_def no_schema_no_case dget_Cons)
  then have "canonical_hash R (run_legacy_identity r) = Inr (text_hash R (run_legacy_identity r))"
    using profile_finite[OF assms] by (simp add: plain_hash)
  then show ?thesis by (simp add: run_id_for_identity_def legacy_run_id_def)
qed

lemma view_projection:
  "dset ''run_id'' (JStr (legacy_run_id R r)) (map (\<lambda>k. (k, dget k (run_result_items r))) LEGACY_RUN_RESULT_KEYS)
     = view_items (view_of R r)"
  by (simp add: view_items_def view_of_def LEGACY_RUN_RESULT_KEYS_def run_result_items_def assurance_items_def dget_Cons)

lemma projection_Inr:
  assumes "unbound_run R r"
  shows "legacy_run_result_projection R r = Inr (view_items (view_of R r))"
proof -
  have c: "check_run_result R r = Inr ()" and s: "rr_source r = unbound_assurance"
    using assms by (simp_all add: unbound_run_def)
  have "rr_contract_version r = JStr RUN_RESULT_CONTRACT_VERSION" "rr_identity_version r = JStr RUN_IDENTITY_VERSION"
    using c by (simp_all add: check_run_result_def check_result_header_def)
  then show ?thesis
    using legacy_run_id_Inr[OF c]
    by (simp add: legacy_run_result_projection_def s unbound_assurance_valid run_legacy_identity_def view_projection)
qed

lemma view_keys: "keys_exactly LEGACY_RUN_RESULT_KEYS (view_items v)"
  by (simp add: keys_exactly_def view_items_def LEGACY_RUN_RESULT_KEYS_def dhas_def)

lemma view_run_id: "dget ''run_id'' (view_items v) = tv_run_id v"
  by (simp add: view_items_def dget_Cons)

lemma legacy_view_Inr:
  assumes "unbound_run R r"
  shows "legacy_team_run_view R r = Inr v \<longleftrightarrow> trimmed (rr_case_id r) \<and> v = view_of R r"
proof -
  have c: "check_run_result R r = Inr ()" using assms by (simp add: unbound_run_def)
  have h: "lower_sha_json (rr_case_hash r)"
    using c by (simp add: check_run_result_def check_result_header_def require_result_sha_def split: if_splits)
  have i: "lower_hex (JStr (legacy_run_id R r)) 16 l = Inr ()" for l
    using run_id_shape by (simp add: lower_hex_Inr legacy_run_id_def)
  have "validate_team_run_view R (view_of R r) = Inr () \<longleftrightarrow> trimmed (rr_case_id r)"
    using assms h i run_profile[OF c] legacy_run_id_Inr[OF c] view_keys[of "view_of R r"]
    by (auto simp: validate_team_run_view_def rbind_Inr_iff view_of_def unbound_run_def lower_hex_sha_json
        run_legacy_identity_def validate_result_values_def)
  then show ?thesis
    by (auto simp: legacy_team_run_view_def projection_Inr[OF assms] view_run_id rbind_Inr_iff Let_def view_of_def)
qed


section \<open>The result\<close>

definition reportable :: "finding list \<Rightarrow> bool" where
  "reportable findings \<longleftrightarrow> finite_list (map finding_json findings)
     \<and> list_all (\<lambda>e. truthy (ev_locator e) \<longrightarrow> is_str (ev_locator e)) (concat (map f_evidence findings))"

definition locators_of :: "finding list \<Rightarrow> string list" where
  "locators_of findings =
     sort (remdups (map str_of (filter truthy (map ev_locator (concat (map f_evidence findings))))))"

lemma run_locators_Inr:
  "run_locators fs = Inr ls \<longleftrightarrow>
     list_all (\<lambda>e. truthy (ev_locator e) \<longrightarrow> is_str (ev_locator e)) (concat (map f_evidence fs)) \<and> ls = locators_of fs"
  by (auto simp: run_locators_def locators_of_def Let_def list_all_iff)

lemma finite_str_list [simp]: "json_finite (str_list xs)"
  by (induction xs) (simp_all add: str_list_def)

lemma finite_links [simp]: "finite_list (map (\<lambda>l. str_list [fst l, snd l]) ls)"
  by (induction ls) simp_all

lemma plan_finite: "json_finite (plan_json p) \<longleftrightarrow> json_finite (ip_event_id p)"
  by (simp add: plan_json_def)

lemma view_finite:
  assumes "unbound_run R r"
  shows "json_finite (JDict (view_items (view_of R r))) \<longleftrightarrow>
    json_finite (rr_case_id r) \<and> json_finite (plan_json (rr_impact_plan r)) \<and> finite_list (map finding_json (rr_findings r))"
proof -
  have c: "check_run_result R r = Inr ()" "rr_ruleset_version r = JStr RULESET_VERSION"
    using assms by (simp_all add: unbound_run_def)
  from profile_finite[OF c(1)] show ?thesis
    by (auto simp: view_items_def view_of_def run_legacy_identity_def legacy_identity_def c(2))
qed

lemma hashed_values:
  "\<not> is_case_value (legacy_task_context a b h)" "\<not> is_case_value legacy_dispatch_payload"
  "\<not> is_case_value (manager_output v w)" "\<not> is_case_value (legacy_impact_artifact v w)"
  "\<not> is_case_value (legacy_final_payload g x)" "\<not> is_case_value (plan_json p)"
  "\<not> is_case_value (JDict (view_items x))"
  by (simp_all add: is_case_value_def legacy_task_context_def legacy_dispatch_payload_def manager_output_def
      legacy_impact_artifact_def legacy_final_payload_def plan_json_def view_items_def dget_Cons)

lemma dispatch_finite: "json_finite legacy_dispatch_payload"
  by code_simp

lemma value_finite:
  "json_finite (legacy_task_context a b (JStr h)) \<longleftrightarrow> json_finite a \<and> json_finite b"
  "json_finite (manager_output v legacy_dispatch_payload) \<longleftrightarrow> json_finite v"
  "json_finite (legacy_impact_artifact (JStr h) v) \<longleftrightarrow> json_finite v"
  "json_finite (legacy_final_payload g x) \<longleftrightarrow> json_finite (tv_run_id x)"
  by (simp_all add: legacy_task_context_def manager_output_def legacy_impact_artifact_def legacy_final_payload_def
      dispatch_finite)

lemma event_checks:
  assumes "is_lower_sha h" "is_lower_sha k"
  shows "make_team_event l (intake_event h k) = Inr (intake_event h k)"
    "make_team_event l (plan_event h k) = Inr (plan_event h k)"
    "make_team_event l (regression_event h k ls) = Inr (regression_event h k ls)"
    "make_team_event l (gate_event TEAM_BLOCKED h k ls) = Inr (gate_event TEAM_BLOCKED h k ls)"
  using assms literal_texts
  by (simp_all add: make_team_event_def validate_trace_fields_def intake_event_def plan_event_def
      regression_event_def gate_event_def rbind_Inr_iff)

definition trace_of :: "runtime \<Rightarrow> string \<Rightarrow> json \<Rightarrow> json \<Rightarrow> team_run_view \<Rightarrow> team_event list" where
  "trace_of R h manager_value impact_value v =
     (let manager = text_hash R manager_value; impact = text_hash R impact_value;
          run = text_hash R (JDict (view_items v)); final = text_hash R (legacy_final_payload TEAM_BLOCKED v) in
      [intake_event h manager, plan_event manager impact, regression_event impact run (locators_of (tv_findings v)),
       gate_event TEAM_BLOCKED run final GATE_EVIDENCE])"

definition artifacts_of :: "runtime \<Rightarrow> json \<Rightarrow> json \<Rightarrow> team_run_view \<Rightarrow> dict" where
  "artifacts_of R task plan v =
     [(''task_context'', JStr (text_hash R task)), (''dispatch_plan'', JStr (text_hash R legacy_dispatch_payload)),
      (''impact_plan'', JStr (text_hash R plan)), (''run_result'', JStr (text_hash R (JDict (view_items v))))]"

text \<open>The whole result, from the identifiers of the case, its hash and the run.\<close>

definition team_of :: "runtime \<Rightarrow> json \<Rightarrow> json \<Rightarrow> string \<Rightarrow> run_result \<Rightarrow> team_run_result" where
  "team_of R case_id event_id h r =
     (let v = view_of R r; task = legacy_task_context case_id event_id (JStr h); plan = plan_json (rr_impact_plan r) in
      \<lparr>tr_run = v,
       tr_trace = trace_of R h (manager_output task legacy_dispatch_payload) (legacy_impact_artifact (JStr h) plan) v,
       tr_final_state = TEAM_BLOCKED,
       tr_shared_state = legacy_shared_state case_id event_id (artifacts_of R task plan v) v,
       tr_runtime_mode = TEAM_RUNTIME_MODE\<rparr>)"

lemma legacy_trace_Inr:
  assumes "is_lower_sha h"
  shows "legacy_trace R h (manager_output task legacy_dispatch_payload) (legacy_impact_artifact (JStr h) plan) v = Inr es \<longleftrightarrow>
    json_finite task \<and> json_finite plan \<and> json_finite (JDict (view_items v)) \<and> json_finite (tv_run_id v)
    \<and> list_all (\<lambda>e. truthy (ev_locator e) \<longrightarrow> is_str (ev_locator e)) (concat (map f_evidence (tv_findings v)))
    \<and> es = trace_of R h (manager_output task legacy_dispatch_payload) (legacy_impact_artifact (JStr h) plan) v"
  unfolding legacy_trace_def rbind_Inr_iff plain_hash[OF hashed_values(3)] plain_hash[OF hashed_values(4)]
    plain_hash[OF hashed_values(5)] plain_hash[OF hashed_values(7)] value_finite run_locators_Inr trace_of_def Let_def
  using assms text_hash_lower by (auto simp: event_checks)

lemma artifact_hashes_Inr:
  "legacy_artifact_hashes R (legacy_task_context a b (JStr h)) legacy_dispatch_payload (plan_json p) k = Inr d \<longleftrightarrow>
     json_finite a \<and> json_finite b \<and> json_finite (plan_json p)
     \<and> d = [(''task_context'', JStr (text_hash R (legacy_task_context a b (JStr h)))),
            (''dispatch_plan'', JStr (text_hash R legacy_dispatch_payload)),
            (''impact_plan'', JStr (text_hash R (plan_json p))), (''run_result'', JStr k)]"
  unfolding legacy_artifact_hashes_def rbind_Inr_iff plain_hash[OF hashed_values(1)] plain_hash[OF hashed_values(2)]
    plain_hash[OF hashed_values(6)] value_finite by (auto simp: dispatch_finite)


section \<open>The checks of the result\<close>

lemma shared_fields:
  "dget ''case_id'' (legacy_shared_state a b d v) = a" "dget ''event_id'' (legacy_shared_state a b d v) = b"
  "dget ''current_state'' (legacy_shared_state a b d v) = JStr TEAM_BLOCKED"
  "dget ''artifact_hashes'' (legacy_shared_state a b d v) = JDict d"
  "dget ''dispatch_plan'' (legacy_shared_state a b d v) = legacy_dispatch_payload"
  "dget ''run_id'' (legacy_shared_state a b d v) = tv_run_id v"
  "dget ''ruleset_version'' (legacy_shared_state a b d v) = tv_ruleset_version v"
  "keys_exactly LEGACY_SHARED_STATE_KEYS (legacy_shared_state a b d v)"
  by (simp_all add: legacy_shared_state_def dget_Cons keys_exactly_def LEGACY_SHARED_STATE_KEYS_def dhas_def)

lemma dispatch_shape:
  "is_list legacy_dispatch_payload" "list_all is_dispatch_step (list_of legacy_dispatch_payload)"
  "py_eq legacy_dispatch_payload legacy_dispatch_payload"
  by code_simp+

lemma view_fields:
  "tv_run_id (view_of R r) = JStr (legacy_run_id R r)" "tv_case_id (view_of R r) = rr_case_id r"
  "tv_case_hash (view_of R r) = rr_case_hash r" "tv_ruleset_version (view_of R r) = rr_ruleset_version r"
  "tv_impact_plan (view_of R r) = rr_impact_plan r" "tv_findings (view_of R r) = rr_findings r"
  "tv_overall_status (view_of R r) = rr_overall_status r"
  by (simp_all add: view_of_def)

lemma artifacts_checked:
  "keys_exactly LEGACY_ARTIFACT_HASH_KEYS (artifacts_of R task plan v)"
  "seq_checks (map (\<lambda>kv. lower_hex (snd kv) 64 (l kv)) (artifacts_of R task plan v)) = Inr ()"
  using text_hash_lower by (simp_all add: artifacts_of_def keys_exactly_def LEGACY_ARTIFACT_HASH_KEYS_def dhas_def)

lemma legacy_run_id_hex: "lower_hex (JStr (legacy_run_id R r)) 16 l = Inr ()"
  using run_id_shape by (simp add: lower_hex_Inr legacy_run_id_def)

lemma team_shape_checked:
  assumes "unbound_run R r" and "trimmed a"
  shows "check_shared_shape (legacy_shared_state a b (artifacts_of R task plan (view_of R r)) (view_of R r)) = Inr ()"
  using assms dispatch_shape
  by (simp add: check_shared_shape_def Let_def shared_fields artifacts_checked view_fields unbound_run_def legacy_run_id_hex)

lemma joins_of:
  "check_trace_profile l TEAM_BLOCKED (trace_of R h mv iv v) = Inr ()"
  "check_hash_joins l h (text_hash R mv) (text_hash R iv) (text_hash R (JDict (view_items v)))
     (text_hash R (legacy_final_payload TEAM_BLOCKED v)) (trace_of R h mv iv v) = Inr ()"
  "length (trace_of R h mv iv v) = 4"
  by (simp_all add: check_trace_profile_def check_hash_joins_def trace_of_def Let_def TRACE_PROFILE_def event_profile_def
      intake_event_def plan_event_def regression_event_def gate_event_def)

lemma team_hashes_checked:
  assumes "unbound_run R r" and h: "rr_case_hash r = JStr h" and "json_finite (rr_case_id r)" and "json_finite b"
    and "json_finite (ip_event_id (rr_impact_plan r))" and "finite_list (map finding_json (rr_findings r))"
  shows "check_legacy_hashes R (team_of R (rr_case_id r) b h r) = Inr ()"
proof -
  let ?task = "legacy_task_context (rr_case_id r) b (JStr h)" and ?plan = "plan_json (rr_impact_plan r)"
    and ?v = "view_of R r"
  have run: "canonical_hash R (JDict (view_items ?v)) = Inr (text_hash R (JDict (view_items ?v)))"
    using assms by (simp only: plain_hash hashed_values view_finite plan_finite simp_thms)
  have art: "legacy_artifact_hashes R ?task legacy_dispatch_payload ?plan (text_hash R (JDict (view_items ?v)))
      = Inr (artifacts_of R ?task ?plan ?v)"
    using assms by (simp add: artifact_hashes_Inr artifacts_of_def plan_finite)
  have eq: "py_eq (JDict (artifacts_of R ?task ?plan ?v)) (JDict (artifacts_of R ?task ?plan ?v)) = True"
    by (simp add: artifacts_of_def)
  have hs: "canonical_hash R (manager_output ?task legacy_dispatch_payload)
      = Inr (text_hash R (manager_output ?task legacy_dispatch_payload))"
    "canonical_hash R (legacy_impact_artifact (JStr h) ?plan) = Inr (text_hash R (legacy_impact_artifact (JStr h) ?plan))"
    "canonical_hash R (legacy_final_payload TEAM_BLOCKED ?v) = Inr (text_hash R (legacy_final_payload TEAM_BLOCKED ?v))"
    using assms by (simp_all add: plain_hash hashed_values value_finite plan_finite view_fields)
  show ?thesis
    unfolding check_legacy_hashes_def team_of_def Let_def team_run_result.simps shared_fields view_fields h run rbind_simps
      art eq require_cases hs str_of.simps joins_of ..
qed

text \<open>The checks of the constructor add exactly one thing: the identifier of the event is trimmed.\<close>

lemma team_of_valid:
  assumes u: "unbound_run R r" and h: "rr_case_hash r = JStr h" and t: "trimmed (rr_case_id r)" and b: "is_str b"
    and e: "json_finite (ip_event_id (rr_impact_plan r))" and f: "finite_list (map finding_json (rr_findings r))"
  shows "validate_legacy_team_result R (team_of R (rr_case_id r) b h r) = Inr () \<longleftrightarrow> trimmed b"
proof -
  have fin: "json_finite (rr_case_id r)" "json_finite b" using t b by (auto simp: trimmed_def elim!: is_strE)
  have v: "validate_team_run_view R (view_of R r) = Inr ()"
    using legacy_view_Inr[OF u, of "view_of R r"] t
    by (auto simp: legacy_team_run_view_def projection_Inr[OF u] view_run_id rbind_Inr_iff Let_def view_of_def)
  have "check_shared_joins (tr_shared_state (team_of R (rr_case_id r) b h r)) (view_of R r) TEAM_BLOCKED = Inr () \<longleftrightarrow> trimmed b"
    by (simp add: check_shared_joins_def team_of_def Let_def shared_fields view_fields)
  with v team_shape_checked[OF u t] team_hashes_checked[OF u h fin e f] joins_of(3) show ?thesis
    by (simp add: validate_legacy_team_result_def team_of_def Let_def)
qed

lemma assemble_team_Inr:
  assumes u: "unbound_run R r" and h: "rr_case_hash r = JStr h" and b: "is_str b" and s: "is_str (rr_case_id r)"
    and e: "json_finite (ip_event_id (rr_impact_plan r))"
  shows "assemble_team R (rr_case_id r) b h (plan_json (rr_impact_plan r)) r = Inr t \<longleftrightarrow>
    trimmed (rr_case_id r) \<and> trimmed b \<and> reportable (rr_findings r) \<and> t = team_of R (rr_case_id r) b h r"
proof -
  have fin: "json_finite (rr_case_id r)" "json_finite b" using s b by (auto elim!: is_strE)
  have hl: "is_lower_sha h"
    using u h by (simp add: unbound_run_def check_run_result_def check_result_header_def require_result_sha_def lower_sha_json_def)
  let ?task = "legacy_task_context (rr_case_id r) b (JStr h)"
  have tr: "legacy_trace R h (manager_output ?task legacy_dispatch_payload)
        (legacy_impact_artifact (JStr h) (plan_json (rr_impact_plan r))) (view_of R r) = Inr es \<longleftrightarrow>
      reportable (rr_findings r) \<and> es = tr_trace (team_of R (rr_case_id r) b h r)" for es
    unfolding legacy_trace_Inr[OF hl] view_finite[OF u] view_fields
    using fin e by (auto simp: value_finite plan_finite reportable_def team_of_def Let_def)
  have run: "canonical_hash R (JDict (view_items (view_of R r))) = Inr k \<longleftrightarrow>
      finite_list (map finding_json (rr_findings r)) \<and> k = text_hash R (JDict (view_items (view_of R r)))" for k
    unfolding plain_hash[OF hashed_values(7)] view_finite[OF u] using fin e by (auto simp: plan_finite)
  have art: "legacy_artifact_hashes R ?task legacy_dispatch_payload (plan_json (rr_impact_plan r))
        (text_hash R (JDict (view_items (view_of R r)))) = Inr d \<longleftrightarrow> d = artifacts_of R ?task (plan_json (rr_impact_plan r)) (view_of R r)" for d
    unfolding artifact_hashes_Inr using fin e by (auto simp: plan_finite artifacts_of_def)
  have val: "validate_legacy_team_result R (team_of R (rr_case_id r) b h r) = Inr () \<longleftrightarrow> trimmed b"
    if "trimmed (rr_case_id r)" "reportable (rr_findings r)"
    using team_of_valid[OF u h that(1) b e] that(2) by (simp add: reportable_def)
  have t: "\<lparr>tr_run = view_of R r, tr_trace = tr_trace (team_of R (rr_case_id r) b h r), tr_final_state = TEAM_BLOCKED,
      tr_shared_state = legacy_shared_state (rr_case_id r) b (artifacts_of R ?task (plan_json (rr_impact_plan r)) (view_of R r)) (view_of R r),
      tr_runtime_mode = TEAM_RUNTIME_MODE\<rparr> = team_of R (rr_case_id r) b h r"
    by (simp add: team_of_def Let_def)
  show ?thesis
    unfolding assemble_team_def Let_def rbind_Inr_iff legacy_view_Inr[OF u]
    using val by (auto simp: tr run art t reportable_def)
qed

end
