(* ===== verification/Team_Rooted_Facts.thy ===== *)
theory Team_Rooted_Facts
  imports Team_Rooted Team_Facts
begin

text \<open>
  When the checks of profile 0.2 accept a result, and the value its run builds.
\<close>

section \<open>The parts\<close>

definition rooted_source :: "source_assurance \<Rightarrow> bool" where
  "rooted_source a \<longleftrightarrow> (sa_state a = JStr SOURCE_BOUND \<or> sa_state a = JStr SOURCE_DERIVED)
     \<and> list_all (\<lambda>kv. is_text_or_null (snd kv)) (assurance_items a)"

lemma source_tuple_Inr [simp]: "source_tuple a label = Inr u \<longleftrightarrow> rooted_source a"
  by (auto simp: source_tuple_def rooted_source_def)

lemma built_Inr [simp]: "built check x = Inr y \<longleftrightarrow> check x = Inr () \<and> y = x"
  by (auto simp: built_def rbind_Inr_iff)

lemma rooted_assurance:
  assumes "validate_assurance_payload (JDict (assurance_items a)) = Inr ()" and "sa_state a \<noteq> JStr SOURCE_UNBOUND"
  shows "rooted_source a" "json_finite (JDict (assurance_items a))"
proof -
  have s: "str_in (sa_state a) [SOURCE_UNBOUND, SOURCE_BOUND, SOURCE_DERIVED]"
    and p: "sa_pack_version a = JStr SOURCE_PACK_VERSION" "sa_set_version a = JStr SOURCE_SET_VERSION"
      "lower_sha_json (sa_set_hash a)" "lower_sha_json (sa_binding_hash a)"
    and l: "validate_assurance_lineage (assurance_items a) = Inr ()"
    using assms by (auto simp: validate_assurance_payload_def assurance_items_def dget_Cons require_sha_def)
  from l have "(sa_lineage_version a = JNull \<and> sa_lineage_hash a = JNull) \<or>
      (sa_lineage_version a = JStr SOURCE_LINEAGE_VERSION \<and> lower_sha_json (sa_lineage_hash a))"
    by (auto simp: validate_assurance_lineage_def assurance_items_def dget_Cons require_sha_def split: if_splits)
  moreover have "sa_state a = JStr SOURCE_BOUND \<or> sa_state a = JStr SOURCE_DERIVED"
    using s assms(2) by (cases "sa_state a") auto
  ultimately show "rooted_source a" "json_finite (JDict (assurance_items a))"
    using p by (auto simp: rooted_source_def assurance_items_def is_text_or_null_def lower_sha_json_def
        elim!: is_strE)
qed

text \<open>What the engine returns for a rooted case.\<close>

definition rooted_run :: "runtime \<Rightarrow> run_result \<Rightarrow> bool" where
  "rooted_run R r \<longleftrightarrow> check_run_result R r = Inr () \<and> sa_state (rr_source r) \<noteq> JStr SOURCE_UNBOUND
     \<and> validate_assurance_payload (JDict (assurance_items (rr_source r))) = Inr ()
     \<and> rr_ruleset_version r = JStr RULESET_VERSION \<and> rr_overall_status r = overall_status (map f_status (rr_findings r))"

lemma run_keys: "keys_exactly CURRENT_RUN_KEYS (run_result_items r)"
  by (simp add: keys_exactly_def run_result_items_def assurance_items_def CURRENT_RUN_KEYS_def LEGACY_RUN_RESULT_KEYS_def
      ASSURANCE_KEYS_def dhas_def)

lemma run_id_checked:
  assumes "rooted_run R r"
  shows "\<exists>i. run_id_for_current_identity R (rr_source r) (rr_case_hash r) (rr_reference_state r) (rr_reference_set_hash r)
      (rr_reference_version r) (rr_validation_state r) (rr_validation_set_hash r) (rr_validation_version r) = Inr i
    \<and> rr_run_id r = JStr i"
proof -
  have c: "check_result_header r = Inr ()" "check_result_identity R r = Inr ()"
    and p: "validate_assurance_payload (JDict (assurance_items (rr_source r))) = Inr ()"
    and v: "rr_ruleset_version r = JStr RULESET_VERSION"
    using assms by (simp_all add: rooted_run_def check_run_result_def)
  have h: "rr_contract_version r = JStr RUN_RESULT_CONTRACT_VERSION" "rr_identity_version r = JStr RUN_IDENTITY_VERSION"
    using c(1) by (simp_all add: check_result_header_def)
  from c(2) show ?thesis
    by (auto simp: check_result_identity_def rbind_Inr_iff run_id_for_current_identity_def p result_identity_def h v
        identity_digest_def split: if_splits)
qed

lemma current_run_checked:
  assumes "rooted_run R r"
  shows "validate_current_team_run R r (rr_source r) = Inr () \<longleftrightarrow> trimmed (rr_case_id r)"
proof -
  have c: "check_run_result R r = Inr ()" using assms by (simp add: rooted_run_def)
  then have h: "rr_contract_version r = JStr RUN_RESULT_CONTRACT_VERSION" "rr_identity_version r = JStr RUN_IDENTITY_VERSION"
    "lower_sha_json (rr_case_hash r)" "lower_hex (rr_run_id r) 16 l = Inr ()" for l
    by (simp_all add: check_run_result_def check_result_header_def lower_hex_Inr require_result_sha_def split: if_splits)
  obtain i where "run_id_for_current_identity R (rr_source r) (rr_case_hash r) (rr_reference_state r) (rr_reference_set_hash r)
      (rr_reference_version r) (rr_validation_state r) (rr_validation_set_hash r) (rr_validation_version r) = Inr i"
    "rr_run_id r = JStr i" using run_id_checked[OF assms] by blast
  moreover have "list_all (\<lambda>kv. is_text_or_null (snd kv)) (assurance_items (rr_source r))"
    using assms rooted_assurance(1) by (simp add: rooted_run_def rooted_source_def)
  ultimately show ?thesis
    using h assms run_profile[OF c] run_keys[of r]
    by (auto simp: validate_current_team_run_def rbind_Inr_iff rooted_run_def validate_result_values_def lower_hex_sha_json)
qed

section \<open>The hashed values\<close>

lemma rooted_values:
  "\<not> is_case_value (task_json k)" "\<not> is_case_value (decision_json f)" "\<not> is_case_value (source_input a v)"
  "\<not> is_case_value (dispatch_artifact a v)" "\<not> is_case_value (impact_artifact a v p)"
  "\<not> is_case_value (JDict (run_result_items r))"
  by (simp_all add: is_case_value_def task_json_def decision_json_def source_input_def dispatch_artifact_def
      impact_artifact_def run_result_items_def assurance_items_def dget_Cons)

lemma dispatch_steps: "dispatch_json DISPATCH_STEPS = legacy_dispatch_payload" "map step_triple DISPATCH_STEPS = DISPATCH_PROFILE"
  "rmap (built check_dispatch_step) DISPATCH_STEPS = Inr DISPATCH_STEPS"
  by code_simp+

lemma dispatch_plan_Inr [simp]: "validate_dispatch_plan ds label = Inr u \<longleftrightarrow> map step_triple ds = DISPATCH_PROFILE"
  by (auto simp: validate_dispatch_plan_def dest: arg_cong[of _ _ length])

lemma dispatch_json_profile: "map step_triple ds = DISPATCH_PROFILE \<Longrightarrow> dispatch_json ds = legacy_dispatch_payload"
proof -
  assume "map step_triple ds = DISPATCH_PROFILE"
  moreover have "dispatch_json ds = JList (map dispatch_step_json (map step_triple ds))"
    by (simp add: dispatch_json_def)
  ultimately show ?thesis by (simp add: legacy_dispatch_payload_def)
qed

section \<open>What the checks of a result accept\<close>

text \<open>The hashes of a result, from its parts.\<close>

definition expected_hashes :: "runtime \<Rightarrow> rooted_team_result \<Rightarrow> artifact_hashes" where
  "expected_hashes R t =
     (let a = rt_case_source t; run = rt_run t in
      \<lparr>ah_task_context = text_hash R (task_json (rt_task_context t)),
       ah_dispatch_plan = text_hash R (dispatch_artifact a legacy_dispatch_payload),
       ah_impact_plan = text_hash R (impact_artifact a (rr_case_hash run) (rr_impact_plan run)),
       ah_run_result = text_hash R (JDict (run_result_items run)),
       ah_final_decision = text_hash R (decision_json (rt_final_decision t))\<rparr>)"

definition hashed_finite :: "rooted_team_result \<Rightarrow> bool" where
  "hashed_finite t \<longleftrightarrow> json_finite (task_json (rt_task_context t)) \<and> json_finite (decision_json (rt_final_decision t))
     \<and> json_finite (JDict (run_result_items (rt_run t))) \<and> json_finite (JDict (assurance_items (rt_case_source t)))"

lemma finite_items_append [simp]: "finite_items (d @ e) \<longleftrightarrow> finite_items d \<and> finite_items e"
  by (induction d) auto

lemma run_items_finite:
  "json_finite (JDict (run_result_items r)) \<Longrightarrow> json_finite (rr_case_hash r) \<and> json_finite (plan_json (rr_impact_plan r))"
  by (simp add: run_result_items_def)

lemma source_values_finite:
  "json_finite (dispatch_artifact a legacy_dispatch_payload) \<longleftrightarrow> json_finite (JDict (assurance_items a))"
  "json_finite (source_input a h) \<longleftrightarrow> json_finite (JDict (assurance_items a)) \<and> json_finite h"
  "json_finite (impact_artifact a h p) \<longleftrightarrow> json_finite (JDict (assurance_items a)) \<and> json_finite h \<and> json_finite (plan_json p)"
  using dispatch_finite by (auto simp: dispatch_artifact_def source_input_def impact_artifact_def)

lemma rooted_hashes_Inr:
  assumes "rt_case_source t = a" "rt_run t = run" "rt_task_context t = k" "rt_final_decision t = f"
  shows "rooted_artifact_hashes R a k legacy_dispatch_payload run f = Inr x \<longleftrightarrow> hashed_finite t \<and> x = expected_hashes R t"
  unfolding rooted_artifact_hashes_def rbind_Inr_iff plain_hash[OF rooted_values(1)] plain_hash[OF rooted_values(2)]
    plain_hash[OF rooted_values(4)] plain_hash[OF rooted_values(5)] plain_hash[OF rooted_values(6)]
    source_values_finite hashed_finite_def expected_hashes_def Let_def assms
  using run_items_finite[of run] by auto

lemma gate_of_status: "team_state_for_status (status_text s) = (if s = PASS then TEAM_READY else TEAM_BLOCKED)"
  by (cases s) (simp_all add: team_state_for_status_def)

lemma gate_final: "final_state (if b then TEAM_READY else TEAM_BLOCKED)"
  by (simp add: final_state_def)

lemma ex_unit: "(\<exists>x :: unit. P x) \<longleftrightarrow> P ()"
  by auto

lemma rooted_hashes_checked:
  assumes "map step_triple (sh_dispatch_plan (rt_shared_state t)) = DISPATCH_PROFILE"
  shows "check_rooted_hashes R t = Inr () \<longleftrightarrow> hashed_finite t
    \<and> sh_artifact_hashes (rt_shared_state t) = expected_hashes R t
    \<and> map te_sequence (rt_trace t) = [1, 2, 3, 4]
    \<and> map te_output_hash (rt_trace t) =
        [text_hash R (manager_output (task_json (rt_task_context t)) legacy_dispatch_payload),
         ah_impact_plan (expected_hashes R t), ah_run_result (expected_hashes R t), ah_final_decision (expected_hashes R t)]
    \<and> team_path ''RECEIVED'' (text_hash R (source_input (rt_case_source t) (rr_case_hash (rt_run t)))) (rt_trace t)
        (release_gate (rt_run t)) (ah_final_decision (expected_hashes R t))"
proof -
  have f: "final_state (release_gate (rt_run t))" unfolding release_gate_def by (rule gate_final)
  have g: "team_state_for_status (status_text (rr_overall_status (rt_run t))) = release_gate (rt_run t)"
    by (simp add: gate_of_status release_gate_def)
  have c: "check_rooted_hashes R t = Inr () \<longleftrightarrow> hashed_finite t
    \<and> sh_artifact_hashes (rt_shared_state t) = expected_hashes R t
    \<and> check_trace_profile ''Team 0.2'' (release_gate (rt_run t)) (rt_trace t) = Inr ()
    \<and> check_hash_joins ''Team 0.2'' (text_hash R (source_input (rt_case_source t) (rr_case_hash (rt_run t))))
        (text_hash R (manager_output (task_json (rt_task_context t)) legacy_dispatch_payload))
        (ah_impact_plan (expected_hashes R t)) (ah_run_result (expected_hashes R t))
        (ah_final_decision (expected_hashes R t)) (rt_trace t) = Inr ()"
  proof (cases "hashed_finite t")
    case True
    let ?k = "rt_task_context t" and ?a = "rt_case_source t" and ?run = "rt_run t"
    have x: "rooted_artifact_hashes R ?a ?k legacy_dispatch_payload ?run (rt_final_decision t) = Inr (expected_hashes R t)"
      using True by (simp only: rooted_hashes_Inr[OF refl refl refl refl] simp_thms)
    note f = True[unfolded hashed_finite_def]
    have h: "canonical_hash R (source_input ?a (rr_case_hash ?run)) = Inr (text_hash R (source_input ?a (rr_case_hash ?run)))"
      "canonical_hash R (manager_output (task_json ?k) legacy_dispatch_payload)
        = Inr (text_hash R (manager_output (task_json ?k) legacy_dispatch_payload))"
      "canonical_hash R (impact_artifact ?a (rr_case_hash ?run) (rr_impact_plan ?run)) = Inr (ah_impact_plan (expected_hashes R t))"
      using f run_items_finite[of ?run]
      by (simp_all only: plain_hash rooted_values hashed_values value_finite source_values_finite expected_hashes_def Let_def
          artifact_hashes.simps simp_thms)
    show ?thesis
      unfolding check_rooted_hashes_def Let_def dispatch_json_profile[OF assms] x rbind_simps g h
      using True by (simp only: rbind_Inr_iff require_Inr simp_thms ex_unit)
  next
    case False
    then show ?thesis
      by (simp only: check_rooted_hashes_def Let_def dispatch_json_profile[OF assms] rbind_Inr_iff
          rooted_hashes_Inr[OF refl refl refl refl] simp_thms ex_simps)
  qed
  note path = trace_checks_path[OF f, where label = "''Team 0.2''" and es = "rt_trace t"
      and h = "text_hash R (source_input (rt_case_source t) (rr_case_hash (rt_run t)))"
      and m = "text_hash R (manager_output (task_json (rt_task_context t)) legacy_dispatch_payload)"
      and i = "ah_impact_plan (expected_hashes R t)" and r = "ah_run_result (expected_hashes R t)"
      and f = "ah_final_decision (expected_hashes R t)"]
  from path show ?thesis unfolding c by argo
qed


lemma nested_sources_checked:
  "seq_checks (map (check_nested_source a) (nested_sources t)) = Inr () \<longleftrightarrow>
     (\<forall>b \<in> set (map fst (nested_sources t)). rooted_source b \<and> b = a)"
  by (auto simp: seq_checks_Inr check_nested_source_def)

lemma map_fst_labelled: "map fst (map (\<lambda>(i, e). (f e, g i)) zs) = map f (map snd zs)"
  by (induction zs) auto

lemma nested_sources_set:
  "set (map fst (nested_sources t)) = {tk_case_source (rt_task_context t), sh_case_source (rt_shared_state t),
     fd_case_source (rt_final_decision t)} \<union> re_case_source ` set (rt_trace t)"
proof -
  have "map fst (nested_sources t) = [tk_case_source (rt_task_context t), sh_case_source (rt_shared_state t),
      fd_case_source (rt_final_decision t)] @ map re_case_source (rt_trace t)"
    by (simp only: nested_sources_def map_append map_fst_labelled map_snd_zip length_upt diff_zero list.map fst_conv)
  then show ?thesis by auto
qed

section \<open>The run\<close>

definition task_of :: "source_assurance \<Rightarrow> json \<Rightarrow> json \<Rightarrow> json \<Rightarrow> task_context" where
  "task_of a case_id event_id case_hash =
     \<lparr>tk_contract_version = TEAM_TASK_CONTEXT_CONTRACT_VERSION, tk_case_source = a, tk_case_id = case_id,
      tk_event_id = event_id, tk_case_hash = case_hash, tk_synthetic = True\<rparr>"

definition decision_of :: "run_result \<Rightarrow> final_decision" where
  "decision_of r =
     \<lparr>fd_contract_version = TEAM_FINAL_DECISION_CONTRACT_VERSION, fd_case_source = rr_source r, fd_decision = release_gate r,
      fd_run_id = rr_run_id r, fd_overall_status = status_text (rr_overall_status r)\<rparr>"

definition rooted_trace_of :: "runtime \<Rightarrow> task_context \<Rightarrow> run_result \<Rightarrow> rooted_event list" where
  "rooted_trace_of R k r =
     (let a = rr_source r; start = text_hash R (source_input a (rr_case_hash r));
          manager = text_hash R (manager_output (task_json k) legacy_dispatch_payload);
          impact = text_hash R (impact_artifact a (rr_case_hash r) (rr_impact_plan r));
          run = text_hash R (JDict (run_result_items r)); final = text_hash R (decision_json (decision_of r)) in
      map (rooted_event_of a)
        [intake_event start manager, plan_event manager impact, regression_event impact run (locators_of (rr_findings r)),
         gate_event (release_gate r) run final ROOTED_GATE_EVIDENCE])"

definition rooted_team_of :: "runtime \<Rightarrow> json \<Rightarrow> run_result \<Rightarrow> rooted_team_result" where
  "rooted_team_of R event_id r =
     (let a = rr_source r; k = task_of a (rr_case_id r) event_id (rr_case_hash r) in
      \<lparr>rt_contract_version = TEAM_RUN_CONTRACT_VERSION, rt_case_source = a, rt_task_context = k, rt_run = r,
       rt_trace = rooted_trace_of R k r, rt_final_state = release_gate r, rt_final_decision = decision_of r,
       rt_shared_state =
         \<lparr>sh_contract_version = TEAM_SHARED_STATE_CONTRACT_VERSION, sh_case_source = a, sh_case_id = rr_case_id r,
          sh_event_id = event_id, sh_current_state = release_gate r,
          sh_artifact_hashes =
            \<lparr>ah_task_context = text_hash R (task_json k), ah_dispatch_plan = text_hash R (dispatch_artifact a legacy_dispatch_payload),
             ah_impact_plan = text_hash R (impact_artifact a (rr_case_hash r) (rr_impact_plan r)),
             ah_run_result = text_hash R (JDict (run_result_items r)),
             ah_final_decision = text_hash R (decision_json (decision_of r))\<rparr>,
          sh_dispatch_plan = DISPATCH_STEPS, sh_run_id = rr_run_id r, sh_ruleset_version = rr_ruleset_version r\<rparr>,
       rt_runtime_mode = TEAM_RUNTIME_MODE\<rparr>)"

lemma rooted_event_fields:
  "te_sequence (rooted_event_of a e) = te_sequence e" "te_agent_id (rooted_event_of a e) = te_agent_id e"
  "te_skill_id (rooted_event_of a e) = te_skill_id e" "te_state_from (rooted_event_of a e) = te_state_from e"
  "te_state_to (rooted_event_of a e) = te_state_to e" "te_input_hash (rooted_event_of a e) = te_input_hash e"
  "te_output_hash (rooted_event_of a e) = te_output_hash e" "re_case_source (rooted_event_of a e) = a"
  "re_contract_version (rooted_event_of a e) = TEAM_TRACE_EVENT_CONTRACT_VERSION"
  by (simp_all add: rooted_event_of_def team_event.defs)

lemma make_rooted_event_Inr:
  "make_rooted_event a e = Inr x \<longleftrightarrow> rooted_source a \<and> validate_trace_fields ''Team 0.2 trace'' e = Inr () \<and> x = rooted_event_of a e"
  by (auto simp: make_rooted_event_def check_rooted_event_def validate_trace_fields_def rooted_event_fields)

lemma rooted_events_checked:
  assumes "is_lower_sha h" "is_lower_sha k"
  shows "validate_trace_fields l (intake_event h k) = Inr ()" "validate_trace_fields l (plan_event h k) = Inr ()"
    "validate_trace_fields l (regression_event h k ls) = Inr ()" "validate_trace_fields l (gate_event (release_gate r) h k ls) = Inr ()"
  using assms literal_texts
  by (simp_all add: validate_trace_fields_def intake_event_def plan_event_def regression_event_def gate_event_def release_gate_def)

lemma text_hash_hex [simp]: "lower_hex (JStr (text_hash R v)) 64 l = Inr ()"
  using text_hash_lower by simp

lemma decision_checked:
  assumes "rooted_run R r"
  shows "check_final_decision (decision_of r) = Inr ()"
proof -
  have "check_result_header r = Inr ()" using assms by (simp add: rooted_run_def check_run_result_def)
  then have "lower_hex (rr_run_id r) 16 l = Inr ()" for l by (simp add: check_result_header_def lower_hex_Inr)
  moreover have "rooted_source (rr_source r)" using assms rooted_assurance(1) by (simp add: rooted_run_def)
  moreover have "status_text (rr_overall_status r) \<in> set CHECK_STATUS_VALUES"
    by (cases "rr_overall_status r") (simp_all add: CHECK_STATUS_VALUES_def)
  moreover have "release_gate r = team_state_for_status (status_text (rr_overall_status r))"
    by (simp add: release_gate_def gate_of_status)
  moreover have "release_gate r \<in> {TEAM_READY, TEAM_BLOCKED}" by (simp add: release_gate_def)
  ultimately show ?thesis by (simp add: check_final_decision_def decision_of_def)
qed

lemma ruleset_trimmed: "trimmed (JStr RULESET_VERSION)"
  by code_simp


lemma rooted_trace_Inr:
  assumes a: "rooted_source (rr_source r)"
  shows "rooted_trace R (rr_source r) (release_gate r) (manager_output (task_json k) legacy_dispatch_payload) r (decision_of r) = Inr es \<longleftrightarrow>
    json_finite (JDict (assurance_items (rr_source r))) \<and> json_finite (task_json k) \<and> json_finite (JDict (run_result_items r))
    \<and> json_finite (decision_json (decision_of r))
    \<and> list_all (\<lambda>e. truthy (ev_locator e) \<longrightarrow> is_str (ev_locator e)) (concat (map f_evidence (rr_findings r)))
    \<and> es = rooted_trace_of R k r"
  unfolding rooted_trace_def rbind_Inr_iff plain_hash[OF rooted_values(3)] plain_hash[OF hashed_values(3)]
    plain_hash[OF rooted_values(5)] plain_hash[OF rooted_values(6)] plain_hash[OF rooted_values(2)]
    value_finite source_values_finite run_locators_Inr rooted_trace_of_def Let_def make_rooted_event_Inr list.map
  using a text_hash_lower run_items_finite[of r] by (simp add: rooted_events_checked) blast


lemma rooted_run_facts:
  assumes "rooted_run R r"
  shows "rooted_source (rr_source r)" "json_finite (JDict (assurance_items (rr_source r)))" "is_str (rr_run_id r)"
    "lower_sha_json (rr_case_hash r)" "lower_hex (rr_run_id r) 16 l = Inr ()" "rr_ruleset_version r = JStr RULESET_VERSION"
proof -
  have "check_result_header r = Inr ()" using assms by (simp add: rooted_run_def check_run_result_def)
  then show "is_str (rr_run_id r)" "lower_sha_json (rr_case_hash r)" "lower_hex (rr_run_id r) 16 l = Inr ()"
    by (simp_all add: check_result_header_def lower_hex_Inr require_result_sha_def split: if_splits)
qed (use assms rooted_assurance in \<open>simp_all add: rooted_run_def\<close>)

lemma rooted_finite:
  assumes "rooted_run R r" and "trimmed (rr_case_id r)" and "trimmed b" and "json_finite (ip_event_id (rr_impact_plan r))"
    and "reportable (rr_findings r)"
  shows "json_finite (task_json (task_of (rr_source r) (rr_case_id r) b (rr_case_hash r)))"
    "json_finite (decision_json (decision_of r))" "json_finite (JDict (run_result_items r))"
proof -
  note r = rooted_run_facts[OF assms(1)]
  have s: "is_str (rr_case_id r)" "is_str b" using assms(2,3) by (simp_all add: trimmed_def)
  have c: "check_run_result R r = Inr ()" using assms(1) by (simp add: rooted_run_def)
  have h: "json_finite (rr_case_hash r)" "json_finite (rr_run_id r)" "json_finite (rr_case_id r)" "json_finite b"
    using r(3,4) s by (auto simp: lower_sha_json_finite elim!: is_strE)
  show "json_finite (task_json (task_of (rr_source r) (rr_case_id r) b (rr_case_hash r)))"
    "json_finite (decision_json (decision_of r))"
    using r(2) h by (simp_all add: task_json_def task_of_def decision_json_def decision_of_def)
  have "json_finite (run_legacy_identity r)" by (rule profile_finite[OF c])
  moreover have "rr_contract_version r = JStr RUN_RESULT_CONTRACT_VERSION" "rr_identity_version r = JStr RUN_IDENTITY_VERSION"
    using c by (simp_all add: check_run_result_def check_result_header_def)
  ultimately show "json_finite (JDict (run_result_items r))"
    using r(2) h r(6) assms(4,5)
    by (simp add: run_result_items_def run_legacy_identity_def legacy_identity_def reportable_def plan_finite)
qed

lemma team_of_fields:
  "rt_contract_version (rooted_team_of R b r) = TEAM_RUN_CONTRACT_VERSION" "rt_case_source (rooted_team_of R b r) = rr_source r"
  "rt_task_context (rooted_team_of R b r) = task_of (rr_source r) (rr_case_id r) b (rr_case_hash r)"
  "rt_run (rooted_team_of R b r) = r" "rt_final_state (rooted_team_of R b r) = release_gate r"
  "rt_trace (rooted_team_of R b r) = rooted_trace_of R (task_of (rr_source r) (rr_case_id r) b (rr_case_hash r)) r"
  "rt_final_decision (rooted_team_of R b r) = decision_of r" "rt_runtime_mode (rooted_team_of R b r) = TEAM_RUNTIME_MODE"
  "sh_dispatch_plan (rt_shared_state (rooted_team_of R b r)) = DISPATCH_STEPS"
  "sh_case_source (rt_shared_state (rooted_team_of R b r)) = rr_source r"
  by (simp_all add: rooted_team_of_def Let_def)

lemma rooted_trace_path:
  "map te_sequence (rooted_trace_of R k r) = [1, 2, 3, 4]" "re_case_source ` set (rooted_trace_of R k r) = {rr_source r}"
  "length (rooted_trace_of R k r) = 4"
  "check_trace_profile l (release_gate r) (rooted_trace_of R k r) = Inr ()"
  "check_hash_joins l (text_hash R (source_input (rr_source r) (rr_case_hash r)))
    (text_hash R (manager_output (task_json k) legacy_dispatch_payload))
    (text_hash R (impact_artifact (rr_source r) (rr_case_hash r) (rr_impact_plan r)))
    (text_hash R (JDict (run_result_items r))) (text_hash R (decision_json (decision_of r))) (rooted_trace_of R k r) = Inr ()"
  by (simp_all add: rooted_trace_of_def Let_def rooted_event_fields check_trace_profile_def check_hash_joins_def
      TRACE_PROFILE_def event_profile_def intake_event_def plan_event_def regression_event_def gate_event_def)

lemma expected_hashes_of: "sh_artifact_hashes (rt_shared_state (rooted_team_of R b r)) = expected_hashes R (rooted_team_of R b r)"
  by (simp add: expected_hashes_def team_of_fields Let_def) (simp add: rooted_team_of_def Let_def)

lemma rooted_team_of_hashes:
  assumes "hashed_finite (rooted_team_of R b r)"
  shows "check_rooted_hashes R (rooted_team_of R b r) = Inr ()"
proof -
  have s: "map step_triple (sh_dispatch_plan (rt_shared_state (rooted_team_of R b r))) = DISPATCH_PROFILE"
    by (simp add: team_of_fields dispatch_steps)
  have f: "final_state (release_gate r)" unfolding release_gate_def by (rule gate_final)
  let ?k = "task_of (rr_source r) (rr_case_id r) b (rr_case_hash r)"
  have "check_trace_profile ''Team 0.2'' (release_gate r) (rooted_trace_of R ?k r) = Inr () \<and>
    check_hash_joins ''Team 0.2'' (text_hash R (source_input (rr_source r) (rr_case_hash r)))
      (text_hash R (manager_output (task_json ?k) legacy_dispatch_payload))
      (text_hash R (impact_artifact (rr_source r) (rr_case_hash r) (rr_impact_plan r)))
      (text_hash R (JDict (run_result_items r))) (text_hash R (decision_json (decision_of r))) (rooted_trace_of R ?k r) = Inr ()"
    by (intro conjI rooted_trace_path(4,5))
  note p = this[unfolded trace_checks_path[OF f]]
  show ?thesis
    unfolding rooted_hashes_checked[OF s]
    using assms p by (simp add: expected_hashes_of team_of_fields) (simp add: expected_hashes_def team_of_fields Let_def)
qed

lemma rooted_team_of_valid:
  assumes r: "rooted_run R r" and t: "trimmed (rr_case_id r)" "trimmed b" and e: "json_finite (ip_event_id (rr_impact_plan r))"
    and f: "reportable (rr_findings r)"
  shows "validate_rooted_team_result R (rooted_team_of R b r) = Inr ()"
proof -
  note rf = rooted_run_facts[OF r]
  have "hashed_finite (rooted_team_of R b r)"
    using rooted_finite[OF r t e f] rf(2) by (simp add: hashed_finite_def team_of_fields)
  note h = rooted_team_of_hashes[OF this]
  have n: "seq_checks (map (check_nested_source (rr_source r)) (nested_sources (rooted_team_of R b r))) = Inr ()"
    unfolding nested_sources_checked nested_sources_set
    using rf(1) by (simp add: team_of_fields task_of_def decision_of_def rooted_trace_path(2))
  have "check_task_joins (rooted_team_of R b r) = Inr ()" "check_state_joins (rooted_team_of R b r) = Inr ()"
    by (simp_all add: check_task_joins_def check_state_joins_def rooted_team_of_def Let_def task_of_def decision_of_def
        release_gate_def gate_of_status)
  then show ?thesis
    using h n rf(1) t(1) current_run_checked[OF r]
    by (simp add: validate_rooted_team_result_def team_of_fields rooted_trace_path(3) dispatch_steps(2))
qed

text \<open>
  The constructors along the way ask for the identifiers to be trimmed and for findings that can be
  reported; the checks of the result ask for nothing more.
\<close>

lemma assemble_rooted_Inr:
  assumes r: "rooted_run R r" and b: "is_str b" and e: "json_finite (ip_event_id (rr_impact_plan r))"
  shows "assemble_rooted_team R (rr_source r) (rr_case_id r) b (rr_case_hash r) r = Inr t \<longleftrightarrow>
    trimmed (rr_case_id r) \<and> trimmed b \<and> reportable (rr_findings r) \<and> t = rooted_team_of R b r" (is "?l \<longleftrightarrow> ?r")
proof -
  note rf = rooted_run_facts[OF r]
  let ?k = "task_of (rr_source r) (rr_case_id r) b (rr_case_hash r)"
  have k: "check_task_context ?k = Inr () \<longleftrightarrow> trimmed (rr_case_id r) \<and> trimmed b"
    using rf(1,4) by (simp add: check_task_context_def task_of_def lower_hex_sha_json)
  have x: "rooted_artifact_hashes R (rr_source r) ?k legacy_dispatch_payload r (decision_of r) = Inr x \<longleftrightarrow>
      hashed_finite (rooted_team_of R b r) \<and> x = expected_hashes R (rooted_team_of R b r)" for x
    by (rule rooted_hashes_Inr) (simp_all add: team_of_fields)
  have a: "check_artifact_hashes (expected_hashes R (rooted_team_of R b r)) = Inr ()"
    by (simp add: check_artifact_hashes_def expected_hashes_def Let_def del: lower_hex_sha)
  let ?s = "rt_shared_state (rooted_team_of R b r)"
  have s: "check_rooted_shared_state ?s = Inr ()" if "trimmed (rr_case_id r)" "trimmed b"
    using that rf(1,5,6) ruleset_trimmed
    by (simp add: check_rooted_shared_state_def rooted_team_of_def Let_def dispatch_steps(2) release_gate_def)
  have eq: "\<lparr>tk_contract_version = TEAM_TASK_CONTEXT_CONTRACT_VERSION, tk_case_source = rr_source r, tk_case_id = rr_case_id r,
        tk_event_id = b, tk_case_hash = rr_case_hash r, tk_synthetic = True\<rparr> = ?k"
    "\<lparr>fd_contract_version = TEAM_FINAL_DECISION_CONTRACT_VERSION, fd_case_source = rr_source r, fd_decision = release_gate r,
        fd_run_id = rr_run_id r, fd_overall_status = status_text (rr_overall_status r)\<rparr> = decision_of r"
    "\<lparr>sh_contract_version = TEAM_SHARED_STATE_CONTRACT_VERSION, sh_case_source = rr_source r, sh_case_id = rr_case_id r,
        sh_event_id = b, sh_current_state = release_gate r, sh_artifact_hashes = expected_hashes R (rooted_team_of R b r),
        sh_dispatch_plan = DISPATCH_STEPS, sh_run_id = rr_run_id r, sh_ruleset_version = rr_ruleset_version r\<rparr> = ?s"
    "\<lparr>rt_contract_version = TEAM_RUN_CONTRACT_VERSION, rt_case_source = rr_source r, rt_task_context = ?k, rt_run = r,
        rt_trace = rooted_trace_of R ?k r, rt_final_state = release_gate r, rt_final_decision = decision_of r,
        rt_shared_state = ?s, rt_runtime_mode = TEAM_RUNTIME_MODE\<rparr> = rooted_team_of R b r"
    unfolding expected_hashes_of[symmetric] by (simp_all add: task_of_def decision_of_def rooted_team_of_def Let_def)
  have m: "assemble_rooted_team R (rr_source r) (rr_case_id r) b (rr_case_hash r) r = Inr t \<longleftrightarrow>
      trimmed (rr_case_id r) \<and> trimmed b
      \<and> rooted_trace R (rr_source r) (release_gate r) (manager_output (task_json ?k) legacy_dispatch_payload) r (decision_of r)
          = Inr (rooted_trace_of R ?k r)
      \<and> hashed_finite (rooted_team_of R b r) \<and> validate_rooted_team_result R (rooted_team_of R b r) = Inr ()
      \<and> t = rooted_team_of R b r"
  proof (cases "trimmed (rr_case_id r) \<and> trimmed b")
    case True
    have parts: "built check_task_context ?k = Inr ?k" "built check_final_decision (decision_of r) = Inr (decision_of r)"
      using True by (simp_all add: k decision_checked[OF r])
    show ?thesis
      unfolding assemble_rooted_team_def eq(1,2) dispatch_steps(3) rbind_simps dispatch_steps(1) parts rbind_Inr_iff x
        rooted_trace_Inr[OF rf(1)]
      using True a s by (auto simp: eq)
  next
    case False
    then show ?thesis
      unfolding assemble_rooted_team_def eq(1,2) rbind_Inr_iff[of "built check_task_context _"] built_Inr k by blast
  qed
  show ?thesis
  proof
    assume ?l
    then show ?r
      unfolding m rooted_trace_Inr[OF rf(1)] by (simp add: reportable_def run_result_items_def)
  next
    assume q: ?r
    then have c: "trimmed (rr_case_id r)" "trimmed b" "reportable (rr_findings r)" by blast+
    note f = rooted_finite[OF r c(1,2) e c(3)] and v = rooted_team_of_valid[OF r c(1,2) e c(3)]
    show ?l
      unfolding m rooted_trace_Inr[OF rf(1)] hashed_finite_def team_of_fields
      using q f v rf(2) c(3)[unfolded reportable_def] by blast
  qed
qed

end
