(* ===== verification/Team_Properties.thy ===== *)
theory Team_Properties
  imports Team_Rooted_Facts Engine_Properties
begin

text \<open>
  The properties of \<open>orchestration.py\<close>: when a team run returns and what it returns, that a team
  result says what its run says, and that its trace is a run of the state machine of a task.
\<close>

section \<open>The older profile\<close>

lemma evaluate_prepared_header:
  assumes "evaluate_prepared R p rc vc = Inr r"
  shows "ditem ''case_id'' (dict_of p) = Inr (rr_case_id r)" "rr_ruleset_version r = JStr RULESET_VERSION"
  using assms
  by (cases "reference_assurance rc"; cases "validation_assurance vc";
      auto simp: evaluate_prepared_def Let_def rbind_Inr_iff assemble_result_def make_run_result_Inr)+

lemma evaluated_run:
  assumes "prepare_case R v = Inr p" and "evaluate_case R p rc vc = Inr r"
  shows "unbound_run R r" "ditem ''case_id'' (dict_of p) = Inr (rr_case_id r)" "is_str (rr_case_id r)"
    "canonical_hash R p = Inr (str_of (rr_case_hash r))" "rr_case_hash r = JStr (str_of (rr_case_hash r))"
    "build_impact_plan R (dict_of p) = Inr (rr_impact_plan r)" "ip_event_id (rr_impact_plan r) = dget ''event_id'' (event_of p)"
    "ditem ''event'' (dict_of p) = Inr (JDict (event_of p))" "item ''event_id'' (JDict (event_of p)) = Inr (dget ''event_id'' (event_of p))"
    "is_str (dget ''event_id'' (event_of p))"
proof -
  have v: "validate_case R p = Inr ()" by (rule prepare_case_valid[OF assms(1)])
  have e: "evaluate_prepared R p rc vc = Inr r"
    using assms(2) prepare_current[OF v] by (simp add: evaluate_case_def)
  from e obtain plan fs h where p: "build_impact_plan R (dict_of p) = Inr plan" "canonical_hash R p = Inr h"
    "check_run_result R r = Inr ()" "rr_case_hash r = JStr h" "rr_findings r = fs" "rr_impact_plan r = plan"
    "rr_overall_status r = overall_status (map f_status fs)" "rr_source r = unbound_assurance"
    by (rule evaluate_preparedE) blast
  show "unbound_run R r" using p evaluate_prepared_header(2)[OF e] by (simp add: unbound_run_def)
  show "ditem ''case_id'' (dict_of p) = Inr (rr_case_id r)" by (rule evaluate_prepared_header(1)[OF e])
  then show "is_str (rr_case_id r)"
    using validate_case_header_facts(5)[OF v] by (auto dest!: ditem_dget intro: nonblank_is_str)
  show "canonical_hash R p = Inr (str_of (rr_case_hash r))" "rr_case_hash r = JStr (str_of (rr_case_hash r))"
    "build_impact_plan R (dict_of p) = Inr (rr_impact_plan r)" using p by simp_all
  from p(1) obtain e' where e': "ditem ''event'' (dict_of p) = Inr e'" "as_dict e' \<noteq> Inl AttributeError"
    unfolding build_impact_plan_def by (elim rbind_InrE) auto
  then have ev: "ditem ''event'' (dict_of p) = Inr (JDict (event_of p))"
    using ditem_dget[OF e'(1)] by (cases e') (simp_all add: event_of_def)
  then show "ditem ''event'' (dict_of p) = Inr (JDict (event_of p))" .
  note ef = validate_event_facts[OF validated_event[OF v]]
  show "item ''event_id'' (JDict (event_of p)) = Inr (dget ''event_id'' (event_of p))"
    using dhas_ditem[OF ef(1)] by simp
  show "is_str (dget ''event_id'' (event_of p))" by (rule nonblank_is_str[OF ef(5)])
  show "ip_event_id (rr_impact_plan r) = dget ''event_id'' (event_of p)"
    using p(1) ev dhas_ditem[OF ef(1)] unfolding p(6) by (auto simp: build_impact_plan_def rbind_Inr_iff)
qed

lemma team_run_evaluates:
  assumes "team_run R p rc vc = Inr r"
  shows "\<exists>rc' vc'. evaluate_case R p rc' vc' = Inr r"
  using assms by (auto simp: team_run_def run_case_def run_case_with_reference_context_def split: option.splits if_splits)

text \<open>
  C38.  A team run of profile 0.1 returns exactly when the case can be prepared and run, the
  identifiers of the case and of the event have no outer white space, and the findings can be
  written out; no other check of the constructors it goes through ever fails.  What it returns is
  then the result that is determined by the case and the run, which is blocked whatever the run
  says.
\<close>

theorem legacy_team_exact:
  "run_agent_team_in R (JDict d) rc vc = Inr t \<longleftrightarrow>
     (\<exists>p r. prepare_case R (JDict d) = Inr p \<and> team_run R p rc vc = Inr r
        \<and> trimmed (rr_case_id r) \<and> trimmed (dget ''event_id'' (event_of p)) \<and> reportable (rr_findings r)
        \<and> t = team_of R (rr_case_id r) (dget ''event_id'' (event_of p)) (str_of (rr_case_hash r)) r
        \<and> tr_final_state t = TEAM_BLOCKED)"
proof -
  have step: "rbind (canonical_hash R p) (\<lambda>case_hash.
        rbind (ditem ''case_id'' (dict_of p)) (\<lambda>case_id.
        rbind (ditem ''event'' (dict_of p)) (\<lambda>event.
        rbind (item ''event_id'' event) (\<lambda>event_id.
        rbind (build_impact_plan R (dict_of p)) (\<lambda>plan.
        rbind (team_run R p rc vc) (assemble_team R case_id event_id case_hash (plan_json plan))))))) = Inr t
      \<longleftrightarrow> (\<exists>r. team_run R p rc vc = Inr r
        \<and> trimmed (rr_case_id r) \<and> trimmed (dget ''event_id'' (event_of p)) \<and> reportable (rr_findings r)
        \<and> t = team_of R (rr_case_id r) (dget ''event_id'' (event_of p)) (str_of (rr_case_hash r)) r)"
    if p: "prepare_case R (JDict d) = Inr p" for p
  proof (cases "team_run R p rc vc")
    case (Inl e)
    then show ?thesis by (simp add: rbind_Inr_iff)
  next
    case (Inr r)
    obtain rc' vc' where e: "evaluate_case R p rc' vc' = Inr r" using team_run_evaluates[OF Inr] by blast
    note q = evaluated_run[OF p e]
    have "json_finite (ip_event_id (rr_impact_plan r))" using q(7,10) by (auto elim: is_strE)
    from assemble_team_Inr[OF q(1,5,10,3) this] show ?thesis
      unfolding q(2,4,6,8,9) rbind_simps Inr by auto
  qed
  have b: "tr_final_state (team_of R a b h r) = TEAM_BLOCKED" for a b h r by (simp add: team_of_def Let_def)
  show ?thesis
  proof (cases "prepare_case R (JDict d)")
    case (Inl e)
    then show ?thesis by (simp add: run_agent_team_in_def)
  next
    case (Inr p)
    have "run_agent_team_in R (JDict d) rc vc = Inr t \<longleftrightarrow> (\<exists>r. team_run R p rc vc = Inr r
        \<and> trimmed (rr_case_id r) \<and> trimmed (dget ''event_id'' (event_of p)) \<and> reportable (rr_findings r)
        \<and> t = team_of R (rr_case_id r) (dget ''event_id'' (event_of p)) (str_of (rr_case_hash r)) r)"
      unfolding step[OF Inr, symmetric] run_agent_team_in_def Inr rbind_simps by simp
    then show ?thesis using b Inr by (simp only: sum.inject) metis
  qed
qed

section \<open>Profile 0.2\<close>



text \<open>
  C40.  Given a validated case and a run of it under a bound or derived source, the team run of
  profile 0.2 returns exactly when the run names the hash of the case, the two identifiers have no
  outer white space and the findings can be written out: none of its own checks fails besides.  The
  task is then ready for release review exactly when the run passes.
\<close>

theorem rooted_team_exact:
  assumes r: "rooted_run R r" and v: "validate_case R (JDict c) = Inr ()" and h: "canonical_hash R (JDict c) = Inr h"
    and i: "rr_case_id r = dget ''case_id'' c" and e: "json_finite (ip_event_id (rr_impact_plan r))"
  shows "run_agent_team_with_source R (Inr (JDict c, r)) = Inr t \<longleftrightarrow>
    rr_case_hash r = JStr h \<and> trimmed (dget ''case_id'' c) \<and> trimmed (dget ''event_id'' (event_of (JDict c)))
    \<and> reportable (rr_findings r) \<and> t = rooted_team_of R (dget ''event_id'' (event_of (JDict c))) r
    \<and> (rt_final_state t = TEAM_READY \<longleftrightarrow> rr_overall_status r = PASS)"
proof -
  note ef = validate_event_facts[OF validated_event[OF v]]
  note hf = validate_case_header_facts[OF v]
  have a: "make_assurance (rr_source r) = Inr (rr_source r)"
    using r by (simp add: rooted_run_def make_assurance_def)
  have b: "sa_state (rr_source r) = JStr SOURCE_BOUND \<or> sa_state (rr_source r) = JStr SOURCE_DERIVED"
    using rooted_run_facts(1)[OF r] by (simp add: rooted_source_def)
  have ci: "ditem ''case_id'' (dict_of (JDict c)) = Inr (rr_case_id r)"
    using dhas_ditem[OF hf(4)] i by simp
  have ev: "ditem ''event'' (dict_of (JDict c)) = Inr (JDict (event_of (JDict c)))"
    by (rule validate_case_event(2)[OF v])
  have ei: "item ''event_id'' (JDict (event_of (JDict c))) = Inr (dget ''event_id'' (event_of (JDict c)))"
    using dhas_ditem[OF ef(1)] by simp
  have g: "rt_final_state (rooted_team_of R b r) = TEAM_READY \<longleftrightarrow> rr_overall_status r = PASS" for b
    by (simp add: team_of_fields release_gate_def TEAM_READY_def TEAM_BLOCKED_def)
  have "run_agent_team_with_source R (Inr (JDict c, r)) = Inr t \<longleftrightarrow> rr_case_hash r = JStr h
      \<and> assemble_rooted_team R (rr_source r) (rr_case_id r) (dget ''event_id'' (event_of (JDict c))) (JStr h) r = Inr t"
    unfolding run_agent_team_with_source_def rbind_simps prod.case a h ci ev ei using b
    by (simp add: rbind_Inr_iff) metis
  then show ?thesis
    using assemble_rooted_Inr[OF r nonblank_is_str[OF ef(5)] e, of t] g unfolding i by auto
qed

text \<open>A run of the demonstration case under a bound source, with nothing to report.\<close>

definition demo_source :: source_assurance where
  "demo_source =
     \<lparr>sa_state = JStr SOURCE_BOUND, sa_pack_version = JStr SOURCE_PACK_VERSION, sa_set_version = JStr SOURCE_SET_VERSION,
      sa_set_hash = JStr (demo_sha CHR ''a''), sa_binding_hash = JStr (demo_sha CHR ''b''), sa_lineage_version = JNull,
      sa_lineage_hash = JNull\<rparr>"

definition demo_identity :: "string \<Rightarrow> json" where
  "demo_identity h = run_identity (JStr RUN_RESULT_CONTRACT_VERSION) (JStr RUN_IDENTITY_VERSION) (JStr h)
     (JStr RULESET_VERSION) demo_source (JStr REFERENCE_UNATTESTED) JNull JNull (JStr VALIDATION_UNATTESTED) JNull JNull"

definition demo_rooted_run :: "string \<Rightarrow> run_result" where
  "demo_rooted_run h =
     \<lparr>rr_run_id = JStr (take 16 (sha256_hex (IDENTITY_DOMAIN @ jtext demo_runtime (demo_identity h)))),
      rr_case_id = JStr ''CASE-1'', rr_case_hash = JStr h, rr_ruleset_version = JStr RULESET_VERSION,
      rr_contract_version = JStr RUN_RESULT_CONTRACT_VERSION, rr_identity_version = JStr RUN_IDENTITY_VERSION,
      rr_source = demo_source, rr_reference_state = JStr REFERENCE_UNATTESTED, rr_reference_set_hash = JNull,
      rr_reference_version = JNull, rr_validation_state = JStr VALIDATION_UNATTESTED, rr_validation_set_hash = JNull,
      rr_validation_version = JNull, rr_overall_status = PASS, rr_impact_plan = plan_of demo_runtime demo_event,
      rr_findings = []\<rparr>"

lemma demo_source_valid: "validate_assurance_payload (JDict (assurance_items demo_source)) = Inr ()"
  "check_result_source demo_source = Inr ()" "sa_state demo_source \<noteq> JStr SOURCE_UNBOUND"
  "json_finite (demo_identity h)"
  by code_simp+

lemma demo_rooted:
  assumes "is_lower_sha h"
  shows "rooted_run demo_runtime (demo_rooted_run h)"
proof -
  have "nonblank_str (JStr ''CASE-1'')" by code_simp
  then have "check_result_header (demo_rooted_run h) = Inr ()"
    using run_id_shape assms by (simp add: check_result_header_def demo_rooted_run_def require_result_sha_def lower_sha_json_def)
  moreover have "check_result_reference (demo_rooted_run h) = Inr ()" "check_result_validation (demo_rooted_run h) = Inr ()"
    by (simp_all add: check_result_reference_def check_result_validation_def demo_rooted_run_def)
  moreover have "result_identity (demo_rooted_run h) = demo_identity h"
    by (simp add: result_identity_def demo_rooted_run_def demo_identity_def)
  then have "check_result_identity demo_runtime (demo_rooted_run h) = Inr ()"
    using demo_source_valid(4) by (simp add: check_result_identity_def identity_digest_def) (simp add: demo_rooted_run_def)
  moreover have "rr_source (demo_rooted_run h) = demo_source" "rr_ruleset_version (demo_rooted_run h) = JStr RULESET_VERSION"
    "rr_overall_status (demo_rooted_run h) = overall_status (map f_status (rr_findings (demo_rooted_run h)))"
    by (simp_all add: demo_rooted_run_def overall_status_def)
  ultimately show ?thesis using demo_source_valid(1-3) by (simp add: rooted_run_def check_run_result_def)
qed

theorem rooted_team_exact_witness:
  "\<exists>h. run_agent_team_with_source demo_runtime (Inr (JDict demo_case, demo_rooted_run h))
      = Inr (rooted_team_of demo_runtime (JStr ''EV-1'') (demo_rooted_run h))
    \<and> rt_final_state (rooted_team_of demo_runtime (JStr ''EV-1'') (demo_rooted_run h)) = TEAM_READY"
proof -
  obtain h where h: "canonical_hash demo_runtime (JDict demo_case) = Inr h" "is_lower_sha h"
    by (rule canonical_hash_total[OF demo_case_valid demo_regular])
  have i: "rr_case_id (demo_rooted_run h) = dget ''case_id'' demo_case" "dget ''event_id'' (event_of (JDict demo_case)) = JStr ''EV-1''"
    "trimmed (dget ''case_id'' demo_case)" "trimmed (JStr ''EV-1'')" "dget ''event_id'' demo_event = JStr ''EV-1''"
    by code_simp+
  have e: "json_finite (ip_event_id (rr_impact_plan (demo_rooted_run h)))"
    by (simp add: demo_rooted_run_def plan_of_def i(5))
  have f: "reportable (rr_findings (demo_rooted_run h))" "rr_case_hash (demo_rooted_run h) = JStr h"
    "rr_overall_status (demo_rooted_run h) = PASS"
    by (simp_all add: demo_rooted_run_def reportable_def)
  have g: "rt_final_state (rooted_team_of demo_runtime (JStr ''EV-1'') (demo_rooted_run h)) = TEAM_READY"
    by (simp add: team_of_fields release_gate_def f(3))
  from rooted_team_exact[OF demo_rooted[OF h(2)] demo_case_valid h(1) i(1) e] show ?thesis
    unfolding i(2) using i(3,4) f g by (intro exI[of _ h]) blast
qed

end
