(* ===== verification/Controlled_References.thy ===== *)
theory Controlled_References
  imports Validation_Bundle Run_Result
begin

text \<open>
  \<open>controlled_references.py\<close>: the manifest of three controlled documents and the raw bytes of
  its members are captured in a bundle, and the documents rebuilt from those bytes are sealed
  into the context QCI-R005 accepts.  How a document is rebuilt from its bytes is an argument
  here; \<open>Builder_References\<close> puts the parts together.
\<close>

section \<open>Contract constants\<close>

definition CONTROLLED_REFERENCE_PACK_VERSION :: string where
  "CONTROLLED_REFERENCE_PACK_VERSION = ''qualityci-controlled-reference-pack-0.1''"

definition MAX_REFERENCE_MEMBERS :: nat where "MAX_REFERENCE_MEMBERS = 16"
definition MAX_REFERENCE_MEMBER_BYTES :: nat where "MAX_REFERENCE_MEMBER_BYTES = 10485760"

definition REFERENCE_MANIFEST_ROOT_KEYS :: "string list" where
  "REFERENCE_MANIFEST_ROOT_KEYS = [''contract_version'', ''documents'']"

definition REFERENCE_DOCUMENT_REQUIRED_KEYS :: "string list" where
  "REFERENCE_DOCUMENT_REQUIRED_KEYS =
     [''source_id'', ''source_path'', ''document_id'', ''document_type'', ''revision'', ''status'',
      ''owner'', ''revision_date'', ''columns'']"

definition REFERENCE_DOCUMENT_OPTIONAL_KEYS :: "string list" where
  "REFERENCE_DOCUMENT_OPTIONAL_KEYS = [''header_row'', ''table_selector'']"

text \<open>\<open>sorted(REFERENCE_ROLES)\<close>, and the types a pack has one document of.\<close>

definition REFERENCE_ROLES :: "string list" where
  "REFERENCE_ROLES = [''CONTROL_PLAN'', ''SOP'']"

definition PACK_TYPES :: "string list" where
  "PACK_TYPES = [''SOP'', ''CONTROL_PLAN'', ''INSPECTION_RECORD'']"

section \<open>Members and bundles\<close>

record reference_member =
  rm_source_id :: string
  rm_document_id :: string
  rm_filename :: string
  rm_raw_bytes :: string

record reference_bundle =
  rb_manifest_bytes :: string
  rb_members :: "reference_member list"

definition make_reference_member :: "json \<Rightarrow> json \<Rightarrow> json \<Rightarrow> string \<Rightarrow> reference_member res" where
  "make_reference_member source_id document_id filename raw =
     (if \<not> (is_str source_id \<and> is_str document_id \<and> is_str filename) then Inl TypeError
      else if \<not> nonblank_str source_id
      then Inl (ValueError ''controlled reference member source_id must be non-empty'')
      else if \<not> nonblank_str document_id
      then Inl (ValueError ''controlled reference member document_id must be non-empty'')
      else if \<not> nonblank_str filename
      then Inl (ValueError ''controlled reference member filename must be non-empty'')
      else if raw = []
      then Inl (ValueError ''controlled reference member raw_bytes must be non-empty bytes'')
      else if MAX_REFERENCE_MEMBER_BYTES < length raw
      then Inl (ValueError ''controlled reference member exceeds byte limit'')
      else Inr \<lparr>rm_source_id = str_of source_id, rm_document_id = str_of document_id,
             rm_filename = str_of filename, rm_raw_bytes = raw\<rparr>)"

definition remake_reference_member :: "reference_member \<Rightarrow> reference_member res" where
  "remake_reference_member m = make_reference_member (JStr (rm_source_id m)) (JStr (rm_document_id m))
     (JStr (rm_filename m)) (rm_raw_bytes m)"

definition canonical_relative_filename :: "json \<Rightarrow> string res" where
  "canonical_relative_filename v =
     (case v of
        JStr s \<Rightarrow>
          if s = [] \<or> s \<noteq> py_strip s
          then Inl (ValueError ''controlled reference source_path must be a canonical filename'')
          else if take 1 s = ''/'' \<or> length (path_parts s) \<noteq> 1 \<or> s = ''.'' \<or> s = ''..'' \<or> CHR 0x5C \<in> set s
          then Inl (ValueError ''controlled reference source_path must be one relative file'')
          else if \<not> list_all (\<lambda>a. 32 \<le> (of_char a :: nat)) s
          then Inl (ValueError ''controlled reference source_path contains control characters'')
          else Inr s
      | _ \<Rightarrow> Inl (ValueError ''controlled reference source_path must be a canonical filename''))"

section \<open>The manifest\<close>

definition REFERENCE_TEXT_KEYS :: "string list" where
  "REFERENCE_TEXT_KEYS =
     [''source_id'', ''document_id'', ''document_type'', ''revision'', ''status'', ''owner'', ''revision_date'']"

definition column_entry :: "string \<times> json \<Rightarrow> bool" where
  "column_entry kv \<longleftrightarrow> \<not> is_blank (fst kv) \<and> nonblank_str (snd kv)"

definition positive_int :: "json \<Rightarrow> bool" where
  "positive_int v \<longleftrightarrow> (case v of JInt i \<Rightarrow> 0 < i | _ \<Rightarrow> False)"

definition check_reference_spec :: "nat \<Rightarrow> dict \<Rightarrow> unit res" where
  "check_reference_spec index spec =
     (let label = ''controlled reference documents['' @ show_nat index @ '']'' in
      rbind (require (has_keys REFERENCE_DOCUMENT_REQUIRED_KEYS spec
          \<and> list_all (\<lambda>kv. fst kv \<in> set (REFERENCE_DOCUMENT_REQUIRED_KEYS @ REFERENCE_DOCUMENT_OPTIONAL_KEYS)) spec)
        (ValueError (label @ '' has unsupported shape''))) (\<lambda>_.
      rbind (check_all (\<lambda>_ key. require (nonblank_str (dget key spec))
          (ValueError (label @ ''.'' @ key @ '' must be non-empty''))) REFERENCE_TEXT_KEYS) (\<lambda>_.
      rbind (require (date_shape (str_of (dget ''revision_date'' spec)))
        (ValueError (label @ ''.revision_date must use YYYY-MM-DD format''))) (\<lambda>_.
      rbind (require (date_fromisoformat (str_of (dget ''revision_date'' spec)) \<noteq> None)
        (ValueError (label @ ''.revision_date must be an ISO calendar date''))) (\<lambda>_.
      rbind (canonical_relative_filename (dget ''source_path'' spec)) (\<lambda>_.
      seq_checks
        [require (dget ''status'' spec = JStr ''APPROVED'')
           (ValueError ''controlled reference documents must be APPROVED''),
         require (is_dict (dget ''columns'' spec) \<and> dict_of (dget ''columns'' spec) \<noteq> []
             \<and> list_all column_entry (dict_of (dget ''columns'' spec)))
           (ValueError ''controlled reference columns must be non-empty strings''),
         require (positive_int (dget_or ''header_row'' (JInt 1) spec))
           (ValueError ''controlled reference header_row must be positive''),
         require (\<not> dhas ''table_selector'' spec \<or> is_dict (dget ''table_selector'' spec))
           (ValueError ''controlled reference table_selector must be an object'')]))))))"

definition reject_collision :: "runtime \<Rightarrow> string list \<Rightarrow> string \<Rightarrow> unit res" where
  "reject_collision R values label =
     require (distinct (map (normalized_identity R) values))
       (ValueError (''controlled reference '' @ label @ '' collision''))"

definition spec_texts :: "string \<Rightarrow> dict list \<Rightarrow> string list" where
  "spec_texts key specs = map (\<lambda>s. str_of (dget key s)) specs"

definition exactly_types :: "json list \<Rightarrow> bool" where
  "exactly_types vs \<longleftrightarrow> list_all (\<lambda>v. str_in v PACK_TYPES) vs \<and> list_all (\<lambda>t. JStr t \<in> set vs) PACK_TYPES"

text \<open>
  The order of the documents in the canonical manifest: by the normalised identity of the
  identifier, then by the identifier.
\<close>

definition reference_spec_key :: "runtime \<Rightarrow> json \<Rightarrow> string \<times> string" where
  "reference_spec_key R v =
     (let i = str_of (dget ''document_id'' (dict_of v)) in (normalized_identity R i, i))"

definition reference_manifest :: "runtime \<Rightarrow> json list \<Rightarrow> dict" where
  "reference_manifest R documents =
     [(''contract_version'', JStr CONTROLLED_REFERENCE_PACK_VERSION),
      (''documents'', JList (sort_key (reference_spec_key R) documents))]"

definition validate_reference_manifest :: "runtime \<Rightarrow> json \<Rightarrow> json list res" where
  "validate_reference_manifest R m =
     (let documents = dget ''documents'' (dict_of m); specs = map dict_of (list_of documents) in
      rbind (seq_checks
        [require (is_dict m \<and> keys_exactly REFERENCE_MANIFEST_ROOT_KEYS (dict_of m))
           (ValueError ''controlled reference manifest has unsupported root keys''),
         require (dget ''contract_version'' (dict_of m) = JStr CONTROLLED_REFERENCE_PACK_VERSION)
           (ValueError ''unsupported controlled reference pack version''),
         require (is_list documents \<and> length (list_of documents) = 3 \<and> list_all is_dict (list_of documents))
           (ValueError ''controlled reference pack requires exactly three document specs''),
         check_all check_reference_spec specs,
         reject_collision R (spec_texts ''document_id'' specs) ''document_id'',
         reject_collision R (spec_texts ''source_id'' specs) ''source_id'',
         reject_collision R (spec_texts ''source_path'' specs) ''source_path'',
         require (exactly_types (map (dget ''document_type'') specs))
           (ValueError ''controlled reference pack requires SOP, CONTROL_PLAN and INSPECTION_RECORD'')])
        (\<lambda>_. Inr (list_of documents)))"

text \<open>The member of an identifier and the document of one, as in a dictionary.\<close>

definition reference_member_of :: "reference_member list \<Rightarrow> string \<Rightarrow> reference_member option" where
  "reference_member_of ms i = map_of (rev (map (\<lambda>m. (rm_document_id m, m)) ms)) i"

definition reference_spec_of :: "dict list \<Rightarrow> string \<Rightarrow> dict option" where
  "reference_spec_of specs i = map_of (rev (map (\<lambda>s. (str_of (dget ''document_id'' s), s)) specs)) i"

definition member_matches :: "reference_member list \<Rightarrow> dict \<Rightarrow> bool" where
  "member_matches ms spec =
     (case reference_member_of ms (str_of (dget ''document_id'' spec)) of
        None \<Rightarrow> False
      | Some m \<Rightarrow> JStr (rm_source_id m) = dget ''source_id'' spec
                \<and> JStr (rm_filename m) = dget ''source_path'' spec)"

definition validate_reference_bundle :: "runtime \<Rightarrow> reference_bundle \<Rightarrow> dict res" where
  "validate_reference_bundle R b =
     (let strict_error = ValueError ''controlled reference manifest is not strict JSON'' in
      if \<not> utf8_valid (rb_manifest_bytes b) then Inl strict_error
      else (case strict_json_loads R (rb_manifest_bytes b) of
        Inl _ \<Rightarrow> Inl strict_error
      | Inr m \<Rightarrow>
          rbind (validate_reference_manifest R m) (\<lambda>documents.
          let specs = map dict_of documents; ms = rb_members b in
          rbind (canonical_bytes R (JDict (reference_manifest R documents))) (\<lambda>t.
          rbind (seq_checks
            [require (rb_manifest_bytes b = t)
               (ValueError ''controlled reference manifest is not canonical''),
             reject_collision R (map rm_document_id ms) ''member document_id'',
             reject_collision R (map rm_source_id ms) ''member source_id'',
             reject_collision R (map rm_filename ms) ''member filename'',
             require (length ms = length documents)
               (ValueError ''controlled reference members differ from manifest''),
             require (set (map rm_document_id ms) = set (spec_texts ''document_id'' specs))
               (ValueError ''controlled reference members differ from manifest''),
             require (list_all (member_matches ms) specs)
               (ValueError ''controlled reference member identity differs from manifest'')]) (\<lambda>_.
          Inr (reference_manifest R documents))))))"

definition make_reference_bundle :: "runtime \<Rightarrow> string \<Rightarrow> reference_member list \<Rightarrow> reference_bundle res" where
  "make_reference_bundle R manifest ms =
     rbind (rmap remake_reference_member ms) (\<lambda>ms'.
     let b = \<lparr>rb_manifest_bytes = manifest, rb_members = ms'\<rparr> in
     if manifest = [] then Inl (ValueError ''controlled reference manifest must be non-empty'')
     else if ms' = [] \<or> MAX_REFERENCE_MEMBERS < length ms'
     then Inl (ValueError ''controlled reference member count is invalid'')
     else rbind (validate_reference_bundle R b) (\<lambda>_. Inr b))"

section \<open>The capture of the files\<close>

definition capture_reference_file :: "(string \<Rightarrow> file_meta \<times> string \<times> file_meta) \<Rightarrow> string \<Rightarrow> string res" where
  "capture_reference_file fs name =
     (case fs name of (metadata, raw, after) \<Rightarrow>
      if \<not> fm_regular metadata \<or> fm_symlink metadata
      then Inl (ValueError ''controlled reference member must be a regular non-link file'')
      else if fm_nlink metadata \<noteq> 1
      then Inl (ValueError ''controlled reference hardlinks are not accepted'')
      else if fm_size metadata = 0 \<or> MAX_REFERENCE_MEMBER_BYTES < fm_size metadata
      then Inl (ValueError ''controlled reference member size is invalid'')
      else if length raw \<noteq> fm_size metadata \<or> \<not> same_file metadata after
      then Inl (ValueError ''controlled reference member changed during capture'')
      else Inr raw)"

definition unhashable :: "json \<Rightarrow> bool" where
  "unhashable v \<longleftrightarrow> is_list v \<or> is_dict v"

definition capture_reference_member :: "(string \<Rightarrow> string res) \<Rightarrow> dict \<times> string \<Rightarrow> reference_member res" where
  "capture_reference_member capture sp =
     (case sp of (spec, source_path) \<Rightarrow>
      rbind (capture source_path) (\<lambda>raw.
      rbind (ditem ''source_id'' spec) (\<lambda>source_id.
      rbind (ditem ''document_id'' spec) (\<lambda>document_id.
      make_reference_member source_id document_id (JStr source_path) raw))))"

definition reference_member_key :: "runtime \<Rightarrow> reference_member \<Rightarrow> string \<times> string" where
  "reference_member_key R m = (normalized_identity R (rm_document_id m), rm_document_id m)"

text \<open>The manifest is already decoded; \<open>capture\<close> reads a file beside it.\<close>

definition load_controlled_reference_bundle :: "runtime \<Rightarrow> (string \<Rightarrow> string res) \<Rightarrow> json
    \<Rightarrow> reference_bundle res" where
  "load_controlled_reference_bundle R capture manifest =
     (let documents = dget ''documents'' (dict_of manifest); specs = map dict_of (list_of documents);
          types = map (dget ''document_type'') specs in
      rbind (seq_checks
        [require (is_dict manifest \<and> keys_exactly REFERENCE_MANIFEST_ROOT_KEYS (dict_of manifest))
           (ValueError ''controlled reference manifest has unsupported shape''),
         require (dget ''contract_version'' (dict_of manifest) = JStr CONTROLLED_REFERENCE_PACK_VERSION)
           (ValueError ''unsupported controlled reference pack version''),
         require (is_list documents \<and> list_all is_dict (list_of documents))
           (ValueError ''controlled reference documents must be a non-empty list''),
         require (length specs = 3)
           (ValueError ''controlled reference pack requires exactly three authoritative members'')]) (\<lambda>_.
      rbind (rmap (\<lambda>s. canonical_relative_filename (dget ''source_path'' s)) specs) (\<lambda>source_paths.
      rbind (seq_checks
        [require (list_all (\<lambda>s. nonblank_str (dget ''document_id'' s)) specs)
           (ValueError ''controlled reference document_id must be non-empty''),
         require (list_all (\<lambda>s. nonblank_str (dget ''source_id'' s)) specs)
           (ValueError ''controlled reference source_id must be non-empty''),
         reject_collision R (spec_texts ''document_id'' specs) ''document_id'',
         reject_collision R (spec_texts ''source_id'' specs) ''source_id'',
         reject_collision R source_paths ''source_path'',
         require (\<not> list_ex unhashable types) TypeError,
         require (exactly_types types)
           (ValueError ''controlled reference pack requires SOP, CONTROL_PLAN and INSPECTION_RECORD'')]) (\<lambda>_.
      rbind (rmap (capture_reference_member capture) (zip specs source_paths)) (\<lambda>ms.
      rbind (canonical_bytes R (JDict (reference_manifest R (list_of documents)))) (\<lambda>t.
      make_reference_bundle R t (sort_key (reference_member_key R) ms)))))))"

section \<open>Witnesses\<close>

text \<open>
  \<open>_ReferenceWitness\<close>: what a document was rebuilt from.  Its texts are those of the metadata
  of a rebuilt document and of its entry in the manifest.
\<close>

record reference_witness =
  rw_source_id :: string
  rw_document_type :: string
  rw_document_id :: string
  rw_revision :: string
  rw_filename :: string
  rw_relative_path :: string
  rw_source_hash :: string
  rw_raw_bytes :: string

definition make_reference_witness :: "reference_witness \<Rightarrow> reference_witness res" where
  "make_reference_witness w =
     (if sha256_hex (rw_raw_bytes w) \<noteq> rw_source_hash w
      then Inl (ValueError ''controlled reference witness hash differs from raw bytes'') else Inr w)"

type_synonym witness_table = "(string \<times> reference_witness) list"

section \<open>Sealing\<close>

text \<open>
  The context a run uses, with the bytes of the documents and the witnesses that only the
  later stages of the program read.
\<close>

record sealed_reference_set =
  rs_context :: reference_context
  rs_documents_json :: string
  rs_witnesses :: "reference_witness list"

text \<open>\<open>_mapping_locator\<close>.\<close>

definition entry_locator :: "string \<Rightarrow> json \<Rightarrow> string option" where
  "entry_locator target v =
     (case v of
        JDict entry \<Rightarrow>
          if dget ''target'' entry \<noteq> JStr target then None
          else (case dget ''source'' entry of
            JDict source \<Rightarrow> (case dget ''locator'' source of JStr l \<Rightarrow> Some l
              | _ \<Rightarrow> (case dget ''sources'' entry of
                  JList (JDict f # _) \<Rightarrow> (case dget ''locator'' f of JStr l \<Rightarrow> Some l | _ \<Rightarrow> None) | _ \<Rightarrow> None))
          | _ \<Rightarrow> (case dget ''sources'' entry of
              JList (JDict f # _) \<Rightarrow> (case dget ''locator'' f of JStr l \<Rightarrow> Some l | _ \<Rightarrow> None) | _ \<Rightarrow> None))
      | _ \<Rightarrow> None)"

fun first_some :: "('a \<Rightarrow> 'b option) \<Rightarrow> 'a list \<Rightarrow> 'b option" where
  "first_some f [] = None"
| "first_some f (x # xs) = (case f x of None \<Rightarrow> first_some f xs | Some y \<Rightarrow> Some y)"

definition mapping_locator :: "dict \<Rightarrow> string \<Rightarrow> string res" where
  "mapping_locator document target =
     rbind (iter (dget_or ''mapping_provenance'' (JList []) document)) (\<lambda>entries.
     Inr (case first_some (entry_locator target) entries of None \<Rightarrow> target | Some l \<Rightarrow> l))"

text \<open>The document agrees with the witness of its bytes.\<close>

definition metadata_agrees :: "reference_witness \<Rightarrow> dict \<Rightarrow> bool" where
  "metadata_agrees w doc \<longleftrightarrow> dget ''document_type'' doc = JStr (rw_document_type w)
     \<and> dget ''document_id'' doc = JStr (rw_document_id w) \<and> dget ''revision'' doc = JStr (rw_revision w)
     \<and> dget ''source_hash'' doc = JStr (rw_source_hash w)"

definition source_agrees :: "reference_witness \<Rightarrow> dict \<Rightarrow> bool" where
  "source_agrees w doc \<longleftrightarrow>
     (case dget ''source'' doc of
        JDict source \<Rightarrow> dget ''filename'' source = JStr (rw_filename w)
          \<and> dget ''relative_path'' source = JStr (rw_relative_path w)
          \<and> py_eq (dget ''size_bytes'' source) (JInt (int (length (rw_raw_bytes w))))
      | _ \<Rightarrow> False)"

definition witness_keys_complete :: "witness_table \<Rightarrow> bool" where
  "witness_keys_complete ws \<longleftrightarrow> set (map fst ws) = set PACK_TYPES"

text \<open>What the inspection record claims of the document of a role.\<close>

definition holder_claim_valid :: "runtime \<Rightarrow> string \<Rightarrow> json \<Rightarrow> bool" where
  "holder_claim_valid R role v \<longleftrightarrow> is_dict v \<and> keys_exactly REFERENCE_IDENTITY_KEYS (dict_of v)
     \<and> dget ''document_type'' (dict_of v) = JStr role
     \<and> is_lower_sha (py_str R (dget_or ''source_hash'' (JStr []) (dict_of v)))"

definition canonical_claim :: "runtime \<Rightarrow> dict \<Rightarrow> dict" where
  "canonical_claim R claim = map (\<lambda>k. (k, JStr (py_str R (dget k claim)))) REFERENCE_IDENTITY_KEYS"

definition inspection_evidence :: "string \<Rightarrow> dict \<Rightarrow> json res" where
  "inspection_evidence role inspection =
     rbind (ditem ''document_id'' inspection) (\<lambda>document_id.
     rbind (ditem ''revision'' inspection) (\<lambda>revision.
     rbind (ditem ''source_hash'' inspection) (\<lambda>source_hash.
     rbind (mapping_locator inspection (''fields.references.'' @ role @ ''.document_id'')) (\<lambda>l.
     rbind (mapping_locator inspection (''fields.references.'' @ role @ ''.revision'')) (\<lambda>l'.
     Inr (JDict [(''document_id'', document_id), (''revision'', revision), (''source_hash'', source_hash),
       (''document_id_locator'', JStr l), (''revision_locator'', JStr l')]))))))"

definition target_evidence :: "dict \<Rightarrow> reference_witness \<Rightarrow> json \<Rightarrow> json" where
  "target_evidence claim w artifact_id = JDict (claim @
     [(''source_id'', JStr (rw_source_id w)), (''filename'', JStr (rw_filename w)),
      (''relative_path'', JStr (rw_relative_path w)), (''size_bytes'', JInt (int (length (rw_raw_bytes w)))),
      (''source_locator'', JStr ''RAW_BYTES#sha256''), (''artifact_id'', artifact_id)])"

text \<open>One role: its canonical reference and its evidence.\<close>

definition seal_role :: "runtime \<Rightarrow> dict \<Rightarrow> (string \<times> dict) list \<Rightarrow> witness_table \<Rightarrow> (string \<times> dict) list
    \<Rightarrow> dict \<Rightarrow> string \<Rightarrow> ((string \<times> json) \<times> (string \<times> json)) res" where
  "seal_role R inspection registry ws targets observed role =
     (case (map_of registry role, map_of ws role, map_of targets role) of
        (None, _, _) \<Rightarrow> Inl (ValueError (''controlled reference registry is missing '' @ role))
      | (Some identity, None, _) \<Rightarrow> Inl TypeError
      | (Some identity, Some w, None) \<Rightarrow>
          Inl (ValueError (''controlled reference raw-built target is missing: '' @ role))
      | (Some identity, Some w, Some target) \<Rightarrow>
          let claim = dict_of (dget role observed); artifact_id = dget ''artifact_id'' identity in
          rbind (seq_checks
            [require (holder_claim_valid R role (dget role observed))
               (ValueError (''raw Inspection controlled-reference holder claim is invalid: '' @ role)),
             require (metadata_agrees w identity)
               (ValueError (''controlled reference registry differs from raw bytes: '' @ role)),
             require (metadata_agrees w target)
               (ValueError (''controlled reference target differs from raw bytes: '' @ role)),
             require (artifact_id = JNull \<or> artifact_id = JStr (''sha256:'' @ rw_source_hash w))
               (ValueError (''controlled reference artifact differs from raw bytes: '' @ role))]) (\<lambda>_.
          rbind (inspection_evidence role inspection) (\<lambda>ie.
          Inr ((role, JDict (canonical_claim R claim)),
               (role, JDict [(''inspection'', ie),
                  (''target'', target_evidence (canonical_claim R claim) w artifact_id)])))))"

text \<open>The documents the context keeps, with their provenance in one order.\<close>

definition provenance_key :: "runtime \<Rightarrow> json \<Rightarrow> string \<times> string" where
  "provenance_key R v =
     (case v of
        JDict entry \<Rightarrow> (py_str R (dget_or ''target'' (JStr []) entry),
                       py_str R (dget_or ''mapping_kind'' (JStr []) entry))
      | _ \<Rightarrow> ([], []))"

definition order_provenance :: "runtime \<Rightarrow> dict \<Rightarrow> dict" where
  "order_provenance R document =
     (case dget ''mapping_provenance'' document of
        JList mappings \<Rightarrow> dset ''mapping_provenance'' (JList (sort_key (provenance_key R) mappings)) document
      | _ \<Rightarrow> document)"

definition controlled_document_key :: "dict \<Rightarrow> (string \<times> string) res" where
  "controlled_document_key d =
     rbind (ditem ''document_type'' d) (\<lambda>t. rbind (ditem ''document_id'' d) (\<lambda>i.
     if is_str t \<and> is_str i then Inr (str_of t, str_of i) else Inl TypeError))"

definition REFERENCE_SET_DOMAIN :: string where
  "REFERENCE_SET_DOMAIN = ''QualityCI/controlled-reference-set/v1'' @ [CHR 0x00]"

definition witness_item :: "reference_witness \<Rightarrow> json" where
  "witness_item w = JDict
     [(''source_id'', JStr (rw_source_id w)), (''document_type'', JStr (rw_document_type w)),
      (''document_id'', JStr (rw_document_id w)), (''revision'', JStr (rw_revision w)),
      (''filename'', JStr (rw_filename w)), (''relative_path'', JStr (rw_relative_path w)),
      (''source_hash'', JStr (rw_source_hash w)), (''size_bytes'', JInt (int (length (rw_raw_bytes w))))]"

definition reference_set_payload :: "string \<Rightarrow> reference_witness list \<Rightarrow> json" where
  "reference_set_payload documents_json ws = JDict
     [(''contract_version'', JStr CONTROLLED_REFERENCE_CONTRACT_VERSION),
      (''documents_digest'', JStr (sha256_hex documents_json)),
      (''witnesses'', JList (map witness_item (sort_key rw_document_type ws)))]"

text \<open>
  \<open>_seal_controlled_reference_context_from_registry\<close>.  The references and the evidence of the
  context are kept as the values \<open>references()\<close> and \<open>evidence()\<close> decode from its bytes.
\<close>

definition seal_from_registry :: "runtime \<Rightarrow> dict \<Rightarrow> (string \<times> dict) list \<Rightarrow> witness_table
    \<Rightarrow> (string \<times> dict) list \<Rightarrow> sealed_reference_set res" where
  "seal_from_registry R inspection registry ws targets =
     (if \<not> witness_keys_complete ws
      then Inl (ValueError ''composite controlled reference witnesses are incomplete'')
      else if set (map fst targets) \<noteq> set REFERENCE_ROLES
      then Inl (ValueError ''composite controlled reference target documents are incomplete'')
      else let iw = the (map_of ws ''INSPECTION_RECORD'') in
      rbind (seq_checks
        [require (metadata_agrees iw inspection)
           (ValueError ''Inspection document differs from its raw witness''),
         require (source_agrees iw inspection)
           (ValueError ''Inspection source metadata differs from raw witness''),
         require (dget ''reference_contract_version'' inspection = JStr CONTROLLED_REFERENCE_CONTRACT_VERSION)
           (ValueError ''Inspection controlled reference contract is missing'')]) (\<lambda>_.
      rbind (as_dict (dget_or ''fields'' (JDict []) inspection)) (\<lambda>flds.
      rbind (require (is_dict (dget ''references'' flds))
        (ValueError ''Inspection controlled reference observations are missing'')) (\<lambda>_.
      rbind (rmap (seal_role R inspection registry ws targets (dict_of (dget ''references'' flds)))
        REFERENCE_ROLES) (\<lambda>roles.
      rbind (rsort_by controlled_document_key
        (map (order_provenance R) (inspection # map (\<lambda>role. the (map_of targets role)) REFERENCE_ROLES)))
        (\<lambda>documents.
      rbind (canonical_bytes R (JList (map JDict documents))) (\<lambda>documents_json.
      rbind (domain_hash R REFERENCE_SET_DOMAIN (reference_set_payload documents_json (map snd ws))) (\<lambda>h.
      rbind (ditem ''document_id'' inspection) (\<lambda>inspection_id.
      rbind (canonical_bytes R (JDict (map fst roles))) (\<lambda>references_json.
      rbind (canonical_bytes R (JDict (map snd roles))) (\<lambda>evidence_json.
      rbind (strict_json_loads R references_json) (\<lambda>references.
      rbind (strict_json_loads R evidence_json) (\<lambda>evidence.
      Inr \<lparr>rs_context = \<lparr>rc_contract_version = CONTROLLED_REFERENCE_CONTRACT_VERSION,
             rc_reference_set_hash = h, rc_inspection_document_id = str_of inspection_id,
             rc_references = references, rc_evidence = evidence, rc_sealed = True\<rparr>,
           rs_documents_json = documents_json,
           rs_witnesses = map snd (sort_key fst ws)\<rparr>)))))))))))))"

text \<open>The approved documents by their type.\<close>

definition add_approved :: "witness_table \<Rightarrow> (string \<times> dict) list \<Rightarrow> dict \<Rightarrow> (string \<times> dict) list res" where
  "add_approved ws found document =
     (if dget ''status'' document \<noteq> JStr ''APPROVED'' then Inr found
      else rbind (hash_in (dget ''document_type'' document) (map fst ws)) (\<lambda>known.
        if \<not> known then Inr found
        else if map_of found (str_of (dget ''document_type'' document)) \<noteq> None
        then Inl (ValueError (''controlled reference target type is ambiguous: ''
               @ str_of (dget ''document_type'' document)))
        else Inr (found @ [(str_of (dget ''document_type'' document), document)])))"

definition check_rebuilt :: "witness_table \<Rightarrow> string \<times> dict \<Rightarrow> unit res" where
  "check_rebuilt ws td = seq_checks
     [require (metadata_agrees (the (map_of ws (fst td))) (snd td))
        (ValueError (''controlled reference document differs from raw witness: '' @ fst td)),
      require (source_agrees (the (map_of ws (fst td))) (snd td))
        (ValueError (''controlled reference source metadata differs from raw witness: '' @ fst td))]"

text \<open>The identity of a target; a revision artifact adds its own identifier.\<close>

definition registry_entry :: "runtime \<Rightarrow> (string \<times> dict) list \<Rightarrow> string \<Rightarrow> (string \<times> dict) res" where
  "registry_entry R approved role =
     (case map_of approved role of
        None \<Rightarrow> Inl (ValueError (''controlled reference target is missing: '' @ role))
      | Some target \<Rightarrow>
          rbind (ditem ''document_id'' target) (\<lambda>document_id.
          rbind (ditem ''revision'' target) (\<lambda>revision.
          rbind (ditem ''source_hash'' target) (\<lambda>source_hash.
          let expected = [(''document_type'', JStr role), (''document_id'', document_id),
                (''revision'', revision), (''source_hash'', source_hash)];
              artifact = dget ''revision_artifact'' target in
          if \<not> is_str source_hash then Inl TypeError
          else if \<not> is_lower_sha (str_of source_hash)
          then Inl (ValueError (''controlled reference target is not byte-addressed: '' @ role))
          else if artifact = JNull then Inr (role, expected)
          else if \<not> is_dict artifact
             \<or> dget ''artifact_id'' (dict_of artifact) \<noteq> JStr (''sha256:'' @ str_of source_hash)
          then Inl (ValueError (''controlled reference target artifact identity differs: '' @ role))
          else Inr (role, expected @ [(''artifact_id'', dget ''artifact_id'' (dict_of artifact))])))))"

text \<open>\<open>_seal_controlled_reference_context\<close>.\<close>

definition seal_controlled_reference_context :: "runtime \<Rightarrow> dict list \<Rightarrow> witness_table
    \<Rightarrow> sealed_reference_set res" where
  "seal_controlled_reference_context R documents ws =
     (if \<not> witness_keys_complete ws
      then Inl (ValueError ''controlled reference context requires raw witnesses for Inspection, SOP and Control Plan'')
      else rbind (rfold (add_approved ws) [] documents) (\<lambda>approved.
        case map_of approved ''INSPECTION_RECORD'' of
          None \<Rightarrow> Inl (ValueError ''controlled reference context requires one approved Inspection record'')
        | Some inspection \<Rightarrow>
            rbind (require (set (map fst approved) = set (map fst ws))
              (ValueError ''controlled reference documents differ from raw witness registry'')) (\<lambda>_.
            rbind (seq_checks (map (check_rebuilt ws) approved)) (\<lambda>_.
            rbind (rmap (registry_entry R approved) REFERENCE_ROLES) (\<lambda>registry.
            seal_from_registry R inspection registry ws
              (filter (\<lambda>td. fst td \<in> set REFERENCE_ROLES) approved))))))"

end
