(* ===== verification/Builder_References.thy ===== *)
theory Builder_References
  imports Controlled_References Artifact_Context Engine
begin

text \<open>
  The last step of \<open>case_builder.py\<close>, which puts the computed type and hash on the references
  the inspection record was parsed with, and the entries of \<open>controlled_references.py\<close> and
  \<open>engine.py\<close> that rebuild a context from the captured bytes inside one call.
\<close>

section \<open>The references of the inspection record\<close>

definition DERIVED_REFERENCE_IDENTITY_CONTRACT_VERSION :: string where
  "DERIVED_REFERENCE_IDENTITY_CONTRACT_VERSION = ''qualityci-derived-reference-identity-0.1''"

definition FINALIZED_ROLES :: "string list" where
  "FINALIZED_ROLES = [''SOP'', ''CONTROL_PLAN'']"

text \<open>One entry of the provenance for each of the two computed leaves.\<close>

definition derived_identity_entry :: "string \<Rightarrow> dict \<Rightarrow> string \<Rightarrow> string \<times> string \<Rightarrow> json" where
  "derived_identity_entry role target source_hash leaf = JDict
     [(''mapping_kind'', JStr ''DERIVED_REFERENCE_IDENTITY''),
      (''target'', JStr (''fields.references.'' @ role @ ''.'' @ fst leaf)),
      (''value'', JStr (snd leaf)), (''reference_role'', JStr role),
      (''target_document_id'', dget ''document_id'' target), (''target_revision'', dget ''revision'' target),
      (''target_source_hash'', JStr source_hash),
      (''derivation_contract'', JStr DERIVED_REFERENCE_IDENTITY_CONTRACT_VERSION)]"

definition finalize_role :: "(string \<times> dict) list \<Rightarrow> dict \<times> json list \<Rightarrow> string \<Rightarrow> (dict \<times> json list) res" where
  "finalize_role registry st role =
     (case (dget role (fst st), map_of registry role) of
        (JDict identity, Some target) \<Rightarrow>
          if dget ''document_type'' target \<noteq> JStr role
             \<or> \<not> py_eq (dget ''document_id'' target) (dget ''document_id'' identity)
             \<or> \<not> py_eq (dget ''revision'' target) (dget ''revision'' identity)
          then Inl (ValueError (''Inspection reference target identity differs: '' @ role))
          else (case dget ''source_hash'' target of
            JStr h \<Rightarrow>
              if \<not> is_lower_sha h
              then Inl (ValueError (''Inspection reference target is not byte-addressed: '' @ role))
              else rbind (ditem ''document_id'' target) (\<lambda>_. rbind (ditem ''revision'' target) (\<lambda>_.
                Inr (dset role (JDict (dset ''source_hash'' (JStr h) (dset ''document_type'' (JStr role) identity)))
                       (fst st),
                     snd st @ map (derived_identity_entry role target h)
                       [(''document_type'', role), (''source_hash'', h)])))
          | _ \<Rightarrow> Inl (ValueError (''Inspection reference target is not byte-addressed: '' @ role)))
      | _ \<Rightarrow> Inl (ValueError (''Inspection reference is missing: '' @ role)))"

definition final_provenance_key :: "runtime \<Rightarrow> json \<Rightarrow> (string \<times> string \<times> string) res" where
  "final_provenance_key R v = rbind (as_dict v) (\<lambda>entry.
     Inr (py_str R (dget_or ''target'' (JStr []) entry), py_str R (dget_or ''mapping_kind'' (JStr []) entry),
          jtext R v))"

text \<open>\<open>_finalize_inspection_reference_with_registry\<close>.\<close>

definition finalize_inspection_reference :: "runtime \<Rightarrow> (string \<times> dict) list \<Rightarrow> dict \<Rightarrow> dict res" where
  "finalize_inspection_reference R registry inspection =
     (let marked = dset ''reference_contract_version'' (JStr CONTROLLED_REFERENCE_CONTRACT_VERSION) inspection in
      rbind (as_dict (dget_or ''fields'' (JDict []) marked)) (\<lambda>flds.
      if \<not> is_dict (dget ''references'' flds)
      then Inl (ValueError ''Inspection references are missing'')
      else if \<not> is_list (dget ''mapping_provenance'' marked)
      then Inl (ValueError ''Inspection mapping provenance is missing'')
      else
        rbind (rfold (finalize_role registry)
          (dict_of (dget ''references'' flds), list_of (dget ''mapping_provenance'' marked)) FINALIZED_ROLES) (\<lambda>st.
        rbind (rsort_by (final_provenance_key R) (snd st)) (\<lambda>provenance.
        Inr (dset ''mapping_provenance'' (JList provenance)
              (dset ''fields'' (JDict (dset ''references'' (JDict (fst st)) flds)) marked))))))"

text \<open>The documents by their exact identifier; a second one of an identifier is refused.\<close>

definition add_exact :: "(json \<times> json) list \<Rightarrow> dict \<Rightarrow> (json \<times> json) list res" where
  "add_exact by_id document =
     rbind (document_key (JDict document)) (\<lambda>k.
     if find_document k by_id \<noteq> None
     then Inl (ValueError ''duplicate exact document_id in controlled reference registry: '')
     else Inr (by_id @ [(k, JDict document)]))"

definition approved_inspection :: "dict \<Rightarrow> bool" where
  "approved_inspection d \<longleftrightarrow> dget ''document_type'' d = JStr ''INSPECTION_RECORD''
     \<and> dget ''status'' d = JStr ''APPROVED''"

text \<open>The identity of the document the inspection record names for a role.\<close>

definition observed_target :: "(json \<times> json) list \<Rightarrow> json \<Rightarrow> string \<Rightarrow> (string \<times> dict) res" where
  "observed_target by_id references role =
     (let observation = dget role (dict_of references);
          named = dget ''document_id'' (dict_of observation) in
      if \<not> hashable named then Inl TypeError
      else (case find_document named by_id of
        Some (JDict target) \<Rightarrow>
          (case dget ''source_hash'' target of
             JStr h \<Rightarrow>
               if \<not> is_lower_sha h
               then Inl (ValueError (''Inspection reference target is not byte-addressed: '' @ role))
               else rbind (ditem ''document_id'' target) (\<lambda>document_id.
                    rbind (ditem ''revision'' target) (\<lambda>revision.
                    Inr (role, [(''document_type'', JStr role), (''document_id'', document_id),
                                (''revision'', revision), (''source_hash'', JStr h)])))
           | _ \<Rightarrow> Inl (ValueError (''Inspection reference target is not byte-addressed: '' @ role)))
      | _ \<Rightarrow> Inl (ValueError (''Inspection reference target does not exist: '' @ role))))"

fun replace_first :: "('a \<Rightarrow> bool) \<Rightarrow> 'a \<Rightarrow> 'a list \<Rightarrow> 'a list" where
  "replace_first p y [] = []"
| "replace_first p y (x # xs) = (if p x then y # xs else x # replace_first p y xs)"

text \<open>\<open>_finalize_controlled_references\<close>, which changes the inspection record in place.\<close>

definition finalize_controlled_references :: "runtime \<Rightarrow> dict list \<Rightarrow> dict list res" where
  "finalize_controlled_references R documents =
     rbind (rfold add_exact [] documents) (\<lambda>by_id.
     case List.find approved_inspection documents of
       None \<Rightarrow> Inl (ValueError ''controlled references require an approved Inspection record'')
     | Some inspection \<Rightarrow>
         rbind (as_dict (dget_or ''fields'' (JDict []) inspection)) (\<lambda>flds.
         rbind (rmap (observed_target by_id (dget ''references'' flds)) FINALIZED_ROLES) (\<lambda>registry.
         rbind (finalize_inspection_reference R registry inspection) (\<lambda>inspection'.
         Inr (replace_first approved_inspection inspection' documents)))))"

section \<open>The context of captured bytes\<close>

text \<open>A text of the metadata of a rebuilt document.\<close>

definition text_item :: "string \<Rightarrow> dict \<Rightarrow> string res" where
  "text_item k d = rbind (ditem k d) (\<lambda>v. if is_str v then Inr (str_of v) else Inl TypeError)"

fun put_witness :: "string \<Rightarrow> reference_witness \<Rightarrow> witness_table \<Rightarrow> witness_table" where
  "put_witness k w [] = [(k, w)]"
| "put_witness k w ((k', w') # ws) = (if k = k' then (k', w) # ws else (k', w') # put_witness k w ws)"

text \<open>One member: the document rebuilt from its bytes, and the witness of those bytes.\<close>

definition rebuild_member :: "(dict \<Rightarrow> string \<Rightarrow> string \<Rightarrow> dict res) \<Rightarrow> dict list \<Rightarrow> reference_member list
    \<Rightarrow> dict list \<times> witness_table \<Rightarrow> string \<Rightarrow> (dict list \<times> witness_table) res" where
  "rebuild_member build specs ms st document_id =
     (case (reference_spec_of specs document_id, reference_member_of ms document_id) of
        (Some spec, Some m) \<Rightarrow>
          if JStr (rm_source_id m) \<noteq> dget ''source_id'' spec
          then Inl (ValueError ''controlled reference member source_id differs from manifest'')
          else if JStr (rm_filename m) \<noteq> dget ''source_path'' spec
          then Inl (ValueError ''controlled reference member filename differs from manifest'')
          else
            rbind (build spec (rm_raw_bytes m) (rm_filename m)) (\<lambda>document.
            rbind (text_item ''source_id'' spec) (\<lambda>source_id.
            rbind (text_item ''document_type'' document) (\<lambda>document_type.
            rbind (text_item ''document_id'' document) (\<lambda>rebuilt_id.
            rbind (text_item ''revision'' document) (\<lambda>revision.
            rbind (text_item ''source_hash'' document) (\<lambda>source_hash.
            rbind (make_reference_witness
              \<lparr>rw_source_id = source_id, rw_document_type = document_type, rw_document_id = rebuilt_id,
               rw_revision = revision, rw_filename = rm_filename m, rw_relative_path = rm_filename m,
               rw_source_hash = source_hash, rw_raw_bytes = rm_raw_bytes m\<rparr>) (\<lambda>w.
            Inr (fst st @ [document], put_witness document_type w (snd st)))))))))
      | _ \<Rightarrow> Inl (KeyError document_id))"

text \<open>
  \<open>_prepare_controlled_reference_context\<close>; \<open>build\<close> is the first component of what
  \<open>build_document_from_artifact_bytes\<close> returns.
\<close>

definition prepare_controlled_reference_context :: "runtime \<Rightarrow> (dict \<Rightarrow> string \<Rightarrow> string \<Rightarrow> dict res)
    \<Rightarrow> reference_bundle \<Rightarrow> sealed_reference_set res" where
  "prepare_controlled_reference_context R build b =
     rbind (validate_reference_bundle R b) (\<lambda>manifest.
     let specs = map dict_of (list_of (dget ''documents'' manifest)); ms = rb_members b;
         ids = spec_texts ''document_id'' specs in
     if set ids \<noteq> set (map rm_document_id ms)
     then Inl (ValueError ''controlled reference bundle differs from manifest'')
     else
       rbind (rfold (rebuild_member build specs ms) ([], []) (sort (remdups ids))) (\<lambda>dws.
       rbind (finalize_controlled_references R (fst dws)) (\<lambda>documents.
       seal_controlled_reference_context R documents (snd dws))))"

section \<open>Runs from captured bytes\<close>

definition run_case_with_reference_bundle :: "runtime \<Rightarrow> (dict \<Rightarrow> string \<Rightarrow> string \<Rightarrow> dict res) \<Rightarrow> json
    \<Rightarrow> reference_bundle \<Rightarrow> run_result res" where
  "run_case_with_reference_bundle R build v rb =
     rbind (prepare_controlled_reference_context R build rb) (\<lambda>x.
     run_case_with_reference_context R v (rs_context x) None)"

definition run_case_with_evidence_bundles :: "runtime \<Rightarrow> (dict \<Rightarrow> string \<Rightarrow> string \<Rightarrow> dict res) \<Rightarrow> json
    \<Rightarrow> reference_bundle \<Rightarrow> evidence_bundle \<Rightarrow> string \<Rightarrow> run_result res" where
  "run_case_with_evidence_bundles R build v rb vb phase =
     rbind (prepare_case R v) (\<lambda>prepared.
     rbind (prepare_controlled_reference_context R build rb) (\<lambda>x.
     rbind (prepare_validation_evidence_context R vb (dict_of prepared) phase None) (\<lambda>y.
     run_case_with_reference_context R prepared (rs_context x) (Some y))))"

end
