(* ===== verification/Reference_Sound.thy ===== *)
theory Reference_Sound
  imports Builder_References Validation_Total
begin

text \<open>
  What a sealed reference context holds: the claims of the rebuilt inspection record, each of
  them about a document that was rebuilt from captured bytes.
\<close>

section \<open>One role\<close>

text \<open>The evidence of a role, for the witnesses of the inspection record and of the target.\<close>

definition role_evidence :: "runtime \<Rightarrow> reference_witness \<Rightarrow> reference_witness \<Rightarrow> dict \<Rightarrow> json \<Rightarrow> string \<Rightarrow> string \<Rightarrow> json" where
  "role_evidence R iw w claim a l l' = JDict
     [(''inspection'', JDict [(''document_id'', JStr (rw_document_id iw)), (''revision'', JStr (rw_revision iw)),
        (''source_hash'', JStr (rw_source_hash iw)), (''document_id_locator'', JStr l),
        (''revision_locator'', JStr l')]),
      (''target'', target_evidence (canonical_claim R claim) w a)]"

definition sealed_role :: "runtime \<Rightarrow> reference_witness \<Rightarrow> witness_table \<Rightarrow> dict \<Rightarrow> string
    \<Rightarrow> (string \<times> json) \<times> (string \<times> json) \<Rightarrow> bool" where
  "sealed_role R iw ws observed role r \<longleftrightarrow> (\<exists>claim w a l l'. dget role observed = JDict claim
     \<and> holder_claim_valid R role (JDict claim) \<and> map_of ws role = Some w
     \<and> (a = JNull \<or> a = JStr (''sha256:'' @ rw_source_hash w))
     \<and> r = ((role, JDict (canonical_claim R claim)), (role, role_evidence R iw w claim a l l')))"

lemma inspection_evidence_Inr:
  assumes "inspection_evidence role inspection = Inr v" and "metadata_agrees w inspection"
  shows "\<exists>l l'. v = JDict [(''document_id'', JStr (rw_document_id w)), (''revision'', JStr (rw_revision w)),
     (''source_hash'', JStr (rw_source_hash w)), (''document_id_locator'', JStr l), (''revision_locator'', JStr l')]"
proof -
  from assms(1) obtain i r h l l' where "ditem ''document_id'' inspection = Inr i"
    "ditem ''revision'' inspection = Inr r" "ditem ''source_hash'' inspection = Inr h"
    and v: "v = JDict [(''document_id'', i), (''revision'', r), (''source_hash'', h),
       (''document_id_locator'', JStr l), (''revision_locator'', JStr l')]"
    by (auto simp: inspection_evidence_def rbind_Inr_iff)
  from this(1-3)[THEN ditem_dget] assms(2) v show ?thesis by (auto simp: metadata_agrees_def)
qed

lemma seal_role_Inr:
  assumes "seal_role R inspection registry ws targets observed role = Inr r" and "metadata_agrees iw inspection"
  shows "sealed_role R iw ws observed role r"
proof -
  from assms(1) obtain identity w target ie where w: "map_of ws role = Some w"
    and c: "holder_claim_valid R role (dget role observed)"
    and a: "dget ''artifact_id'' identity = JNull \<or> dget ''artifact_id'' identity = JStr (''sha256:'' @ rw_source_hash w)"
    and ie: "inspection_evidence role inspection = Inr ie"
    and r: "r = ((role, JDict (canonical_claim R (dict_of (dget role observed)))),
       (role, JDict [(''inspection'', ie),
          (''target'', target_evidence (canonical_claim R (dict_of (dget role observed))) w (dget ''artifact_id'' identity))]))"
    unfolding seal_role_def Let_def
    by (auto simp: rbind_Inr_iff split: option.splits)
  from c obtain claim where "dget role observed = JDict claim"
    unfolding holder_claim_valid_def by (auto elim: is_dictE)
  moreover from inspection_evidence_Inr[OF ie assms(2)] obtain l l' where "ie = JDict
    [(''document_id'', JStr (rw_document_id iw)), (''revision'', JStr (rw_revision iw)),
     (''source_hash'', JStr (rw_source_hash iw)), (''document_id_locator'', JStr l), (''revision_locator'', JStr l')]"
    by blast
  ultimately show ?thesis using w c a r unfolding sealed_role_def role_evidence_def by auto
qed

section \<open>Reading the context back\<close>

lemma canonical_claim_keys: "map fst (canonical_claim R claim) = REFERENCE_IDENTITY_KEYS"
  by (simp add: canonical_claim_def comp_def)

lemma canonical_claim_texts: "text_values (canonical_claim R claim)"
proof -
  have "distinct REFERENCE_IDENTITY_KEYS" by (simp add: REFERENCE_IDENTITY_KEYS_def)
  then show ?thesis
    unfolding text_values_def canonical_claim_keys by (simp add: canonical_claim_def list_all_iff)
qed

lemma show_nat_length: "n < 10 ^ Suc k \<Longrightarrow> length (show_nat n) \<le> Suc k"
proof (induction k arbitrary: n)
  case 0
  then show ?case by (simp add: show_nat.simps[of n])
next
  case (Suc k)
  show ?case
  proof (cases "n < 10")
    case False
    have "n div 10 < 10 ^ Suc k" using Suc.prems by (simp add: less_mult_imp_div_less)
    then have "length (show_nat (n div 10)) \<le> Suc k" by (rule Suc.IH)
    then show ?thesis using False by (simp add: show_nat.simps[of n])
  qed (simp add: show_nat.simps[of n])
qed

lemma printable_size: "n \<le> MAX_REFERENCE_MEMBER_BYTES \<Longrightarrow> printable (JInt (int n))"
proof -
  assume "n \<le> MAX_REFERENCE_MEMBER_BYTES"
  then have "n < 10 ^ Suc 7" by (simp add: MAX_REFERENCE_MEMBER_BYTES_def)
  then have "length (show_nat n) \<le> Suc 7" by (rule show_nat_length)
  then show ?thesis by (simp add: MAX_INT_DIGITS_def)
qed

text \<open>The evidence is printed and read back with its keys sorted.\<close>

definition small_witness :: "reference_witness \<Rightarrow> bool" where
  "small_witness w \<longleftrightarrow> length (rw_raw_bytes w) \<le> MAX_REFERENCE_MEMBER_BYTES"

lemma printable_role_evidence:
  assumes "small_witness w" and "a = JNull \<or> a = JStr s"
  shows "printable (role_evidence R iw w claim a l l')"
proof -
  have "printable (target_evidence (canonical_claim R claim) w a)"
    using assms printable_size[of "length (rw_raw_bytes w)"]
    by (auto simp: target_evidence_def canonical_claim_def REFERENCE_IDENTITY_KEYS_def small_witness_def)
  then show ?thesis by (simp add: role_evidence_def)
qed

section \<open>The context\<close>

definition observed_claims :: "dict \<Rightarrow> dict" where
  "observed_claims inspection =
     dict_of (dget ''references'' (dict_of (dget_or ''fields'' (JDict []) inspection)))"

lemma canonical_decoded:
  assumes R: "float_reader (rt_float_repr R) (rt_float_of_text R)" and "printable v"
    and "canonical_bytes R v = Inr t" and "strict_json_loads R t = Inr w"
  shows "w = canon v"
  using float_reader.strict_json_loads_jtext[OF R refl refl assms(2)] assms(3,4) by (simp add: canonical_bytes_Inr)

text \<open>The two values of the context, before they are printed and read back.\<close>

definition sealed_values :: "runtime \<Rightarrow> reference_witness \<Rightarrow> witness_table \<Rightarrow> dict \<Rightarrow> reference_context \<Rightarrow> bool" where
  "sealed_values R iw ws observed x \<longleftrightarrow> (\<exists>r r'. sealed_role R iw ws observed ''CONTROL_PLAN'' r
     \<and> sealed_role R iw ws observed ''SOP'' r'
     \<and> rc_references x = canon (JDict [fst r, fst r']) \<and> rc_evidence x = canon (JDict [snd r, snd r']))"

lemma sealed_role_printable:
  assumes "sealed_role R iw ws observed role r" and "\<forall>w \<in> set (map snd ws). small_witness w"
  shows "fst (fst r) = role" "fst (snd r) = role" "printable (snd (fst r))" "printable (snd (snd r))"
proof -
  from assms(1) obtain claim w a l l' where w: "map_of ws role = Some w"
    "a = JNull \<or> a = JStr (''sha256:'' @ rw_source_hash w)"
    and r: "r = ((role, JDict (canonical_claim R claim)), (role, role_evidence R iw w claim a l l'))"
    unfolding sealed_role_def by blast
  from map_of_SomeD[OF w(1)] assms(2) have "small_witness w" by force
  with w(2) text_values_printable[OF canonical_claim_texts] printable_role_evidence r
  show "fst (fst r) = role" "fst (snd r) = role" "printable (snd (fst r))" "printable (snd (snd r))"
    by (simp_all del: printable.simps)
qed

lemma seal_from_registryE:
  assumes R: "float_reader (rt_float_repr R) (rt_float_of_text R)"
    and s: "seal_from_registry R inspection registry ws targets = Inr s"
    and small: "\<forall>w \<in> set (map snd ws). small_witness w"
  obtains iw where "map_of ws ''INSPECTION_RECORD'' = Some iw" "metadata_agrees iw inspection"
    "source_agrees iw inspection" "rc_sealed (rs_context s)" "is_lower_sha (rc_reference_set_hash (rs_context s))"
    "rc_contract_version (rs_context s) = REFERENCE_CONTRACT_VERSION"
    "rc_inspection_document_id (rs_context s) = rw_document_id iw"
    "sealed_values R iw ws (observed_claims inspection) (rs_context s)"
    "set (rs_witnesses s) = snd ` set ws"
proof -
  let ?iw = "the (map_of ws ''INSPECTION_RECORD'')"
  from s obtain flds roles documents t h i rt et refs ev where k: "witness_keys_complete ws"
    and m: "metadata_agrees ?iw inspection" "source_agrees ?iw inspection"
    and f: "dget_or ''fields'' (JDict []) inspection = JDict flds"
    and roles: "rmap (seal_role R inspection registry ws targets (dict_of (dget ''references'' flds))) REFERENCE_ROLES = Inr roles"
    and h: "domain_hash R REFERENCE_SET_DOMAIN (reference_set_payload t (map snd ws)) = Inr h"
    and i: "ditem ''document_id'' inspection = Inr i"
    and rt: "canonical_bytes R (JDict (map fst roles)) = Inr rt" "strict_json_loads R rt = Inr refs"
    and et: "canonical_bytes R (JDict (map snd roles)) = Inr et" "strict_json_loads R et = Inr ev"
    and s: "s = \<lparr>rs_context = \<lparr>rc_contract_version = CONTROLLED_REFERENCE_CONTRACT_VERSION,
             rc_reference_set_hash = h, rc_inspection_document_id = str_of i,
             rc_references = refs, rc_evidence = ev, rc_sealed = True\<rparr>,
           rs_documents_json = t, rs_witnesses = map snd (sort_key fst ws)\<rparr>"
    unfolding seal_from_registry_def Let_def
    by (auto simp: rbind_Inr_iff split: if_splits)
  have iw: "map_of ws ''INSPECTION_RECORD'' = Some ?iw"
    using k by (cases "map_of ws ''INSPECTION_RECORD''")
      (force simp: witness_keys_complete_def PACK_TYPES_def map_of_eq_None_iff)+
  have obs: "observed_claims inspection = dict_of (dget ''references'' flds)" by (simp add: observed_claims_def f)
  from roles obtain r r' where rr: "roles = [r, r']"
    and sr: "seal_role R inspection registry ws targets (observed_claims inspection) ''CONTROL_PLAN'' = Inr r"
      "seal_role R inspection registry ws targets (observed_claims inspection) ''SOP'' = Inr r'"
    unfolding obs REFERENCE_ROLES_def rmap_Inr list_all2_Cons1 by blast
  note role = sr[THEN seal_role_Inr, OF m(1)]
  note p = sealed_role_printable[OF role(1) small] sealed_role_printable[OF role(2) small]
  have pr: "printable (JDict [fst r, fst r'])" "printable (JDict [snd r, snd r'])"
    using p by (cases r; cases r'; auto)+
  have "refs = canon (JDict [fst r, fst r'])" "ev = canon (JDict [snd r, snd r'])"
    using canonical_decoded[OF R pr(1)] canonical_decoded[OF R pr(2)] rt et rr by simp_all
  with role have "sealed_values R ?iw ws (observed_claims inspection) (rs_context s)"
    unfolding sealed_values_def s by (intro exI[of _ r] exI[of _ r']) (simp del: canon.simps)
  moreover have "i = JStr (rw_document_id ?iw)" using i m(1) by (auto simp: metadata_agrees_def dest: ditem_dget)
  moreover have "REFERENCE_CONTRACT_VERSION = CONTROLLED_REFERENCE_CONTRACT_VERSION"
    by (simp add: REFERENCE_CONTRACT_VERSION_def CONTROLLED_REFERENCE_CONTRACT_VERSION_def)
  ultimately show thesis using that[OF iw m] domain_hash_lower[OF h] s by simp
qed

text \<open>The values of the two roles, as they are read back.\<close>

definition inspection_items :: "reference_witness \<Rightarrow> string \<Rightarrow> string \<Rightarrow> dict" where
  "inspection_items iw l l' =
     [(''document_id'', JStr (rw_document_id iw)), (''revision'', JStr (rw_revision iw)),
      (''source_hash'', JStr (rw_source_hash iw)), (''document_id_locator'', JStr l), (''revision_locator'', JStr l')]"

lemma role_order: "''CONTROL_PLAN'' \<le> ''SOP''" "''inspection'' \<le> ''target''"
  by code_simp+

lemma canon_pair: "k \<le> k' \<Longrightarrow> canon (JDict [(k, v), (k', v')]) = JDict [(k, canon v), (k', canon v')]"
  by simp

lemma inspection_items_texts: "text_values (inspection_items iw l l')"
  by (simp add: text_values_def inspection_items_def)

lemma canon_role_evidence:
  "canon (role_evidence R iw w claim a l l') =
     JDict [(''inspection'', JDict (sort_key fst (inspection_items iw l l'))),
            (''target'', canon (target_evidence (canonical_claim R claim) w a))]"
  unfolding role_evidence_def canon_pair[OF role_order(2)] inspection_items_def[symmetric]
    canon_text_values[OF inspection_items_texts] by (rule refl)

lemma sealed_roleE:
  assumes "sealed_role R iw ws observed role r"
  obtains claim w l l' t where "dget role observed = JDict claim" "holder_claim_valid R role (JDict claim)"
    "map_of ws role = Some w" "fst r = (role, JDict (canonical_claim R claim))" "fst (snd r) = role"
    "canon (snd (fst r)) = JDict (sort_key fst (canonical_claim R claim))"
    "canon (snd (snd r)) = JDict [(''inspection'', JDict (sort_key fst (inspection_items iw l l'))), (''target'', t)]"
proof -
  from assms obtain claim w a l l' where c: "dget role observed = JDict claim"
    "holder_claim_valid R role (JDict claim)" "map_of ws role = Some w"
    and r: "r = ((role, JDict (canonical_claim R claim)), (role, role_evidence R iw w claim a l l'))"
    unfolding sealed_role_def by blast
  show thesis
    by (rule that[OF c]) (simp_all only: r fst_conv snd_conv canon_role_evidence canon_text_values[OF canonical_claim_texts])
qed

lemma sealed_values_read:
  assumes "sealed_values R iw ws observed x"
  obtains claim claim' w w' l l' t m m' t' where
    "dget ''CONTROL_PLAN'' observed = JDict claim" "holder_claim_valid R ''CONTROL_PLAN'' (JDict claim)"
    "map_of ws ''CONTROL_PLAN'' = Some w"
    "dget ''SOP'' observed = JDict claim'" "holder_claim_valid R ''SOP'' (JDict claim')" "map_of ws ''SOP'' = Some w'"
    "rc_references x = JDict [(''CONTROL_PLAN'', JDict (sort_key fst (canonical_claim R claim))),
       (''SOP'', JDict (sort_key fst (canonical_claim R claim')))]"
    "rc_evidence x = JDict [(''CONTROL_PLAN'', JDict [(''inspection'', JDict (sort_key fst (inspection_items iw l l'))),
        (''target'', t)]), (''SOP'', JDict [(''inspection'', JDict (sort_key fst (inspection_items iw m m'))),
        (''target'', t')])]"
proof -
  from assms obtain r r' where r: "sealed_role R iw ws observed ''CONTROL_PLAN'' r"
    "sealed_role R iw ws observed ''SOP'' r'"
    and x: "rc_references x = canon (JDict [fst r, fst r'])" "rc_evidence x = canon (JDict [snd r, snd r'])"
    unfolding sealed_values_def by blast
  from r(1) obtain claim w l l' t where c: "dget ''CONTROL_PLAN'' observed = JDict claim"
    "holder_claim_valid R ''CONTROL_PLAN'' (JDict claim)" "map_of ws ''CONTROL_PLAN'' = Some w"
    and f: "fst r = (''CONTROL_PLAN'', JDict (canonical_claim R claim))" "fst (snd r) = ''CONTROL_PLAN''"
      "canon (snd (fst r)) = JDict (sort_key fst (canonical_claim R claim))"
      "canon (snd (snd r)) = JDict [(''inspection'', JDict (sort_key fst (inspection_items iw l l'))), (''target'', t)]"
    by (rule sealed_roleE)
  from r(2) obtain claim' w' m m' t' where c': "dget ''SOP'' observed = JDict claim'"
    "holder_claim_valid R ''SOP'' (JDict claim')" "map_of ws ''SOP'' = Some w'"
    and f': "fst r' = (''SOP'', JDict (canonical_claim R claim'))" "fst (snd r') = ''SOP''"
      "canon (snd (fst r')) = JDict (sort_key fst (canonical_claim R claim'))"
      "canon (snd (snd r')) = JDict [(''inspection'', JDict (sort_key fst (inspection_items iw m m'))), (''target'', t')]"
    by (rule sealed_roleE)
  have e: "snd r = (''CONTROL_PLAN'', snd (snd r))" "snd r' = (''SOP'', snd (snd r'))"
    "fst r = (''CONTROL_PLAN'', snd (fst r))" "fst r' = (''SOP'', snd (fst r'))"
    using f(1,2) f'(1,2) by (cases r; cases r'; simp)+
  have "rc_references x = JDict [(''CONTROL_PLAN'', canon (snd (fst r))), (''SOP'', canon (snd (fst r')))]"
    unfolding x using canon_pair[OF role_order(1)] e by metis
  moreover have "rc_evidence x = JDict [(''CONTROL_PLAN'', canon (snd (snd r))), (''SOP'', canon (snd (snd r')))]"
    unfolding x using canon_pair[OF role_order(1)] e by metis
  ultimately show thesis
    unfolding f(3,4) f'(3,4) by (rule that[OF c c'])
qed

lemma sealed_values_good: "sealed_values R iw ws observed x \<Longrightarrow> good_reference_context x"
  by (erule sealed_values_read) (simp add: good_reference_context_def dget_or_def)

text \<open>
  QCI-R005 finds no difference exactly in the inspection record that was rebuilt from the bytes of
  its witness.
\<close>

lemma sealed_inspection_differs:
  assumes "sealed_values R iw ws observed x" and "rc_inspection_document_id x = rw_document_id iw"
  shows "inspection_differs x (dict_of (rc_evidence x)) doc = Inr False \<longleftrightarrow>
    dget ''document_id'' doc = JStr (rw_document_id iw) \<and> dget ''revision'' doc = JStr (rw_revision iw)
    \<and> dget ''source_hash'' doc = JStr (rw_source_hash iw)"
  using assms(1)
proof (rule sealed_values_read)
  fix l l' t m m' t'
  assume x: "rc_evidence x = JDict [(''CONTROL_PLAN'', JDict [(''inspection'',
      JDict (sort_key fst (inspection_items iw l l'))), (''target'', t)]),
      (''SOP'', JDict [(''inspection'', JDict (sort_key fst (inspection_items iw m m'))), (''target'', t')])]"
  have d: "distinct (map fst (inspection_items iw l l'))"
    using inspection_items_texts by (simp add: text_values_def)
  have "dget ''revision'' (sort_key fst (inspection_items iw l l')) = JStr (rw_revision iw)"
    "dget ''source_hash'' (sort_key fst (inspection_items iw l l')) = JStr (rw_source_hash iw)"
    unfolding dget_sort[OF d] by (simp_all add: inspection_items_def dget_def dget_or_def)
  then show ?thesis
    by (auto simp: inspection_differs_def x assms(2) dget_or_def[of "''inspection''"])
qed

section \<open>The completed references\<close>

text \<open>The claim for a role names one of the documents, by identifier, revision and hash.\<close>

definition claims_document :: "dict list \<Rightarrow> json \<Rightarrow> bool" where
  "claims_document docs v \<longleftrightarrow> (\<exists>claim target. v = JDict claim \<and> target \<in> set docs
     \<and> py_eq (dget ''document_id'' target) (dget ''document_id'' claim)
     \<and> py_eq (dget ''revision'' target) (dget ''revision'' claim)
     \<and> dget ''source_hash'' claim = dget ''source_hash'' target)"

definition METADATA_KEYS :: "string list" where
  "METADATA_KEYS = [''document_type'', ''document_id'', ''revision'', ''source_hash'', ''status'', ''source'']"

definition same_metadata :: "dict \<Rightarrow> dict \<Rightarrow> bool" where
  "same_metadata d e \<longleftrightarrow> (\<forall>k \<in> set METADATA_KEYS. dget k d = dget k e)"

lemma find_document_in: "find_document k ds = Some d \<Longrightarrow> d \<in> snd ` set ds"
  by (induction k ds rule: find_document.induct) (auto split: if_splits)

lemma add_exact_documents:
  assumes "rfold add_exact [] docs = Inr by_id"
  shows "snd ` set by_id \<subseteq> JDict ` set docs"
proof -
  have "\<forall>kd \<in> set by_id. snd kd \<in> JDict ` set docs"
    using assms by (rule rfold_invariant) (auto simp: add_exact_def rbind_Inr_iff split: if_splits)
  then show ?thesis by blast
qed

lemma observed_target_Inr:
  assumes "observed_target by_id references role = Inr e" and "snd ` set by_id \<subseteq> JDict ` set docs"
  obtains target where "target \<in> set docs" "fst e = role"
    "dget ''document_id'' (snd e) = dget ''document_id'' target"
    "dget ''revision'' (snd e) = dget ''revision'' target" "dget ''source_hash'' (snd e) = dget ''source_hash'' target"
proof -
  from assms(1) obtain named target h i r where f: "find_document named by_id = Some (JDict target)"
    and t: "dget ''source_hash'' target = JStr h" "ditem ''document_id'' target = Inr i"
      "ditem ''revision'' target = Inr r"
    and e: "e = (role, [(''document_type'', JStr role), (''document_id'', i), (''revision'', r), (''source_hash'', JStr h)])"
    unfolding observed_target_def Let_def
    by (auto simp: rbind_Inr_iff split: if_splits option.splits json.splits)
  from find_document_in[OF f] assms(2) have "target \<in> set docs" by auto
  then show thesis
    by (rule that) (use e t ditem_dget[OF t(2)] ditem_dget[OF t(3)] in \<open>simp_all add: dget_def dget_or_def\<close>)
qed

lemma finalize_role_Inr:
  assumes "finalize_role registry st role = Inr st'"
  obtains identity target h where "map_of registry role = Some target" "dget role (fst st) = JDict identity"
    "py_eq (dget ''document_id'' target) (dget ''document_id'' identity)"
    "py_eq (dget ''revision'' target) (dget ''revision'' identity)" "dget ''source_hash'' target = JStr h"
    "fst st' = dset role (JDict (dset ''source_hash'' (JStr h) (dset ''document_type'' (JStr role) identity))) (fst st)"
  using assms unfolding finalize_role_def
  by (auto simp: rbind_Inr_iff split: if_splits option.splits json.splits)

lemma finalize_role_claims:
  assumes "finalize_role registry st role = Inr st'" and "map_of registry role = Some e" and "target \<in> set docs"
    and "dget ''document_id'' e = dget ''document_id'' target" "dget ''revision'' e = dget ''revision'' target"
      "dget ''source_hash'' e = dget ''source_hash'' target"
  shows "claims_document docs (dget role (fst st'))" "role' \<noteq> role \<Longrightarrow> dget role' (fst st') = dget role' (fst st)"
proof -
  from assms(1) obtain identity t h where a: "map_of registry role = Some t" "py_eq (dget ''document_id'' t) (dget ''document_id'' identity)"
      "py_eq (dget ''revision'' t) (dget ''revision'' identity)" "dget ''source_hash'' t = JStr h"
    "fst st' = dset role (JDict (dset ''source_hash'' (JStr h) (dset ''document_type'' (JStr role) identity))) (fst st)"
    by (rule finalize_role_Inr) (rule that; assumption)
  from a(1) assms(2) have t: "t = e" by simp
  show "claims_document docs (dget role (fst st'))"
    using a(2-4) assms(3-6) unfolding a(5) t claims_document_def
    by (intro exI[of _ "dset ''source_hash'' (JStr h) (dset ''document_type'' (JStr role) identity)"] exI[of _ target])
      (simp del: py_eq.simps)
  show "role' \<noteq> role \<Longrightarrow> dget role' (fst st') = dget role' (fst st)" by (simp add: a(5))
qed

text \<open>The two roles in the order of the source.\<close>

lemma finalize_roles_claims:
  assumes r: "rmap (observed_target by_id references) FINALIZED_ROLES = Inr registry"
    and docs: "snd ` set by_id \<subseteq> JDict ` set docs"
    and f: "rfold (finalize_role registry) st FINALIZED_ROLES = Inr st'"
  shows "\<forall>role \<in> set FINALIZED_ROLES. claims_document docs (dget role (fst st'))"
proof -
  from r obtain e e' where reg: "registry = [e, e']" and o: "observed_target by_id references ''SOP'' = Inr e"
      "observed_target by_id references ''CONTROL_PLAN'' = Inr e'"
    unfolding FINALIZED_ROLES_def rmap_Inr list_all2_Cons1 by blast
  from o(1) docs obtain t where t: "t \<in> set docs" "fst e = ''SOP''"
    "dget ''document_id'' (snd e) = dget ''document_id'' t" "dget ''revision'' (snd e) = dget ''revision'' t"
    "dget ''source_hash'' (snd e) = dget ''source_hash'' t" by (rule observed_target_Inr)
  from o(2) docs obtain t' where t': "t' \<in> set docs" "fst e' = ''CONTROL_PLAN''"
    "dget ''document_id'' (snd e') = dget ''document_id'' t'" "dget ''revision'' (snd e') = dget ''revision'' t'"
    "dget ''source_hash'' (snd e') = dget ''source_hash'' t'" by (rule observed_target_Inr)
  from f obtain st1 where s: "finalize_role registry st ''SOP'' = Inr st1"
    "finalize_role registry st1 ''CONTROL_PLAN'' = Inr st'"
    unfolding FINALIZED_ROLES_def by (auto split: sum.splits)
  have m: "map_of registry ''SOP'' = Some (snd e)" "map_of registry ''CONTROL_PLAN'' = Some (snd e')"
    using reg t(2) t'(2) by (cases e; cases e'; simp)+
  have "dget ''SOP'' (fst st') = dget ''SOP'' (fst st1)"
    by (rule finalize_role_claims(2)[OF s(2) m(2) t'(1,3-5)]) simp
  then show ?thesis
    using finalize_role_claims(1)[OF s(1) m(1) t(1,3-5)] finalize_role_claims(1)[OF s(2) m(2) t'(1,3-5)]
    by (simp add: FINALIZED_ROLES_def)
qed

lemma finalize_inspection_Inr:
  assumes "finalize_inspection_reference R registry inspection = Inr inspection'"
  obtains st st' where "rfold (finalize_role registry) st FINALIZED_ROLES = Inr st'"
    "observed_claims inspection' = fst st'" "same_metadata inspection' inspection"
proof -
  from assms obtain flds st' p where f: "rfold (finalize_role registry) (dict_of (dget ''references'' flds),
      list_of (dget ''mapping_provenance'' (dset ''reference_contract_version''
        (JStr CONTROLLED_REFERENCE_CONTRACT_VERSION) inspection))) FINALIZED_ROLES = Inr st'"
    and i: "inspection' = dset ''mapping_provenance'' (JList p) (dset ''fields''
       (JDict (dset ''references'' (JDict (fst st')) flds))
       (dset ''reference_contract_version'' (JStr CONTROLLED_REFERENCE_CONTRACT_VERSION) inspection))"
    unfolding finalize_inspection_reference_def Let_def by (auto simp: rbind_Inr_iff split: if_splits)
  show thesis
    by (rule that[OF f])
      (simp_all add: i observed_claims_def same_metadata_def METADATA_KEYS_def dget_or_dget)
qed

lemma replace_first_rel:
  assumes "List.find p xs = Some x" and "r y x" and "\<And>z. r z z"
  shows "list_all2 r (replace_first p y xs) xs"
  using assms(1) by (induction xs) (auto simp: assms(2,3) list_all2_refl split: if_splits)

lemma replace_first_has: "List.find p xs = Some x \<Longrightarrow> p y \<Longrightarrow> List.find p (replace_first p y xs) = Some y"
  by (induction xs) (auto split: if_splits)

lemma finalize_references_Inr:
  assumes "finalize_controlled_references R docs = Inr docs'"
  obtains inspection where "List.find approved_inspection docs' = Some inspection"
    "list_all2 same_metadata docs' docs"
    "\<forall>role \<in> set FINALIZED_ROLES. claims_document docs (dget role (observed_claims inspection))"
proof -
  from assms obtain by_id old refs registry inspection where b: "rfold add_exact [] docs = Inr by_id"
    and old: "List.find approved_inspection docs = Some old"
    and r: "rmap (observed_target by_id refs) FINALIZED_ROLES = Inr registry"
    and i: "finalize_inspection_reference R registry old = Inr inspection"
    and d: "docs' = replace_first approved_inspection inspection docs"
    unfolding finalize_controlled_references_def by (auto simp: rbind_Inr_iff split: option.splits)
  from i obtain st st' where st: "rfold (finalize_role registry) st FINALIZED_ROLES = Inr st'"
    "observed_claims inspection = fst st'" "same_metadata inspection old" by (rule finalize_inspection_Inr)
  have "approved_inspection old" using old by (auto simp: find_Some_iff)
  then have "approved_inspection inspection"
    using st(3) by (simp add: same_metadata_def METADATA_KEYS_def approved_inspection_def)
  with old have "List.find approved_inspection docs' = Some inspection"
    unfolding d by (rule replace_first_has)
  moreover have "list_all2 same_metadata docs' docs"
    unfolding d by (rule replace_first_rel[where r = same_metadata, OF old st(3)]) (simp add: same_metadata_def)
  moreover have "\<forall>role \<in> set FINALIZED_ROLES. claims_document docs (dget role (observed_claims inspection))"
    using finalize_roles_claims[OF r add_exact_documents[OF b] st(1)] st(2) by simp
  ultimately show thesis by (rule that)
qed

section \<open>The rebuilt documents\<close>

text \<open>
  A document of the case that was rebuilt from the bytes of a member of the bundle under a
  specification of the manifest: its identifier and revision are those the builder gave, its hash
  is the digest of the bytes.
\<close>

definition bundle_specs :: "runtime \<Rightarrow> reference_bundle \<Rightarrow> dict list" where
  "bundle_specs R b = (case validate_reference_bundle R b of
     Inl _ \<Rightarrow> [] | Inr manifest \<Rightarrow> map dict_of (list_of (dget ''documents'' manifest)))"

definition rebuilt_from :: "(dict \<Rightarrow> string \<Rightarrow> string \<Rightarrow> dict res) \<Rightarrow> dict list \<Rightarrow> reference_member list \<Rightarrow> dict \<Rightarrow> bool" where
  "rebuilt_from build specs ms doc \<longleftrightarrow> (\<exists>m spec d. m \<in> set ms \<and> spec \<in> set specs \<and> build spec (rm_raw_bytes m) (rm_filename m) = Inr d
     \<and> dget ''source_id'' spec = JStr (rm_source_id m) \<and> dget ''source_path'' spec = JStr (rm_filename m)
     \<and> dget ''document_id'' doc = dget ''document_id'' d \<and> dget ''revision'' doc = dget ''revision'' d
     \<and> dget ''source_hash'' doc = JStr (sha256_hex (rm_raw_bytes m)))"

definition witness_rebuilt :: "(dict \<Rightarrow> string \<Rightarrow> string \<Rightarrow> dict res) \<Rightarrow> dict list \<Rightarrow> reference_member list \<Rightarrow> reference_witness \<Rightarrow> bool" where
  "witness_rebuilt build specs ms w \<longleftrightarrow> (\<exists>m spec d. m \<in> set ms \<and> spec \<in> set specs \<and> build spec (rm_raw_bytes m) (rm_filename m) = Inr d
     \<and> dget ''source_id'' spec = JStr (rm_source_id m) \<and> dget ''source_path'' spec = JStr (rm_filename m)
     \<and> metadata_agrees w d \<and> rw_source_hash w = sha256_hex (rm_raw_bytes m) \<and> rw_raw_bytes w = rm_raw_bytes m)"

definition document_type_of :: "dict \<Rightarrow> string" where
  "document_type_of d = str_of (dget ''document_type'' d)"

lemma reference_member_of_Some: "reference_member_of ms i = Some m \<Longrightarrow> m \<in> set ms \<and> rm_document_id m = i"
  by (auto simp: reference_member_of_def dest: map_of_SomeD)

lemma reference_spec_of_Some: "reference_spec_of specs i = Some spec \<Longrightarrow> spec \<in> set specs"
  by (auto simp: reference_spec_of_def dest: map_of_SomeD)

lemma text_item_Inr: "text_item k d = Inr s \<Longrightarrow> dget k d = JStr s"
  by (auto simp: text_item_def rbind_Inr_iff dest!: ditem_dget split: if_splits elim: is_strE)

lemma put_witness_keys: "set (map fst (put_witness k w ws)) = insert k (set (map fst ws))"
  by (induction k w ws rule: put_witness.induct) auto

lemma put_witness_distinct: "distinct (map fst ws) \<Longrightarrow> distinct (map fst (put_witness k w ws))"
  by (induction k w ws rule: put_witness.induct) (use put_witness_keys in auto)

lemma put_witness_members: "set (map snd (put_witness k w ws)) \<subseteq> insert w (set (map snd ws))"
  by (induction k w ws rule: put_witness.induct) auto

lemma rebuild_member_Inr:
  assumes "rebuild_member build specs ms st i = Inr st'"
  obtains d w where "fst st' = fst st @ [d]" "snd st' = put_witness (document_type_of d) w (snd st)"
    "is_str (dget ''document_type'' d)" "witness_rebuilt build specs ms w"
proof -
  from assms obtain spec m d sid t j r h w where m: "reference_member_of ms i = Some m"
    and sp: "reference_spec_of specs i = Some spec"
    and c: "JStr (rm_source_id m) = dget ''source_id'' spec" "JStr (rm_filename m) = dget ''source_path'' spec"
    and b: "build spec (rm_raw_bytes m) (rm_filename m) = Inr d"
    and x: "text_item ''document_type'' d = Inr t" "text_item ''document_id'' d = Inr j"
      "text_item ''revision'' d = Inr r" "text_item ''source_hash'' d = Inr h"
    and w: "make_reference_witness \<lparr>rw_source_id = sid, rw_document_type = t, rw_document_id = j,
         rw_revision = r, rw_filename = rm_filename m, rw_relative_path = rm_filename m,
         rw_source_hash = h, rw_raw_bytes = rm_raw_bytes m\<rparr> = Inr w"
    and s: "st' = (fst st @ [d], put_witness t w (snd st))"
    unfolding rebuild_member_def by (auto simp: rbind_Inr_iff split: option.splits if_splits)
  note x = x[THEN text_item_Inr]
  have wf: "w = \<lparr>rw_source_id = sid, rw_document_type = t, rw_document_id = j,
         rw_revision = r, rw_filename = rm_filename m, rw_relative_path = rm_filename m,
         rw_source_hash = h, rw_raw_bytes = rm_raw_bytes m\<rparr>" "h = sha256_hex (rm_raw_bytes m)"
    using w by (auto simp: make_reference_witness_def split: if_splits)
  have "witness_rebuilt build specs ms w"
    unfolding witness_rebuilt_def
    by (intro exI[of _ m] exI[of _ spec] exI[of _ d])
      (use reference_member_of_Some[OF m] reference_spec_of_Some[OF sp] b c x in \<open>simp add: wf metadata_agrees_def\<close>)
  then show thesis by (intro that[of d w]) (simp_all add: s x document_type_of_def)
qed

definition rebuilt_state :: "(dict \<Rightarrow> string \<Rightarrow> string \<Rightarrow> dict res) \<Rightarrow> dict list \<Rightarrow> reference_member list
    \<Rightarrow> dict list \<times> witness_table \<Rightarrow> bool" where
  "rebuilt_state build specs ms st \<longleftrightarrow> distinct (map fst (snd st))
     \<and> set (map fst (snd st)) = set (map document_type_of (fst st))
     \<and> (\<forall>d \<in> set (fst st). is_str (dget ''document_type'' d)) \<and> (\<forall>w \<in> set (map snd (snd st)). witness_rebuilt build specs ms w)"

lemma rebuild_members:
  assumes "rfold (rebuild_member build specs ms) st ids = Inr st'" and "rebuilt_state build specs ms st"
  shows "rebuilt_state build specs ms st' \<and> length (fst st') = length (fst st) + length ids"
  using assms
proof (induction ids arbitrary: st)
  case (Cons i ids)
  from Cons.prems(1) obtain st1 where s: "rebuild_member build specs ms st i = Inr st1"
    "rfold (rebuild_member build specs ms) st1 ids = Inr st'" by (cases "rebuild_member build specs ms st i") simp_all
  from s(1) obtain d w where d: "fst st1 = fst st @ [d]" "snd st1 = put_witness (document_type_of d) w (snd st)"
    "is_str (dget ''document_type'' d)" "witness_rebuilt build specs ms w" by (rule rebuild_member_Inr)
  have "\<forall>w \<in> set (map snd (snd st1)). witness_rebuilt build specs ms w"
    using Cons.prems(2) d(4) put_witness_members[of "document_type_of d" w "snd st"]
    unfolding rebuilt_state_def d(2) by blast
  then have "rebuilt_state build specs ms st1"
    using Cons.prems(2) d put_witness_keys[of "document_type_of d" w "snd st"]
      put_witness_distinct[of "snd st" "document_type_of d" w]
    unfolding rebuilt_state_def by auto
  from Cons.IH[OF s(2) this] d(1) show ?case by simp
qed simp

section \<open>Sealing what was rebuilt\<close>

lemma add_approved_documents:
  assumes "rfold (add_approved ws) [] docs = Inr approved"
  shows "\<forall>td \<in> set approved. snd td \<in> set docs \<and> dget ''document_type'' (snd td) = JStr (fst td)"
  using assms
proof (rule rfold_invariant)
  fix found d found'
  assume i: "\<forall>td \<in> set found. snd td \<in> set docs \<and> dget ''document_type'' (snd td) = JStr (fst td)"
    and d: "d \<in> set docs" and f: "add_approved ws found d = Inr found'"
  show "\<forall>td \<in> set found'. snd td \<in> set docs \<and> dget ''document_type'' (snd td) = JStr (fst td)"
  proof (cases "found' = found")
    case False
    with f obtain t where t: "dget ''document_type'' d = JStr t" "found' = found @ [(t, d)]"
      unfolding add_approved_def
      by (cases "dget ''document_type'' d") (auto simp: rbind_Inr_iff split: if_splits)
    with i d show ?thesis by auto
  qed (use i in simp)
qed simp

lemma seal_contextE:
  assumes "seal_controlled_reference_context R docs ws = Inr s"
  obtains approved inspection registry targets where "witness_keys_complete ws"
    "\<forall>td \<in> set approved. snd td \<in> set docs \<and> dget ''document_type'' (snd td) = JStr (fst td)"
    "set (map fst approved) = set (map fst ws)"
    "\<forall>td \<in> set approved. metadata_agrees (the (map_of ws (fst td))) (snd td)"
    "map_of approved ''INSPECTION_RECORD'' = Some inspection"
    "seal_from_registry R inspection registry ws targets = Inr s"
proof -
  from assms obtain approved inspection registry where "witness_keys_complete ws"
    and a: "rfold (add_approved ws) [] docs = Inr approved"
    and k: "set (map fst approved) = set (map fst ws)"
    and c: "seq_checks (map (check_rebuilt ws) approved) = Inr ()"
    and i: "map_of approved ''INSPECTION_RECORD'' = Some inspection"
    and s: "seal_from_registry R inspection registry ws (filter (\<lambda>td. fst td \<in> set REFERENCE_ROLES) approved) = Inr s"
    unfolding seal_controlled_reference_context_def
    by (auto simp: rbind_Inr_iff split: if_splits option.splits)
  moreover have "\<forall>td \<in> set approved. metadata_agrees (the (map_of ws (fst td))) (snd td)"
    using c by (auto simp: seq_checks_Inr check_rebuilt_def)
  ultimately show thesis using add_approved_documents[OF a] by (intro that) blast+
qed

lemma document_type_inj:
  assumes "distinct (map document_type_of docs)" and "d \<in> set docs" "e \<in> set docs"
    and "dget ''document_type'' d = dget ''document_type'' e"
  shows "d = e"
proof -
  have "inj_on document_type_of (set docs)" using assms(1) by (simp add: distinct_map)
  then show ?thesis by (rule inj_onD[OF _ _ assms(2,3)]) (simp add: document_type_of_def assms(4))
qed

lemma same_metadata_types: "list_all2 same_metadata docs' docs \<Longrightarrow> map document_type_of docs' = map document_type_of docs"
  by (induction rule: list_all2_induct) (simp_all add: same_metadata_def METADATA_KEYS_def document_type_of_def)

lemma three_types:
  assumes "rebuilt_state build specs ms (docs, ws)" and "witness_keys_complete ws" and "length docs \<le> 3"
  shows "distinct (map document_type_of docs)"
proof -
  have "set (map document_type_of docs) = {''SOP'', ''CONTROL_PLAN'', ''INSPECTION_RECORD''}"
    using assms(1,2) by (simp add: rebuilt_state_def witness_keys_complete_def PACK_TYPES_def)
  then have "card (set (map document_type_of docs)) = 3" by simp
  moreover have "card (set (map document_type_of docs)) \<le> length (map document_type_of docs)" by (rule card_length)
  ultimately show ?thesis using assms(3) by (intro card_distinct) simp
qed

text \<open>Every rebuilt document agrees with the witness of its type.\<close>

lemma document_witnessed:
  assumes st: "rebuilt_state build specs ms (docs, ws)" and d: "list_all2 same_metadata docs' docs"
    and t: "distinct (map document_type_of docs)"
    and a: "\<forall>td \<in> set approved. snd td \<in> set docs' \<and> dget ''document_type'' (snd td) = JStr (fst td)"
      "set (map fst approved) = set (map fst ws)"
      "\<forall>td \<in> set approved. metadata_agrees (the (map_of ws (fst td))) (snd td)"
    and target: "target \<in> set docs"
  shows "\<exists>w. witness_rebuilt build specs ms w \<and> metadata_agrees w target"
proof -
  let ?t = "document_type_of target"
  have "is_str (dget ''document_type'' target)" using st target by (auto simp: rebuilt_state_def)
  then have str: "dget ''document_type'' target = JStr ?t" by (auto simp: document_type_of_def elim!: is_strE)
  have key: "?t \<in> set (map fst ws)" using st target by (auto simp: rebuilt_state_def)
  then obtain w where w: "map_of ws ?t = Some w"
    using map_of_eq_None_iff[of ws ?t] by (cases "map_of ws ?t") auto
  from key have "?t \<in> set (map fst approved)" by (simp only: a(2))
  then obtain d' where d': "(?t, d') \<in> set approved" by auto
  obtain e where e: "e \<in> set docs'" "same_metadata e target"
    using d target by (metis list_all2_conv_all_nth in_set_conv_nth)
  have "d' = e"
  proof (rule document_type_inj)
    show "distinct (map document_type_of docs')" using t same_metadata_types[OF d] by simp
    show "d' \<in> set docs'" "e \<in> set docs'" using a(1) d' e(1) by auto
    show "dget ''document_type'' d' = dget ''document_type'' e"
      using a(1) d' e(2) str by (auto simp: same_metadata_def METADATA_KEYS_def)
  qed
  with a(3) d' w have "metadata_agrees w e" by fastforce
  then have "metadata_agrees w target"
    using e(2) by (simp add: metadata_agrees_def same_metadata_def METADATA_KEYS_def)
  moreover have "witness_rebuilt build specs ms w" using st map_of_SomeD[OF w] by (force simp: rebuilt_state_def)
  ultimately show ?thesis by blast
qed

text \<open>What a context prepared from a bundle holds.\<close>

definition claim_of_witness :: "reference_witness \<Rightarrow> json \<Rightarrow> bool" where
  "claim_of_witness w v \<longleftrightarrow> is_dict v \<and> dget ''document_id'' (dict_of v) = JStr (rw_document_id w)
     \<and> dget ''revision'' (dict_of v) = JStr (rw_revision w)
     \<and> dget ''source_hash'' (dict_of v) = JStr (rw_source_hash w)"

lemma claims_witness:
  assumes "claims_document docs v" and "\<And>d. d \<in> set docs \<Longrightarrow> \<exists>w. witness_rebuilt build specs ms w \<and> metadata_agrees w d"
  shows "\<exists>w. witness_rebuilt build specs ms w \<and> claim_of_witness w v"
  using assms by (fastforce simp: claims_document_def claim_of_witness_def metadata_agrees_def)

lemma validated_manifest_length:
  assumes "validate_reference_bundle R b = Inr manifest"
  shows "length (list_of (dget ''documents'' manifest)) = 3"
proof -
  from assms obtain m docs where v: "validate_reference_manifest R m = Inr docs"
    and m: "manifest = reference_manifest R docs"
    unfolding validate_reference_bundle_def Let_def by (auto simp: rbind_Inr_iff split: if_splits sum.splits)
  from v have "length docs = 3"
    unfolding validate_reference_manifest_def Let_def by (auto simp: rbind_Inr_iff)
  then show ?thesis by (simp add: m reference_manifest_def dget_def dget_or_def)
qed

lemma prepared_referencesE:
  assumes R: "float_reader (rt_float_repr R) (rt_float_of_text R)"
    and p: "prepare_controlled_reference_context R build b = Inr s"
    and size: "\<forall>m \<in> set (rb_members b). length (rm_raw_bytes m) \<le> MAX_REFERENCE_MEMBER_BYTES"
  obtains iw ws observed where "sealed_values R iw ws observed (rs_context s)"
    "rc_inspection_document_id (rs_context s) = rw_document_id iw" "witness_rebuilt build (bundle_specs R b) (rb_members b) iw"
    "rc_sealed (rs_context s)" "is_lower_sha (rc_reference_set_hash (rs_context s))"
    "rc_contract_version (rs_context s) = REFERENCE_CONTRACT_VERSION"
    "\<forall>role \<in> set REFERENCE_ROLES. \<exists>w. witness_rebuilt build (bundle_specs R b) (rb_members b) w \<and> claim_of_witness w (dget role observed)"
proof -
  let ?ms = "rb_members b"
  from p obtain manifest specs docs ws docs' where v: "validate_reference_bundle R b = Inr manifest"
    and specs: "specs = map dict_of (list_of (dget ''documents'' manifest))"
    and r: "rfold (rebuild_member build specs ?ms) ([], []) (sort (remdups (spec_texts ''document_id'' specs))) = Inr (docs, ws)"
    and f: "finalize_controlled_references R docs = Inr docs'"
    and s: "seal_controlled_reference_context R docs' ws = Inr s"
    unfolding prepare_controlled_reference_context_def Let_def
    by (auto simp: rbind_Inr_iff split: if_splits)
  have bs: "bundle_specs R b = specs" by (simp add: bundle_specs_def v specs)
  have "rebuilt_state build specs ?ms ([], [])" by (simp add: rebuilt_state_def)
  from rebuild_members[OF r this] have st: "rebuilt_state build specs ?ms (docs, ws)"
    and "length docs = length (remdups (spec_texts ''document_id'' specs))" by simp_all
  moreover have "length (remdups (spec_texts ''document_id'' specs)) \<le> length (spec_texts ''document_id'' specs)"
    by (rule length_remdups_leq)
  moreover have "length (spec_texts ''document_id'' specs) = 3"
    using validated_manifest_length[OF v] by (simp add: spec_texts_def specs)
  ultimately have l: "length docs \<le> 3" by linarith
  from f obtain insp where i: "List.find approved_inspection docs' = Some insp" "list_all2 same_metadata docs' docs"
    "\<forall>role \<in> set FINALIZED_ROLES. claims_document docs (dget role (observed_claims insp))"
    by (rule finalize_references_Inr)
  from s obtain approved insp' registry targets where k: "witness_keys_complete ws"
    and a: "\<forall>td \<in> set approved. snd td \<in> set docs' \<and> dget ''document_type'' (snd td) = JStr (fst td)"
      "set (map fst approved) = set (map fst ws)"
      "\<forall>td \<in> set approved. metadata_agrees (the (map_of ws (fst td))) (snd td)"
    and m: "map_of approved ''INSPECTION_RECORD'' = Some insp'"
    and sr: "seal_from_registry R insp' registry ws targets = Inr s"
    by (rule seal_contextE)
  note t = three_types[OF st k l]
  have "insp' = insp"
  proof (rule document_type_inj)
    show "distinct (map document_type_of docs')" using t same_metadata_types[OF i(2)] by simp
    show "insp' \<in> set docs'" using a(1) map_of_SomeD[OF m] by force
    show "insp \<in> set docs'" using i(1) by (auto simp: find_Some_iff)
    show "dget ''document_type'' insp' = dget ''document_type'' insp"
      using a(1) map_of_SomeD[OF m] i(1) by (fastforce simp: find_Some_iff approved_inspection_def)
  qed
  have small: "\<forall>w \<in> set (map snd ws). small_witness w"
    using st size by (auto simp: rebuilt_state_def witness_rebuilt_def small_witness_def)
  from R sr small obtain iw where iw: "map_of ws ''INSPECTION_RECORD'' = Some iw"
    "rc_sealed (rs_context s)" "is_lower_sha (rc_reference_set_hash (rs_context s))"
    "rc_contract_version (rs_context s) = REFERENCE_CONTRACT_VERSION"
    "rc_inspection_document_id (rs_context s) = rw_document_id iw"
    "sealed_values R iw ws (observed_claims insp') (rs_context s)"
    by (rule seal_from_registryE) (rule that; assumption)
  have wi: "witness_rebuilt build specs ?ms iw" using st map_of_SomeD[OF iw(1)] by (force simp: rebuilt_state_def)
  have "\<exists>w. witness_rebuilt build specs ?ms w \<and> claim_of_witness w (dget role (observed_claims insp'))"
    if "role \<in> set REFERENCE_ROLES" for role
  proof (rule claims_witness)
    show "claims_document docs (dget role (observed_claims insp'))"
      using i(3) that \<open>insp' = insp\<close> by (auto simp: FINALIZED_ROLES_def REFERENCE_ROLES_def)
    show "\<exists>w. witness_rebuilt build specs ?ms w \<and> metadata_agrees w d" if "d \<in> set docs" for d
      by (rule document_witnessed[OF st i(2) t a that])
  qed
  with iw(6,5) wi iw(2-4) show thesis unfolding bs[symmetric] by (intro that) blast+
qed

text \<open>The contract the engine relies on.\<close>

lemma prepared_references_sealed:
  assumes "float_reader (rt_float_repr R) (rt_float_of_text R)"
    and "prepare_controlled_reference_context R build b = Inr s"
    and "\<forall>m \<in> set (rb_members b). length (rm_raw_bytes m) \<le> MAX_REFERENCE_MEMBER_BYTES"
  shows "sealed_reference (Some (rs_context s))"
  using assms by (rule prepared_referencesE) (simp add: sealed_reference_def sealed_values_good)

lemma bundle_member_sizes:
  assumes "make_reference_bundle R manifest ms = Inr b"
  shows "\<forall>m \<in> set (rb_members b). length (rm_raw_bytes m) \<le> MAX_REFERENCE_MEMBER_BYTES"
proof -
  from assms have r: "rmap remake_reference_member ms = Inr (rb_members b)"
    unfolding make_reference_bundle_def Let_def by (auto simp: rbind_Inr_iff split: if_splits)
  have "length (rm_raw_bytes m') \<le> MAX_REFERENCE_MEMBER_BYTES" if "remake_reference_member m = Inr m'" for m m'
    using that by (auto simp: remake_reference_member_def make_reference_member_def split: if_splits)
  moreover have "\<forall>m' \<in> set (rb_members b). \<exists>m. remake_reference_member m = Inr m'"
    using r unfolding rmap_Inr by (force simp: list_all2_conv_all_nth in_set_conv_nth)
  ultimately show ?thesis by blast
qed

end
