(* ===== verification/Demo_References.thy ===== *)
theory Demo_References
  imports Reference_Sound Demo_Evidence
begin

text \<open>
  A bundle of three controlled documents and a case whose documents carry the digests of its
  members, for the witnesses of the properties of controlled references.  The digests stay
  symbolic: the facts hold for every text of the shape of a digest and are used at the hashes of
  the bytes.
\<close>

section \<open>A case with given hashes\<close>

definition hash_document :: "string \<Rightarrow> string \<Rightarrow> string \<Rightarrow> dict \<Rightarrow> dict \<Rightarrow> dict" where
  "hash_document document_type document_id h flds extra =
     [(''document_id'', JStr document_id), (''document_type'', JStr document_type),
      (''revision'', JStr ''B''), (''status'', JStr ''APPROVED''), (''owner'', JStr ''quality''),
      (''revision_date'', JStr ''2026-02-01''), (''source_hash'', JStr h),
      (''fields'', JDict flds)] @ extra"

definition hash_reference :: "string \<Rightarrow> string \<Rightarrow> string \<Rightarrow> json" where
  "hash_reference document_type document_id h = JDict
     [(''document_type'', JStr document_type), (''document_id'', JStr document_id),
      (''revision'', JStr ''B''), (''source_hash'', JStr h)]"

definition hash_control :: "string \<Rightarrow> dict" where
  "hash_control h = hash_document ''CONTROL_PLAN'' ''CP-1'' h [demo_steps,
     (''characteristics'', JList [demo_characteristic [(''control_id'', JStr ''C-1''),
       (''special_characteristic'', JBool True), (''control_method'', JStr ''SPC''),
       (''frequency'', JStr ''5/h''), (''reaction_plan'', JStr ''hold'')]])] []"

definition hash_sop :: "string \<Rightarrow> dict" where
  "hash_sop h = hash_document ''SOP'' ''SOP-1'' h
     [demo_steps, (''characteristics'', JList [demo_characteristic []])] []"

definition hash_inspection :: "string \<Rightarrow> string \<Rightarrow> string \<Rightarrow> dict" where
  "hash_inspection hc hs h = hash_document ''INSPECTION_RECORD'' ''IR-1'' h [demo_steps,
     (''characteristics'', JList [demo_characteristic []]),
     (''references'', JDict [(''SOP'', hash_reference ''SOP'' ''SOP-1'' hs),
       (''CONTROL_PLAN'', hash_reference ''CONTROL_PLAN'' ''CP-1'' hc)])]
     [(''reference_contract_version'', JStr CONTROLLED_REFERENCE_CONTRACT_VERSION)]"

definition hash_case :: "string \<Rightarrow> string \<Rightarrow> string \<Rightarrow> dict" where
  "hash_case hc hs hi =
     [(''schema_version'', JStr CASE_SCHEMA_VERSION), (''case_id'', JStr ''CASE-1''),
      (''synthetic_for_competition'', JBool True), (''event'', JDict demo_event),
      (''documents'', JList (take 2 demo_documents
         @ [JDict (hash_control hc), JDict (hash_sop hs), JDict (hash_inspection hc hs hi)]))]"

lemma hash_header:
  assumes "is_lower_sha h" and "t \<in> set REQUIRED_DOCUMENT_TYPES" and "\<not> is_blank i"
    and "\<not> dhas ''approved_waiver'' extra"
  shows "validate_document_header (hash_document t i h flds extra) = Inr ()"
proof -
  have d: "\<not> is_blank ''2026-02-01''" "date_shape ''2026-02-01''" "date_fromisoformat ''2026-02-01'' \<noteq> None"
    "\<not> is_blank ''B''" "\<not> is_blank ''quality''" by code_simp+
  show ?thesis
    using assms(2-4) d digest_text(1,2)[OF assms(1)]
    unfolding validate_document_header_def seq_checks_Cons_Inr check_simps require_Inr when_check_Inr
    by (simp add: hash_document_def dget_def dget_or_def has_keys_def dhas_def DOCUMENT_STATUSES_def
        MAX_SOURCE_ANCHOR_CHARACTERS_def seq_checks.simps(1))
qed

lemma hash_identity:
  assumes "is_lower_sha h" and "\<not> is_blank t" "\<not> is_blank i"
  shows "validate_reference_identity doc (role, hash_reference t i h) = Inr ()"
proof -
  have "\<not> is_blank ''B''" by code_simp
  then show ?thesis
    using assms digest_text(2)[OF assms(1)]
    unfolding validate_reference_identity_def seq_checks_Cons_Inr require_Inr seq_checks_Inr set_map
    by (simp add: hash_reference_def dget_def dget_or_def REFERENCE_IDENTITY_KEYS_def keys_exactly_iff check_simps)
qed

lemma hash_control_valid:
  assumes "is_lower_sha h"
  shows "validate_document demo_runtime JNull JNull (hash_control h) = Inr ()"
proof -
  have "validate_document_header (hash_control h) = Inr ()"
    unfolding hash_control_def by (rule hash_header[OF assms]) code_simp+
  moreover have "seq_checks [validate_process_steps demo_runtime (hash_control h),
      validate_characteristics demo_runtime False (hash_control h), validate_risks demo_runtime False (hash_control h),
      validate_reference_version (hash_control h), validate_references demo_runtime JNull (hash_control h)] = Inr ()"
    by code_simp
  ultimately show ?thesis unfolding validate_document_def by (simp only: seq_checks_Cons_Inr simp_thms)
qed

lemma hash_sop_valid:
  assumes "is_lower_sha h"
  shows "validate_document demo_runtime JNull JNull (hash_sop h) = Inr ()"
proof -
  have "validate_document_header (hash_sop h) = Inr ()"
    unfolding hash_sop_def by (rule hash_header[OF assms]) code_simp+
  moreover have "seq_checks [validate_process_steps demo_runtime (hash_sop h),
      validate_characteristics demo_runtime False (hash_sop h), validate_risks demo_runtime False (hash_sop h),
      validate_reference_version (hash_sop h), validate_references demo_runtime JNull (hash_sop h)] = Inr ()"
    by code_simp
  ultimately show ?thesis unfolding validate_document_def by (simp only: seq_checks_Cons_Inr simp_thms)
qed

lemma hash_inspection_valid:
  assumes "is_lower_sha hc" "is_lower_sha hs" "is_lower_sha hi"
  shows "validate_document demo_runtime JNull JNull (hash_inspection hc hs hi) = Inr ()"
proof -
  let ?d = "hash_inspection hc hs hi"
  have "validate_document_header ?d = Inr ()"
    unfolding hash_inspection_def by (rule hash_header[OF assms(3)]) code_simp+
  moreover have "seq_checks [validate_process_steps demo_runtime ?d,
      validate_characteristics demo_runtime False ?d, validate_risks demo_runtime False ?d,
      validate_reference_version ?d] = Inr ()"
    by code_simp
  moreover have "validate_references demo_runtime JNull ?d = Inr ()"
  proof -
    let ?refs = "[(''SOP'', hash_reference ''SOP'' ''SOP-1'' hs), (''CONTROL_PLAN'', hash_reference ''CONTROL_PLAN'' ''CP-1'' hc)]"
    have r: "dget ''references'' (doc_fields ?d) = JDict ?refs" by code_simp
    have "list_all (\<lambda>kv. \<not> is_blank (fst kv)) ?refs \<and> distinct (map (normalized_identity demo_runtime) (map fst ?refs))
      \<and> \<not> keys_exactly [''LEGACY_UNATTESTED''] ?refs \<and> \<not> dhas ''LEGACY_UNATTESTED'' ?refs" by code_simp
    moreover have "\<not> is_blank ''SOP'' \<and> \<not> is_blank ''SOP-1'' \<and> \<not> is_blank ''CONTROL_PLAN'' \<and> \<not> is_blank ''CP-1''"
      by code_simp
    ultimately show ?thesis
      unfolding validate_references_def Let_def r
      using hash_identity[OF assms(1)] hash_identity[OF assms(2)] by (simp add: check_simps)
  qed
  ultimately show ?thesis unfolding validate_document_def by (simp only: seq_checks_Cons_Inr simp_thms)
qed

lemma hash_case_valid:
  assumes "is_lower_sha hc" "is_lower_sha hs" "is_lower_sha hi"
  shows "validate_case demo_runtime (JDict (hash_case hc hs hi)) = Inr ()"
proof -
  let ?docs = "take 2 demo_documents @ [JDict (hash_control hc), JDict (hash_sop hs), JDict (hash_inspection hc hs hi)]"
  have v: "list_all (\<lambda>d. validate_document demo_runtime JNull JNull (dict_of d) = Inr ()) (take 2 demo_documents)"
    by code_simp
  have "\<forall>d \<in> set ?docs. validate_document demo_runtime JNull JNull (dict_of d) = Inr ()"
    using v hash_control_valid[OF assms(1)] hash_sop_valid[OF assms(2)] hash_inspection_valid[OF assms]
    unfolding list_all_iff by auto
  then have "check_all (\<lambda>_ d. validate_document demo_runtime JNull JNull (dict_of d)) ?docs = Inr ()"
    unfolding check_all_Inr by (metis nth_mem)
  moreover have "require_bounded_list (JList ?docs) ''documents'' MAX_DOCUMENTS = Inr ()" by code_simp
  moreover have "list_all is_dict ?docs" by code_simp
  moreover have "validate_document_ids demo_runtime ?docs = Inr ()" by code_simp
  moreover have "validate_approved_counts (map dict_of ?docs) = Inr ()" by code_simp
  ultimately have d: "validate_documents demo_runtime JNull JNull (JList ?docs) = Inr ()"
    unfolding validate_documents_def by (simp only: seq_checks_Cons_Inr seq_checks.simps(1) list_of.simps require_Inr simp_thms)
  have h: "validate_case_header (JDict (hash_case hc hs hi)) = Inr ()"
    "validate_event demo_runtime JNull (JDict demo_event) = Inr ()" by code_simp+
  have m: "validate_relationship_migration JNull = Inr ()" "validate_reference_migration JNull = Inr ()"
    "validate_validation_migration JNull = Inr ()" by code_simp+
  have g: "dget ''relationship_migration'' (hash_case hc hs hi) = JNull" "dget ''reference_migration'' (hash_case hc hs hi) = JNull"
    "dget ''validation_migration'' (hash_case hc hs hi) = JNull" "dget ''event'' (hash_case hc hs hi) = JDict demo_event"
    "dget ''documents'' (hash_case hc hs hi) = JList ?docs" by (simp_all add: hash_case_def dget_def dget_or_def)
  show ?thesis unfolding validate_case_def dict_of.simps g by (simp only: seq_checks_Cons_Inr seq_checks.simps(1) h m d simp_thms)
qed

lemma hash_r5:
  "status_of (rule_inspection_current_references demo_runtime (hash_case hc hs hi) demo_impact (Some
    \<lparr>rc_contract_version = cv, rc_reference_set_hash = g, rc_inspection_document_id = ''IR-1'',
     rc_references = JDict [(''CONTROL_PLAN'', JDict (sort_key fst [(''document_type'', JStr ''CONTROL_PLAN''),
         (''document_id'', JStr ''CP-1''), (''revision'', JStr ''B''), (''source_hash'', JStr hc)])),
       (''SOP'', JDict (sort_key fst [(''document_type'', JStr ''SOP''),
         (''document_id'', JStr ''SOP-1''), (''revision'', JStr ''B''), (''source_hash'', JStr hs)]))],
     rc_evidence = JDict [(''CONTROL_PLAN'', JDict [(''inspection'', JDict (sort_key fst
         [(''document_id'', JStr ''IR-1''), (''revision'', JStr ''B''), (''source_hash'', JStr hi),
          (''document_id_locator'', JStr l), (''revision_locator'', JStr l')])), (''target'', t)]),
       (''SOP'', JDict [(''inspection'', JDict (sort_key fst
         [(''document_id'', JStr ''IR-1''), (''revision'', JStr ''B''), (''source_hash'', JStr hi),
          (''document_id_locator'', JStr m), (''revision_locator'', JStr m')])), (''target'', t')])],
     rc_sealed = True\<rparr>)) = Some PASS"
  by code_simp

section \<open>A bundle\<close>

definition demo_spec :: "string \<Rightarrow> string \<Rightarrow> string \<Rightarrow> string \<Rightarrow> dict" where
  "demo_spec document_type document_id source_id path =
     [(''columns'', JDict [(''process_step_id'', JStr ''step'')]), (''document_id'', JStr document_id),
      (''document_type'', JStr document_type), (''owner'', JStr ''quality''), (''revision'', JStr ''B''),
      (''revision_date'', JStr ''2026-02-01''), (''source_id'', JStr source_id), (''source_path'', JStr path),
      (''status'', JStr ''APPROVED'')]"

definition demo_specs :: "dict list" where
  "demo_specs = [demo_spec ''CONTROL_PLAN'' ''CP-1'' ''S-CP'' ''cp.csv'',
     demo_spec ''INSPECTION_RECORD'' ''IR-1'' ''S-IR'' ''ir.csv'', demo_spec ''SOP'' ''SOP-1'' ''S-SOP'' ''sop.csv'']"

definition demo_reference_manifest :: dict where
  "demo_reference_manifest =
     [(''contract_version'', JStr CONTROLLED_REFERENCE_PACK_VERSION), (''documents'', JList (map JDict demo_specs))]"

definition demo_reference_members :: "reference_member list" where
  "demo_reference_members =
     [\<lparr>rm_source_id = ''S-CP'', rm_document_id = ''CP-1'', rm_filename = ''cp.csv'', rm_raw_bytes = ''step;OP10''\<rparr>,
      \<lparr>rm_source_id = ''S-IR'', rm_document_id = ''IR-1'', rm_filename = ''ir.csv'', rm_raw_bytes = ''step;OP10;B''\<rparr>,
      \<lparr>rm_source_id = ''S-SOP'', rm_document_id = ''SOP-1'', rm_filename = ''sop.csv'', rm_raw_bytes = ''step;OP10;A''\<rparr>]"

definition demo_reference_bundle :: reference_bundle where
  "demo_reference_bundle = \<lparr>rb_manifest_bytes = jtext demo_runtime (JDict demo_reference_manifest),
     rb_members = demo_reference_members\<rparr>"

lemma demo_manifest_text:
  "utf8_valid (jtext demo_runtime (JDict demo_reference_manifest))"
  "strict_json_loads demo_runtime (jtext demo_runtime (JDict demo_reference_manifest)) = Inr (JDict demo_reference_manifest)"
  "canonical_bytes demo_runtime (JDict demo_reference_manifest) = Inr (jtext demo_runtime (JDict demo_reference_manifest))"
proof -
  have a: "ascii_json (JDict demo_reference_manifest)" by code_simp
  then show "utf8_valid (jtext demo_runtime (JDict demo_reference_manifest))"
    "canonical_bytes demo_runtime (JDict demo_reference_manifest) = Inr (jtext demo_runtime (JDict demo_reference_manifest))"
    by (rule ascii_utf8_valid[OF ascii_jtext], rule ascii_bytes)
  have p: "printable (JDict demo_reference_manifest)" by code_simp
  have "canon (JDict demo_reference_manifest) = JDict demo_reference_manifest" by code_simp
  with float_reader.strict_json_loads_jtext[OF demo_reader_runtime refl refl p]
  show "strict_json_loads demo_runtime (jtext demo_runtime (JDict demo_reference_manifest)) = Inr (JDict demo_reference_manifest)"
    by (simp only:)
qed

lemma demo_reference_bundle_valid:
  "validate_reference_bundle demo_runtime demo_reference_bundle = Inr demo_reference_manifest"
proof -
  have b: "rb_manifest_bytes demo_reference_bundle = jtext demo_runtime (JDict demo_reference_manifest)"
    "rb_members demo_reference_bundle = demo_reference_members" by (simp_all add: demo_reference_bundle_def)
  have v: "validate_reference_manifest demo_runtime (JDict demo_reference_manifest) = Inr (map JDict demo_specs)"
    by code_simp
  have m: "reference_manifest demo_runtime (map JDict demo_specs) = demo_reference_manifest" by code_simp
  have c: "seq_checks [require True (ValueError ''controlled reference manifest is not canonical''),
      reject_collision demo_runtime (map rm_document_id demo_reference_members) ''member document_id'',
      reject_collision demo_runtime (map rm_source_id demo_reference_members) ''member source_id'',
      reject_collision demo_runtime (map rm_filename demo_reference_members) ''member filename'',
      require (length demo_reference_members = length (map JDict demo_specs))
        (ValueError ''controlled reference members differ from manifest''),
      require (set (map rm_document_id demo_reference_members)
          = set (spec_texts ''document_id'' (map dict_of (map JDict demo_specs))))
        (ValueError ''controlled reference members differ from manifest''),
      require (list_all (member_matches demo_reference_members) (map dict_of (map JDict demo_specs)))
        (ValueError ''controlled reference member identity differs from manifest'')] = Inr ()" by code_simp
  show ?thesis
    unfolding validate_reference_bundle_def b demo_manifest_text Let_def
    by (simp only: demo_manifest_text v m c sum.case rbind_simps simp_thms if_True if_False)
qed

lemma demo_reference_bundle_made:
  "make_reference_bundle demo_runtime (jtext demo_runtime (JDict demo_reference_manifest)) demo_reference_members
     = Inr demo_reference_bundle"
proof -
  have r: "rmap remake_reference_member demo_reference_members = Inr demo_reference_members" by code_simp
  have l: "(demo_reference_members = [] \<or> MAX_REFERENCE_MEMBERS < length demo_reference_members) = False" by code_simp
  have n: "(jtext demo_runtime (JDict demo_reference_manifest) = []) = False" by simp
  show ?thesis
    unfolding make_reference_bundle_def r rbind_simps Let_def l n if_False
      demo_reference_bundle_def[symmetric] demo_reference_bundle_valid by (rule refl)
qed

section \<open>The rebuilt documents\<close>

text \<open>
  A builder that reads nothing but the manifest: it copies the metadata, hashes the bytes, and
  gives the inspection record its two references.
\<close>

definition demo_claim :: "string \<Rightarrow> json" where
  "demo_claim document_id = JDict [(''document_id'', JStr document_id), (''revision'', JStr ''B'')]"

definition demo_fields :: "string \<Rightarrow> dict" where
  "demo_fields t = (if t = ''INSPECTION_RECORD''
     then [(''references'', JDict [(''SOP'', demo_claim ''SOP-1''), (''CONTROL_PLAN'', demo_claim ''CP-1'')])] else [])"

definition demo_built :: "string \<Rightarrow> string \<Rightarrow> string \<Rightarrow> nat \<Rightarrow> string \<Rightarrow> dict" where
  "demo_built t i h n p =
     [(''document_id'', JStr i), (''document_type'', JStr t), (''revision'', JStr ''B''),
      (''status'', JStr ''APPROVED''), (''source_hash'', JStr h),
      (''source'', JDict [(''filename'', JStr p), (''relative_path'', JStr p), (''size_bytes'', JInt (int n))]),
      (''fields'', JDict (demo_fields t)), (''mapping_provenance'', JList [])]"

definition demo_build :: "dict \<Rightarrow> string \<Rightarrow> string \<Rightarrow> dict res" where
  "demo_build spec raw filename =
     Inr (demo_built (str_of (dget ''document_type'' spec)) (str_of (dget ''document_id'' spec))
       (sha256_hex raw) (length raw) filename)"

definition demo_witness :: "string \<Rightarrow> string \<Rightarrow> string \<Rightarrow> string \<Rightarrow> string \<Rightarrow> reference_witness" where
  "demo_witness t i s raw p = \<lparr>rw_source_id = s, rw_document_type = t, rw_document_id = i, rw_revision = ''B'',
     rw_filename = p, rw_relative_path = p, rw_source_hash = sha256_hex raw, rw_raw_bytes = raw\<rparr>"

lemma demo_rebuild_member:
  assumes "reference_spec_of demo_specs i = Some (demo_spec t i s p)"
    and "reference_member_of demo_reference_members i =
      Some \<lparr>rm_source_id = s, rm_document_id = i, rm_filename = p, rm_raw_bytes = raw\<rparr>"
  shows "rebuild_member demo_build demo_specs demo_reference_members st i =
    Inr (fst st @ [demo_built t i (sha256_hex raw) (length raw) p], put_witness t (demo_witness t i s raw p) (snd st))"
  unfolding rebuild_member_def assms option.case prod.case reference_member.select_convs
  by (simp add: demo_spec_def demo_build_def demo_built_def demo_witness_def make_reference_witness_def
      text_item_def ditem_def dget_def dget_or_def)

abbreviation "raw_cp \<equiv> ''step;OP10''"
abbreviation "raw_ir \<equiv> ''step;OP10;B''"
abbreviation "raw_sop \<equiv> ''step;OP10;A''"

definition demo_witnesses :: witness_table where
  "demo_witnesses =
     [(''CONTROL_PLAN'', demo_witness ''CONTROL_PLAN'' ''CP-1'' ''S-CP'' raw_cp ''cp.csv''),
      (''INSPECTION_RECORD'', demo_witness ''INSPECTION_RECORD'' ''IR-1'' ''S-IR'' raw_ir ''ir.csv''),
      (''SOP'', demo_witness ''SOP'' ''SOP-1'' ''S-SOP'' raw_sop ''sop.csv'')]"

definition built_documents :: "string \<Rightarrow> string \<Rightarrow> string \<Rightarrow> dict list" where
  "built_documents hc hi hs =
     [demo_built ''CONTROL_PLAN'' ''CP-1'' hc (length raw_cp) ''cp.csv'',
      demo_built ''INSPECTION_RECORD'' ''IR-1'' hi (length raw_ir) ''ir.csv'',
      demo_built ''SOP'' ''SOP-1'' hs (length raw_sop) ''sop.csv'']"

lemma demo_rebuilt:
  "rfold (rebuild_member demo_build demo_specs demo_reference_members) ([], []) [''CP-1'', ''IR-1'', ''SOP-1'']
     = Inr (built_documents (sha256_hex raw_cp) (sha256_hex raw_ir) (sha256_hex raw_sop), demo_witnesses)"
proof -
  have s: "reference_spec_of demo_specs ''CP-1'' = Some (demo_spec ''CONTROL_PLAN'' ''CP-1'' ''S-CP'' ''cp.csv'')"
    "reference_spec_of demo_specs ''IR-1'' = Some (demo_spec ''INSPECTION_RECORD'' ''IR-1'' ''S-IR'' ''ir.csv'')"
    "reference_spec_of demo_specs ''SOP-1'' = Some (demo_spec ''SOP'' ''SOP-1'' ''S-SOP'' ''sop.csv'')" by code_simp+
  have m: "reference_member_of demo_reference_members ''CP-1'' =
      Some \<lparr>rm_source_id = ''S-CP'', rm_document_id = ''CP-1'', rm_filename = ''cp.csv'', rm_raw_bytes = raw_cp\<rparr>"
    "reference_member_of demo_reference_members ''IR-1'' =
      Some \<lparr>rm_source_id = ''S-IR'', rm_document_id = ''IR-1'', rm_filename = ''ir.csv'', rm_raw_bytes = raw_ir\<rparr>"
    "reference_member_of demo_reference_members ''SOP-1'' =
      Some \<lparr>rm_source_id = ''S-SOP'', rm_document_id = ''SOP-1'', rm_filename = ''sop.csv'', rm_raw_bytes = raw_sop\<rparr>"
    by code_simp+
  show ?thesis
    by (simp only: rfold.simps demo_rebuild_member[OF s(1) m(1)] demo_rebuild_member[OF s(2) m(2)]
        demo_rebuild_member[OF s(3) m(3)] sum.case fst_conv snd_conv)
      (simp add: built_documents_def demo_witnesses_def)
qed

section \<open>The completed references\<close>

definition final_claim :: "string \<Rightarrow> string \<Rightarrow> string \<Rightarrow> dict" where
  "final_claim role i h = [(''document_id'', JStr i), (''revision'', JStr ''B''), (''document_type'', JStr role),
     (''source_hash'', JStr h)]"

definition final_fields :: "string \<Rightarrow> string \<Rightarrow> dict" where
  "final_fields hc hs = [(''references'', JDict [(''SOP'', JDict (final_claim ''SOP'' ''SOP-1'' hs)),
     (''CONTROL_PLAN'', JDict (final_claim ''CONTROL_PLAN'' ''CP-1'' hc))])]"

definition derived_entries :: "string \<Rightarrow> string \<Rightarrow> string \<Rightarrow> json list" where
  "derived_entries role i h = map (derived_identity_entry role
     [(''document_type'', JStr role), (''document_id'', JStr i), (''revision'', JStr ''B''), (''source_hash'', JStr h)] h)
     [(''document_type'', role), (''source_hash'', h)]"

definition final_inspection :: "string \<Rightarrow> string \<Rightarrow> string \<Rightarrow> dict" where
  "final_inspection hc hi hs =
     [(''document_id'', JStr ''IR-1''), (''document_type'', JStr ''INSPECTION_RECORD''), (''revision'', JStr ''B''),
      (''status'', JStr ''APPROVED''), (''source_hash'', JStr hi),
      (''source'', JDict [(''filename'', JStr ''ir.csv''), (''relative_path'', JStr ''ir.csv''),
         (''size_bytes'', JInt (int (length raw_ir)))]),
      (''fields'', JDict (final_fields hc hs)),
      (''mapping_provenance'', JList (derived_entries ''CONTROL_PLAN'' ''CP-1'' hc @ derived_entries ''SOP'' ''SOP-1'' hs)),
      (''reference_contract_version'', JStr CONTROLLED_REFERENCE_CONTRACT_VERSION)]"

lemma sort_rotated:
  fixes k :: "'a \<Rightarrow> string \<times> string \<times> string"
  assumes "fst (k c) < fst (k d)" "fst (k d) < fst (k a)" "fst (k a) < fst (k b)"
  shows "sort_key k [a, b, c, d] = [c, d, a, b]"
proof -
  have l: "x < y" if "fst x < fst y" for x y :: "string \<times> string \<times> string" using that by (simp add: less_prod_def)
  have "k c < k d" "k d < k a" "k a < k b" using assms by (auto intro: l)
  moreover from this have "\<not> k a \<le> k c" "\<not> k a \<le> k d" "\<not> k b \<le> k c" "\<not> k b \<le> k d" by order+
  ultimately show ?thesis by (simp add: less_imp_le)
qed

lemma demo_provenance_sorted:
  "rsort_by (final_provenance_key demo_runtime)
     (derived_entries ''SOP'' ''SOP-1'' hs @ derived_entries ''CONTROL_PLAN'' ''CP-1'' hc)
   = Inr (derived_entries ''CONTROL_PLAN'' ''CP-1'' hc @ derived_entries ''SOP'' ''SOP-1'' hs)"
proof -
  let ?k = "\<lambda>v. (py_str demo_runtime (dget_or ''target'' (JStr []) (dict_of v)),
    py_str demo_runtime (dget_or ''mapping_kind'' (JStr []) (dict_of v)), jtext demo_runtime v)"
  let ?es = "derived_entries ''SOP'' ''SOP-1'' hs @ derived_entries ''CONTROL_PLAN'' ''CP-1'' hc"
  have t: "''fields.references.CONTROL_PLAN.document_type'' < ''fields.references.CONTROL_PLAN.source_hash''"
    "''fields.references.CONTROL_PLAN.source_hash'' < ''fields.references.SOP.document_type''"
    "''fields.references.SOP.document_type'' < ''fields.references.SOP.source_hash''" by code_simp+
  have k: "fst (?k (derived_identity_entry role target h (leaf, value))) = ''fields.references.'' @ role @ ''.'' @ leaf"
    for role target h leaf "value"
    by (simp add: derived_identity_entry_def dget_or_def)
  have "rsort_by (final_provenance_key demo_runtime) ?es = Inr (sort_key ?k ?es)"
    by (rule rsort_by_pure) (auto simp: final_provenance_key_def derived_entries_def derived_identity_entry_def)
  moreover have "sort_key ?k ?es = derived_entries ''CONTROL_PLAN'' ''CP-1'' hc @ derived_entries ''SOP'' ''SOP-1'' hs"
    unfolding derived_entries_def list.map append.simps
    by (rule sort_rotated; simp only: k append.simps t)
  ultimately show ?thesis by simp
qed

lemma demo_finalized_inspection:
  assumes "is_lower_sha hc" "is_lower_sha hs"
  shows "finalize_inspection_reference demo_runtime
      [(''SOP'', [(''document_type'', JStr ''SOP''), (''document_id'', JStr ''SOP-1''), (''revision'', JStr ''B''), (''source_hash'', JStr hs)]),
       (''CONTROL_PLAN'', [(''document_type'', JStr ''CONTROL_PLAN''), (''document_id'', JStr ''CP-1''), (''revision'', JStr ''B''), (''source_hash'', JStr hc)])]
      (demo_built ''INSPECTION_RECORD'' ''IR-1'' hi (length raw_ir) ''ir.csv'') = Inr (final_inspection hc hi hs)"
proof -
  have r: "rfold (finalize_role
      [(''SOP'', [(''document_type'', JStr ''SOP''), (''document_id'', JStr ''SOP-1''), (''revision'', JStr ''B''), (''source_hash'', JStr hs)]),
       (''CONTROL_PLAN'', [(''document_type'', JStr ''CONTROL_PLAN''), (''document_id'', JStr ''CP-1''), (''revision'', JStr ''B''), (''source_hash'', JStr hc)])])
      ([(''SOP'', demo_claim ''SOP-1''), (''CONTROL_PLAN'', demo_claim ''CP-1'')], []) FINALIZED_ROLES
    = Inr ([(''SOP'', JDict (final_claim ''SOP'' ''SOP-1'' hs)), (''CONTROL_PLAN'', JDict (final_claim ''CONTROL_PLAN'' ''CP-1'' hc))],
       derived_entries ''SOP'' ''SOP-1'' hs @ derived_entries ''CONTROL_PLAN'' ''CP-1'' hc)"
    using assms
    by (simp add: FINALIZED_ROLES_def finalize_role_def demo_claim_def final_claim_def derived_entries_def
        dget_def dget_or_def ditem_def)
  have d: "dget_or ''fields'' (JDict []) (dset ''reference_contract_version'' (JStr CONTROLLED_REFERENCE_CONTRACT_VERSION)
      (demo_built ''INSPECTION_RECORD'' ''IR-1'' hi (length raw_ir) ''ir.csv'')) = JDict (demo_fields ''INSPECTION_RECORD'')"
    "dget ''mapping_provenance'' (dset ''reference_contract_version'' (JStr CONTROLLED_REFERENCE_CONTRACT_VERSION)
      (demo_built ''INSPECTION_RECORD'' ''IR-1'' hi (length raw_ir) ''ir.csv'')) = JList []"
    "dget ''references'' (demo_fields ''INSPECTION_RECORD'')
      = JDict [(''SOP'', demo_claim ''SOP-1''), (''CONTROL_PLAN'', demo_claim ''CP-1'')]"
    by (simp_all add: demo_built_def demo_fields_def dget_def dget_or_def)
  show ?thesis
    unfolding finalize_inspection_reference_def Let_def d
    by (simp add: d r demo_provenance_sorted) (simp add: demo_built_def final_inspection_def demo_fields_def final_fields_def)
qed

definition finished_documents :: "string \<Rightarrow> string \<Rightarrow> string \<Rightarrow> dict list" where
  "finished_documents hc hi hs =
     [demo_built ''CONTROL_PLAN'' ''CP-1'' hc (length raw_cp) ''cp.csv'', final_inspection hc hi hs,
      demo_built ''SOP'' ''SOP-1'' hs (length raw_sop) ''sop.csv'']"

lemma demo_finalized:
  assumes "is_lower_sha hc" "is_lower_sha hs"
  shows "finalize_controlled_references demo_runtime (built_documents hc hi hs) = Inr (finished_documents hc hi hs)"
proof -
  let ?by = "[(JStr ''CP-1'', JDict (demo_built ''CONTROL_PLAN'' ''CP-1'' hc (length raw_cp) ''cp.csv'')),
     (JStr ''IR-1'', JDict (demo_built ''INSPECTION_RECORD'' ''IR-1'' hi (length raw_ir) ''ir.csv'')),
     (JStr ''SOP-1'', JDict (demo_built ''SOP'' ''SOP-1'' hs (length raw_sop) ''sop.csv''))]"
  have b: "rfold add_exact [] (built_documents hc hi hs) = Inr ?by"
    by (simp add: built_documents_def demo_built_def add_exact_def document_key_def ditem_def)
  have o: "rmap (observed_target ?by (dget ''references'' (demo_fields ''INSPECTION_RECORD''))) FINALIZED_ROLES
    = Inr [(''SOP'', [(''document_type'', JStr ''SOP''), (''document_id'', JStr ''SOP-1''), (''revision'', JStr ''B''), (''source_hash'', JStr hs)]),
       (''CONTROL_PLAN'', [(''document_type'', JStr ''CONTROL_PLAN''), (''document_id'', JStr ''CP-1''), (''revision'', JStr ''B''), (''source_hash'', JStr hc)])]"
    using assms
    by (simp add: FINALIZED_ROLES_def observed_target_def demo_fields_def demo_claim_def demo_built_def
        dget_def dget_or_def ditem_def)
  have f: "List.find approved_inspection (built_documents hc hi hs)
      = Some (demo_built ''INSPECTION_RECORD'' ''IR-1'' hi (length raw_ir) ''ir.csv'')"
    "\<And>x. replace_first approved_inspection x (built_documents hc hi hs) =
      [demo_built ''CONTROL_PLAN'' ''CP-1'' hc (length raw_cp) ''cp.csv'', x,
       demo_built ''SOP'' ''SOP-1'' hs (length raw_sop) ''sop.csv'']"
    by (simp_all add: built_documents_def demo_built_def approved_inspection_def dget_def dget_or_def)
  have d: "dget_or ''fields'' (JDict []) (demo_built ''INSPECTION_RECORD'' ''IR-1'' hi (length raw_ir) ''ir.csv'')
      = JDict (demo_fields ''INSPECTION_RECORD'')" by (simp add: demo_built_def dget_or_def)
  show ?thesis
    unfolding finalize_controlled_references_def b f
    by (simp only: rbind_simps option.case d as_dict.simps o demo_finalized_inspection[OF assms] f finished_documents_def)
qed

section \<open>The sealed context\<close>

definition hash_witness :: "string \<Rightarrow> string \<Rightarrow> string \<Rightarrow> string \<Rightarrow> string \<Rightarrow> string \<Rightarrow> reference_witness" where
  "hash_witness t i s raw p h = \<lparr>rw_source_id = s, rw_document_type = t, rw_document_id = i, rw_revision = ''B'',
     rw_filename = p, rw_relative_path = p, rw_source_hash = h, rw_raw_bytes = raw\<rparr>"

definition hash_witnesses :: "string \<Rightarrow> string \<Rightarrow> string \<Rightarrow> witness_table" where
  "hash_witnesses hc hi hs =
     [(''CONTROL_PLAN'', hash_witness ''CONTROL_PLAN'' ''CP-1'' ''S-CP'' raw_cp ''cp.csv'' hc),
      (''INSPECTION_RECORD'', hash_witness ''INSPECTION_RECORD'' ''IR-1'' ''S-IR'' raw_ir ''ir.csv'' hi),
      (''SOP'', hash_witness ''SOP'' ''SOP-1'' ''S-SOP'' raw_sop ''sop.csv'' hs)]"

definition hash_targets :: "string \<Rightarrow> string \<Rightarrow> (string \<times> dict) list" where
  "hash_targets hc hs =
     [(''CONTROL_PLAN'', demo_built ''CONTROL_PLAN'' ''CP-1'' hc (length raw_cp) ''cp.csv''),
      (''SOP'', demo_built ''SOP'' ''SOP-1'' hs (length raw_sop) ''sop.csv'')]"

definition hash_entry :: "string \<Rightarrow> string \<Rightarrow> string \<Rightarrow> dict" where
  "hash_entry t i h = [(''document_type'', JStr t), (''document_id'', JStr i), (''revision'', JStr ''B''), (''source_hash'', JStr h)]"

definition hash_registry :: "string \<Rightarrow> string \<Rightarrow> (string \<times> dict) list" where
  "hash_registry hc hs = [(''CONTROL_PLAN'', hash_entry ''CONTROL_PLAN'' ''CP-1'' hc), (''SOP'', hash_entry ''SOP'' ''SOP-1'' hs)]"

definition final_locator :: "string \<Rightarrow> string \<Rightarrow> string" where
  "final_locator role leaf = ''fields.references.'' @ role @ ''.'' @ leaf"

definition final_observed :: "string \<Rightarrow> string \<Rightarrow> dict" where
  "final_observed hc hs = [(''SOP'', JDict (final_claim ''SOP'' ''SOP-1'' hs)),
     (''CONTROL_PLAN'', JDict (final_claim ''CONTROL_PLAN'' ''CP-1'' hc))]"

definition sealed_pair :: "string \<Rightarrow> string \<Rightarrow> string \<Rightarrow> string \<Rightarrow> reference_witness \<Rightarrow> (string \<times> json) \<times> (string \<times> json)" where
  "sealed_pair role i h hi w =
     ((role, JDict (canonical_claim demo_runtime (final_claim role i h))),
      (role, role_evidence demo_runtime (hash_witness ''INSPECTION_RECORD'' ''IR-1'' ''S-IR'' raw_ir ''ir.csv'' hi) w
         (final_claim role i h) JNull (final_locator role ''document_id'') (final_locator role ''revision'')))"

lemma final_locators:
  "list_all (\<lambda>(role, leaf). mapping_locator (final_inspection hc hi hs) (''fields.references.'' @ role @ ''.'' @ leaf)
     = Inr (final_locator role leaf)) [(''SOP'', ''document_id''), (''SOP'', ''revision''),
       (''CONTROL_PLAN'', ''document_id''), (''CONTROL_PLAN'', ''revision'')]"
  by code_simp

lemma sealed_pairs:
  assumes "is_lower_sha hc" "is_lower_sha hs"
  shows "rmap (seal_role demo_runtime (final_inspection hc hi hs) (hash_registry hc hs) (hash_witnesses hc hi hs)
      (hash_targets hc hs) (final_observed hc hs)) REFERENCE_ROLES
    = Inr [sealed_pair ''CONTROL_PLAN'' ''CP-1'' hc hi (hash_witness ''CONTROL_PLAN'' ''CP-1'' ''S-CP'' raw_cp ''cp.csv'' hc),
        sealed_pair ''SOP'' ''SOP-1'' hs hi (hash_witness ''SOP'' ''SOP-1'' ''S-SOP'' raw_sop ''sop.csv'' hs)]"
proof -
  have e: "inspection_evidence role (final_inspection hc hi hs) = Inr (JDict
      [(''document_id'', JStr ''IR-1''), (''revision'', JStr ''B''), (''source_hash'', JStr hi),
       (''document_id_locator'', JStr (final_locator role ''document_id'')),
       (''revision_locator'', JStr (final_locator role ''revision''))])"
    if "role \<in> set REFERENCE_ROLES" for role
    using that final_locators[of hc hi hs]
    by (auto simp: inspection_evidence_def REFERENCE_ROLES_def final_inspection_def ditem_def)
  have v: "holder_claim_valid demo_runtime role (JDict (final_claim role i h))" if "is_lower_sha h" for role i h
    using that by (auto simp: holder_claim_valid_def final_claim_def REFERENCE_IDENTITY_KEYS_def keys_exactly_iff
        dget_def dget_or_def)
  show ?thesis
    using assms e[of "''SOP''"] e[of "''CONTROL_PLAN''"] v
    by (simp add: REFERENCE_ROLES_def seal_role_def hash_registry_def hash_targets_def hash_witnesses_def
        final_observed_def sealed_pair_def role_evidence_def hash_witness_def hash_entry_def demo_built_def
        metadata_agrees_def check_simps dget_def dget_or_def Let_def)
qed

lemma sealed_pair_printed:
  assumes "is_lower_sha h" "is_lower_sha hi" "ascii role" "ascii i"
    and "w = hash_witness role i s raw p h" "ascii s" "ascii p" "length raw \<le> MAX_REFERENCE_MEMBER_BYTES"
  shows "ascii_json (snd (fst (sealed_pair role i h hi w)))" "ascii_json (snd (snd (sealed_pair role i h hi w)))"
    "printable (snd (fst (sealed_pair role i h hi w)))" "printable (snd (snd (sealed_pair role i h hi w)))"
proof -
  have k: "ascii ''CONTROL_PLAN''" "ascii ''fields.references.''" "ascii ''.document_id''" "ascii ''.revision''"
    "ascii ''.''" "ascii ''document_id''" "ascii ''revision''" "ascii ''B''" "ascii ''IR-1''" "ascii ''RAW_BYTES#sha256''"
    "ascii ''document_type''" "ascii ''source_hash''" "ascii ''source_id''" "ascii ''filename''" "ascii ''relative_path''"
    "ascii ''size_bytes''" "ascii ''source_locator''" "ascii ''artifact_id''" "ascii ''inspection''" "ascii ''target''"
    "ascii ''document_id_locator''" "ascii ''revision_locator''" by code_simp+
  note a = assms(1,2)[THEN ascii_sha]
  have l: "ascii leaf \<Longrightarrow> ascii (final_locator role leaf)" for leaf
    unfolding final_locator_def ascii_append using assms(3) k(2,5) by blast
  show "ascii_json (snd (fst (sealed_pair role i h hi w)))" "ascii_json (snd (snd (sealed_pair role i h hi w)))"
    using assms(3-7) a
    by (simp_all add: sealed_pair_def role_evidence_def hash_witness_def canonical_claim_def final_claim_def
      target_evidence_def l k REFERENCE_IDENTITY_KEYS_def dget_def dget_or_def del: ascii_Cons)
  show "printable (snd (fst (sealed_pair role i h hi w)))"
    using text_values_printable[OF canonical_claim_texts] by (simp add: sealed_pair_def del: printable.simps)
  show "printable (snd (snd (sealed_pair role i h hi w)))"
    using assms(8) by (simp add: sealed_pair_def printable_role_evidence small_witness_def assms(5) hash_witness_def
      del: printable.simps)
qed

definition hash_documents :: "string \<Rightarrow> string \<Rightarrow> string \<Rightarrow> dict list" where
  "hash_documents hc hi hs =
     [final_inspection hc hi hs, demo_built ''CONTROL_PLAN'' ''CP-1'' hc (length raw_cp) ''cp.csv'',
      demo_built ''SOP'' ''SOP-1'' hs (length raw_sop) ''sop.csv'']"

lemma ascii_json_dset: "ascii_json (JDict d) \<Longrightarrow> ascii k \<Longrightarrow> ascii_json v \<Longrightarrow> ascii_json (JDict (dset k v d))"
  by (induction k v d rule: dset.induct) auto

lemma ascii_order_provenance: "ascii_json (JDict d) \<Longrightarrow> ascii_json (JDict (order_provenance R d))"
proof (cases "dget ''mapping_provenance'' d")
  case (JList es)
  assume d: "ascii_json (JDict d)"
  then have "\<forall>e \<in> set es. ascii_json e"
    using JList by (auto simp: dget_def dget_or_def list_all_iff dest!: map_of_SomeD split: option.splits)
  then have "ascii_json (JList (sort_key (provenance_key R) es))" by (simp add: list_all_iff)
  moreover have "ascii ''mapping_provenance''" by code_simp
  ultimately have "ascii_json (JDict (dset ''mapping_provenance'' (JList (sort_key (provenance_key R) es)) d))"
    using d by (intro ascii_json_dset)
  then show ?thesis by (simp add: order_provenance_def JList del: ascii_json.simps)
qed (simp_all add: order_provenance_def del: ascii_json.simps)

lemma ascii_final_parts:
  assumes "ascii hc" "ascii hi" "ascii hs"
  shows "ascii_json (JDict (demo_built ''CONTROL_PLAN'' ''CP-1'' hc n ''cp.csv''))"
    "ascii_json (JDict (demo_built ''SOP'' ''SOP-1'' hs n' ''sop.csv''))"
    "ascii_json (JDict (final_inspection hc hi hs))"
  using assms
  by (simp_all add: demo_built_def demo_fields_def final_inspection_def final_fields_def final_claim_def
      derived_entries_def derived_identity_entry_def DERIVED_REFERENCE_IDENTITY_CONTRACT_VERSION_def
      CONTROLLED_REFERENCE_CONTRACT_VERSION_def dget_def dget_or_def)

lemma hash_sealed:
  assumes h: "is_lower_sha hc" "is_lower_sha hi" "is_lower_sha hs"
  shows "\<exists>s. seal_from_registry demo_runtime (final_inspection hc hi hs) (hash_registry hc hs)
    (hash_witnesses hc hi hs) (hash_targets hc hs) = Inr s"
proof -
  let ?i = "final_inspection hc hi hs" and ?ws = "hash_witnesses hc hi hs" and ?ts = "hash_targets hc hs"
  let ?p = "sealed_pair ''CONTROL_PLAN'' ''CP-1'' hc hi (hash_witness ''CONTROL_PLAN'' ''CP-1'' ''S-CP'' raw_cp ''cp.csv'' hc)"
  let ?q = "sealed_pair ''SOP'' ''SOP-1'' hs hi (hash_witness ''SOP'' ''SOP-1'' ''S-SOP'' raw_sop ''sop.csv'' hs)"
  have k: "witness_keys_complete ?ws" "set (map fst ?ts) = set REFERENCE_ROLES" by code_simp+
  have m: "seq_checks
        [require (metadata_agrees (the (map_of ?ws ''INSPECTION_RECORD'')) ?i)
           (ValueError ''Inspection document differs from its raw witness''),
         require (source_agrees (the (map_of ?ws ''INSPECTION_RECORD'')) ?i)
           (ValueError ''Inspection source metadata differs from raw witness''),
         require (dget ''reference_contract_version'' ?i = JStr CONTROLLED_REFERENCE_CONTRACT_VERSION)
           (ValueError ''Inspection controlled reference contract is missing'')] = Inr ()"
    "as_dict (dget_or ''fields'' (JDict []) ?i) = Inr (final_fields hc hs)"
    "require (is_dict (dget ''references'' (final_fields hc hs)))
       (ValueError ''Inspection controlled reference observations are missing'') = Inr ()"
    "dict_of (dget ''references'' (final_fields hc hs)) = final_observed hc hs"
    "ditem ''document_id'' ?i = Inr (JStr ''IR-1'')" by code_simp+
  have f: "?i # map (\<lambda>role. the (map_of ?ts role)) REFERENCE_ROLES = hash_documents hc hi hs" by code_simp
  have "ok (rsort_by controlled_document_key (map (order_provenance demo_runtime) (hash_documents hc hi hs)))"
  proof (rule ok_rsort_by)
    fix d assume "d \<in> set (map (order_provenance demo_runtime) (hash_documents hc hi hs))"
    moreover have "list_all (\<lambda>d. ok (controlled_document_key d)) (map (order_provenance demo_runtime) (hash_documents hc hi hs))"
      by code_simp
    ultimately show "ok (controlled_document_key d)" by (auto simp: list_all_iff)
  qed
  then obtain ds where ds: "rsort_by controlled_document_key
      (map (order_provenance demo_runtime) (hash_documents hc hi hs)) = Inr ds" by (auto simp: ok_iff)
  have "list_all (\<lambda>d. ascii_json (JDict d)) (hash_documents hc hi hs)"
    using ascii_final_parts[OF h[THEN ascii_sha]] by (simp add: hash_documents_def del: ascii_json.simps)
  then have "\<forall>d \<in> set ds. ascii_json (JDict d)"
    using rsort_by_Inr[OF ds] by (auto simp: list_all_iff ascii_order_provenance simp del: ascii_json.simps)
  then have "ascii_json (JList (map JDict ds))" by (simp add: list_all_iff)
  note dj = ascii_bytes[OF this, of demo_runtime]
  have "ascii_json (reference_set_payload t (map snd ?ws))" for t
    using h[THEN ascii_sha] ascii_sha[OF sha.digest_lower_sha]
    by (simp add: reference_set_payload_def hash_witnesses_def hash_witness_def witness_item_def list_all_iff
        CONTROLLED_REFERENCE_CONTRACT_VERSION_def)
  note sh = ascii_domain_hash[OF this]
  have a: "ascii ''CONTROL_PLAN''" "ascii ''CP-1''" "ascii ''S-CP''" "ascii ''cp.csv''" "ascii ''SOP''" "ascii ''SOP-1''"
    "ascii ''S-SOP''" "ascii ''sop.csv''" "length raw_cp \<le> MAX_REFERENCE_MEMBER_BYTES"
    "length raw_sop \<le> MAX_REFERENCE_MEMBER_BYTES" by code_simp+
  note p = sealed_pair_printed[OF h(1,2) a(1,2) refl a(3,4,9)]
  note q = sealed_pair_printed[OF h(3,2) a(5,6) refl a(7,8,10)]
  have n: "fst ?p = (''CONTROL_PLAN'', snd (fst ?p))" "snd ?p = (''CONTROL_PLAN'', snd (snd ?p))"
    "fst ?q = (''SOP'', snd (fst ?q))" "snd ?q = (''SOP'', snd (snd ?q))" by (simp_all add: sealed_pair_def)
  have aj: "ascii_json (JDict [(''CONTROL_PLAN'', x), (''SOP'', y)])" if "ascii_json x" "ascii_json y" for x y
    using that a(1,5) by simp
  have pj: "printable (JDict [(''CONTROL_PLAN'', x), (''SOP'', y)])" if "printable x" "printable y" for x y
    using that by simp
  have "ascii_json (JDict [fst ?p, fst ?q])" "ascii_json (JDict [snd ?p, snd ?q])"
    by (subst n(1), subst n(3), rule aj[OF p(1) q(1)]) (subst n(2), subst n(4), rule aj[OF p(2) q(2)])
  note b = this[THEN ascii_bytes, of demo_runtime]
  have "printable (JDict [fst ?p, fst ?q])" "printable (JDict [snd ?p, snd ?q])"
    by (subst n(1), subst n(3), rule pj[OF p(3) q(3)]) (subst n(2), subst n(4), rule pj[OF p(4) q(4)])
  note c = this[THEN float_reader.strict_json_loads_jtext[OF demo_reader_runtime refl refl]]
  show ?thesis
    unfolding seal_from_registry_def Let_def
    by (simp only: k simp_thms if_True if_False m rbind_simps f ds dj sh sealed_pairs[OF h(1,3)] list.map b c) blast
qed

text \<open>The approved documents are the three rebuilt ones.\<close>

definition hash_approved :: "string \<Rightarrow> string \<Rightarrow> string \<Rightarrow> (string \<times> dict) list" where
  "hash_approved hc hi hs =
     [(''CONTROL_PLAN'', demo_built ''CONTROL_PLAN'' ''CP-1'' hc (length raw_cp) ''cp.csv''),
      (''INSPECTION_RECORD'', final_inspection hc hi hs),
      (''SOP'', demo_built ''SOP'' ''SOP-1'' hs (length raw_sop) ''sop.csv'')]"

lemma hash_context_sealed:
  assumes h: "is_lower_sha hc" "is_lower_sha hi" "is_lower_sha hs"
  shows "seal_controlled_reference_context demo_runtime (finished_documents hc hi hs) (hash_witnesses hc hi hs)
    = seal_from_registry demo_runtime (final_inspection hc hi hs) (hash_registry hc hs)
        (hash_witnesses hc hi hs) (hash_targets hc hs)"
proof -
  let ?ws = "hash_witnesses hc hi hs"
  have k: "witness_keys_complete ?ws" by code_simp
  have a: "rfold (add_approved ?ws) [] (finished_documents hc hi hs) = Inr (hash_approved hc hi hs)" by code_simp
  have i: "map_of (hash_approved hc hi hs) ''INSPECTION_RECORD'' = Some (final_inspection hc hi hs)" by code_simp
  have c: "require (set (map fst (hash_approved hc hi hs)) = set (map fst ?ws))
      (ValueError ''controlled reference documents differ from raw witness registry'') = Inr ()"
    "seq_checks (map (check_rebuilt ?ws) (hash_approved hc hi hs)) = Inr ()"
    "filter (\<lambda>td. fst td \<in> set REFERENCE_ROLES) (hash_approved hc hi hs) = hash_targets hc hs" by code_simp+
  have r: "rmap (registry_entry demo_runtime (hash_approved hc hi hs)) REFERENCE_ROLES = Inr (hash_registry hc hs)"
    using h by (simp add: registry_entry_def REFERENCE_ROLES_def hash_approved_def hash_registry_def hash_entry_def
        demo_built_def ditem_def dget_def dget_or_def)
  show ?thesis
    unfolding seal_controlled_reference_context_def
    by (simp only: k simp_thms if_False a rbind_simps i option.case c r)
qed

section \<open>A prepared context the gate accepts\<close>

lemma sealed_hash_context:
  assumes h: "is_lower_sha hc" "is_lower_sha hi" "is_lower_sha hs"
    and s: "seal_from_registry demo_runtime (final_inspection hc hi hs) (hash_registry hc hs)
      (hash_witnesses hc hi hs) (hash_targets hc hs) = Inr s"
  shows "status_of (rule_inspection_current_references demo_runtime (hash_case hc hs hi) demo_impact (Some (rs_context s)))
    = Some PASS"
proof -
  let ?ws = "hash_witnesses hc hi hs"
  have small: "\<forall>w \<in> set (map snd ?ws). small_witness w"
    by (simp add: hash_witnesses_def hash_witness_def small_witness_def MAX_REFERENCE_MEMBER_BYTES_def)
  have o: "observed_claims (final_inspection hc hi hs) = final_observed hc hs" by code_simp
  from seal_from_registryE[OF demo_reader_runtime s small] obtain iw where
    iw: "map_of ?ws ''INSPECTION_RECORD'' = Some iw" and x: "rc_sealed (rs_context s)"
    "rc_contract_version (rs_context s) = REFERENCE_CONTRACT_VERSION"
    "rc_inspection_document_id (rs_context s) = rw_document_id iw"
    "sealed_values demo_runtime iw ?ws (final_observed hc hs) (rs_context s)" unfolding o by metis
  have w: "iw = hash_witness ''INSPECTION_RECORD'' ''IR-1'' ''S-IR'' raw_ir ''ir.csv'' hi"
    using iw by (simp add: hash_witnesses_def)
  have c: "canonical_claim demo_runtime claim = [(''document_type'', JStr role),
      (''document_id'', JStr i), (''revision'', JStr ''B''), (''source_hash'', JStr h)]"
    if "JDict (final_claim role i h) = JDict claim" for role i h claim
    using that by (auto simp: canonical_claim_def REFERENCE_IDENTITY_KEYS_def final_claim_def dget_def dget_or_def)
  from x(4) show ?thesis
  proof (rule sealed_values_read)
    fix claim claim' wc wc' l l' t m m' t'
    assume "dget ''CONTROL_PLAN'' (final_observed hc hs) = JDict claim" "dget ''SOP'' (final_observed hc hs) = JDict claim'"
    then have cc: "JDict (final_claim ''CONTROL_PLAN'' ''CP-1'' hc) = JDict claim" "JDict (final_claim ''SOP'' ''SOP-1'' hs) = JDict claim'"
      by (simp_all add: final_observed_def dget_def dget_or_def)
    assume v: "rc_references (rs_context s) = JDict [(''CONTROL_PLAN'', JDict (sort_key fst (canonical_claim demo_runtime claim))),
       (''SOP'', JDict (sort_key fst (canonical_claim demo_runtime claim')))]"
      "rc_evidence (rs_context s) = JDict [(''CONTROL_PLAN'', JDict [(''inspection'', JDict (sort_key fst (inspection_items iw l l'))),
        (''target'', t)]), (''SOP'', JDict [(''inspection'', JDict (sort_key fst (inspection_items iw m m'))), (''target'', t')])]"
    have i: "inspection_items iw k k' = [(''document_id'', JStr ''IR-1''), (''revision'', JStr ''B''), (''source_hash'', JStr hi),
          (''document_id_locator'', JStr k), (''revision_locator'', JStr k')]" for k k'
      by (simp add: inspection_items_def w hash_witness_def)
    have "rc_inspection_document_id (rs_context s) = ''IR-1''" using x(3) by (simp add: w hash_witness_def)
    then have "\<exists>cv g. rs_context s = \<lparr>rc_contract_version = cv, rc_reference_set_hash = g,
        rc_inspection_document_id = ''IR-1'', rc_references = rc_references (rs_context s),
        rc_evidence = rc_evidence (rs_context s), rc_sealed = True\<rparr>"
      using x(1) by (cases "rs_context s") simp
    then obtain cv g where e: "rs_context s = \<lparr>rc_contract_version = cv, rc_reference_set_hash = g,
        rc_inspection_document_id = ''IR-1'', rc_references = rc_references (rs_context s),
        rc_evidence = rc_evidence (rs_context s), rc_sealed = True\<rparr>" by blast
    show ?thesis by (subst e) (unfold v c[OF cc(1)] c[OF cc(2)] i, rule hash_r5)
  qed
qed

lemma demo_context_prepared:
  "\<exists>s. prepare_controlled_reference_context demo_runtime demo_build demo_reference_bundle = Inr s
     \<and> status_of (rule_inspection_current_references demo_runtime
           (hash_case (sha256_hex raw_cp) (sha256_hex raw_sop) (sha256_hex raw_ir)) demo_impact (Some (rs_context s))) = Some PASS"
proof -
  let ?hc = "sha256_hex raw_cp" and ?hi = "sha256_hex raw_ir" and ?hs = "sha256_hex raw_sop"
  have h: "is_lower_sha ?hc" "is_lower_sha ?hi" "is_lower_sha ?hs" by (rule sha.digest_lower_sha)+
  obtain s where s: "seal_from_registry demo_runtime (final_inspection ?hc ?hi ?hs) (hash_registry ?hc ?hs)
      (hash_witnesses ?hc ?hi ?hs) (hash_targets ?hc ?hs) = Inr s" using hash_sealed[OF h] by blast
  have w: "demo_witnesses = hash_witnesses ?hc ?hi ?hs"
    by (simp add: demo_witnesses_def hash_witnesses_def demo_witness_def hash_witness_def)
  have d: "map dict_of (list_of (dget ''documents'' demo_reference_manifest)) = demo_specs" by code_simp
  have i: "spec_texts ''document_id'' demo_specs = [''CP-1'', ''IR-1'', ''SOP-1'']"
    "rb_members demo_reference_bundle = demo_reference_members"
    "sort (remdups [''CP-1'', ''IR-1'', ''SOP-1'']) = [''CP-1'', ''IR-1'', ''SOP-1'']"
    "(set [''CP-1'', ''IR-1'', ''SOP-1''] = set (map rm_document_id demo_reference_members)) = True" by code_simp+
  have "prepare_controlled_reference_context demo_runtime demo_build demo_reference_bundle = Inr s"
    unfolding prepare_controlled_reference_context_def demo_reference_bundle_valid rbind_simps Let_def d i
    by (simp only: simp_thms if_False demo_rebuilt rbind_simps fst_conv snd_conv demo_finalized[OF h(1,3)] w
        hash_context_sealed[OF h] s)
  with sealed_hash_context[OF h s] show ?thesis by blast
qed

end
