(* ===== verification/Reference_Properties.thy ===== *)
theory Reference_Properties
  imports Demo_References Evidence_Properties
begin

text \<open>
  What the controlled references of a run rest on: every context prepared from a bundle satisfies
  the contract of the engine, and a passed QCI-R005 is about documents rebuilt from its bytes.
\<close>

section \<open>References that agree\<close>

lemma py_eq_items_member:
  "py_eq_items d e \<Longrightarrow> (k, v) \<in> set d \<Longrightarrow> \<exists>w. map_of e k = Some w \<and> py_eq v w"
  by (induction d arbitrary: e) (auto split: option.splits)

lemma py_eq_text:
  assumes "py_eq (JDict d) (JDict e)" and "dget k d = JStr s"
  shows "dget k e = JStr s"
proof -
  from assms(2) have "(k, JStr s) \<in> set d" by (auto simp: dget_def dget_or_def dest: map_of_SomeD split: option.splits)
  with assms(1) obtain w where "map_of e k = Some w" "py_eq (JStr s) w" using py_eq_items_member by fastforce
  then show ?thesis by (simp add: dget_def dget_or_def)
qed

lemma validated_reference_texts:
  assumes "validate_document R m rm doc = Inr u" and "dget ''references'' (doc_fields doc) = JDict refs"
    and "set (map fst refs) = {''SOP'', ''CONTROL_PLAN''}" and "role \<in> set REFERENCE_ROLES"
  obtains claim where "dget role refs = JDict claim" "\<And>k. k \<in> set REFERENCE_IDENTITY_KEYS \<Longrightarrow> is_str (dget k claim)"
proof -
  have l: "\<not> keys_exactly [''LEGACY_UNATTESTED''] refs"
    using assms(3) by (auto simp: keys_exactly_iff)
  from assms(1) have "validate_references R rm doc = Inr ()" by (auto simp: validate_document_def check_simps)
  then have r: "\<forall>ri \<in> set refs. validate_reference_identity doc ri = Inr ()"
    using l assms(2) by (auto simp: validate_references_def Let_def check_simps seq_checks_Inr)
  have "role \<in> set (map fst refs)" using assms(3,4) by (auto simp: REFERENCE_ROLES_def)
  then obtain v where v: "map_of refs role = Some v"
    using map_of_eq_None_iff[of refs role] by (cases "map_of refs role") auto
  with r have i: "validate_reference_identity doc (role, v) = Inr ()" by (auto dest: map_of_SomeD)
  then obtain claim where c: "v = JDict claim" by (auto simp: validate_reference_identity_def check_simps elim: is_dictE)
  show thesis
  proof (rule that)
    show "dget role refs = JDict claim" using v c by (simp add: dget_def dget_or_def)
    show "is_str (dget k claim)" if "k \<in> set REFERENCE_IDENTITY_KEYS" for k
      using i that by (auto simp: validate_reference_identity_def check_simps seq_checks_Inr c dest!: bspec[of _ _ k] elim: nonblank_strE)
  qed
qed

lemma rebuilt_from_witness:
  assumes "witness_rebuilt build specs ms w" and "dget ''document_id'' doc = JStr (rw_document_id w)"
    "dget ''revision'' doc = JStr (rw_revision w)" "dget ''source_hash'' doc = JStr (rw_source_hash w)"
  shows "rebuilt_from build specs ms doc"
  using assms unfolding witness_rebuilt_def rebuilt_from_def metadata_agrees_def by metis

text \<open>A document that agrees with a sealed claim agrees with the witness of the claim.\<close>

lemma current_reference_rebuilt:
  assumes c: "current_reference R x refs role target" and role: "dget role refs = JDict claim"
    "\<And>k. k \<in> set REFERENCE_IDENTITY_KEYS \<Longrightarrow> is_str (dget k claim)"
    and x: "dget role (dict_of (rc_references x)) = JDict (sort_key fst (canonical_claim R observed))"
    and w: "claim_of_witness w (JDict observed)" "witness_rebuilt build specs ms w"
  shows "rebuilt_from build specs ms target"
proof -
  have d: "distinct (map fst (canonical_claim R observed))"
    using canonical_claim_texts by (simp add: text_values_def)
  have k: "dget k target = JStr (py_str R (dget k observed))" if "k \<in> set REFERENCE_IDENTITY_KEYS" for k
  proof -
    from role(2)[OF that] obtain s where s: "dget k claim = JStr s" by (auto elim: is_strE)
    from c role(1) x have "py_eq (JDict claim) (JDict (sort_key fst (canonical_claim R observed)))"
      "py_eq (JDict claim) (target_identity target)" by (simp_all add: current_reference_def del: py_eq.simps)
    from py_eq_text[OF this(1) s] py_eq_text[OF this(2)[unfolded target_identity_def] s]
    show ?thesis
      using that unfolding dget_sort[OF d]
      by (auto simp: canonical_claim_def REFERENCE_IDENTITY_KEYS_def dget_def dget_or_def)
  qed
  show ?thesis
    by (rule rebuilt_from_witness[OF w(2)])
      (use w(1) k[of "''document_id''"] k[of "''revision''"] k[of "''source_hash''"]
       in \<open>simp_all add: claim_of_witness_def REFERENCE_IDENTITY_KEYS_def\<close>)
qed

section \<open>The properties\<close>

text \<open>
  C18. When QCI-R005 passes with a context prepared from a bundle, the approved SOP, control plan
  and inspection record of the case are each a document that was rebuilt from the bytes of a
  member of the bundle under a specification of its manifest: same identifier, same revision, and the digest of those bytes as its hash.
\<close>

theorem passed_references_rest_on_bytes:
  assumes R: "float_reader (rt_float_repr R) (rt_float_of_text R)"
    and b: "make_reference_bundle R manifest ms = Inr b"
    and p: "prepare_controlled_reference_context R build b = Inr s"
    and v: "validate_case R v = Inr ()"
    and r: "status_of (rule_inspection_current_references R (dict_of v) plan (Some (rs_context s))) = Some PASS"
  shows "list_all (\<lambda>t. rebuilt_from build (bundle_specs R b) (rb_members b) (approved_document v t)) PACK_TYPES"
proof -
  let ?x = "rs_context s" and ?ir = "approved_document v ''INSPECTION_RECORD''"
  from r obtain f where "rule_inspection_current_references R (dict_of v) plan (Some ?x) = Inr f" "f_status f = PASS"
    by (rule status_of_SomeE)
  from rule_inspection_current_references_pass[OF v this] obtain refs where
    refs: "dget ''references'' (doc_fields ?ir) = JDict refs" "set (map fst refs) = {''SOP'', ''CONTROL_PLAN''}"
    and c: "current_reference R ?x refs ''SOP'' (approved_document v ''SOP'')"
      "current_reference R ?x refs ''CONTROL_PLAN'' (approved_document v ''CONTROL_PLAN'')"
    and d: "inspection_differs ?x (dict_of (rc_evidence ?x)) ?ir = Inr False" by auto
  from R p bundle_member_sizes[OF b] obtain iw ws observed where sv: "sealed_values R iw ws observed ?x"
    and i: "rc_inspection_document_id ?x = rw_document_id iw" "witness_rebuilt build (bundle_specs R b) (rb_members b) iw"
    and w: "\<forall>role \<in> set REFERENCE_ROLES. \<exists>w. witness_rebuilt build (bundle_specs R b) (rb_members b) w \<and> claim_of_witness w (dget role observed)"
    by (rule prepared_referencesE) (rule that; assumption)
  have "''INSPECTION_RECORD'' \<in> set REQUIRED_DOCUMENT_TYPES" by (simp add: REQUIRED_DOCUMENT_TYPES_def)
  note valid = approved_document_valid[OF v this]
  have "rebuilt_from build (bundle_specs R b) (rb_members b) ?ir"
    using d sealed_inspection_differs[OF sv i(1)] by (intro rebuilt_from_witness[OF i(2)]) auto
  moreover have "rebuilt_from build (bundle_specs R b) (rb_members b) (approved_document v role)"
    if role: "role \<in> set REFERENCE_ROLES" for role
  proof -
    from valid refs role obtain claim where claim: "dget role refs = JDict claim"
      "\<And>k. k \<in> set REFERENCE_IDENTITY_KEYS \<Longrightarrow> is_str (dget k claim)" by (rule validated_reference_texts) (rule that; assumption)
    from w role obtain w where w: "witness_rebuilt build (bundle_specs R b) (rb_members b) w" "claim_of_witness w (dget role observed)" by blast
    from sv role obtain oc where oc: "dget role observed = JDict oc"
      "dget role (dict_of (rc_references ?x)) = JDict (sort_key fst (canonical_claim R oc))"
      by (elim sealed_values_read) (auto simp: REFERENCE_ROLES_def dget_def dget_or_def)
    have "current_reference R ?x refs role (approved_document v role)" using c role by (auto simp: REFERENCE_ROLES_def)
    from current_reference_rebuilt[OF this claim oc(2) w(2)[unfolded oc(1)] w(1)] show ?thesis .
  qed
  ultimately show ?thesis by (simp add: PACK_TYPES_def REFERENCE_ROLES_def)
qed

theorem passed_references_rest_on_bytes_witness:
  "list_all (\<lambda>t. rebuilt_from demo_build demo_specs demo_reference_members (approved_document
      (JDict (hash_case (sha256_hex raw_cp) (sha256_hex raw_sop) (sha256_hex raw_ir))) t)) PACK_TYPES"
proof -
  have demo_bundle_specs: "bundle_specs demo_runtime demo_reference_bundle = demo_specs"
    unfolding bundle_specs_def demo_reference_bundle_valid sum.case by code_simp
  have m: "rb_members demo_reference_bundle = demo_reference_members" by (simp add: demo_reference_bundle_def)
  obtain s where s: "prepare_controlled_reference_context demo_runtime demo_build demo_reference_bundle = Inr s"
    "status_of (rule_inspection_current_references demo_runtime
       (hash_case (sha256_hex raw_cp) (sha256_hex raw_sop) (sha256_hex raw_ir)) demo_impact (Some (rs_context s))) = Some PASS"
    using demo_context_prepared by blast
  have "validate_case demo_runtime (JDict (hash_case (sha256_hex raw_cp) (sha256_hex raw_sop) (sha256_hex raw_ir))) = Inr ()"
    by (intro hash_case_valid sha.digest_lower_sha)
  from passed_references_rest_on_bytes[OF demo_reader_runtime demo_reference_bundle_made s(1) this, unfolded dict_of.simps, OF s(2)]
  show ?thesis by (simp only: demo_bundle_specs m)
qed



end
