(* ===== verification/Spec2Isabelle.thy ===== *)
theory Spec2Isabelle
  imports Loader_Properties Rule_Properties Engine_Properties Evidence_Properties Approval_Properties
    Authenticity_Properties Workflow_Properties Resolution_Properties Reader_Properties
    Team_Properties Reference_Properties
begin

text \<open>
  A verification library for QualityCI, a checker of engineering-change cases
  (\<open>src/src/qualityci\<close>).

  The program reads a case as JSON: one change event and the controlled documents it affects.
  \<open>loader.py\<close> migrates old versions, validates the case and hashes its canonical form;
  \<open>impact.py\<close> plans what the event reaches; \<open>rules.py\<close> holds seven rules, each of which answers with
  one finding; \<open>engine.py\<close> runs them, computes the run identity and builds the \<open>RunResult\<close> of
  \<open>models.py\<close>.  Two rules only pass on evidence sealed outside the JSON: the referenced artifacts
  (\<open>controlled_references.py\<close>) and the validation reports (\<open>validation_evidence.py\<close>).

  Data.  \<open>Json_Value\<close> is what \<open>json.load\<close> returns: a dict is an association list in insertion order
  whose keys are distinct where the code relies on it, an int is unbounded, a float is opaque with
  its three tests as parameters of the record \<open>runtime\<close>.  That record also holds what the code
  takes from outside the repository: NFKC folding, the shortest float text, the JSON text of
  floats.  \<open>Json_Text\<close> prints JSON as \<open>json.dumps\<close> with the two settings the code uses, \<open>Py_Text\<close>
  models strings and dates, \<open>Sha256\<close> computes the digest on 32-bit words.  \<open>Messages\<close> holds the
  texts of the findings.  An exception of the code is the left side of a sum (\<open>Prelude\<close>), so each
  \<open>raise\<close> and each early return is a branch.

  Loader.
  \<^item> \<open>Loader_Core\<close>: contract constants, identities, dates and small checks.
  \<^item> \<open>Loader_Validate\<close>: \<open>validate_case\<close> and the checks of events, documents, rows, waivers and
    validation scopes, in the order of the code.
  \<^item> \<open>Loader_Canonical\<close>: \<open>canonical_case_projection\<close>, \<open>canonical_payload\<close>, \<open>canonical_hash\<close>.
  \<^item> \<open>Loader_Migration\<close>: \<open>migrate_legacy_relationships\<close> with its report, \<open>prepare_case\<close>.
  \<^item> \<open>Loader_Mutation\<close>: \<open>apply_mutation\<close> and its frame.
  \<^item> \<open>Case_Facts\<close>, \<open>Canonical_Facts\<close>, \<open>Migration_Facts\<close>, \<open>Canonical_Total\<close>: what a validated case
    provides, the stability of the canonical form and when it exists.
  \<^item> \<open>Loader_Properties\<close>: C1 to C6.

  Rules and engine.
  \<^item> \<open>Impact\<close>, \<open>Rule_Results\<close>, \<open>Run_Result\<close>: \<open>build_impact_plan\<close> and the data of \<open>models.py\<close> with
    the checks of its constructors.
  \<^item> \<open>Rules_Common\<close>, \<open>Rules_Relations\<close>, \<open>Rules_Control\<close>, \<open>Rules_Evidence\<close>: the shared helpers and
    the seven rules, each branch with its finding.
  \<^item> \<open>Relations_Sound\<close>, \<open>Specs_Sound\<close>, \<open>Gates_Sound\<close>: when each rule passes, as a statement about
    the case that does not mention the loops of the rule.
  \<^item> \<open>Rules_Facts\<close>, \<open>Rules_Total\<close>, \<open>Gates_Total\<close>: the rules return on every regular case.
  \<^item> \<open>Rule_Contract\<close>: the interface the engine relies on, as the locales \<open>rule_label\<close> and
    \<open>rule_contract\<close> (a finding has the rule's id, cites evidence, is LOW exactly when it passes),
    interpreted on each of the seven rules.
  \<^item> \<open>Engine\<close>, \<open>Engine_Facts\<close>, \<open>Order_Facts\<close>: \<open>_evaluate_case\<close>, the run identities, the legacy
    projection; what a result says, that it exists, that the document order is irrelevant.
  \<^item> \<open>Rule_Properties\<close>: C10 to C16.  \<open>Engine_Properties\<close>: C7 to C9, C17 and C19.
  \<^item> \<open>Demo_Runtime\<close>, \<open>Demo_Case\<close>, \<open>Demo_Run\<close>: a runtime, a case and sealed contexts on which all
    definitions are evaluated, for the witnesses.

  Validation evidence.
  \<^item> \<open>Strict_Json\<close>: the strict JSON reader of \<open>loader.py\<close> and the canonical bytes of
    \<open>validation_evidence.py\<close>; \<open>Strict_Json_Facts\<close>: it reads back what the printer writes.  The
    contract on floats is the locale \<open>float_reader\<close>, which extends \<open>float_printer\<close>.
  \<^item> \<open>Validation_Evidence\<close>, \<open>Validation_Bundle\<close>: subject and scope of a case, members and bundles,
    the capture of files and the sealing of a bundle into a context.
  \<^item> \<open>Validation_Sound\<close>, \<open>Validation_Total\<close>, \<open>Demo_Evidence\<close>: what a sealed context holds, when
    sealing succeeds, what the hash of a set identifies.  \<open>Evidence_Properties\<close>: C20, C22, C23.

  Controlled references.
  \<^item> \<open>Controlled_References\<close>: \<open>controlled_references.py\<close>, the manifest and the members of a reference
    pack, the capture of its files, and the sealing of the rebuilt documents into the context of a run.
  \<^item> \<open>Builder_References\<close>: the step of \<open>case_builder.py\<close> that completes the references of the inspection
    record, the context of a captured bundle, and the runs of \<open>engine.py\<close> from captured bundles.  How a
    document is rebuilt from the bytes of its file is the parameter \<open>build\<close>.
  \<^item> \<open>Reference_Sound\<close>: what a context prepared from a bundle holds: every claim of it, and the
    inspection record itself, is about a document rebuilt from captured bytes, and the context meets
    the contract of the engine.  \<open>Demo_References\<close>: a bundle, a builder and a case for the witnesses.
    \<open>Reference_Properties\<close>: C18 and C21.

  Authorizations and approvals.
  \<^item> \<open>Authorization_Records\<close>: the records of \<open>authorization_records.py\<close>, their sealed bundles and contexts.
  \<^item> \<open>Approval_Subject\<close>: \<open>approval_subject.py\<close>, the subject an approval is bound to and the assertions
    over it; \<open>Approval_Facts\<close>, \<open>Demo_Approval\<close>, \<open>Approval_Properties\<close>: C24 to C29.
  \<^item> \<open>Authenticity\<close>: \<open>authorization_authenticity.py\<close>, the signed records under a signed trust snapshot.
    The Ed25519 primitive is the parameter \<open>signature_check\<close>.  \<open>Authenticity_Facts\<close>,
    \<open>Demo_Authenticity\<close>, \<open>Authenticity_Properties\<close>: C30 and C31.

  Workflow.
  \<^item> \<open>Artifact_Context\<close>: the part of \<open>revision_artifacts.py\<close> behind the rebuilt context, up to
    \<open>resolve_case_from_artifact_context\<close>; \<open>Resolution_Properties\<close>: C36.
  \<^item> \<open>Workflow_Gate\<close>, \<open>Workflow_Replay\<close>: \<open>workflow.py\<close>, the resolutions, the gate, the attestation, the
    two runs with the baseline, and \<open>replay_with_native_approval\<close>; \<open>Workflow_Facts\<close>,
    \<open>Workflow_Properties\<close>: C32 to C35.  How an artifact context is rebuilt from office documents and how
    the controlled references are captured are fields of the record \<open>replay_material\<close>.
  \<^item> \<open>Reader_Properties\<close>: C37, the strict reader terminates.

  Orchestration (\<open>orchestration.py\<close>).
  \<^item> \<open>Team_Trace\<close>: the checks both profiles share and the task state machine, the inductive relations
    \<open>team_step\<close> (which agent takes a task from which state to which) and \<open>team_path\<close> (a run, in which
    each agent takes up the hash the one before it left).
  \<^item> \<open>Team_Legacy\<close>, \<open>Team_Rooted\<close>: the team run of profile 0.1 and of profile 0.2 with the self-checks
    of their results; the evaluation of a source bundle is a parameter of the second.
  \<^item> \<open>Team_Facts\<close>, \<open>Team_Rooted_Facts\<close>, \<open>Team_Properties\<close>: C38 to C40.

  Bounds.  No definition uses fuel: every loop of the modelled code is structural in its list, the
  block loop of the digest decreases the length of the message, and the JSON reader decreases the
  text that is left (the tests that make this explicit never fail, \<open>parse_guards\<close>, so that C37 states
  the equations without them).

  Not modelled.  Reading and writing of files, the command line and the web pages are input and
  output.  Office documents go through third-party libraries: the extraction of \<open>ingestion.py\<close>, the
  case builder (its last step apart) and the rebuild of replacement documents in
  \<open>revision_artifacts.py\<close>.  The chain of source derivations, the store with its audit chain and the
  benchmark are listed in the manifest and remain to be modelled.
\<close>

end
